(* ===== verification/Binary64.thy ===== *)
theory Binary64 imports Complex_Main "HOL-Library.Log_Nat" begin

text \<open>
  Rounding of an exact rational to IEEE 754 binary64: nearest 53-bit significand, ties to even,
  with gradual underflow below \<open>2 ^ -1022\<close>. The function computes, so closed instances evaluate.
  Its laws, which every proof about prices and amounts rests on: it is exact on representable
  values (in particular on integers up to \<open>2 ^ 53\<close>), odd, monotone, and has relative error at most
  \<open>2 ^ -53\<close> outside the subnormal range. Overflow is left to the theory \<open>JsNumber\<close>.
\<close>

section \<open>Rounding to binary64\<close>

text \<open>The binary exponent of a positive rational, from the bit lengths of its fraction.\<close>

definition ilog2 :: "rat \<Rightarrow> int" where
  "ilog2 x = (let (n, d) = quotient_of x; k = bitlen n - bitlen d
     in if 2 powi k \<le> x then k else k - 1)"

text \<open>Round to the nearest integer, ties to even.\<close>

definition round_even :: "rat \<Rightarrow> int" where
  "round_even x = (let q = \<lfloor>x\<rfloor>; r = x - of_int q
     in if r < 1 / 2 then q else if 1 / 2 < r then q + 1 else if even q then q else q + 1)"

definition ulp_of :: "rat \<Rightarrow> rat" where
  "ulp_of x = 2 powi (max (ilog2 \<bar>x\<bar> - 52) (-1074))"

definition rnd :: "rat \<Rightarrow> rat" where
  "rnd x = (if x = 0 then 0 else of_int (round_even (x / ulp_of x)) * ulp_of x)"

subsection \<open>The exponent\<close>

lemma rat_powi_mono: "m \<le> n \<Longrightarrow> (2::rat) powi m \<le> 2 powi n"
  by (rule power_int_increasing) auto

lemma rat_powi_strict_mono: "m < n \<Longrightarrow> (2::rat) powi m < 2 powi n"
  by (rule power_int_strict_increasing) auto

lemma rat_powi_less_iff: "(2::rat) powi m < 2 powi n \<longleftrightarrow> m < n"
  using rat_powi_mono [of n m] rat_powi_strict_mono [of m n] by (meson linorder_not_le)

lemma rat_powi_pos [simp]: "0 < (2::rat) powi n"
  by simp

lemma rat_powi_add: "(2::rat) powi (m + n) = 2 powi m * 2 powi n"
  by (rule power_int_add) auto

lemma rat_powi_nat: "0 \<le> n \<Longrightarrow> (2::rat) powi n = 2 ^ nat n"
  by (simp add: power_int_def)

lemma bitlen_rat_bounds:
  assumes "0 < n"
  shows "2 powi (bitlen n - 1) \<le> (of_int n :: rat)" and "(of_int n :: rat) < 2 powi bitlen n"
proof -
  have b: "2 ^ nat (bitlen n - 1) \<le> n" "n < 2 ^ nat (bitlen n)"
    using bitlen_bounds [OF assms] by auto
  have p: "0 < bitlen n"
    using assms by (metis bitlen_eq_zero_iff bitlen_nonneg linorder_not_le order_less_le)
  from b(1) have "(of_int (2 ^ nat (bitlen n - 1)) :: rat) \<le> of_int n"
    by (simp only: of_int_le_iff)
  then show "2 powi (bitlen n - 1) \<le> (of_int n :: rat)"
    using p by (simp add: rat_powi_nat)
  from b(2) have "(of_int n :: rat) < of_int (2 ^ nat (bitlen n))"
    by (simp only: of_int_less_iff)
  then show "(of_int n :: rat) < 2 powi bitlen n"
    using p by (simp add: rat_powi_nat)
qed

lemma fraction_bounds:
  assumes n: "0 < n" and d: "0 < d"
  shows "2 powi (bitlen n - bitlen d - 1) \<le> (of_int n / of_int d :: rat)"
    and "(of_int n / of_int d :: rat) < 2 powi (bitlen n - bitlen d + 1)"
proof -
  let ?k = "bitlen n - bitlen d"
  have dr: "0 < (of_int d :: rat)" using d by simp
  have "2 powi (?k - 1) * of_int d \<le> 2 powi (?k - 1) * (2::rat) powi bitlen d"
    using bitlen_rat_bounds(2) [OF d] by (intro mult_left_mono) auto
  also have "\<dots> = 2 powi (bitlen n - 1)"
    by (simp flip: rat_powi_add)
  also have "\<dots> \<le> of_int n" using bitlen_rat_bounds(1) [OF n] .
  finally show "2 powi (?k - 1) \<le> (of_int n / of_int d :: rat)"
    using dr by (simp add: pos_le_divide_eq)
  have "(of_int n :: rat) < 2 powi bitlen n" using bitlen_rat_bounds(2) [OF n] .
  also have "\<dots> = 2 powi (?k + 1) * 2 powi (bitlen d - 1)"
    by (simp flip: rat_powi_add)
  also have "\<dots> \<le> 2 powi (?k + 1) * of_int d"
    using bitlen_rat_bounds(1) [OF d] by (intro mult_left_mono) auto
  finally show "(of_int n / of_int d :: rat) < 2 powi (?k + 1)"
    using dr by (simp add: pos_divide_less_eq)
qed

lemma ilog2_bounds:
  assumes "0 < x"
  shows "2 powi ilog2 x \<le> x" and "x < 2 powi (ilog2 x + 1)"
proof -
  obtain n d where q: "quotient_of x = (n, d)" by (cases "quotient_of x")
  have x: "x = of_int n / of_int d" and d: "0 < d"
    using quotient_of_div [OF q] quotient_of_denom_pos [OF q] by auto
  have n: "0 < n" using assms x d by (simp add: zero_less_divide_iff)
  note fraction_bounds [OF n d, folded x]
  then show "2 powi ilog2 x \<le> x" and "x < 2 powi (ilog2 x + 1)"
    by (simp_all add: ilog2_def q Let_def)
qed

lemma ilog2_unique:
  assumes "0 < x" "2 powi k \<le> x" "x < 2 powi (k + 1)"
  shows "ilog2 x = k"
proof -
  have "(2::rat) powi ilog2 x < 2 powi (k + 1)"
    using ilog2_bounds(1) [OF assms(1)] assms(3) by linarith
  moreover have "(2::rat) powi k < 2 powi (ilog2 x + 1)"
    using ilog2_bounds(2) [OF assms(1)] assms(2) by linarith
  ultimately have "ilog2 x < k + 1" "k < ilog2 x + 1"
    by (simp_all only: rat_powi_less_iff)
  then show ?thesis by linarith
qed

text \<open>The same exponent from any fraction, reduced or not: what closed instances compute with.\<close>

lemma ilog2_fraction:
  assumes "0 < n" "0 < d"
  shows "ilog2 (of_int n / of_int d) = (let k = bitlen n - bitlen d
     in if 2 powi k \<le> (of_int n / of_int d :: rat) then k else k - 1)"
proof -
  have "0 < (of_int n / of_int d :: rat)" using assms by simp
  then show ?thesis using fraction_bounds [OF assms] by (auto simp: Let_def intro!: ilog2_unique)
qed

lemma ilog2_mono: "0 < x \<Longrightarrow> x \<le> y \<Longrightarrow> ilog2 x \<le> ilog2 y"
  using ilog2_bounds(1) [of x] ilog2_bounds(2) [of y] rat_powi_less_iff [of "ilog2 x" "ilog2 y + 1"]
  by linarith

subsection \<open>Rounding to an integer\<close>

lemma round_even_of_int [simp]: "round_even (of_int k) = k"
  by (simp add: round_even_def)

lemma round_even_error: "\<bar>of_int (round_even x) - x\<bar> \<le> 1 / 2"
proof -
  define r where "r = x - of_int \<lfloor>x\<rfloor>"
  have x: "x = of_int \<lfloor>x\<rfloor> + r" and r: "0 \<le> r" "r < 1"
    unfolding r_def by linarith+
  have "round_even x = (if r < 1 / 2 then \<lfloor>x\<rfloor> else if 1 / 2 < r then \<lfloor>x\<rfloor> + 1
      else if even \<lfloor>x\<rfloor> then \<lfloor>x\<rfloor> else \<lfloor>x\<rfloor> + 1)"
    by (simp add: round_even_def Let_def r_def)
  then show ?thesis using r x by (auto simp: abs_le_iff split: if_splits)
qed

lemma round_even_floor: "\<lfloor>x\<rfloor> \<le> round_even x" "round_even x \<le> \<lfloor>x\<rfloor> + 1"
  by (auto simp: round_even_def Let_def)

lemma round_even_mono:
  assumes "x \<le> y"
  shows "round_even x \<le> round_even y"
proof (cases "\<lfloor>x\<rfloor> = \<lfloor>y\<rfloor>")
  case True
  have "x - of_int \<lfloor>x\<rfloor> \<le> y - of_int \<lfloor>x\<rfloor>" using assms by simp
  then show ?thesis unfolding round_even_def Let_def True [symmetric]
    by (auto split: if_splits)
next
  case False
  then have "\<lfloor>x\<rfloor> + 1 \<le> \<lfloor>y\<rfloor>" using floor_mono [OF assms] by linarith
  then show ?thesis using round_even_floor(2) [of x] round_even_floor(1) [of y] by linarith
qed

lemma round_even_uminus: "round_even (- x) = - round_even x"
proof (cases "x = of_int \<lfloor>x\<rfloor>")
  case True
  then have "- x = of_int (- \<lfloor>x\<rfloor>)" by simp
  then show ?thesis using True round_even_of_int by metis
next
  case False
  define q r where "q = \<lfloor>x\<rfloor>" and "r = x - of_int q"
  have r: "0 < r" "r < 1" using False unfolding q_def r_def by linarith+
  have x: "x = of_int q + r" by (simp add: r_def)
  have f: "\<lfloor>- x\<rfloor> = - q - 1" using r by (simp add: x floor_eq_iff)
  have g: "\<lfloor>x\<rfloor> = q" by (simp add: q_def)
  show ?thesis unfolding round_even_def Let_def f g using r by (auto simp: x)
qed

subsection \<open>Rounding to 53 significant bits\<close>

lemma ulp_of_pos [simp]: "0 < ulp_of x"
  by (simp add: ulp_of_def)

lemma ulp_of_nonzero [simp]: "ulp_of x \<noteq> 0"
  using ulp_of_pos [of x] by linarith

lemma abs_ulp_of [simp]: "\<bar>ulp_of x\<bar> = ulp_of x"
  using ulp_of_pos [of x] by linarith

lemma ulp_of_abs: "\<bar>x\<bar> = \<bar>y\<bar> \<Longrightarrow> ulp_of x = ulp_of y"
  by (simp add: ulp_of_def)

lemma rnd_zero [simp]: "rnd 0 = 0"
  by (simp add: rnd_def)

lemma rnd_uminus: "rnd (- x) = - rnd x"
proof -
  have "ulp_of (- x) = ulp_of x" by (rule ulp_of_abs) simp
  moreover have "(- x) / ulp_of x = - (x / ulp_of x)" by simp
  ultimately show ?thesis by (simp only: rnd_def round_even_uminus) simp
qed

lemma rnd_on_grid:
  assumes "x = of_int m * ulp_of x"
  shows "rnd x = x"
proof (cases "x = 0")
  case False
  have "x / ulp_of x = of_int m" using assms by (simp add: nonzero_divide_eq_eq)
  then have "round_even (x / ulp_of x) = m" by simp
  then show ?thesis using assms False by (simp add: rnd_def)
qed simp

text \<open>A value with a significand of at most 53 bits on the binary64 grid is its own rounding.\<close>

definition representable :: "rat \<Rightarrow> bool" where
  "representable x \<longleftrightarrow> (\<exists>m e. x = of_int m * 2 powi e \<and> \<bar>m\<bar> \<le> 2 ^ 53 \<and> -1074 \<le> e)"

lemma rnd_representable:
  assumes "representable x"
  shows "rnd x = x"
proof (cases "x = 0")
  case False
  obtain m e where x: "x = of_int m * 2 powi e" and m: "\<bar>m\<bar> \<le> 2 ^ 53" and e: "-1074 \<le> e"
    using assms by (auto simp: representable_def)
  have ax: "\<bar>x\<bar> = of_int \<bar>m\<bar> * 2 powi e" by (simp add: x abs_mult)
  let ?k = "max (ilog2 \<bar>x\<bar> - 52) (-1074)"
  have pos: "0 < \<bar>x\<bar>" using False by simp
  show ?thesis
  proof (cases "\<bar>m\<bar> = 2 ^ 53")
    case True
    have "\<bar>x\<bar> = 2 powi (e + 53)" unfolding ax True rat_powi_add by simp
    then have "ilog2 \<bar>x\<bar> = e + 53" by (intro ilog2_unique) (auto simp: rat_powi_less_iff)
    then have k: "?k = e + 1" using e by simp
    have "of_int m = (of_int (sgn m) * 2 ^ 53 :: rat)"
    proof -
      have "m = sgn m * 2 ^ 53" using True mult_sgn_abs [of m] by simp
      then have "(of_int m :: rat) = of_int (sgn m * 2 ^ 53)" by (rule arg_cong)
      then show ?thesis by simp
    qed
    then have "x = of_int (sgn m * 2 ^ 52) * 2 powi (e + 1)"
      by (simp add: x rat_powi_add)
    moreover have "ulp_of x = 2 powi (e + 1)" by (simp only: ulp_of_def k)
    ultimately show ?thesis by (intro rnd_on_grid [of x "sgn m * 2 ^ 52"]) simp
  next
    case False
    then have "\<bar>m\<bar> < 2 ^ 53" using m by simp
    then have "(of_int \<bar>m\<bar> :: rat) < of_int (2 ^ 53)" by (simp only: of_int_less_iff)
    then have "\<bar>x\<bar> < 2 ^ 53 * 2 powi e" unfolding ax by (intro mult_strict_right_mono) auto
    also have "(2::rat) ^ 53 * 2 powi e = 2 powi (e + 53)" by (simp add: rat_powi_add)
    finally have "(2::rat) powi ilog2 \<bar>x\<bar> < 2 powi (e + 53)"
      using ilog2_bounds(1) [OF pos] by linarith
    then have "?k \<le> e" using e by (simp add: rat_powi_less_iff)
    then have "(2::rat) powi e = 2 powi (e - ?k) * 2 powi ?k" by (simp flip: rat_powi_add)
    then have "x = of_int (m * 2 ^ nat (e - ?k)) * 2 powi ?k"
      using \<open>?k \<le> e\<close> by (simp add: x rat_powi_nat)
    then show ?thesis
      by (intro rnd_on_grid [of x "m * 2 ^ nat (e - ?k)"]) (simp add: ulp_of_def)
  qed
qed simp

lemma representable_int: "\<bar>k\<bar> \<le> 2 ^ 53 \<Longrightarrow> representable (of_int k)"
  unfolding representable_def by (intro exI [of _ k] exI [of _ 0]) simp

lemma rnd_of_int: "\<bar>k\<bar> \<le> 2 ^ 53 \<Longrightarrow> rnd (of_int k) = of_int k"
  by (intro rnd_representable representable_int)

lemma representable_powi: "-1074 \<le> e \<Longrightarrow> representable (2 powi e)"
  unfolding representable_def by (intro exI [of _ 1] exI [of _ e]) simp

lemma rnd_nonneg: "0 \<le> x \<Longrightarrow> 0 \<le> rnd x"
proof -
  assume "0 \<le> x"
  then have "0 \<le> x / ulp_of x" by (simp add: less_imp_le)
  then have "0 \<le> round_even (x / ulp_of x)" using round_even_mono [of 0 "x / ulp_of x"] round_even_of_int [of 0] by simp
  then show ?thesis by (simp add: rnd_def less_imp_le)
qed

text \<open>The half-ulp bound, and from it the relative error of one operation.\<close>

lemma rnd_error_ulp: "\<bar>rnd x - x\<bar> \<le> ulp_of x / 2"
proof (cases "x = 0")
  case False
  have u: "0 < ulp_of x" by simp
  have "rnd x - x = (of_int (round_even (x / ulp_of x)) - x / ulp_of x) * ulp_of x"
    using False by (simp add: rnd_def left_diff_distrib)
  then have "\<bar>rnd x - x\<bar> = \<bar>of_int (round_even (x / ulp_of x)) - x / ulp_of x\<bar> * ulp_of x"
    by (simp add: abs_mult)
  also have "\<dots> \<le> 1 / 2 * ulp_of x"
    using round_even_error [of "x / ulp_of x"] u by (intro mult_right_mono) (auto simp: less_imp_le)
  finally show ?thesis by simp
qed (simp add: less_imp_le)

lemma rnd_error_rel:
  assumes "2 powi (-1022) \<le> \<bar>x\<bar>"
  shows "\<bar>rnd x - x\<bar> \<le> \<bar>x\<bar> / 2 ^ 53"
proof -
  have pos: "0 < \<bar>x\<bar>" using assms rat_powi_pos [of "-1022"] by linarith
  have "ilog2 (2 powi (-1022)) = -1022" by (rule ilog2_unique) (auto simp: rat_powi_less_iff)
  then have "-1022 \<le> ilog2 \<bar>x\<bar>" using ilog2_mono [OF _ assms] by simp
  then have "ulp_of x = 2 powi (ilog2 \<bar>x\<bar> + (-52))" by (simp add: ulp_of_def)
  also have "\<dots> = 2 powi ilog2 \<bar>x\<bar> / 2 ^ 52"
    by (simp only: rat_powi_add) (simp add: power_int_minus_divide)
  finally have "ulp_of x \<le> \<bar>x\<bar> / 2 ^ 52"
    using ilog2_bounds(1) [OF pos] by (simp add: divide_right_mono)
  then show ?thesis using rnd_error_ulp [of x] by simp
qed

text \<open>
  Monotonicity. Inside one binade the grid is fixed and rounding to it is monotone; between
  binades the power of two that separates them is on both grids.
\<close>

lemma rnd_mono_same_ulp:
  assumes "ulp_of x = ulp_of y" "x \<le> y" "x \<noteq> 0" "y \<noteq> 0"
  shows "rnd x \<le> rnd y"
proof -
  have "x / ulp_of y \<le> y / ulp_of y" using assms(2) by (simp add: divide_right_mono less_imp_le)
  then have "(of_int (round_even (x / ulp_of y)) :: rat) \<le> of_int (round_even (y / ulp_of y))"
    using round_even_mono by simp
  then show ?thesis using assms by (simp add: rnd_def mult_right_mono less_imp_le)
qed

lemma rnd_le_grid:
  assumes x: "0 < x" and le: "x \<le> 2 powi k" and k: "-1021 \<le> k"
  shows "rnd x \<le> 2 powi k"
proof -
  have "\<lbrakk>x < 2 powi k\<rbrakk> \<Longrightarrow> max (ilog2 \<bar>x\<bar> - 52) (-1074) \<le> k - 53"
  proof -
    assume "x < 2 powi k"
    then have "(2::rat) powi ilog2 x < 2 powi k" using ilog2_bounds(1) [OF x] by linarith
    then show ?thesis using x k by (simp add: rat_powi_less_iff)
  qed
  moreover have "x = 2 powi k \<Longrightarrow> rnd x = x"
    using k by (intro rnd_representable) (simp add: representable_powi)
  moreover have "rnd x \<le> 2 powi k" if lt: "max (ilog2 \<bar>x\<bar> - 52) (-1074) \<le> k - 53"
  proof -
    let ?u = "max (ilog2 \<bar>x\<bar> - 52) (-1074)"
    have "x / ulp_of x \<le> 2 powi k / ulp_of x"
      using le by (simp add: divide_right_mono less_imp_le)
    also have "2 powi k / ulp_of x = 2 powi (k - ?u)"
      by (simp add: ulp_of_def power_int_diff)
    also have "\<dots> = of_int (2 ^ nat (k - ?u))" using lt by (simp add: rat_powi_nat)
    finally have "round_even (x / ulp_of x) \<le> 2 ^ nat (k - ?u)"
      using round_even_mono round_even_of_int by metis
    then have "(of_int (round_even (x / ulp_of x)) :: rat) \<le> of_int (2 ^ nat (k - ?u))"
      by (simp only: of_int_le_iff)
    then have "rnd x \<le> of_int (2 ^ nat (k - ?u)) * ulp_of x"
      using x by (simp add: rnd_def mult_right_mono less_imp_le)
    also have "\<dots> = 2 powi (k - ?u) * 2 powi ?u" using lt by (simp add: rat_powi_nat ulp_of_def)
    also have "\<dots> = 2 powi k" by (simp only: rat_powi_add [symmetric]) simp
    finally show ?thesis .
  qed
  ultimately show ?thesis using le by fastforce
qed

lemma rnd_ge_grid:
  assumes y: "2 powi k \<le> y" and k: "-1074 \<le> k"
  shows "2 powi k \<le> rnd y"
proof -
  have pos: "0 < y" using y rat_powi_pos [of k] by linarith
  have "(2::rat) powi k < 2 powi (ilog2 y + 1)" using y ilog2_bounds(2) [OF pos] by linarith
  then have kl: "k \<le> ilog2 y" by (simp only: rat_powi_less_iff)
  let ?u = "max (ilog2 y - 52) (-1074)"
  have p2: "2 powi (ilog2 y - ?u) = (of_int (2 ^ nat (ilog2 y - ?u)) :: rat)"
    using k kl by (simp add: rat_powi_nat)
  have "2 powi (ilog2 y - ?u) \<le> y / ulp_of y"
    using ilog2_bounds(1) [OF pos] pos
    by (simp add: ulp_of_def power_int_diff divide_right_mono less_imp_le)
  then have "2 ^ nat (ilog2 y - ?u) \<le> round_even (y / ulp_of y)"
    unfolding p2 using round_even_mono round_even_of_int by metis
  then have "2 powi (ilog2 y - ?u) \<le> (of_int (round_even (y / ulp_of y)) :: rat)"
    unfolding p2 by (simp only: of_int_le_iff)
  then have "2 powi (ilog2 y - ?u) * 2 powi ?u \<le> rnd y"
    using pos by (simp add: rnd_def ulp_of_def mult_right_mono)
  then have "2 powi ilog2 y \<le> rnd y" by (simp flip: rat_powi_add)
  then show ?thesis using rat_powi_mono [OF kl] by linarith
qed

lemma rnd_mono_pos:
  assumes "0 < x" "x \<le> y"
  shows "rnd x \<le> rnd y"
proof (cases "ulp_of x = ulp_of y")
  case True
  then show ?thesis using assms by (intro rnd_mono_same_ulp) auto
next
  case False
  have le: "ilog2 x \<le> ilog2 y" using ilog2_mono assms by blast
  have ne: "max (ilog2 x - 52) (-1074) \<noteq> max (ilog2 y - 52) (-1074)"
    using False assms unfolding ulp_of_def by auto
  then have lt: "ilog2 x < ilog2 y" and big: "-1022 < ilog2 y"
    using le by (auto simp: max_def split: if_splits)
  have "2 powi (ilog2 x + 1) \<le> (2::rat) powi ilog2 y" using lt by (intro rat_powi_mono) simp
  then have "x \<le> 2 powi ilog2 y" using ilog2_bounds(2) [OF assms(1)] by linarith
  then have "rnd x \<le> 2 powi ilog2 y" using assms big by (intro rnd_le_grid) auto
  also have "\<dots> \<le> rnd y" using assms big ilog2_bounds(1) [of y] by (intro rnd_ge_grid) auto
  finally show ?thesis .
qed

lemma rnd_mono:
  assumes "x \<le> y"
  shows "rnd x \<le> rnd y"
proof -
  consider "0 < x" | "x \<le> 0" "0 \<le> y" | "y < 0" by linarith
  then show ?thesis
  proof cases
    case 1
    then show ?thesis using assms by (rule rnd_mono_pos)
  next
    case 2
    have "0 \<le> rnd (- x)" using 2 by (intro rnd_nonneg) simp
    then show ?thesis using rnd_nonneg [OF 2(2)] by (simp add: rnd_uminus)
  next
    case 3
    then have "rnd (- y) \<le> rnd (- x)" using assms by (intro rnd_mono_pos) auto
    then show ?thesis by (simp add: rnd_uminus)
  qed
qed

lemma rnd_le_int: "x \<le> of_int k \<Longrightarrow> \<bar>k\<bar> \<le> 2 ^ 53 \<Longrightarrow> rnd x \<le> of_int k"
  using rnd_mono [of x "of_int k"] by (simp add: rnd_of_int)

lemma rnd_ge_int: "of_int k \<le> x \<Longrightarrow> \<bar>k\<bar> \<le> 2 ^ 53 \<Longrightarrow> of_int k \<le> rnd x"
  using rnd_mono [of "of_int k" x] by (simp add: rnd_of_int)

lemma rnd_nonpos: "x \<le> 0 \<Longrightarrow> rnd x \<le> 0"
  using rnd_mono [of x 0] by simp

text \<open>The absolute error below a bound, the form chains of operations are estimated with.\<close>

lemma rnd_error_abs:
  assumes "\<bar>x\<bar> \<le> B" "2 powi (-1022) \<le> B"
  shows "\<bar>rnd x - x\<bar> \<le> B / 2 ^ 53"
proof (cases "2 powi (-1022) \<le> \<bar>x\<bar>")
  case True
  then show ?thesis using rnd_error_rel [OF True] divide_right_mono [OF assms(1), of "2 ^ 53"] by simp
next
  case False
  show ?thesis
  proof (cases "x = 0")
    case True
    then show ?thesis using assms by simp
  next
    case nz: False
    then have "(2::rat) powi ilog2 \<bar>x\<bar> < 2 powi (-1022)"
      using ilog2_bounds(1) [of "\<bar>x\<bar>"] False by linarith
    then have "ilog2 \<bar>x\<bar> < -1022" by (simp only: rat_powi_less_iff)
    then have "ulp_of x \<le> 2 powi (-1074)" unfolding ulp_of_def by (intro rat_powi_mono) simp
    then have "\<bar>rnd x - x\<bar> \<le> 2 powi (-1074) / 2" using rnd_error_ulp [of x] by linarith
    also have "\<dots> = 2 powi (-1022) / 2 ^ 53"
    proof -
      have "(2::rat) powi (-1022) = 2 powi (-1074) * 2 powi 52"
        by (simp only: rat_powi_add [symmetric]) simp
      then show ?thesis by simp
    qed
    also have "\<dots> \<le> B / 2 ^ 53" using assms(2) by (simp add: divide_right_mono)
    finally show ?thesis .
  qed
qed

text \<open>A rounded value is on the grid, so rounding twice is rounding once.\<close>

lemma representable_rnd: "representable (rnd x)"
proof (cases "x = 0")
  case True
  then show ?thesis using representable_int [of 0] by simp
next
  case False
  then have pos: "0 < \<bar>x\<bar>" by simp
  let ?k = "max (ilog2 \<bar>x\<bar> - 52) (-1074)"
  have "\<bar>x\<bar> < 2 powi (ilog2 \<bar>x\<bar> + 1)" using ilog2_bounds(2) [OF pos] .
  also have "\<dots> \<le> (2::rat) powi (?k + 53)" by (rule rat_powi_mono) simp
  also have "\<dots> = of_int (2 ^ 53) * 2 powi ?k" by (simp add: rat_powi_add)
  finally have "\<bar>x\<bar> \<le> of_int (2 ^ 53) * ulp_of x"
    by (simp add: ulp_of_def less_imp_le)
  then have ub: "\<bar>x\<bar> / ulp_of x \<le> of_int (2 ^ 53)"
    by (simp only: pos_divide_le_eq [OF ulp_of_pos])
  have "x / ulp_of x \<le> \<bar>x\<bar> / ulp_of x" "- x / ulp_of x \<le> \<bar>x\<bar> / ulp_of x"
    by (intro divide_right_mono; simp add: less_imp_le)+
  then have up: "x / ulp_of x \<le> of_int (2 ^ 53)" and lo: "- (x / ulp_of x) \<le> of_int (2 ^ 53)"
    using ub by simp_all
  have "round_even (x / ulp_of x) \<le> 2 ^ 53"
    using round_even_mono [OF up] by (simp only: round_even_of_int)
  moreover have "- round_even (x / ulp_of x) \<le> 2 ^ 53"
    using round_even_mono [OF lo] by (simp only: round_even_of_int round_even_uminus)
  ultimately have "\<bar>round_even (x / ulp_of x)\<bar> \<le> 2 ^ 53" by linarith
  then show ?thesis unfolding representable_def
    by (intro exI [of _ "round_even (x / ulp_of x)"] exI [of _ ?k]) (simp add: rnd_def False ulp_of_def)
qed

lemma rnd_rnd [simp]: "rnd (rnd x) = rnd x"
  by (rule rnd_representable [OF representable_rnd])

lemma rnd_le_rnd: "x \<le> rnd y \<Longrightarrow> rnd x \<le> rnd y"
  using rnd_mono [of x "rnd y"] by simp

text \<open>Differences of representable values are multiples of the least subnormal.\<close>

lemma representable_grid:
  assumes "representable x"
  shows "\<exists>k. x = of_int k * 2 powi (-1074)"
proof -
  obtain m e where x: "x = of_int m * 2 powi e" and e: "-1074 \<le> e"
    using assms by (auto simp: representable_def)
  have "(2::rat) powi e = 2 powi (e + 1074) * 2 powi (-1074)"
    by (simp only: rat_powi_add [symmetric]) simp
  also have "\<dots> = of_int (2 ^ nat (e + 1074)) * 2 powi (-1074)"
    using e by (simp only: rat_powi_nat) simp
  finally have "x = of_int (m * 2 ^ nat (e + 1074)) * 2 powi (-1074)" by (simp add: x)
  then show ?thesis by blast
qed

lemma representable_diff_ge:
  assumes "representable x" "representable y" "x < y"
  shows "2 powi (-1074) \<le> y - x"
proof -
  obtain k l where kl: "x = of_int k * 2 powi (-1074)" "y = of_int l * 2 powi (-1074)"
    using representable_grid assms(1,2) by blast
  then have "(of_int k :: rat) < of_int l" using assms(3) by (simp only: mult_less_cancel_right_pos [OF rat_powi_pos])
  then have "1 \<le> l - k" by simp
  then have "(1 :: rat) \<le> of_int (l - k)" by (metis of_int_1_le_iff)
  then have "1 * 2 powi (-1074) \<le> of_int (l - k) * (2 :: rat) powi (-1074)"
    by (intro mult_right_mono) auto
  then show ?thesis by (simp add: kl left_diff_distrib)
qed

text \<open>A quarter of a rounded gap is, rounded, still within the gap.\<close>

lemma rnd_quarter_le:
  assumes "2 powi (-1074) \<le> y"
  shows "rnd (rnd y / 4) \<le> y"
proof -
  have y: "0 < y" using assms rat_powi_pos [of "-1074"] by linarith
  have il: "-1074 \<le> ilog2 y"
    using ilog2_mono [OF _ assms] ilog2_unique [of "2 powi (-1074)" "-1074"]
    by (simp add: rat_powi_less_iff)
  have r0: "2 powi ilog2 y \<le> y" using ilog2_bounds(1) [OF y] .
  have "y \<le> 2 powi (ilog2 y + 1)" using ilog2_bounds(2) [OF y] by simp
  then have "rnd y \<le> rnd (2 powi (ilog2 y + 1))" by (rule rnd_mono)
  also have "\<dots> = 2 powi (ilog2 y + 1)"
    using il by (intro rnd_representable representable_powi) simp
  also have "\<dots> = 2 * 2 powi ilog2 y" by (simp add: rat_powi_add)
  finally have "rnd y / 4 \<le> 2 powi ilog2 y" using rat_powi_pos [of "ilog2 y"] by linarith
  then have "rnd (rnd y / 4) \<le> rnd (2 powi ilog2 y)" by (rule rnd_mono)
  also have "\<dots> = 2 powi ilog2 y"
    using il by (intro rnd_representable representable_powi) simp
  finally show ?thesis using r0 by linarith
qed

subsection \<open>Evaluation of closed instances\<close>

named_theorems fl_eval \<open>rules that evaluate rounding on numerals inside the simplifier\<close>

lemma bitlen_numeral [fl_eval]:
  "bitlen 1 = 1" "bitlen (numeral Num.One) = 1"
  "bitlen (numeral (Num.Bit0 n)) = bitlen (numeral n) + 1"
  "bitlen (numeral (Num.Bit1 n)) = bitlen (numeral n) + 1"
  by (subst compute_bitlen; simp)+

lemma ilog2_numeral [fl_eval]:
  "ilog2 (numeral n / numeral d) = (let k = bitlen (numeral n) - bitlen (numeral d)
     in if 2 powi k \<le> (numeral n / numeral d :: rat) then k else k - 1)"
  "ilog2 (1 / numeral d) = (let k = 1 - bitlen (numeral d)
     in if 2 powi k \<le> (1 / numeral d :: rat) then k else k - 1)"
  "ilog2 (numeral n) = bitlen (numeral n) - 1"
  "ilog2 1 = 0"
proof -
  show "ilog2 (numeral n) = bitlen (numeral n) - 1"
    by (rule ilog2_unique) (use bitlen_rat_bounds [of "numeral n"] in auto)
  show "ilog2 1 = 0"
    by (rule ilog2_unique) auto
qed (use ilog2_fraction [of "numeral n" "numeral d"] ilog2_fraction [of 1 "numeral d"]
  in \<open>simp_all add: bitlen_numeral\<close>)

lemma floor_rat_numeral [fl_eval]:
  "\<lfloor>numeral a / numeral b :: rat\<rfloor> = numeral a div numeral b"
  "\<lfloor>- (numeral a / numeral b :: rat)\<rfloor> = - numeral a div numeral b"
  "\<lfloor>1 / numeral b :: rat\<rfloor> = 1 div numeral b"
  "\<lfloor>- (1 / numeral b :: rat)\<rfloor> = - 1 div numeral b"
  using floor_divide_of_int_eq [of "numeral a" "numeral b", where 'a=rat]
    floor_divide_of_int_eq [of "- numeral a" "numeral b", where 'a=rat]
    floor_divide_of_int_eq [of 1 "numeral b", where 'a=rat]
    floor_divide_of_int_eq [of "- 1" "numeral b", where 'a=rat]
  by simp_all

lemmas [fl_eval] = rnd_def ulp_of_def round_even_def power_int_minus

end
