(* ===== verification/JsNumber.thy ===== *)
theory JsNumber imports Binary64 begin

text \<open>
  JavaScript numbers. Every price, amount, ratio and quantity of the program is a JavaScript
  \<open>number\<close>: a finite binary64 value, an infinity or \<open>NaN\<close>. An operation computes the exact
  rational result and rounds it (\<open>Binary64.rnd\<close>); a result of magnitude \<open>2 ^ 1024\<close> or more is an
  infinity. The operations are instances of the library's syntactic classes, so the model's
  arithmetic reads like the program's. The two zeros of binary64 are one value \<open>Fin 0\<close>:
  comparisons do not separate them, and the modelled code divides only by values it has tested to
  be positive or that no sign of zero reaches. The theory also has the members of \<open>Math\<close> and
  \<open>Number\<close> the program calls, and JavaScript's truthiness and strict equality on numbers.
\<close>

section \<open>Values and arithmetic\<close>

datatype jsnum = Fin rat | PInf | NInf | NaN

text \<open>Round an exact result; \<open>lit\<close> is the value of a decimal literal of the source.\<close>

definition fl :: "rat \<Rightarrow> jsnum" where
  "fl x = (let r = rnd x in
     if 2 ^ 1024 \<le> r then PInf else if r \<le> - (2 ^ 1024) then NInf else Fin r)"

definition lit :: "rat \<Rightarrow> jsnum" where
  "lit x = fl x"

definition signed_inf :: "rat \<Rightarrow> jsnum" where
  "signed_inf s = (if s = 0 then NaN else if 0 < s then PInf else NInf)"

fun js_add :: "jsnum \<Rightarrow> jsnum \<Rightarrow> jsnum" where
  "js_add (Fin a) (Fin b) = fl (a + b)"
| "js_add NaN _ = NaN"
| "js_add _ NaN = NaN"
| "js_add PInf NInf = NaN"
| "js_add NInf PInf = NaN"
| "js_add PInf _ = PInf"
| "js_add NInf _ = NInf"
| "js_add _ PInf = PInf"
| "js_add _ NInf = NInf"

fun js_neg :: "jsnum \<Rightarrow> jsnum" where
  "js_neg (Fin a) = Fin (- a)"
| "js_neg PInf = NInf"
| "js_neg NInf = PInf"
| "js_neg NaN = NaN"

fun js_mul :: "jsnum \<Rightarrow> jsnum \<Rightarrow> jsnum" where
  "js_mul (Fin a) (Fin b) = fl (a * b)"
| "js_mul NaN _ = NaN"
| "js_mul _ NaN = NaN"
| "js_mul (Fin a) PInf = signed_inf a"
| "js_mul (Fin a) NInf = signed_inf (- a)"
| "js_mul PInf (Fin b) = signed_inf b"
| "js_mul NInf (Fin b) = signed_inf (- b)"
| "js_mul PInf PInf = PInf"
| "js_mul NInf NInf = PInf"
| "js_mul PInf NInf = NInf"
| "js_mul NInf PInf = NInf"

fun js_div :: "jsnum \<Rightarrow> jsnum \<Rightarrow> jsnum" where
  "js_div (Fin a) (Fin b) = (if b = 0 then signed_inf a else fl (a / b))"
| "js_div NaN _ = NaN"
| "js_div _ NaN = NaN"
| "js_div (Fin a) _ = Fin 0"
| "js_div PInf (Fin b) = (if b < 0 then NInf else PInf)"
| "js_div NInf (Fin b) = (if b < 0 then PInf else NInf)"
| "js_div _ _ = NaN"

fun js_less :: "jsnum \<Rightarrow> jsnum \<Rightarrow> bool" where
  "js_less (Fin a) (Fin b) = (a < b)"
| "js_less NaN _ = False"
| "js_less _ NaN = False"
| "js_less _ NInf = False"
| "js_less NInf _ = True"
| "js_less PInf _ = False"
| "js_less _ PInf = True"

text \<open>Strict equality \<open>===\<close>: \<open>NaN\<close> differs from every value, itself included.\<close>

definition js_eq :: "jsnum \<Rightarrow> jsnum \<Rightarrow> bool" where
  "js_eq a b \<longleftrightarrow> a = b \<and> a \<noteq> NaN"

instantiation jsnum :: "{zero, one, plus, minus, uminus, times, inverse, ord, abs}"
begin

definition zero_jsnum where "0 = Fin 0"
definition one_jsnum where "1 = Fin 1"
definition plus_jsnum where "a + b = js_add a b"
definition minus_jsnum where "a - b = js_add a (js_neg b)"
definition uminus_jsnum where "- a = js_neg a"
definition times_jsnum where "a * b = js_mul a b"
definition divide_jsnum where "a div b = js_div a b"
definition inverse_jsnum where "inverse a = js_div (Fin 1) a"
definition less_jsnum where "a < b = js_less a b"
definition less_eq_jsnum where "a \<le> b = (js_less a b \<or> js_eq a b)"
definition abs_jsnum where "\<bar>a\<bar> = (if js_less a (Fin 0) then js_neg a else a)"

instance ..

end

section \<open>Math and Number\<close>

definition isFinite :: "jsnum \<Rightarrow> bool" where
  "isFinite a = (case a of Fin _ \<Rightarrow> True | _ \<Rightarrow> False)"

definition isNaN :: "jsnum \<Rightarrow> bool" where
  "isNaN a \<longleftrightarrow> a = NaN"

definition isInteger :: "jsnum \<Rightarrow> bool" where
  "isInteger a = (case a of Fin x \<Rightarrow> of_int \<lfloor>x\<rfloor> = x | _ \<Rightarrow> False)"

text \<open>A number used as a condition: zero and \<open>NaN\<close> are false.\<close>

definition truthy :: "jsnum \<Rightarrow> bool" where
  "truthy a \<longleftrightarrow> a \<noteq> Fin 0 \<and> a \<noteq> NaN"

definition or_num :: "jsnum \<Rightarrow> jsnum \<Rightarrow> jsnum" where
  "or_num a b = (if truthy a then a else b)"

definition floor_num :: "jsnum \<Rightarrow> jsnum" where
  "floor_num a = (case a of Fin x \<Rightarrow> Fin (of_int \<lfloor>x\<rfloor>) | _ \<Rightarrow> a)"

definition ceil_num :: "jsnum \<Rightarrow> jsnum" where
  "ceil_num a = (case a of Fin x \<Rightarrow> Fin (of_int \<lceil>x\<rceil>) | _ \<Rightarrow> a)"

text \<open>\<open>Math.round\<close>: the nearest integer, ties towards plus infinity, with no second rounding.\<close>

definition round_num :: "jsnum \<Rightarrow> jsnum" where
  "round_num a = (case a of Fin x \<Rightarrow> Fin (of_int \<lfloor>x + 1 / 2\<rfloor>) | _ \<Rightarrow> a)"

definition max_num :: "jsnum \<Rightarrow> jsnum \<Rightarrow> jsnum" where
  "max_num a b = (if isNaN a \<or> isNaN b then NaN else if a < b then b else a)"

definition min_num :: "jsnum \<Rightarrow> jsnum \<Rightarrow> jsnum" where
  "min_num a b = (if isNaN a \<or> isNaN b then NaN else if b < a then b else a)"

section \<open>Laws\<close>

named_theorems js_defs \<open>unfolding of the arithmetic and comparison instances\<close>

lemmas [js_defs] = zero_jsnum_def one_jsnum_def plus_jsnum_def minus_jsnum_def uminus_jsnum_def
  times_jsnum_def divide_jsnum_def less_jsnum_def less_eq_jsnum_def abs_jsnum_def

lemma fl_cases:
  obtains "fl x = Fin (rnd x)" "\<bar>rnd x\<bar> < 2 ^ 1024" | "fl x = PInf" "2 ^ 1024 \<le> rnd x"
    | "fl x = NInf" "rnd x \<le> - (2 ^ 1024)"
  by (cases "2 ^ 1024 \<le> rnd x"; cases "rnd x \<le> - (2 ^ 1024)")
     (auto simp: fl_def Let_def abs_less_iff)

lemma fl_not_NaN [simp]: "fl x \<noteq> NaN"
  by (cases x rule: fl_cases) auto

lemma fl_of_int: "\<bar>k\<bar> \<le> 2 ^ 53 \<Longrightarrow> fl (of_int k) = Fin (of_int k)"
proof -
  assume k: "\<bar>k\<bar> \<le> 2 ^ 53"
  have "(of_int \<bar>k\<bar> :: rat) \<le> of_int (2 ^ 53)" using k by (simp only: of_int_le_iff)
  also have "\<dots> < (2 ^ 1024 :: rat)" by simp
  finally have "\<bar>of_int k :: rat\<bar> < 2 ^ 1024" by simp
  then show ?thesis using k by (simp add: fl_def rnd_of_int Let_def abs_less_iff)
qed

lemma fl_zero [simp]: "fl 0 = Fin 0"
  by (simp add: fl_def)

lemma fl_one [simp]: "fl 1 = Fin 1"
  using fl_of_int [of 1] by simp

lemma fl_numeral [simp]: "(numeral n :: int) \<le> 2 ^ 53 \<Longrightarrow> fl (numeral n) = Fin (numeral n)"
  using fl_of_int [of "numeral n"] by simp

lemma less_Fin [simp]: "Fin a < Fin b \<longleftrightarrow> a < b"
  by (simp add: less_jsnum_def)

lemma le_Fin [simp]: "Fin a \<le> Fin b \<longleftrightarrow> a \<le> b"
  by (auto simp: less_eq_jsnum_def js_eq_def)

lemma less_special [simp]:
  "a < PInf \<longleftrightarrow> a \<noteq> PInf \<and> a \<noteq> NaN" "\<not> PInf < a" "NInf < a \<longleftrightarrow> a \<noteq> NInf \<and> a \<noteq> NaN" "\<not> a < NInf"
  by (cases a; simp add: less_jsnum_def)+

lemma le_special [simp]:
  "a \<le> PInf \<longleftrightarrow> a \<noteq> NaN" "PInf \<le> a \<longleftrightarrow> a = PInf" "NInf \<le> a \<longleftrightarrow> a \<noteq> NaN" "a \<le> NInf \<longleftrightarrow> a = NInf"
  by (cases a; simp add: less_eq_jsnum_def less_jsnum_def js_eq_def)+

lemma add_special [simp]:
  "Fin x + PInf = PInf" "Fin x + NInf = NInf" "PInf + Fin x = PInf" "NInf + Fin x = NInf"
  "PInf + PInf = PInf" "NInf + NInf = NInf" "PInf + NInf = NaN" "NInf + PInf = NaN"
  "NaN + a = NaN" "a + NaN = NaN"
  by (cases a; simp add: plus_jsnum_def)+

lemma uminus_special [simp]: "- Fin x = Fin (- x)" "- PInf = NInf" "- NInf = PInf" "- NaN = NaN"
  by (simp_all add: uminus_jsnum_def)

lemma diff_eq_add_uminus: "a - b = a + (- b :: jsnum)"
  by (simp add: minus_jsnum_def plus_jsnum_def uminus_jsnum_def)

lemma add_Fin: "Fin a + Fin b = fl (a + b)"
  by (simp add: plus_jsnum_def)

lemma diff_Fin: "Fin a - Fin b = fl (a - b)"
  by (simp add: minus_jsnum_def)

lemma mult_Fin: "Fin a * Fin b = fl (a * b)"
  by (simp add: times_jsnum_def)

lemma div_Fin: "Fin a / Fin b = (if b = 0 then signed_inf a else fl (a / b))"
  by (simp add: divide_jsnum_def)

lemmas [fl_eval] = fl_def lit_def Let_def signed_inf_def

lemmas Fin_arith = add_Fin diff_Fin mult_Fin div_Fin

lemma add_Fin_int:
  "\<bar>a + b\<bar> \<le> 2 ^ 53 \<Longrightarrow> Fin (of_int a) + Fin (of_int b) = Fin (of_int (a + b))"
  using fl_of_int [of "a + b"] by (simp add: add_Fin)

lemma diff_Fin_int:
  "\<bar>a - b\<bar> \<le> 2 ^ 53 \<Longrightarrow> Fin (of_int a) - Fin (of_int b) = Fin (of_int (a - b))"
  using fl_of_int [of "a - b"] by (simp add: diff_Fin)

lemma mult_Fin_int:
  "\<bar>a * b\<bar> \<le> 2 ^ 53 \<Longrightarrow> Fin (of_int a) * Fin (of_int b) = Fin (of_int (a * b))"
  using fl_of_int [of "a * b"] by (simp add: mult_Fin)

subsection \<open>Comparison\<close>

lemma not_NaN_less [simp]: "\<not> NaN < a" "\<not> a < NaN" "\<not> NaN \<le> a" "\<not> a \<le> NaN"
  by (cases a; simp add: js_defs js_eq_def)+

lemma less_irrefl_js [simp]: "\<not> (a::jsnum) < a"
  by (cases a) (simp_all add: js_defs)

lemma le_refl_js [simp]: "a \<le> a \<longleftrightarrow> a \<noteq> NaN"
  by (cases a) (simp_all add: js_defs js_eq_def)

lemma less_imp_le_js: "a < b \<Longrightarrow> a \<le> (b::jsnum)"
  by (simp add: less_eq_jsnum_def less_jsnum_def)

lemma js_trichotomy: "a \<noteq> NaN \<Longrightarrow> b \<noteq> NaN \<Longrightarrow> a < b \<or> a = b \<or> b < a"
  by (cases a; cases b) (auto simp: js_defs)

lemma js_not_less: "a \<noteq> NaN \<Longrightarrow> b \<noteq> NaN \<Longrightarrow> \<not> a < b \<longleftrightarrow> b \<le> a"
  by (cases a; cases b) (auto simp: js_defs js_eq_def)

lemma js_not_le: "a \<noteq> NaN \<Longrightarrow> b \<noteq> NaN \<Longrightarrow> \<not> a \<le> b \<longleftrightarrow> b < a"
  by (cases a; cases b) (auto simp: js_defs js_eq_def)

lemma js_less_trans: "a < b \<Longrightarrow> b < c \<Longrightarrow> a < (c::jsnum)"
  by (cases a; cases b; cases c) (auto simp: js_defs)

lemma js_le_trans: "a \<le> b \<Longrightarrow> b \<le> c \<Longrightarrow> a \<le> (c::jsnum)"
  by (cases a; cases b; cases c) (auto simp: js_defs js_eq_def)

lemma js_le_less_trans: "a \<le> b \<Longrightarrow> b < c \<Longrightarrow> a < (c::jsnum)"
  by (cases a; cases b; cases c) (auto simp: js_defs js_eq_def)

lemma js_less_le_trans: "a < b \<Longrightarrow> b \<le> c \<Longrightarrow> a < (c::jsnum)"
  by (cases a; cases b; cases c) (auto simp: js_defs js_eq_def)

lemma js_le_antisym: "a \<le> b \<Longrightarrow> b \<le> a \<Longrightarrow> a = (b::jsnum)"
  by (cases a; cases b) (auto simp: js_defs js_eq_def)

lemma zero_less_iff: "Fin 0 < a \<longleftrightarrow> a = PInf \<or> (\<exists>x > 0. a = Fin x)"
  by (cases a) (auto simp: js_defs)

subsection \<open>Monotonicity of rounded operations\<close>

lemma fl_mono:
  assumes "x \<le> y"
  shows "fl x \<le> fl y"
proof -
  have "rnd x \<le> rnd y" using assms by (rule rnd_mono)
  then show ?thesis by (auto simp: fl_def Let_def less_eq_jsnum_def js_eq_def)
qed

lemma fl_nonneg: "0 \<le> x \<Longrightarrow> Fin 0 \<le> fl x"
  using fl_mono [of 0 x] by simp

lemma fl_nonpos: "x \<le> 0 \<Longrightarrow> fl x \<le> Fin 0"
  using fl_mono [of x 0] by simp

lemma add_nonneg_js: "Fin 0 \<le> a \<Longrightarrow> Fin 0 \<le> b \<Longrightarrow> Fin 0 \<le> a + b"
  by (cases a; cases b) (auto simp: add_Fin fl_nonneg)

lemma mult_nonneg_js:
  assumes "Fin 0 \<le> a" "Fin 0 \<le> b" "a \<noteq> PInf" "b \<noteq> PInf"
  shows "Fin 0 \<le> a * b"
  using assms by (cases a; cases b) (auto simp: mult_Fin fl_nonneg)

lemma add_mono_js:
  assumes "a \<le> b" "c \<le> d" "a + c \<noteq> NaN" "b + d \<noteq> NaN"
  shows "a + c \<le> b + d"
  using assms by (cases a; cases b; cases c; cases d) (auto simp: add_Fin intro: fl_mono add_mono)

subsection \<open>Integral parts, minimum and maximum\<close>

lemma isFinite_Fin [simp]: "isFinite (Fin x)" "\<not> isFinite PInf" "\<not> isFinite NInf" "\<not> isFinite NaN"
  by (simp_all add: isFinite_def)

lemma isFinite_iff: "isFinite a \<longleftrightarrow> (\<exists>x. a = Fin x)"
  by (cases a) auto

lemma truthy_Fin [simp]: "truthy (Fin x) \<longleftrightarrow> x \<noteq> 0"
  by (simp add: truthy_def)

lemma floor_num_Fin [simp]: "floor_num (Fin x) = Fin (of_int \<lfloor>x\<rfloor>)"
  by (simp add: floor_num_def)

lemma round_num_Fin [simp]: "round_num (Fin x) = Fin (of_int \<lfloor>x + 1 / 2\<rfloor>)"
  by (simp add: round_num_def)

lemma floor_num_le: "a \<noteq> NaN \<Longrightarrow> floor_num a \<le> a"
  by (cases a) (simp_all add: floor_num_def)

lemma floor_num_mono: "a \<le> b \<Longrightarrow> floor_num a \<le> floor_num b"
  by (cases a; cases b) (auto simp: floor_num_def floor_mono)

lemma min_num_le:
  "min_num a b \<noteq> NaN \<Longrightarrow> min_num a b \<le> a" "min_num a b \<noteq> NaN \<Longrightarrow> min_num a b \<le> b"
  by (cases a; cases b; auto simp: min_num_def isNaN_def js_defs js_eq_def)+

lemma max_num_ge:
  "max_num a b \<noteq> NaN \<Longrightarrow> a \<le> max_num a b" "max_num a b \<noteq> NaN \<Longrightarrow> b \<le> max_num a b"
  by (cases a; cases b; auto simp: max_num_def isNaN_def js_defs js_eq_def)+

lemma min_num_Fin [simp]: "min_num (Fin a) (Fin b) = Fin (min a b)"
  by (auto simp: min_num_def isNaN_def min_def)

lemma min_num_special [simp]:
  "min_num PInf (Fin b) = Fin b" "min_num (Fin b) PInf = Fin b" "min_num NInf (Fin b) = NInf"
  "min_num NaN a = NaN" "min_num a NaN = NaN"
  by (cases a; simp add: min_num_def isNaN_def)+

lemma max_num_Fin [simp]: "max_num (Fin a) (Fin b) = Fin (max a b)"
  by (auto simp: max_num_def isNaN_def max_def)

subsection \<open>Binary64 values\<close>

text \<open>A finite value the program can hold: its rational is its own rounding.\<close>

definition dbl :: "jsnum \<Rightarrow> bool" where
  "dbl a \<longleftrightarrow> (case a of Fin x \<Rightarrow> fl x = Fin x | _ \<Rightarrow> True)"

lemma dbl_special [simp]: "dbl PInf" "dbl NInf" "dbl NaN"
  by (simp_all add: dbl_def)

lemma dbl_Fin: "dbl (Fin x) \<longleftrightarrow> fl x = Fin x"
  by (simp add: dbl_def)

lemma dbl_fl [simp]: "dbl (fl x)"
  by (cases x rule: fl_cases) (auto simp: dbl_def fl_def Let_def abs_less_iff)

lemma dbl_int: "\<bar>k\<bar> \<le> 2 ^ 53 \<Longrightarrow> dbl (Fin (of_int k))"
  by (simp add: dbl_Fin fl_of_int)

lemma dbl_arith [simp]: "dbl (Fin a + Fin b)" "dbl (Fin a * Fin b)"
  by (simp_all add: Fin_arith)

lemma fl_le_dbl: "dbl (Fin y) \<Longrightarrow> x \<le> y \<Longrightarrow> fl x \<le> Fin y"
  using fl_mono [of x y] by (simp add: dbl_Fin)

lemma fl_ge_dbl: "dbl (Fin y) \<Longrightarrow> y \<le> x \<Longrightarrow> Fin y \<le> fl x"
  using fl_mono [of y x] by (simp add: dbl_Fin)

text \<open>A rounded value between two finite values is finite.\<close>

lemma fl_between:
  assumes "dbl (Fin lo)" "dbl (Fin hi)" "lo \<le> x" "x \<le> hi"
  shows "fl x = Fin (rnd x)" and "lo \<le> rnd x" and "rnd x \<le> hi"
proof -
  have "Fin lo \<le> fl x" "fl x \<le> Fin hi"
    using assms by (auto intro: fl_ge_dbl fl_le_dbl)
  then show "fl x = Fin (rnd x)" and "lo \<le> rnd x" and "rnd x \<le> hi"
    by (cases x rule: fl_cases; auto)+
qed

lemma fl_unit: "0 \<le> x \<Longrightarrow> x \<le> 1 \<Longrightarrow> fl x = Fin (rnd x) \<and> 0 \<le> rnd x \<and> rnd x \<le> 1"
  using fl_between [of 0 1 x] by (simp add: dbl_Fin)

text \<open>The same for a product with a factor of the unit interval.\<close>

lemma mult_unit_bounds:
  assumes "dbl (Fin a)" "0 \<le> a" "0 \<le> u" "u \<le> 1"
  shows "\<exists>x. Fin a * Fin u = Fin x \<and> 0 \<le> x \<and> x \<le> a"
proof -
  have "0 \<le> a * u" "a * u \<le> a" using assms by (auto intro: mult_left_le)
  then show ?thesis using fl_between [of 0 a "a * u"] assms(1) by (simp add: mult_Fin dbl_Fin)
qed

lemma dbl_Fin_rnd: "dbl (Fin x) \<Longrightarrow> rnd x = x"
  by (cases x rule: fl_cases) (auto simp: dbl_Fin)

lemma dbl_representable: "dbl (Fin x) \<Longrightarrow> representable x"
  using dbl_Fin_rnd representable_rnd by metis

text \<open>Values of everyday magnitude: no overflow, and an absolute error.\<close>

lemma fl_small:
  assumes "\<bar>x\<bar> \<le> B" "1 \<le> B" "B \<le> 2 ^ 53"
  shows "fl x = Fin (rnd x)" and "\<bar>rnd x - x\<bar> \<le> B / 2 ^ 53"
proof -
  have "dbl (Fin (- (2 ^ 53)))" "dbl (Fin (2 ^ 53))"
    using dbl_int [of "- (2 ^ 53)"] dbl_int [of "2 ^ 53"] by simp_all
  then show "fl x = Fin (rnd x)"
    using fl_between(1) [of "- (2 ^ 53)" "2 ^ 53" x] assms by (simp add: abs_le_iff)
  have "(2::rat) powi (-1022) \<le> 2 powi 0" by (rule rat_powi_mono) simp
  then show "\<bar>rnd x - x\<bar> \<le> B / 2 ^ 53" using assms by (intro rnd_error_abs) simp_all
qed

subsection \<open>Monotonicity of scaling\<close>

lemma mult_mono_js:
  assumes "a \<le> b" "0 < c"
  shows "a * Fin c \<le> b * Fin c"
proof -
  have "fl (x * c) \<le> fl (y * c)" if "x \<le> y" for x y
    using that assms(2) by (intro fl_mono) (simp add: mult_right_mono)
  then show ?thesis using assms
    by (cases a; cases b) (simp_all add: times_jsnum_def signed_inf_def)
qed

lemma div_mono_js:
  assumes "a \<le> b" "0 < c"
  shows "a / Fin c \<le> b / Fin c"
proof -
  have "fl (x / c) \<le> fl (y / c)" if "x \<le> y" for x y
    using that assms(2) by (intro fl_mono) (simp add: divide_right_mono)
  then show ?thesis using assms
    by (cases a; cases b) (simp_all add: divide_jsnum_def)
qed

lemma round_num_mono: "a \<le> b \<Longrightarrow> round_num a \<le> round_num b"
  by (cases a; cases b) (auto simp: round_num_def floor_mono)

lemma dbl_power2: "n \<le> 1023 \<Longrightarrow> dbl (Fin (2 ^ n)) \<and> dbl (Fin (- (2 ^ n)))"
proof -
  assume n: "n \<le> 1023"
  have "representable (2 powi int n)" by (rule representable_powi) simp
  then have r: "rnd (2 ^ n) = 2 ^ n" by (simp add: rnd_representable)
  have "(2 :: rat) ^ n < 2 ^ 1024" using n by (intro power_strict_increasing) auto
  moreover have "0 < (2 :: rat) ^ n" "0 < (2 :: rat) ^ 1024" by simp_all
  ultimately have "\<not> 2 ^ 1024 \<le> (2 :: rat) ^ n" "\<not> (2 :: rat) ^ n \<le> - (2 ^ 1024)"
    "\<not> 2 ^ 1024 \<le> - ((2 :: rat) ^ n)" "\<not> - ((2 :: rat) ^ n) \<le> - (2 ^ 1024)"
    by linarith+
  then show ?thesis by (simp only: dbl_Fin fl_def rnd_uminus r Let_def) simp
qed

lemma fl_power2_bounds:
  assumes "n \<le> 1023" "\<bar>x\<bar> \<le> 2 ^ n"
  shows "fl x = Fin (rnd x)" and "\<bar>rnd x\<bar> \<le> 2 ^ n"
  using fl_between [of "- (2 ^ n)" "2 ^ n" x] dbl_power2 [OF assms(1)] assms(2)
  by (simp_all add: abs_le_iff)

end
