(* ===== verification/Prelude.thy ===== *)
theory Prelude imports JsNumber begin

text \<open>
  What every component shares: the enums of the database schema and of the signal types, text and
  the JavaScript operators on it, the optional-value operators \<open>??\<close> and \<open>||\<close>, thrown errors as a
  sum, and the collections of facts the component proofs use. \<open>undefined\<close> and \<open>null\<close> are
  \<open>None\<close>.
\<close>

section \<open>Enums\<close>

datatype broker = KIS | TOSS
datatype market = DOMESTIC | OVERSEAS
datatype side = BUY | SELL

section \<open>Errors and optional values\<close>

text \<open>A thrown error; the result of code that may throw is \<open>js_error + 'a\<close>.\<close>

datatype js_error = RangeError string | Error string

definition throws :: "js_error + 'a \<Rightarrow> bool" where
  "throws r = (case r of Inl _ \<Rightarrow> True | Inr _ \<Rightarrow> False)"

definition coalesce :: "'a option \<Rightarrow> 'a \<Rightarrow> 'a" where
  "coalesce x d = (case x of None \<Rightarrow> d | Some v \<Rightarrow> v)"

text \<open>\<open>x || d\<close> for an optional number and for an optional string.\<close>

definition or_opt :: "jsnum option \<Rightarrow> jsnum \<Rightarrow> jsnum" where
  "or_opt x d = (case x of None \<Rightarrow> d | Some v \<Rightarrow> or_num v d)"

definition or_str :: "string option \<Rightarrow> string \<Rightarrow> string" where
  "or_str x d = (case x of None \<Rightarrow> d | Some v \<Rightarrow> if v = [] then d else v)"

text \<open>\<open>Number.isFinite\<close> of a value that may be undefined, and the default it guards.\<close>

definition finite_opt :: "jsnum option \<Rightarrow> bool" where
  "finite_opt x = (case x of None \<Rightarrow> False | Some v \<Rightarrow> isFinite v)"

definition finite_or :: "jsnum option \<Rightarrow> jsnum \<Rightarrow> jsnum" where
  "finite_or x d = (case x of None \<Rightarrow> d | Some v \<Rightarrow> if isFinite v then v else d)"

lemma coalesce_simps [simp]: "coalesce None d = d" "coalesce (Some v) d = v"
  by (simp_all add: coalesce_def)

lemma or_opt_simps [simp]: "or_opt None d = d" "or_opt (Some v) d = or_num v d"
  by (simp_all add: or_opt_def)

lemma finite_or_simps [simp]: "finite_or None d = d" "finite_or (Some (Fin x)) d = Fin x"
  by (simp_all add: finite_or_def)

lemma finite_opt_simps [simp]: "\<not> finite_opt None" "finite_opt (Some v) = isFinite v"
  by (simp_all add: finite_opt_def)

lemma finite_or_finite: "isFinite d \<Longrightarrow> isFinite (finite_or x d)"
  by (simp add: finite_or_def split: option.splits)

section \<open>Text\<close>

text \<open>
  \<open>trim\<close> and \<open>toUpperCase\<close> on the ASCII range, the only characters the codes it is applied to
  (exchange codes, stock codes, order numbers) contain.
\<close>

definition is_space :: "char \<Rightarrow> bool" where
  "is_space c \<longleftrightarrow> c = CHR '' '' \<or> (9 \<le> (of_char c :: nat) \<and> (of_char c :: nat) \<le> 13)"

definition trim :: "string \<Rightarrow> string" where
  "trim s = rev (dropWhile is_space (rev (dropWhile is_space s)))"

definition upper_char :: "char \<Rightarrow> char" where
  "upper_char c = (if 97 \<le> (of_char c :: nat) \<and> (of_char c :: nat) \<le> 122
     then char_of ((of_char c :: nat) - 32) else c)"

definition to_upper :: "string \<Rightarrow> string" where
  "to_upper s = map upper_char s"

fun join_with :: "string \<Rightarrow> string list \<Rightarrow> string" where
  "join_with sep [] = []"
| "join_with sep [x] = x"
| "join_with sep (x # y # ys) = x @ sep @ join_with sep (y # ys)"

lemma of_char_upper:
  "97 \<le> (of_char c :: nat) \<Longrightarrow> (of_char c :: nat) \<le> 122 \<Longrightarrow>
    (of_char (upper_char c) :: nat) = of_char c - 32"
  by (simp add: upper_char_def mod_less del: of_char_mod_256)

lemma is_space_upper_char [simp]: "is_space (upper_char c) = is_space c"
proof (cases "97 \<le> (of_char c :: nat) \<and> (of_char c :: nat) \<le> 122")
  case True
  then have n: "(of_char (upper_char c) :: nat) = of_char c - 32"
    by (simp add: of_char_upper)
  have "c \<noteq> CHR '' ''" using True by auto
  moreover have "upper_char c \<noteq> CHR '' ''"
  proof
    assume "upper_char c = CHR '' ''"
    then have "(of_char (upper_char c) :: nat) = 32" by simp
    then show False using n True by linarith
  qed
  ultimately show ?thesis using n True by (auto simp: is_space_def)
next
  case False
  then show ?thesis by (auto simp: upper_char_def)
qed

lemma upper_char_idem [simp]: "upper_char (upper_char c) = upper_char c"
proof (cases "97 \<le> (of_char c :: nat) \<and> (of_char c :: nat) \<le> 122")
  case True
  then have "(of_char (upper_char c) :: nat) = of_char c - 32" by (simp add: of_char_upper)
  then have "\<not> 97 \<le> (of_char (upper_char c) :: nat)" using True by linarith
  then show ?thesis by (simp add: upper_char_def [of "upper_char c"])
qed (auto simp: upper_char_def)

lemma to_upper_idem [simp]: "to_upper (to_upper s) = to_upper s"
  by (simp add: to_upper_def)

lemma dropWhile_space_upper:
  "dropWhile is_space (map upper_char s) = map upper_char (dropWhile is_space s)"
  by (induction s) auto

lemma trim_to_upper: "trim (to_upper s) = to_upper (trim s)"
  by (simp add: trim_def to_upper_def dropWhile_space_upper rev_map)

lemma dropWhile_idem: "dropWhile P (dropWhile P s) = dropWhile P s"
  by (induction s) auto

lemma dropWhile_rev_dropWhile:
  "dropWhile P (rev (dropWhile P (rev (dropWhile P s)))) = rev (dropWhile P (rev (dropWhile P s)))"
proof (cases "dropWhile P s")
  case (Cons c t)
  then have nP: "\<not> P c" using dropWhile_eq_Cons_conv by metis
  have "rev (dropWhile P (rev (c # t))) = c # rev (dropWhile P (rev t))"
    using nP by (auto simp: dropWhile_append dropWhile_eq_Nil_conv)
  then show ?thesis using nP Cons by simp
next
  case Nil
  then show ?thesis by (simp only: Nil) simp
qed

lemma trim_idem [simp]: "trim (trim s) = trim s"
  by (simp add: trim_def dropWhile_rev_dropWhile dropWhile_idem)

end
