(* ===== verification/V4Math.thy ===== *)
theory V4Math imports Prelude begin

text \<open>
  The pure calculations of the infinite-buy V4 strategy
  (\<open>src/trading/strategy/infinite-buy-v4-math.util.ts\<close>): the star point, the daily buy budget, the
  ladder, the turn accounting \<open>T\<close> of one fill and of one day, and the mode switch tests. A thrown
  \<open>RangeError\<close> is the left value of a sum.
\<close>

definition roundToCent :: "jsnum \<Rightarrow> jsnum" where
  "roundToCent value = round_num (value * Fin 100) / Fin 100"

section \<open>Star point and daily budget\<close>

record star_point =
  starPct :: jsnum
  starPrice :: jsnum
  buyLimitPrice :: jsnum
  sellLimitPrice :: jsnum

definition calculateStarPoint ::
  "jsnum \<Rightarrow> jsnum \<Rightarrow> jsnum \<Rightarrow> jsnum \<Rightarrow> js_error + star_point" where
  "calculateStarPoint avgPrice T N starBasePct =
    (if avgPrice \<le> Fin 0 then Inl (RangeError ''avgPrice must be positive'')
     else if N \<le> Fin 0 then Inl (RangeError ''N must be positive'')
     else let pct = starBasePct * (Fin 1 - (Fin 2 * T) / N);
              price = roundToCent (avgPrice * (Fin 1 + pct / Fin 100))
          in Inr \<lparr>starPct = pct, starPrice = price,
                  buyLimitPrice = roundToCent (price - lit (1 / 100)),
                  sellLimitPrice = price\<rparr>)"

definition calculateDailyBuyBudget :: "jsnum \<Rightarrow> jsnum \<Rightarrow> jsnum \<Rightarrow> js_error + jsnum" where
  "calculateDailyBuyBudget cashRemaining N T =
    (let divisor = N - T in
     if divisor \<le> Fin 0 then Inl (RangeError ''N - T must be positive'')
     else Inr (cashRemaining / divisor))"

section \<open>Ladder\<close>

record ladder_order =
  l_price :: jsnum
  l_quantity :: jsnum

fun allocateLadder :: "jsnum \<Rightarrow> jsnum \<Rightarrow> jsnum list \<Rightarrow> ladder_order list" where
  "allocateLadder budget basePrice [] = []"
| "allocateLadder budget basePrice (step # steps) =
    (let price = roundToCent (basePrice * (Fin 1 - step)) in
     if price > Fin 0 \<and> price \<le> budget
     then \<lparr>l_price = price, l_quantity = Fin 1\<rparr> # allocateLadder (budget - price) basePrice steps
     else allocateLadder budget basePrice steps)"

definition allocateLadderOrders :: "jsnum \<Rightarrow> jsnum \<Rightarrow> jsnum list \<Rightarrow> ladder_order list" where
  "allocateLadderOrders remainingBudget basePrice steps =
     allocateLadder remainingBudget basePrice steps"

section \<open>Turn accounting\<close>

record sell_fill =
  filledQuantity :: jsnum
  previousHoldingQuantity :: jsnum

definition applySellFillToT :: "jsnum \<Rightarrow> sell_fill \<Rightarrow> jsnum" where
  "applySellFillToT T event =
    (if previousHoldingQuantity event \<le> Fin 0 then T
     else let ratio = filledQuantity event / previousHoldingQuantity event in
       T * (Fin 1 - ratio))"

text \<open>The tagged union of buy fills: fill amount, attempt amount and, in reverse mode, \<open>N\<close>.\<close>

datatype buy_fill =
    NormalFill (fillAmount: jsnum) (attemptAmount: jsnum)
  | ReverseFill (fillAmount: jsnum) (attemptAmount: jsnum) (fillN: jsnum)

definition applyBuyFillToT :: "jsnum \<Rightarrow> buy_fill \<Rightarrow> jsnum" where
  "applyBuyFillToT T event =
    (if attemptAmount event \<le> Fin 0 then T
     else let fillRatio = fillAmount event / attemptAmount event in
       case event of
         NormalFill _ _ \<Rightarrow> T + fillRatio
       | ReverseFill _ _ N \<Rightarrow> T + (N - T) * lit (25 / 100) * fillRatio)"

definition applyDailyFillsToT :: "jsnum \<Rightarrow> sell_fill list option \<Rightarrow> buy_fill option \<Rightarrow> jsnum" where
  "applyDailyFillsToT T sellFills buyFill =
    (let next' = foldl applySellFillToT T (coalesce sellFills []) in
     case buyFill of None \<Rightarrow> next' | Some e \<Rightarrow> applyBuyFillToT next' e)"

section \<open>Mode switch\<close>

definition shouldEnterReverseMode :: "jsnum \<Rightarrow> jsnum \<Rightarrow> bool" where
  "shouldEnterReverseMode T N \<longleftrightarrow> T > N - Fin 1"

definition shouldExitReverseMode :: "jsnum \<Rightarrow> jsnum \<Rightarrow> jsnum \<Rightarrow> bool" where
  "shouldExitReverseMode closePrice avgPrice finalTargetPct \<longleftrightarrow>
    (let recoveryThreshold = avgPrice * (Fin 1 - finalTargetPct / Fin 100) in
     closePrice > recoveryThreshold)"

section \<open>Turn accounting: bounds\<close>

lemma div_unit:
  assumes "0 \<le> f" "f \<le> p" "0 < p"
  shows "\<exists>r. Fin f / Fin p = Fin r \<and> 0 \<le> r \<and> r \<le> 1"
proof -
  have "0 \<le> f / p" "f / p \<le> 1" using assms by simp_all
  then show ?thesis using fl_unit [of "f / p"] assms by (auto simp: div_Fin)
qed

lemma one_minus_unit:
  assumes "0 \<le> r" "r \<le> 1"
  shows "\<exists>u. Fin 1 - Fin r = Fin u \<and> 0 \<le> u \<and> u \<le> 1"
  using fl_unit [of "1 - r"] assms by (auto simp: diff_Fin)

text \<open>A sell fill the broker can report: some of the holding it started from.\<close>

definition sane_sell :: "sell_fill \<Rightarrow> bool" where
  "sane_sell e \<longleftrightarrow> (\<exists>f p. filledQuantity e = Fin f \<and> previousHoldingQuantity e = Fin p \<and>
     0 \<le> f \<and> f \<le> p)"

text \<open>A turn value the ledger can hold: a finite, non-negative binary64 value of at most \<open>b\<close>.\<close>

definition turn_le :: "rat \<Rightarrow> jsnum \<Rightarrow> bool" where
  "turn_le b T \<longleftrightarrow> dbl T \<and> (\<exists>t. T = Fin t \<and> 0 \<le> t \<and> t \<le> b)"

lemma sell_fill_turn:
  assumes "turn_le b T" "sane_sell e"
  shows "turn_le b (applySellFillToT T e)"
proof -
  obtain t where T: "T = Fin t" "dbl (Fin t)" "0 \<le> t" "t \<le> b"
    using assms(1) by (auto simp: turn_le_def)
  obtain f p where e: "filledQuantity e = Fin f" "previousHoldingQuantity e = Fin p" "0 \<le> f" "f \<le> p"
    using assms(2) by (auto simp: sane_sell_def)
  show ?thesis
  proof (cases "p \<le> 0")
    case True
    then show ?thesis using assms(1) by (simp add: applySellFillToT_def e)
  next
    case False
    obtain r where r: "Fin f / Fin p = Fin r" "0 \<le> r" "r \<le> 1"
      using div_unit [of f p] e False by auto
    obtain u where u: "Fin 1 - Fin r = Fin u" "0 \<le> u" "u \<le> 1"
      using one_minus_unit [OF r(2,3)] by auto
    obtain x where "Fin t * Fin u = Fin x" "0 \<le> x" "x \<le> t"
      using mult_unit_bounds [OF T(2,3) u(2,3)] by auto
    moreover have "dbl (Fin t * Fin u)" by simp
    ultimately show ?thesis using False T by (auto simp: applySellFillToT_def e r u turn_le_def)
  qed
qed

lemma sell_fills_turn:
  "turn_le b T \<Longrightarrow> \<forall>e \<in> set es. sane_sell e \<Longrightarrow> turn_le b (foldl applySellFillToT T es)"
  by (induction es arbitrary: T) (auto intro: sell_fill_turn)

lemma normal_buy_turn:
  assumes T: "turn_le b T" and b: "b \<le> 2 ^ 52" and f: "0 \<le> f" "f \<le> a"
  shows "turn_le (rnd (b + 1)) (applyBuyFillToT T (NormalFill (Fin f) (Fin a)))"
proof (cases "a \<le> 0")
  case True
  obtain t where t: "T = Fin t" "dbl (Fin t)" "0 \<le> t" "t \<le> b" using T by (auto simp: turn_le_def)
  have "fl t = Fin (rnd t)" using t(2) by (cases t rule: fl_cases) (auto simp: dbl_Fin)
  then have "t = rnd t" using t(2) by (simp add: dbl_Fin)
  also have "\<dots> \<le> rnd (b + 1)" using t by (intro rnd_mono) simp
  finally have "turn_le (rnd (b + 1)) T" using t by (simp add: turn_le_def)
  then show ?thesis using True by (simp add: applyBuyFillToT_def)
next
  case False
  obtain t where t: "T = Fin t" "dbl (Fin t)" "0 \<le> t" "t \<le> b" using T by (auto simp: turn_le_def)
  obtain r where r: "Fin f / Fin a = Fin r" "0 \<le> r" "r \<le> 1"
    using div_unit [of f a] f False by auto
  have "fl (t + r) = Fin (rnd (t + r))" "0 \<le> rnd (t + r)"
    using fl_between [of 0 "of_int (2 ^ 53)" "t + r"] dbl_int [of 0] dbl_int [of "2 ^ 53"] t r b by simp_all
  moreover have "rnd (t + r) \<le> rnd (b + 1)" using t r by (intro rnd_mono) simp
  moreover have "dbl (Fin t + Fin r)" by simp
  ultimately show ?thesis using False by (simp add: applyBuyFillToT_def t r add_Fin turn_le_def)
qed

text \<open>
  One day of a V4 stock moves its turn counter \<open>T\<close> by at most one turn upwards and never below
  zero: sells (any number, each of part of the holding) shrink it, applied before the buy, and the
  buy adds the filled share of the day's attempt. All of it with binary64 rounding.
\<close>

lemma daily_fills_turn_bounds:
  assumes "turn_le b T" "b \<le> 2 ^ 52" "\<forall>e \<in> set sells. sane_sell e" "0 \<le> f" "f \<le> a"
  shows "turn_le (rnd (b + 1)) (applyDailyFillsToT T (Some sells) (Some (NormalFill (Fin f) (Fin a))))"
  using assms by (auto simp: applyDailyFillsToT_def intro: normal_buy_turn sell_fills_turn)

theorem daily_fills_turn_bounds_witness:
  "turn_le (rnd 11) (applyDailyFillsToT (Fin 10)
     (Some [\<lparr>filledQuantity = Fin 1, previousHoldingQuantity = Fin 4\<rparr>])
     (Some (NormalFill (Fin 50) (Fin 100))))"
  using daily_fills_turn_bounds [of 10 "Fin 10"
      "[\<lparr>filledQuantity = Fin 1, previousHoldingQuantity = Fin 4\<rparr>]" 50 100]
  by (simp add: turn_le_def sane_sell_def dbl_Fin)

lemma quarter_step:
  assumes t: "dbl (Fin t)" and n: "dbl (Fin n)" and tn: "t < n" "0 \<le> t" and r: "0 \<le> r" "r \<le> 1"
  shows "\<exists>x. (Fin n - Fin t) * lit (25 / 100) * Fin r = Fin x \<and> 0 \<le> x \<and> x \<le> n - t"
proof -
  have q: "lit (1 / 4) = Fin (1 / 4)" by (simp add: fl_eval)
  have g: "Fin n - Fin t = Fin (rnd (n - t))" "0 \<le> rnd (n - t)"
    using fl_between [of 0 n "n - t"] assms by (simp_all add: diff_Fin dbl_Fin)
  have dg: "dbl (Fin (rnd (n - t)))" using g(1) dbl_fl [of "n - t"] by (simp add: diff_Fin)
  have le: "rnd (rnd (n - t) / 4) \<le> n - t"
    using representable_diff_ge [OF dbl_representable [OF t] dbl_representable [OF n] tn(1)]
    by (rule rnd_quarter_le)
  obtain y where y: "Fin (rnd (n - t)) * Fin (1 / 4) = Fin y" "0 \<le> y" "y \<le> rnd (n - t)"
    using mult_unit_bounds [OF dg g(2), of "1 / 4"] by auto
  have "y = rnd (rnd (n - t) / 4)"
    using y(1) by (cases "rnd (n - t) / 4" rule: fl_cases) (auto simp: mult_Fin)
  then have "y \<le> n - t" using le by simp
  moreover have "dbl (Fin y)" using y(1) by (metis dbl_arith(2))
  then obtain x where "Fin y * Fin r = Fin x" "0 \<le> x" "x \<le> y"
    using mult_unit_bounds [of y r] y r by auto
  ultimately show ?thesis using y by (auto simp: q g)
qed

text \<open>
  In reverse mode a buy fill moves \<open>T\<close> towards \<open>N\<close> and never past it: for every filled share
  of the attempt the new counter lies between the old one and \<open>N\<close>, rounding included.
\<close>

lemma reverse_buy_stays_below_N:
  assumes "dbl (Fin t)" "dbl (Fin n)" "0 \<le> t" "t < n" "0 \<le> f" "f \<le> a" "0 < a"
  shows "\<exists>t'. applyBuyFillToT (Fin t) (ReverseFill (Fin f) (Fin a) (Fin n)) = Fin t' \<and> t \<le> t' \<and> t' \<le> n"
proof -
  obtain r where r: "Fin f / Fin a = Fin r" "0 \<le> r" "r \<le> 1"
    using div_unit [of f a] assms by auto
  obtain x where x: "(Fin n - Fin t) * lit (25 / 100) * Fin r = Fin x" "0 \<le> x" "x \<le> n - t"
    using quarter_step [of t n r] assms r by auto
  have "fl (t + x) = Fin (rnd (t + x))" "t \<le> rnd (t + x)" "rnd (t + x) \<le> n"
    using fl_between [of t n "t + x"] assms x by simp_all
  then show ?thesis using assms x(1) r(1) by (simp add: applyBuyFillToT_def add_Fin)
qed

theorem reverse_buy_stays_below_N_witness:
  "\<exists>t'. applyBuyFillToT (Fin 39) (ReverseFill (Fin 30) (Fin 60) (Fin 40)) = Fin t' \<and> 39 \<le> t' \<and> t' \<le> 40"
  using reverse_buy_stays_below_N [of 39 40 30 60] by (simp add: dbl_Fin)

section \<open>Budget\<close>

text \<open>
  While the strategy is in normal mode (\<open>T\<close> does not exceed \<open>N - 1\<close>) the daily budget is
  defined (no \<open>RangeError\<close>) and between zero and the remaining cash, for every whole number of
  splits and every binary64 turn and cash.
\<close>

lemma daily_budget_normal_mode:
  assumes "\<not> shouldEnterReverseMode (Fin t) (Fin (of_int k))" "1 \<le> k" "k \<le> 2 ^ 53"
    "dbl (Fin t)" "0 \<le> t" "dbl (Fin c)" "0 \<le> c"
  shows "\<exists>d. calculateDailyBuyBudget (Fin c) (Fin (of_int k)) (Fin t) = Inr (Fin d) \<and> 0 \<le> d \<and> d \<le> c"
proof -
  have "Fin (of_int k) - Fin 1 = Fin (of_int (k - 1))"
    using diff_Fin_int [of k 1] assms by simp
  then have t: "1 \<le> of_int k - t" using assms(1) by (simp add: shouldEnterReverseMode_def)
  have g: "Fin (of_int k) - Fin t = Fin (rnd (of_int k - t))" "1 \<le> rnd (of_int k - t)"
    using fl_between [of 1 "of_int k" "of_int k - t"] dbl_int [of 1] dbl_int [of k] assms t
    by (simp_all add: diff_Fin)
  let ?g = "rnd (of_int k - t)"
  have "0 \<le> c / ?g" "c / ?g \<le> c" using g(2) assms(7) by (simp_all add: divide_le_eq mult_le_cancel_left1)
  then have "fl (c / ?g) = Fin (rnd (c / ?g))" "0 \<le> rnd (c / ?g)" "rnd (c / ?g) \<le> c"
    using fl_between [of 0 c "c / ?g"] assms(6) by (simp_all add: dbl_Fin)
  then show ?thesis using g by (simp add: calculateDailyBuyBudget_def div_Fin)
qed

theorem daily_budget_normal_mode_witness:
  "\<exists>d. calculateDailyBuyBudget (Fin 1000) (Fin 40) (Fin 10) = Inr (Fin d) \<and> 0 \<le> d \<and> d \<le> 1000"
  using daily_budget_normal_mode [of 10 40 1000]
  by (simp add: shouldEnterReverseMode_def diff_Fin dbl_Fin)

section \<open>Cents\<close>

lemma roundToCent_mono: "a \<le> b \<Longrightarrow> roundToCent a \<le> roundToCent b"
  unfolding roundToCent_def by (intro div_mono_js round_num_mono mult_mono_js) simp_all

text \<open>A price of \<open>k\<close> cents, and how rounding to a cent recovers \<open>k\<close> from a perturbed price.\<close>

definition cents :: "int \<Rightarrow> jsnum" where
  "cents k = fl (of_int k / 100)"

lemma round_to_int:
  "\<bar>e - of_int k\<bar> < 1 / 2 \<Longrightarrow> round_num (Fin e) = Fin (of_int k)"
  unfolding round_num_Fin jsnum.inject of_int_eq_iff floor_eq_iff by linarith

lemma roundToCent_near:
  assumes "\<bar>x * 100 - of_int k\<bar> \<le> 1 / 4" "\<bar>k\<bar> \<le> 2 ^ 41"
  shows "roundToCent (Fin x) = cents k"
proof -
  have k: "\<bar>of_int k :: rat\<bar> \<le> 2 ^ 41"
  proof -
    have "(of_int \<bar>k\<bar> :: rat) \<le> of_int (2 ^ 41)" using assms(2) by (simp only: of_int_le_iff)
    then show ?thesis by simp
  qed
  have b: "\<bar>x * 100\<bar> \<le> 2 ^ 42" using assms(1) k by (simp add: abs_le_iff; linarith)
  have e: "fl (x * 100) = Fin (rnd (x * 100))" "\<bar>rnd (x * 100) - x * 100\<bar> \<le> 2 ^ 42 / 2 ^ 53"
    using fl_small [OF b] by simp_all
  have "(2::rat) ^ 42 / 2 ^ 53 \<le> 1 / 8" by simp
  then have "\<bar>rnd (x * 100) - of_int k\<bar> < 1 / 2" using e(2) assms(1) by linarith
  then have "round_num (Fin (rnd (x * 100))) = Fin (of_int k)" by (rule round_to_int)
  then show ?thesis by (simp add: roundToCent_def mult_Fin e cents_def div_Fin)
qed

lemma cents_near:
  assumes "\<bar>k\<bar> \<le> 2 ^ 40"
  shows "\<exists>p. cents k = Fin p \<and> \<bar>p * 100 - of_int k\<bar> \<le> 1 / 16 \<and> \<bar>p\<bar> \<le> 2 ^ 40"
proof -
  have "(of_int \<bar>k\<bar> :: rat) \<le> of_int (2 ^ 40)" using assms by (simp only: of_int_le_iff)
  then have b: "\<bar>of_int k / 100 :: rat\<bar> \<le> 2 ^ 39" by simp
  have e: "fl (of_int k / 100) = Fin (rnd (of_int k / 100))"
    "\<bar>rnd (of_int k / 100) - of_int k / 100\<bar> \<le> 2 ^ 39 / 2 ^ 53"
    using fl_small [OF b] by simp_all
  have "(2::rat) ^ 39 / 2 ^ 53 = 1 / 16384" by simp
  then have "\<bar>rnd (of_int k / 100) - of_int k / 100\<bar> \<le> (1 / 16384 :: rat)" using e(2) by simp
  moreover from this have "\<bar>rnd (of_int k / 100) * 100 - of_int k\<bar> \<le> (1 / 16 :: rat)"
    by (simp only: abs_le_iff) linarith
  moreover from b \<open>\<bar>rnd (of_int k / 100) - of_int k / 100\<bar> \<le> 1 / 16384\<close>
  have "\<bar>rnd (of_int k / 100) :: rat\<bar> \<le> 2 ^ 40" by (simp add: abs_le_iff; linarith)
  ultimately show ?thesis using e(1) by (simp add: cents_def)
qed

lemma cents_minus_cent:
  assumes "\<bar>k\<bar> \<le> 2 ^ 40"
  shows "\<exists>x. cents k - lit (1 / 100) = Fin x \<and> \<bar>x * 100 - of_int (k - 1)\<bar> \<le> 1 / 4"
proof -
  obtain p where p: "cents k = Fin p" "\<bar>p * 100 - of_int k\<bar> \<le> 1 / 16" "\<bar>p\<bar> \<le> 2 ^ 40"
    using cents_near [OF assms] by auto
  have c: "lit (1 / 100) = Fin (rnd (1 / 100))" "\<bar>rnd (1 / 100) - 1 / 100 :: rat\<bar> \<le> 1 / 2 ^ 53"
    using fl_small [of "1 / 100" 1] by (simp_all add: lit_def)
  have c2: "\<bar>rnd (1 / 100) - 1 / 100 :: rat\<bar> \<le> 1 / 10000"
    using c(2) by (rule order_trans) simp
  let ?d = "p - rnd (1 / 100)"
  have b: "\<bar>?d\<bar> \<le> 2 ^ 41" using p(3) c2 by (simp add: abs_le_iff; linarith)
  have e: "fl ?d = Fin (rnd ?d)" "\<bar>rnd ?d - ?d\<bar> \<le> 2 ^ 41 / 2 ^ 53"
    using fl_small [OF b] by simp_all
  have "\<bar>rnd ?d - ?d\<bar> \<le> 1 / 4096" using e(2) by (rule order_trans) simp
  then have "\<bar>rnd ?d * 100 - of_int (k - 1)\<bar> \<le> 1 / 4"
    using p(2) c2 by (simp only: abs_le_iff of_int_diff of_int_1) linarith
  then show ?thesis using p(1) c(1) e(1) by (simp add: diff_Fin)
qed

text \<open>
  Rounding to a cent is idempotent on cent prices (up to \<open>2 ^ 40\<close> cents), although neither
  the price nor the cent is representable.
\<close>

theorem roundToCent_idempotent:
  assumes "\<bar>k\<bar> \<le> 2 ^ 40"
  shows "roundToCent (cents k) = cents k"
proof -
  obtain p where p: "cents k = Fin p" "\<bar>p * 100 - of_int k\<bar> \<le> 1 / 16"
    using cents_near [OF assms] by auto
  then show ?thesis using roundToCent_near [of p k] assms by simp
qed

theorem roundToCent_idempotent_witness:
  "roundToCent (cents 1005) = cents 1005"
  using roundToCent_idempotent [of 1005] by simp

section \<open>Star point\<close>

text \<open>The star price is a cent price whenever the scaled price stays in the everyday range.\<close>

lemma roundToCent_cents:
  assumes "\<bar>x\<bar> \<le> 2 ^ 32"
  shows "\<exists>k. roundToCent (Fin x) = cents k \<and> \<bar>k\<bar> \<le> 2 ^ 40"
proof -
  have b: "\<bar>x * 100\<bar> \<le> 429496729600" using assms by (simp add: abs_le_iff; linarith)
  have e: "fl (x * 100) = Fin (rnd (x * 100))" "\<bar>rnd (x * 100) - x * 100\<bar> \<le> 429496729600 / 2 ^ 53"
    using fl_small [OF b] by simp_all
  let ?k = "\<lfloor>rnd (x * 100) + 1 / 2\<rfloor>"
  have "\<bar>rnd (x * 100) - x * 100\<bar> \<le> 1" using e(2) by (rule order_trans) simp
  then have r: "rnd (x * 100) \<le> 429496729601" "- 429496729601 \<le> rnd (x * 100)"
    using b by (simp_all only: abs_le_iff) linarith+
  then have "\<bar>?k\<bar> \<le> 2 ^ 40"
    using floor_mono [of "rnd (x * 100) + 1 / 2" 429496729602]
      floor_mono [of "of_int (- 429496729602)" "rnd (x * 100) + 1 / 2"]
    by (simp add: abs_le_iff; linarith)
  then show ?thesis
    by (intro exI [of _ ?k]) (simp add: roundToCent_def mult_Fin e cents_def div_Fin)
qed

text \<open>
  The star buy limit is exactly one cent below the star price, which is the sell limit, for
  every average price, turn and scale whose star price stays in range: the same close can never
  fill both the star buy and the quarter sell. Prices, percentages and the cent are all rounded.
\<close>

lemma star_buy_one_cent_below_sell:
  assumes "calculateStarPoint avgPrice T N starBasePct = Inr s"
    "avgPrice * (Fin 1 + starBasePct * (Fin 1 - (Fin 2 * T) / N) / Fin 100) = Fin x" "\<bar>x\<bar> \<le> 2 ^ 32"
  shows "\<exists>k. sellLimitPrice s = cents k \<and> starPrice s = cents k \<and> buyLimitPrice s = cents (k - 1)"
proof -
  obtain k where k: "roundToCent (Fin x) = cents k" "\<bar>k\<bar> \<le> 2 ^ 40"
    using roundToCent_cents [OF assms(3)] by auto
  obtain y where y: "cents k - lit (1 / 100) = Fin y" "\<bar>y * 100 - of_int (k - 1)\<bar> \<le> 1 / 4"
    using cents_minus_cent [OF k(2)] by auto
  have "\<bar>k - 1\<bar> \<le> 2 ^ 41" using k(2) by simp
  then have b: "roundToCent (cents k - lit (1 / 100)) = cents (k - 1)"
    using roundToCent_near [OF y(2)] y(1) by simp
  have "starPrice s = roundToCent (Fin x)" "sellLimitPrice s = roundToCent (Fin x)"
    "buyLimitPrice s = roundToCent (roundToCent (Fin x) - lit (1 / 100))"
    using assms(1,2) by (auto simp: calculateStarPoint_def Let_def split: if_splits)
  then show ?thesis using k b by auto
qed

theorem star_buy_one_cent_below_sell_witness:
  "\<exists>s k. calculateStarPoint (Fin 100) (Fin 10) (Fin 40) (Fin 20) = Inr s \<and>
    sellLimitPrice s = cents k \<and> starPrice s = cents k \<and> buyLimitPrice s = cents (k - 1)"
proof -
  obtain s where s: "calculateStarPoint (Fin 100) (Fin 10) (Fin 40) (Fin 20) = Inr s"
    by (simp add: calculateStarPoint_def Let_def)
  have "\<exists>k. sellLimitPrice s = cents k \<and> starPrice s = cents k \<and> buyLimitPrice s = cents (k - 1)"
    by (rule star_buy_one_cent_below_sell [OF s, of "rnd (100 * rnd (1 + rnd (1 / 10)))"])
      (simp_all add: fl_eval Fin_arith)
  then show ?thesis using s by blast
qed

text \<open>The scale factor of the star price, with its rounded intermediate values.\<close>

lemma star_factor_first_half:
  assumes "dbl (Fin n)" "dbl (Fin b)" "0 \<le> t" "1 \<le> n" "2 * t \<le> n" "0 \<le> b" "b \<le> 2 ^ 20"
  shows "\<exists>z. Fin 1 + Fin b * (Fin 1 - (Fin 2 * Fin t) / Fin n) / Fin 100 = Fin z \<and> 1 \<le> z"
proof -
  have g: "fl (2 * t) = Fin (rnd (2 * t))" "0 \<le> rnd (2 * t)" "rnd (2 * t) \<le> n"
    using fl_between [of 0 n "2 * t"] assms by (simp_all add: dbl_Fin)
  obtain q where q: "Fin (rnd (2 * t)) / Fin n = Fin q" "0 \<le> q" "q \<le> 1"
    using div_unit [of "rnd (2 * t)" n] g assms by auto
  obtain u where u: "Fin 1 - Fin q = Fin u" "0 \<le> u" "u \<le> 1" using one_minus_unit q by blast
  obtain p where p: "Fin b * Fin u = Fin p" "0 \<le> p" "p \<le> b" using mult_unit_bounds assms u by blast
  have db: "dbl (Fin p)" using p(1) by (metis dbl_arith(2))
  have h: "fl (p / 100) = Fin (rnd (p / 100))" "0 \<le> rnd (p / 100)" "rnd (p / 100) \<le> p"
    using fl_between [of 0 p "p / 100"] db p by (simp_all add: dbl_Fin)
  have "\<bar>1 + rnd (p / 100)\<bar> \<le> 2 ^ 21" using h p assms(7) by (simp add: abs_le_iff)
  then have "fl (1 + rnd (p / 100)) = Fin (rnd (1 + rnd (p / 100)))"
    by (intro fl_power2_bounds(1) [of 21]) simp_all
  moreover have "1 \<le> rnd (1 + rnd (p / 100))" using rnd_ge_int [of 1 "1 + rnd (p / 100)"] h by simp
  ultimately show ?thesis using g(1) q(1) u(1) p(1) h(1) by (simp add: mult_Fin div_Fin add_Fin)
qed

lemma star_factor_second_half:
  assumes "dbl (Fin n)" "dbl (Fin b)" "t \<le> n" "1 \<le> n" "n \<le> 2 * t" "n \<le> 2 ^ 52" "0 \<le> b" "b \<le> 2 ^ 20"
  shows "\<exists>z. Fin 1 + Fin b * (Fin 1 - (Fin 2 * Fin t) / Fin n) / Fin 100 = Fin z \<and> z \<le> 1"
proof -
  have "\<bar>2 * t\<bar> \<le> 2 ^ 53" using assms by (simp add: abs_le_iff)
  then have g: "fl (2 * t) = Fin (rnd (2 * t))" "\<bar>rnd (2 * t)\<bar> \<le> 2 ^ 53"
    using fl_power2_bounds [of 53 "2 * t"] by simp_all
  have gn: "n \<le> rnd (2 * t)" using fl_ge_dbl [OF assms(1,5)] g(1) by simp
  let ?q = "rnd (2 * t) / n"
  have q1: "1 \<le> ?q" using gn assms(4) by (simp add: le_divide_eq)
  have "?q \<le> rnd (2 * t)" using gn assms(4) by (simp add: divide_le_eq mult_le_cancel_left1)
  then have "\<bar>?q\<bar> \<le> 2 ^ 53" using q1 g(2) by linarith
  then have q: "fl ?q = Fin (rnd ?q)" "\<bar>rnd ?q\<bar> \<le> 2 ^ 53" "1 \<le> rnd ?q"
    using fl_power2_bounds [of 53 ?q] rnd_ge_int [of 1 ?q] q1 by simp_all
  have "\<bar>1 - rnd ?q\<bar> \<le> 2 ^ 53" using q by (simp add: abs_le_iff)
  then have u: "fl (1 - rnd ?q) = Fin (rnd (1 - rnd ?q))" "\<bar>rnd (1 - rnd ?q)\<bar> \<le> 2 ^ 53" "rnd (1 - rnd ?q) \<le> 0"
    using fl_power2_bounds [of 53 "1 - rnd ?q"] rnd_nonpos [of "1 - rnd ?q"] q by simp_all
  let ?u = "rnd (1 - rnd ?q)"
  have "\<bar>b * ?u\<bar> \<le> 2 ^ 20 * 2 ^ 53"
    unfolding abs_mult by (rule mult_mono) (use assms u(2) in simp_all)
  then have "\<bar>b * ?u\<bar> \<le> 2 ^ 73" by simp
  then have p: "fl (b * ?u) = Fin (rnd (b * ?u))" "\<bar>rnd (b * ?u)\<bar> \<le> 2 ^ 73" "rnd (b * ?u) \<le> 0"
    using fl_power2_bounds [of 73 "b * ?u"] rnd_nonpos [of "b * ?u"] u(3) assms(7)
    by (simp_all add: mult_nonneg_nonpos)
  let ?p = "rnd (b * ?u)"
  have "\<bar>?p / 100\<bar> \<le> 2 ^ 73" using p(2) by (simp add: abs_le_iff)
  then have h: "fl (?p / 100) = Fin (rnd (?p / 100))" "\<bar>rnd (?p / 100)\<bar> \<le> 2 ^ 73" "rnd (?p / 100) \<le> 0"
    using fl_power2_bounds [of 73 "?p / 100"] rnd_nonpos [of "?p / 100"] p(3) by simp_all
  have "\<bar>1 + rnd (?p / 100)\<bar> \<le> 2 ^ 74" using h(2) by (simp add: abs_le_iff)
  then have "fl (1 + rnd (?p / 100)) = Fin (rnd (1 + rnd (?p / 100)))"
    by (intro fl_power2_bounds(1) [of 74]) simp_all
  moreover have "rnd (1 + rnd (?p / 100)) \<le> 1" using rnd_le_int [of "1 + rnd (?p / 100)" 1] h by simp
  ultimately show ?thesis using g(1) q(1) u(1) p(1) h(1) assms(4)
    by (simp add: mult_Fin div_Fin add_Fin diff_Fin)
qed

text \<open>
  The sign rule of the star point: up to half of the turns the star price is at least the
  average price rounded to a cent, from half of the turns on at most that, so a quarter sell of the
  second half never sells above the average. For every split count, scale and average price.
\<close>

lemma star_price_around_average:
  assumes s: "calculateStarPoint (Fin a) (Fin t) (Fin n) (Fin b) = Inr s"
    and d: "dbl (Fin a)" "dbl (Fin n)" "dbl (Fin b)"
    and r: "0 \<le> t" "t \<le> n" "1 \<le> n" "n \<le> 2 ^ 52" "0 \<le> b" "b \<le> 2 ^ 20"
  shows "(2 * t \<le> n \<longrightarrow> roundToCent (Fin a) \<le> starPrice s) \<and>
         (n \<le> 2 * t \<longrightarrow> starPrice s \<le> roundToCent (Fin a))"
proof -
  have a: "0 < a" using s by (simp add: calculateStarPoint_def split: if_splits)
  let ?z = "Fin 1 + Fin b * (Fin 1 - (Fin 2 * Fin t) / Fin n) / Fin 100"
  have p: "starPrice s = roundToCent (Fin a * ?z)"
    using s by (auto simp: calculateStarPoint_def Let_def split: if_splits)
  have "roundToCent (Fin a) \<le> starPrice s" if half: "2 * t \<le> n"
  proof -
    obtain z where z: "?z = Fin z" "1 \<le> z" using star_factor_first_half [of n b t] d r half by auto
    have "Fin a \<le> fl (a * z)" using z(2) a by (intro fl_ge_dbl d) simp
    then show ?thesis unfolding p z(1) by (intro roundToCent_mono) (simp add: mult_Fin)
  qed
  moreover have "starPrice s \<le> roundToCent (Fin a)" if half: "n \<le> 2 * t"
  proof -
    obtain z where z: "?z = Fin z" "z \<le> 1" using star_factor_second_half [of n b t] d r half by auto
    have "fl (a * z) \<le> Fin a" using z(2) a by (intro fl_le_dbl d) (simp add: mult_left_le)
    then show ?thesis unfolding p z(1) by (intro roundToCent_mono) (simp add: mult_Fin)
  qed
  ultimately show ?thesis by blast
qed

theorem star_price_around_average_witness:
  "\<exists>s. calculateStarPoint (Fin 100) (Fin 30) (Fin 40) (Fin 15) = Inr s \<and>
    starPrice s \<le> roundToCent (Fin 100)"
proof -
  obtain s where s: "calculateStarPoint (Fin 100) (Fin 30) (Fin 40) (Fin 15) = Inr s"
    by (simp add: calculateStarPoint_def Let_def)
  then show ?thesis
    using star_price_around_average [OF s] by (simp add: dbl_Fin)
qed

end
