(* ===== verification/V4Ledger.thy ===== *)
theory V4Ledger imports V4Math begin

text \<open>
  The V4 fill ledger (\<open>src/trading/strategy/infinite-buy-v4-ledger.util.ts\<close>): the transition of turn,
  remaining cash, cycle count and last known holding by one confirmed fill, shared by live trading
  and the backtest. The lemmas show that the cash is kept exactly, to the cent, over any sequence
  of fills, that the holding follows the fills, and that a cycle ends exactly when a sell empties
  the holding.
\<close>

section \<open>The transition\<close>

record v4_ledger =
  turn :: jsnum
  cashRemaining :: jsnum
  cycleSeq :: jsnum
  lastKnownHoldQty :: jsnum

record v4_fill =
  f_side :: side
  f_phase :: string
  f_quantity :: jsnum
  f_fillAmount :: jsnum
  f_previousHoldingQty :: jsnum
  f_sellRatioPrevHolding :: "jsnum option"
  f_attemptAmount :: "jsnum option"
  f_N :: jsnum
  f_quota :: jsnum
  f_compoundMode :: bool

record v4_fill_result =
  r_state :: v4_ledger
  r_cycleCompleted :: bool
  r_discardedExcess :: jsnum

definition applyV4Fill :: "v4_ledger \<Rightarrow> v4_fill \<Rightarrow> v4_fill_result" where
  "applyV4Fill state input =
    (case f_side input of
      BUY \<Rightarrow>
        let attempt = coalesce (f_attemptAmount input) (f_fillAmount input);
            nextTurn =
              (if f_phase input = ''v4-reverse-buy''
               then applyBuyFillToT (turn state) (ReverseFill (f_fillAmount input) attempt (f_N input))
               else applyBuyFillToT (turn state) (NormalFill (f_fillAmount input) attempt))
        in \<lparr>r_state = \<lparr>turn = nextTurn,
              cashRemaining = roundToCent (cashRemaining state - f_fillAmount input),
              cycleSeq = cycleSeq state,
              lastKnownHoldQty = f_previousHoldingQty input + f_quantity input\<rparr>,
            r_cycleCompleted = False, r_discardedExcess = Fin 0\<rparr>
    | SELL \<Rightarrow>
        let ratioPrevHolding = coalesce (f_sellRatioPrevHolding input) (f_previousHoldingQty input);
            nextTurn = applySellFillToT (turn state)
              \<lparr>filledQuantity = f_quantity input, previousHoldingQuantity = ratioPrevHolding\<rparr>;
            nextCash = roundToCent (cashRemaining state + f_fillAmount input);
            holdQtyAfterFill = max_num (Fin 0) (f_previousHoldingQty input - f_quantity input)
        in if js_eq holdQtyAfterFill (Fin 0)
           then \<lparr>r_state = \<lparr>turn = Fin 0,
                   cashRemaining = (if f_compoundMode input then nextCash
                                    else min_num nextCash (f_quota input)),
                   cycleSeq = cycleSeq state + Fin 1,
                   lastKnownHoldQty = holdQtyAfterFill\<rparr>,
                 r_cycleCompleted = True,
                 r_discardedExcess = (if f_compoundMode input then Fin 0
                                      else max_num (Fin 0) (nextCash - f_quota input))\<rparr>
           else \<lparr>r_state = \<lparr>turn = nextTurn, cashRemaining = nextCash, cycleSeq = cycleSeq state,
                   lastKnownHoldQty = holdQtyAfterFill\<rparr>,
                 r_cycleCompleted = False, r_discardedExcess = Fin 0\<rparr>)"

section \<open>Cash is exact to the cent\<close>

lemma cents_add:
  assumes "\<bar>k\<bar> \<le> 2 ^ 40" "\<bar>j\<bar> \<le> 2 ^ 40"
  shows "roundToCent (cents k + cents j) = cents (k + j)"
    and "roundToCent (cents k - cents j) = cents (k - j)"
proof -
  obtain p where p: "cents k = Fin p" "\<bar>p * 100 - of_int k\<bar> \<le> 1 / 16" "\<bar>p\<bar> \<le> 2 ^ 40"
    using cents_near [OF assms(1)] by auto
  obtain q where q: "cents j = Fin q" "\<bar>q * 100 - of_int j\<bar> \<le> 1 / 16" "\<bar>q\<bar> \<le> 2 ^ 40"
    using cents_near [OF assms(2)] by auto
  have b: "\<bar>p + q\<bar> \<le> 2 ^ 41" "\<bar>p - q\<bar> \<le> 2 ^ 41"
    using abs_triangle_ineq [of p q] abs_triangle_ineq4 [of p q] p(3) q(3) by simp_all
  have e: "\<bar>rnd x - x\<bar> \<le> 1 / 4096" if "\<bar>x\<bar> \<le> 2 ^ 41" for x :: rat
    using fl_small(2) [OF that] by (rule order_trans) simp_all
  have s: "\<bar>k + j\<bar> \<le> 2 ^ 41" "\<bar>k - j\<bar> \<le> 2 ^ 41" using assms by simp_all
  have "\<bar>rnd (p + q) * 100 - of_int (k + j)\<bar> \<le> 1 / 4"
    using e [OF b(1)] p(2) q(2) by (simp only: abs_le_iff of_int_add) linarith
  then show "roundToCent (cents k + cents j) = cents (k + j)"
    using roundToCent_near [OF _ s(1)] fl_small(1) [OF b(1)] by (simp add: p q add_Fin)
  have "\<bar>rnd (p - q) * 100 - of_int (k - j)\<bar> \<le> 1 / 4"
    using e [OF b(2)] p(2) q(2) by (simp only: abs_le_iff of_int_diff) linarith
  then show "roundToCent (cents k - cents j) = cents (k - j)"
    using roundToCent_near [OF _ s(2)] fl_small(1) [OF b(2)] by (simp add: p q diff_Fin)
qed

text \<open>The signed cash effect of a fill whose amount is a whole number of cents.\<close>

definition fill_cents :: "v4_fill \<Rightarrow> int \<Rightarrow> bool" where
  "fill_cents i c \<longleftrightarrow> f_compoundMode i \<and> \<bar>c\<bar> \<le> 2 ^ 40 \<and>
     f_fillAmount i = cents (case f_side i of BUY \<Rightarrow> - c | SELL \<Rightarrow> c)"

lemma applyV4Fill_cash:
  assumes "cashRemaining s = cents k" "\<bar>k\<bar> \<le> 2 ^ 40" "fill_cents i c"
  shows "cashRemaining (r_state (applyV4Fill s i)) = cents (k + c)"
proof (cases "f_side i")
  case BUY
  then show ?thesis
    using assms cents_add(2) [of k "- c"] by (simp add: applyV4Fill_def fill_cents_def Let_def)
next
  case SELL
  then show ?thesis
    using assms cents_add(1) [of k c] by (simp add: applyV4Fill_def fill_cents_def Let_def)
qed

text \<open>The ledger after a sequence of fills, in the order the callers report them.\<close>

definition applyV4Fills :: "v4_ledger \<Rightarrow> v4_fill list \<Rightarrow> v4_ledger" where
  "applyV4Fills s is = foldl (\<lambda>s i. r_state (applyV4Fill s i)) s is"

lemma abs_sum_list_bound: "\<bar>sum_list (cs :: int list)\<bar> \<le> sum_list (map abs cs)"
  by (induction cs) auto

text \<open>
  (C21) The remaining cash of a compounding V4 ledger is the exact sum, in cents, of the initial cash,
  the sale proceeds and the negated purchase amounts, after any sequence of fills through any number
  of cycles: no rounding drift, although no cent amount is representable.
\<close>

theorem ledger_cash_exact:
  assumes "cashRemaining s = cents k" "list_all2 fill_cents is cs"
    "\<bar>k\<bar> + sum_list (map abs cs) \<le> 2 ^ 40"
  shows "cashRemaining (applyV4Fills s is) = cents (k + sum_list cs)"
  using assms(2,1,3)
proof (induction "is" cs arbitrary: s k rule: list_all2_induct)
  case Nil
  then show ?case by (simp add: applyV4Fills_def)
next
  case (Cons i "is" c cs)
  have nn: "0 \<le> sum_list (map abs cs)" by (rule sum_list_nonneg) auto
  have "cashRemaining (r_state (applyV4Fill s i)) = cents (k + c)"
    using Cons.prems Cons.hyps nn by (intro applyV4Fill_cash) auto
  moreover have "\<bar>k + c\<bar> + sum_list (map abs cs) \<le> 2 ^ 40"
    using Cons.prems(2) by simp
  ultimately have "cashRemaining (applyV4Fills (r_state (applyV4Fill s i)) is) = cents (k + c + sum_list cs)"
    by (rule Cons.IH)
  then show ?case by (simp add: applyV4Fills_def add.assoc)
qed

definition example_fill :: "side \<Rightarrow> int \<Rightarrow> v4_fill" where
  "example_fill sd c = \<lparr>f_side = sd, f_phase = ''v4-avg-buy'', f_quantity = Fin 3, f_fillAmount = cents c,
     f_previousHoldingQty = Fin 3, f_sellRatioPrevHolding = None, f_attemptAmount = None,
     f_N = Fin 40, f_quota = Fin 1000, f_compoundMode = True\<rparr>"

theorem ledger_cash_exact_witness:
  "cashRemaining (applyV4Fills \<lparr>turn = Fin 0, cashRemaining = cents 100000, cycleSeq = Fin 0,
      lastKnownHoldQty = Fin 0\<rparr> [example_fill BUY 3333, example_fill SELL 4107]) = cents 100774"
  using ledger_cash_exact [of "\<lparr>turn = Fin 0, cashRemaining = cents 100000, cycleSeq = Fin 0,
      lastKnownHoldQty = Fin 0\<rparr>" 100000 "[example_fill BUY 3333, example_fill SELL 4107]" "[-3333, 4107]"]
  by (simp add: fill_cents_def example_fill_def)

section \<open>Holding and cycle end\<close>

lemma max_zero_sub_int:
  assumes "\<bar>p\<bar> \<le> 2 ^ 52" "\<bar>q\<bar> \<le> 2 ^ 52"
  shows "max_num (Fin 0) (Fin (of_int p) - Fin (of_int q)) = Fin (of_int (max 0 (p - q)))"
  using diff_Fin_int [of p q] assms by (simp add: max_def)

text \<open>
  The end of a cycle: a fill completes the cycle exactly when it is a sell of at least the whole
  holding; then the turn is zero, the cycle count one higher and the holding empty, and in simple
  (non-compounding) mode the cash kept is at most the quota and is the whole of it when an excess is
  discarded. Any other fill keeps the cycle count and moves the holding by exactly the filled
  quantity.
\<close>

lemma cycle_end:
  assumes "f_previousHoldingQty i = Fin (of_int p)" "f_quantity i = Fin (of_int q)"
    "0 \<le> p" "p \<le> 2 ^ 52" "0 \<le> q" "q \<le> 2 ^ 52" "f_quota i = Fin quota"
    "cashRemaining s + f_fillAmount i = Fin x" "\<bar>x\<bar> \<le> 2 ^ 32"
  shows "(r_cycleCompleted (applyV4Fill s i) \<longleftrightarrow> f_side i = SELL \<and> p \<le> q) \<and>
    (r_cycleCompleted (applyV4Fill s i) \<longrightarrow>
       turn (r_state (applyV4Fill s i)) = Fin 0 \<and>
       cycleSeq (r_state (applyV4Fill s i)) = cycleSeq s + Fin 1 \<and>
       lastKnownHoldQty (r_state (applyV4Fill s i)) = Fin 0 \<and>
       (\<not> f_compoundMode i \<longrightarrow> cashRemaining (r_state (applyV4Fill s i)) \<le> Fin quota \<and>
         (r_discardedExcess (applyV4Fill s i) > Fin 0 \<longrightarrow>
           cashRemaining (r_state (applyV4Fill s i)) = Fin quota))) \<and>
    (\<not> r_cycleCompleted (applyV4Fill s i) \<longrightarrow>
       cycleSeq (r_state (applyV4Fill s i)) = cycleSeq s \<and>
       lastKnownHoldQty (r_state (applyV4Fill s i)) =
         Fin (of_int (case f_side i of BUY \<Rightarrow> p + q | SELL \<Rightarrow> p - q)))"
proof (cases "f_side i")
  case BUY
  then show ?thesis using assms add_Fin_int [of p q] by (simp add: applyV4Fill_def Let_def)
next
  case SELL
  obtain k where k: "roundToCent (Fin x) = cents k" "\<bar>k\<bar> \<le> 2 ^ 40"
    using roundToCent_cents [OF assms(9)] by auto
  obtain c where c: "cents k = Fin c" using cents_near [OF k(2)] by auto
  have h: "max_num (Fin 0) (f_previousHoldingQty i - f_quantity i) = Fin (of_int (max 0 (p - q)))"
    using max_zero_sub_int [of p q] assms by simp
  have mx: "Fin 0 < max_num (Fin 0) (Fin c - Fin quota) \<longrightarrow> min c quota = quota"
  proof
    assume "Fin 0 < max_num (Fin 0) (Fin c - Fin quota)"
    then have "Fin 0 < fl (c - quota)"
      by (auto simp: max_num_def isNaN_def diff_Fin split: if_splits)
    then have "\<not> c - quota \<le> 0" using fl_nonpos [of "c - quota"] js_not_le by (metis fl_not_NaN jsnum.distinct(5))
    then show "min c quota = quota" by simp
  qed
  show ?thesis using SELL assms h k c mx
    by (auto simp: applyV4Fill_def Let_def js_eq_def max_def)
qed

theorem cycle_end_witness:
  "r_cycleCompleted (applyV4Fill \<lparr>turn = Fin 7, cashRemaining = Fin 100, cycleSeq = Fin 2,
      lastKnownHoldQty = Fin 3\<rparr> ((example_fill SELL 0)\<lparr>f_fillAmount := Fin 50\<rparr>))"
  using cycle_end [of "(example_fill SELL 0)\<lparr>f_fillAmount := Fin 50\<rparr>" 3 3 1000
      "\<lparr>turn = Fin 7, cashRemaining = Fin 100, cycleSeq = Fin 2, lastKnownHoldQty = Fin 3\<rparr>" 150]
  by (simp add: example_fill_def add_Fin)

end
