(* ===== verification/StrategyTypes.thy ===== *)
theory StrategyTypes imports V4Math begin

text \<open>
  The data the strategies read and produce (\<open>src/trading/types\<close>): the watched stock, the market
  snapshot of one evaluation, the portfolio risk state with the drawdown test, and the signals. The
  parameters a stock stores as JSON are the type argument \<open>'p\<close>, the explanation of a signal and its
  metadata are \<open>'r\<close> and \<open>'m\<close>. A \<open>Date\<close> is its epoch time in milliseconds. The last sections hold
  the guards all strategies share and the contract their signals obey.
\<close>

section \<open>Watched stock, price, position\<close>

record 'p watch_stock =
  ws_id :: string
  ws_broker :: broker
  ws_market :: market
  ws_exchangeCode :: string
  ws_stockCode :: string
  ws_stockName :: string
  ws_strategyName :: "string option"
  ws_quota :: "jsnum option"
  ws_cycle :: jsnum
  ws_maxCycles :: jsnum
  ws_stopLossRate :: jsnum
  ws_maxPortfolioRate :: jsnum
  ws_strategyParams :: "'p option"

text \<open>The part of \<open>StockPriceResult\<close> the strategies read.\<close>

record stock_price =
  px_currentPrice :: jsnum
  px_openPrice :: jsnum
  px_highPrice :: jsnum
  px_lowPrice :: jsnum
  px_volume :: jsnum
  px_tradingValue :: "jsnum option"

record stock_position =
  pos_stockCode :: string
  pos_quantity :: jsnum
  pos_avgPrice :: jsnum
  pos_currentPrice :: jsnum
  pos_totalInvested :: jsnum

section \<open>Indicators, fundamentals, market and risk\<close>

text \<open>The indicators the strategies read; each may be missing.\<close>

record stock_indicators =
  rsi14 :: "jsnum option"
  volatility30d :: "jsnum option"
  ma20 :: "jsnum option"
  ma60 :: "jsnum option"
  bollingerUpper :: "jsnum option"
  bollingerMiddle :: "jsnum option"
  bollingerLower :: "jsnum option"
  macdHistogram :: "jsnum option"
  macdPrevHistogram :: "jsnum option"
  adx14 :: "jsnum option"
  atr14 :: "jsnum option"
  atrPercent :: "jsnum option"
  avgVolume20 :: "jsnum option"
  volumeRatio :: "jsnum option"
  prevHigh :: "jsnum option"
  prevLow :: "jsnum option"
  prevClose :: "jsnum option"
  todayOpen :: "jsnum option"
  foreignNetBuy :: "bool option"
  institutionNetBuy :: "bool option"
  programTradeDirection :: "side option"
  investCautionYn :: "bool option"
  marketWarnCode :: "string option"
  shortOverheatYn :: "bool option"
  d250HighRate :: "jsnum option"
  d250LowRate :: "jsnum option"
  yearLowRate :: "jsnum option"
  loanBalanceRate :: "jsnum option"
  shortSellable :: "bool option"
  dividendYield :: "jsnum option"
  targetPriceUpside :: "jsnum option"
  consensusRating :: "string option"
  earningsSurprise :: "jsnum option"
  recentMaterialDisclosureCount30d :: "jsnum option"
  recentSecForm8KCount30d :: "jsnum option"

record stock_fundamentals =
  per :: "jsnum option"
  pbr :: "jsnum option"
  roe :: "jsnum option"
  debtRatio :: "jsnum option"
  eps :: "jsnum option"
  salesGrowthRate :: "jsnum option"
  operatingProfitGrowthRate :: "jsnum option"
  evEbitda :: "jsnum option"
  dividendPayoutRate :: "jsnum option"

record risk_state =
  rs_buyBlocked :: bool
  rs_liquidateAll :: bool
  rs_positionCount :: jsnum
  rs_investedRate :: jsnum
  rs_dailyPnlRate :: jsnum
  rs_drawdown :: jsnum
  rs_reasons :: "string list"

record mdd_check =
  buyBlocked :: bool
  liquidateAll :: bool

definition evaluateStrategyMdd :: "jsnum \<Rightarrow> jsnum \<Rightarrow> jsnum \<Rightarrow> mdd_check" where
  "evaluateStrategyMdd drawdown mddBuyBlock mddLiquidate =
     \<lparr>buyBlocked = (drawdown \<le> mddBuyBlock), liquidateAll = (drawdown \<le> mddLiquidate)\<rparr>"

section \<open>Evaluation context, signals and results\<close>

datatype evaluation_mode = Realtime | DailyBar

record 'p strategy_context =
  watchStock :: "'p watch_stock"
  price :: stock_price
  position :: "stock_position option"
  alreadyExecutedToday :: bool
  stockIndicators :: stock_indicators
  fundamentals :: "stock_fundamentals option"
  buyableAmount :: jsnum
  totalPortfolioValue :: jsnum
  riskState :: "risk_state option"
  evaluationMode :: "evaluation_mode option"
  hasOpenBuyOrder :: "bool option"
  hasOpenSellOrder :: "bool option"
  now :: "int option"

record ('r, 'm) signal =
  sg_market :: market
  sg_exchangeCode :: string
  sg_stockCode :: string
  sg_side :: side
  sg_quantity :: jsnum
  sg_price :: "jsnum option"
  sg_reason :: 'r
  sg_orderDivision :: "string option"
  sg_metadata :: "'m option"

record ('r, 'm, 's, 'd) evaluation =
  signals :: "('r, 'm) signal list"
  skipReasons :: "'s list"
  details :: "'d option"

text \<open>The results the early returns build: signals alone, or a single reason to skip.\<close>

definition emit :: "('r, 'm) signal list \<Rightarrow> ('r, 'm, 's, 'd) evaluation" where
  "emit ss = \<lparr>signals = ss, skipReasons = [], details = None\<rparr>"

definition skip :: "'s \<Rightarrow> ('r, 'm, 's, 'd) evaluation" where
  "skip s = \<lparr>signals = [], skipReasons = [s], details = None\<rparr>"

lemma emit_simps [simp]: "signals (emit ss) = ss" "skipReasons (emit ss) = []" "details (emit ss) = None"
  by (simp_all add: emit_def)

lemma skip_simps [simp]: "signals (skip s) = []" "skipReasons (skip s) = [s]" "details (skip s) = None"
  by (simp_all add: skip_def)

section \<open>What every strategy computes first\<close>

text \<open>\<open>x?.flag\<close> used as a condition, and a comparison with an indicator that may be missing.\<close>

definition flag :: "bool option \<Rightarrow> bool" where
  "flag b \<longleftrightarrow> b = Some True"

definition given :: "(jsnum \<Rightarrow> bool) \<Rightarrow> jsnum option \<Rightarrow> bool" where
  "given P x = (case x of None \<Rightarrow> False | Some v \<Rightarrow> P v)"

lemma flag_simps [simp]: "\<not> flag None" "flag (Some b) = b"
  by (simp_all add: flag_def)

lemma given_simps [simp]: "\<not> given P None" "given P (Some v) = P v"
  by (simp_all add: given_def)

definition hasPosition :: "'p strategy_context \<Rightarrow> bool" where
  "hasPosition ctx = (case position ctx of None \<Rightarrow> False | Some p \<Rightarrow> pos_quantity p > Fin 0)"

text \<open>The position when \<open>hasPosition\<close> holds, \<open>position!\<close> in the branches it guards.\<close>

definition held_position :: "'p strategy_context \<Rightarrow> stock_position option" where
  "held_position ctx = (if hasPosition ctx then position ctx else None)"

text \<open>The held quantity, zero without a position.\<close>

definition held :: "'p strategy_context \<Rightarrow> jsnum" where
  "held ctx = (case position ctx of None \<Rightarrow> Fin 0 | Some p \<Rightarrow> pos_quantity p)"

text \<open>\<open>riskState?.reasons?.join(', ')\<close>.\<close>

definition joined_reasons :: "'p strategy_context \<Rightarrow> string option" where
  "joined_reasons ctx = map_option (\<lambda>rs. join_with '', '' (rs_reasons rs)) (riskState ctx)"

text \<open>Won prices are whole numbers, dollar prices whole cents.\<close>

definition roundPrice :: "market \<Rightarrow> jsnum \<Rightarrow> jsnum" where
  "roundPrice m p = (case m of OVERSEAS \<Rightarrow> round_num (p * Fin 100) / Fin 100 | DOMESTIC \<Rightarrow> round_num p)"

definition mddCheck :: "jsnum \<Rightarrow> jsnum \<Rightarrow> 'p strategy_context \<Rightarrow> mdd_check option" where
  "mddCheck block liquidate ctx =
     map_option (\<lambda>rs. evaluateStrategyMdd (rs_drawdown rs) block liquidate) (riskState ctx)"

definition risk_buy_blocked :: "'p strategy_context \<Rightarrow> mdd_check option \<Rightarrow> bool" where
  "risk_buy_blocked ctx m \<longleftrightarrow>
     flag (map_option rs_buyBlocked (riskState ctx)) \<or> flag (map_option buyBlocked m)"

text \<open>The warning code test \<open>code && code !== '00'\<close>.\<close>

definition market_warned :: "stock_indicators \<Rightarrow> bool" where
  "market_warned ind = (case marketWarnCode ind of None \<Rightarrow> False | Some c \<Rightarrow> c \<noteq> [] \<and> c \<noteq> ''00'')"

text \<open>
  The test \<open>/(SELL|REDUCE|...)/i\<close> on a consensus rating; text is its UTF-8 bytes, the last two words
  are the Korean terms for reducing the weight and for selling.
\<close>

fun is_prefix :: "string \<Rightarrow> string \<Rightarrow> bool" where
  "is_prefix [] s = True"
| "is_prefix (c # p) [] = False"
| "is_prefix (c # p) (d # s) \<longleftrightarrow> c = d \<and> is_prefix p s"

fun contains_text :: "string \<Rightarrow> string \<Rightarrow> bool" where
  "contains_text p [] \<longleftrightarrow> p = []"
| "contains_text p (c # s) \<longleftrightarrow> is_prefix p (c # s) \<or> contains_text p s"

definition negative_rating :: "string \<Rightarrow> bool" where
  "negative_rating rating \<longleftrightarrow>
     list_ex (\<lambda>w. contains_text w (to_upper rating))
       [''SELL'', ''REDUCE'',
        [CHR 0xEB, CHR 0xB9, CHR 0x84, CHR 0xEC, CHR 0xA4, CHR 0x91, CHR 0xEC, CHR 0xB6, CHR 0x95,
         CHR 0xEC, CHR 0x86, CHR 0x8C],
        [CHR 0xEB, CHR 0xA7, CHR 0xA4, CHR 0xEB, CHR 0x8F, CHR 0x84]]"

text \<open>A signal of the watched stock.\<close>

definition order ::
  "'p strategy_context \<Rightarrow> side \<Rightarrow> jsnum \<Rightarrow> jsnum option \<Rightarrow> 'r \<Rightarrow> string option \<Rightarrow> 'm option \<Rightarrow> ('r, 'm) signal" where
  "order ctx sd q p r od m =
     \<lparr>sg_market = ws_market (watchStock ctx), sg_exchangeCode = ws_exchangeCode (watchStock ctx),
      sg_stockCode = ws_stockCode (watchStock ctx), sg_side = sd, sg_quantity = q, sg_price = p,
      sg_reason = r, sg_orderDivision = od, sg_metadata = m\<rparr>"

lemma order_simps [simp]:
  "sg_market (order ctx sd q p r od m) = ws_market (watchStock ctx)"
  "sg_exchangeCode (order ctx sd q p r od m) = ws_exchangeCode (watchStock ctx)"
  "sg_stockCode (order ctx sd q p r od m) = ws_stockCode (watchStock ctx)"
  "sg_side (order ctx sd q p r od m) = sd" "sg_quantity (order ctx sd q p r od m) = q"
  "sg_price (order ctx sd q p r od m) = p" "sg_reason (order ctx sd q p r od m) = r"
  "sg_orderDivision (order ctx sd q p r od m) = od" "sg_metadata (order ctx sd q p r od m) = m"
  by (simp_all add: order_def)

end
