(* ===== verification/StrategyContract.thy ===== *)
theory StrategyContract imports StrategyTypes begin

text \<open>
  The contract between a strategy and its callers (the orchestrator and the simulation), as
  interfaces: the signals of one evaluation are for the watched stock, order a positive quantity,
  never sell more than is held, and there are none without a valid price. A strategy that emits at
  most one signal meets the general contract. Also the affordability of a buy quantity
  \<open>Math.floor(amount / price)\<close>.
\<close>

section \<open>Signals\<close>

definition signal_ok :: "'p strategy_context \<Rightarrow> ('r, 'm) signal \<Rightarrow> bool" where
  "signal_ok ctx s \<longleftrightarrow>
     sg_market s = ws_market (watchStock ctx) \<and> sg_exchangeCode s = ws_exchangeCode (watchStock ctx) \<and>
     sg_stockCode s = ws_stockCode (watchStock ctx) \<and> Fin 0 < sg_quantity s \<and>
     (sg_side s = SELL \<longrightarrow> hasPosition ctx \<and> sg_quantity s \<le> held ctx)"

lemma signal_ok_order [simp]:
  "signal_ok ctx (order ctx sd q p r od m) \<longleftrightarrow>
     Fin 0 < q \<and> (sd = SELL \<longrightarrow> hasPosition ctx \<and> q \<le> held ctx)"
  by (simp add: signal_ok_def)

text \<open>The quantity all the sell signals of an evaluation ask for together.\<close>

fun qty_of :: "jsnum \<Rightarrow> rat" where
  "qty_of (Fin x) = x"
| "qty_of _ = 0"

definition sold :: "('r, 'm) signal list \<Rightarrow> rat" where
  "sold ss = sum_list (map (\<lambda>s. if sg_side s = SELL then qty_of (sg_quantity s) else 0) ss)"

lemma sold_simps [simp]:
  "sold [] = 0"
  "sold (s # ss) = (if sg_side s = SELL then qty_of (sg_quantity s) else 0) + sold ss"
  "sold (ss @ ts) = sold ss + sold ts"
  by (simp_all add: sold_def)

lemma sold_buys: "(\<And>s. s \<in> set ss \<Longrightarrow> sg_side s = BUY) \<Longrightarrow> sold ss = 0"
  by (induction ss) auto

lemma hasPosition_held [simp]: "hasPosition ctx \<Longrightarrow> Fin 0 < held ctx"
  by (auto simp: hasPosition_def held_def split: option.splits)

lemma hasPosition_held_num [simp]: "hasPosition ctx \<Longrightarrow> held ctx \<noteq> NaN"
  by (auto simp: hasPosition_def held_def split: option.splits)

lemma held_positionD:
  assumes "held_position ctx = Some p"
  shows "hasPosition ctx \<and> held ctx = pos_quantity p \<and> position ctx = Some p \<and> Fin 0 < pos_quantity p \<and>
    pos_quantity p \<noteq> NaN"
  using assms by (auto simp: held_position_def hasPosition_def held_def split: if_splits option.splits)

lemma held_position_None: "held_position ctx = None \<longleftrightarrow> \<not> hasPosition ctx"
  by (auto simp: held_position_def hasPosition_def split: option.splits)

lemma hasPosition_held_iff: "hasPosition ctx \<longleftrightarrow> Fin 0 < held ctx"
  by (auto simp: hasPosition_def held_def split: option.splits)

text \<open>Shares come in whole numbers; a fractional holding is outside the contract.\<close>

definition whole_holding :: "'p strategy_context \<Rightarrow> nat \<Rightarrow> bool" where
  "whole_holding ctx h \<longleftrightarrow> held ctx = Fin (of_nat h) \<and> h \<le> 2 ^ 53"

lemma whole_holding_pos: "whole_holding ctx h \<Longrightarrow> hasPosition ctx \<Longrightarrow> 1 \<le> h"
  by (auto simp: whole_holding_def hasPosition_held_iff)

section \<open>The interfaces\<close>

locale strategy =
  fixes supported :: "'p strategy_context \<Rightarrow> bool"
    and evaluate :: "'p strategy_context \<Rightarrow> ('r, 'm, 's, 'd) evaluation"
  assumes signals_ok: "supported ctx \<Longrightarrow> whole_holding ctx h \<Longrightarrow> s \<in> set (signals (evaluate ctx)) \<Longrightarrow> signal_ok ctx s"
    and no_oversell: "supported ctx \<Longrightarrow> whole_holding ctx h \<Longrightarrow> sold (signals (evaluate ctx)) \<le> of_nat h"
    and no_price: "px_currentPrice (price ctx) \<le> Fin 0 \<Longrightarrow> signals (evaluate ctx) = []"
begin

lemma quantity_positive:
  "supported ctx \<Longrightarrow> whole_holding ctx h \<Longrightarrow> s \<in> set (signals (evaluate ctx)) \<Longrightarrow> Fin 0 < sg_quantity s"
  using signals_ok by (auto simp: signal_ok_def)

lemma no_short_sale:
  assumes "supported ctx" "whole_holding ctx 0" "s \<in> set (signals (evaluate ctx))"
  shows "sg_side s = BUY"
  using assms signals_ok [OF assms] by (cases "sg_side s") (auto simp: signal_ok_def whole_holding_def hasPosition_held_iff)

text \<open>What the caller relies on when it submits the signals in order: at no point does a sell exceed
  what is left of the holding.\<close>

lemma sell_prefix_within_holding:
  assumes w: "supported ctx" "whole_holding ctx h" and "signals (evaluate ctx) = ss @ s # ts" "sg_side s = SELL"
  shows "qty_of (sg_quantity s) \<le> of_nat h - sold ss"
proof -
  have nn: "0 \<le> sold us" if "set us \<subseteq> set (signals (evaluate ctx))" for us
    using that
  proof (induction us)
    case (Cons u us)
    then have "Fin 0 < sg_quantity u" using quantity_positive [OF w] by auto
    then have "0 \<le> qty_of (sg_quantity u)" by (cases "sg_quantity u") auto
    then show ?case using Cons by auto
  qed simp
  have "0 \<le> sold ts" using assms(3) by (intro nn) auto
  then show ?thesis using no_oversell [OF w] assms(3,4) by simp
qed

end

text \<open>A strategy that emits at most one signal.\<close>

locale single_order_strategy =
  fixes evaluate :: "'p strategy_context \<Rightarrow> ('r, 'm, 's, 'd) evaluation"
  assumes sole: "whole_holding ctx h \<Longrightarrow> s \<in> set (signals (evaluate ctx)) \<Longrightarrow>
      signals (evaluate ctx) = [s] \<and> signal_ok ctx s"
    and priced: "px_currentPrice (price ctx) \<le> Fin 0 \<Longrightarrow> signals (evaluate ctx) = []"

sublocale single_order_strategy \<subseteq> strategy "\<lambda>_. True" evaluate
proof
  show "whole_holding ctx h \<Longrightarrow> s \<in> set (signals (evaluate ctx)) \<Longrightarrow> signal_ok ctx s" for s ctx h
    using sole by blast
  show "px_currentPrice (price ctx) \<le> Fin 0 \<Longrightarrow> signals (evaluate ctx) = []" for ctx by (rule priced)
  show "sold (signals (evaluate ctx)) \<le> of_nat h" if w: "whole_holding ctx h" for ctx h
  proof (cases "signals (evaluate ctx)")
    case (Cons s ss)
    then have "ss = [] \<and> signal_ok ctx s" using sole [OF w, of s] by auto
    then show ?thesis using Cons w
      by (cases "sg_quantity s") (auto simp: signal_ok_def whole_holding_def)
  qed simp
qed

section \<open>Buy quantities\<close>

text \<open>
  A buy of \<open>Math.floor(amount / price)\<close> shares costs at most the amount, up to one rounding error of
  the division.
\<close>

lemma buy_quantity_cost:
  assumes "0 \<le> b" "0 < c" "b / c \<le> 2 ^ 60"
  shows "\<exists>n. floor_num (Fin b / Fin c) = Fin (of_int n) \<and> 0 \<le> n \<and> of_int n * c \<le> b * (1 + 1 / 2 ^ 53)"
proof -
  let ?q = "b / c"
  have q: "0 \<le> ?q" using assms by simp
  have f: "fl ?q = Fin (rnd ?q)" using fl_power2_bounds(1) [of 60 ?q] q assms(3) by simp
  have nn: "0 \<le> rnd ?q" by (rule rnd_nonneg [OF q])
  have half: "rnd (1 / 2) = (1 / 2 :: rat)" by (simp add: fl_eval)
  have "of_int \<lfloor>rnd ?q\<rfloor> * c \<le> b * (1 + 1 / 2 ^ 53)"
  proof (cases "1 / 2 \<le> ?q")
    case True
    have "(2::rat) powi (-1022) \<le> 2 powi (-1)" by (rule rat_powi_mono) simp
    also have "\<dots> = 1 / 2" by simp
    finally have "\<bar>rnd ?q - ?q\<bar> \<le> ?q / 2 ^ 53"
      using rnd_error_rel [of ?q] True q by (simp only: abs_of_nonneg)
    then have "rnd ?q \<le> ?q + ?q / 2 ^ 53" by linarith
    then have "of_int \<lfloor>rnd ?q\<rfloor> \<le> ?q + ?q / 2 ^ 53" using of_int_floor_le order_trans by blast
    then have "of_int \<lfloor>rnd ?q\<rfloor> * c \<le> (?q + ?q / 2 ^ 53) * c" using assms(2) by (simp only: mult_right_mono)
    also have "\<dots> = b * (1 + 1 / 2 ^ 53)" using assms(2) by (simp add: field_simps)
    finally show ?thesis .
  next
    case False
    then have "rnd ?q \<le> 1 / 2" using rnd_mono [of ?q "1 / 2"] half by simp
    then have "\<lfloor>rnd ?q\<rfloor> = 0" using nn by (simp add: floor_eq_iff)
    then show ?thesis using assms(1) by simp
  qed
  then show ?thesis using f nn assms(2) by (auto simp: div_Fin)
qed

text \<open>The share \<open>Math.max(1, Math.floor(holding / k))\<close> of a whole holding is a whole part of it.\<close>

lemma share_of_holding:
  assumes "h \<le> 2 ^ 53" "1 \<le> k"
  shows "\<exists>q. floor_num (Fin (of_nat h) / Fin k) = Fin (of_nat q) \<and> q \<le> h"
proof -
  let ?x = "of_nat h / k :: rat"
  have d: "dbl (Fin (of_nat h))" "dbl (Fin 0)" using dbl_int [of "int h"] assms by (simp_all add: dbl_Fin)
  have x: "0 \<le> ?x" "?x \<le> of_nat h" using assms(2) by (simp_all add: divide_le_eq mult_le_cancel_left1)
  have f: "fl ?x = Fin (rnd ?x)" "0 \<le> rnd ?x" "rnd ?x \<le> of_nat h"
    using fl_between [OF d(2,1) x] by simp_all
  then have "\<lfloor>rnd ?x\<rfloor> \<le> int h" "0 \<le> \<lfloor>rnd ?x\<rfloor>" by (simp_all add: floor_le_iff)
  then have "of_int \<lfloor>rnd ?x\<rfloor> = (of_nat (nat \<lfloor>rnd ?x\<rfloor>) :: rat)" "nat \<lfloor>rnd ?x\<rfloor> \<le> h" by simp_all
  then show ?thesis using f assms(2) by (auto simp: div_Fin intro!: exI [of _ "nat \<lfloor>rnd ?x\<rfloor>"])
qed

lemma part_of_holding:
  assumes "1 \<le> h" "h \<le> 2 ^ 53" "1 \<le> k"
  shows "\<exists>q. max_num (Fin 1) (floor_num (Fin (of_nat h) / Fin k)) = Fin (of_nat q) \<and> 1 \<le> q \<and> q \<le> h"
proof -
  obtain q where "floor_num (Fin (of_nat h) / Fin k) = Fin (of_nat q)" "q \<le> h"
    using share_of_holding assms by blast
  then show ?thesis using assms(1) by (intro exI [of _ "max 1 q"]) (simp add: of_nat_max max_def)
qed

text \<open>The same for the minimum of a quota and the buyable amount, as the strategies compute it.\<close>

lemma buy_affordable:
  assumes "Fin 0 < floor_num (min_num x (Fin b) / Fin c)" "0 < c" "b / c \<le> 2 ^ 60"
  shows "\<exists>n. floor_num (min_num x (Fin b) / Fin c) = Fin (of_int n) \<and> 1 \<le> n \<and>
    of_int n * c \<le> b * (1 + 1 / 2 ^ 53) \<and> (case x of Fin q \<Rightarrow> of_int n * c \<le> q * (1 + 1 / 2 ^ 53) | _ \<Rightarrow> True)"
proof -
  have main: ?thesis if a: "min_num x (Fin b) = Fin a" "a \<le> b" "\<And>q. x = Fin q \<Longrightarrow> a \<le> q" for a
  proof -
    have pos: "0 \<le> a"
    proof (rule ccontr)
      assume "\<not> 0 \<le> a"
      then have "fl (a / c) \<le> Fin 0" using assms(2) by (intro fl_nonpos) (simp add: divide_le_0_iff)
      then have "floor_num (fl (a / c)) \<le> floor_num (Fin 0)" by (rule floor_num_mono)
      then show False using assms(1,2) a(1) by (simp add: div_Fin) (metis js_less_le_trans less_irrefl_js)
    qed
    have "a / c \<le> b / c" using a(2) assms(2) by (simp add: divide_right_mono)
    then have "a / c \<le> 2 ^ 60" using assms(3) by linarith
    then obtain n where n: "floor_num (Fin a / Fin c) = Fin (of_int n)" "0 \<le> n"
        "of_int n * c \<le> a * (1 + 1 / 2 ^ 53)"
      using buy_quantity_cost [OF pos assms(2)] by auto
    have le: "of_int n * c \<le> d * (1 + 1 / 2 ^ 53)" if "a \<le> d" for d
      using n(3) mult_right_mono [OF that, of "1 + 1 / 2 ^ 53"] by simp
    have "1 \<le> n" using assms(1) n(1) a(1) by simp
    then show ?thesis using n a le by (auto split: jsnum.split)
  qed
  show ?thesis
  proof (cases x)
    case (Fin q)
    then show ?thesis using main [of "min q b"] by simp
  next
    case PInf
    then show ?thesis using main [of b] by simp
  qed (use assms in \<open>auto simp: js_defs floor_num_def\<close>)
qed

section \<open>Concrete contexts\<close>

text \<open>An evaluation without any indicator, used to instantiate the theorems.\<close>

definition no_indicators :: stock_indicators where
  "no_indicators = \<lparr>
    rsi14 = None, volatility30d = None, ma20 = None, ma60 = None, bollingerUpper = None,
    bollingerMiddle = None, bollingerLower = None, macdHistogram = None,
    macdPrevHistogram = None, adx14 = None, atr14 = None, atrPercent = None, avgVolume20 = None,
    volumeRatio = None, prevHigh = None, prevLow = None, prevClose = None, todayOpen = None,
    foreignNetBuy = None, institutionNetBuy = None, programTradeDirection = None,
    investCautionYn = None, marketWarnCode = None, shortOverheatYn = None, d250HighRate = None,
    d250LowRate = None, yearLowRate = None, loanBalanceRate = None, shortSellable = None,
    dividendYield = None, targetPriceUpside = None, consensusRating = None,
    earningsSurprise = None, recentMaterialDisclosureCount30d = None,
    recentSecForm8KCount30d = None\<rparr>"

definition example_ctx ::
  "market \<Rightarrow> 'p option \<Rightarrow> rat \<Rightarrow> stock_position option \<Rightarrow> 'p strategy_context" where
  "example_ctx m params cur pos = \<lparr>
    watchStock = \<lparr>ws_id = ''w1'', ws_broker = KIS, ws_market = m, ws_exchangeCode = ''NASD'',
      ws_stockCode = ''TQQQ'', ws_stockName = ''TQQQ'', ws_strategyName = None,
      ws_quota = Some (Fin 10000), ws_cycle = Fin 1, ws_maxCycles = Fin 40,
      ws_stopLossRate = Fin (1 / 2), ws_maxPortfolioRate = Fin 1, ws_strategyParams = params\<rparr>,
    price = \<lparr>px_currentPrice = Fin cur, px_openPrice = Fin cur, px_highPrice = Fin cur,
      px_lowPrice = Fin cur, px_volume = Fin 0, px_tradingValue = None\<rparr>,
    position = pos, alreadyExecutedToday = False, stockIndicators = no_indicators,
    fundamentals = None, buyableAmount = Fin 1000, totalPortfolioValue = Fin 0, riskState = None,
    evaluationMode = None, hasOpenBuyOrder = None, hasOpenSellOrder = None, now = Some 0\<rparr>"

definition example_position :: "rat \<Rightarrow> rat \<Rightarrow> stock_position" where
  "example_position q avg = \<lparr>pos_stockCode = ''TQQQ'', pos_quantity = Fin q, pos_avgPrice = Fin avg,
    pos_currentPrice = Fin avg, pos_totalInvested = Fin (q * avg)\<rparr>"

end
