(* ===== verification/DailyDca.thy ===== *)
theory DailyDca imports StrategyContract begin

text \<open>
  The daily installment strategy (\<open>src/trading/strategy/daily-dca.strategy.ts\<close>): risk liquidation,
  stop loss, take profit, and the daily buy out of the per-cycle quota plus the carried-over amount.
  The lemmas show that it meets the strategy contract, when it sells, and what its buy costs.
\<close>

section \<open>The strategy\<close>

datatype dca_reason =
    DcaRiskLiquidation string
  | DcaStopLoss jsnum jsnum
  | DcaTakeProfit jsnum
  | DcaBuy jsnum jsnum

datatype dca_skip =
    DcaNoQuota
  | DcaInvalidPrice
  | DcaAlreadyExecuted
  | DcaInvestCaution
  | DcaMarketWarning "string option"
  | DcaRiskBlocked string
  | DcaQuotaExhausted jsnum jsnum
  | DcaNoCash jsnum
  | DcaBelowOneShare jsnum jsnum

record dca_params =
  dp_accumulatedQuota :: "jsnum option"

record dca_details =
  dd_preCashCappedQuota :: jsnum
  dd_adjustedQuota :: jsnum
  dd_minimumExecutablePrice :: "jsnum option"

definition dca_mddBuyBlock :: jsnum where "dca_mddBuyBlock = - lit (20 / 100)"
definition dca_mddLiquidate :: jsnum where "dca_mddLiquidate = - lit (30 / 100)"

type_synonym dca_evaluation = "(dca_reason, unit, dca_skip, dca_details) evaluation"

definition dca_evaluateStock :: "dca_params strategy_context \<Rightarrow> dca_evaluation" where
  "dca_evaluateStock ctx =
    (let ws = watchStock ctx; curPrice = px_currentPrice (price ctx) in
     if \<not> truthy (coalesce (ws_quota ws) NaN) \<or> coalesce (ws_quota ws) NaN \<le> Fin 0
       then skip DcaNoQuota
     else if curPrice \<le> Fin 0 then skip DcaInvalidPrice
     else
     let quota = coalesce (ws_quota ws) NaN;
         totalInvested = or_opt (map_option pos_totalInvested (position ctx)) (Fin 0);
         perCycleQuota = quota / ws_maxCycles ws;
         avgPrice = or_opt (map_option pos_avgPrice (position ctx)) curPrice;
         holdQty = or_opt (map_option pos_quantity (position ctx)) (Fin 0);
         mdd = mddCheck dca_mddBuyBlock dca_mddLiquidate ctx;
         rp = roundPrice (ws_market ws)
     in
     if (flag (map_option rs_liquidateAll (riskState ctx)) \<or> flag (map_option liquidateAll mdd))
         \<and> hasPosition ctx
       then emit [order ctx SELL holdQty (Some (rp curPrice))
         (DcaRiskLiquidation (or_str (joined_reasons ctx) ''MDD'')) (Some ''00'') None]
     else if hasPosition ctx \<and> curPrice < avgPrice * (Fin 1 - ws_stopLossRate ws)
       then emit [order ctx SELL holdQty (Some (rp curPrice))
         (DcaStopLoss ((Fin 1 - curPrice / avgPrice) * Fin 100) (ws_stopLossRate ws * Fin 100))
         (Some ''00'') None]
     else if alreadyExecutedToday ctx then skip DcaAlreadyExecuted
     else if hasPosition ctx \<and> curPrice \<ge> avgPrice * lit (110 / 100)
       then emit [order ctx SELL holdQty (Some (rp curPrice))
         (DcaTakeProfit ((curPrice / avgPrice - Fin 1) * Fin 100)) (Some ''00'') None]
     else if \<not> hasPosition ctx \<and> flag (investCautionYn (stockIndicators ctx)) then skip DcaInvestCaution
     else if \<not> hasPosition ctx \<and> market_warned (stockIndicators ctx)
       then skip (DcaMarketWarning (marketWarnCode (stockIndicators ctx)))
     else if risk_buy_blocked ctx mdd then skip (DcaRiskBlocked (or_str (joined_reasons ctx) ''MDD''))
     else if totalInvested \<ge> quota then skip (DcaQuotaExhausted totalInvested quota)
     else
     let accumulatedQuota = or_opt (Option.bind (ws_strategyParams ws) dp_accumulatedQuota) (Fin 0);
         preCashCappedQuota = perCycleQuota + accumulatedQuota;
         adjustedQuota = min_num preCashCappedQuota (buyableAmount ctx);
         buyQty = floor_num (adjustedQuota / curPrice)
     in
     if buyQty > Fin 0
     then \<lparr>signals = [order ctx BUY buyQty (Some (rp curPrice)) (DcaBuy buyQty (rp curPrice)) (Some ''00'') None],
           skipReasons = [],
           details = Some \<lparr>dd_preCashCappedQuota = preCashCappedQuota, dd_adjustedQuota = adjustedQuota,
             dd_minimumExecutablePrice = None\<rparr>\<rparr>
     else \<lparr>signals = [],
           skipReasons = [if buyableAmount ctx \<le> Fin 0 then DcaNoCash (buyableAmount ctx)
             else DcaBelowOneShare adjustedQuota (rp curPrice)],
           details = Some \<lparr>dd_preCashCappedQuota = preCashCappedQuota, dd_adjustedQuota = adjustedQuota,
             dd_minimumExecutablePrice = Some adjustedQuota\<rparr>\<rparr>)"

section \<open>The contract\<close>

lemma or_opt_held:
  "hasPosition ctx \<Longrightarrow> or_opt (map_option pos_quantity (position ctx)) d = held ctx"
  by (cases "held ctx")
    (auto simp: hasPosition_def held_def or_num_def truthy_def split: option.splits)

lemma dca_signals:
  assumes "s \<in> set (signals (dca_evaluateStock ctx))"
  shows "signals (dca_evaluateStock ctx) = [s] \<and> signal_ok ctx s"
  using assms by (auto simp: dca_evaluateStock_def Let_def or_opt_held split: if_splits)

lemma dca_no_price: "px_currentPrice (price ctx) \<le> Fin 0 \<Longrightarrow> signals (dca_evaluateStock ctx) = []"
  by (simp add: dca_evaluateStock_def Let_def)

interpretation dca: single_order_strategy dca_evaluateStock
  by unfold_locales (use dca_signals dca_no_price in blast)+

section \<open>When it trades\<close>

text \<open>The three sell conditions, as the strategy tests them.\<close>

definition dca_risk_exit :: "dca_params strategy_context \<Rightarrow> bool" where
  "dca_risk_exit ctx \<longleftrightarrow> (\<exists>rs. riskState ctx = Some rs \<and> (rs_liquidateAll rs \<or> rs_drawdown rs \<le> dca_mddLiquidate))"

definition dca_avg :: "dca_params strategy_context \<Rightarrow> jsnum" where
  "dca_avg ctx = or_opt (map_option pos_avgPrice (position ctx)) (px_currentPrice (price ctx))"

lemma dca_risk_exit_iff:
  "dca_risk_exit ctx \<longleftrightarrow> flag (map_option rs_liquidateAll (riskState ctx)) \<or>
     flag (map_option liquidateAll (mddCheck dca_mddBuyBlock dca_mddLiquidate ctx))"
  by (cases "riskState ctx") (auto simp: dca_risk_exit_def mddCheck_def evaluateStrategyMdd_def)

text \<open>
  The daily installment strategy sells exactly when, with a quota, a valid price and a position,
  the risk state or the drawdown asks for liquidation, or the price is below the stop line, or
  (unless it already ran today) at least ten percent above the average; it then sells the whole
  holding and does nothing else. In particular the once-a-day guard and the buy block never suppress
  a protective sell.
\<close>

lemma dca_sells_iff:
  assumes "ws_quota (watchStock ctx) = Some (Fin k)" "0 < k" "px_currentPrice (price ctx) = Fin c" "0 < c"
  shows "((\<exists>s \<in> set (signals (dca_evaluateStock ctx)). sg_side s = SELL) \<longleftrightarrow>
      hasPosition ctx \<and> (dca_risk_exit ctx \<or>
        Fin c < dca_avg ctx * (Fin 1 - ws_stopLossRate (watchStock ctx)) \<or>
        (\<not> alreadyExecutedToday ctx \<and> Fin c \<ge> dca_avg ctx * lit (110 / 100)))) \<and>
    ((\<exists>s \<in> set (signals (dca_evaluateStock ctx)). sg_side s = SELL) \<longrightarrow>
      map sg_quantity (signals (dca_evaluateStock ctx)) = [held ctx])"
  using assms
  by (auto simp: dca_evaluateStock_def Let_def or_opt_held dca_risk_exit_iff dca_avg_def split: if_splits)

theorem dca_sells_iff_witness:
  "map sg_quantity (signals (dca_evaluateStock
     ((example_ctx DOMESTIC None 40 (Some (example_position 7 100)))\<lparr>alreadyExecutedToday := True\<rparr>))) = [Fin 7]"
  using dca_sells_iff [of "(example_ctx DOMESTIC None 40 (Some (example_position 7 100)))\<lparr>alreadyExecutedToday := True\<rparr>"
      10000 40]
  by (simp add: example_ctx_def example_position_def hasPosition_def held_def dca_avg_def or_num_def
      fl_eval Fin_arith)

text \<open>
  A buy of the daily installment strategy is guarded and affordable: it happens only when the
  strategy did not run today, nothing blocks buying, the invested amount is below the quota, and a
  stock not yet held carries no caution or warning; and the shares at the current price cost at most
  the buyable amount and at most the day's quota with its carry-over (up to one rounding error of
  the division).
\<close>

lemma dca_buy_guarded:
  assumes "s \<in> set (signals (dca_evaluateStock ctx))" "sg_side s = BUY"
    "px_currentPrice (price ctx) = Fin c" "buyableAmount ctx = Fin b" "b / c \<le> 2 ^ 60"
  shows "\<not> alreadyExecutedToday ctx \<and>
    (case riskState ctx of None \<Rightarrow> True | Some rs \<Rightarrow> \<not> rs_buyBlocked rs \<and> \<not> rs_drawdown rs \<le> dca_mddBuyBlock) \<and>
    (hasPosition ctx \<or> \<not> flag (investCautionYn (stockIndicators ctx)) \<and> \<not> market_warned (stockIndicators ctx)) \<and>
    (\<exists>n. sg_quantity s = Fin (of_int n) \<and> 1 \<le> n \<and> of_int n * c \<le> b * (1 + 1 / 2 ^ 53) \<and>
      (\<forall>q. coalesce (ws_quota (watchStock ctx)) NaN / ws_maxCycles (watchStock ctx) +
          or_opt (Option.bind (ws_strategyParams (watchStock ctx)) dp_accumulatedQuota) (Fin 0) = Fin q \<longrightarrow>
        of_int n * c \<le> q * (1 + 1 / 2 ^ 53)))"
proof -
  let ?x = "coalesce (ws_quota (watchStock ctx)) NaN / ws_maxCycles (watchStock ctx) +
          or_opt (Option.bind (ws_strategyParams (watchStock ctx)) dp_accumulatedQuota) (Fin 0)"
  have g: "0 < c" "\<not> alreadyExecutedToday ctx"
    "\<not> risk_buy_blocked ctx (mddCheck dca_mddBuyBlock dca_mddLiquidate ctx)"
    "hasPosition ctx \<or> \<not> flag (investCautionYn (stockIndicators ctx)) \<and> \<not> market_warned (stockIndicators ctx)"
    "sg_quantity s = floor_num (min_num ?x (Fin b) / Fin c)" "Fin 0 < floor_num (min_num ?x (Fin b) / Fin c)"
    using assms by (auto simp: dca_evaluateStock_def Let_def split: if_splits)
  moreover obtain n where "floor_num (min_num ?x (Fin b) / Fin c) = Fin (of_int n)" "1 \<le> n"
      "of_int n * c \<le> b * (1 + 1 / 2 ^ 53)"
      "case ?x of Fin q \<Rightarrow> of_int n * c \<le> q * (1 + 1 / 2 ^ 53) | _ \<Rightarrow> True"
    using buy_affordable [OF g(6,1) assms(5)] by auto
  ultimately show ?thesis
    by (auto simp: risk_buy_blocked_def mddCheck_def evaluateStrategyMdd_def split: option.splits)
qed

theorem dca_buy_guarded_witness:
  "\<exists>n. sg_quantity (hd (signals (dca_evaluateStock (example_ctx DOMESTIC None 40 None)))) = Fin (of_int n) \<and>
     of_int n * 40 \<le> (250 :: rat) * (1 + 1 / 2 ^ 53)"
proof -
  let ?ctx = "example_ctx DOMESTIC None 40 None :: dca_params strategy_context"
  have d: "Fin 10000 / Fin 40 + Fin 0 = Fin 250" by (simp add: fl_eval Fin_arith)
  obtain s where s: "signals (dca_evaluateStock ?ctx) = [s]" "sg_side s = BUY"
    by (simp add: dca_evaluateStock_def Let_def example_ctx_def no_indicators_def hasPosition_def
        market_warned_def risk_buy_blocked_def mddCheck_def d) (simp add: fl_eval Fin_arith)
  then show ?thesis
    using dca_buy_guarded [of s ?ctx 40 1000] d by (auto simp: example_ctx_def)
qed

end
