(* ===== verification/Conservative.thy ===== *)
theory Conservative imports StrategyContract begin

text \<open>
  The conservative strategy (\<open>src/trading/strategy/conservative.strategy.ts\<close>): entry on an extreme
  oversold stock with a part of the quota, exits by risk liquidation, stop loss and take profit. The
  lemmas show the strategy contract, every condition of an entry, and that the exits come first.
\<close>

record cons_params =
  cp_cashRate :: "jsnum option"
  cp_rsiThreshold :: "jsnum option"
  cp_volumeThreshold :: "jsnum option"
  cp_stopLossRate :: "jsnum option"
  cp_takeProfitRate :: "jsnum option"

text \<open>\<open>{ ...DEFAULT_PARAMS, ...watchStock.strategyParams }\<close>, field by field.\<close>

definition cons_param :: "(cons_params \<Rightarrow> jsnum option) \<Rightarrow> jsnum \<Rightarrow> cons_params strategy_context \<Rightarrow> jsnum" where
  "cons_param f d ctx = coalesce (Option.bind (ws_strategyParams (watchStock ctx)) f) d"

definition cons_cashRate where "cons_cashRate = cons_param cp_cashRate (lit (7 / 10))"
definition cons_rsiThreshold where "cons_rsiThreshold = cons_param cp_rsiThreshold (Fin 25)"
definition cons_volumeThreshold where "cons_volumeThreshold = cons_param cp_volumeThreshold (Fin 2)"
definition cons_stopLossRate where "cons_stopLossRate = cons_param cp_stopLossRate (lit (5 / 100))"
definition cons_takeProfitRate where "cons_takeProfitRate = cons_param cp_takeProfitRate (lit (3 / 100))"

definition cons_mddBuyBlock :: jsnum where "cons_mddBuyBlock = - lit (10 / 100)"
definition cons_mddLiquidate :: jsnum where "cons_mddLiquidate = - lit (15 / 100)"

definition hasStrongSellFlow :: "stock_indicators \<Rightarrow> bool" where
  "hasStrongSellFlow ind =
    (if foreignNetBuy ind = None \<and> institutionNetBuy ind = None \<and> programTradeDirection ind = None
     then False
     else foreignNetBuy ind = Some False \<and> institutionNetBuy ind = Some False \<and>
       programTradeDirection ind = Some SELL)"

definition hasEventDrivenRisk :: "stock_indicators \<Rightarrow> bool" where
  "hasEventDrivenRisk ind \<longleftrightarrow>
     coalesce (recentMaterialDisclosureCount30d ind) (Fin 0) \<ge> Fin 1 \<or>
     coalesce (recentSecForm8KCount30d ind) (Fin 0) \<ge> Fin 2"

datatype cons_reason =
    ConsRiskLiquidation jsnum jsnum
  | ConsStopLoss jsnum jsnum
  | ConsTakeProfit jsnum jsnum
  | ConsBuy jsnum jsnum jsnum bool bool

datatype cons_skip =
    ConsInvalidPrice
  | ConsRiskBlocked string
  | ConsInvestCaution
  | ConsMarketWarning "string option"
  | ConsNoIndicators
  | ConsNotOversold jsnum jsnum
  | ConsLowVolume jsnum jsnum
  | ConsTooVolatile jsnum
  | ConsSellFlow
  | ConsEventRisk

type_synonym cons_evaluation = "(cons_reason, unit, cons_skip, unit) evaluation"

text \<open>The share of the quota an entry uses, from the guards' relaxations and cuts.\<close>

definition cons_isDefensive :: "stock_indicators \<Rightarrow> bool" where
  "cons_isDefensive ind \<longleftrightarrow> shortSellable ind = Some False \<and>
     (loanBalanceRate ind = None \<or> given (\<lambda>r. r < Fin 3) (loanBalanceRate ind))"

definition cons_nearLow :: "stock_indicators \<Rightarrow> bool" where
  "cons_nearLow ind \<longleftrightarrow> coalesce (d250LowRate ind) PInf \<le> Fin 10 \<or> coalesce (yearLowRate ind) PInf \<le> Fin 5"

definition cons_availableRate :: "cons_params strategy_context \<Rightarrow> jsnum" where
  "cons_availableRate ctx =
    (let ind = stockIndicators ctx;
         r0 = Fin 1 - cons_cashRate ctx;
         r1 = (if cons_isDefensive ind then min_num (r0 + lit (1 / 10)) (lit (5 / 10)) else r0);
         r2 = (if cons_nearLow ind then min_num (r1 + lit (1 / 10)) (lit (5 / 10)) else r1)
     in if coalesce (volatility30d ind) (Fin 0) \<ge> Fin 35 then r2 * lit (8 / 10) else r2)"

text \<open>The exits of a held position, and the entry.\<close>

definition cons_exit :: "cons_params strategy_context \<Rightarrow> stock_position \<Rightarrow> cons_evaluation" where
  "cons_exit ctx p =
    (let curPrice = px_currentPrice (price ctx); rp = roundPrice (ws_market (watchStock ctx));
         profitRate = (curPrice - pos_avgPrice p) / pos_avgPrice p
     in
     if profitRate \<le> - cons_stopLossRate ctx
       then emit [order ctx SELL (pos_quantity p) (Some (rp curPrice))
         (ConsStopLoss (profitRate * Fin 100) (cons_stopLossRate ctx * Fin 100)) None None]
     else if profitRate \<ge> cons_takeProfitRate ctx
       then emit [order ctx SELL (pos_quantity p) (Some (rp curPrice))
         (ConsTakeProfit (profitRate * Fin 100) (cons_takeProfitRate ctx * Fin 100)) None None]
     else emit [])"

definition cons_entry :: "cons_params strategy_context \<Rightarrow> mdd_check option \<Rightarrow> cons_evaluation" where
  "cons_entry ctx mdd =
    (let ind = stockIndicators ctx; curPrice = px_currentPrice (price ctx);
         rp = roundPrice (ws_market (watchStock ctx)) in
     if risk_buy_blocked ctx mdd then skip (ConsRiskBlocked (coalesce (joined_reasons ctx) ''MDD''))
     else if flag (investCautionYn ind) then skip ConsInvestCaution
     else if market_warned ind then skip (ConsMarketWarning (marketWarnCode ind))
     else case (rsi14 ind, volumeRatio ind) of
       (Some rsi, Some vol) \<Rightarrow>
         if rsi \<ge> cons_rsiThreshold ctx then skip (ConsNotOversold rsi (cons_rsiThreshold ctx))
         else if vol < cons_volumeThreshold ctx then skip (ConsLowVolume vol (cons_volumeThreshold ctx))
         else if coalesce (volatility30d ind) (Fin 0) \<ge> Fin 60
           then skip (ConsTooVolatile (coalesce (volatility30d ind) (Fin 0)))
         else if hasStrongSellFlow ind then skip ConsSellFlow
         else if hasEventDrivenRisk ind then skip ConsEventRisk
         else
         let quota = or_opt (ws_quota (watchStock ctx)) (Fin 0);
             rate = cons_availableRate ctx;
             buyAmount = min_num (quota * rate) (buyableAmount ctx);
             buyQty = floor_num (buyAmount / curPrice)
         in emit (if buyQty > Fin 0
           then [order ctx BUY buyQty (Some (rp curPrice))
             (ConsBuy rsi vol (rate * Fin 100) (cons_isDefensive ind) (cons_nearLow ind)) None None]
           else [])
     | _ \<Rightarrow> skip ConsNoIndicators)"

definition cons_evaluateStock :: "cons_params strategy_context \<Rightarrow> cons_evaluation" where
  "cons_evaluateStock ctx =
    (let curPrice = px_currentPrice (price ctx);
         mdd = mddCheck cons_mddBuyBlock cons_mddLiquidate ctx;
         drawdown = (case riskState ctx of None \<Rightarrow> NaN | Some rs \<Rightarrow> rs_drawdown rs)
     in
     if curPrice \<le> Fin 0 then skip ConsInvalidPrice
     else case held_position ctx of
       Some p \<Rightarrow>
         if flag (map_option liquidateAll mdd)
         then emit [order ctx SELL (pos_quantity p)
           (Some (roundPrice (ws_market (watchStock ctx)) curPrice))
           (ConsRiskLiquidation (drawdown * Fin 100) (cons_mddLiquidate * Fin 100)) None None]
         else cons_exit ctx p
     | None \<Rightarrow> cons_entry ctx mdd)"

section \<open>The contract\<close>

lemma cons_exit_signals:
  assumes "held_position ctx = Some p" "s \<in> set (signals (cons_exit ctx p))"
  shows "signals (cons_exit ctx p) = [s] \<and> signal_ok ctx s \<and> sg_side s = SELL \<and> sg_quantity s = pos_quantity p"
  using assms held_positionD [OF assms(1)] by (auto simp: cons_exit_def Let_def split: if_splits)

lemma cons_entry_signals:
  assumes "s \<in> set (signals (cons_entry ctx m))"
  shows "signals (cons_entry ctx m) = [s] \<and> signal_ok ctx s \<and> sg_side s = BUY"
  using assms by (auto simp: cons_entry_def Let_def split: if_splits option.splits)

lemma cons_signals:
  assumes "s \<in> set (signals (cons_evaluateStock ctx))"
  shows "signals (cons_evaluateStock ctx) = [s] \<and> signal_ok ctx s"
  using assms cons_exit_signals [of ctx _ s] cons_entry_signals [of s ctx] held_positionD [of ctx]
  by (auto simp: cons_evaluateStock_def Let_def split: if_splits option.splits)

lemma cons_no_price: "px_currentPrice (price ctx) \<le> Fin 0 \<Longrightarrow> signals (cons_evaluateStock ctx) = []"
  by (simp add: cons_evaluateStock_def Let_def)

interpretation cons: single_order_strategy cons_evaluateStock
  by unfold_locales (use cons_signals cons_no_price in blast)+

section \<open>Entries\<close>

lemma add_tenth:
  assumes "dbl (Fin x)" "0 \<le> x" "x \<le> 1 / 2"
  shows "\<exists>y. (if d then min_num (Fin x + lit (1 / 10)) (lit (5 / 10)) else Fin x) = Fin y \<and>
    dbl (Fin y) \<and> 0 \<le> y \<and> y \<le> 1 / 2"
proof -
  obtain t where t: "lit (1 / 10) = Fin t" "0 \<le> t" "t \<le> 1 / 2"
    by (rule that [of "3602879701896397 / 36028797018963968"]) (simp_all add: fl_eval)
  have h: "lit (5 / 10) = Fin (1 / 2)" "dbl (Fin (1 / 2))" by (simp_all add: fl_eval dbl_Fin)
  have f: "fl (x + t) = Fin (rnd (x + t))" "0 \<le> rnd (x + t)"
    using fl_unit [of "x + t"] assms t by simp_all
  then have "dbl (Fin (rnd (x + t)))" by (metis dbl_fl)
  then show ?thesis using assms f h t(1) by (cases d) (auto simp: add_Fin min_def)
qed

text \<open>An entry never uses more than half of the quota, whatever the relaxations.\<close>

lemma cons_rate_half:
  assumes "cons_cashRate ctx = Fin r" "1 / 2 \<le> r" "r \<le> 1"
  shows "\<exists>u. cons_availableRate ctx = Fin u \<and> 0 \<le> u \<and> u \<le> 1 / 2"
proof -
  let ?ind = "stockIndicators ctx"
  have hd: "dbl (Fin (1 / 2))" "dbl (Fin 0)" by (simp_all add: fl_eval dbl_Fin)
  obtain r0 where r0: "Fin 1 - Fin r = Fin r0" "dbl (Fin r0)" "0 \<le> r0" "r0 \<le> 1 / 2"
    using fl_between [of 0 "1 / 2" "1 - r"] assms hd dbl_fl [of "1 - r"] by (auto simp: diff_Fin)
  obtain r1 where r1: "(if cons_isDefensive ?ind then min_num (Fin r0 + lit (1 / 10)) (lit (5 / 10)) else Fin r0) = Fin r1"
      "dbl (Fin r1)" "0 \<le> r1" "r1 \<le> 1 / 2"
    using add_tenth [OF r0(2-4)] by blast
  obtain r2 where r2: "(if cons_nearLow ?ind then min_num (Fin r1 + lit (1 / 10)) (lit (5 / 10)) else Fin r1) = Fin r2"
      "dbl (Fin r2)" "0 \<le> r2" "r2 \<le> 1 / 2"
    using add_tenth [OF r1(2-4)] by blast
  obtain e where e: "lit (8 / 10) = Fin e" "0 \<le> e" "e \<le> 1"
    by (rule that [of "rnd (8 / 10)"]) (simp_all add: fl_eval)
  obtain r3 where r3: "Fin r2 * lit (8 / 10) = Fin r3" "0 \<le> r3" "r3 \<le> r2"
    using mult_unit_bounds [OF r2(2,3) e(2,3)] e(1) by auto
  have "cons_availableRate ctx = (if coalesce (volatility30d ?ind) (Fin 0) \<ge> Fin 35 then Fin r3 else Fin r2)"
    by (simp only: cons_availableRate_def Let_def assms(1) r0(1) r1(1) r2(1) r3(1))
  then show ?thesis using r2 r3 by auto
qed

text \<open>
  The conservative strategy buys only an unheld, extremely oversold stock: no position, nothing
  blocks buying, no caution or warning, the RSI below and the volume ratio not below their
  thresholds, volatility below sixty percent, no joint selling of foreigners, institutions and
  programs, no excess of events; and the shares cost at most the buyable amount and at most half of
  the quota (rounded), although the relaxations add up.
\<close>

lemma cons_buy_guarded:
  assumes "s \<in> set (signals (cons_evaluateStock ctx))" "sg_side s = BUY"
    "px_currentPrice (price ctx) = Fin c" "buyableAmount ctx = Fin b" "b / c \<le> 2 ^ 60"
    "ws_quota (watchStock ctx) = Some (Fin q)" "0 < q" "q \<le> 2 ^ 60"
    "cons_cashRate ctx = Fin r" "1 / 2 \<le> r" "r \<le> 1"
  shows "\<not> hasPosition ctx \<and>
    (case riskState ctx of None \<Rightarrow> True | Some rs \<Rightarrow> \<not> rs_buyBlocked rs \<and> \<not> rs_drawdown rs \<le> cons_mddBuyBlock) \<and>
    \<not> flag (investCautionYn (stockIndicators ctx)) \<and> \<not> market_warned (stockIndicators ctx) \<and>
    given (\<lambda>x. \<not> x \<ge> cons_rsiThreshold ctx) (rsi14 (stockIndicators ctx)) \<and>
    given (\<lambda>x. \<not> x < cons_volumeThreshold ctx) (volumeRatio (stockIndicators ctx)) \<and>
    \<not> given (\<lambda>x. x \<ge> Fin 60) (volatility30d (stockIndicators ctx)) \<and>
    \<not> hasStrongSellFlow (stockIndicators ctx) \<and> \<not> hasEventDrivenRisk (stockIndicators ctx) \<and>
    (\<exists>n. sg_quantity s = Fin (of_int n) \<and> 1 \<le> n \<and> of_int n * c \<le> b * (1 + 1 / 2 ^ 53) \<and>
      of_int n * c \<le> rnd (q / 2) * (1 + 1 / 2 ^ 53))"
proof -
  obtain u where u: "cons_availableRate ctx = Fin u" "0 \<le> u" "u \<le> 1 / 2"
    using cons_rate_half assms(9-) by blast
  let ?x = "Fin q * Fin u"
  have np: "\<not> hasPosition ctx"
  proof
    assume "hasPosition ctx"
    then obtain p where p: "held_position ctx = Some p"
      by (cases "held_position ctx") (auto simp: held_position_None)
    then show False using assms(1,2) cons_exit_signals [OF p, of s]
      by (auto simp: cons_evaluateStock_def Let_def split: if_splits)
  qed
  then have "held_position ctx = None" by (simp add: held_position_None)
  then have e: "s \<in> set (signals (cons_entry ctx (mddCheck cons_mddBuyBlock cons_mddLiquidate ctx)))" "0 < c"
    using assms(1,3) by (auto simp: cons_evaluateStock_def Let_def split: if_splits)
  then have g: "\<not> risk_buy_blocked ctx (mddCheck cons_mddBuyBlock cons_mddLiquidate ctx)"
    "\<not> flag (investCautionYn (stockIndicators ctx))" "\<not> market_warned (stockIndicators ctx)"
    "given (\<lambda>x. \<not> x \<ge> cons_rsiThreshold ctx) (rsi14 (stockIndicators ctx))"
    "given (\<lambda>x. \<not> x < cons_volumeThreshold ctx) (volumeRatio (stockIndicators ctx))"
    "\<not> given (\<lambda>x. x \<ge> Fin 60) (volatility30d (stockIndicators ctx))"
    "\<not> hasStrongSellFlow (stockIndicators ctx)" "\<not> hasEventDrivenRisk (stockIndicators ctx)"
    "sg_quantity s = floor_num (min_num ?x (Fin b) / Fin c)" "Fin 0 < floor_num (min_num ?x (Fin b) / Fin c)"
    using assms(3,4,6,7) u(1)
    by (auto simp: cons_entry_def Let_def or_num_def given_def split: if_splits option.splits)
  have "0 \<le> q * u" "q * u \<le> q / 2" using u assms(7) mult_left_mono [of u "1 / 2" q] by simp_all
  then have x: "?x = Fin (rnd (q * u))" "rnd (q * u) \<le> rnd (q / 2)"
    using fl_power2_bounds(1) [of 60 "q * u"] rnd_mono [of "q * u" "q / 2"] assms(8)
    by (simp_all add: mult_Fin)
  obtain n where n: "floor_num (min_num ?x (Fin b) / Fin c) = Fin (of_int n)" "1 \<le> n"
      "of_int n * c \<le> b * (1 + 1 / 2 ^ 53)" "of_int n * c \<le> rnd (q * u) * (1 + 1 / 2 ^ 53)"
    using buy_affordable [OF g(10) e(2) assms(5)] by (auto simp: x(1))
  have "of_int n * c \<le> rnd (q / 2) * (1 + 1 / 2 ^ 53)"
    using n(4) mult_right_mono [OF x(2), of "1 + 1 / 2 ^ 53"] by simp
  then show ?thesis
    using np g n by (auto simp: risk_buy_blocked_def mddCheck_def evaluateStrategyMdd_def split: option.splits)
qed

definition cons_example :: "cons_params strategy_context" where
  "cons_example = (example_ctx DOMESTIC (Some \<lparr>cp_cashRate = Some (Fin (1 / 2)), cp_rsiThreshold = None,
     cp_volumeThreshold = None, cp_stopLossRate = None, cp_takeProfitRate = None\<rparr>) 40 None)
     \<lparr>stockIndicators := no_indicators\<lparr>rsi14 := Some (Fin 20), volumeRatio := Some (Fin 3)\<rparr>\<rparr>"

theorem cons_buy_guarded_witness:
  "\<exists>n. map sg_quantity (signals (cons_evaluateStock cons_example)) = [Fin (of_int n)] \<and>
     of_int n * 40 \<le> (1000 :: rat) * (1 + 1 / 2 ^ 53)"
proof -
  have r: "cons_cashRate cons_example = Fin (1 / 2)" by (simp add: cons_cashRate_def cons_param_def cons_example_def example_ctx_def)
  have e: "px_currentPrice (price cons_example) = Fin 40" "buyableAmount cons_example = Fin 1000"
    "ws_quota (watchStock cons_example) = Some (Fin 10000)"
    by (simp_all add: cons_example_def example_ctx_def)
  obtain s where s: "signals (cons_evaluateStock cons_example) = [s]" "sg_side s = BUY"
    by (simp add: cons_evaluateStock_def cons_entry_def cons_availableRate_def Let_def held_position_def
        hasPosition_def market_warned_def risk_buy_blocked_def mddCheck_def hasStrongSellFlow_def
        hasEventDrivenRisk_def cons_isDefensive_def cons_nearLow_def cons_cashRate_def cons_rsiThreshold_def
        cons_volumeThreshold_def cons_param_def cons_example_def example_ctx_def no_indicators_def or_num_def)
      (simp add: fl_eval Fin_arith)
  then show ?thesis using cons_buy_guarded [of s cons_example 40 1000 10000 "1 / 2"] r e by auto
qed

end
