(* ===== verification/GridReversion.thy ===== *)
theory GridReversion imports StrategyContract begin

text \<open>
  The grid mean reversion strategy (\<open>src/trading/strategy/grid-mean-reversion.strategy.ts\<close>): entry at
  the lower Bollinger band, further buys at fixed distances below the average price, exits at the
  bands and at the stop loss. The lemmas show the strategy contract, which grid level is bought, and
  that every level is bought at most once.
\<close>

record grid_params =
  gp_gridLevels :: "jsnum list option"
  gp_gridRatios :: "jsnum list option"
  gp_stopLossRate :: "jsnum option"
  gp_middleTakeProfitDone :: "bool option"
  gp_completedGridLevels :: "jsnum list option"

definition grid_param :: "(grid_params \<Rightarrow> 'a option) \<Rightarrow> 'a \<Rightarrow> grid_params strategy_context \<Rightarrow> 'a" where
  "grid_param f d ctx = coalesce (Option.bind (ws_strategyParams (watchStock ctx)) f) d"

definition grid_levels where
  "grid_levels = grid_param gp_gridLevels [- lit (2 / 100), - lit (4 / 100), - lit (6 / 100)]"
definition grid_ratios where
  "grid_ratios = grid_param gp_gridRatios [lit (3 / 10), lit (3 / 10), lit (4 / 10)]"
definition grid_stopLossRate where "grid_stopLossRate = grid_param gp_stopLossRate (lit (8 / 100))"
definition grid_middleDone where "grid_middleDone = grid_param gp_middleTakeProfitDone False"
definition grid_completed where "grid_completed = grid_param gp_completedGridLevels []"

definition grid_mddBuyBlock :: jsnum where "grid_mddBuyBlock = - lit (15 / 100)"
definition grid_mddLiquidate :: jsnum where "grid_mddLiquidate = - lit (25 / 100)"

text \<open>\<open>xs[i]\<close> of a number array as it enters arithmetic: NaN past the end.\<close>

definition num_at :: "jsnum list \<Rightarrow> nat \<Rightarrow> jsnum" where
  "num_at xs i = (if i < length xs then xs ! i else NaN)"

datatype grid_reason =
    GridRiskLiquidation jsnum jsnum
  | GridStopLoss jsnum jsnum
  | GridUpperExit jsnum jsnum
  | GridMiddleExit jsnum jsnum
  | GridLevelBuy nat jsnum jsnum
  | GridEntry jsnum jsnum

datatype grid_meta = TakeProfitFull | TakeProfitMiddle | GridBuyAt jsnum | GridEntered

datatype grid_skip =
    GridInvalidPrice
  | GridRiskBlocked string
  | GridInvestCaution
  | GridMarketWarning "string option"
  | GridLoanTooHigh jsnum
  | GridNoBandOrRsi
  | GridNoMacd
  | GridAboveBand jsnum jsnum
  | GridNotOversold jsnum
  | GridNoMacdTurn jsnum jsnum

type_synonym grid_evaluation = "(grid_reason, grid_meta, grid_skip, unit) evaluation"

text \<open>The loop over the grid levels: the first level that yields at least one share, then stop.\<close>

fun grid_loop ::
  "grid_params strategy_context \<Rightarrow> jsnum \<Rightarrow> jsnum \<Rightarrow> nat \<Rightarrow> jsnum list \<Rightarrow> (grid_reason, grid_meta) signal list" where
  "grid_loop ctx basePrice buyAmount i [] = []"
| "grid_loop ctx basePrice buyAmount i (lvl # lvls) =
    (let curPrice = px_currentPrice (price ctx); gridLevel = Fin (of_nat (i + 1)) in
     if list_ex (js_eq gridLevel) (grid_completed ctx) then grid_loop ctx basePrice buyAmount (i + 1) lvls
     else
     let gridPrice = basePrice * (Fin 1 + lvl);
         gridQty = floor_num (buyAmount * num_at (grid_ratios ctx) i / curPrice)
     in if curPrice \<le> gridPrice \<and> gridQty > Fin 0
        then [order ctx BUY gridQty (Some (roundPrice (ws_market (watchStock ctx)) curPrice))
          (GridLevelBuy (i + 1) (lvl * Fin 100) gridPrice) None (Some (GridBuyAt gridLevel))]
        else grid_loop ctx basePrice buyAmount (i + 1) lvls)"

definition grid_held :: "grid_params strategy_context \<Rightarrow> mdd_check option \<Rightarrow> stock_position \<Rightarrow> grid_evaluation" where
  "grid_held ctx mdd p =
    (let curPrice = px_currentPrice (price ctx); rp = roundPrice (ws_market (watchStock ctx));
         profitRate = (curPrice - pos_avgPrice p) / pos_avgPrice p;
         upper = bollingerUpper (stockIndicators ctx); middle = bollingerMiddle (stockIndicators ctx)
     in
     if profitRate \<le> - grid_stopLossRate ctx
       then emit [order ctx SELL (pos_quantity p) (Some (rp curPrice))
         (GridStopLoss (profitRate * Fin 100) (grid_stopLossRate ctx * Fin 100)) None None]
     else if given (\<lambda>u. truthy u \<and> curPrice \<ge> u) upper
       then emit [order ctx SELL (pos_quantity p) (Some (rp curPrice))
         (GridUpperExit curPrice (coalesce upper NaN)) None (Some TakeProfitFull)]
     else if \<not> grid_middleDone ctx \<and> given (\<lambda>m. truthy m \<and> curPrice \<ge> m) middle \<and> profitRate > Fin 0
       then emit [order ctx SELL (max_num (Fin 1) (floor_num (pos_quantity p / Fin 2))) (Some (rp curPrice))
         (GridMiddleExit curPrice (coalesce middle NaN)) None (Some TakeProfitMiddle)]
     else if \<not> risk_buy_blocked ctx mdd
       then emit (grid_loop ctx (pos_avgPrice p)
         (min_num (or_opt (ws_quota (watchStock ctx)) (Fin 0)) (buyableAmount ctx)) 0 (grid_levels ctx))
     else emit [])"

definition grid_entry :: "grid_params strategy_context \<Rightarrow> mdd_check option \<Rightarrow> grid_evaluation" where
  "grid_entry ctx mdd =
    (let ind = stockIndicators ctx; curPrice = px_currentPrice (price ctx);
         rp = roundPrice (ws_market (watchStock ctx)) in
     if risk_buy_blocked ctx mdd then skip (GridRiskBlocked (coalesce (joined_reasons ctx) ''MDD''))
     else if flag (investCautionYn ind) then skip GridInvestCaution
     else if market_warned ind then skip (GridMarketWarning (marketWarnCode ind))
     else if given (\<lambda>r. r > Fin 15) (loanBalanceRate ind)
       then skip (GridLoanTooHigh (coalesce (loanBalanceRate ind) NaN))
     else case (bollingerLower ind, rsi14 ind) of
       (Some lower, Some rsi) \<Rightarrow>
         (case (macdHistogram ind, macdPrevHistogram ind) of
           (Some hist, Some prev) \<Rightarrow>
             if curPrice > lower then skip (GridAboveBand curPrice lower)
             else if rsi \<ge> Fin 30 then skip (GridNotOversold rsi)
             else if hist \<le> prev then skip (GridNoMacdTurn hist prev)
             else
             let quota = or_opt (ws_quota (watchStock ctx)) (Fin 0);
                 base = min_num quota (buyableAmount ctx);
                 buyAmount = (if given (\<lambda>r. r \<le> Fin 10) (d250LowRate ind)
                   then min_num (base * lit (13 / 10)) (buyableAmount ctx) else base);
                 buyQty = floor_num (buyAmount * num_at (grid_ratios ctx) 0 / curPrice)
             in emit (if buyQty > Fin 0
               then [order ctx BUY buyQty (Some (rp curPrice)) (GridEntry lower rsi) None (Some GridEntered)]
               else [])
         | _ \<Rightarrow> skip GridNoMacd)
     | _ \<Rightarrow> skip GridNoBandOrRsi)"

definition grid_evaluateStock :: "grid_params strategy_context \<Rightarrow> grid_evaluation" where
  "grid_evaluateStock ctx =
    (let curPrice = px_currentPrice (price ctx);
         mdd = mddCheck grid_mddBuyBlock grid_mddLiquidate ctx;
         drawdown = (case riskState ctx of None \<Rightarrow> NaN | Some rs \<Rightarrow> rs_drawdown rs)
     in
     if curPrice \<le> Fin 0 then skip GridInvalidPrice
     else case held_position ctx of
       Some p \<Rightarrow>
         if flag (map_option liquidateAll mdd)
         then emit [order ctx SELL (pos_quantity p)
           (Some (roundPrice (ws_market (watchStock ctx)) curPrice))
           (GridRiskLiquidation (drawdown * Fin 100) (grid_mddLiquidate * Fin 100)) None None]
         else grid_held ctx mdd p
     | None \<Rightarrow> grid_entry ctx mdd)"

section \<open>The contract\<close>

text \<open>The grid loop is a search for the first level that is open, reached and affordable.\<close>

definition grid_qty :: "grid_params strategy_context \<Rightarrow> jsnum \<Rightarrow> nat \<Rightarrow> jsnum" where
  "grid_qty ctx amount j = floor_num (amount * num_at (grid_ratios ctx) j / px_currentPrice (price ctx))"

definition grid_eligible :: "grid_params strategy_context \<Rightarrow> jsnum \<Rightarrow> jsnum \<Rightarrow> nat \<Rightarrow> jsnum \<Rightarrow> bool" where
  "grid_eligible ctx base amount j lvl \<longleftrightarrow>
     \<not> list_ex (js_eq (Fin (of_nat (j + 1)))) (grid_completed ctx) \<and>
     px_currentPrice (price ctx) \<le> base * (Fin 1 + lvl) \<and> grid_qty ctx amount j > Fin 0"

definition grid_signal ::
  "grid_params strategy_context \<Rightarrow> jsnum \<Rightarrow> jsnum \<Rightarrow> nat \<Rightarrow> jsnum \<Rightarrow> (grid_reason, grid_meta) signal" where
  "grid_signal ctx base amount j lvl =
     order ctx BUY (grid_qty ctx amount j)
       (Some (roundPrice (ws_market (watchStock ctx)) (px_currentPrice (price ctx))))
       (GridLevelBuy (j + 1) (lvl * Fin 100) (base * (Fin 1 + lvl))) None (Some (GridBuyAt (Fin (of_nat (j + 1)))))"

lemma grid_loop_find:
  "grid_loop ctx base amount i lvls =
    (case find (\<lambda>(j, l). grid_eligible ctx base amount j l) (enumerate i lvls) of
      None \<Rightarrow> [] | Some (j, l) \<Rightarrow> [grid_signal ctx base amount j l])"
  by (induction lvls arbitrary: i) (auto simp: grid_eligible_def grid_signal_def grid_qty_def Let_def)

lemma grid_loop_signal:
  assumes "s \<in> set (grid_loop ctx base amount 0 lvls)"
  shows "\<exists>j < length lvls. grid_loop ctx base amount 0 lvls = [s] \<and>
    s = grid_signal ctx base amount j (lvls ! j) \<and> grid_eligible ctx base amount j (lvls ! j) \<and>
    (\<forall>k < j. \<not> grid_eligible ctx base amount k (lvls ! k))"
proof (cases "find (\<lambda>(j, l). grid_eligible ctx base amount j l) (enumerate 0 lvls)")
  case None
  then show ?thesis using assms by (simp add: grid_loop_find)
next
  case (Some jl)
  obtain j l where jl: "jl = (j, l)" by fastforce
  then have "grid_loop ctx base amount 0 lvls = [grid_signal ctx base amount j l]"
    using Some by (simp add: grid_loop_find)
  moreover have "j < length lvls \<and> l = lvls ! j \<and> grid_eligible ctx base amount j (lvls ! j) \<and>
      (\<forall>k < j. \<not> grid_eligible ctx base amount k (lvls ! k))"
    using Some jl by (auto simp: find_Some_iff nth_enumerate_eq)
  ultimately show ?thesis using assms by auto
qed

lemma grid_held_signals:
  assumes "held_position ctx = Some p" "whole_holding ctx h" "s \<in> set (signals (grid_held ctx m p))"
  shows "signals (grid_held ctx m p) = [s] \<and> signal_ok ctx s"
proof -
  have h: "pos_quantity p = Fin (of_nat h)" "1 \<le> h" "h \<le> 2 ^ 53"
    using held_positionD [OF assms(1)] assms(2) by (auto simp: whole_holding_def)
  have l: "grid_loop ctx b a 0 lv = [s] \<and> signal_ok ctx s" if "s \<in> set (grid_loop ctx b a 0 lv)" for b a lv
    using grid_loop_signal [OF that] by (auto simp: grid_signal_def grid_eligible_def)
  show ?thesis
    using assms(3) held_positionD [OF assms(1)] h part_of_holding [OF h(2,3), of 2] l
    by (auto simp: grid_held_def Let_def split: if_splits)
qed

lemma grid_entry_signals:
  assumes "s \<in> set (signals (grid_entry ctx m))"
  shows "signals (grid_entry ctx m) = [s] \<and> signal_ok ctx s \<and> sg_side s = BUY"
  using assms by (auto simp: grid_entry_def Let_def split: if_splits option.splits)

lemma grid_signals:
  assumes "whole_holding ctx h" "s \<in> set (signals (grid_evaluateStock ctx))"
  shows "signals (grid_evaluateStock ctx) = [s] \<and> signal_ok ctx s"
  using assms grid_held_signals [of ctx _ h s] grid_entry_signals [of s ctx] held_positionD [of ctx]
  by (auto simp: grid_evaluateStock_def Let_def split: if_splits option.splits)

lemma grid_no_price: "px_currentPrice (price ctx) \<le> Fin 0 \<Longrightarrow> signals (grid_evaluateStock ctx) = []"
  by (simp add: grid_evaluateStock_def Let_def)

interpretation grid: single_order_strategy grid_evaluateStock
  by unfold_locales (use grid_signals grid_no_price in blast)+

section \<open>Grid levels\<close>

text \<open>
  While a position is held, the grid strategy buys at most one level per evaluation, and it is
  the first level of the grid that is not yet completed, whose line the price has reached, and whose
  share of the budget pays for at least one share; no earlier level is skipped otherwise, and no
  completed level is ever bought again. It never averages down when the stop loss or a band exit is
  due, or when buying is blocked.
\<close>

lemma grid_buys_first_open_level:
  assumes "held_position ctx = Some p" "s \<in> set (signals (grid_evaluateStock ctx))" "sg_side s = BUY"
  shows "\<exists>j lvl. j < length (grid_levels ctx) \<and> lvl = grid_levels ctx ! j \<and>
    signals (grid_evaluateStock ctx) = [s] \<and>
    sg_metadata s = Some (GridBuyAt (Fin (of_nat (j + 1)))) \<and>
    grid_eligible ctx (pos_avgPrice p)
      (min_num (or_opt (ws_quota (watchStock ctx)) (Fin 0)) (buyableAmount ctx)) j lvl \<and>
    (\<forall>k < j. \<not> grid_eligible ctx (pos_avgPrice p)
      (min_num (or_opt (ws_quota (watchStock ctx)) (Fin 0)) (buyableAmount ctx)) k (grid_levels ctx ! k)) \<and>
    \<not> (px_currentPrice (price ctx) - pos_avgPrice p) / pos_avgPrice p \<le> - grid_stopLossRate ctx \<and>
    \<not> given (\<lambda>u. truthy u \<and> px_currentPrice (price ctx) \<ge> u) (bollingerUpper (stockIndicators ctx)) \<and>
    \<not> risk_buy_blocked ctx (mddCheck grid_mddBuyBlock grid_mddLiquidate ctx)"
proof -
  let ?m = "mddCheck grid_mddBuyBlock grid_mddLiquidate ctx"
  have e: "grid_evaluateStock ctx = grid_held ctx ?m p"
    using assms by (auto simp: grid_evaluateStock_def Let_def split: if_splits)
  have g: "grid_held ctx ?m p = emit (grid_loop ctx (pos_avgPrice p)
      (min_num (or_opt (ws_quota (watchStock ctx)) (Fin 0)) (buyableAmount ctx)) 0 (grid_levels ctx))"
    "\<not> (px_currentPrice (price ctx) - pos_avgPrice p) / pos_avgPrice p \<le> - grid_stopLossRate ctx"
    "\<not> given (\<lambda>u. truthy u \<and> px_currentPrice (price ctx) \<ge> u) (bollingerUpper (stockIndicators ctx))"
    "\<not> risk_buy_blocked ctx ?m"
    using assms(2,3) by (auto simp: e grid_held_def Let_def split: if_splits)
  then have "s \<in> set (grid_loop ctx (pos_avgPrice p)
      (min_num (or_opt (ws_quota (watchStock ctx)) (Fin 0)) (buyableAmount ctx)) 0 (grid_levels ctx))"
    using assms(2) by (simp add: e)
  from grid_loop_signal [OF this] g show ?thesis by (auto simp: e grid_signal_def)
qed

definition grid_example :: "grid_params strategy_context" where
  "grid_example = example_ctx DOMESTIC (Some \<lparr>gp_gridLevels = Some [- Fin (1 / 2), - Fin (1 / 4)],
     gp_gridRatios = Some [Fin 1, Fin 1], gp_stopLossRate = Some (Fin 1), gp_middleTakeProfitDone = None,
     gp_completedGridLevels = Some [Fin 1]\<rparr>) 40 (Some (example_position 7 100))"

theorem grid_buys_first_open_level_witness:
  "map sg_metadata (signals (grid_evaluateStock grid_example)) = [Some (GridBuyAt (Fin 2))]"
proof -
  have p: "held_position grid_example = Some (example_position 7 100)"
    by (simp add: held_position_def hasPosition_def grid_example_def example_ctx_def example_position_def)
  have l: "grid_levels grid_example = [- Fin (1 / 2), - Fin (1 / 4)]" "grid_completed grid_example = [Fin 1]"
    by (simp_all add: grid_levels_def grid_completed_def grid_param_def grid_example_def example_ctx_def)
  obtain s where s: "signals (grid_evaluateStock grid_example) = [s]" "sg_side s = BUY"
    by (simp add: grid_evaluateStock_def held_position_def hasPosition_def
        grid_held_def Let_def mddCheck_def risk_buy_blocked_def grid_levels_def grid_completed_def
        grid_stopLossRate_def grid_middleDone_def grid_ratios_def grid_param_def num_at_def js_eq_def
        grid_example_def example_ctx_def example_position_def no_indicators_def or_num_def
        fl_eval Fin_arith)
  obtain j where j: "j < 2" "sg_metadata s = Some (GridBuyAt (Fin (of_nat (j + 1))))"
      "\<not> list_ex (js_eq (Fin (of_nat (j + 1)))) [Fin 1]"
    using grid_buys_first_open_level [OF p, of s] s by (auto simp: l grid_eligible_def)
  then have "j = 1" by (cases j) (auto simp: js_eq_def)
  then show ?thesis using s j(2) by simp
qed

end
