(* ===== verification/TrendFollowing.thy ===== *)
theory TrendFollowing imports StrategyContract begin

text \<open>
  The trend following strategy (\<open>src/trading/strategy/trend-following.strategy.ts\<close>): entry and
  pyramiding in a strong up-trend, exits by risk liquidation, stop loss and loss of the trend. The
  lemmas show the strategy contract, exactly when it sells, and that a held position is left alone,
  stop loss included, while an indicator is missing.
\<close>

record trend_params =
  tp_adxThreshold :: "jsnum option"
  tp_adxExitThreshold :: "jsnum option"
  tp_stopLossRate :: "jsnum option"
  tp_pyramidingProfitRate :: "jsnum option"
  tp_pyramidingRatio :: "jsnum option"

definition trend_param :: "(trend_params \<Rightarrow> jsnum option) \<Rightarrow> jsnum \<Rightarrow> trend_params strategy_context \<Rightarrow> jsnum" where
  "trend_param f d ctx = coalesce (Option.bind (ws_strategyParams (watchStock ctx)) f) d"

definition trend_adxThreshold where "trend_adxThreshold = trend_param tp_adxThreshold (Fin 25)"
definition trend_adxExitThreshold where "trend_adxExitThreshold = trend_param tp_adxExitThreshold (Fin 20)"
definition trend_stopLossRate where "trend_stopLossRate = trend_param tp_stopLossRate (lit (7 / 100))"
definition trend_pyramidingProfitRate where
  "trend_pyramidingProfitRate = trend_param tp_pyramidingProfitRate (lit (5 / 100))"
definition trend_pyramidingRatio where "trend_pyramidingRatio = trend_param tp_pyramidingRatio (Fin (1 / 2))"

definition trend_mddBuyBlock :: jsnum where "trend_mddBuyBlock = - lit (15 / 100)"
definition trend_mddLiquidate :: jsnum where "trend_mddLiquidate = - lit (20 / 100)"

definition resolveAtrRate :: "'p strategy_context \<Rightarrow> jsnum option" where
  "resolveAtrRate ctx =
    (case atrPercent (stockIndicators ctx) of
      Some a \<Rightarrow> Some (a / Fin 100)
    | None \<Rightarrow>
        (case atr14 (stockIndicators ctx) of
          Some a \<Rightarrow> if px_currentPrice (price ctx) > Fin 0 then Some (a / px_currentPrice (price ctx)) else None
        | None \<Rightarrow> None))"

definition flow_positive :: "stock_indicators \<Rightarrow> bool" where
  "flow_positive ind \<longleftrightarrow> flag (foreignNetBuy ind) \<or> flag (institutionNetBuy ind) \<or>
     programTradeDirection ind = Some BUY"

definition hasFlowConfirmation :: "stock_indicators \<Rightarrow> bool" where
  "hasFlowConfirmation ind =
    (if foreignNetBuy ind = None \<and> institutionNetBuy ind = None \<and> programTradeDirection ind = None
     then True else flow_positive ind)"

definition hasNegativeConsensus :: "stock_indicators \<Rightarrow> bool" where
  "hasNegativeConsensus ind \<longleftrightarrow> negative_rating (coalesce (consensusRating ind) '''') \<or>
     given (\<lambda>u. u < - Fin 10) (targetPriceUpside ind)"

text \<open>The wider of the configured stop loss and the volatility based one.\<close>

definition effectiveStopLossRate :: "trend_params strategy_context \<Rightarrow> jsnum" where
  "effectiveStopLossRate ctx = max_num (trend_stopLossRate ctx)
    (case resolveAtrRate ctx of
      Some r \<Rightarrow> if truthy r then min_num (lit (12 / 100)) (r * lit (18 / 10)) else Fin 0
    | None \<Rightarrow> Fin 0)"

datatype trend_reason =
    TrendRiskLiquidation jsnum jsnum
  | TrendStopLoss jsnum jsnum
  | TrendDeadCross jsnum jsnum
  | TrendFaded jsnum jsnum
  | TrendPyramid jsnum jsnum bool
  | TrendEntry jsnum jsnum jsnum bool

datatype trend_skip =
    TrendInvalidPrice
  | TrendNoIndicators
  | TrendAlreadyExecuted
  | TrendAlreadyExecutedHeld
  | TrendRiskBlocked string
  | TrendInvestCaution
  | TrendMarketWarning "string option"
  | TrendNoFlow
  | TrendNegativeConsensus "string option"
  | TrendNoGoldenCross jsnum jsnum
  | TrendWeak jsnum jsnum
  | TrendBelowMa jsnum jsnum

type_synonym trend_evaluation = "(trend_reason, unit, trend_skip, unit) evaluation"

definition near_high :: "stock_indicators \<Rightarrow> bool" where
  "near_high ind \<longleftrightarrow> given (\<lambda>r. r \<ge> - Fin 5) (d250HighRate ind)"

definition trend_held ::
  "trend_params strategy_context \<Rightarrow> mdd_check option \<Rightarrow> stock_position \<Rightarrow> jsnum \<Rightarrow> jsnum \<Rightarrow> jsnum \<Rightarrow> trend_evaluation" where
  "trend_held ctx mdd p m20 m60 adx =
    (let curPrice = px_currentPrice (price ctx); rp = roundPrice (ws_market (watchStock ctx));
         profitRate = (curPrice - pos_avgPrice p) / pos_avgPrice p;
         goldenCross = m20 > m60; deadCross = m20 < m60;
         strongTrend = adx > trend_adxThreshold ctx; weakTrend = adx < trend_adxExitThreshold ctx
     in
     if profitRate \<le> - effectiveStopLossRate ctx
       then emit [order ctx SELL (pos_quantity p) (Some (rp curPrice))
         (TrendStopLoss (profitRate * Fin 100) (effectiveStopLossRate ctx * Fin 100)) None None]
     else if deadCross \<or> weakTrend
       then emit [order ctx SELL (pos_quantity p) (Some (rp curPrice))
         (if deadCross then TrendDeadCross m20 m60 else TrendFaded adx (trend_adxExitThreshold ctx)) None None]
     else if alreadyExecutedToday ctx then skip TrendAlreadyExecutedHeld
     else if profitRate > trend_pyramidingProfitRate ctx \<and> goldenCross \<and> strongTrend \<and>
         \<not> risk_buy_blocked ctx mdd
     then
       let quota = or_opt (ws_quota (watchStock ctx)) (Fin 0);
           ratio0 = trend_pyramidingRatio ctx;
           pyramidRatio = (if near_high (stockIndicators ctx)
             then min_num (ratio0 * lit (13 / 10)) (lit (8 / 10)) else ratio0);
           pyramidAmount = min_num (quota * pyramidRatio) (buyableAmount ctx);
           pyramidQty = floor_num (pyramidAmount / curPrice)
       in emit (if pyramidQty > Fin 0
         then [order ctx BUY pyramidQty (Some (rp curPrice))
           (TrendPyramid (profitRate * Fin 100) adx (near_high (stockIndicators ctx))) None None]
         else [])
     else emit [])"

definition trend_entry ::
  "trend_params strategy_context \<Rightarrow> mdd_check option \<Rightarrow> jsnum \<Rightarrow> jsnum \<Rightarrow> jsnum \<Rightarrow> trend_evaluation" where
  "trend_entry ctx mdd m20 m60 adx =
    (let ind = stockIndicators ctx; curPrice = px_currentPrice (price ctx);
         rp = roundPrice (ws_market (watchStock ctx)) in
     if alreadyExecutedToday ctx then skip TrendAlreadyExecuted
     else if risk_buy_blocked ctx mdd then skip (TrendRiskBlocked (coalesce (joined_reasons ctx) ''MDD''))
     else if flag (investCautionYn ind) then skip TrendInvestCaution
     else if market_warned ind then skip (TrendMarketWarning (marketWarnCode ind))
     else if \<not> hasFlowConfirmation ind then skip TrendNoFlow
     else if hasNegativeConsensus ind then skip (TrendNegativeConsensus (consensusRating ind))
     else if \<not> m20 > m60 then skip (TrendNoGoldenCross m20 m60)
     else if \<not> adx > trend_adxThreshold ctx then skip (TrendWeak adx (trend_adxThreshold ctx))
     else if curPrice \<le> m20 then skip (TrendBelowMa curPrice m20)
     else
     let quota = or_opt (ws_quota (watchStock ctx)) (Fin 0);
         buyAmount = min_num quota (buyableAmount ctx);
         buyQty = floor_num (buyAmount / curPrice)
     in emit (if buyQty > Fin 0
       then [order ctx BUY buyQty (Some (rp curPrice)) (TrendEntry m20 m60 adx (flow_positive ind)) None None]
       else []))"

definition trend_evaluateStock :: "trend_params strategy_context \<Rightarrow> trend_evaluation" where
  "trend_evaluateStock ctx =
    (let curPrice = px_currentPrice (price ctx); ind = stockIndicators ctx;
         mdd = mddCheck trend_mddBuyBlock trend_mddLiquidate ctx;
         drawdown = (case riskState ctx of None \<Rightarrow> NaN | Some rs \<Rightarrow> rs_drawdown rs)
     in
     if curPrice \<le> Fin 0 then skip TrendInvalidPrice
     else if flag (map_option liquidateAll mdd) \<and> hasPosition ctx
       then emit [order ctx SELL (held ctx) (Some (roundPrice (ws_market (watchStock ctx)) curPrice))
         (TrendRiskLiquidation (drawdown * Fin 100) (trend_mddLiquidate * Fin 100)) None None]
     else case (ma20 ind, ma60 ind, adx14 ind) of
       (Some m20, Some m60, Some adx) \<Rightarrow>
         (case held_position ctx of
           Some p \<Rightarrow> trend_held ctx mdd p m20 m60 adx
         | None \<Rightarrow> trend_entry ctx mdd m20 m60 adx)
     | _ \<Rightarrow> skip TrendNoIndicators)"

section \<open>The contract\<close>

lemma trend_held_signals:
  assumes "held_position ctx = Some p" "s \<in> set (signals (trend_held ctx m p m20 m60 adx))"
  shows "signals (trend_held ctx m p m20 m60 adx) = [s] \<and> signal_ok ctx s"
  using assms(2) held_positionD [OF assms(1)] by (auto simp: trend_held_def Let_def split: if_splits)

lemma trend_entry_signals:
  assumes "s \<in> set (signals (trend_entry ctx m m20 m60 adx))"
  shows "signals (trend_entry ctx m m20 m60 adx) = [s] \<and> signal_ok ctx s \<and> sg_side s = BUY"
  using assms by (auto simp: trend_entry_def Let_def split: if_splits)

lemma trend_signals:
  assumes "s \<in> set (signals (trend_evaluateStock ctx))"
  shows "signals (trend_evaluateStock ctx) = [s] \<and> signal_ok ctx s"
  using assms trend_held_signals [of ctx _ s] trend_entry_signals [of s ctx]
  by (auto simp: trend_evaluateStock_def Let_def split: if_splits option.splits)

lemma trend_no_price: "px_currentPrice (price ctx) \<le> Fin 0 \<Longrightarrow> signals (trend_evaluateStock ctx) = []"
  by (simp add: trend_evaluateStock_def Let_def)

interpretation trend: single_order_strategy trend_evaluateStock
  by unfold_locales (use trend_signals trend_no_price in blast)+

section \<open>Exits\<close>

text \<open>
  With its indicators present, the trend strategy sells a held position exactly when the
  drawdown asks for liquidation, the loss reaches the wider of the configured and the volatility
  based stop, the short average is below the long one, or the trend strength is below the exit
  threshold; it sells everything, and having run today never delays it.
\<close>

lemma trend_sells_iff:
  assumes "held_position ctx = Some p" "\<not> px_currentPrice (price ctx) \<le> Fin 0"
    "ma20 (stockIndicators ctx) = Some m20" "ma60 (stockIndicators ctx) = Some m60"
    "adx14 (stockIndicators ctx) = Some adx"
  shows "((\<exists>s \<in> set (signals (trend_evaluateStock ctx)). sg_side s = SELL) \<longleftrightarrow>
      (\<exists>rs. riskState ctx = Some rs \<and> rs_drawdown rs \<le> trend_mddLiquidate) \<or>
      (px_currentPrice (price ctx) - pos_avgPrice p) / pos_avgPrice p \<le> - effectiveStopLossRate ctx \<or>
      m20 < m60 \<or> adx < trend_adxExitThreshold ctx) \<and>
    ((\<exists>s \<in> set (signals (trend_evaluateStock ctx)). sg_side s = SELL) \<longrightarrow>
      map sg_quantity (signals (trend_evaluateStock ctx)) = [pos_quantity p])"
  using assms held_positionD [OF assms(1)]
  by (cases "riskState ctx")
    (auto simp: trend_evaluateStock_def trend_held_def Let_def mddCheck_def evaluateStrategyMdd_def split: if_splits)

definition trend_example :: "trend_params strategy_context" where
  "trend_example = (example_ctx DOMESTIC None 90 (Some (example_position 7 100)))
     \<lparr>alreadyExecutedToday := True,
      stockIndicators := no_indicators\<lparr>ma20 := Some (Fin 90), ma60 := Some (Fin 100), adx14 := Some (Fin 30)\<rparr>\<rparr>"

theorem trend_sells_iff_witness:
  "map sg_quantity (signals (trend_evaluateStock trend_example)) = [Fin 7]"
proof -
  have p: "held_position trend_example = Some (example_position 7 100)"
    by (simp add: held_position_def hasPosition_def trend_example_def example_ctx_def example_position_def)
  show ?thesis
    using trend_sells_iff [OF p, of "Fin 90" "Fin 100" "Fin 30"]
    by (simp add: trend_example_def example_ctx_def example_position_def)
qed

text \<open>
  While one of the three indicators is missing, a held position is not sold however far the
  price has fallen, unless the drawdown of the whole portfolio asks for liquidation: the stop loss
  lies behind the indicator check.
\<close>

lemma trend_no_stop_loss_without_indicators:
  assumes "ma20 (stockIndicators ctx) = None \<or> ma60 (stockIndicators ctx) = None \<or> adx14 (stockIndicators ctx) = None"
    "\<forall>rs. riskState ctx = Some rs \<longrightarrow> \<not> rs_drawdown rs \<le> trend_mddLiquidate"
    "\<not> px_currentPrice (price ctx) \<le> Fin 0"
  shows "trend_evaluateStock ctx = skip TrendNoIndicators"
  using assms by (auto simp: trend_evaluateStock_def Let_def mddCheck_def evaluateStrategyMdd_def split: option.splits)

theorem trend_no_stop_loss_without_indicators_witness:
  "signals (trend_evaluateStock (example_ctx DOMESTIC None 1 (Some (example_position 7 100)))) = []"
  using trend_no_stop_loss_without_indicators
    [of "example_ctx DOMESTIC None 1 (Some (example_position 7 100))"]
  by (simp add: example_ctx_def no_indicators_def)

end
