(* ===== verification/ValueFactor.thy ===== *)
theory ValueFactor imports StrategyContract begin

text \<open>
  The value factor strategy (\<open>src/trading/strategy/value-factor.strategy.ts\<close>): entry into a stock
  that passes every fundamental filter, exits by risk liquidation, stop loss, take profit and an
  overbought RSI. The lemmas show the strategy contract, exactly when it sells, and all the filters
  an entry has passed.
\<close>

record value_params =
  vp_maxPer :: "jsnum option"
  vp_maxPbr :: "jsnum option"
  vp_minRoe :: "jsnum option"
  vp_maxDebtRatio :: "jsnum option"
  vp_rsiThreshold :: "jsnum option"
  vp_stopLossRate :: "jsnum option"
  vp_takeProfitRate :: "jsnum option"
  vp_requirePositiveEps :: "bool option"
  vp_minSalesGrowthRate :: "jsnum option"
  vp_minOperatingProfitGrowthRate :: "jsnum option"
  vp_maxEvEbitda :: "jsnum option"

definition value_param :: "(value_params \<Rightarrow> 'a option) \<Rightarrow> 'a \<Rightarrow> value_params strategy_context \<Rightarrow> 'a" where
  "value_param f d ctx = coalesce (Option.bind (ws_strategyParams (watchStock ctx)) f) d"

text \<open>\<open>DEFAULT_PARAMS\<close>, each overridden by the stock's own parameter.\<close>

definition value_maxPer where "value_maxPer = value_param vp_maxPer (Fin 10)"
definition value_maxPbr where "value_maxPbr = value_param vp_maxPbr (Fin 1)"
definition value_minRoe where "value_minRoe = value_param vp_minRoe (Fin 10)"
definition value_maxDebtRatio where "value_maxDebtRatio = value_param vp_maxDebtRatio (Fin 150)"
definition value_rsiThreshold where "value_rsiThreshold = value_param vp_rsiThreshold (Fin 40)"
definition value_stopLossRate where "value_stopLossRate = value_param vp_stopLossRate (lit (10 / 100))"
definition value_takeProfitRate where "value_takeProfitRate = value_param vp_takeProfitRate (lit (15 / 100))"
definition value_requirePositiveEps where "value_requirePositiveEps = value_param vp_requirePositiveEps True"
definition value_minSalesGrowthRate where
  "value_minSalesGrowthRate = value_param vp_minSalesGrowthRate (- Fin 20)"
definition value_minOperatingProfitGrowthRate where
  "value_minOperatingProfitGrowthRate = value_param vp_minOperatingProfitGrowthRate (- Fin 30)"
definition value_maxEvEbitda where "value_maxEvEbitda = value_param vp_maxEvEbitda (Fin 15)"

definition value_mddBuyBlock :: jsnum where "value_mddBuyBlock = - lit (15 / 100)"
definition value_mddLiquidate :: jsnum where "value_mddLiquidate = - lit (25 / 100)"

datatype value_reason =
    ValueRiskLiquidation jsnum jsnum
  | ValueStopLoss jsnum jsnum
  | ValueTakeProfit jsnum jsnum
  | ValueOverbought jsnum
  | ValueEntry "jsnum option"

datatype value_skip =
    ValueInvalidPrice
  | ValueAlreadyExecuted
  | ValueRiskBlocked string
  | ValueInvestCaution
  | ValueMarketWarning "string option"
  | ValueNoFundamentals
  | ValuePayout "jsnum option"
  | ValuePer "jsnum option" jsnum
  | ValuePbr "jsnum option" jsnum
  | ValueEps "jsnum option"
  | ValueRoe "jsnum option" jsnum
  | ValueDebt "jsnum option" jsnum
  | ValueSales "jsnum option" jsnum
  | ValueProfit "jsnum option" jsnum
  | ValueEvEbitda "jsnum option" jsnum
  | ValueRsi "jsnum option" jsnum
  | ValueEarnings "jsnum option"
  | ValueTarget "jsnum option"
  | ValueConsensus "string option"

type_synonym value_evaluation = "(value_reason, unit, value_skip, unit) evaluation"

definition value_exit :: "value_params strategy_context \<Rightarrow> stock_position \<Rightarrow> value_evaluation" where
  "value_exit ctx p =
    (let curPrice = px_currentPrice (price ctx); rp = roundPrice (ws_market (watchStock ctx));
         profitRate = (curPrice - pos_avgPrice p) / pos_avgPrice p;
         sell = (\<lambda>r. emit [order ctx SELL (pos_quantity p) (Some (rp curPrice)) r None None])
     in
     if profitRate \<le> - value_stopLossRate ctx
       then sell (ValueStopLoss (profitRate * Fin 100) (value_stopLossRate ctx * Fin 100))
     else if profitRate \<ge> value_takeProfitRate ctx
       then sell (ValueTakeProfit (profitRate * Fin 100) (value_takeProfitRate ctx * Fin 100))
     else case rsi14 (stockIndicators ctx) of
       Some rsi \<Rightarrow> if rsi > Fin 70 then sell (ValueOverbought rsi) else emit []
     | None \<Rightarrow> emit [])"

text \<open>The fundamental filters, in the order of the code; the first that fails.\<close>

definition value_rejection ::
  "value_params strategy_context \<Rightarrow> stock_fundamentals \<Rightarrow> value_skip option" where
  "value_rejection ctx f =
    (let ind = stockIndicators ctx; isOverseas = (ws_market (watchStock ctx) = OVERSEAS) in
     if given (\<lambda>x. x > Fin 120) (dividendPayoutRate f) then Some (ValuePayout (dividendPayoutRate f))
     else if per f = None \<or> given (\<lambda>x. x \<le> Fin 0 \<or> x \<ge> value_maxPer ctx) (per f)
       then Some (ValuePer (per f) (value_maxPer ctx))
     else if given (\<lambda>x. x \<ge> value_maxPbr ctx) (pbr f) then Some (ValuePbr (pbr f) (value_maxPbr ctx))
     else if value_requirePositiveEps ctx \<and> given (\<lambda>x. x \<le> Fin 0) (eps f) then Some (ValueEps (eps f))
     else if \<not> isOverseas \<and> given (\<lambda>x. x < value_minRoe ctx) (roe f)
       then Some (ValueRoe (roe f) (value_minRoe ctx))
     else if given (\<lambda>x. x \<ge> value_maxDebtRatio ctx) (debtRatio f)
       then Some (ValueDebt (debtRatio f) (value_maxDebtRatio ctx))
     else if given (\<lambda>x. x < value_minSalesGrowthRate ctx) (salesGrowthRate f)
       then Some (ValueSales (salesGrowthRate f) (value_minSalesGrowthRate ctx))
     else if given (\<lambda>x. x < value_minOperatingProfitGrowthRate ctx) (operatingProfitGrowthRate f)
       then Some (ValueProfit (operatingProfitGrowthRate f) (value_minOperatingProfitGrowthRate ctx))
     else if \<not> isOverseas \<and> given (\<lambda>x. x > value_maxEvEbitda ctx) (evEbitda f)
       then Some (ValueEvEbitda (evEbitda f) (value_maxEvEbitda ctx))
     else if given (\<lambda>x. x \<ge> value_rsiThreshold ctx) (rsi14 ind)
       then Some (ValueRsi (rsi14 ind) (value_rsiThreshold ctx))
     else if given (\<lambda>x. x < - Fin 20) (earningsSurprise ind) then Some (ValueEarnings (earningsSurprise ind))
     else if given (\<lambda>x. x < - Fin 10) (targetPriceUpside ind) then Some (ValueTarget (targetPriceUpside ind))
     else if (case consensusRating ind of None \<Rightarrow> False | Some r \<Rightarrow> r \<noteq> [] \<and> negative_rating r)
       then Some (ValueConsensus (consensusRating ind))
     else None)"

definition value_entry :: "value_params strategy_context \<Rightarrow> mdd_check option \<Rightarrow> value_evaluation" where
  "value_entry ctx mdd =
    (let ind = stockIndicators ctx; curPrice = px_currentPrice (price ctx);
         rp = roundPrice (ws_market (watchStock ctx)) in
     if alreadyExecutedToday ctx then skip ValueAlreadyExecuted
     else if risk_buy_blocked ctx mdd then skip (ValueRiskBlocked (coalesce (joined_reasons ctx) ''MDD''))
     else if flag (investCautionYn ind) then skip ValueInvestCaution
     else if market_warned ind then skip (ValueMarketWarning (marketWarnCode ind))
     else case fundamentals ctx of
       None \<Rightarrow> skip ValueNoFundamentals
     | Some f \<Rightarrow>
         (case value_rejection ctx f of
           Some why \<Rightarrow> skip why
         | None \<Rightarrow>
             let quota = or_opt (ws_quota (watchStock ctx)) (Fin 0);
                 buyAmount = min_num quota (buyableAmount ctx);
                 buyQty = floor_num (buyAmount / curPrice)
             in emit (if buyQty > Fin 0
               then [order ctx BUY buyQty (Some (rp curPrice)) (ValueEntry (per f)) None None]
               else [])))"

definition value_evaluateStock :: "value_params strategy_context \<Rightarrow> value_evaluation" where
  "value_evaluateStock ctx =
    (let curPrice = px_currentPrice (price ctx);
         mdd = mddCheck value_mddBuyBlock value_mddLiquidate ctx;
         drawdown = (case riskState ctx of None \<Rightarrow> NaN | Some rs \<Rightarrow> rs_drawdown rs)
     in
     if curPrice \<le> Fin 0 then skip ValueInvalidPrice
     else case held_position ctx of
       Some p \<Rightarrow>
         if flag (map_option liquidateAll mdd)
         then emit [order ctx SELL (pos_quantity p)
           (Some (roundPrice (ws_market (watchStock ctx)) curPrice))
           (ValueRiskLiquidation (drawdown * Fin 100) (value_mddLiquidate * Fin 100)) None None]
         else value_exit ctx p
     | None \<Rightarrow> value_entry ctx mdd)"

section \<open>The contract\<close>

lemma value_exit_signals:
  assumes "held_position ctx = Some p" "s \<in> set (signals (value_exit ctx p))"
  shows "signals (value_exit ctx p) = [s] \<and> signal_ok ctx s \<and> sg_side s = SELL \<and> sg_quantity s = pos_quantity p"
  using assms(2) held_positionD [OF assms(1)]
  by (auto simp: value_exit_def Let_def split: if_splits option.splits)

lemma value_entry_signals:
  assumes "s \<in> set (signals (value_entry ctx m))"
  shows "signals (value_entry ctx m) = [s] \<and> signal_ok ctx s \<and> sg_side s = BUY"
  using assms by (auto simp: value_entry_def Let_def split: if_splits option.splits)

lemma value_signals:
  assumes "s \<in> set (signals (value_evaluateStock ctx))"
  shows "signals (value_evaluateStock ctx) = [s] \<and> signal_ok ctx s"
  using assms value_exit_signals [of ctx _ s] value_entry_signals [of s ctx] held_positionD [of ctx]
  by (auto simp: value_evaluateStock_def Let_def split: if_splits option.splits)

lemma value_no_price: "px_currentPrice (price ctx) \<le> Fin 0 \<Longrightarrow> signals (value_evaluateStock ctx) = []"
  by (simp add: value_evaluateStock_def Let_def)

interpretation val: single_order_strategy value_evaluateStock
  by unfold_locales (use value_signals value_no_price in blast)+

section \<open>Entries\<close>

lemma value_accepts:
  assumes "value_rejection ctx f = None"
  shows "per f \<noteq> None" "\<not> given (\<lambda>x. x \<le> Fin 0 \<or> x \<ge> value_maxPer ctx) (per f)"
    "\<not> given (\<lambda>x. x \<ge> value_maxPbr ctx) (pbr f)"
    "\<not> value_requirePositiveEps ctx \<or> \<not> given (\<lambda>x. x \<le> Fin 0) (eps f)"
    "\<not> given (\<lambda>x. x \<ge> value_maxDebtRatio ctx) (debtRatio f)" "\<not> given (\<lambda>x. x > Fin 120) (dividendPayoutRate f)"
  using assms by (auto simp: value_rejection_def Let_def split: if_splits)

lemma per_between:
  "m \<noteq> NaN \<Longrightarrow> \<not> (x \<le> Fin 0 \<or> m \<le> x) \<Longrightarrow> x = NaN \<or> Fin 0 < x \<and> x < m"
  by (cases "x = NaN") (simp_all add: js_not_le)

text \<open>
  The value strategy buys only an unheld stock whose fundamentals are known and pass the
  filters: a numeric PER strictly between zero and its limit, and no PBR, EPS, debt or payout beyond
  its limit where it is known; it has not run today, nothing blocks buying, and the shares cost at
  most the quota and the buyable amount (up to one rounding error of the division).
\<close>

lemma value_buy_guarded:
  assumes "s \<in> set (signals (value_evaluateStock ctx))" "sg_side s = BUY"
    "px_currentPrice (price ctx) = Fin c" "buyableAmount ctx = Fin b" "b / c \<le> 2 ^ 60"
    "ws_quota (watchStock ctx) = Some (Fin q)" "0 < q" "value_maxPer ctx \<noteq> NaN"
  shows "\<exists>f x n. \<not> hasPosition ctx \<and> fundamentals ctx = Some f \<and> \<not> alreadyExecutedToday ctx \<and>
    \<not> risk_buy_blocked ctx (mddCheck value_mddBuyBlock value_mddLiquidate ctx) \<and>
    per f = Some x \<and> (x = NaN \<or> Fin 0 < x \<and> x < value_maxPer ctx) \<and>
    \<not> given (\<lambda>y. y \<ge> value_maxPbr ctx) (pbr f) \<and>
    (\<not> value_requirePositiveEps ctx \<or> \<not> given (\<lambda>y. y \<le> Fin 0) (eps f)) \<and>
    \<not> given (\<lambda>y. y \<ge> value_maxDebtRatio ctx) (debtRatio f) \<and> \<not> given (\<lambda>y. y > Fin 120) (dividendPayoutRate f) \<and>
    sg_quantity s = Fin (of_int n) \<and> 1 \<le> n \<and>
    of_int n * c \<le> b * (1 + 1 / 2 ^ 53) \<and> of_int n * c \<le> q * (1 + 1 / 2 ^ 53)"
proof -
  have np: "held_position ctx = None"
  proof (cases "held_position ctx")
    case (Some p)
    then show ?thesis using assms(1,2) value_exit_signals [OF Some, of s]
      by (auto simp: value_evaluateStock_def Let_def split: if_splits)
  qed
  then have e: "s \<in> set (signals (value_entry ctx (mddCheck value_mddBuyBlock value_mddLiquidate ctx)))" "0 < c"
    using assms(1,3) by (auto simp: value_evaluateStock_def Let_def split: if_splits)
  then obtain f where f: "fundamentals ctx = Some f" "value_rejection ctx f = None" "\<not> alreadyExecutedToday ctx"
    "\<not> risk_buy_blocked ctx (mddCheck value_mddBuyBlock value_mddLiquidate ctx)"
    "sg_quantity s = floor_num (min_num (Fin q) (Fin b) / Fin c)"
    "Fin 0 < floor_num (min_num (Fin q) (Fin b) / Fin c)"
    using assms(3,4,6,7)
    by (auto simp: value_entry_def Let_def or_num_def simp del: min_num_Fin split: if_splits option.splits)
  obtain n where n: "floor_num (min_num (Fin q) (Fin b) / Fin c) = Fin (of_int n)" "1 \<le> n"
      "of_int n * c \<le> b * (1 + 1 / 2 ^ 53)" "of_int n * c \<le> q * (1 + 1 / 2 ^ 53)"
    using buy_affordable [OF f(6) e(2) assms(5)] by (auto simp del: min_num_Fin)
  obtain x where x: "per f = Some x" using value_accepts(1) [OF f(2)] by auto
  then have "x = NaN \<or> Fin 0 < x \<and> x < value_maxPer ctx"
    using value_accepts(2) [OF f(2)] by (intro per_between assms(8)) simp
  then show ?thesis using np f(1,3-5) n x value_accepts(3-) [OF f(2)]
    by (auto simp: held_position_None simp del: min_num_Fin)
qed

definition value_example :: "value_params strategy_context" where
  "value_example = (example_ctx DOMESTIC None 40 None)\<lparr>fundamentals := Some \<lparr>per = Some (Fin 8), pbr = None,
     roe = None, debtRatio = None, eps = None, salesGrowthRate = None, operatingProfitGrowthRate = None,
     evEbitda = None, dividendPayoutRate = None\<rparr>\<rparr>"

theorem value_buy_guarded_witness:
  "\<exists>n. map sg_quantity (signals (value_evaluateStock value_example)) = [Fin (of_int n)] \<and>
     of_int n * 40 \<le> (1000 :: rat) * (1 + 1 / 2 ^ 53)"
proof -
  have m: "value_maxPer value_example = Fin 10"
    by (simp add: value_maxPer_def value_param_def value_example_def example_ctx_def)
  have e: "px_currentPrice (price value_example) = Fin 40" "buyableAmount value_example = Fin 1000"
    "ws_quota (watchStock value_example) = Some (Fin 10000)"
    by (simp_all add: value_example_def example_ctx_def)
  obtain s where s: "signals (value_evaluateStock value_example) = [s]" "sg_side s = BUY"
    by (simp add: value_evaluateStock_def value_entry_def value_rejection_def Let_def held_position_def
        hasPosition_def market_warned_def risk_buy_blocked_def mddCheck_def value_maxPer_def value_param_def
        value_example_def example_ctx_def no_indicators_def or_num_def fl_eval Fin_arith)
  then show ?thesis using value_buy_guarded [of s value_example 40 1000 10000] e m
    by (auto simp del: min_num_Fin)
qed

end
