(* ===== verification/JsDate.thy ===== *)
theory JsDate imports Prelude begin

text \<open>
  The \<open>Date\<close> operations the code uses, on epoch milliseconds: the civil date of a day number in the
  proleptic Gregorian calendar, \<open>toISOString().slice(0, 10)\<close> and the minutes since midnight.
\<close>

section \<open>Calendar\<close>

text \<open>Days are counted from 1970-01-01; the year of the computation starts in March.\<close>

definition civil_of_day :: "int \<Rightarrow> int \<times> int \<times> int" where
  "civil_of_day day =
    (let z = day + 719468;
         era = z div 146097;
         doe = z mod 146097;
         yoe = (doe - doe div 1460 + doe div 36524 - doe div 146096) div 365;
         doy = doe - (365 * yoe + yoe div 4 - yoe div 100);
         mp = (5 * doy + 2) div 153;
         d = doy - (153 * mp + 2) div 5 + 1;
         m = (if mp < 10 then mp + 3 else mp - 9)
     in (yoe + era * 400 + (if m \<le> 2 then 1 else 0), m, d))"

fun digits_text :: "nat \<Rightarrow> nat \<Rightarrow> string" where
  "digits_text 0 n = []"
| "digits_text (Suc k) n = digits_text k (n div 10) @ [char_of (48 + n mod 10)]"

definition year_text :: "int \<Rightarrow> string" where
  "year_text y = (if 0 \<le> y \<and> y \<le> 9999 then digits_text 4 (nat y)
     else (if y < 0 then ''-'' else ''+'') @ digits_text 6 (nat \<bar>y\<bar>))"

text \<open>\<open>new Date(ms).toISOString().slice(0, 10)\<close>.\<close>

definition isoDate :: "int \<Rightarrow> string" where
  "isoDate ms = (case civil_of_day (ms div 86400000) of
     (y, m, d) \<Rightarrow> take 10 (year_text y @ ''-'' @ digits_text 2 (nat m) @ ''-'' @ digits_text 2 (nat d)))"

text \<open>The instant shifted to Korean time, its date and its minutes since midnight.\<close>

definition minutesOfDay :: "int \<Rightarrow> int" where
  "minutesOfDay ms = (ms mod 86400000) div 60000"


end
