(* ===== verification/V4Strategy.thy ===== *)
theory V4Strategy imports V4Ledger StrategyContract JsDate begin

text \<open>
  The infinite-buy V4 strategy (\<open>src/trading/strategy/infinite-buy-v4.strategy.ts\<close>): the guards, the
  ledger consistency check, the switch between normal and reverse mode, and the signals of a normal
  day, of the first reverse day and of the later ones. Stored parameters are read only; the new mode
  and the rolling window of closes are returned in the details. A thrown \<open>RangeError\<close> is the left
  value. The clock is the argument \<open>clock\<close>, read when the context carries no time.
\<close>

section \<open>Data\<close>

datatype v4_mode = NORMAL | REVERSE

record v4_close =
  cl_date :: string
  cl_close :: jsnum

record v4_params =
  v4p_starBasePct :: "jsnum option"
  v4p_finalTargetPct :: "jsnum option"
  v4p_firstBuyMarkupPct :: "jsnum option"
  v4p_maxBuyPremiumPct :: "jsnum option"
  v4p_ladderStepsPct :: "jsnum list option"
  v4p_compoundMode :: "bool option"
  v4p_mode :: "v4_mode option"
  v4p_turn :: "jsnum option"
  v4p_cashRemaining :: "jsnum option"
  v4p_cycleSeq :: "jsnum option"
  v4p_recentCloses :: "v4_close list option"
  v4p_lastKnownHoldQty :: "jsnum option"

definition no_v4_params :: v4_params where
  "no_v4_params = \<lparr>v4p_starBasePct = None, v4p_finalTargetPct = None, v4p_firstBuyMarkupPct = None,
     v4p_maxBuyPremiumPct = None, v4p_ladderStepsPct = None, v4p_compoundMode = None, v4p_mode = None,
     v4p_turn = None, v4p_cashRemaining = None, v4p_cycleSeq = None, v4p_recentCloses = None,
     v4p_lastKnownHoldQty = None\<rparr>"

text \<open>The stored parameters; the V4 part may be missing.\<close>

record v4_strategy_params =
  sp_v4 :: "v4_params option"

type_synonym v4_ctx = "v4_strategy_params strategy_context"

record v4_coefficients =
  co_starBasePct :: jsnum
  co_finalTargetPct :: jsnum
  co_firstBuyMarkupPct :: jsnum
  co_maxBuyPremiumPct :: jsnum
  co_ladderStepsPct :: "jsnum list"
  co_compoundMode :: bool

record v4_price_clamp =
  pc_originalPrice :: jsnum
  pc_clampedPrice :: jsnum
  pc_capPrice :: jsnum
  pc_maxBuyPremiumPct :: jsnum

record v4_meta =
  vm_phase :: string
  vm_fillModel :: string
  vm_attemptAmount :: "jsnum option"
  vm_buyPriceClamp :: "v4_price_clamp option"
  vm_prevHolding :: "jsnum option"
  vm_dayBuyAttemptTotal :: "jsnum option"

text \<open>A reason is the phase with the quantity and the price it names.\<close>

datatype v4_reason = V4Reason string jsnum jsnum

type_synonym v4_signal = "(v4_reason, v4_meta) signal"

datatype v4_skip =
    V4DomesticUnsupported
  | V4NoQuotaOrCycles
  | V4InvalidPrice jsnum
  | V4NoCoefficients
  | V4InvalidAverage jsnum
  | V4AlreadyExecuted
  | V4HoldingMismatch jsnum jsnum
  | V4TurnMismatch jsnum bool jsnum
  | V4BudgetTooSmall jsnum
  | V4NoBudget jsnum jsnum
  | V4QuarterPrice jsnum
  | V4FinalPrice jsnum
  | V4FirstDayPrice jsnum
  | V4FirstDayNoShares jsnum jsnum
  | V4FewCloses nat
  | V4ReversePrice jsnum
  | V4NothingToDo

text \<open>The details a builder adds, all absent at first.\<close>

record v4_built_details =
  bd_dailyBuyBudget :: "jsnum option"
  bd_dailyBuyBudgetCapped :: "jsnum option"
  bd_buyableCapApplied :: bool
  bd_star :: "star_point option"
  bd_ladderOrders :: "ladder_order list option"
  bd_buyPriceClamps :: "(string \<times> v4_price_clamp) list"
  bd_reverseStarPrice :: "jsnum option"

definition no_built_details :: v4_built_details where
  "no_built_details = \<lparr>bd_dailyBuyBudget = None, bd_dailyBuyBudgetCapped = None, bd_buyableCapApplied = False,
     bd_star = None, bd_ladderOrders = None, bd_buyPriceClamps = [], bd_reverseStarPrice = None\<rparr>"

record v4_built =
  b_signals :: "v4_signal list"
  b_skipReasons :: "v4_skip list"
  b_details :: v4_built_details

datatype v4_details =
    V4Mismatch (mismatch_T: jsnum) (mismatch_hold: jsnum) (mismatch_known: "jsnum option")
  | V4Evaluated (d_T: jsnum) (d_mode: v4_mode) (d_cashRemaining: jsnum) (d_cycleSeq: jsnum)
      (d_avgPrice: jsnum) (d_holdQty: jsnum) (d_stateUpdate: "v4_mode \<times> v4_close list") (d_built: v4_built_details)

type_synonym v4_evaluation = "(v4_reason, v4_meta, v4_skip, v4_details) evaluation"

section \<open>Coefficients and the rolling window\<close>

definition DEFAULT_STAR_BASE_PCT_BY_STOCK :: "(string \<times> jsnum) list" where
  "DEFAULT_STAR_BASE_PCT_BY_STOCK = [(''TQQQ'', Fin 15), (''SOXL'', Fin 20)]"

definition resolveCoefficients :: "string \<Rightarrow> v4_params \<Rightarrow> v4_coefficients option" where
  "resolveCoefficients stockCode v4 =
    (case (if finite_opt (v4p_starBasePct v4) then v4p_starBasePct v4
           else map_of DEFAULT_STAR_BASE_PCT_BY_STOCK (to_upper stockCode)) of
      None \<Rightarrow> None
    | Some base \<Rightarrow> Some
        \<lparr>co_starBasePct = base,
         co_finalTargetPct = finite_or (v4p_finalTargetPct v4) base,
         co_firstBuyMarkupPct = finite_or (v4p_firstBuyMarkupPct v4) (lit (12 / 100)),
         co_maxBuyPremiumPct = finite_or (v4p_maxBuyPremiumPct v4) (lit (1 / 10)),
         co_ladderStepsPct = (case v4p_ladderStepsPct v4 of
             Some (s # ss) \<Rightarrow> s # ss | _ \<Rightarrow> [lit (5 / 100), lit (1 / 10), lit (15 / 100)]),
         co_compoundMode = coalesce (v4p_compoundMode v4) True\<rparr>)"

definition MAX_RECENT_CLOSES :: nat where "MAX_RECENT_CLOSES = 5"
definition MIN_RECENT_CLOSES_FOR_REVERSE :: nat where "MIN_RECENT_CLOSES_FOR_REVERSE = 3"

definition last_n :: "nat \<Rightarrow> 'a list \<Rightarrow> 'a list" where
  "last_n n xs = drop (length xs - n) xs"

definition updateRecentCloses :: "v4_close list \<Rightarrow> jsnum option \<Rightarrow> string \<Rightarrow> v4_close list" where
  "updateRecentCloses recentCloses prevC evalDate =
    (case prevC of
      None \<Rightarrow> recentCloses
    | Some c \<Rightarrow>
        if \<not> isFinite c \<or> c \<le> Fin 0 then recentCloses
        else if list_ex (\<lambda>r. cl_date r = evalDate) recentCloses then recentCloses
        else last_n MAX_RECENT_CLOSES (recentCloses @ [\<lparr>cl_date = evalDate, cl_close = c\<rparr>]))"

section \<open>Signals\<close>

definition buildBuySignal :: "v4_ctx \<Rightarrow> jsnum \<Rightarrow> jsnum \<Rightarrow> string \<Rightarrow> jsnum \<Rightarrow> v4_signal" where
  "buildBuySignal ctx quantity pr phase maxBuyPremiumPct =
    (let cur = px_currentPrice (price ctx);
         capPrice = roundToCent (cur * (Fin 1 + maxBuyPremiumPct));
         clampedPrice = (if phase \<noteq> ''v4-first-buy'' \<and> cur > Fin 0 then min_num pr capPrice else pr)
     in order ctx BUY quantity (Some clampedPrice) (V4Reason phase quantity clampedPrice) (Some ''34'')
       (Some \<lparr>vm_phase = phase, vm_fillModel = ''loc'', vm_attemptAmount = Some (roundToCent (pr * quantity)),
          vm_buyPriceClamp = (if clampedPrice < pr
            then Some \<lparr>pc_originalPrice = pr, pc_clampedPrice = clampedPrice, pc_capPrice = capPrice,
              pc_maxBuyPremiumPct = maxBuyPremiumPct\<rparr>
            else None),
          vm_prevHolding = None, vm_dayBuyAttemptTotal = None\<rparr>))"

definition buildSellSignal :: "v4_ctx \<Rightarrow> jsnum \<Rightarrow> jsnum \<Rightarrow> string \<Rightarrow> jsnum \<Rightarrow> string \<Rightarrow> string \<Rightarrow> v4_signal" where
  "buildSellSignal ctx quantity pr phase prevHolding orderDivision fillModel =
     order ctx SELL quantity (Some pr) (V4Reason phase quantity pr) (Some orderDivision)
       (Some \<lparr>vm_phase = phase, vm_fillModel = fillModel, vm_attemptAmount = None, vm_buyPriceClamp = None,
          vm_prevHolding = Some prevHolding, vm_dayBuyAttemptTotal = None\<rparr>)"

text \<open>The day's total attempt over all buy signals, written into each of them.\<close>

definition attempt_amount :: "v4_signal \<Rightarrow> jsnum" where
  "attempt_amount s = coalesce (Option.bind (sg_metadata s) vm_attemptAmount)
     (coalesce (sg_price s) (Fin 0) * sg_quantity s)"

definition day_total :: "v4_signal list \<Rightarrow> jsnum" where
  "day_total ss = roundToCent
     (foldl (\<lambda>sum s. sum + attempt_amount s) (Fin 0) (filter (\<lambda>s. sg_side s = BUY) ss))"

definition with_total :: "jsnum \<Rightarrow> v4_signal \<Rightarrow> v4_signal" where
  "with_total amount s = (if sg_side s = BUY
     then s\<lparr>sg_metadata := map_option (\<lambda>m. m\<lparr>vm_dayBuyAttemptTotal := Some amount\<rparr>) (sg_metadata s)\<rparr> else s)"

definition price_clamps :: "v4_signal list \<Rightarrow> (string \<times> v4_price_clamp) list" where
  "price_clamps ss = List.map_filter
     (\<lambda>s. Option.bind (sg_metadata s) (\<lambda>m. map_option (\<lambda>c. (vm_phase m, c)) (vm_buyPriceClamp m)))
     (filter (\<lambda>s. sg_side s = BUY) ss)"

definition injectDayBuyAttemptTotal ::
  "v4_signal list \<Rightarrow> v4_built_details \<Rightarrow> v4_signal list \<times> v4_built_details" where
  "injectDayBuyAttemptTotal ss d =
    (if filter (\<lambda>s. sg_side s = BUY) ss = [] then (ss, d)
     else (map (with_total (day_total ss)) ss, d\<lparr>bd_buyPriceClamps := price_clamps ss\<rparr>))"

section \<open>Normal day\<close>

text \<open>One buy leg: a signal when at least one share, and the budget it spends.\<close>

definition buy_leg :: "v4_ctx \<Rightarrow> jsnum \<Rightarrow> jsnum \<Rightarrow> string \<Rightarrow> jsnum \<Rightarrow> v4_signal list" where
  "buy_leg ctx qty pr phase premium =
     (if qty > Fin 0 then [buildBuySignal ctx qty pr phase premium] else [])"

definition spend :: "jsnum \<Rightarrow> jsnum \<Rightarrow> jsnum \<Rightarrow> jsnum" where
  "spend spent qty pr = (if qty > Fin 0 then spent + qty * pr else spent)"

text \<open>The builders return the signals with the day's total injected.\<close>

definition v4_finish :: "v4_signal list \<Rightarrow> v4_skip list \<Rightarrow> v4_built_details \<Rightarrow> v4_built" where
  "v4_finish ss skips d =
    (let r = injectDayBuyAttemptTotal ss d in
     \<lparr>b_signals = fst r, b_skipReasons = skips, b_details = snd r\<rparr>)"

lemma v4_finish_signals [simp]: "b_signals (v4_finish ss skips d) = fst (injectDayBuyAttemptTotal ss d)"
  by (simp add: v4_finish_def Let_def)

text \<open>The main buys of a day: their signals, the budget spent and the base price of the ladder.\<close>

record v4_main =
  mb_signals :: "v4_signal list"
  mb_spent :: jsnum
  mb_ladderBase :: jsnum

definition main_buys ::
  "v4_ctx \<Rightarrow> v4_coefficients \<Rightarrow> jsnum \<Rightarrow> jsnum \<Rightarrow> jsnum \<Rightarrow> jsnum \<Rightarrow> star_point option \<Rightarrow>
    v4_main" where
  "main_buys ctx coeff T N D avgPrice star =
    (let curPrice = px_currentPrice (price ctx); premium = co_maxBuyPremiumPct coeff in
     case star of
       None \<Rightarrow>
         let firstBuyPrice = roundToCent (curPrice * (Fin 1 + co_firstBuyMarkupPct coeff));
             firstBuyQty = floor_num (D / firstBuyPrice)
         in \<lparr>mb_signals = buy_leg ctx firstBuyQty firstBuyPrice ''v4-first-buy'' premium,
             mb_spent = spend (Fin 0) firstBuyQty firstBuyPrice, mb_ladderBase = firstBuyPrice\<rparr>
     | Some st \<Rightarrow>
         let starLegPrice = buyLimitPrice st in
         if T < N / Fin 2 then
           let halfD = D / Fin 2;
               avgLegPrice = roundToCent avgPrice;
               avgLegQty = floor_num (halfD / avgLegPrice);
               starLegQty = (if starLegPrice > Fin 0 then floor_num (halfD / starLegPrice) else Fin 0)
           in \<lparr>mb_signals = buy_leg ctx avgLegQty avgLegPrice ''v4-avg-buy'' premium @
                 buy_leg ctx starLegQty starLegPrice ''v4-star-buy'' premium,
               mb_spent = spend (spend (Fin 0) avgLegQty avgLegPrice) starLegQty starLegPrice,
               mb_ladderBase = (if starLegPrice > Fin 0 then min_num avgLegPrice starLegPrice else avgLegPrice)\<rparr>
         else
           let starLegQty = (if starLegPrice > Fin 0 then floor_num (D / starLegPrice) else Fin 0)
           in \<lparr>mb_signals = buy_leg ctx starLegQty starLegPrice ''v4-star-buy'' premium,
               mb_spent = spend (Fin 0) starLegQty starLegPrice, mb_ladderBase = starLegPrice\<rparr>)"

definition ladder_buys :: "v4_ctx \<Rightarrow> v4_coefficients \<Rightarrow> jsnum \<Rightarrow> jsnum \<Rightarrow> jsnum \<Rightarrow> ladder_order list option" where
  "ladder_buys ctx coeff D spent ladderBasePrice =
    (let ladderBudget = max_num (Fin 0) (D - spent) in
     if ladderBasePrice > Fin 0 \<and> ladderBudget > Fin 0
     then Some (allocateLadderOrders ladderBudget ladderBasePrice (co_ladderStepsPct coeff)) else None)"

definition ladder_signals :: "v4_ctx \<Rightarrow> v4_coefficients \<Rightarrow> ladder_order list \<Rightarrow> v4_signal list" where
  "ladder_signals ctx coeff los =
     map (\<lambda>lo. buildBuySignal ctx (l_quantity lo) (l_price lo) ''v4-ladder-buy'' (co_maxBuyPremiumPct coeff)) los"

definition normal_sells ::
  "v4_ctx \<Rightarrow> v4_coefficients \<Rightarrow> jsnum \<Rightarrow> jsnum \<Rightarrow> star_point \<Rightarrow> v4_signal list \<times> v4_skip list" where
  "normal_sells ctx coeff avgPrice holdQty st =
    (let quarterPrice = sellLimitPrice st;
         quarterQty = (if holdQty \<ge> Fin 2 \<and> quarterPrice > Fin 0
           then max_num (Fin 1) (floor_num (holdQty / Fin 4)) else Fin 0);
         quarter = (if holdQty \<ge> Fin 2 then
             if quarterPrice > Fin 0
             then ([buildSellSignal ctx quarterQty quarterPrice ''v4-quarter-sell'' holdQty ''34'' ''loc''], [])
             else ([], [V4QuarterPrice quarterPrice])
           else ([], []));
         finalQty = holdQty - quarterQty;
         finalPrice = roundToCent (avgPrice * (Fin 1 + co_finalTargetPct coeff / Fin 100));
         final = (if finalQty > Fin 0 then
             if finalPrice > Fin 0
             then ([buildSellSignal ctx finalQty finalPrice ''v4-final-sell'' holdQty ''00'' ''limit-touch''], [])
             else ([], [V4FinalPrice finalPrice])
           else ([], []))
     in (fst quarter @ fst final, snd quarter @ snd final))"

definition buildNormalSignals ::
  "v4_ctx \<Rightarrow> v4_coefficients \<Rightarrow> jsnum \<Rightarrow> jsnum \<Rightarrow> jsnum \<Rightarrow> jsnum \<Rightarrow> jsnum \<Rightarrow> js_error + v4_built" where
  "buildNormalSignals ctx coeff T N cash avgPrice holdQty =
    (case calculateDailyBuyBudget cash N T of
      Inl e \<Rightarrow> Inl e
    | Inr rawD \<Rightarrow>
      let D = max_num (Fin 0) (min_num rawD (buyableAmount ctx));
          d0 = no_built_details\<lparr>bd_dailyBuyBudget := Some rawD, bd_dailyBuyBudgetCapped := Some D,
            bd_buyableCapApplied := (D < rawD)\<rparr>
      in
      (case (if holdQty > Fin 0 then map_sum id Some (calculateStarPoint avgPrice T N (co_starBasePct coeff))
             else Inr None) of
        Inl e \<Rightarrow> Inl e
      | Inr star \<Rightarrow>
        let mains = main_buys ctx coeff T N D avgPrice star;
            ladder = ladder_buys ctx coeff D (mb_spent mains) (mb_ladderBase mains);
            buys = (if D > Fin 0 then mb_signals mains @ ladder_signals ctx coeff (coalesce ladder []) else []);
            buySkips = (if D > Fin 0 then if buys = [] then [V4BudgetTooSmall D] else []
              else [V4NoBudget rawD (buyableAmount ctx)]);
            sells = (case star of None \<Rightarrow> ([], []) | Some st \<Rightarrow> normal_sells ctx coeff avgPrice holdQty st)
        in Inr (v4_finish (buys @ fst sells) (buySkips @ snd sells)
             (d0\<lparr>bd_star := star, bd_ladderOrders := (if D > Fin 0 then ladder else None)\<rparr>))))"

section \<open>Reverse days\<close>

definition buildReverseFirstDaySignals :: "v4_ctx \<Rightarrow> jsnum \<Rightarrow> jsnum \<Rightarrow> jsnum \<Rightarrow> v4_built" where
  "buildReverseFirstDaySignals ctx N holdQty curPrice =
    (let M = N / Fin 2; sellQty = floor_num (holdQty / M); sellPrice = roundToCent curPrice in
     if sellQty > Fin 0 \<and> sellPrice > Fin 0
     then \<lparr>b_signals = [buildSellSignal ctx sellQty sellPrice ''v4-reverse-sell'' holdQty ''33'' ''moc''],
           b_skipReasons = [], b_details = no_built_details\<rparr>
     else \<lparr>b_signals = [],
           b_skipReasons = [if sellQty > Fin 0 then V4FirstDayPrice sellPrice else V4FirstDayNoShares holdQty M],
           b_details = no_built_details\<rparr>)"

definition reverse_sells :: "v4_ctx \<Rightarrow> jsnum \<Rightarrow> jsnum \<Rightarrow> jsnum \<Rightarrow> v4_signal list \<times> v4_skip list" where
  "reverse_sells ctx N holdQty reverseStarPrice =
    (let M = N / Fin 2; sellQty = floor_num (holdQty / M) in
     if holdQty > Fin 0 \<and> sellQty > Fin 0 then
       if reverseStarPrice > Fin 0
       then ([buildSellSignal ctx sellQty reverseStarPrice ''v4-reverse-sell'' holdQty ''34'' ''loc''], [])
       else ([], [V4ReversePrice reverseStarPrice])
     else ([], []))"

definition buildReverseOngoingSignals ::
  "v4_ctx \<Rightarrow> jsnum \<Rightarrow> jsnum \<Rightarrow> jsnum \<Rightarrow> v4_close list \<Rightarrow> jsnum \<Rightarrow> v4_built" where
  "buildReverseOngoingSignals ctx N cash holdQty closes maxBuyPremiumPct =
    (if length closes < MIN_RECENT_CLOSES_FOR_REVERSE
     then \<lparr>b_signals = [], b_skipReasons = [V4FewCloses (length closes)], b_details = no_built_details\<rparr>
     else
     let reverseStarPrice = roundToCent
           (foldl (\<lambda>sum c. sum + cl_close c) (Fin 0) closes / Fin (of_nat (length closes)));
         sells = reverse_sells ctx N holdQty reverseStarPrice;
         cappedBuyAmount = max_num (Fin 0) (min_num (cash / Fin 4) (buyableAmount ctx));
         reverseBuyPrice = roundToCent (reverseStarPrice - lit (1 / 100));
         reverseBuyQty = (if reverseBuyPrice > Fin 0 then floor_num (cappedBuyAmount / reverseBuyPrice) else Fin 0);
         buys = buy_leg ctx reverseBuyQty reverseBuyPrice ''v4-reverse-buy'' maxBuyPremiumPct;
         nothing = (if fst sells @ buys = [] then [V4NothingToDo] else [])
     in v4_finish (fst sells @ buys) (snd sells @ nothing)
          (no_built_details\<lparr>bd_reverseStarPrice := Some reverseStarPrice\<rparr>))"

section \<open>Evaluation\<close>

text \<open>
  The mode of the day: entering reverse mode when the stored mode is normal and the turn is beyond
  \<open>N - 1\<close>, leaving it when a held position has recovered; with whether reverse was just entered.
\<close>

definition v4_next_mode :: "v4_ctx \<Rightarrow> v4_coefficients \<Rightarrow> v4_mode \<Rightarrow> jsnum \<Rightarrow> jsnum \<Rightarrow> jsnum \<Rightarrow> bool \<Rightarrow> v4_mode \<times> bool" where
  "v4_next_mode ctx coeff md T N avgPrice hasPos =
    (if md = NORMAL \<and> shouldEnterReverseMode T N then (REVERSE, True)
     else if md = REVERSE \<and> hasPos \<and>
         shouldExitReverseMode (coalesce (prevClose (stockIndicators ctx)) (px_currentPrice (price ctx)))
           avgPrice (co_finalTargetPct coeff)
     then (NORMAL, False)
     else (md, False))"

text \<open>The check of the ledger against the holding of the broker.\<close>

definition v4_ledger_mismatch :: "v4_params \<Rightarrow> jsnum \<Rightarrow> jsnum \<Rightarrow> v4_evaluation option" where
  "v4_ledger_mismatch v4 T holdQty =
    (let known = v4p_lastKnownHoldQty v4 in
     if finite_opt known then
       (if \<not> js_eq (coalesce known NaN) holdQty
        then Some \<lparr>signals = [], skipReasons = [V4HoldingMismatch (coalesce known NaN) holdQty],
          details = Some (V4Mismatch T holdQty known)\<rparr>
        else None)
     else if (T > Fin 0) \<noteq> (holdQty > Fin 0)
     then Some \<lparr>signals = [], skipReasons = [V4TurnMismatch T (T > Fin 0) holdQty],
       details = Some (V4Mismatch T holdQty None)\<rparr>
     else None)"

text \<open>The evaluation after the guards, with the coefficients resolved.\<close>

definition v4_evaluate_day :: "int \<Rightarrow> v4_ctx \<Rightarrow> v4_params \<Rightarrow> v4_coefficients \<Rightarrow> jsnum \<Rightarrow> js_error + v4_evaluation" where
  "v4_evaluate_day clock ctx v4 coeff quotaSum =
    (let N = ws_maxCycles (watchStock ctx); curPrice = px_currentPrice (price ctx);
         holdQty = coalesce (map_option pos_quantity (position ctx)) (Fin 0);
         avgPrice = coalesce (map_option pos_avgPrice (position ctx)) (Fin 0);
         T = finite_or (v4p_turn v4) (Fin 0);
         cash = finite_or (v4p_cashRemaining v4) quotaSum;
         cycle = coalesce (v4p_cycleSeq v4) (Fin 0)
     in
     case v4_ledger_mismatch v4 T holdQty of
       Some r \<Rightarrow> Inr r
     | None \<Rightarrow>
       let closes = updateRecentCloses (coalesce (v4p_recentCloses v4) [])
             (prevClose (stockIndicators ctx)) (isoDate (coalesce (now ctx) clock));
           (md, justEntered) = v4_next_mode ctx coeff (coalesce (v4p_mode v4) NORMAL) T N avgPrice (holdQty > Fin 0)
       in
       (case (if md = REVERSE
              then Inr (if justEntered then buildReverseFirstDaySignals ctx N holdQty curPrice
                        else buildReverseOngoingSignals ctx N cash holdQty closes (co_maxBuyPremiumPct coeff))
              else buildNormalSignals ctx coeff T N cash avgPrice holdQty) of
         Inl e \<Rightarrow> Inl e
       | Inr built \<Rightarrow> Inr \<lparr>signals = b_signals built, skipReasons = b_skipReasons built,
           details = Some (V4Evaluated T md cash cycle avgPrice holdQty (md, closes) (b_details built))\<rparr>))"

definition v4_evaluateStock :: "int \<Rightarrow> v4_ctx \<Rightarrow> js_error + v4_evaluation" where
  "v4_evaluateStock clock ctx =
    (let ws = watchStock ctx; N = ws_maxCycles ws; curPrice = px_currentPrice (price ctx);
         quotaSum = coalesce (ws_quota ws) NaN;
         v4 = coalesce (Option.bind (ws_strategyParams ws) sp_v4) no_v4_params;
         holdQty = coalesce (map_option pos_quantity (position ctx)) (Fin 0);
         avgPrice = coalesce (map_option pos_avgPrice (position ctx)) (Fin 0)
     in
     if ws_market ws \<noteq> OVERSEAS then Inr (skip V4DomesticUnsupported)
     else if \<not> truthy quotaSum \<or> quotaSum \<le> Fin 0 \<or> \<not> truthy N \<or> N \<le> Fin 0 then Inr (skip V4NoQuotaOrCycles)
     else if curPrice \<le> Fin 0 then Inr (skip (V4InvalidPrice curPrice))
     else case resolveCoefficients (ws_stockCode ws) v4 of
       None \<Rightarrow> Inr (skip V4NoCoefficients)
     | Some coeff \<Rightarrow>
         if holdQty > Fin 0 \<and> avgPrice \<le> Fin 0 then Inr (skip (V4InvalidAverage avgPrice))
         else if alreadyExecutedToday ctx then Inr (skip V4AlreadyExecuted)
         else v4_evaluate_day clock ctx v4 coeff quotaSum)"

section \<open>The contract\<close>

text \<open>What a caller gets: an evaluation that throws yields no signals.\<close>

definition v4_caught :: "int \<Rightarrow> v4_ctx \<Rightarrow> v4_evaluation" where
  "v4_caught clock ctx = (case v4_evaluateStock clock ctx of Inl _ \<Rightarrow> emit [] | Inr r \<Rightarrow> r)"

text \<open>At least two splits; with a single one the reverse sell asks for twice the holding.\<close>

definition v4_splits_ok :: "v4_ctx \<Rightarrow> bool" where
  "v4_splits_ok ctx \<longleftrightarrow> (\<exists>n. ws_maxCycles (watchStock ctx) = Fin n \<and> 2 \<le> n \<and> n \<le> 2 ^ 53)"

lemma buy_signal_simps [simp]:
  "sg_side (buildBuySignal ctx q p ph m) = BUY" "sg_quantity (buildBuySignal ctx q p ph m) = q"
  "signal_ok ctx (buildBuySignal ctx q p ph m) \<longleftrightarrow> Fin 0 < q"
  by (simp_all add: buildBuySignal_def Let_def)

lemma sell_signal_simps [simp]:
  "sg_side (buildSellSignal ctx q p ph h od fm) = SELL" "sg_quantity (buildSellSignal ctx q p ph h od fm) = q"
  "signal_ok ctx (buildSellSignal ctx q p ph h od fm) \<longleftrightarrow> Fin 0 < q \<and> hasPosition ctx \<and> q \<le> held ctx"
  by (simp_all add: buildSellSignal_def)

lemma with_total_simps [simp]:
  "sg_side (with_total a s) = sg_side s" "sg_quantity (with_total a s) = sg_quantity s"
  "sg_price (with_total a s) = sg_price s" "signal_ok ctx (with_total a s) = signal_ok ctx s"
  by (auto simp: with_total_def signal_ok_def)

lemma sold_with_total [simp]: "sold (map (with_total a) ss) = sold ss"
  by (induction ss) auto

text \<open>All signals acceptable and no more sold than held, for a list of signals of one evaluation.\<close>

definition v4_good :: "v4_ctx \<Rightarrow> nat \<Rightarrow> v4_signal list \<Rightarrow> bool" where
  "v4_good ctx h ss \<longleftrightarrow> (\<forall>s \<in> set ss. signal_ok ctx s) \<and> sold ss \<le> of_nat h"

lemma v4_good_inject: "v4_good ctx h (fst (injectDayBuyAttemptTotal ss d)) \<longleftrightarrow> v4_good ctx h ss"
  by (auto simp: injectDayBuyAttemptTotal_def v4_good_def)

lemma v4_good_append_buys:
  "v4_good ctx h ss \<Longrightarrow> (\<And>s. s \<in> set bs \<Longrightarrow> signal_ok ctx s \<and> sg_side s = BUY) \<Longrightarrow>
    v4_good ctx h (bs @ ss) \<and> v4_good ctx h (ss @ bs)"
  using sold_buys [of bs] by (auto simp: v4_good_def)

lemma v4_good_Nil [simp]: "v4_good ctx h []"
  by (simp add: v4_good_def)

lemma buy_leg_ok: "s \<in> set (buy_leg ctx q p ph m) \<Longrightarrow> signal_ok ctx s \<and> sg_side s = BUY"
  by (auto simp: buy_leg_def split: if_splits)

lemma allocateLadder_one: "lo \<in> set (allocateLadder b p steps) \<Longrightarrow> l_quantity lo = Fin 1"
  by (induction b p steps rule: allocateLadder.induct) (auto simp: Let_def split: if_splits)

lemma main_buys_ok:
  "s \<in> set (mb_signals (main_buys ctx coeff T N D avg star)) \<Longrightarrow> signal_ok ctx s \<and> sg_side s = BUY"
  by (auto simp: main_buys_def Let_def buy_leg_ok split: option.splits if_splits)

lemma ladder_signals_ok:
  assumes "s \<in> set (ladder_signals ctx coeff (coalesce (ladder_buys ctx coeff D spent base) []))"
  shows "signal_ok ctx s \<and> sg_side s = BUY"
  using assms by (auto simp: ladder_signals_def ladder_buys_def allocateLadderOrders_def Let_def
      allocateLadder_one split: if_splits)

lemma normal_sells_good:
  assumes "whole_holding ctx h" "1 \<le> h" "hasPosition ctx"
  shows "v4_good ctx h (fst (normal_sells ctx coeff avg (held ctx) st))"
proof -
  have h: "held ctx = Fin (of_nat h)" "h \<le> 2 ^ 53" using assms(1) by (simp_all add: whole_holding_def)
  obtain q where q: "max_num (Fin 1) (floor_num (Fin (of_nat h) / Fin 4)) = Fin (of_nat q)" "1 \<le> q" "q \<le> h"
    using part_of_holding [OF assms(2) h(2), of 4] by auto
  have "Fin (of_int (int h)) - Fin (of_int (int q)) = Fin (of_int (int h - int q))"
    using q h(2) by (intro diff_Fin_int) simp
  then have f: "Fin (of_nat h) - Fin (of_nat q) = Fin (of_nat h - of_nat q)" by simp
  have z: "Fin (of_nat h) - Fin 0 = Fin (of_nat h)"
    using diff_Fin_int [of "int h" 0] h(2) by simp
  show ?thesis
    using assms q h f z by (auto simp: normal_sells_def Let_def v4_good_def)
qed

text \<open>The signals of a normal day: buys within the budget, then the sells of a held position.\<close>

lemma buildNormalSignals_cases:
  assumes "buildNormalSignals ctx coeff T N cash avg holdQty = Inr b"
  obtains star buys d where "star \<noteq> None \<Longrightarrow> Fin 0 < holdQty"
    "\<And>s. s \<in> set buys \<Longrightarrow> signal_ok ctx s \<and> sg_side s = BUY"
    "b_signals b = fst (injectDayBuyAttemptTotal
      (buys @ fst (case star of None \<Rightarrow> ([], []) | Some st \<Rightarrow> normal_sells ctx coeff avg holdQty st)) d)"
proof -
  let ?D = "\<lambda>rawD. max_num (Fin 0) (min_num rawD (buyableAmount ctx))"
  obtain rawD star where r: "calculateDailyBuyBudget cash N T = Inr rawD"
    "(if holdQty > Fin 0 then map_sum id Some (calculateStarPoint avg T N (co_starBasePct coeff)) else Inr None) = Inr star"
    using assms by (auto simp: buildNormalSignals_def Let_def split: sum.splits if_splits)
  let ?mains = "main_buys ctx coeff T N (?D rawD) avg star"
  let ?buys = "if ?D rawD > Fin 0 then mb_signals ?mains @ ladder_signals ctx coeff
      (coalesce (ladder_buys ctx coeff (?D rawD) (mb_spent ?mains) (mb_ladderBase ?mains)) []) else []"
  have "star \<noteq> None \<Longrightarrow> Fin 0 < holdQty" using r(2) by (auto split: if_splits)
  moreover have "s \<in> set ?buys \<Longrightarrow> signal_ok ctx s \<and> sg_side s = BUY" for s
    by (auto simp: main_buys_ok ladder_signals_ok split: if_splits)
  moreover obtain d where "b_signals b = fst (injectDayBuyAttemptTotal
      (?buys @ fst (case star of None \<Rightarrow> ([], []) | Some st \<Rightarrow> normal_sells ctx coeff avg holdQty st)) d)"
    using assms r by (auto simp: buildNormalSignals_def Let_def)
  ultimately show ?thesis using that by blast
qed

lemma buildNormalSignals_good:
  assumes "whole_holding ctx h" "buildNormalSignals ctx coeff T N cash avg (held ctx) = Inr b"
  shows "v4_good ctx h (b_signals b)"
proof (rule buildNormalSignals_cases [OF assms(2)])
  fix star buys d
  assume a: "star \<noteq> None \<Longrightarrow> Fin 0 < held ctx"
    "\<And>s. s \<in> set buys \<Longrightarrow> signal_ok ctx s \<and> sg_side s = BUY"
    "b_signals b = fst (injectDayBuyAttemptTotal (buys @ fst (case star of None \<Rightarrow> ([], [])
       | Some st \<Rightarrow> normal_sells ctx coeff avg (held ctx) st)) d)"
  have "v4_good ctx h (fst (case star of None \<Rightarrow> ([], []) | Some st \<Rightarrow> normal_sells ctx coeff avg (held ctx) st))"
    using a(1) normal_sells_good [OF assms(1)] whole_holding_pos [OF assms(1)]
    by (cases star) (auto simp: hasPosition_held_iff)
  then show ?thesis using v4_good_append_buys a(2) by (simp add: a(3) v4_good_inject)
qed

lemma reverse_share:
  assumes "whole_holding ctx h" "Fin n = N" "2 \<le> n" "n \<le> 2 ^ 53" "held ctx = Fin (of_nat h)"
  shows "\<exists>q. floor_num (held ctx / (N / Fin 2)) = Fin (of_nat q) \<and> q \<le> h"
proof -
  have f: "fl (n / 2) = Fin (rnd (n / 2))" using fl_power2_bounds(1) [of 53 "n / 2"] assms by simp
  have "1 \<le> rnd (n / 2)" using rnd_ge_int [of 1 "n / 2"] assms(3) by simp
  then show ?thesis
    using share_of_holding [of h "rnd (n / 2)"] assms f by (auto simp: div_Fin whole_holding_def)
qed

lemma v4_good_reverse_sell:
  assumes w: "whole_holding ctx h" and n: "Fin n = N" "2 \<le> n" "n \<le> 2 ^ 53"
    and q: "Fin 0 < floor_num (held ctx / (N / Fin 2))"
  shows "v4_good ctx h [buildSellSignal ctx (floor_num (held ctx / (N / Fin 2))) p ph hq od fm]"
proof -
  have h: "held ctx = Fin (of_nat h)" using w by (simp add: whole_holding_def)
  obtain k where k: "floor_num (held ctx / (N / Fin 2)) = Fin (of_nat k)" "k \<le> h"
    using reverse_share [OF w n h] by auto
  then have "hasPosition ctx" using q h by (auto simp: hasPosition_held_iff)
  then show ?thesis using q k h by (simp add: v4_good_def)
qed

lemma buildReverseFirstDaySignals_good:
  assumes "whole_holding ctx h" "Fin n = N" "2 \<le> n" "n \<le> 2 ^ 53"
  shows "v4_good ctx h (b_signals (buildReverseFirstDaySignals ctx N (held ctx) cur))"
  using v4_good_reverse_sell [OF assms] by (simp add: buildReverseFirstDaySignals_def Let_def)

lemma buildReverseOngoingSignals_good:
  assumes "whole_holding ctx h" "Fin n = N" "2 \<le> n" "n \<le> 2 ^ 53"
  shows "v4_good ctx h (b_signals (buildReverseOngoingSignals ctx N cash (held ctx) closes m))"
proof -
  have "v4_good ctx h (fst (reverse_sells ctx N (held ctx) p))" for p
    using v4_good_reverse_sell [OF assms] by (simp add: reverse_sells_def Let_def)
  then show ?thesis
    using v4_good_append_buys buy_leg_ok by (auto simp: buildReverseOngoingSignals_def Let_def v4_good_inject)
qed

lemma v4_quantity_held: "coalesce (map_option pos_quantity (position ctx)) (Fin 0) = held ctx"
  by (auto simp: held_def split: option.splits)

lemma v4_ledger_mismatch_signals: "v4_ledger_mismatch v4 T q = Some r \<Longrightarrow> signals r = []"
  by (auto simp: v4_ledger_mismatch_def Let_def split: if_splits)

lemma v4_evaluate_day_good:
  assumes "whole_holding ctx h" "v4_splits_ok ctx" "v4_evaluate_day clock ctx v4 coeff quotaSum = Inr r"
  shows "v4_good ctx h (signals r)"
proof -
  obtain n where n: "Fin n = ws_maxCycles (watchStock ctx)" "2 \<le> n" "n \<le> 2 ^ 53"
    using assms(2) by (auto simp: v4_splits_ok_def)
  show ?thesis
    using assms(3) buildNormalSignals_good [OF assms(1)] buildReverseFirstDaySignals_good [OF assms(1) n]
      buildReverseOngoingSignals_good [OF assms(1) n]
    by (auto simp: v4_evaluate_day_def Let_def v4_quantity_held v4_ledger_mismatch_signals
        split: option.splits sum.splits prod.splits if_splits)
qed

lemma v4_caught_good:
  assumes "whole_holding ctx h" "v4_splits_ok ctx"
  shows "v4_good ctx h (signals (v4_caught clock ctx))"
  using v4_evaluate_day_good [OF assms]
  by (auto simp: v4_caught_def v4_evaluateStock_def Let_def split: sum.splits option.splits if_splits)

lemma v4_no_price: "px_currentPrice (price ctx) \<le> Fin 0 \<Longrightarrow> signals (v4_caught clock ctx) = []"
  by (simp add: v4_caught_def v4_evaluateStock_def Let_def)

interpretation v4: strategy v4_splits_ok "v4_caught clock"
  using v4_caught_good v4_no_price by unfold_locales (auto simp: v4_good_def)

text \<open>
  (C26) Whatever the mode, the sell signals of one V4 evaluation together never exceed a whole holding
  when there are at least two splits: the quarter sell and the final sell share the holding exactly,
  and a reverse sell is a part of it.
\<close>

theorem v4_never_oversells:
  assumes "v4_splits_ok ctx" "whole_holding ctx h"
  shows "sold (signals (v4_caught clock ctx)) \<le> of_nat h"
  by (rule v4.no_oversell [OF assms])

definition v4_example :: "v4_params \<Rightarrow> rat \<Rightarrow> v4_ctx" where
  "v4_example ps n = (let c = example_ctx OVERSEAS (Some \<lparr>sp_v4 = Some ps\<rparr>) 100 (Some (example_position 8 100)) in
     c\<lparr>watchStock := (watchStock c)\<lparr>ws_maxCycles := Fin n\<rparr>\<rparr>)"

theorem v4_never_oversells_witness:
  "sold (signals (v4_caught 0 (v4_example (no_v4_params\<lparr>v4p_turn := Some (Fin 2)\<rparr>) 40))) \<le> 8"
  using v4_never_oversells [of "v4_example (no_v4_params\<lparr>v4p_turn := Some (Fin 2)\<rparr>) 40" 8 0]
  by (simp add: v4_splits_ok_def whole_holding_def held_def v4_example_def example_ctx_def example_position_def Let_def)

section \<open>Mode switch\<close>

text \<open>
  With a single split the contract fails: once a share is held (\<open>T > 0\<close>) the stock enters reverse
  mode, and the first day's sell asks for twice the whole holding.
\<close>

lemma v4_single_split_oversells:
  assumes "0 < h" "h \<le> 2 ^ 40" "roundToCent cur > Fin 0"
  shows "sold (b_signals (buildReverseFirstDaySignals ctx (Fin 1) (Fin (of_nat h)) cur)) = 2 * of_nat h"
proof -
  have d: "Fin 1 / Fin 2 = Fin (1 / 2)" by (simp add: fl_eval Fin_arith)
  have "Fin (of_nat h) / Fin (1 / 2) = fl (of_int (2 * int h))" by (simp add: div_Fin mult.commute)
  also have "\<dots> = Fin (of_int (2 * int h))" using assms(2) by (intro fl_of_int) simp
  finally have "floor_num (Fin (of_nat h) / (Fin 1 / Fin 2)) = Fin (2 * of_nat h)" by (simp add: d)
  then show ?thesis using assms by (simp add: buildReverseFirstDaySignals_def Let_def)
qed

theorem v4_single_split_oversells_witness:
  "sold (b_signals (buildReverseFirstDaySignals (v4_example no_v4_params 1) (Fin 1) (Fin 8) (Fin 100))) = 16"
  using v4_single_split_oversells [of 8 "Fin 100" "v4_example no_v4_params 1"]
  by (simp add: roundToCent_def fl_eval Fin_arith)

text \<open>The stored parameters as the evaluation reads them.\<close>

definition v4_stored :: "v4_ctx \<Rightarrow> v4_params" where
  "v4_stored ctx = coalesce (Option.bind (ws_strategyParams (watchStock ctx)) sp_v4) no_v4_params"

definition v4_turn :: "v4_ctx \<Rightarrow> jsnum" where
  "v4_turn ctx = finite_or (v4p_turn (v4_stored ctx)) (Fin 0)"

text \<open>
  On the day a stock enters reverse mode (its stored mode is normal and its turn is beyond
  \<open>N - 1\<close>) the evaluation returns, and never buys: whatever the guards decide, every signal is a sell.
\<close>

lemma v4_reverse_entry_never_buys:
  assumes "coalesce (v4p_mode (v4_stored ctx)) NORMAL = NORMAL"
    "shouldEnterReverseMode (v4_turn ctx) (ws_maxCycles (watchStock ctx))"
  shows "\<exists>r. v4_evaluateStock clock ctx = Inr r \<and> list_all (\<lambda>s. sg_side s = SELL) (signals r)"
proof -
  have f: "list_all (\<lambda>s. sg_side s = SELL) (b_signals (buildReverseFirstDaySignals ctx N q c))" for N q c
    by (simp add: buildReverseFirstDaySignals_def Let_def)
  have m: "v4_next_mode ctx coeff NORMAL (v4_turn ctx) (ws_maxCycles (watchStock ctx)) a b = (REVERSE, True)"
    for coeff a b using assms(2) by (simp add: v4_next_mode_def)
  have "\<exists>r. v4_evaluate_day clock ctx (v4_stored ctx) coeff quotaSum = Inr r \<and>
      list_all (\<lambda>s. sg_side s = SELL) (signals r)" for coeff quotaSum
    using f m v4_ledger_mismatch_signals
    by (auto simp: v4_evaluate_day_def Let_def assms(1) v4_turn_def [symmetric] split: option.splits)
  then show ?thesis
    by (auto simp: v4_evaluateStock_def Let_def v4_stored_def [symmetric] split: option.splits)
qed

theorem v4_reverse_entry_never_buys_witness:
  "\<exists>r. v4_evaluateStock 0 (v4_example (no_v4_params\<lparr>v4p_turn := Some (Fin (79 / 2))\<rparr>) 40) = Inr r \<and>
     list_all (\<lambda>s. sg_side s = SELL) (signals r)"
  using v4_reverse_entry_never_buys [of "v4_example (no_v4_params\<lparr>v4p_turn := Some (Fin (79 / 2))\<rparr>) 40" 0]
  by (simp add: v4_stored_def v4_turn_def v4_example_def example_ctx_def Let_def no_v4_params_def
      shouldEnterReverseMode_def fl_eval Fin_arith)

text \<open>
  On the day a recovered stock leaves reverse mode, the normal signals are built without asking
  again whether the turn is beyond \<open>N - 1\<close>: with every guard passed and a turn of \<open>N\<close> or more the
  evaluation throws a \<open>RangeError\<close> instead of returning signals, and it does so on every later
  evaluation with the same stored state.
\<close>

lemma v4_reverse_exit_throws:
  assumes "ws_market (watchStock ctx) = OVERSEAS" "ws_quota (watchStock ctx) = Some (Fin q)" "0 < q"
    "ws_maxCycles (watchStock ctx) = Fin n" "0 < n" "\<not> px_currentPrice (price ctx) \<le> Fin 0"
    "resolveCoefficients (ws_stockCode (watchStock ctx)) (v4_stored ctx) = Some coeff"
    "position ctx = Some p" "pos_quantity p > Fin 0" "\<not> pos_avgPrice p \<le> Fin 0" "\<not> alreadyExecutedToday ctx"
    "v4_ledger_mismatch (v4_stored ctx) (v4_turn ctx) (pos_quantity p) = None"
    "v4p_mode (v4_stored ctx) = Some REVERSE"
    "shouldExitReverseMode (coalesce (prevClose (stockIndicators ctx)) (px_currentPrice (price ctx)))
       (pos_avgPrice p) (co_finalTargetPct coeff)"
    "Fin n - v4_turn ctx \<le> Fin 0"
  shows "v4_evaluateStock clock ctx = Inl (RangeError ''N - T must be positive'')"
proof -
  have m: "v4_next_mode ctx coeff REVERSE (v4_turn ctx) (Fin n) (pos_avgPrice p) True = (NORMAL, False)"
    using assms(14) by (simp add: v4_next_mode_def)
  have b: "buildNormalSignals ctx coeff (v4_turn ctx) (Fin n) c a h = Inl (RangeError ''N - T must be positive'')"
    for c a h using assms(15) by (simp add: buildNormalSignals_def calculateDailyBuyBudget_def)
  have "v4_evaluate_day clock ctx (v4_stored ctx) coeff quotaSum = Inl (RangeError ''N - T must be positive'')"
    for quotaSum
    using assms(4,8,9,12,13) m b by (simp add: v4_evaluate_day_def Let_def v4_turn_def [symmetric])
  then show ?thesis using assms(1-11) by (simp add: v4_evaluateStock_def Let_def v4_stored_def [symmetric])
qed

theorem v4_reverse_exit_throws_witness:
  "v4_evaluateStock 0 (v4_example (no_v4_params\<lparr>v4p_turn := Some (Fin 40), v4p_mode := Some REVERSE\<rparr>) 40)
     = Inl (RangeError ''N - T must be positive'')"
proof -
  let ?ps = "no_v4_params\<lparr>v4p_turn := Some (Fin 40), v4p_mode := Some REVERSE\<rparr>"
  have st: "v4_stored (v4_example ?ps 40) = ?ps" "v4_turn (v4_example ?ps 40) = Fin 40"
    by (simp_all add: v4_stored_def v4_turn_def v4_example_def example_ctx_def Let_def)
  obtain coeff where c: "resolveCoefficients ''TQQQ'' ?ps = Some coeff" "co_finalTargetPct coeff = Fin 15"
    by (simp add: resolveCoefficients_def no_v4_params_def DEFAULT_STAR_BASE_PCT_BY_STOCK_def to_upper_def upper_char_def)
  show ?thesis
    using v4_reverse_exit_throws [of "v4_example ?ps 40" 10000 40 coeff "example_position 8 100" 0] c st
    by (simp add: v4_example_def example_ctx_def example_position_def Let_def no_indicators_def
        v4_ledger_mismatch_def no_v4_params_def shouldExitReverseMode_def fl_eval Fin_arith)
qed

section \<open>Prices and totals of the buys\<close>

text \<open>What every signal list of a day is made of: built signals with the day's total injected.\<close>

definition from_builder :: "v4_ctx \<Rightarrow> jsnum \<Rightarrow> v4_signal \<Rightarrow> bool" where
  "from_builder ctx m s \<longleftrightarrow> sg_side s = SELL \<or> (\<exists>q p ph. s = buildBuySignal ctx q p ph m)"

definition v4_injected :: "v4_ctx \<Rightarrow> jsnum \<Rightarrow> v4_signal list \<Rightarrow> bool" where
  "v4_injected ctx m rs \<longleftrightarrow>
     (\<exists>ss. rs = map (with_total (day_total ss)) ss \<and> list_all (from_builder ctx m) ss)"

lemma inject_map: "fst (injectDayBuyAttemptTotal ss d) = map (with_total (day_total ss)) ss"
proof (cases "filter (\<lambda>s. sg_side s = BUY) ss = []")
  case True
  then have "map (with_total a) ss = ss" for a
    by (intro map_idI) (auto simp: filter_empty_conv with_total_def)
  then show ?thesis using True by (simp add: injectDayBuyAttemptTotal_def)
qed (simp add: injectDayBuyAttemptTotal_def)

lemma v4_injected_inject:
  "list_all (from_builder ctx m) ss \<Longrightarrow> v4_injected ctx m (fst (injectDayBuyAttemptTotal ss d))"
  by (auto simp: v4_injected_def inject_map)

lemma v4_injected_sells:
  "list_all (\<lambda>s. sg_side s = SELL) ss \<Longrightarrow> v4_injected ctx m ss"
  by (auto simp: v4_injected_def from_builder_def with_total_def list_all_iff intro!: exI [of _ ss] map_idI [symmetric])

lemma buy_leg_built: "list_all (from_builder ctx m) (buy_leg ctx q p ph m)"
  by (auto simp: buy_leg_def from_builder_def)

lemma main_buys_built:
  "list_all (from_builder ctx (co_maxBuyPremiumPct coeff)) (mb_signals (main_buys ctx coeff T N D avg star))"
  by (auto simp: main_buys_def Let_def buy_leg_built split: option.splits)

lemma ladder_signals_built:
  "list_all (from_builder ctx (co_maxBuyPremiumPct coeff)) (ladder_signals ctx coeff los)"
  by (auto simp: ladder_signals_def from_builder_def list_all_iff)

lemma normal_sells_built: "list_all (from_builder ctx m) (fst (normal_sells ctx coeff avg q st))"
  by (auto simp: normal_sells_def Let_def from_builder_def)

lemma reverse_sells_built: "list_all (from_builder ctx m) (fst (reverse_sells ctx N q p))"
  by (auto simp: reverse_sells_def Let_def from_builder_def)

lemma buildNormalSignals_injected:
  "buildNormalSignals ctx coeff T N cash avg q = Inr b \<Longrightarrow> v4_injected ctx (co_maxBuyPremiumPct coeff) (b_signals b)"
  by (auto simp: buildNormalSignals_def Let_def main_buys_built ladder_signals_built normal_sells_built
      split: sum.splits option.splits if_splits intro!: v4_injected_inject)

lemma buildReverseOngoingSignals_injected:
  "v4_injected ctx m (b_signals (buildReverseOngoingSignals ctx N cash q closes m))"
  by (auto simp: buildReverseOngoingSignals_def Let_def buy_leg_built reverse_sells_built v4_injected_sells
      intro!: v4_injected_inject)

lemma v4_evaluate_day_injected:
  assumes "v4_evaluate_day clock ctx v4 coeff quotaSum = Inr r"
  shows "v4_injected ctx (co_maxBuyPremiumPct coeff) (signals r)"
proof -
  have f: "v4_injected ctx m (b_signals (buildReverseFirstDaySignals ctx N q c))" for N q c m
    by (rule v4_injected_sells) (simp add: buildReverseFirstDaySignals_def Let_def)
  show ?thesis
    using assms f buildNormalSignals_injected buildReverseOngoingSignals_injected v4_ledger_mismatch_signals
    by (auto simp: v4_evaluate_day_def Let_def v4_injected_sells
        split: option.splits sum.splits prod.splits if_splits)
qed

definition v4_premium :: "v4_ctx \<Rightarrow> jsnum" where
  "v4_premium ctx = (case resolveCoefficients (ws_stockCode (watchStock ctx)) (v4_stored ctx) of
     None \<Rightarrow> NaN | Some coeff \<Rightarrow> co_maxBuyPremiumPct coeff)"

lemma v4_evaluateStock_injected:
  assumes "v4_evaluateStock clock ctx = Inr r"
  shows "v4_injected ctx (v4_premium ctx) (signals r)"
  using assms v4_evaluate_day_injected
  by (auto simp: v4_evaluateStock_def Let_def v4_premium_def v4_stored_def v4_injected_sells
      split: option.splits if_splits)

lemma attempt_with_total [simp]: "attempt_amount (with_total a s) = attempt_amount s"
  by (cases "sg_metadata s") (auto simp: attempt_amount_def with_total_def)

lemma day_total_with_total [simp]: "day_total (map (with_total a) ss) = day_total ss"
  by (simp add: day_total_def filter_map o_def foldl_map)

text \<open>A concrete second-half day with a star buy, for the witnesses.\<close>

definition v4_day_example :: v4_ctx where
  "v4_day_example = v4_example (no_v4_params\<lparr>v4p_turn := Some (Fin 30)\<rparr>) 40"

lemma v4_day_example_star:
  "\<exists>st. calculateStarPoint (Fin 100) (Fin 30) (Fin 40) (Fin 15) = Inr st \<and>
     floor_num (Fin 1000 / buyLimitPrice st) = Fin 10 \<and> buyLimitPrice st > Fin 0"
  by (simp add: calculateStarPoint_def roundToCent_def fl_eval Fin_arith)

lemma v4_day_example_normal:
  assumes "co_starBasePct coeff = Fin 15"
  shows "\<exists>b q p ss. buildNormalSignals v4_day_example coeff (Fin 30) (Fin 40) (Fin 10000) (Fin 100) (Fin 8) = Inr b \<and>
    b_signals b = map (with_total (day_total ss)) ss \<and>
    hd ss = buildBuySignal v4_day_example q p ''v4-star-buy'' (co_maxBuyPremiumPct coeff) \<and> ss \<noteq> []"
proof -
  obtain st where st: "calculateStarPoint (Fin 100) (Fin 30) (Fin 40) (Fin 15) = Inr st"
    "floor_num (Fin 1000 / buyLimitPrice st) = Fin 10" "buyLimitPrice st > Fin 0"
    using v4_day_example_star by auto
  have b: "calculateDailyBuyBudget (Fin 10000) (Fin 40) (Fin 30) = Inr (Fin 1000)"
    by (simp add: calculateDailyBuyBudget_def fl_eval Fin_arith)
  have a: "buyableAmount v4_day_example = Fin 1000" by (simp add: v4_day_example_def v4_example_def example_ctx_def Let_def)
  have h: "\<not> Fin 30 < Fin 40 / Fin 2" by (simp add: fl_eval Fin_arith)
  have m: "mb_signals (main_buys v4_day_example coeff (Fin 30) (Fin 40) (Fin 1000) (Fin 100) (Some st)) =
     [buildBuySignal v4_day_example (Fin 10) (buyLimitPrice st) ''v4-star-buy'' (co_maxBuyPremiumPct coeff)]"
    using st(2,3) h by (simp add: main_buys_def Let_def buy_leg_def)
  let ?mains = "main_buys v4_day_example coeff (Fin 30) (Fin 40) (Fin 1000) (Fin 100) (Some st)"
  let ?ss = "buildBuySignal v4_day_example (Fin 10) (buyLimitPrice st) ''v4-star-buy'' (co_maxBuyPremiumPct coeff) #
    ladder_signals v4_day_example coeff (coalesce (ladder_buys v4_day_example coeff (Fin 1000) (mb_spent ?mains)
      (mb_ladderBase ?mains)) []) @ fst (normal_sells v4_day_example coeff (Fin 100) (Fin 8) st)"
  obtain b where "buildNormalSignals v4_day_example coeff (Fin 30) (Fin 40) (Fin 10000) (Fin 100) (Fin 8) = Inr b"
    "b_signals b = map (with_total (day_total ?ss)) ?ss"
    by (simp add: buildNormalSignals_def b a st(1) assms m inject_map Let_def)
  then show ?thesis by (intro exI [of _ b] exI [of _ "Fin 10"] exI [of _ "buyLimitPrice st"] exI [of _ ?ss]) simp
qed

lemma v4_day_example_run:
  "\<exists>r s. v4_evaluateStock 0 v4_day_example = Inr r \<and> s \<in> set (signals r) \<and> sg_side s = BUY \<and>
    map_option vm_phase (sg_metadata s) = Some ''v4-star-buy''"
proof -
  obtain coeff where c: "resolveCoefficients ''TQQQ'' (no_v4_params\<lparr>v4p_turn := Some (Fin 30)\<rparr>) = Some coeff"
      "co_starBasePct coeff = Fin 15"
    by (simp add: resolveCoefficients_def no_v4_params_def DEFAULT_STAR_BASE_PCT_BY_STOCK_def to_upper_def upper_char_def)
  obtain b q p ss where b: "buildNormalSignals v4_day_example coeff (Fin 30) (Fin 40) (Fin 10000) (Fin 100) (Fin 8) = Inr b"
    "b_signals b = map (with_total (day_total ss)) ss" "ss \<noteq> []"
    "hd ss = buildBuySignal v4_day_example q p ''v4-star-buy'' (co_maxBuyPremiumPct coeff)"
    using v4_day_example_normal [OF c(2)] by blast
  have n: "v4_next_mode ctx cf NORMAL (Fin 30) (Fin 40) x y = (NORMAL, False)" for ctx cf x y
    by (simp add: v4_next_mode_def shouldEnterReverseMode_def fl_eval Fin_arith)
  obtain r where r: "v4_evaluateStock 0 v4_day_example = Inr r" "signals r = b_signals b"
    using b(1) c n
    by (simp add: v4_evaluateStock_def v4_evaluate_day_def v4_ledger_mismatch_def v4_day_example_def
        v4_example_def example_ctx_def example_position_def Let_def no_v4_params_def)
  have "with_total (day_total ss) (hd ss) \<in> set (signals r)" using r(2) b(2,3) by simp
  moreover have "sg_side (hd ss) = BUY" "map_option vm_phase (sg_metadata (with_total (day_total ss) (hd ss))) = Some ''v4-star-buy''"
    by (simp_all add: b(4) with_total_def) (simp add: buildBuySignal_def Let_def)
  ultimately show ?thesis using r(1) with_total_simps(1) by metis
qed

text \<open>
  Every buy signal of a V4 evaluation carries the same day total, and it is the sum of the
  attempt amounts of all buy signals of that evaluation, rounded to a cent; so the filled shares of
  one day's legs are all measured against the whole day.
\<close>

lemma v4_buys_share_day_total:
  assumes "v4_evaluateStock clock ctx = Inr r" "s \<in> set (signals r)" "sg_side s = BUY"
  shows "\<exists>md. sg_metadata s = Some md \<and> vm_dayBuyAttemptTotal md = Some (day_total (signals r)) \<and>
    vm_attemptAmount md = Some (attempt_amount s)"
proof -
  obtain ss s' where "signals r = map (with_total (day_total ss)) ss" "s' \<in> set ss" "s = with_total (day_total ss) s'"
      "from_builder ctx (v4_premium ctx) s'"
    using v4_evaluateStock_injected [OF assms(1)] assms(2) by (auto simp: v4_injected_def list_all_iff)
  then show ?thesis using assms(3)
    by (auto simp: from_builder_def with_total_def attempt_amount_def buildBuySignal_def Let_def)
qed

theorem v4_buys_share_day_total_witness:
  "\<exists>r s md. v4_evaluateStock 0 v4_day_example = Inr r \<and> s \<in> set (signals r) \<and> sg_metadata s = Some md \<and>
     vm_dayBuyAttemptTotal md = Some (day_total (signals r))"
proof -
  obtain r s where "v4_evaluateStock 0 v4_day_example = Inr r" "s \<in> set (signals r)" "sg_side s = BUY"
    using v4_day_example_run by blast
  then show ?thesis using v4_buys_share_day_total [of 0 v4_day_example r s] by blast
qed

text \<open>
  Every buy but the first one of a cycle is capped: its limit price is at most the current price
  with the premium, rounded to a cent, so a stale average cannot make the strategy bid far above the
  market.
\<close>

lemma v4_buy_price_capped:
  assumes "v4_evaluateStock clock ctx = Inr r" "s \<in> set (signals r)" "sg_side s = BUY"
    "map_option vm_phase (sg_metadata s) \<noteq> Some ''v4-first-buy''"
    "px_currentPrice (price ctx) = Fin c" "0 < c"
  shows "\<exists>x. sg_price s = Some x \<and> (x = NaN \<or> x \<le> roundToCent (Fin c * (Fin 1 + v4_premium ctx)))"
proof -
  obtain ss s' where "s = with_total (day_total ss) s'" "from_builder ctx (v4_premium ctx) s'"
    using v4_evaluateStock_injected [OF assms(1)] assms(2) by (auto simp: v4_injected_def list_all_iff)
  then obtain q p ph where s: "s = with_total (day_total ss) (buildBuySignal ctx q p ph (v4_premium ctx))"
    using assms(3) by (auto simp: from_builder_def)
  then have "ph \<noteq> ''v4-first-buy''" using assms(4) by (auto simp: with_total_def buildBuySignal_def Let_def)
  then have "sg_price s = Some (min_num p (roundToCent (Fin c * (Fin 1 + v4_premium ctx))))"
    using s assms(5,6) by (simp add: buildBuySignal_def Let_def)
  then show ?thesis using min_num_le(2) by auto
qed

theorem v4_buy_price_capped_witness:
  "\<exists>r s x. v4_evaluateStock 0 v4_day_example = Inr r \<and> s \<in> set (signals r) \<and> sg_price s = Some x \<and>
     (x = NaN \<or> x \<le> roundToCent (Fin 100 * (Fin 1 + v4_premium v4_day_example)))"
proof -
  obtain r s where "v4_evaluateStock 0 v4_day_example = Inr r" "s \<in> set (signals r)" "sg_side s = BUY"
    "map_option vm_phase (sg_metadata s) = Some ''v4-star-buy''"
    using v4_day_example_run by blast
  moreover have "px_currentPrice (price v4_day_example) = Fin 100"
    by (simp add: v4_day_example_def v4_example_def example_ctx_def Let_def)
  ultimately show ?thesis using v4_buy_price_capped [of 0 v4_day_example r s 100] by auto
qed

section \<open>The rolling window of closes\<close>

text \<open>
  The window of recent closes stays well formed: after any update it holds at most five closes
  of pairwise different dates when it did before, an update for a date it already has changes
  nothing, and a new valid close of a new date becomes the last one.
\<close>

lemma recent_closes_window:
  assumes "length cs \<le> MAX_RECENT_CLOSES" "distinct (map cl_date cs)"
  shows "length (updateRecentCloses cs c d) \<le> MAX_RECENT_CLOSES \<and>
    distinct (map cl_date (updateRecentCloses cs c d)) \<and>
    updateRecentCloses (updateRecentCloses cs c d) c d = updateRecentCloses cs c d \<and>
    (given (\<lambda>x. isFinite x \<and> x > Fin 0) c \<and> d \<notin> set (map cl_date cs) \<longrightarrow>
      last (updateRecentCloses cs c d) = \<lparr>cl_date = d, cl_close = coalesce c NaN\<rparr>)"
proof (cases "\<exists>x. c = Some x \<and> isFinite x \<and> \<not> x \<le> Fin 0 \<and> d \<notin> set (map cl_date cs)")
  case True
  then obtain x where x: "c = Some x" "isFinite x" "\<not> x \<le> Fin 0" "d \<notin> set (map cl_date cs)" by blast
  let ?new = "cs @ [\<lparr>cl_date = d, cl_close = x\<rparr>]"
  have u: "updateRecentCloses cs c d = last_n MAX_RECENT_CLOSES ?new"
    using x by (auto simp: updateRecentCloses_def list_ex_iff)
  have l: "length ?new - MAX_RECENT_CLOSES \<le> length cs"
    using assms(1) by (simp add: MAX_RECENT_CLOSES_def)
  have w: "last_n MAX_RECENT_CLOSES ?new =
      drop (length ?new - MAX_RECENT_CLOSES) cs @ [\<lparr>cl_date = d, cl_close = x\<rparr>]"
    using l by (simp add: last_n_def)
  have "distinct (map cl_date (last_n MAX_RECENT_CLOSES ?new))"
    using assms(2) x(4) by (auto simp: w drop_map [symmetric] dest!: in_set_dropD)
  moreover have "updateRecentCloses (last_n MAX_RECENT_CLOSES ?new) c d = last_n MAX_RECENT_CLOSES ?new"
    using x by (simp add: updateRecentCloses_def w)
  moreover have "length (last_n MAX_RECENT_CLOSES ?new) \<le> MAX_RECENT_CLOSES" by (simp add: last_n_def)
  moreover have "last (last_n MAX_RECENT_CLOSES ?new) = \<lparr>cl_date = d, cl_close = coalesce c NaN\<rparr>"
    using x(1) by (simp add: w)
  ultimately show ?thesis unfolding u by blast
next
  case False
  then have u: "updateRecentCloses cs c d = cs"
    by (cases c) (auto simp: updateRecentCloses_def list_ex_iff)
  have "\<not> (given (\<lambda>x. isFinite x \<and> x > Fin 0) c \<and> d \<notin> set (map cl_date cs))"
    using False by (cases c) (auto simp: js_not_le isFinite_iff)
  then show ?thesis unfolding u using assms u by blast
qed

theorem recent_closes_window_witness:
  "length (updateRecentCloses [\<lparr>cl_date = ''2026-07-01'', cl_close = Fin 9\<rparr>] (Some (Fin 10)) ''2026-07-02'')
     \<le> MAX_RECENT_CLOSES"
  using recent_closes_window [of "[\<lparr>cl_date = ''2026-07-01'', cl_close = Fin 9\<rparr>]" "Some (Fin 10)" "''2026-07-02''"]
  by (simp add: MAX_RECENT_CLOSES_def)

end
