(* ===== verification/OrderStore.thy ===== *)
theory OrderStore imports StrategyTypes begin

text \<open>
  The order table of \<open>prisma/schema.prisma\<close> as the trading services use it: a list of trade records
  with the Prisma operations on it (\<open>findFirst\<close>, \<open>findMany\<close>, \<open>create\<close>, \<open>updateMany\<close> with its count),
  and the audit log. A date is the number of milliseconds since the epoch; quantities and prices are
  the numbers the code reads them as. Beside them: the key under which at most one order may be
  unresolved, and the contract of a guarded \<open>updateMany\<close>, on which every change of state rests.
\<close>

section \<open>Data\<close>

datatype order_status = PENDING | FILLED | PARTIAL | CANCELLED | FAILED | AWAITING_APPROVAL
  | SUBMITTING | SUBMISSION_UNKNOWN

datatype order_type = MARKET | LIMIT | LOC

datatype broker_environment = PAPER_ACCOUNT | LIVE_ACCOUNT

datatype submission_resolution = LINKED_BROKER_ORDER | CONFIRMED_NOT_SUBMITTED
  | MATCHED_EXISTING_TRADE_RECORD

datatype cancellation_status = CSubmitting | CAccepted | CRejected | CUnknown | CResolved

record trade_record =
  tr_id :: string
  tr_broker :: broker
  tr_market :: market
  tr_exchangeCode :: string
  tr_stockCode :: string
  tr_stockName :: string
  tr_side :: side
  tr_orderType :: order_type
  tr_quantity :: jsnum
  tr_price :: jsnum
  tr_executedPrice :: "jsnum option"
  tr_executedQty :: "jsnum option"
  tr_executedAt :: "int option"
  tr_orderNo :: "string option"
  tr_status :: order_status
  tr_strategyName :: "string option"
  tr_reason :: "string option"
  tr_submissionStartedAt :: "int option"
  tr_brokerOrderDate :: "string option"
  tr_brokerOrderTime :: "string option"
  tr_brokerEnvironment :: "broker_environment option"
  tr_brokerAccountHash :: "string option"
  tr_brokerMessage :: "string option"
  tr_submissionResolvedAt :: "int option"
  tr_submissionResolvedBy :: "string option"
  tr_submissionResolution :: "submission_resolution option"
  tr_cancellationStatus :: "cancellation_status option"
  tr_cancellationStartedAt :: "int option"
  tr_cancellationResolvedAt :: "int option"
  tr_cancellationResolvedBy :: "string option"
  tr_cancellationMessage :: "string option"
  tr_createdAt :: int

datatype broker_order_action = UNKNOWN_DETECTED | LEGACY_CONTEXT_ASSIGNED | CANDIDATES_INSPECTED | BROKER_ORDER_LINKED
  | ACT_CONFIRMED_NOT_SUBMITTED | ACT_MATCHED_EXISTING_TRADE_RECORD | CANCELLATION_UNKNOWN | CANCELLATION_RECONCILED
  | CANCELLATION_NOT_ACCEPTED

record audit_log =
  al_tradeRecordId :: string
  al_action :: broker_order_action
  al_actor :: string
  al_brokerOrderDate :: "string option"
  al_exchangeCode :: "string option"
  al_orderNo :: "string option"
  al_beforeStatus :: "order_status option"
  al_afterStatus :: "order_status option"
  al_message :: "string option"

text \<open>The two tables the order services write.\<close>

record order_db =
  db_orders :: "trade_record list"
  db_audit :: "audit_log list"

record broker_context =
  bc_broker :: broker
  bc_environment :: broker_environment
  bc_accountHash :: string
  bc_maskedAccount :: string

section \<open>The Prisma operations\<close>

definition findFirst :: "(trade_record \<Rightarrow> bool) \<Rightarrow> order_db \<Rightarrow> trade_record option" where
  "findFirst P db = List.find P (db_orders db)"

definition findMany :: "(trade_record \<Rightarrow> bool) \<Rightarrow> order_db \<Rightarrow> trade_record list" where
  "findMany P db = filter P (db_orders db)"

definition create :: "trade_record \<Rightarrow> order_db \<Rightarrow> order_db" where
  "create r db = db\<lparr>db_orders := db_orders db @ [r]\<rparr>"

definition change_where :: "(trade_record \<Rightarrow> bool) \<Rightarrow> (trade_record \<Rightarrow> trade_record) \<Rightarrow>
    trade_record \<Rightarrow> trade_record" where
  "change_where P f r = (if P r then f r else r)"

text \<open>\<open>updateMany\<close> answers the number of rows it changed.\<close>

definition updateMany :: "(trade_record \<Rightarrow> bool) \<Rightarrow> (trade_record \<Rightarrow> trade_record) \<Rightarrow> order_db \<Rightarrow> order_db \<times> nat" where
  "updateMany P f db = (db\<lparr>db_orders := map (change_where P f) (db_orders db)\<rparr>, length (filter P (db_orders db)))"

definition audit :: "audit_log \<Rightarrow> order_db \<Rightarrow> order_db" where
  "audit a db = db\<lparr>db_audit := db_audit db @ [a]\<rparr>"

lemma audit_orders [simp]: "db_orders (audit a db) = db_orders db"
  by (simp add: audit_def)

lemma create_orders [simp]: "db_orders (create r db) = db_orders db @ [r]"
  by (simp add: create_def)

lemma updateMany_orders [simp]: "db_orders (fst (updateMany P f db)) = map (change_where P f) (db_orders db)"
  by (simp add: updateMany_def)

lemma updateMany_audit [simp]: "db_audit (fst (updateMany P f db)) = db_audit db"
  by (simp add: updateMany_def)

lemma updateMany_count: "snd (updateMany P f db) = 0 \<longleftrightarrow> (\<forall>r \<in> set (db_orders db). \<not> P r)"
  by (auto simp: updateMany_def filter_empty_conv)

lemma updateMany_none: "\<forall>r \<in> set (db_orders db). \<not> P r \<Longrightarrow> fst (updateMany P f db) = db"
proof -
  assume "\<forall>r \<in> set (db_orders db). \<not> P r"
  then have "map (change_where P f) (db_orders db) = db_orders db"
    by (auto simp: change_where_def intro: map_idI)
  then show ?thesis by (simp add: updateMany_def)
qed

lemma findFirst_None: "findFirst P db = None \<longleftrightarrow> (\<forall>r \<in> set (db_orders db). \<not> P r)"
  by (auto simp: findFirst_def find_None_iff)

lemma findFirst_SomeD: "findFirst P db = Some r \<Longrightarrow> r \<in> set (db_orders db) \<and> P r"
  by (auto simp: findFirst_def find_Some_iff)

section \<open>Unresolved orders\<close>

record order_key =
  ok_broker :: broker
  ok_market :: market
  ok_exchangeCode :: string
  ok_stockCode :: string
  ok_side :: side

definition key_of :: "trade_record \<Rightarrow> order_key" where
  "key_of r = \<lparr>ok_broker = tr_broker r, ok_market = tr_market r, ok_exchangeCode = tr_exchangeCode r,
     ok_stockCode = tr_stockCode r, ok_side = tr_side r\<rparr>"

text \<open>The statuses that block a new order of the same key; a partial fill only while the broker has it.\<close>

definition is_unresolved :: "trade_record \<Rightarrow> bool" where
  "is_unresolved r \<longleftrightarrow>
     tr_status r \<in> {AWAITING_APPROVAL, SUBMITTING, SUBMISSION_UNKNOWN, PENDING} \<or>
     tr_status r = PARTIAL \<and> tr_orderNo r \<noteq> None"

definition unresolved_of :: "order_key \<Rightarrow> trade_record list \<Rightarrow> trade_record list" where
  "unresolved_of k rs = filter (\<lambda>r. key_of r = k \<and> is_unresolved r) rs"

text \<open>At most one unresolved order per key.\<close>

definition exclusive :: "order_db \<Rightarrow> bool" where
  "exclusive db \<longleftrightarrow> (\<forall>k. length (unresolved_of k (db_orders db)) \<le> 1)"

definition ids :: "order_db \<Rightarrow> string list" where
  "ids db = map tr_id (db_orders db)"

lemma filter_map_le:
  "(\<And>r. Q (g r) \<Longrightarrow> P r) \<Longrightarrow> length (filter Q (map g rs)) \<le> length (filter P rs)"
  by (induction rs) (auto intro: le_SucI)

section \<open>The contract of a guarded update\<close>

text \<open>
  Every state change of an order is an \<open>updateMany\<close> whose \<open>where\<close> names the state it expects. Such a
  change keeps the order's identity and never brings a resolved order back; then neither the keys nor
  the exclusion of a second unresolved order can be lost.
\<close>

locale guarded_update =
  fixes guard :: "trade_record \<Rightarrow> bool" and change :: "trade_record \<Rightarrow> trade_record"
  assumes same_order: "tr_id (change r) = tr_id r" "key_of (change r) = key_of r"
    and no_revival: "guard r \<Longrightarrow> is_unresolved (change r) \<Longrightarrow> is_unresolved r"
begin

lemma change_where_keeps:
  "tr_id (change_where guard change r) = tr_id r" "key_of (change_where guard change r) = key_of r"
  "is_unresolved (change_where guard change r) \<Longrightarrow> is_unresolved r"
  using same_order no_revival by (auto simp: change_where_def split: if_splits)

lemma keeps_ids: "ids (fst (updateMany guard change db)) = ids db"
  by (simp add: ids_def change_where_keeps)

lemma keeps_exclusive: "exclusive db \<Longrightarrow> exclusive (fst (updateMany guard change db))"
  unfolding exclusive_def unresolved_of_def updateMany_orders
  using filter_map_le [of "\<lambda>r. key_of r = k \<and> is_unresolved r" "change_where guard change"
      "\<lambda>r. key_of r = k \<and> is_unresolved r" "db_orders db" for k] change_where_keeps
  by (metis (mono_tags, lifting) le_trans)

end

text \<open>
  A claim is a guarded update that falsifies its own guard: of two callers exactly one sees a count
  above zero, and repeating it changes nothing.
\<close>

locale claim = guarded_update +
  assumes taken: "\<not> guard (change r)"
begin

lemma second_claim_fails: "snd (updateMany guard change' (fst (updateMany guard change db))) = 0"
  using taken by (auto simp: updateMany_count change_where_def)

lemma second_claim_idle: "fst (updateMany guard change' (fst (updateMany guard change db))) = fst (updateMany guard change db)"
  by (rule updateMany_none) (use taken in \<open>auto simp: change_where_def\<close>)

end

lemma exclusive_create:
  assumes "exclusive db" "unresolved_of (key_of r) (db_orders db) = []"
  shows "exclusive (create r db)"
  using assms by (auto simp: exclusive_def unresolved_of_def)

lemma exclusive_unique:
  assumes "exclusive db" "distinct (ids db)" "r \<in> set (db_orders db)" "r' \<in> set (db_orders db)"
    "key_of r = key_of r'" "is_unresolved r" "is_unresolved r'"
  shows "r = r'"
proof -
  have "length (unresolved_of (key_of r) (db_orders db)) \<le> 1" using assms(1) by (simp add: exclusive_def)
  moreover have "r \<in> set (unresolved_of (key_of r) (db_orders db))" "r' \<in> set (unresolved_of (key_of r) (db_orders db))"
    using assms by (auto simp: unresolved_of_def)
  ultimately show ?thesis by (cases "unresolved_of (key_of r) (db_orders db)") auto
qed

section \<open>A loop over orders that changes one at a time\<close>

lemma fold_own:
  assumes "\<And>i x r. tr_id (e (i, x) r) = tr_id r" "\<And>i x r. tr_id r \<noteq> i \<Longrightarrow> e (i, x) r = r"
    "distinct (map fst ps)"
  shows "fold e ps r = (case map_of ps (tr_id r) of None \<Rightarrow> r | Some x \<Rightarrow> e (tr_id r, x) r)"
  using assms(3)
proof (induction ps arbitrary: r)
  case (Cons p ps)
  obtain i x where p: "p = (i, x)" by force
  show ?case
  proof (cases "tr_id r = i")
    case True
    then have "map_of ps (tr_id r) = None" using Cons.prems p by (simp add: map_of_eq_None_iff)
    then show ?thesis using Cons True by (simp add: p assms(1))
  next
    case False
    then show ?thesis using Cons by (simp add: p assms(2))
  qed
qed simp

lemma map_of_rows:
  assumes "distinct (map tr_id rs)" "r \<in> set rs"
  shows "map_of (map (\<lambda>r. (tr_id r, f r)) (filter P rs)) (tr_id r) = (if P r then Some (f r) else None)"
  using assms
proof (induction rs)
  case (Cons a rs)
  have "r \<in> set rs \<Longrightarrow> tr_id r \<noteq> tr_id a" using Cons.prems(1) by (auto dest: sym)
  moreover have "r = a \<Longrightarrow> map_of (map (\<lambda>r. (tr_id r, f r)) (filter P rs)) (tr_id r) = None"
    using Cons.prems(1) by (auto simp: map_of_eq_None_iff)
  ultimately show ?case using Cons by (cases "r = a") auto
qed simp

lemma distinct_rows: "distinct (map tr_id rs) \<Longrightarrow> distinct (map fst (map (\<lambda>r. (tr_id r, f r)) (filter P rs)))"
  by (simp add: comp_def distinct_map inj_on_def)

end
