(* ===== verification/OrderGuard.thy ===== *)
theory OrderGuard imports OrderStore begin

text \<open>
  Admission of an order (\<open>src/trading/trading-order-guard.service.ts\<close>): the normalised key, the text
  whose hash is the advisory lock, and the check, made under that lock, that no order of the key is
  unresolved. The lock makes the check and the creation one atomic step.
\<close>

section \<open>Keys\<close>

definition invalid_key :: js_error where
  "invalid_key = Error ''Invalid order admission key''"

definition key_char :: "char \<Rightarrow> bool" where
  "key_char c \<longleftrightarrow> (65 \<le> (of_char c :: nat) \<and> (of_char c :: nat) \<le> 90) \<or>
     (48 \<le> (of_char c :: nat) \<and> (of_char c :: nat) \<le> 57)"

text \<open>\<open>/^[A-Z0-9][A-Z0-9._-]*$/\<close>\<close>

definition key_text :: "string \<Rightarrow> bool" where
  "key_text s = (case s of [] \<Rightarrow> False
     | c # cs \<Rightarrow> key_char c \<and> list_all (\<lambda>c. key_char c \<or> c \<in> set ''._-'') cs)"

definition normalizeComponent :: "string \<Rightarrow> js_error + string" where
  "normalizeComponent value =
    (let normalized = to_upper (trim value) in
     if \<not> key_text normalized then Inl invalid_key else Inr normalized)"

definition normalizeKey :: "order_key \<Rightarrow> js_error + order_key" where
  "normalizeKey key =
    (case normalizeComponent (ok_exchangeCode key) of Inl e \<Rightarrow> Inl e
     | Inr configuredExchange \<Rightarrow>
    (case normalizeComponent (ok_stockCode key) of Inl e \<Rightarrow> Inl e
     | Inr stockCode \<Rightarrow> Inr
        \<lparr>ok_broker = ok_broker key, ok_market = ok_market key,
         ok_exchangeCode = (if ok_market key = DOMESTIC then ''KRX'' else configuredExchange),
         ok_stockCode = stockCode, ok_side = ok_side key\<rparr>))"

text \<open>The decimal text of a length.\<close>

fun decimal_text :: "nat \<Rightarrow> string" where
  "decimal_text n = (if n < 10 then [char_of (48 + n)]
     else decimal_text (n div 10) @ [char_of (48 + n mod 10)])"

declare decimal_text.simps [simp del]

definition broker_text :: "broker \<Rightarrow> string" where
  "broker_text b = (case b of KIS \<Rightarrow> ''KIS'' | TOSS \<Rightarrow> ''TOSS'')"

definition market_text :: "market \<Rightarrow> string" where
  "market_text m = (case m of DOMESTIC \<Rightarrow> ''DOMESTIC'' | OVERSEAS \<Rightarrow> ''OVERSEAS'')"

definition side_text :: "side \<Rightarrow> string" where
  "side_text s = (case s of BUY \<Rightarrow> ''BUY'' | SELL \<Rightarrow> ''SELL'')"

definition tagged :: "string \<Rightarrow> string" where
  "tagged component = decimal_text (length component) @ '':'' @ component"

definition buildCanonicalKey :: "order_key \<Rightarrow> string" where
  "buildCanonicalKey key = join_with ''|'' (map tagged
     [broker_text (ok_broker key), market_text (ok_market key), ok_exchangeCode key, ok_stockCode key,
      side_text (ok_side key)])"

section \<open>Admission\<close>

text \<open>
  \<open>admit\<close>: the caller's creation runs on the normalised key, unless an unresolved order of that key is
  found; the caller learns of the refusal as \<open>None\<close>. The creation may write more tables than the orders
  and may throw, which rolls the transaction back.
\<close>

definition admit :: "('s \<Rightarrow> order_db) \<Rightarrow> order_key \<Rightarrow> (order_key \<Rightarrow> 's \<Rightarrow> js_error + ('s \<times> 'a)) \<Rightarrow> 's \<Rightarrow>
    js_error + ('s \<times> 'a option)" where
  "admit orders key creator s =
    (case normalizeKey key of
       Inl e \<Rightarrow> Inl e
     | Inr normalizedKey \<Rightarrow>
         (case findFirst (\<lambda>r. key_of r = normalizedKey \<and> is_unresolved r) (orders s) of
            Some _ \<Rightarrow> Inr (s, None)
          | None \<Rightarrow>
             (case creator normalizedKey s of
                Inl e \<Rightarrow> Inl e
              | Inr (s', created) \<Rightarrow> Inr (s', Some created))))"

text \<open>The creation of an automatic order is a single record.\<close>

definition admit_order :: "order_key \<Rightarrow> (order_key \<Rightarrow> trade_record) \<Rightarrow> order_db \<Rightarrow>
    js_error + (order_db \<times> trade_record option)" where
  "admit_order key creator = admit id key (\<lambda>k db. Inr (create (creator k) db, creator k))"

lemma admit_order_eq:
  "admit_order key creator db =
    (case normalizeKey key of
       Inl e \<Rightarrow> Inl e
     | Inr k \<Rightarrow>
         (case findFirst (\<lambda>r. key_of r = k \<and> is_unresolved r) db of
            Some _ \<Rightarrow> Inr (db, None)
          | None \<Rightarrow> Inr (create (creator k) db, Some (creator k))))"
  by (simp add: admit_order_def admit_def split: sum.splits option.splits)

section \<open>Lemmas\<close>

lemma normalizeComponent_Inr: "normalizeComponent v = Inr s \<longleftrightarrow> s = to_upper (trim v) \<and> key_text s"
  by (auto simp: normalizeComponent_def Let_def)

lemma normalizeComponent_idem: "normalizeComponent v = Inr s \<Longrightarrow> normalizeComponent s = Inr s"
  by (auto simp: normalizeComponent_Inr trim_to_upper)

lemma normalizeKey_facts:
  assumes "normalizeKey key = Inr k"
  shows "normalizeKey k = Inr k \<and> ok_broker k = ok_broker key \<and> ok_market k = ok_market key \<and>
    ok_side k = ok_side key \<and> (ok_market k = DOMESTIC \<longrightarrow> ok_exchangeCode k = ''KRX'')"
proof -
  have krx: "normalizeComponent ''KRX'' = Inr ''KRX''"
    by (simp add: normalizeComponent_Inr key_text_def key_char_def to_upper_def upper_char_def trim_def is_space_def)
  obtain x y where xy: "normalizeComponent (ok_exchangeCode key) = Inr x" "normalizeComponent (ok_stockCode key) = Inr y"
      "k = \<lparr>ok_broker = ok_broker key, ok_market = ok_market key,
         ok_exchangeCode = (if ok_market key = DOMESTIC then ''KRX'' else x), ok_stockCode = y, ok_side = ok_side key\<rparr>"
    using assms by (auto simp: normalizeKey_def split: sum.splits)
  show ?thesis
    using krx normalizeComponent_idem [OF xy(1)] normalizeComponent_idem [OF xy(2)]
    by (cases "ok_market key") (simp_all add: normalizeKey_def xy(3))
qed

text \<open>
  Normalising a key is idempotent, keeps broker, market and side, and maps every domestic key to
  the one exchange KRX, so that two spellings of the same instrument meet in the same key.
\<close>

lemma normalizeKey_canonical:
  assumes "normalizeKey key = Inr k"
  shows "normalizeKey k = Inr k \<and> ok_broker k = ok_broker key \<and> ok_market k = ok_market key \<and>
    ok_side k = ok_side key \<and> (ok_market k = DOMESTIC \<longrightarrow> ok_exchangeCode k = ''KRX'')"
  using assms by (rule normalizeKey_facts)

theorem normalizeKey_canonical_witness:
  "normalizeKey \<lparr>ok_broker = KIS, ok_market = OVERSEAS, ok_exchangeCode = ''NASD'', ok_stockCode = ''TQQQ'', ok_side = BUY\<rparr>
     = Inr \<lparr>ok_broker = KIS, ok_market = OVERSEAS, ok_exchangeCode = ''NASD'', ok_stockCode = ''TQQQ'', ok_side = BUY\<rparr>"
proof -
  have "normalizeKey \<lparr>ok_broker = KIS, ok_market = OVERSEAS, ok_exchangeCode = '' nasd'', ok_stockCode = ''tqqq '', ok_side = BUY\<rparr>
     = Inr \<lparr>ok_broker = KIS, ok_market = OVERSEAS, ok_exchangeCode = ''NASD'', ok_stockCode = ''TQQQ'', ok_side = BUY\<rparr>"
    by (simp add: normalizeKey_def normalizeComponent_def key_text_def key_char_def to_upper_def upper_char_def
        trim_def is_space_def char_of_def bit_0)
  from normalizeKey_canonical [OF this] show ?thesis by blast
qed

lemma of_digit [simp]: "n < 10 \<Longrightarrow> (of_char (char_of (48 + n :: nat)) :: nat) = 48 + n"
  by simp

lemma digit_not_colon: "n < 10 \<Longrightarrow> char_of (48 + n :: nat) \<noteq> CHR '':''"
proof
  assume n: "n < 10" and c: "char_of (48 + n) = CHR '':''"
  have "(of_char (CHR '':'') :: nat) = 58" by simp
  then have "48 + n = 58" using of_digit [OF n] c by metis
  then show False using n by simp
qed

lemma digit_inj: "m < 10 \<Longrightarrow> n < 10 \<Longrightarrow> char_of (48 + m :: nat) = char_of (48 + n) \<longleftrightarrow> m = n"
  using of_digit [of m] of_digit [of n] by (metis add_left_cancel)

lemma decimal_text_no_colon: "CHR '':'' \<notin> set (decimal_text n)"
proof (induction n rule: decimal_text.induct)
  case (1 n)
  then show ?case using digit_not_colon [of n] digit_not_colon [of "n mod 10"]
    by (subst decimal_text.simps) auto
qed

lemma decimal_text_inj: "decimal_text m = decimal_text n \<Longrightarrow> m = n"
proof (induction m arbitrary: n rule: decimal_text.induct)
  case (1 m)
  have ne: "decimal_text k \<noteq> []" "[] \<noteq> decimal_text k" for k by (subst decimal_text.simps, simp)+
  show ?case
  proof (cases "m < 10 \<or> n < 10")
    case True
    then show ?thesis using 1(2) ne digit_inj [of m n]
      by (subst (asm) (1 2) decimal_text.simps) (auto split: if_splits)
  next
    case False
    have "decimal_text (m div 10) @ [char_of (48 + m mod 10)] = decimal_text (n div 10) @ [char_of (48 + n mod 10)]"
      using 1(2) False by (subst (asm) (1 2) decimal_text.simps) simp
    then have "m div 10 = n div 10" "m mod 10 = n mod 10"
      using 1(1) False digit_inj [of "m mod 10" "n mod 10"] by auto
    then show ?thesis by (metis div_mult_mod_eq)
  qed
qed

lemma split_at:
  "c \<notin> set a \<Longrightarrow> c \<notin> set b \<Longrightarrow> a @ c # x = b @ c # y \<Longrightarrow> a = b \<and> x = y"
  by (induction a arbitrary: b) (case_tac [!] b, auto)

lemma tagged_inj: "tagged a @ x = tagged b @ y \<Longrightarrow> a = b \<and> x = y"
proof -
  assume "tagged a @ x = tagged b @ y"
  then have "decimal_text (length a) = decimal_text (length b)" "a @ x = b @ y"
    using split_at [OF decimal_text_no_colon decimal_text_no_colon, of "length a" "a @ x" "length b" "b @ y"]
    by (simp_all add: tagged_def)
  then show ?thesis using decimal_text_inj by auto
qed

lemma texts_inj [simp]:
  "broker_text b = broker_text b' \<longleftrightarrow> b = b'" "market_text m = market_text m' \<longleftrightarrow> m = m'"
  "side_text s = side_text s' \<longleftrightarrow> s = s'"
  by (auto simp: broker_text_def market_text_def side_text_def split: broker.splits market.splits side.splits)

text \<open>
  The text whose hash is locked determines the key, whatever characters its codes contain: two
  different keys never share a lock text, so a refusal is never due to another instrument's order.
\<close>

lemma canonical_key_injective:
  "buildCanonicalKey k = buildCanonicalKey k' \<longleftrightarrow> k = k'"
proof
  assume h: "buildCanonicalKey k = buildCanonicalKey k'"
  have j: "join_with s (tagged x # y # ys) = tagged x @ s @ join_with s (y # ys)" for s x y ys by simp
  have "broker_text (ok_broker k) = broker_text (ok_broker k')" "market_text (ok_market k) = market_text (ok_market k')"
    "ok_exchangeCode k = ok_exchangeCode k'" "ok_stockCode k = ok_stockCode k'"
    "tagged (side_text (ok_side k)) @ [] = tagged (side_text (ok_side k')) @ []"
    using h by (auto simp: buildCanonicalKey_def dest!: tagged_inj)
  then show "k = k'" using tagged_inj [of "side_text (ok_side k)" "[]" "side_text (ok_side k')" "[]"]
    by (intro order_key.equality) simp_all
qed simp

section \<open>At most one unresolved order per key\<close>

text \<open>
  Admission keeps the exclusion; a refusal changes nothing and happens exactly when an unresolved
  order of the normalised key exists.
\<close>

lemma admit_order_exclusive:
  assumes "exclusive db" "\<forall>k. key_of (creator k) = k" "admit_order key creator db = Inr (db', r)"
    "normalizeKey key = Inr k"
  shows "exclusive db' \<and> (r = None \<longleftrightarrow> unresolved_of k (db_orders db) \<noteq> []) \<and> (r = None \<longrightarrow> db' = db)"
proof (cases "findFirst (\<lambda>r. key_of r = k \<and> is_unresolved r) db")
  case None
  then have "unresolved_of k (db_orders db) = []"
    by (auto simp: findFirst_None unresolved_of_def filter_empty_conv)
  then show ?thesis using assms None exclusive_create [of db "creator k"] by (auto simp: admit_order_eq)
next
  case (Some x)
  then have "unresolved_of k (db_orders db) \<noteq> []"
    by (auto simp: findFirst_def unresolved_of_def find_Some_iff filter_empty_conv)
  then show ?thesis using assms Some by (auto simp: admit_order_eq)
qed

end
