(* ===== verification/OrderExecution.thy ===== *)
theory OrderExecution imports OrderGuard begin

text \<open>
  Execution of an automatic order (\<open>src/trading/trading-order-execution.service.ts\<close>) and the marking
  of a submission whose outcome is unknown (\<open>trading-broker-order-recovery.service.ts\<close>). The handler
  is cut at its awaits, where other handlers may run: one definition per segment, each taking what the
  segment reads of the world at that moment. A database call that throws ends the handler where it
  stands, except in \<open>persistAccepted\<close>, which retries. Execution logs, Slack messages and the texts of
  log lines are left out, and the reasons stored in \<open>brokerMessage\<close> are given in English.
\<close>

section \<open>Data\<close>

text \<open>
  The fields of a signal's metadata the trading services read, a number that is no number being
  \<open>None\<close>.
\<close>

record signal_meta =
  md_phase :: "string option"
  md_tValue :: "jsnum option"
  md_T :: "jsnum option"
  md_t :: "jsnum option"
  md_postFillTValue :: "jsnum option"
  md_sameCycleMinProfitRate :: "jsnum option"
  md_v4DayBuyAttemptTotal :: "jsnum option"
  md_v4AttemptAmount :: "jsnum option"
  md_v4PrevHolding :: "jsnum option"
  md_secondaryTargetPrice :: "jsnum option"
  md_secondaryTargetRate :: "jsnum option"
  md_secondaryTargetQuantity :: "jsnum option"
  md_entryDayHigh :: "jsnum option"
  md_gridLevel :: "jsnum option"

definition no_meta :: signal_meta where
  "no_meta = \<lparr>md_phase = None, md_tValue = None, md_T = None, md_t = None, md_postFillTValue = None,
     md_sameCycleMinProfitRate = None, md_v4DayBuyAttemptTotal = None, md_v4AttemptAmount = None,
     md_v4PrevHolding = None, md_secondaryTargetPrice = None, md_secondaryTargetRate = None,
     md_secondaryTargetQuantity = None, md_entryDayHigh = None, md_gridLevel = None\<rparr>"

type_synonym trading_signal = "(string, signal_meta) signal"

datatype order_outcome = ACCEPTED | REJECTED | UNKNOWN

record order_result =
  res_outcome :: order_outcome
  res_orderNo :: "string option"
  res_brokerOrderDate :: "string option"
  res_orderTime :: "string option"
  res_message :: string

text \<open>What a segment reads: the live switch, the active brokers, the configured context and the clock.\<close>

record exec_env =
  env_live :: bool
  env_active :: "broker \<Rightarrow> bool"
  env_context :: "broker \<Rightarrow> js_error + broker_context"
  env_now :: int

section \<open>Helpers\<close>

text \<open>\<open>if (price)\<close>: zero and \<open>NaN\<close> are falsy.\<close>

definition truthy_opt :: "jsnum option \<Rightarrow> bool" where
  "truthy_opt x = (case x of None \<Rightarrow> False | Some v \<Rightarrow> truthy v)"

definition getOrderType :: "('r, 'm) signal \<Rightarrow> order_type" where
  "getOrderType s =
    (if sg_orderDivision s = Some ''34'' then LOC
     else if truthy_opt (sg_price s) then LIMIT
     else MARKET)"

definition isCurrentBrokerContext :: "exec_env \<Rightarrow> broker_context \<Rightarrow> bool" where
  "isCurrentBrokerContext env expected =
    (case env_context env (bc_broker expected) of
       Inl _ \<Rightarrow> False
     | Inr current \<Rightarrow> bc_broker current = bc_broker expected \<and> bc_environment current = bc_environment expected \<and>
         bc_accountHash current = bc_accountHash expected)"

definition nonblank :: "string option \<Rightarrow> bool" where
  "nonblank x = (case x of None \<Rightarrow> False | Some v \<Rightarrow> trim v \<noteq> [])"

definition hasCompleteOrderIdentity :: "order_result \<Rightarrow> bool" where
  "hasCompleteOrderIdentity res \<longleftrightarrow>
     list_all nonblank [res_orderNo res, res_brokerOrderDate res, res_orderTime res]"

definition sanitizeMessage :: "string \<Rightarrow> string" where
  "sanitizeMessage message =
    (let normalized = trim message in
     take 500 (if normalized = [] then ''Broker mutation outcome unknown'' else normalized))"

section \<open>The guarded updates\<close>

text \<open>Each \<open>where\<close> as a guard, each \<open>data\<close> as a change.\<close>

definition unsubmitted :: "string \<Rightarrow> trade_record \<Rightarrow> bool" where
  "unsubmitted i r \<longleftrightarrow> tr_id r = i \<and> tr_status r = SUBMITTING \<and> tr_submissionStartedAt r = None"

definition started :: "string \<Rightarrow> trade_record \<Rightarrow> bool" where
  "started i r \<longleftrightarrow> tr_id r = i \<and> tr_status r = SUBMITTING \<and> tr_submissionStartedAt r \<noteq> None"

definition started_at :: "string \<Rightarrow> int \<Rightarrow> trade_record \<Rightarrow> bool" where
  "started_at i t r \<longleftrightarrow> tr_id r = i \<and> tr_status r = SUBMITTING \<and> tr_submissionStartedAt r = Some t"

definition set_started :: "int \<Rightarrow> trade_record \<Rightarrow> trade_record" where
  "set_started t r = r\<lparr>tr_submissionStartedAt := Some t\<rparr>"

definition set_cancelled :: "string \<Rightarrow> trade_record \<Rightarrow> trade_record" where
  "set_cancelled message r = r\<lparr>tr_status := CANCELLED, tr_brokerMessage := Some message\<rparr>"

definition set_aborted :: "string \<Rightarrow> trade_record \<Rightarrow> trade_record" where
  "set_aborted message r = r\<lparr>tr_status := CANCELLED, tr_submissionStartedAt := None, tr_brokerMessage := Some message\<rparr>"

definition set_failed :: "string \<Rightarrow> trade_record \<Rightarrow> trade_record" where
  "set_failed message r = r\<lparr>tr_status := FAILED, tr_brokerMessage := Some message\<rparr>"

definition set_unknown :: "string \<Rightarrow> trade_record \<Rightarrow> trade_record" where
  "set_unknown message r = r\<lparr>tr_status := SUBMISSION_UNKNOWN, tr_brokerMessage := Some message\<rparr>"

definition set_pending :: "order_result \<Rightarrow> trade_record \<Rightarrow> trade_record" where
  "set_pending res r = r\<lparr>tr_status := PENDING, tr_orderNo := res_orderNo res,
     tr_brokerOrderDate := res_brokerOrderDate res, tr_brokerOrderTime := res_orderTime res,
     tr_brokerMessage := Some (res_message res)\<rparr>"

section \<open>The segments of execute\<close>

text \<open>The record an admitted signal creates.\<close>

definition new_order :: "string \<Rightarrow> int \<Rightarrow> ('r \<Rightarrow> string) \<Rightarrow> ('r, 'm) signal \<Rightarrow> string \<Rightarrow> broker_context \<Rightarrow>
    order_key \<Rightarrow> trade_record" where
  "new_order new_id t render s strategyName ctx k =
    \<lparr>tr_id = new_id, tr_broker = ok_broker k, tr_market = ok_market k, tr_exchangeCode = ok_exchangeCode k,
     tr_stockCode = ok_stockCode k, tr_stockName = ok_stockCode k, tr_side = ok_side k,
     tr_orderType = getOrderType s, tr_quantity = sg_quantity s, tr_price = or_opt (sg_price s) (Fin 0),
     tr_executedPrice = None, tr_executedQty = None, tr_executedAt = None, tr_orderNo = None,
     tr_status = SUBMITTING, tr_strategyName = Some strategyName, tr_reason = Some (render (sg_reason s)),
     tr_submissionStartedAt = None, tr_brokerOrderDate = None, tr_brokerOrderTime = None,
     tr_brokerEnvironment = Some (bc_environment ctx), tr_brokerAccountHash = Some (bc_accountHash ctx),
     tr_brokerMessage = None, tr_submissionResolvedAt = None, tr_submissionResolvedBy = None,
     tr_submissionResolution = None, tr_cancellationStatus = None, tr_cancellationStartedAt = None,
     tr_cancellationResolvedAt = None, tr_cancellationResolvedBy = None, tr_cancellationMessage = None,
     tr_createdAt = t\<rparr>"

definition signal_key :: "broker \<Rightarrow> ('r, 'm) signal \<Rightarrow> order_key" where
  "signal_key b s = \<lparr>ok_broker = b, ok_market = sg_market s, ok_exchangeCode = sg_exchangeCode s,
     ok_stockCode = sg_stockCode s, ok_side = sg_side s\<rparr>"

text \<open>
  Up to the admission. The signal's broker is an argument of its own; the answer is the admitted record
  with the context it is bound to, or \<open>None\<close> when the handler returns false.
\<close>

definition exec_admit :: "exec_env \<Rightarrow> string \<Rightarrow> ('r \<Rightarrow> string) \<Rightarrow> broker option \<Rightarrow> ('r, 'm) signal \<Rightarrow> string \<Rightarrow>
    order_db \<Rightarrow> js_error + (order_db \<times> (trade_record \<times> broker_context) option)" where
  "exec_admit env new_id render bo s strategyName db =
    (if \<not> env_live env then Inr (db, None)
     else case bo of None \<Rightarrow> Inr (db, None)
     | Some b \<Rightarrow>
       if \<not> env_active env b then Inr (db, None)
       else case env_context env b of Inl e \<Rightarrow> Inl e
       | Inr ctx \<Rightarrow>
         if bc_broker ctx \<noteq> b then Inr (db, None)
         else case admit_order (signal_key b s) (new_order new_id (env_now env) render s strategyName ctx) db of
             Inl e \<Rightarrow> Inl e
           | Inr (db', r) \<Rightarrow> Inr (db', map_option (\<lambda>rec. (rec, ctx)) r))"

text \<open>Where a handler stands between two segments.\<close>

datatype exec_pc =
    Preparing
  | CancellingPre string
  | Claiming
  | Claimed int
  | Aborting int string
  | Submitted
  | Recording "string + order_result"
  | Returned bool

text \<open>After the admission: the state written before the order, the refresh, and the checks again.\<close>

definition exec_prepare :: "exec_env \<Rightarrow> broker_context \<Rightarrow> bool \<Rightarrow> bool \<Rightarrow> exec_pc" where
  "exec_prepare env ctx marked refreshed =
    (if \<not> marked then CancellingPre ''second-target attempt could not be stored''
     else if \<not> refreshed then CancellingPre ''position refresh failed''
     else if \<not> isCurrentBrokerContext env ctx then CancellingPre ''broker context changed''
     else if \<not> env_live env then CancellingPre ''live trading disabled''
     else if \<not> env_active env (bc_broker ctx) then CancellingPre ''broker deactivated''
     else Claiming)"

definition cancelPreSubmit :: "string \<Rightarrow> string \<Rightarrow> order_db \<Rightarrow> order_db" where
  "cancelPreSubmit i message db = fst (updateMany (unsubmitted i) (set_cancelled message) db)"

text \<open>The claim: the moment the order may have reached the broker is stored before it is sent.\<close>

definition exec_claim :: "string \<Rightarrow> int \<Rightarrow> order_db \<Rightarrow> order_db \<times> exec_pc" where
  "exec_claim i submissionStartedAt db =
    (let r = updateMany (unsubmitted i) (set_started submissionStartedAt) db in
     (fst r, if snd r = 0 then Returned False else Claimed submissionStartedAt))"

text \<open>The last checks, in the same tick as the call to the broker.\<close>

definition exec_submit :: "exec_env \<Rightarrow> broker_context \<Rightarrow> int \<Rightarrow> exec_pc" where
  "exec_submit env ctx submissionStartedAt =
    (if \<not> isCurrentBrokerContext env ctx then Aborting submissionStartedAt ''broker context changed''
     else if \<not> env_live env then Aborting submissionStartedAt ''live trading disabled''
     else if \<not> env_active env (bc_broker ctx) then Aborting submissionStartedAt ''broker deactivated''
     else Submitted)"

definition exec_abort :: "string \<Rightarrow> int \<Rightarrow> string \<Rightarrow> order_db \<Rightarrow> order_db" where
  "exec_abort i submissionStartedAt message db =
     fst (updateMany (started_at i submissionStartedAt) (set_aborted message) db)"

definition markSubmissionUnknown :: "string \<Rightarrow> string \<Rightarrow> order_db \<Rightarrow> order_db \<times> bool" where
  "markSubmissionUnknown i message db =
    (let brokerMessage = sanitizeMessage message;
         claimed = updateMany (started i) (set_unknown brokerMessage) db
     in if snd claimed = 0 then (fst claimed, False)
        else (audit \<lparr>al_tradeRecordId = i, al_action = UNKNOWN_DETECTED, al_actor = ''system'',
            al_brokerOrderDate = None, al_exchangeCode = None, al_orderNo = None,
            al_beforeStatus = Some SUBMITTING, al_afterStatus = Some SUBMISSION_UNKNOWN,
            al_message = Some brokerMessage\<rparr> (fst claimed), True))"

text \<open>
  An attempt of the database to store: done, failed before anything was stored, or stored with the
  answer lost on the way.
\<close>

datatype db_reply = DbDone | DbFailed | DbLost

text \<open>The retry loop, over the attempts that are left.\<close>

fun persist_loop :: "nat \<Rightarrow> (nat \<Rightarrow> db_reply) \<Rightarrow> string \<Rightarrow> order_result \<Rightarrow> order_db \<Rightarrow> order_db \<times> bool" where
  "persist_loop 0 reply i res db = (db, False)"
| "persist_loop (Suc left) reply i res db =
    (let stored = updateMany (started i) (set_pending res) db in
     case reply (3 - left) of
       DbDone \<Rightarrow> (fst stored, 0 < snd stored)
     | DbFailed \<Rightarrow> persist_loop left reply i res db
     | DbLost \<Rightarrow> persist_loop left reply i res (fst stored))"

definition persistAccepted :: "(nat \<Rightarrow> db_reply) \<Rightarrow> string \<Rightarrow> order_result \<Rightarrow> order_db \<Rightarrow> order_db \<times> bool" where
  "persistAccepted = persist_loop 3"

text \<open>The broker's answer, or the message of what it threw, is recorded; the handler's answer with it.\<close>

definition exec_record :: "(nat \<Rightarrow> db_reply) \<Rightarrow> string \<Rightarrow> string + order_result \<Rightarrow> order_db \<Rightarrow> order_db \<times> bool" where
  "exec_record reply i answer db =
    (case answer of
       Inl message \<Rightarrow> (fst (markSubmissionUnknown i message db), False)
     | Inr res \<Rightarrow>
       if res_outcome res = ACCEPTED \<and> \<not> hasCompleteOrderIdentity res
       then (fst (markSubmissionUnknown i ''Accepted broker response missing required order identity'' db), False)
       else if res_outcome res = REJECTED
       then (fst (updateMany (started i) (set_failed (res_message res)) db), False)
       else if res_outcome res \<noteq> ACCEPTED
       then (fst (markSubmissionUnknown i (res_message res) db), False)
       else (fst (persistAccepted reply i res db), True))"

section \<open>Every step is a guarded update\<close>

lemma key_of_updates [simp]:
  "key_of (set_started t r) = key_of r" "key_of (set_cancelled m r) = key_of r" "key_of (set_aborted m r) = key_of r"
  "key_of (set_failed m r) = key_of r" "key_of (set_unknown m r) = key_of r" "key_of (set_pending res r) = key_of r"
  by (simp_all add: key_of_def set_started_def set_cancelled_def set_aborted_def set_failed_def set_unknown_def
      set_pending_def)

lemmas change_defs = set_started_def set_cancelled_def set_aborted_def set_failed_def set_unknown_def set_pending_def

lemmas guard_defs = unsubmitted_def started_def started_at_def

interpretation pre_cancel: claim "unsubmitted i" "set_cancelled m" for i m
  by unfold_locales (auto simp: change_defs guard_defs is_unresolved_def key_of_def)

interpretation submission: claim "unsubmitted i" "set_started t" for i t
  by unfold_locales (auto simp: change_defs guard_defs is_unresolved_def key_of_def)

interpretation abortion: claim "started_at i t" "set_aborted m" for i t m
  by unfold_locales (auto simp: change_defs guard_defs is_unresolved_def key_of_def)

interpretation failure: claim "started i" "set_failed m" for i m
  by unfold_locales (auto simp: change_defs guard_defs is_unresolved_def key_of_def)

interpretation unknown: claim "started i" "set_unknown m" for i m
  by unfold_locales (auto simp: change_defs guard_defs is_unresolved_def key_of_def)

interpretation acceptance: claim "started i" "set_pending res" for i res
  by unfold_locales (auto simp: change_defs guard_defs is_unresolved_def key_of_def)

section \<open>A concrete order\<close>

definition example_signal :: trading_signal where
  "example_signal = \<lparr>sg_market = OVERSEAS, sg_exchangeCode = ''NASD'', sg_stockCode = ''TQQQ'', sg_side = BUY,
     sg_quantity = Fin 5, sg_price = Some (Fin 60), sg_reason = ''buy'', sg_orderDivision = Some ''34'',
     sg_metadata = None\<rparr>"

definition example_account :: broker_context where
  "example_account = \<lparr>bc_broker = KIS, bc_environment = PAPER_ACCOUNT, bc_accountHash = ''hash'', bc_maskedAccount = ''****''\<rparr>"

definition example_env :: exec_env where
  "example_env = \<lparr>env_live = True, env_active = (\<lambda>b. b = KIS), env_context = (\<lambda>_. Inr example_account), env_now = 1000\<rparr>"

definition example_order :: "string \<Rightarrow> trade_record" where
  "example_order i = new_order i 1000 id example_signal ''daily-dca'' example_account (signal_key KIS example_signal)"

definition no_orders :: order_db where
  "no_orders = \<lparr>db_orders = [], db_audit = []\<rparr>"

lemma example_key: "normalizeKey (signal_key KIS example_signal) = Inr (signal_key KIS example_signal)"
  by (simp add: normalizeKey_def normalizeComponent_def key_text_def key_char_def to_upper_def upper_char_def
      trim_def is_space_def signal_key_def example_signal_def)

section \<open>Properties\<close>

lemma new_order_key: "key_of (new_order i t render s n c k) = k"
  by (simp add: new_order_def key_of_def)

lemma admission_facts:
  assumes "exclusive db" "exec_admit env i render bo s n db = Inr (db', res)"
  shows "exclusive db' \<and>
    (case res of
       None \<Rightarrow> db' = db \<and> (env_live env \<longrightarrow> (\<exists>b ctx k. bo = Some b \<and> env_active env b \<and> env_context env b = Inr ctx \<and>
          bc_broker ctx = b \<and> normalizeKey (signal_key b s) = Inr k \<and> unresolved_of k (db_orders db) \<noteq> []) \<or>
          bo = None \<or> \<not> env_active env (the bo) \<or> (\<exists>ctx. env_context env (the bo) = Inr ctx \<and> bc_broker ctx \<noteq> the bo))
     | Some (r, ctx) \<Rightarrow> env_live env \<and> bo = Some (tr_broker r) \<and> env_active env (tr_broker r) \<and>
          env_context env (tr_broker r) = Inr ctx \<and> bc_broker ctx = tr_broker r \<and>
          normalizeKey (signal_key (tr_broker r) s) = Inr (key_of r) \<and>
          unresolved_of (key_of r) (db_orders db) = [] \<and> db' = create r db \<and> unsubmitted i r \<and>
          tr_brokerEnvironment r = Some (bc_environment ctx) \<and> tr_brokerAccountHash r = Some (bc_accountHash ctx))"
proof (cases "env_live env \<and> (\<exists>b. bo = Some b \<and> env_active env b \<and> (\<exists>ctx. env_context env b = Inr ctx \<and> bc_broker ctx = b))")
  case False
  then show ?thesis using assms
    by (auto simp: exec_admit_def split: if_splits option.splits sum.splits)
next
  case True
  then obtain b ctx where b: "env_live env" "bo = Some b" "env_active env b" "env_context env b = Inr ctx" "bc_broker ctx = b"
    by blast
  then obtain r where a: "admit_order (signal_key b s) (new_order i (env_now env) render s n ctx) db = Inr (db', r)"
      "res = map_option (\<lambda>rec. (rec, ctx)) r"
    using assms(2) by (auto simp: exec_admit_def split: sum.splits)
  then obtain k where k: "normalizeKey (signal_key b s) = Inr k"
    by (auto simp: admit_order_eq split: sum.splits)
  note x = admit_order_exclusive [OF assms(1) _ a(1) k, simplified new_order_key, simplified]
  have kb: "ok_broker k = b" using normalizeKey_facts [OF k] by (simp add: signal_key_def)
  show ?thesis
  proof (cases r)
    case None
    then show ?thesis using x a(2) b k by auto
  next
    case (Some rec)
    then have rec: "rec = new_order i (env_now env) render s n ctx k" "db' = create rec db"
      using a(1) k by (auto simp: admit_order_eq split: option.splits)
    have "key_of rec = k" "tr_broker rec = b" using rec(1) kb by (simp_all add: new_order_key, simp add: new_order_def)
    then show ?thesis using x a(2) b k rec Some
      by (auto simp: unsubmitted_def) (simp_all add: new_order_def)
  qed
qed

lemma exec_admit_record:
  assumes "exec_admit env i render bo s n db = Inr (db', Some (r, c))"
  shows "tr_quantity r = sg_quantity s \<and> tr_executedQty r = None"
  using assms by (auto simp: exec_admit_def admit_order_eq new_order_def split: if_splits option.splits sum.splits)

text \<open>
  (C9) An automatic order is admitted exactly when live trading is on, its broker is known, active and
  configured for that broker, and no order of its normalised key is unresolved; the admitted record is
  not yet submitted, bound to the account configured at that moment, and after it at most one order
  of every key is unresolved.
\<close>

theorem automatic_admission:
  assumes "exclusive db" "exec_admit env i render bo s n db = Inr (db', res)"
  shows "exclusive db' \<and>
    (case res of
       None \<Rightarrow> db' = db \<and> (env_live env \<longrightarrow> (\<exists>b ctx k. bo = Some b \<and> env_active env b \<and> env_context env b = Inr ctx \<and>
          bc_broker ctx = b \<and> normalizeKey (signal_key b s) = Inr k \<and> unresolved_of k (db_orders db) \<noteq> []) \<or>
          bo = None \<or> \<not> env_active env (the bo) \<or> (\<exists>ctx. env_context env (the bo) = Inr ctx \<and> bc_broker ctx \<noteq> the bo))
     | Some (r, ctx) \<Rightarrow> env_live env \<and> bo = Some (tr_broker r) \<and> env_active env (tr_broker r) \<and>
          env_context env (tr_broker r) = Inr ctx \<and> bc_broker ctx = tr_broker r \<and>
          normalizeKey (signal_key (tr_broker r) s) = Inr (key_of r) \<and>
          unresolved_of (key_of r) (db_orders db) = [] \<and> db' = create r db \<and> unsubmitted i r \<and>
          tr_brokerEnvironment r = Some (bc_environment ctx) \<and> tr_brokerAccountHash r = Some (bc_accountHash ctx))"
  using assms by (rule admission_facts)

theorem automatic_admission_witness:
  "exclusive (create (example_order ''a'') no_orders) \<and>
   exec_admit example_env ''b'' id (Some KIS) example_signal ''daily-dca'' (create (example_order ''a'') no_orders) =
     Inr (create (example_order ''a'') no_orders, None)"
proof -
  have e: "exclusive no_orders" by (simp add: exclusive_def unresolved_of_def no_orders_def)
  have a: "exec_admit example_env ''a'' id (Some KIS) example_signal ''daily-dca'' no_orders =
      Inr (create (example_order ''a'') no_orders, Some (example_order ''a'', example_account))"
    using example_key by (simp add: exec_admit_def example_env_def example_account_def admit_order_eq example_order_def
        findFirst_def no_orders_def)
  have b: "exec_admit example_env ''b'' id (Some KIS) example_signal ''daily-dca'' (create (example_order ''a'') no_orders) =
     Inr (create (example_order ''a'') no_orders, None)"
    using example_key by (simp add: exec_admit_def example_env_def example_account_def admit_order_eq findFirst_def no_orders_def
        example_order_def new_order_key) (simp add: new_order_def is_unresolved_def)
  show ?thesis using automatic_admission [OF e a] b by simp
qed

section \<open>Recording the answer\<close>

text \<open>
  What the recording promises of a started order: the broker's answer decides its next state, and an
  order whose acceptance could not be stored in three attempts stays as it is, for the take-over.
\<close>

definition recorded_as :: "(nat \<Rightarrow> db_reply) \<Rightarrow> string + order_result \<Rightarrow> trade_record \<Rightarrow> trade_record" where
  "recorded_as reply answer =
    (case answer of
       Inl message \<Rightarrow> set_unknown (sanitizeMessage message)
     | Inr res \<Rightarrow>
         (case res_outcome res of
            REJECTED \<Rightarrow> set_failed (res_message res)
          | UNKNOWN \<Rightarrow> set_unknown (sanitizeMessage (res_message res))
          | ACCEPTED \<Rightarrow>
              if \<not> hasCompleteOrderIdentity res
              then set_unknown (sanitizeMessage ''Accepted broker response missing required order identity'')
              else if reply 1 = DbFailed \<and> reply 2 = DbFailed \<and> reply 3 = DbFailed then id
              else set_pending res))"

lemma change_where_id [simp]: "change_where P id = id" "change_where P id r = r"
  by (auto simp: change_where_def fun_eq_iff)

lemma set_pending_twice:
  "change_where (started i) (set_pending res) (change_where (started i) (set_pending res') r) =
   change_where (started i) (set_pending res') r"
  by (auto simp: change_where_def started_def set_pending_def)

lemma unknown_orders:
  "db_orders (fst (markSubmissionUnknown i m db)) =
     map (change_where (started i) (set_unknown (sanitizeMessage m))) (db_orders db)"
  by (simp add: markSubmissionUnknown_def Let_def)

lemma persist_orders:
  "db_orders (fst (persistAccepted reply i res db)) =
     map (change_where (started i) (if reply 1 = DbFailed \<and> reply 2 = DbFailed \<and> reply 3 = DbFailed then id else set_pending res))
       (db_orders db)"
  by (auto simp: persistAccepted_def numeral_3_eq_3 Let_def numeral_2_eq_2 set_pending_twice split: db_reply.splits)

text \<open>
  (C16) Recording a broker's answer changes exactly the order it is for, and only while that order is
  started: accepted with a complete identity it becomes pending (even when the database's own answer
  was lost and the write is repeated), rejected it fails, and anything else, a thrown error and an
  accepted answer without identity included, is recorded as unknown, never as not submitted.
\<close>

theorem answer_recorded:
  "db_orders (fst (exec_record reply i answer db)) = map (change_where (started i) (recorded_as reply answer)) (db_orders db) \<and>
   (snd (exec_record reply i answer db) \<longleftrightarrow>
      (\<exists>res. answer = Inr res \<and> res_outcome res = ACCEPTED \<and> hasCompleteOrderIdentity res)) \<and>
   (\<forall>r. started i r \<longrightarrow> tr_status (recorded_as reply answer r) \<noteq> CANCELLED)"
proof -
  have "db_orders (fst (exec_record reply i answer db)) =
      map (change_where (started i) (recorded_as reply answer)) (db_orders db)"
    by (cases answer) (auto simp: exec_record_def recorded_as_def unknown_orders persist_orders split: order_outcome.splits)
  moreover have "snd (exec_record reply i answer db) \<longleftrightarrow>
      (\<exists>res. answer = Inr res \<and> res_outcome res = ACCEPTED \<and> hasCompleteOrderIdentity res)"
    by (cases answer) (auto simp: exec_record_def split: order_outcome.splits)
  moreover have "\<forall>r. started i r \<longrightarrow> tr_status (recorded_as reply answer r) \<noteq> CANCELLED"
    by (auto simp: recorded_as_def change_defs started_def split: sum.splits order_outcome.splits)
  ultimately show ?thesis by blast
qed

theorem answer_recorded_witness:
  "started ''a'' (set_started 5 (example_order ''a'')) \<and>
   tr_status (recorded_as (\<lambda>_. DbDone) (Inl ''timeout'') (set_started 5 (example_order ''a''))) \<noteq> CANCELLED"
proof -
  have "started ''a'' (set_started 5 (example_order ''a''))"
    by (simp add: started_def set_started_def example_order_def new_order_def)
  then show ?thesis using answer_recorded [where reply = "\<lambda>_. DbDone" and i = "''a''" and answer = "Inl ''timeout''"] by blast
qed

end
