(* ===== verification/BrokerContext.thy ===== *)
theory BrokerContext imports OrderExecution begin

text \<open>
  The account an order is bound to (\<open>src/trading/trading-broker-context.service.ts\<close>): reading it from
  the configuration, comparing it with what an order stores, and the token that binds an operator's
  preview to it. A configured value that is not a string is \<open>None\<close>. SHA-256 and HMAC-SHA-256 of the
  platform's \<open>crypto\<close> are the parameters \<open>sha\<close> and \<open>hmac\<close>, the HMAC with its key first; the Toss
  service's own context is the parameter \<open>toss\<close>.
\<close>

record broker_config =
  cfg_kis_accountNo :: "string option"
  cfg_kis_env :: "string option"
  cfg_kis_prodCode :: "string option"
  cfg_toss_accountNo :: "string option"
  cfg_jwtSecret :: "string option"

definition is_digit :: "char \<Rightarrow> bool" where
  "is_digit c \<longleftrightarrow> 48 \<le> (of_char c :: nat) \<and> (of_char c :: nat) \<le> 57"

definition digits :: "nat \<Rightarrow> string \<Rightarrow> bool" where
  "digits n s \<longleftrightarrow> length s = n \<and> list_all is_digit s"

definition lower_char :: "char \<Rightarrow> char" where
  "lower_char c = (if 65 \<le> (of_char c :: nat) \<and> (of_char c :: nat) \<le> 90
     then char_of ((of_char c :: nat) + 32) else c)"

definition to_lower :: "string \<Rightarrow> string" where
  "to_lower s = map lower_char s"

definition last_four :: "string \<Rightarrow> string" where
  "last_four s = drop (length s - 4) s"

definition invalidConfiguration :: "broker \<Rightarrow> js_error" where
  "invalidConfiguration b = (case b of KIS \<Rightarrow> Error ''Invalid KIS broker configuration''
     | TOSS \<Rightarrow> Error ''Invalid Toss broker configuration'')"

text \<open>The product code: the last two digits of a ten-digit account, else the configured one.\<close>

definition kis_product_code :: "broker_config \<Rightarrow> string \<Rightarrow> string option" where
  "kis_product_code cfg account =
    (if length account = 10 then Some (take 2 (drop 8 account))
     else case cfg_kis_prodCode cfg of None \<Rightarrow> None
       | Some p \<Rightarrow> if digits 2 (trim p) then Some (trim p) else None)"

definition getKisContext :: "(string \<Rightarrow> string) \<Rightarrow> broker_config \<Rightarrow> js_error + broker_context" where
  "getKisContext sha cfg =
    (case (cfg_kis_accountNo cfg, cfg_kis_env cfg) of
       (Some configuredAccount, Some configuredEnvironment) \<Rightarrow>
         let account = trim configuredAccount;
             normalizedEnvironment = to_lower (trim configuredEnvironment);
             cano = take 8 account
         in if \<not> (digits 8 account \<or> digits 10 account) then Inl (invalidConfiguration KIS)
            else if normalizedEnvironment \<noteq> ''paper'' \<and> normalizedEnvironment \<noteq> ''prod''
            then Inl (invalidConfiguration KIS)
            else (case kis_product_code cfg account of None \<Rightarrow> Inl (invalidConfiguration KIS)
              | Some productCode \<Rightarrow> Inr
                  \<lparr>bc_broker = KIS, bc_environment = (if normalizedEnvironment = ''paper'' then PAPER_ACCOUNT else LIVE_ACCOUNT),
                   bc_accountHash = sha (cano @ productCode),
                   bc_maskedAccount = ''****'' @ last_four cano @ ''-'' @ productCode\<rparr>)
     | _ \<Rightarrow> Inl (invalidConfiguration KIS))"

text \<open>The Toss service answers a broker, an environment and an account hash, or throws.\<close>

definition getTossContext :: "js_error + (broker \<times> broker_environment \<times> string option) \<Rightarrow> broker_config \<Rightarrow>
    js_error + broker_context" where
  "getTossContext toss cfg =
    (case toss of Inl e \<Rightarrow> Inl e
     | Inr (b, environment, accountHash) \<Rightarrow>
       if b \<noteq> TOSS \<or> environment \<noteq> LIVE_ACCOUNT \<or> \<not> nonblank accountHash \<or> \<not> nonblank (cfg_toss_accountNo cfg)
       then Inl (invalidConfiguration TOSS)
       else Inr \<lparr>bc_broker = TOSS, bc_environment = environment, bc_accountHash = the accountHash,
         bc_maskedAccount = ''****'' @ last_four (trim (the (cfg_toss_accountNo cfg)))\<rparr>)"

definition getCurrentContext :: "(string \<Rightarrow> string) \<Rightarrow> js_error + (broker \<times> broker_environment \<times> string option) \<Rightarrow>
    broker_config \<Rightarrow> broker \<Rightarrow> js_error + broker_context" where
  "getCurrentContext sha toss cfg b =
     (case b of TOSS \<Rightarrow> getTossContext toss cfg | KIS \<Rightarrow> getKisContext sha cfg)"

definition matchesCurrentContext :: "(broker \<Rightarrow> js_error + broker_context) \<Rightarrow> broker \<Rightarrow>
    broker_environment option \<Rightarrow> string option \<Rightarrow> js_error + bool" where
  "matchesCurrentContext current b environment accountHash =
    (if environment = None \<or> \<not> nonblank accountHash then Inr False
     else map_sum id (\<lambda>c. bc_broker c = b \<and> Some (bc_environment c) = environment \<and> Some (bc_accountHash c) = accountHash)
       (current b))"

definition contextBindingSecret :: "broker_config \<Rightarrow> js_error + string" where
  "contextBindingSecret cfg =
    (if \<not> nonblank (cfg_jwtSecret cfg) then Inl (Error ''Invalid broker context binding configuration'')
     else Inr (the (cfg_jwtSecret cfg)))"

definition environment_text :: "broker_environment \<Rightarrow> string" where
  "environment_text e = (case e of PAPER_ACCOUNT \<Rightarrow> ''PAPER'' | LIVE_ACCOUNT \<Rightarrow> ''PROD'')"

definition binding_text :: "broker_context \<Rightarrow> string" where
  "binding_text c = ''v2'' @ [CHR 0x00] @ broker_text (bc_broker c) @ [CHR 0x00] @
     environment_text (bc_environment c) @ [CHR 0x00] @ bc_accountHash c"

definition createContextBindingToken :: "(string \<Rightarrow> string \<Rightarrow> string) \<Rightarrow> broker_config \<Rightarrow> broker_context \<Rightarrow>
    js_error + string" where
  "createContextBindingToken hmac cfg c = map_sum id (\<lambda>secret. hmac secret (binding_text c)) (contextBindingSecret cfg)"

definition matchesContextBindingToken :: "(string \<Rightarrow> string \<Rightarrow> string) \<Rightarrow> broker_config \<Rightarrow> broker_context \<Rightarrow>
    string option \<Rightarrow> js_error + bool" where
  "matchesContextBindingToken hmac cfg c token =
    (if \<not> nonblank token then Inr False
     else map_sum id (\<lambda>expected. trim (the token) = expected) (createContextBindingToken hmac cfg c))"

section \<open>Properties\<close>

lemma nonblank_simps [simp]: "\<not> nonblank None" "nonblank (Some v) \<longleftrightarrow> trim v \<noteq> []"
  by (simp_all add: nonblank_def)

lemma binding_text_inj:
  "binding_text c = binding_text c' \<longleftrightarrow> bc_broker c = bc_broker c' \<and> bc_environment c = bc_environment c' \<and>
     bc_accountHash c = bc_accountHash c'"
  by (auto simp: binding_text_def broker_text_def environment_text_def split: broker.splits broker_environment.splits)

text \<open>
  A binding token is accepted for the account and environment it was made for and for no other:
  under one secret and a collision-free HMAC whose tokens carry no surrounding white space, the token
  of one context matches another exactly when broker, environment and account hash are the same.
\<close>

lemma binding_token_exact:
  assumes "inj (hmac secret)" "\<forall>m. trim (hmac secret m) = hmac secret m \<and> hmac secret m \<noteq> []"
    "contextBindingSecret cfg = Inr secret" "createContextBindingToken hmac cfg c = Inr token"
  shows "matchesContextBindingToken hmac cfg c' (Some token) =
    Inr (bc_broker c' = bc_broker c \<and> bc_environment c' = bc_environment c \<and> bc_accountHash c' = bc_accountHash c)"
proof -
  have t: "token = hmac secret (binding_text c)"
    using assms(3,4) by (simp add: createContextBindingToken_def)
  have "trim token = token" "token \<noteq> []" using assms(2) t by auto
  then show ?thesis using assms(1,3) t
    by (auto simp: matchesContextBindingToken_def createContextBindingToken_def inj_eq binding_text_inj)
qed

lemma trim_framed: "\<not> is_space a \<Longrightarrow> \<not> is_space b \<Longrightarrow> trim (a # s @ [b]) = a # s @ [b]"
  by (simp add: trim_def)

theorem binding_token_exact_witness:
  "matchesContextBindingToken (\<lambda>k m. ''x'' @ m @ ''x'')
     \<lparr>cfg_kis_accountNo = None, cfg_kis_env = None, cfg_kis_prodCode = None, cfg_toss_accountNo = None,
      cfg_jwtSecret = Some ''s''\<rparr>
     \<lparr>bc_broker = KIS, bc_environment = LIVE_ACCOUNT, bc_accountHash = ''h'', bc_maskedAccount = ''m''\<rparr>
     (Some (''x'' @ binding_text \<lparr>bc_broker = KIS, bc_environment = PAPER_ACCOUNT, bc_accountHash = ''h'', bc_maskedAccount = ''m''\<rparr> @ ''x''))
   = Inr False"
  using binding_token_exact [of "\<lambda>k m. ''x'' @ m @ ''x''" "''s''"
      "\<lparr>cfg_kis_accountNo = None, cfg_kis_env = None, cfg_kis_prodCode = None, cfg_toss_accountNo = None,
        cfg_jwtSecret = Some ''s''\<rparr>"
      "\<lparr>bc_broker = KIS, bc_environment = PAPER_ACCOUNT, bc_accountHash = ''h'', bc_maskedAccount = ''m''\<rparr>" _
      "\<lparr>bc_broker = KIS, bc_environment = LIVE_ACCOUNT, bc_accountHash = ''h'', bc_maskedAccount = ''m''\<rparr>"]
  by (simp add: inj_def trim_framed is_space_def contextBindingSecret_def createContextBindingToken_def trim_def)

text \<open>
  The KIS account is identified by its ten digits, however they are configured: the ten-digit
  account number, and its first eight digits with the last two as product code, give the same context,
  and a product code configured beside a ten-digit account is not looked at.
\<close>

lemma kis_account_spellings:
  assumes "digits 8 cano" "digits 2 code" "trim (cano @ code) = cano @ code" "trim cano = cano" "trim code = code"
  shows "getKisContext sha (cfg\<lparr>cfg_kis_accountNo := Some (cano @ code), cfg_kis_prodCode := other\<rparr>) =
    getKisContext sha (cfg\<lparr>cfg_kis_accountNo := Some cano, cfg_kis_prodCode := Some code\<rparr>)"
  using assms by (auto simp: getKisContext_def kis_product_code_def digits_def Let_def split: option.splits)

theorem kis_account_spellings_witness:
  "getKisContext id \<lparr>cfg_kis_accountNo = Some ''1234567801'', cfg_kis_env = Some ''paper'', cfg_kis_prodCode = None,
     cfg_toss_accountNo = None, cfg_jwtSecret = None\<rparr> =
   getKisContext id \<lparr>cfg_kis_accountNo = Some ''12345678'', cfg_kis_env = Some ''paper'', cfg_kis_prodCode = Some ''01'',
     cfg_toss_accountNo = None, cfg_jwtSecret = None\<rparr>"
  using kis_account_spellings [where cano = "''12345678''" and code = "''01''" and sha = id and other = None
      and cfg = "\<lparr>cfg_kis_accountNo = None, cfg_kis_env = Some ''paper'', cfg_kis_prodCode = None,
        cfg_toss_accountNo = None, cfg_jwtSecret = None\<rparr>"]
  by (simp add: digits_def is_digit_def trim_def is_space_def)

end
