(* ===== verification/OrderRecovery.thy ===== *)
theory OrderRecovery imports BrokerContext begin

text \<open>
  The recovery service (\<open>src/trading/trading-broker-order-recovery.service.ts\<close>): the claims and
  markings of a cancellation attempt, the take-over of attempts a stopped process left behind, and the
  assignment of the current account to old records. A transaction that throws leaves the tables as
  they were. Slack alerts are left out.
\<close>

section \<open>Cancellation attempts\<close>

definition cancellable :: "string \<Rightarrow> broker \<Rightarrow> trade_record \<Rightarrow> bool" where
  "cancellable i b r \<longleftrightarrow> tr_id r = i \<and> tr_broker r = b \<and> tr_status r \<in> {PENDING, PARTIAL} \<and>
     tr_orderNo r \<noteq> None \<and> tr_cancellationStatus r \<in> {None, Some CRejected, Some CResolved}"

definition cancelling :: "string \<Rightarrow> broker \<Rightarrow> trade_record \<Rightarrow> bool" where
  "cancelling i b r \<longleftrightarrow> tr_id r = i \<and> tr_broker r = b \<and> tr_cancellationStatus r = Some CSubmitting"

definition begin_cancellation :: "int \<Rightarrow> trade_record \<Rightarrow> trade_record" where
  "begin_cancellation t r = r\<lparr>tr_cancellationStatus := Some CSubmitting, tr_cancellationStartedAt := Some t,
     tr_cancellationResolvedAt := None, tr_cancellationResolvedBy := None, tr_cancellationMessage := None\<rparr>"

definition reject_cancellation :: "int \<Rightarrow> string \<Rightarrow> trade_record \<Rightarrow> trade_record" where
  "reject_cancellation t message r = r\<lparr>tr_cancellationStatus := Some CRejected, tr_cancellationResolvedAt := Some t,
     tr_cancellationResolvedBy := Some ''system'', tr_cancellationMessage := Some (sanitizeMessage message)\<rparr>"

definition mark_cancellation :: "cancellation_status \<Rightarrow> string \<Rightarrow> trade_record \<Rightarrow> trade_record" where
  "mark_cancellation c message r = r\<lparr>tr_cancellationStatus := Some c,
     tr_cancellationMessage := Some (sanitizeMessage message)\<rparr>"

definition claimCancellation :: "string \<Rightarrow> broker \<Rightarrow> int \<Rightarrow> order_db \<Rightarrow> order_db \<times> bool" where
  "claimCancellation i b t db =
    (let r = updateMany (cancellable i b) (begin_cancellation t) db in (fst r, 0 < snd r))"

definition releaseCancellationClaim :: "string \<Rightarrow> broker \<Rightarrow> string \<Rightarrow> int \<Rightarrow> order_db \<Rightarrow> order_db \<times> bool" where
  "releaseCancellationClaim i b message t db =
    (let r = updateMany (cancelling i b) (reject_cancellation t message) db in (fst r, 0 < snd r))"

definition markCancellationAccepted :: "string \<Rightarrow> broker \<Rightarrow> string \<Rightarrow> order_db \<Rightarrow> order_db \<times> bool" where
  "markCancellationAccepted i b message db =
    (let r = updateMany (cancelling i b) (mark_cancellation CAccepted message) db in (fst r, 0 < snd r))"

definition markCancellationRejected :: "string \<Rightarrow> broker \<Rightarrow> string \<Rightarrow> int \<Rightarrow> order_db \<Rightarrow> order_db \<times> bool" where
  "markCancellationRejected i b message t db =
    (let r = updateMany (cancelling i b) (reject_cancellation t message) db in (fst r, 0 < snd r))"

definition markCancellationUnknown :: "string \<Rightarrow> broker \<Rightarrow> string \<Rightarrow> order_db \<Rightarrow> order_db \<times> bool" where
  "markCancellationUnknown i b message db =
    (let persisted = updateMany (cancelling i b) (mark_cancellation CUnknown message) db in
     if snd persisted = 0 then (fst persisted, False)
     else (audit \<lparr>al_tradeRecordId = i, al_action = CANCELLATION_UNKNOWN, al_actor = ''system'',
            al_brokerOrderDate = None, al_exchangeCode = None, al_orderNo = None,
         al_beforeStatus = None, al_afterStatus = None, al_message = Some (sanitizeMessage message)\<rparr>
         (fst persisted), True))"

section \<open>Take-over at start\<close>

fun take_over_cancellations :: "(string \<times> broker) list \<Rightarrow> order_db \<Rightarrow> order_db \<times> nat" where
  "take_over_cancellations [] db = (db, 0)"
| "take_over_cancellations ((i, b) # rest) db =
    (let changed = markCancellationUnknown i b ''Cold-start takeover of unfinished cancellation'' db;
         others = take_over_cancellations rest (fst changed)
     in (fst others, snd others + (if snd changed then 1 else 0)))"

definition takeOverCancellationAttempts :: "order_db \<Rightarrow> order_db \<times> nat" where
  "takeOverCancellationAttempts db = take_over_cancellations
     (map (\<lambda>r. (tr_id r, tr_broker r)) (findMany (\<lambda>r. tr_cancellationStatus r = Some CSubmitting) db)) db"

text \<open>One stale submission, as found: started or not.\<close>

definition take_over_unsubmitted :: "string \<Rightarrow> order_db \<Rightarrow> order_db \<times> bool" where
  "take_over_unsubmitted i db =
    (let message = ''Cold-start cancelled before broker submission'';
         persisted = updateMany (unsubmitted i) (set_cancelled message) db
     in if snd persisted = 0 then (fst persisted, False)
        else (audit \<lparr>al_tradeRecordId = i, al_action = ACT_CONFIRMED_NOT_SUBMITTED, al_actor = ''system'',
            al_brokerOrderDate = None, al_exchangeCode = None, al_orderNo = None,
            al_beforeStatus = Some SUBMITTING, al_afterStatus = Some CANCELLED, al_message = Some message\<rparr>
            (fst persisted), True))"

definition take_over_submission :: "string \<Rightarrow> int option \<Rightarrow> order_db \<Rightarrow> order_db \<times> bool" where
  "take_over_submission i startedAt db =
    (if startedAt \<noteq> None then markSubmissionUnknown i ''Cold-start takeover of attempted order submission'' db
     else take_over_unsubmitted i db)"

text \<open>The loop over the stale submissions, with the counts of both kinds.\<close>

fun take_over_submissions :: "(string \<times> int option) list \<Rightarrow> order_db \<Rightarrow> order_db \<times> nat \<times> nat" where
  "take_over_submissions [] db = (db, 0, 0)"
| "take_over_submissions ((i, startedAt) # rest) db =
    (let changed = take_over_submission i startedAt db;
         (db', unknown, cancelled) = take_over_submissions rest (fst changed);
         one = (if snd changed then 1 else 0)
     in if startedAt \<noteq> None then (db', unknown + one, cancelled) else (db', unknown, cancelled + one))"

definition takeOverSubmissionAttempts :: "order_db \<Rightarrow> order_db \<times> nat \<times> nat" where
  "takeOverSubmissionAttempts db = take_over_submissions
     (map (\<lambda>r. (tr_id r, tr_submissionStartedAt r)) (findMany (\<lambda>r. tr_status r = SUBMITTING) db)) db"

definition in_recovery :: "trade_record \<Rightarrow> bool" where
  "in_recovery r \<longleftrightarrow> tr_status r = SUBMISSION_UNKNOWN \<or> tr_cancellationStatus r = Some CUnknown"

record startup_summary =
  su_submissionUnknown :: nat
  su_submissionCancelled :: nat
  su_cancellationUnknown :: nat
  su_unresolvedCount :: nat

definition takeOverStartupState :: "order_db \<Rightarrow> order_db \<times> startup_summary" where
  "takeOverStartupState db =
    (let (db1, unknown, cancelled) = takeOverSubmissionAttempts db;
         (db2, cancellationUnknown) = takeOverCancellationAttempts db1
     in (db2, \<lparr>su_submissionUnknown = unknown, su_submissionCancelled = cancelled,
        su_cancellationUnknown = cancellationUnknown,
        su_unresolvedCount = length (filter in_recovery (db_orders db2))\<rparr>))"

section \<open>Recovery items\<close>

datatype recovery_lifecycle = SubmissionLifecycle | CancellationLifecycle

text \<open>The item shown to an operator; the record's own columns are copied and kept as the record.\<close>

record recovery_item =
  ri_record :: trade_record
  ri_lifecycle :: recovery_lifecycle
  ri_brokerContextAssigned :: bool
  ri_currentBrokerEnvironment :: "broker_environment option"
  ri_maskedCurrentAccount :: "string option"
  ri_brokerContextMatchesCurrent :: "bool option"

definition toRecoveryItem :: "trade_record \<Rightarrow> broker_context option \<Rightarrow> recovery_item" where
  "toRecoveryItem r currentContext =
    (let brokerContextAssigned = (tr_brokerEnvironment r \<noteq> None \<and> tr_brokerAccountHash r \<noteq> None) in
     \<lparr>ri_record = r,
      ri_lifecycle = (if tr_cancellationStatus r \<noteq> None then CancellationLifecycle else SubmissionLifecycle),
      ri_brokerContextAssigned = brokerContextAssigned,
      ri_currentBrokerEnvironment = map_option bc_environment currentContext,
      ri_maskedCurrentAccount = map_option bc_maskedAccount currentContext,
      ri_brokerContextMatchesCurrent = (case currentContext of None \<Rightarrow> None
        | Some c \<Rightarrow> if \<not> brokerContextAssigned then None
            else Some (tr_broker r = bc_broker c \<and> tr_brokerEnvironment r = Some (bc_environment c) \<and>
              tr_brokerAccountHash r = Some (bc_accountHash c)))\<rparr>)"

section \<open>Assignment of the current account\<close>

definition unassigned :: "string \<Rightarrow> broker \<Rightarrow> trade_record \<Rightarrow> bool" where
  "unassigned i b r \<longleftrightarrow> tr_id r = i \<and> tr_broker r = b \<and> tr_brokerEnvironment r = None \<and>
     tr_brokerAccountHash r = None \<and> in_recovery r"

definition assign_context :: "broker_context \<Rightarrow> trade_record \<Rightarrow> trade_record" where
  "assign_context c r = r\<lparr>tr_brokerEnvironment := Some (bc_environment c),
     tr_brokerAccountHash := Some (bc_accountHash c)\<rparr>"

text \<open>
  \<open>matches\<close> is \<open>matchesContextBindingToken\<close> and \<open>current\<close> is \<open>getCurrentContext\<close>; each error message
  is cut after its bracketed tag.
\<close>

definition assignCurrentContext ::
  "(broker \<Rightarrow> js_error + broker_context) \<Rightarrow> (broker_context \<Rightarrow> string option \<Rightarrow> js_error + bool) \<Rightarrow>
    string \<Rightarrow> string option \<Rightarrow> string option \<Rightarrow> order_db \<Rightarrow> js_error + (order_db \<times> recovery_item)" where
  "assignCurrentContext current matches i expectedToken actor db =
    (if \<not> nonblank actor then Inl (Error ''Recovery actor is required'')
     else case findFirst (\<lambda>r. tr_id r = i) db of
       None \<Rightarrow> Inl (Error ''Trade record not found'')
     | Some target \<Rightarrow>
       (case current (tr_broker target) of Inl e \<Rightarrow> Inl e
        | Inr c \<Rightarrow>
       (case matches c expectedToken of Inl e \<Rightarrow> Inl e
        | Inr ok \<Rightarrow>
          if \<not> ok then Inl (Error ''Broker preview context changed before assignment'')
          else
            let claimed = updateMany (unassigned i (tr_broker target)) (assign_context c) db in
            if snd claimed \<noteq> 1 then Inl (Error ''Broker context assignment failed because state changed'')
            else (case findFirst (\<lambda>r. tr_id r = i) (fst claimed) of
                None \<Rightarrow> Inl (Error ''Trade record disappeared after context assignment'')
              | Some r \<Rightarrow> Inr (audit \<lparr>al_tradeRecordId = i, al_action = LEGACY_CONTEXT_ASSIGNED,
                    al_actor = trim (the actor),
                    al_brokerOrderDate = None, al_exchangeCode = None, al_orderNo = None, al_beforeStatus = Some (tr_status r),
                    al_afterStatus = Some (tr_status r), al_message = None\<rparr> (fst claimed),
                  toRecoveryItem r (Some c))))))"

section \<open>Every step is a guarded update\<close>

lemma key_of_cancellation [simp]:
  "key_of (begin_cancellation t r) = key_of r" "key_of (reject_cancellation t m r) = key_of r"
  "key_of (mark_cancellation c m r) = key_of r" "key_of (assign_context bc r) = key_of r"
  by (simp_all add: key_of_def begin_cancellation_def reject_cancellation_def mark_cancellation_def assign_context_def)

lemmas cancellation_defs = begin_cancellation_def reject_cancellation_def mark_cancellation_def assign_context_def
  cancellable_def cancelling_def unassigned_def

interpretation cancel_claim: claim "cancellable i b" "begin_cancellation t" for i b t
  by unfold_locales (auto simp: cancellation_defs is_unresolved_def key_of_def)

interpretation cancel_release: claim "cancelling i b" "reject_cancellation t m" for i b t m
  by unfold_locales (auto simp: cancellation_defs is_unresolved_def key_of_def)

interpretation cancel_accept: claim "cancelling i b" "mark_cancellation CAccepted m" for i b m
  by unfold_locales (auto simp: cancellation_defs is_unresolved_def key_of_def)

interpretation cancel_unknown: claim "cancelling i b" "mark_cancellation CUnknown m" for i b m
  by unfold_locales (auto simp: cancellation_defs is_unresolved_def key_of_def)

interpretation assignment: claim "unassigned i b" "assign_context c" for i b c
  by unfold_locales (auto simp: cancellation_defs is_unresolved_def in_recovery_def key_of_def)

section \<open>The take-over, record by record\<close>

text \<open>What the take-over promises of each record, whatever else the table holds.\<close>

definition taken_over_submission :: "trade_record \<Rightarrow> trade_record" where
  "taken_over_submission r =
    (if tr_status r \<noteq> SUBMITTING then r
     else if tr_submissionStartedAt r = None then set_cancelled ''Cold-start cancelled before broker submission'' r
     else set_unknown ''Cold-start takeover of attempted order submission'' r)"

definition taken_over_cancellation :: "trade_record \<Rightarrow> trade_record" where
  "taken_over_cancellation r =
    (if tr_cancellationStatus r = Some CSubmitting
     then mark_cancellation CUnknown ''Cold-start takeover of unfinished cancellation'' r else r)"

definition submission_effect :: "string \<times> int option \<Rightarrow> trade_record \<Rightarrow> trade_record" where
  "submission_effect p = (if snd p \<noteq> None
     then change_where (started (fst p)) (set_unknown (sanitizeMessage ''Cold-start takeover of attempted order submission''))
     else change_where (unsubmitted (fst p)) (set_cancelled ''Cold-start cancelled before broker submission''))"

definition cancellation_effect :: "string \<times> broker \<Rightarrow> trade_record \<Rightarrow> trade_record" where
  "cancellation_effect p = change_where (cancelling (fst p) (snd p))
     (mark_cancellation CUnknown ''Cold-start takeover of unfinished cancellation'')"

lemma markCancellationUnknown_orders:
  "db_orders (fst (markCancellationUnknown i b m db)) =
     map (change_where (cancelling i b) (mark_cancellation CUnknown m)) (db_orders db)"
  by (simp add: markCancellationUnknown_def Let_def)

lemma take_over_submission_orders:
  "db_orders (fst (take_over_submission i sa db)) = map (submission_effect (i, sa)) (db_orders db)"
  by (auto simp: take_over_submission_def take_over_unsubmitted_def unknown_orders
      submission_effect_def Let_def)

lemma take_over_submissions_orders:
  "db_orders (fst (take_over_submissions ps db)) = map (fold submission_effect ps) (db_orders db)"
  by (induction ps arbitrary: db)
    (auto simp: Let_def take_over_submission_orders fun_eq_iff split: prod.splits if_splits dest!: arg_cong [where f = fst])

lemma take_over_cancellations_orders:
  "db_orders (fst (take_over_cancellations ps db)) = map (fold cancellation_effect ps) (db_orders db)"
  by (induction ps arbitrary: db)
    (auto simp: Let_def markCancellationUnknown_orders cancellation_effect_def comp_def split: prod.splits)

lemma sanitize_takeover:
  "sanitizeMessage ''Cold-start takeover of attempted order submission'' = ''Cold-start takeover of attempted order submission''"
  by (simp add: sanitizeMessage_def trim_def is_space_def)

lemma submission_effect_own:
  "tr_id (submission_effect (i, x) r) = tr_id r"
  "tr_id r \<noteq> i \<Longrightarrow> submission_effect (i, x) r = r"
  by (auto simp: submission_effect_def change_where_def change_defs guard_defs)

lemma cancellation_effect_own:
  "tr_id (cancellation_effect (i, x) r) = tr_id r"
  "tr_id r \<noteq> i \<Longrightarrow> cancellation_effect (i, x) r = r"
  by (auto simp: cancellation_effect_def change_where_def mark_cancellation_def cancelling_def)

lemma takeOverSubmissionAttempts_orders:
  assumes "distinct (ids db)"
  shows "db_orders (fst (takeOverSubmissionAttempts db)) = map taken_over_submission (db_orders db)"
proof -
  let ?ps = "map (\<lambda>r. (tr_id r, tr_submissionStartedAt r)) (filter (\<lambda>r. tr_status r = SUBMITTING) (db_orders db))"
  have d: "distinct (map tr_id (db_orders db))" using assms by (simp add: ids_def)
  have "fold submission_effect ?ps r = taken_over_submission r" if "r \<in> set (db_orders db)" for r
    using fold_own [of submission_effect ?ps r, OF submission_effect_own distinct_rows [OF d]] map_of_rows [OF d that, of tr_submissionStartedAt "\<lambda>r. tr_status r = SUBMITTING"]
    by (auto simp: taken_over_submission_def submission_effect_def change_where_def guard_defs sanitize_takeover)
  then show ?thesis by (simp add: takeOverSubmissionAttempts_def take_over_submissions_orders findMany_def)
qed

lemma takeOverCancellationAttempts_orders:
  assumes "distinct (ids db)"
  shows "db_orders (fst (takeOverCancellationAttempts db)) = map taken_over_cancellation (db_orders db)"
proof -
  let ?ps = "map (\<lambda>r. (tr_id r, tr_broker r)) (filter (\<lambda>r. tr_cancellationStatus r = Some CSubmitting) (db_orders db))"
  have d: "distinct (map tr_id (db_orders db))" using assms by (simp add: ids_def)
  have "fold cancellation_effect ?ps r = taken_over_cancellation r" if "r \<in> set (db_orders db)" for r
    using fold_own [of cancellation_effect ?ps r, OF cancellation_effect_own distinct_rows [OF d]] map_of_rows [OF d that, of tr_broker "\<lambda>r. tr_cancellationStatus r = Some CSubmitting"]
    by (auto simp: taken_over_cancellation_def cancellation_effect_def change_where_def cancelling_def)
  then show ?thesis by (simp add: takeOverCancellationAttempts_def take_over_cancellations_orders findMany_def)
qed

lemma taken_over_id [simp]:
  "tr_id (taken_over_submission r) = tr_id r" "tr_id (taken_over_cancellation r) = tr_id r"
  by (simp_all add: taken_over_submission_def taken_over_cancellation_def change_defs mark_cancellation_def)

text \<open>
  (C17) The two take-over loops at start do exactly what is promised record by record: a submission not
  yet started is cancelled, one that may have reached the broker becomes unknown, a cancellation in
  flight becomes unknown, every other record keeps all its columns, and afterwards no record is left
  submitting or cancelling; the number reported is that of the records an operator has to resolve.
\<close>

theorem startup_takeover_refines:
  assumes "distinct (ids db)"
  shows "db_orders (fst (takeOverStartupState db)) =
      map (taken_over_cancellation \<circ> taken_over_submission) (db_orders db) \<and>
    list_all (\<lambda>r. tr_status r \<noteq> SUBMITTING \<and> tr_cancellationStatus r \<noteq> Some CSubmitting)
      (db_orders (fst (takeOverStartupState db))) \<and>
    su_unresolvedCount (snd (takeOverStartupState db)) = length (filter in_recovery (db_orders (fst (takeOverStartupState db))))"
proof -
  let ?db1 = "fst (takeOverSubmissionAttempts db)"
  have e: "db_orders (fst (takeOverStartupState db)) = db_orders (fst (takeOverCancellationAttempts ?db1))"
    by (simp add: takeOverStartupState_def split: prod.splits)
  have "distinct (ids ?db1)" using assms by (simp add: ids_def takeOverSubmissionAttempts_orders comp_def)
  then have o: "db_orders (fst (takeOverStartupState db)) =
      map (taken_over_cancellation \<circ> taken_over_submission) (db_orders db)"
    unfolding e by (simp add: takeOverCancellationAttempts_orders takeOverSubmissionAttempts_orders assms)
  have "tr_status (taken_over_cancellation (taken_over_submission r)) \<noteq> SUBMITTING \<and>
      tr_cancellationStatus (taken_over_cancellation (taken_over_submission r)) \<noteq> Some CSubmitting" for r
    by (simp add: taken_over_submission_def taken_over_cancellation_def change_defs mark_cancellation_def)
  then show ?thesis unfolding o
    by (simp add: list_all_iff takeOverStartupState_def split: prod.splits) (use o e in auto)
qed

theorem startup_takeover_refines_witness:
  "db_orders (fst (takeOverStartupState (create (example_order ''a'') no_orders))) =
     [set_cancelled ''Cold-start cancelled before broker submission'' (example_order ''a'')]"
proof -
  have "taken_over_cancellation (taken_over_submission (example_order ''a'')) =
      set_cancelled ''Cold-start cancelled before broker submission'' (example_order ''a'')"
    by (simp add: taken_over_cancellation_def taken_over_submission_def example_order_def new_order_def set_cancelled_def)
  then show ?thesis
    using startup_takeover_refines [of "create (example_order ''a'') no_orders"] by (simp add: ids_def no_orders_def)
qed

section \<open>Claims are exclusive\<close>

text \<open>
  Of two attempts to cancel an order, or to submit it, one at most succeeds: when a claim has
  changed a row, the same claim at any later time changes nothing and says so, until the attempt is
  settled.
\<close>

lemma claims_exclusive:
  "snd (claimCancellation i b t' (fst (claimCancellation i b t db))) = False \<and>
   fst (claimCancellation i b t' (fst (claimCancellation i b t db))) = fst (claimCancellation i b t db) \<and>
   snd (exec_claim i t' (fst (exec_claim i t db))) = Returned False \<and>
   fst (exec_claim i t' (fst (exec_claim i t db))) = fst (exec_claim i t db)"
  by (simp add: claimCancellation_def exec_claim_def Let_def cancel_claim.second_claim_fails cancel_claim.second_claim_idle
      submission.second_claim_fails submission.second_claim_idle)

section \<open>Assignment of the account\<close>

text \<open>
  Assigning the current account to an old record changes that record alone, only when it has none
  yet and awaits recovery, only under a token the operator's preview was given for that account, and
  the item it returns shows the account as matching; any failure leaves the tables as they were.
\<close>

lemma assignment_exact:
  assumes "assignCurrentContext current token_matches i token actor db = Inr (db', item)" "distinct (ids db)"
  shows "\<exists>r c. r \<in> set (db_orders db) \<and> unassigned i (tr_broker r) r \<and> current (tr_broker r) = Inr c \<and>
    token_matches c token = Inr True \<and>
    db_orders db' = map (\<lambda>x. if tr_id x = i then assign_context c x else x) (db_orders db) \<and>
    ri_record item = assign_context c r \<and>
    (bc_broker c = tr_broker r \<longrightarrow> ri_brokerContextMatchesCurrent item = Some True)"
proof -
  obtain r c where r: "findFirst (\<lambda>r. tr_id r = i) db = Some r" "current (tr_broker r) = Inr c" "token_matches c token = Inr True"
      "snd (updateMany (unassigned i (tr_broker r)) (assign_context c) db) = 1"
    and d: "db_orders db' = map (change_where (unassigned i (tr_broker r)) (assign_context c)) (db_orders db)"
      "\<exists>r'. findFirst (\<lambda>r. tr_id r = i) (fst (updateMany (unassigned i (tr_broker r)) (assign_context c) db)) = Some r' \<and>
         item = toRecoveryItem r' (Some c)"
    using assms(1) by (auto simp: assignCurrentContext_def Let_def split: if_splits option.splits sum.splits)
  have m: "r \<in> set (db_orders db)" "tr_id r = i" using r(1) by (auto simp: findFirst_def find_Some_iff)
  have u: "x = r" if "x \<in> set (db_orders db)" "tr_id x = i" for x
    using assms(2) that m by (auto simp: ids_def distinct_map dest: inj_onD)
  have "\<exists>x \<in> set (db_orders db). unassigned i (tr_broker r) x"
    using r(4) updateMany_count [of "unassigned i (tr_broker r)" "assign_context c" db] by auto
  then have un: "unassigned i (tr_broker r) r" using u by (auto simp: unassigned_def)
  have o: "db_orders db' = map (\<lambda>x. if tr_id x = i then assign_context c x else x) (db_orders db)"
  proof -
    have "change_where (unassigned i (tr_broker r)) (assign_context c) x = (if tr_id x = i then assign_context c x else x)"
      if "x \<in> set (db_orders db)" for x
      using u [OF that] un by (cases "tr_id x = i") (auto simp: change_where_def, simp add: unassigned_def)
    then show ?thesis by (simp add: d(1))
  qed
  obtain r' where r': "r' \<in> set (db_orders (fst (updateMany (unassigned i (tr_broker r)) (assign_context c) db)))"
      "tr_id r' = i" "item = toRecoveryItem r' (Some c)"
    using d(2) findFirst_SomeD by blast
  then obtain x where x: "x \<in> set (db_orders db)" "r' = change_where (unassigned i (tr_broker r)) (assign_context c) x" by auto
  have "tr_id x = i" using x(2) r'(2) by (auto simp: change_where_def assign_context_def split: if_splits)
  then have "r' = assign_context c r" using u x un by (auto simp: change_where_def)
  then show ?thesis using m r o un r'(3)
    by (intro exI [of _ r] exI [of _ c]) (simp add: toRecoveryItem_def Let_def assign_context_def)
qed

definition old_order :: trade_record where
  "old_order = (example_order ''a'')\<lparr>tr_status := SUBMISSION_UNKNOWN, tr_brokerEnvironment := None, tr_brokerAccountHash := None\<rparr>"

theorem assignment_exact_witness:
  "\<exists>db' item. assignCurrentContext (\<lambda>_. Inr example_account) (\<lambda>_ _. Inr True) ''a'' None (Some ''kim'') (create old_order no_orders)
     = Inr (db', item) \<and> db_orders db' = [assign_context example_account old_order]"
proof -
  have o: "tr_id old_order = ''a''" "unassigned ''a'' (tr_broker old_order) old_order"
    by (simp_all add: old_order_def example_order_def new_order_def unassigned_def in_recovery_def)
  have "tr_id (assign_context example_account old_order) = ''a''" by (simp add: assign_context_def o)
  then obtain db' item where a: "assignCurrentContext (\<lambda>_. Inr example_account) (\<lambda>_ _. Inr True) ''a'' None (Some ''kim'')
      (create old_order no_orders) = Inr (db', item)"
    using o by (simp add: assignCurrentContext_def findFirst_def no_orders_def updateMany_def Let_def trim_def is_space_def
        change_where_def)
  show ?thesis using assignment_exact [OF a] a o by (auto simp: ids_def no_orders_def)
qed

end
