(* ===== verification/OrderReconciliation.thy ===== *)
theory OrderReconciliation imports OrderRecovery begin

text \<open>
  Reconciliation of open orders with what the broker reports
  (\<open>src/trading/trading-order-reconciliation.service.ts\<close>). A record of the pass's snapshot is compared
  with the broker's orders; the decision is a guarded update and the notices to the strategy, made when
  the update still finds the record as the snapshot saw it. The text of a broker's answer is the
  parameter \<open>describe\<close> (\<open>buildBrokerOrderReason\<close>); fixed reasons are given in English. Execution logs,
  failure and Slack notices are left out.
\<close>

section \<open>Data\<close>

record broker_order =
  bo_orderNo :: string
  bo_stockCode :: string
  bo_side :: side
  bo_filledQuantity :: jsnum
  bo_remainingQuantity :: jsnum
  bo_filledPrice :: "jsnum option"
  bo_exchangeCode :: "string option"
  bo_orderDate :: "string option"
  bo_orderTime :: "string option"
  bo_rejected :: "bool option"
  bo_rejectedReason :: "string option"

record unfilled_order =
  uo_orderNo :: string
  uo_stockCode :: string
  uo_side :: side
  uo_quantity :: jsnum
  uo_price :: jsnum
  uo_exchangeCode :: "string option"

record position_quantity =
  pq_market :: market
  pq_exchangeCode :: string
  pq_stockCode :: string
  pq_quantity :: jsnum

text \<open>The notices to the strategy: a fill with the holding before it, or an end without any fill.\<close>

datatype strategy_notice =
    StrategyFill (notice_id: string) (notice_status: order_status) (qtyBeforeFill: jsnum) (filledNowQty: jsnum)
  | StrategyFailure (notice_id: string) (notice_status: order_status)

section \<open>Matching\<close>

definition normalizeExchangeCode :: "market \<Rightarrow> string option \<Rightarrow> string" where
  "normalizeExchangeCode m exchangeCode =
    (let normalized = (case exchangeCode of None \<Rightarrow> [] | Some e \<Rightarrow> to_upper (trim e)) in
     if m = DOMESTIC then (if normalized = [] then ''KRX'' else normalized) else normalized)"

text \<open>The order is given by number, exchange, stock and side, the columns both kinds of list have.\<close>

definition matchesOrderTuple :: "trade_record \<Rightarrow> string \<times> string option \<times> string \<times> side \<Rightarrow> market \<Rightarrow> bool" where
  "matchesOrderTuple r ord m =
    (case ord of (orderNo, exchangeCode, stockCode, sd) \<Rightarrow>
       tr_orderNo r = Some orderNo \<and>
       normalizeExchangeCode m (Some (tr_exchangeCode r)) = normalizeExchangeCode m exchangeCode \<and>
       to_upper (trim (tr_stockCode r)) = to_upper (trim stockCode) \<and> tr_side r = sd)"

definition broker_tuple :: "broker_order \<Rightarrow> string \<times> string option \<times> string \<times> side" where
  "broker_tuple o' = (bo_orderNo o', bo_exchangeCode o', bo_stockCode o', bo_side o')"

definition unfilled_tuple :: "unfilled_order \<Rightarrow> string \<times> string option \<times> string \<times> side" where
  "unfilled_tuple u = (uo_orderNo u, uo_exchangeCode u, uo_stockCode u, uo_side u)"

definition blank :: "string option \<Rightarrow> bool" where
  "blank x \<longleftrightarrow> x = None \<or> x = Some []"

text \<open>Several rows of one order are merged.\<close>

definition merge_order :: "broker_order option \<Rightarrow> broker_order \<Rightarrow> broker_order option" where
  "merge_order existing o' = Some (case existing of None \<Rightarrow> o'
     | Some e \<Rightarrow> e\<lparr>bo_filledQuantity := max_num (bo_filledQuantity e) (bo_filledQuantity o'),
         bo_remainingQuantity := min_num (bo_remainingQuantity e) (bo_remainingQuantity o'),
         bo_filledPrice := (if bo_filledPrice o' \<noteq> None then bo_filledPrice o' else bo_filledPrice e),
         bo_rejected := (if bo_rejected e = Some True then bo_rejected e else bo_rejected o'),
         bo_rejectedReason := (if blank (bo_rejectedReason o') then bo_rejectedReason e else bo_rejectedReason o'),
         bo_orderTime := (if blank (bo_orderTime o') then bo_orderTime e else bo_orderTime o')\<rparr>)"

definition findMatchingBrokerOrder :: "trade_record \<Rightarrow> broker_order list \<Rightarrow> market \<Rightarrow> broker_order option" where
  "findMatchingBrokerOrder r orders m = foldl merge_order None
     (filter (\<lambda>o'. matchesOrderTuple r (broker_tuple o') m \<and>
        (blank (tr_brokerOrderDate r) \<or> bo_orderDate o' = tr_brokerOrderDate r)) orders)"

section \<open>Decisions\<close>

definition getBrokerOrderStatus :: "jsnum \<Rightarrow> jsnum \<Rightarrow> broker_order \<Rightarrow> order_status" where
  "getBrokerOrderStatus requestedQuantity executedQuantity o' =
    (if bo_rejected o' = Some True then FAILED
     else if executedQuantity \<le> Fin 0 then PENDING
     else if executedQuantity \<ge> requestedQuantity then FILLED
     else PARTIAL)"

definition resolveExecutedPrice :: "trade_record \<Rightarrow> broker_order \<Rightarrow> jsnum \<Rightarrow> jsnum" where
  "resolveExecutedPrice r o' previousExecutedQty =
    (if bo_filledQuantity o' < previousExecutedQty then coalesce (tr_executedPrice r) (tr_price r)
     else coalesce (bo_filledPrice o') (coalesce (tr_executedPrice r) (tr_price r)))"

definition executed_before :: "trade_record \<Rightarrow> jsnum" where
  "executed_before r = or_opt (tr_executedQty r) (Fin 0)"

definition executed_total :: "trade_record \<Rightarrow> broker_order \<Rightarrow> jsnum" where
  "executed_total r o' = max_num (executed_before r) (min_num (tr_quantity r) (bo_filledQuantity o'))"

definition filled_now :: "trade_record \<Rightarrow> broker_order \<Rightarrow> jsnum" where
  "filled_now r o' = max_num (Fin 0) (executed_total r o' - executed_before r)"

definition holding_before :: "trade_record \<Rightarrow> jsnum \<Rightarrow> jsnum \<Rightarrow> jsnum" where
  "holding_before r currentPositionQty filledNow =
    (if tr_side r = BUY then max_num (Fin 0) (currentPositionQty - filledNow) else currentPositionQty + filledNow)"

definition close_reason :: "string \<Rightarrow> trade_record \<Rightarrow> string option" where
  "close_reason suffix r = Some (if blank (tr_reason r) then suffix else the (tr_reason r) @ '' | '' @ suffix)"

text \<open>A guarded update, what is said to the strategy once it is made, and whether it is a new fill.\<close>

record decision =
  de_guard :: "trade_record \<Rightarrow> bool"
  de_change :: "trade_record \<Rightarrow> trade_record"
  de_notices :: "strategy_notice list"
  de_newFill :: bool
  de_audit :: "audit_log list"

definition as_seen :: "trade_record \<Rightarrow> trade_record \<Rightarrow> bool" where
  "as_seen r x \<longleftrightarrow> tr_id x = tr_id r \<and> tr_status x = tr_status r \<and> tr_orderNo x = tr_orderNo r \<and>
     tr_cancellationStatus x = tr_cancellationStatus r"

text \<open>The broker has the order and no cancellation is under way.\<close>

definition reconcile_matched :: "(trade_record \<Rightarrow> broker_order \<Rightarrow> order_status \<Rightarrow> string option) \<Rightarrow> int \<Rightarrow>
    jsnum \<Rightarrow> trade_record \<Rightarrow> broker_order \<Rightarrow> decision option" where
  "reconcile_matched describe t currentPositionQty r o' =
    (let totalExecutedQty = executed_total r o';
         filledNow = filled_now r o';
         nextStatus = getBrokerOrderStatus (tr_quantity r) totalExecutedQty o';
         isTerminalPartial = (nextStatus = PARTIAL \<and> bo_remainingQuantity o' \<le> Fin 0);
         nextExecutedPrice = resolveExecutedPrice r o' (executed_before r)
     in if filledNow > Fin 0 \<or> isTerminalPartial \<or> nextStatus \<noteq> tr_status r \<or>
           \<not> js_eq (coalesce (tr_executedPrice r) (Fin 0)) nextExecutedPrice
        then Some
          \<lparr>de_guard = (\<lambda>x. as_seen r x \<and> tr_executedQty x = tr_executedQty r),
           de_change = (\<lambda>x. x\<lparr>tr_status := nextStatus,
             tr_orderNo := (if isTerminalPartial then None else tr_orderNo x),
             tr_executedQty := Some totalExecutedQty, tr_executedPrice := Some nextExecutedPrice,
             tr_executedAt := (if filledNow > Fin 0 then Some t else tr_executedAt x),
             tr_reason := (case describe r o' nextStatus of None \<Rightarrow> tr_reason x | Some s \<Rightarrow> Some s)\<rparr>),
           de_notices =
             (if filledNow > Fin 0
              then [StrategyFill (tr_id r) nextStatus (holding_before r currentPositionQty filledNow) filledNow]
              else if (nextStatus = FAILED \<or> nextStatus = CANCELLED) \<and> js_eq totalExecutedQty (Fin 0)
              then [StrategyFailure (tr_id r) nextStatus] else []),
           de_newFill = (filledNow > Fin 0), de_audit = []\<rparr>
        else None)"

text \<open>A cancellation was accepted: it is settled when the broker has the order and no longer lists it as open.\<close>

definition reconcileAcceptedCancellation :: "int \<Rightarrow> trade_record \<Rightarrow> broker_order option \<Rightarrow> bool \<Rightarrow> jsnum \<Rightarrow>
    decision option" where
  "reconcileAcceptedCancellation t r bo isStillOpen currentPositionQty =
    (case bo of None \<Rightarrow> None
     | Some o' \<Rightarrow>
       if isStillOpen \<or> blank (tr_orderNo r) then None
       else
         let totalExecutedQty = executed_total r o';
             filledNow = filled_now r o';
             nextStatus = (if totalExecutedQty \<ge> tr_quantity r then FILLED
               else if totalExecutedQty > Fin 0 then PARTIAL else CANCELLED);
             message = (if nextStatus = FILLED then ''filled after the cancellation was accepted''
               else if nextStatus = PARTIAL then ''partly filled, remainder closed''
               else ''closed unfilled'')
         in Some
          \<lparr>de_guard = (\<lambda>x. tr_id x = tr_id r \<and> tr_status x = tr_status r \<and>
             tr_cancellationStatus x = Some CAccepted \<and> tr_orderNo x = tr_orderNo r),
           de_change = (\<lambda>x. x\<lparr>tr_status := nextStatus,
             tr_orderNo := (if nextStatus = PARTIAL then None else tr_orderNo x),
             tr_executedQty := Some totalExecutedQty,
             tr_executedPrice := Some (resolveExecutedPrice r o' (executed_before r)),
             tr_executedAt := (if filledNow > Fin 0 then Some t else tr_executedAt x),
             tr_cancellationStatus := Some CResolved, tr_cancellationResolvedAt := Some t,
             tr_cancellationResolvedBy := Some ''system:reconciliation'', tr_cancellationMessage := Some message,
             tr_reason := close_reason message r\<rparr>),
           de_notices =
             (if filledNow > Fin 0
              then [StrategyFill (tr_id r) nextStatus (holding_before r currentPositionQty filledNow) filledNow]
              else if nextStatus = CANCELLED then [StrategyFailure (tr_id r) nextStatus] else []),
           de_newFill = (filledNow > Fin 0),
           de_audit = [\<lparr>al_tradeRecordId = tr_id r, al_action = CANCELLATION_RECONCILED,
             al_actor = ''system:reconciliation'', al_brokerOrderDate = None, al_exchangeCode = Some (tr_exchangeCode r),
             al_orderNo = tr_orderNo r, al_beforeStatus = Some (tr_status r),
             al_afterStatus = Some nextStatus, al_message = Some message\<rparr>]\<rparr>)"

text \<open>The broker reports the order nowhere: after two minutes the remainder is closed.\<close>

definition cancelGraceMs :: int where "cancelGraceMs = 2 * 60 * 1000"

definition reconcile_absent :: "int \<Rightarrow> trade_record \<Rightarrow> decision option" where
  "reconcile_absent t r =
    (if t - tr_createdAt r < cancelGraceMs then None
     else if tr_status r = PARTIAL then Some
       \<lparr>de_guard = as_seen r,
        de_change = (\<lambda>x. x\<lparr>tr_orderNo := None, tr_reason := close_reason ''remainder closed'' r\<rparr>),
        de_notices = [], de_newFill = False, de_audit = []\<rparr>
     else if tr_status r = PENDING then Some
       \<lparr>de_guard = as_seen r,
        de_change = (\<lambda>x. x\<lparr>tr_status := CANCELLED, tr_reason := close_reason ''closed unfilled'' r\<rparr>),
        de_notices = [StrategyFailure (tr_id r) CANCELLED], de_newFill = False, de_audit = []\<rparr>
     else None)"

text \<open>One record of the snapshot.\<close>

definition reconcile_decision :: "(trade_record \<Rightarrow> broker_order \<Rightarrow> order_status \<Rightarrow> string option) \<Rightarrow> market \<Rightarrow> int \<Rightarrow>
    jsnum \<Rightarrow> unfilled_order list \<Rightarrow> broker_order list \<Rightarrow> trade_record \<Rightarrow> decision option" where
  "reconcile_decision describe m t currentPositionQty unfilledOrders brokerOrders r =
    (let brokerOrder = findMatchingBrokerOrder r brokerOrders m;
         isStillOpen = list_ex (\<lambda>u. matchesOrderTuple r (unfilled_tuple u) m) unfilledOrders
     in if tr_cancellationStatus r = Some CSubmitting \<or> tr_cancellationStatus r = Some CUnknown then None
        else if tr_cancellationStatus r = Some CAccepted
        then reconcileAcceptedCancellation t r brokerOrder isStillOpen currentPositionQty
        else case brokerOrder of
            Some o' \<Rightarrow> reconcile_matched describe t currentPositionQty r o'
          | None \<Rightarrow> if isStillOpen then None else reconcile_absent t r)"

definition apply_decision :: "decision option \<Rightarrow> order_db \<Rightarrow> order_db \<times> strategy_notice list \<times> bool" where
  "apply_decision d db =
    (case d of None \<Rightarrow> (db, [], False)
     | Some de \<Rightarrow>
       let changed = updateMany (de_guard de) (de_change de) db in
       if snd changed = 0 then (fst changed, [], False)
       else (fold audit (de_audit de) (fst changed), de_notices de, de_newFill de))"

section \<open>The pass\<close>

definition open_order :: "broker \<Rightarrow> market \<Rightarrow> broker_context \<Rightarrow> trade_record \<Rightarrow> bool" where
  "open_order b m c r \<longleftrightarrow> tr_broker r = b \<and> tr_market r = m \<and> tr_status r \<in> {PENDING, PARTIAL} \<and>
     tr_orderNo r \<noteq> None \<and> tr_brokerEnvironment r = Some (bc_environment c) \<and>
     tr_brokerAccountHash r = Some (bc_accountHash c)"

text \<open>The current quantity: the last snapshot row of the record's market, exchange and stock, else 0.\<close>

definition current_quantity :: "position_quantity list \<Rightarrow> trade_record \<Rightarrow> jsnum" where
  "current_quantity ps r =
    (let exchangeCode = (if tr_exchangeCode r \<noteq> [] then tr_exchangeCode r
           else if tr_market r = DOMESTIC then ''KRX'' else []) in
     case filter (\<lambda>p. pq_market p = tr_market r \<and> pq_exchangeCode p = exchangeCode \<and> pq_stockCode p = tr_stockCode r) ps of
       [] \<Rightarrow> Fin 0 | p # others \<Rightarrow> or_num (pq_quantity (last (p # others))) (Fin 0))"

fun reconcile_loop :: "(trade_record \<Rightarrow> decision option) \<Rightarrow> trade_record list \<Rightarrow> order_db \<Rightarrow>
    order_db \<times> strategy_notice list \<times> bool" where
  "reconcile_loop decide [] db = (db, [], False)"
| "reconcile_loop decide (r # rs) db =
    (let (db1, notices, new) = apply_decision (decide r) db;
         (db2, notices', new') = reconcile_loop decide rs db1
     in (db2, notices @ notices', new \<or> new'))"

definition reconcileOpenOrders :: "(broker \<Rightarrow> js_error + broker_context) \<Rightarrow>
    (trade_record \<Rightarrow> broker_order \<Rightarrow> order_status \<Rightarrow> string option) \<Rightarrow> int \<Rightarrow> broker \<Rightarrow> market \<Rightarrow>
    position_quantity list \<Rightarrow> unfilled_order list \<Rightarrow> broker_order list \<Rightarrow> order_db \<Rightarrow>
    js_error + (order_db \<times> strategy_notice list \<times> bool)" where
  "reconcileOpenOrders current describe t b m currentPositions unfilledOrders brokerOrders db =
    (case current b of Inl e \<Rightarrow> Inl e
     | Inr c \<Rightarrow>
       if bc_broker c \<noteq> b then Inl (Error ''Resolved broker context does not match reconciliation broker'')
       else Inr (reconcile_loop
          (\<lambda>r. reconcile_decision describe m t (current_quantity currentPositions r) unfilledOrders brokerOrders r)
          (sort_key tr_createdAt (findMany (open_order b m c) db)) db))"

section \<open>Properties\<close>

text \<open>
  A pass never marks an order cancelled while the broker still lists it: an order that the broker
  shows with nothing filled and not rejected stays pending and unresolved, whatever remaining quantity
  the broker shows and however old the order is, and the strategy hears nothing of it.
\<close>

lemma listed_unfilled_order_stays_open:
  assumes "tr_status r = PENDING" "tr_cancellationStatus r \<notin> {Some CSubmitting, Some CUnknown, Some CAccepted}"
    "findMatchingBrokerOrder r os m = Some o'" "bo_filledQuantity o' = Fin 0" "bo_rejected o' \<noteq> Some True"
    "executed_before r = Fin 0" "tr_quantity r = Fin (of_nat q)"
    "reconcile_decision describe m t held_now us os r = Some d" "de_guard d x"
  shows "tr_status (de_change d x) = PENDING \<and> tr_orderNo (de_change d x) = tr_orderNo x \<and>
    is_unresolved (de_change d x) \<and> de_notices d = [] \<and> \<not> de_newFill d"
proof -
  have tot: "executed_total r o' = Fin 0" using assms(4,6,7) by (simp add: executed_total_def)
  have now: "filled_now r o' = Fin 0" using tot assms(6) by (simp add: filled_now_def fl_eval Fin_arith)
  have st: "getBrokerOrderStatus (tr_quantity r) (Fin 0) o' = PENDING" using assms(5) by (simp add: getBrokerOrderStatus_def)
  have "reconcile_matched describe t held_now r o' = Some d"
    using assms(2,3,8) by (simp add: reconcile_decision_def Let_def)
  then show ?thesis using assms(1,9) by (auto simp: reconcile_matched_def tot now st Let_def is_unresolved_def split: if_splits)
qed

definition waiting_order :: trade_record where
  "waiting_order = (example_order ''a'')\<lparr>tr_status := PENDING, tr_orderNo := Some ''1''\<rparr>"

definition expired_at_broker :: broker_order where
  "expired_at_broker = \<lparr>bo_orderNo = ''1'', bo_stockCode = ''TQQQ'', bo_side = BUY, bo_filledQuantity = Fin 0,
     bo_remainingQuantity = Fin 0, bo_filledPrice = None, bo_exchangeCode = Some ''NASD'', bo_orderDate = None,
     bo_orderTime = None, bo_rejected = Some False, bo_rejectedReason = None\<rparr>"

theorem listed_unfilled_order_stays_open_witness:
  "\<exists>d. reconcile_decision (\<lambda>_ _ _. None) OVERSEAS 900000000 (Fin 0) [] [expired_at_broker] waiting_order = Some d \<and>
     de_guard d waiting_order \<and> is_unresolved (de_change d waiting_order)"
proof -
  have r: "tr_status waiting_order = PENDING" "tr_cancellationStatus waiting_order = None" "tr_orderNo waiting_order = Some ''1''"
    "executed_before waiting_order = Fin 0" "tr_quantity waiting_order = Fin (of_nat 5)" "tr_executedPrice waiting_order = None"
    "tr_exchangeCode waiting_order = ''NASD''" "tr_stockCode waiting_order = ''TQQQ''" "tr_side waiting_order = BUY"
    "tr_brokerOrderDate waiting_order = None" "tr_price waiting_order = Fin 60"
    by (simp_all add: waiting_order_def example_order_def new_order_def executed_before_def example_signal_def signal_key_def
        or_num_def truthy_def)
  have f: "findMatchingBrokerOrder waiting_order [expired_at_broker] OVERSEAS = Some expired_at_broker"
    by (simp add: findMatchingBrokerOrder_def matchesOrderTuple_def broker_tuple_def expired_at_broker_def r blank_def merge_order_def)
  have b: "bo_filledQuantity expired_at_broker = Fin 0" "bo_rejected expired_at_broker = Some False"
    "bo_filledPrice expired_at_broker = None"
    by (simp_all add: expired_at_broker_def)
  obtain d where d: "reconcile_decision (\<lambda>_ _ _. None) OVERSEAS 900000000 (Fin 0) [] [expired_at_broker] waiting_order = Some d"
    "de_guard d waiting_order"
    by (simp add: reconcile_decision_def f r reconcile_matched_def resolveExecutedPrice_def b js_eq_def Let_def as_seen_def)
  show ?thesis using listed_unfilled_order_stays_open [OF _ _ f _ _ _ _ d] r b d by auto
qed

end
