(* ===== verification/OrderTables.thy ===== *)
theory OrderTables imports OrderReconciliation StrategyContract begin

text \<open>
  What the steps of the order services may do to the order table, row by row, and the invariant of the
  table: the keys of its unresolved orders, the relation of older versions of a row to the row, and the
  fills the strategies were told. A reconciliation decision is shown to be exact: what it adds to the
  executed quantity of a row is what it tells the strategy.
\<close>

definition whole_fills :: "broker_order list \<Rightarrow> bool" where
  "whole_fills os \<longleftrightarrow> (\<forall>o' \<in> set os. \<exists>f. bo_filledQuantity o' = Fin (of_nat f))"

section \<open>What a step may do to a row\<close>

text \<open>Every step but a reconciliation and an admission is tame on every row.\<close>

definition same_account :: "trade_record \<Rightarrow> trade_record \<Rightarrow> bool" where
  "same_account r r' \<longleftrightarrow> tr_broker r' = tr_broker r \<and>
     (tr_brokerEnvironment r \<noteq> None \<longrightarrow> tr_brokerEnvironment r' = tr_brokerEnvironment r) \<and>
     (tr_brokerAccountHash r \<noteq> None \<longrightarrow> tr_brokerAccountHash r' = tr_brokerAccountHash r)"

text \<open>An order is early before the answer of the broker is recorded; then nothing of it is executed.\<close>

definition early :: "trade_record \<Rightarrow> bool" where
  "early r \<longleftrightarrow> tr_status r = AWAITING_APPROVAL \<or> tr_status r = SUBMITTING"

definition tame :: "trade_record \<Rightarrow> trade_record \<Rightarrow> bool" where
  "tame r r' \<longleftrightarrow> tr_id r' = tr_id r \<and> key_of r' = key_of r \<and> tr_quantity r' = tr_quantity r \<and>
     tr_executedQty r' = tr_executedQty r \<and> (is_unresolved r' \<longrightarrow> is_unresolved r) \<and>
     same_account r r' \<and> (early r' \<longrightarrow> early r) \<and>
     (tr_cancellationStatus r = Some CAccepted \<longrightarrow> tr_cancellationStatus r' = Some CAccepted)"

text \<open>
  Every step but a handler's own claim and abort, and the decision on an approval, keeps the start of the
  submission, the account, and whether the order awaits an approval.
\<close>

definition kept :: "trade_record \<Rightarrow> trade_record \<Rightarrow> bool" where
  "kept r r' \<longleftrightarrow> tr_id r' = tr_id r \<and> tr_submissionStartedAt r' = tr_submissionStartedAt r \<and> same_account r r' \<and>
     (tr_status r' = AWAITING_APPROVAL \<longleftrightarrow> tr_status r = AWAITING_APPROVAL)"

lemmas row_change_defs = tame_def kept_def same_account_def early_def

definition rows :: "(trade_record \<Rightarrow> trade_record \<Rightarrow> bool) \<Rightarrow> order_db \<Rightarrow> order_db \<Rightarrow> bool" where
  "rows P db db' \<longleftrightarrow> list_all2 P (db_orders db) (db_orders db')"

lemma rows_update:
  assumes "\<And>r. P r r" "\<And>r. g r \<Longrightarrow> P r (f r)"
  shows "rows P db (fst (updateMany g f db))"
  using assms by (auto simp: rows_def list_all2_map2 change_where_def list_all2_same)

lemma rows_refl: "(\<And>r. P r r) \<Longrightarrow> rows P db db"
  by (simp add: rows_def list_all2_same)

lemma rows_audit [simp]: "rows P db (audit a db') = rows P db db'"
  by (simp add: rows_def)

lemma tame_refl [simp]: "tame r r" and kept_refl [simp]: "kept r r"
  by (simp_all add: row_change_defs)

lemma rows_id: "rows P db db' \<Longrightarrow> (\<And>r r'. P r r' \<Longrightarrow> tr_id r' = tr_id r) \<Longrightarrow> ids db' = ids db"
  unfolding rows_def ids_def by (induction rule: list_all2_induct) auto

lemma rows_forward: "rows P db db' \<Longrightarrow> r \<in> set (db_orders db) \<Longrightarrow> \<exists>r' \<in> set (db_orders db'). P r r'"
  unfolding rows_def by (auto simp: list_all2_conv_all_nth in_set_conv_nth) (metis nth_mem)

lemma rows_backward: "rows P db db' \<Longrightarrow> r' \<in> set (db_orders db') \<Longrightarrow> \<exists>r \<in> set (db_orders db). P r r'"
  unfolding rows_def by (auto simp: list_all2_conv_all_nth in_set_conv_nth) (metis nth_mem)

lemmas row_update_defs = change_defs guard_defs cancellation_defs

lemma both_update:
  assumes "\<And>r. g r \<Longrightarrow> tame r (f r) \<and> kept r (f r)"
  shows "rows tame db (fst (updateMany g f db)) \<and> rows kept db (fst (updateMany g f db))"
  using assms by (auto intro!: rows_update)

lemma record_unknown_rows: "rows tame db (fst (markSubmissionUnknown i m db)) \<and> rows kept db (fst (markSubmissionUnknown i m db))"
  using both_update [of "started i" "set_unknown (sanitizeMessage m)" db]
  by (simp add: markSubmissionUnknown_def Let_def row_change_defs row_update_defs key_of_def is_unresolved_def)

lemma cancelPreSubmit_rows: "rows tame db (cancelPreSubmit i m db) \<and> rows kept db (cancelPreSubmit i m db)"
  unfolding cancelPreSubmit_def
  by (rule both_update) (simp add: row_change_defs row_update_defs key_of_def is_unresolved_def)

lemma rows_trans: "rows P db db' \<Longrightarrow> rows P db' db'' \<Longrightarrow> (\<And>a b c. P a b \<Longrightarrow> P b c \<Longrightarrow> P a c) \<Longrightarrow> rows P db db''"
  unfolding rows_def using list_all2_trans [of P P P] by blast

lemma tame_trans: "tame a b \<Longrightarrow> tame b c \<Longrightarrow> tame a c" and kept_trans: "kept a b \<Longrightarrow> kept b c \<Longrightarrow> kept a c"
  by (auto simp: row_change_defs)

lemma persist_rows: "rows tame db (fst (persist_loop n reply i res db)) \<and> rows kept db (fst (persist_loop n reply i res db))"
proof (induction n arbitrary: db)
  case (Suc n)
  have u: "rows tame db (fst (updateMany (started i) (set_pending res) db)) \<and>
      rows kept db (fst (updateMany (started i) (set_pending res) db))"
    by (rule both_update) (simp add: row_change_defs row_update_defs key_of_def is_unresolved_def)
  show ?case using u Suc rows_trans [OF _ _ tame_trans] rows_trans [OF _ _ kept_trans]
    by (auto simp: Let_def split: db_reply.splits)
qed (simp add: rows_refl)

lemma exec_record_rows: "rows tame db (fst (exec_record reply i answer db)) \<and> rows kept db (fst (exec_record reply i answer db))"
proof -
  have f: "rows tame db (fst (updateMany (started i) (set_failed m) db)) \<and>
      rows kept db (fst (updateMany (started i) (set_failed m) db))" for m
    by (rule both_update) (simp add: row_change_defs row_update_defs key_of_def is_unresolved_def)
  show ?thesis using f record_unknown_rows persist_rows
    by (auto simp: exec_record_def persistAccepted_def split: sum.splits)
qed

lemma take_over_rows: "rows tame db (fst (take_over_submission i t db)) \<and> rows kept db (fst (take_over_submission i t db))"
  using record_unknown_rows cancelPreSubmit_rows [of db i "''Cold-start cancelled before broker submission''"]
  by (auto simp: take_over_submission_def take_over_unsubmitted_def cancelPreSubmit_def Let_def)

lemma cancellation_rows:
  "rows tame db (fst (claimCancellation i b t db)) \<and> rows kept db (fst (claimCancellation i b t db))"
  "rows tame db (fst (releaseCancellationClaim i b m t db)) \<and> rows kept db (fst (releaseCancellationClaim i b m t db))"
  "rows tame db (fst (markCancellationAccepted i b m db)) \<and> rows kept db (fst (markCancellationAccepted i b m db))"
  "rows tame db (fst (markCancellationRejected i b m t db)) \<and> rows kept db (fst (markCancellationRejected i b m t db))"
  "rows tame db (fst (markCancellationUnknown i b m db)) \<and> rows kept db (fst (markCancellationUnknown i b m db))"
proof -
  have b: "rows tame db (fst (updateMany (cancellable i b) (begin_cancellation t) db)) \<and>
      rows kept db (fst (updateMany (cancellable i b) (begin_cancellation t) db))"
    by (rule both_update) (auto simp: row_change_defs row_update_defs key_of_def is_unresolved_def)
  have r: "rows tame db (fst (updateMany (cancelling i b) (reject_cancellation t m) db)) \<and>
      rows kept db (fst (updateMany (cancelling i b) (reject_cancellation t m) db))"
    by (rule both_update) (auto simp: row_change_defs row_update_defs key_of_def is_unresolved_def)
  have c: "rows tame db (fst (updateMany (cancelling i b) (mark_cancellation c m) db)) \<and>
      rows kept db (fst (updateMany (cancelling i b) (mark_cancellation c m) db))" for c
    by (rule both_update) (auto simp: row_change_defs row_update_defs key_of_def is_unresolved_def)
  show "rows tame db (fst (claimCancellation i b t db)) \<and> rows kept db (fst (claimCancellation i b t db))"
    "rows tame db (fst (releaseCancellationClaim i b m t db)) \<and> rows kept db (fst (releaseCancellationClaim i b m t db))"
    "rows tame db (fst (markCancellationAccepted i b m db)) \<and> rows kept db (fst (markCancellationAccepted i b m db))"
    "rows tame db (fst (markCancellationRejected i b m t db)) \<and> rows kept db (fst (markCancellationRejected i b m t db))"
    "rows tame db (fst (markCancellationUnknown i b m db)) \<and> rows kept db (fst (markCancellationUnknown i b m db))"
    using b r c by (simp_all add: claimCancellation_def releaseCancellationClaim_def markCancellationAccepted_def
      markCancellationRejected_def markCancellationUnknown_def Let_def)
qed

lemma assignment_rows:
  assumes "assignCurrentContext current token_matches i token actor db = Inr (db', item)"
  shows "rows tame db db' \<and> rows kept db db'"
proof -
  have u: "rows tame db (fst (updateMany (unassigned i b) (assign_context c) db)) \<and>
      rows kept db (fst (updateMany (unassigned i b) (assign_context c) db))" for b c
    by (rule both_update) (simp add: row_change_defs row_update_defs key_of_def is_unresolved_def)
  show ?thesis using assms u
    by (auto simp: assignCurrentContext_def Let_def split: if_splits option.splits sum.splits)
qed

section \<open>The invariant of the tables\<close>

text \<open>The quantity the strategies were told was filled on an order.\<close>

definition told :: "string \<Rightarrow> strategy_notice list \<Rightarrow> rat" where
  "told i ns = sum_list (map (\<lambda>n. case n of StrategyFill j st h q \<Rightarrow> if j = i then qty_of q else 0
     | StrategyFailure j st \<Rightarrow> 0) ns)"

lemma told_simps [simp]:
  "told i [] = 0" "told i (ns @ ns') = told i ns + told i ns'"
  "told i [StrategyFill j st h q] = (if j = i then qty_of q else 0)" "told i [StrategyFailure j st] = 0"
  by (simp_all add: told_def)

definition row_ok :: "trade_record \<Rightarrow> bool" where
  "row_ok r \<longleftrightarrow> (\<exists>q e. tr_quantity r = Fin (of_nat q) \<and> q \<le> 2 ^ 53 \<and> executed_before r = Fin (of_nat e) \<and> e \<le> q \<and>
     (early r \<longrightarrow> e = 0))"

text \<open>
  An older version of a row has its account, and, from the time a reconciliation may read it, its
  quantity. A version that saw an accepted cancellation fixes the executed quantity until the order is resolved,
  which is what makes the settlement exact although its guard does not name that quantity.
\<close>

definition version :: "trade_record \<Rightarrow> trade_record \<Rightarrow> bool" where
  "version v r \<longleftrightarrow> tr_id v = tr_id r \<and> same_account v r \<and>
     (tr_status v \<in> {PENDING, PARTIAL} \<longrightarrow> \<not> early r \<and> tr_quantity v = tr_quantity r) \<and>
     (tr_cancellationStatus v = Some CAccepted \<longrightarrow> \<not> is_unresolved r \<or>
        tr_cancellationStatus r = Some CAccepted \<and> tr_executedQty r = tr_executedQty v)"

definition db_inv :: "order_db \<Rightarrow> trade_record set \<Rightarrow> strategy_notice list \<Rightarrow> bool" where
  "db_inv db seen ns \<longleftrightarrow> distinct (ids db) \<and> exclusive db \<and> set (db_orders db) \<subseteq> seen \<and>
     (\<forall>v \<in> seen. row_ok v \<and> (\<exists>r \<in> set (db_orders db). version v r)) \<and>
     (\<forall>r \<in> set (db_orders db). told (tr_id r) ns = qty_of (executed_before r)) \<and>
     (\<forall>i. i \<notin> set (ids db) \<longrightarrow> told i ns = 0)"

lemma version_refl [simp]: "version r r"
  by (auto simp: version_def same_account_def early_def)

lemma version_tame: "version v r \<Longrightarrow> tame r r' \<Longrightarrow> version v r'"
  by (auto simp: version_def tame_def same_account_def)

lemma tame_executed: "tame r r' \<Longrightarrow> executed_before r' = executed_before r \<and> (row_ok r \<longrightarrow> row_ok r')"
  by (auto simp: tame_def executed_before_def row_ok_def)

lemma exclusive_rows:
  assumes "rows P db db'" "exclusive db" "\<And>r r'. P r r' \<Longrightarrow> key_of r' = key_of r \<and> (is_unresolved r' \<longrightarrow> is_unresolved r)"
  shows "exclusive db'"
proof -
  have "length (unresolved_of k ys) \<le> length (unresolved_of k xs)" if "list_all2 P xs ys" for k xs ys
    using that assms(3) by (induction rule: list_all2_induct) (auto simp: unresolved_of_def intro: le_SucI)
  then show ?thesis using assms(1,2) le_trans unfolding rows_def exclusive_def by blast
qed

lemma db_inv_tame:
  assumes "db_inv db seen ns" "rows tame db db'"
  shows "db_inv db' (seen \<union> set (db_orders db')) ns"
proof -
  have i: "ids db' = ids db" using rows_id [OF assms(2)] by (simp add: tame_def)
  have e: "exclusive db'" using exclusive_rows [OF assms(2)] assms(1) by (simp add: db_inv_def tame_def)
  have v: "row_ok v \<and> (\<exists>r \<in> set (db_orders db'). version v r)" if "v \<in> seen" for v
    using assms(1) that rows_forward [OF assms(2)] version_tame unfolding db_inv_def by meson
  have n: "row_ok r' \<and> told (tr_id r') ns = qty_of (executed_before r')" if r': "r' \<in> set (db_orders db')" for r'
  proof -
    obtain r where r: "r \<in> set (db_orders db)" "tame r r'" using rows_backward [OF assms(2) r'] by blast
    then have "row_ok r" "told (tr_id r) ns = qty_of (executed_before r)" using assms(1) by (auto simp: db_inv_def)
    then show ?thesis using tame_executed [OF r(2)] r(2) by (simp add: tame_def)
  qed
  have w: "\<exists>x \<in> set (db_orders db'). version r' x" if "r' \<in> set (db_orders db')" for r'
    using that version_refl by blast
  show ?thesis using assms(1) i e v n w unfolding db_inv_def by auto
qed

lemma db_inv_create:
  assumes "db_inv db seen ns" "exclusive (create r db)" "tr_id r \<notin> set (ids db)" "row_ok r" "executed_before r = Fin 0"
  shows "db_inv (create r db) (seen \<union> set (db_orders (create r db))) ns"
  using assms by (auto simp: db_inv_def ids_def)

section \<open>A reconciliation is exact\<close>

lemma executed_nat:
  assumes "e \<le> q" "q \<le> 2 ^ 53" "executed_before r = Fin (of_nat e)" "tr_quantity r = Fin (of_nat q)"
    "bo_filledQuantity o' = Fin (of_nat f)"
  shows "executed_total r o' = Fin (of_nat (max e (min q f)))" "filled_now r o' = Fin (of_nat (max e (min q f) - e))"
proof -
  let ?m = "max e (min q f)"
  show t: "executed_total r o' = Fin (of_nat ?m)"
    using assms by (simp add: executed_total_def of_nat_max [symmetric] of_nat_min [symmetric])
  have "(Fin (of_int (int ?m)) - Fin (of_int (int e)) :: jsnum) = Fin (of_int (int ?m - int e))"
    by (rule diff_Fin_int) (use assms(1,2) in auto)
  then have "(executed_total r o' - executed_before r) = Fin (of_nat (?m - e))"
    using t assms(3) by (simp add: of_nat_diff)
  then show "filled_now r o' = Fin (of_nat (?m - e))" by (simp add: filled_now_def)
qed

lemma merge_whole:
  assumes "whole_fills os" "o0 = None \<or> (\<exists>f. bo_filledQuantity (the o0) = Fin (of_nat f))" "foldl merge_order o0 os = Some o'"
  shows "\<exists>f. bo_filledQuantity o' = Fin (of_nat f)"
  using assms
proof (induction os arbitrary: o0)
  case (Cons x os)
  obtain g where "bo_filledQuantity x = Fin (of_nat g)" using Cons.prems(1) by (auto simp: whole_fills_def)
  then have "\<exists>f. bo_filledQuantity (the (merge_order o0 x)) = Fin (of_nat f)"
    using Cons.prems(2) by (cases o0) (auto simp: merge_order_def of_nat_max [symmetric])
  then show ?case using Cons by (auto simp: whole_fills_def)
qed auto

lemma matching_whole:
  "whole_fills os \<Longrightarrow> findMatchingBrokerOrder r os m = Some o' \<Longrightarrow> \<exists>f. bo_filledQuantity o' = Fin (of_nat f)"
  unfolding findMatchingBrokerOrder_def by (rule merge_whole [where ?o0.0 = None]) (auto simp: whole_fills_def)

text \<open>What a decision does to the row it finds, told to the strategy to the last share.\<close>

definition exact_change :: "trade_record \<Rightarrow> decision \<Rightarrow> bool" where
  "exact_change x d \<longleftrightarrow> kept x (de_change d x) \<and> key_of (de_change d x) = key_of x \<and>
     tr_quantity (de_change d x) = tr_quantity x \<and> is_unresolved x \<and> row_ok (de_change d x) \<and>
     (tr_cancellationStatus x = Some CAccepted \<longrightarrow> \<not> is_unresolved (de_change d x)) \<and> \<not> early (de_change d x) \<and>
     (\<forall>i. told i (de_notices d) = (if i = tr_id x
        then qty_of (executed_before (de_change d x)) - qty_of (executed_before x) else 0))"

lemma guard_id: "reconcile_decision describe m t cq us os r = Some d \<Longrightarrow> de_guard d x \<Longrightarrow> tr_id x = tr_id r"
  by (auto simp: reconcile_decision_def reconcile_matched_def reconcileAcceptedCancellation_def reconcile_absent_def
      as_seen_def Let_def split: if_splits option.splits)

lemma matched_fields:
  assumes "reconcile_matched describe t cq r o' = Some d"
  shows "tr_executedQty (de_change d x) = Some (executed_total r o')" "tr_quantity (de_change d x) = tr_quantity x"
    "tr_id (de_change d x) = tr_id x" "tr_submissionStartedAt (de_change d x) = tr_submissionStartedAt x"
    "same_account x (de_change d x)" "key_of (de_change d x) = key_of x"
    "tr_status (de_change d x) = getBrokerOrderStatus (tr_quantity r) (executed_total r o') o'"
  using assms unfolding reconcile_matched_def Let_def
  by (simp_all add: same_account_def key_of_def split: if_split_asm, safe, simp_all)

lemma matched_exact:
  assumes "tr_status r \<in> {PENDING, PARTIAL}" "tr_orderNo r \<noteq> None" "row_ok r" "tr_quantity x = tr_quantity r"
    "bo_filledQuantity o' = Fin (of_nat f)" "reconcile_matched describe t cq r o' = Some d" "de_guard d x"
    "tr_cancellationStatus r \<noteq> Some CAccepted"
  shows "exact_change x d"
proof -
  obtain q e where q: "tr_quantity r = Fin (of_nat q)" "q \<le> 2 ^ 53" "executed_before r = Fin (of_nat e)" "e \<le> q"
    using assms(3) by (auto simp: row_ok_def)
  let ?m = "max e (min q f)"
  note n = executed_nat [OF q(4,2,3,1) assms(5)]
  have x: "as_seen r x" "tr_executedQty x = tr_executedQty r"
    using assms(6,7) by (auto simp: reconcile_matched_def Let_def split: if_splits)
  have ex: "executed_before x = Fin (of_nat e)" using x(2) q(3) by (simp add: executed_before_def)
  note c0 = matched_fields [OF assms(6), of x]
  have ns: "getBrokerOrderStatus a b o' \<notin> {AWAITING_APPROVAL, SUBMITTING}" for a b
    by (simp add: getBrokerOrderStatus_def)
  have c: "tr_executedQty (de_change d x) = Some (Fin (of_nat ?m))" "tr_quantity (de_change d x) = tr_quantity x"
    "kept x (de_change d x)" "key_of (de_change d x) = key_of x" "\<not> early (de_change d x)"
    using c0 ns [of "tr_quantity r" "executed_total r o'"] assms(1) x(1) n(1) by (auto simp: kept_def early_def as_seen_def)
  have ec: "executed_before (de_change d x) = Fin (of_nat ?m)" using c(1)
    by (auto simp: executed_before_def or_num_def truthy_def)
  have t: "told i (de_notices d) = (if i = tr_id x then of_nat ?m - of_nat e else 0)" for i
    using assms(6) n(1,2) x(1) by (auto simp: reconcile_matched_def Let_def as_seen_def of_nat_diff split: if_splits)
  have "row_ok (de_change d x)" unfolding row_ok_def using c assms(4) q ec
    by (intro exI [of _ q] exI [of _ ?m]) simp
  moreover have "is_unresolved x" using x(1) assms(1,2) by (auto simp: as_seen_def is_unresolved_def)
  ultimately show ?thesis using c t ec ex x(1) assms(8) by (simp add: exact_change_def as_seen_def)
qed

lemma accepted_exact:
  assumes "tr_status r \<in> {PENDING, PARTIAL}" "tr_orderNo r \<noteq> None" "row_ok r" "tr_quantity x = tr_quantity r"
    "bo = Some o' \<Longrightarrow> bo_filledQuantity o' = Fin (of_nat f)" "bo \<noteq> None \<Longrightarrow> bo = Some o'"
    "reconcileAcceptedCancellation t r bo still cq = Some d"
    "de_guard d x" "tr_executedQty x = tr_executedQty r"
  shows "exact_change x d"
proof -
  obtain q e where q: "tr_quantity r = Fin (of_nat q)" "q \<le> 2 ^ 53" "executed_before r = Fin (of_nat e)" "e \<le> q"
    using assms(3) by (auto simp: row_ok_def)
  let ?m = "max e (min q f)"
  have bo: "bo = Some o'" using assms(6,7) by (auto simp: reconcileAcceptedCancellation_def split: option.splits)
  note n = executed_nat [OF q(4,2,3,1) assms(5) [OF bo]]
  have nb: "\<not> still" "\<not> blank (tr_orderNo r)"
    using assms(7) bo by (auto simp: reconcileAcceptedCancellation_def split: if_splits)
  have d: "Some d = reconcileAcceptedCancellation t r (Some o') still cq" using assms(7) bo by simp
  then have dd: "d = the (reconcileAcceptedCancellation t r (Some o') still cq)" by (metis option.sel)
  have x: "tr_id x = tr_id r" "tr_status x = tr_status r" "tr_orderNo x = tr_orderNo r"
    using assms(8) by (simp_all add: dd reconcileAcceptedCancellation_def nb Let_def)
  have ex: "executed_before x = Fin (of_nat e)" using assms(9) q(3) by (simp add: executed_before_def)
  have c: "tr_executedQty (de_change d x) = Some (Fin (of_nat ?m))" "tr_quantity (de_change d x) = tr_quantity x"
    "kept x (de_change d x)" "key_of (de_change d x) = key_of x" "\<not> is_unresolved (de_change d x)"
    "\<not> early (de_change d x)"
    using assms(1) x(2)
    by (auto simp: dd reconcileAcceptedCancellation_def nb Let_def kept_def same_account_def key_of_def is_unresolved_def
        early_def n)
  have ec: "executed_before (de_change d x) = Fin (of_nat ?m)" using c(1)
    by (auto simp: executed_before_def or_num_def truthy_def)
  have t: "told i (de_notices d) = (if i = tr_id x then of_nat ?m - of_nat e else 0)" for i
    using x(1) by (simp add: dd reconcileAcceptedCancellation_def nb Let_def n(2) of_nat_diff)
  have "row_ok (de_change d x)" unfolding row_ok_def using c assms(4) q ec
    by (intro exI [of _ q] exI [of _ ?m]) simp
  moreover have "is_unresolved x" using x assms(1,2) by (auto simp: is_unresolved_def)
  ultimately show ?thesis using c t ec ex by (simp add: exact_change_def)
qed

lemma absent_exact:
  assumes "tr_status r \<in> {PENDING, PARTIAL}" "tr_orderNo r \<noteq> None" "row_ok x"
    "reconcile_absent t r = Some d" "de_guard d x" "tr_cancellationStatus r \<noteq> Some CAccepted"
  shows "exact_change x d"
  using assms
  by (auto simp: reconcile_absent_def exact_change_def as_seen_def kept_def same_account_def key_of_def row_ok_def
      executed_before_def is_unresolved_def early_def split: if_splits)

lemma decision_exact:
  assumes "tr_status r \<in> {PENDING, PARTIAL}" "tr_orderNo r \<noteq> None" "row_ok r" "row_ok x" "version r x" "whole_fills os"
    "reconcile_decision describe m t cq us os r = Some d" "de_guard d x"
  shows "exact_change x d"
proof -
  let ?bo = "findMatchingBrokerOrder r os m"
  let ?still = "list_ex (\<lambda>u. matchesOrderTuple r (unfilled_tuple u) m) us"
  have qty: "tr_quantity x = tr_quantity r" using assms(1,5) by (auto simp: version_def)
  obtain f where f: "\<And>o'. ?bo = Some o' \<Longrightarrow> bo_filledQuantity o' = Fin (of_nat f)"
    using matching_whole [OF assms(6)] by (cases ?bo) (auto, meson)
  have nc: "tr_cancellationStatus r \<noteq> Some CSubmitting" "tr_cancellationStatus r \<noteq> Some CUnknown"
    using assms(7) by (auto simp: reconcile_decision_def Let_def split: if_splits)
  show ?thesis
  proof (cases "tr_cancellationStatus r = Some CAccepted")
    case True
    then have d: "reconcileAcceptedCancellation t r ?bo ?still cq = Some d"
      using assms(7) nc by (simp add: reconcile_decision_def Let_def)
    have "tr_status x = tr_status r" "tr_orderNo x = tr_orderNo r"
      using d assms(8) by (auto simp: reconcileAcceptedCancellation_def Let_def split: if_splits option.splits)
    then have "is_unresolved x" using assms(1,2) by (auto simp: is_unresolved_def)
    then have "tr_executedQty x = tr_executedQty r" using assms(5) True by (simp add: version_def)
    then show ?thesis using accepted_exact [OF assms(1-3) qty _ _ d assms(8)] f by (cases ?bo) auto
  next
    case False
    then show ?thesis using assms(7) nc matched_exact [OF assms(1-3) qty f _ assms(8) False]
        absent_exact [OF assms(1,2,4) _ assms(8) False]
      by (auto simp: reconcile_decision_def Let_def split: option.splits if_splits)
  qed
qed

lemma fold_audit_orders [simp]: "db_orders (fold audit as db) = db_orders db"
  by (induction as arbitrary: db) auto

lemma db_inv_reconcile:
  assumes "db_inv db seen ns" "r \<in> seen" "tr_status r \<in> {PENDING, PARTIAL}" "tr_orderNo r \<noteq> None" "whole_fills os"
    "apply_decision (reconcile_decision describe m t cq us os r) db = (db', ns', new)"
  shows "db_inv db' (seen \<union> set (db_orders db')) (ns @ ns') \<and> rows kept db db'"
proof (cases "reconcile_decision describe m t cq us os r")
  case None
  then have "db' = db" "ns' = []" using assms(6) by (simp_all add: apply_decision_def)
  then show ?thesis using db_inv_tame [OF assms(1) rows_refl] rows_refl by simp
next
  case (Some d)
  let ?c = "change_where (de_guard d) (de_change d)"
  obtain x where x: "x \<in> set (db_orders db)" "version r x" "row_ok r"
    using assms(1,2) by (auto simp: db_inv_def)
  have xok: "row_ok y" if "y \<in> set (db_orders db)" for y using assms(1) that by (auto simp: db_inv_def)
  have uniq: "y = z" if "y \<in> set (db_orders db)" "z \<in> set (db_orders db)" "tr_id y = tr_id z" for y z
    using assms(1) that by (auto simp: db_inv_def ids_def distinct_map dest: inj_onD)
  have g: "de_guard d y \<Longrightarrow> y \<in> set (db_orders db) \<Longrightarrow> y = x" for y
    using guard_id [OF Some] uniq x(1,2) by (metis version_def)
  show ?thesis
  proof (cases "de_guard d x")
    case False
    then have nog: "\<forall>y \<in> set (db_orders db). \<not> de_guard d y" using g by blast
    then have "fst (updateMany (de_guard d) (de_change d) db) = db" "snd (updateMany (de_guard d) (de_change d) db) = 0"
      by (simp_all add: updateMany_none updateMany_count)
    then have "db' = db" "ns' = []" using assms(6) Some by (auto simp: apply_decision_def Let_def)
    then show ?thesis using db_inv_tame [OF assms(1) rows_refl] rows_refl by simp
  next
    case True
    have ec: "exact_change x d" by (rule decision_exact [OF assms(3,4) x(3) xok [OF x(1)] x(2) assms(5) Some True])
    have "snd (updateMany (de_guard d) (de_change d) db) \<noteq> 0" using True x(1) by (auto simp: updateMany_count)
    then have o: "db_orders db' = map ?c (db_orders db)" "ns' = de_notices d"
      using assms(6) Some by (auto simp: apply_decision_def Let_def split: if_splits)
    have ch: "?c y = (if y = x then de_change d x else y)" if "y \<in> set (db_orders db)" for y
      using True g that by (auto simp: change_where_def)
    let ?x = "de_change d x"
    have kx: "kept x ?x" "key_of ?x = key_of x" "tr_quantity ?x = tr_quantity x" "row_ok ?x" "is_unresolved x"
      "tr_cancellationStatus x = Some CAccepted \<longrightarrow> \<not> is_unresolved ?x"
      "told i (de_notices d) = (if i = tr_id x then qty_of (executed_before ?x) - qty_of (executed_before x) else 0)" for i
      using ec by (simp_all add: exact_change_def)
    have ne: "\<not> early ?x" using ec by (simp add: exact_change_def)
    have rk: "rows kept db db'" and rx: "rows (\<lambda>y y'. key_of y' = key_of y \<and> (is_unresolved y' \<longrightarrow> is_unresolved y)) db db'"
      using kx ch by (auto simp: rows_def o(1) list_all2_map2 list_all2_same)
    have S: "set (db_orders db') = insert ?x (set (db_orders db) - {x})"
      using ch x(1) uniq kx(1) by (auto simp: o(1) image_iff)
    have dx: "distinct (ids db')" using assms(1) rows_id [OF rk] by (simp add: db_inv_def kept_def)
    have "exclusive db'" using exclusive_rows [OF rx] assms(1) by (simp add: db_inv_def)
    moreover have "row_ok v \<and> (\<exists>y \<in> set (db_orders db'). version v y)" if v: "v \<in> seen \<union> set (db_orders db')" for v
    proof (cases "v \<in> set (db_orders db')")
      case True
      have "row_ok v" using True S kx(4) xok by auto
      then show ?thesis using True version_refl by blast
    next
      case False
      then obtain y where y: "row_ok v" "y \<in> set (db_orders db)" "version v y" using v assms(1) by (auto simp: db_inv_def)
      show ?thesis
      proof (cases "y = x")
        case True
        have "same_account x ?x" "tr_id ?x = tr_id x" using kx(1) by (simp_all add: kept_def)
        then have "version v ?x" using y(3) True kx(3,5,6) ne unfolding version_def same_account_def by metis
        then show ?thesis using S y(1) by blast
      qed (use y S in blast)
    qed
    moreover have "told (tr_id y) (ns @ ns') = qty_of (executed_before y)" if "y \<in> set (db_orders db')" for y
    proof (cases "y = ?x")
      case True
      then show ?thesis using assms(1) x(1) kx(1,7) o(2) by (auto simp: db_inv_def kept_def)
    next
      case False
      then have "y \<in> set (db_orders db)" "tr_id y \<noteq> tr_id x" using that S uniq x(1) by auto
      then show ?thesis using assms(1) kx(7) o(2) by (auto simp: db_inv_def)
    qed
    moreover have "told i (ns @ ns') = 0" if "i \<notin> set (ids db')" for i
    proof -
      have "i \<notin> set (ids db)" using that rows_id [OF rk] by (simp add: kept_def)
      then show ?thesis using assms(1) kx(7) o(2) x(1) by (auto simp: db_inv_def ids_def)
    qed
    ultimately show ?thesis using dx rk unfolding db_inv_def by auto
  qed
qed

end
