(* ===== verification/SellApproval.thy ===== *)
theory SellApproval imports BrokerContext begin

text \<open>
  Approval of a sell by an administrator, up to its delivery
  (\<open>src/trading/trading-sell-approval.service.ts\<close>): which sells need one, the admission of the waiting
  order together with its approval, the delivery of the request over Slack and the expiry of pairs. The
  handler is cut at its awaits; a transaction that throws leaves the tables as they were. The answer of
  Slack is an argument. Execution logs and the texts shown to the administrator are left out.
\<close>

section \<open>Data\<close>

datatype approval_status = ApPending | ApApproved | ApRejected | ApExpired

record approval =
  ap_id :: string
  ap_tradeRecordId :: string
  ap_market :: market
  ap_exchangeCode :: string
  ap_stockCode :: string
  ap_stockName :: string
  ap_strategyName :: "string option"
  ap_signal :: trading_signal
  ap_currentPrice :: jsnum
  ap_avgPrice :: jsnum
  ap_quantity :: jsnum
  ap_lossRate :: jsnum
  ap_status :: approval_status
  ap_slackMessageTs :: "string option"
  ap_slackChannel :: "string option"
  ap_requestedAt :: int
  ap_expiresAt :: int
  ap_notifiedAt :: "int option"
  ap_respondedAt :: "int option"
  ap_respondedBy :: "string option"
  ap_timeoutMinutes :: int

text \<open>The approval and the order tables, which the transactions write together.\<close>

type_synonym approval_tables = "approval list \<times> order_db"

definition update_approvals :: "(approval \<Rightarrow> bool) \<Rightarrow> (approval \<Rightarrow> approval) \<Rightarrow> approval list \<Rightarrow> approval list \<times> nat" where
  "update_approvals P f as = (map (\<lambda>a. if P a then f a else a) as, length (filter P as))"

section \<open>Which sells need an approval\<close>

text \<open>Regular expressions over text in UTF-8, matched by the list of all rests of the text.\<close>

datatype pattern = Word string | Space | Spaces | Finish | Skip | Both pattern pattern | Either pattern pattern

fun space_rests :: "string \<Rightarrow> string list" where
  "space_rests [] = [[]]"
| "space_rests (c # cs) = (c # cs) # (if is_space c then space_rests cs else [])"

fun rests :: "pattern \<Rightarrow> string \<Rightarrow> string list" where
  "rests (Word w) s = (if is_prefix w s then [drop (length w) s] else [])"
| "rests Space s = (case s of [] \<Rightarrow> [] | c # cs \<Rightarrow> if is_space c then [cs] else [])"
| "rests Spaces s = space_rests s"
| "rests Finish s = (if s = [] then [[]] else [])"
| "rests Skip s = [s]"
| "rests (Both p q) s = concat (map (rests q) (rests p s))"
| "rests (Either p q) s = rests p s @ rests q s"

definition matches :: "pattern \<Rightarrow> string \<Rightarrow> bool" where
  "matches p s \<longleftrightarrow> rests p s \<noteq> []"

text \<open>Stop loss, liquidation, risk, whole quantity, same day, carried over, trailing and stop, in Korean.\<close>

definition "ko_son_jeol = [CHR 0xEC, CHR 0x86, CHR 0x90, CHR 0xEC, CHR 0xA0, CHR 0x88]"
definition "ko_cheong_san = [CHR 0xEC, CHR 0xB2, CHR 0xAD, CHR 0xEC, CHR 0x82, CHR 0xB0]"
definition "ko_risk = [CHR 0xEB, CHR 0xA6, CHR 0xAC, CHR 0xEC, CHR 0x8A, CHR 0xA4, CHR 0xED, CHR 0x81, CHR 0xAC]"
definition "ko_jeon_ryang = [CHR 0xEC, CHR 0xA0, CHR 0x84, CHR 0xEB, CHR 0x9F, CHR 0x89]"
definition "ko_dang_il = [CHR 0xEB, CHR 0x8B, CHR 0xB9, CHR 0xEC, CHR 0x9D, CHR 0xBC]"
definition "ko_i_wol = [CHR 0xEC, CHR 0x9D, CHR 0xB4, CHR 0xEC, CHR 0x9B, CHR 0x94]"
definition "ko_trailing = [CHR 0xED, CHR 0x8A, CHR 0xB8, CHR 0xEB, CHR 0xA0, CHR 0x88, CHR 0xEC, CHR 0x9D, CHR 0xBC,
  CHR 0xEB, CHR 0xA7, CHR 0x81]"
definition "ko_stop = [CHR 0xEC, CHR 0x8A, CHR 0xA4, CHR 0xED, CHR 0x83, CHR 0x91]"
definition "ko_ik_jeol = [CHR 0xEC, CHR 0x9D, CHR 0xB5, CHR 0xEC, CHR 0xA0, CHR 0x88]"
definition "wide_colon = [CHR 0xEF, CHR 0xBC, CHR 0x9A]"

lemmas ko_defs = ko_son_jeol_def ko_cheong_san_def ko_risk_def ko_jeon_ryang_def ko_dang_il_def ko_i_wol_def
  ko_trailing_def ko_stop_def ko_ik_jeol_def wide_colon_def

definition pattern_end :: pattern where
  "pattern_end = Either (Both Spaces (Either (Word '':'') (Word wide_colon))) Finish"

text \<open>The text is compared in upper case, as the patterns ignore case.\<close>

definition PROTECTIVE_SELL_REASON_PATTERNS :: "pattern list" where
  "PROTECTIVE_SELL_REASON_PATTERNS =
    [Both Spaces (Both
       (Either (Both (Word ''STOP'') (Both (Either (Either (Word ''-'') Space) Skip) (Word ''LOSS'')))
         (Both (Word ko_son_jeol) (Either (Word ko_cheong_san) Skip))) pattern_end),
     Both Spaces (Both (Either (Word ko_risk) (Word ''MDD''))
       (Both Spaces (Both (Either (Word ko_jeon_ryang) Skip) (Both (Word ko_cheong_san) pattern_end)))),
     Both Spaces (Both (Either (Word ko_dang_il) (Word ko_i_wol)) (Both (Word ko_cheong_san) pattern_end)),
     Both Spaces (Both (Word ko_trailing) (Both (Either (Both Spaces (Word ko_stop)) Skip) pattern_end))]"

definition MANUAL_SELL_APPROVAL_PHASES :: "string list" where
  "MANUAL_SELL_APPROVAL_PHASES =
    [''carryover-exit'', ''eod-exit'', ''intraday-stop'', ''risk-liquidation'', ''stop-loss'', ''trailing-stop'']"

definition HIGH_T_SELL_APPROVAL_THRESHOLD :: jsnum where
  "HIGH_T_SELL_APPROVAL_THRESHOLD = Fin 20"

text \<open>\<open>String(signal.metadata?.phase || '')\<close>\<close>

definition phase_of :: "trading_signal \<Rightarrow> string" where
  "phase_of s = (case sg_metadata s of None \<Rightarrow> [] | Some md \<Rightarrow> or_str (md_phase md) [])"

definition isManualSellExitSignal :: "trading_signal \<Rightarrow> bool" where
  "isManualSellExitSignal s \<longleftrightarrow>
     phase_of s \<in> set MANUAL_SELL_APPROVAL_PHASES \<or>
     list_ex (\<lambda>p. matches p (to_upper (sg_reason s))) PROTECTIVE_SELL_REASON_PATTERNS"

definition isTakeProfitReason :: "string \<Rightarrow> bool" where
  "isTakeProfitReason reason \<longleftrightarrow> contains_text ko_ik_jeol reason \<or> contains_text ''TAKE PROFIT'' (to_upper reason)"

subsection \<open>The progress T of a signal\<close>

definition word_char :: "char \<Rightarrow> bool" where
  "word_char c \<longleftrightarrow> is_digit c \<or> c = CHR ''_'' \<or> (65 \<le> (of_char (upper_char c) :: nat) \<and> (of_char (upper_char c) :: nat) \<le> 90)"

definition digits_value :: "string \<Rightarrow> nat" where
  "digits_value ds = foldl (\<lambda>n c. 10 * n + (of_char c - 48)) 0 ds"

text \<open>\<open>Number\<close> of digits with a fraction: the nearest double.\<close>

definition decimal_number :: "string \<Rightarrow> string \<Rightarrow> jsnum" where
  "decimal_number whole fraction = fl (of_nat (digits_value (whole @ fraction)) / 10 ^ length fraction)"

definition number_ahead :: "string \<Rightarrow> jsnum option" where
  "number_ahead s =
    (let whole = takeWhile is_digit s; rest = dropWhile is_digit s in
     if whole = [] then None
     else Some (decimal_number whole (if take 1 rest = ''.'' then takeWhile is_digit (drop 1 rest) else [])))"

text \<open>\<open>/\\bT\\s*=\\s*([0-9]+(?:\\.[0-9]+)?)/i\<close>; the flag tells whether the previous character is part of a word.\<close>

fun reason_T :: "bool \<Rightarrow> string \<Rightarrow> jsnum option" where
  "reason_T inside [] = None"
| "reason_T inside (c # cs) =
    (let found = (if \<not> inside \<and> upper_char c = CHR ''T'' \<and> take 1 (dropWhile is_space cs) = ''=''
                  then number_ahead (dropWhile is_space (drop 1 (dropWhile is_space cs))) else None)
     in if found \<noteq> None then found else reason_T (word_char c) cs)"

fun first_finite :: "jsnum option list \<Rightarrow> jsnum option" where
  "first_finite [] = None"
| "first_finite (x # xs) = (if finite_opt x then x else first_finite xs)"

definition readSignalTValue :: "trading_signal \<Rightarrow> 'p strategy_context option \<Rightarrow> jsnum option" where
  "readSignalTValue s ctx =
    (let candidates = (case sg_metadata s of None \<Rightarrow> []
           | Some md \<Rightarrow> [md_tValue md, md_T md, md_t md, md_postFillTValue md])
     in case first_finite candidates of Some v \<Rightarrow> Some v
     | None \<Rightarrow>
    (case first_finite [reason_T False (sg_reason s)] of Some v \<Rightarrow> Some v
     | None \<Rightarrow>
       (let quota = or_opt (Option.bind ctx (\<lambda>c. ws_quota (watchStock c))) (Fin 0);
            maxCycles = or_opt (map_option (\<lambda>c. ws_maxCycles (watchStock c)) ctx) (Fin 0);
            totalInvested = or_opt (map_option pos_totalInvested (Option.bind ctx position)) (Fin 0);
            perCycleQuota = (if quota > Fin 0 \<and> maxCycles > Fin 0 then quota / maxCycles else Fin 0)
        in if perCycleQuota > Fin 0 \<and> totalInvested > Fin 0 then Some (totalInvested / perCycleQuota) else None)))"

definition effective_strategy :: "string option \<Rightarrow> 'p strategy_context option \<Rightarrow> string option" where
  "effective_strategy strategyName ctx =
    (if strategyName = None \<or> strategyName = Some [] then Option.bind ctx (\<lambda>c. ws_strategyName (watchStock c))
     else strategyName)"

definition isHighTInfiniteBuyTakeProfitSignal :: "trading_signal \<Rightarrow> string option \<Rightarrow> 'p strategy_context option \<Rightarrow> bool" where
  "isHighTInfiniteBuyTakeProfitSignal s strategyName ctx =
    (if effective_strategy strategyName ctx \<noteq> Some ''infinite-buy'' then False
     else if \<not> (is_prefix ''take-profit'' (phase_of s) \<or> isTakeProfitReason (sg_reason s)) then False
     else given (\<lambda>t. t \<ge> HIGH_T_SELL_APPROVAL_THRESHOLD) (readSignalTValue s ctx))"

definition shouldRequireApproval :: "trading_signal \<Rightarrow> string option \<Rightarrow> 'p strategy_context option \<Rightarrow> bool" where
  "shouldRequireApproval s strategyName ctx =
    (if sg_side s \<noteq> SELL then False
     else if isManualSellExitSignal s then True
     else isHighTInfiniteBuyTakeProfitSignal s strategyName ctx)"

section \<open>The request\<close>

definition PROVISIONAL_APPROVAL_MINUTES :: int where "PROVISIONAL_APPROVAL_MINUTES = 2"
definition APPROVAL_VALIDITY_MINUTES :: int where "APPROVAL_VALIDITY_MINUTES = 10"
definition SUCCESSFUL_NOTIFICATION_COOLDOWN_MINUTES :: int where "SUCCESSFUL_NOTIFICATION_COOLDOWN_MINUTES = 30"

lemmas approval_minutes = PROVISIONAL_APPROVAL_MINUTES_def APPROVAL_VALIDITY_MINUTES_def
  SUCCESSFUL_NOTIFICATION_COOLDOWN_MINUTES_def

definition asFiniteNumber :: "jsnum option list \<Rightarrow> jsnum" where
  "asFiniteNumber values = coalesce (first_finite values) (Fin 0)"

definition normalizeApprovalSignal :: "trading_signal \<Rightarrow> trading_signal" where
  "normalizeApprovalSignal s = s
     \<lparr>sg_exchangeCode := (if sg_market s = DOMESTIC then ''KRX'' else to_upper (trim (sg_exchangeCode s))),
      sg_stockCode := to_upper (trim (sg_stockCode s))\<rparr>"

text \<open>An approval of the signal's instrument whose order is at the broker.\<close>

definition of_instrument :: "broker \<Rightarrow> trading_signal \<Rightarrow> order_db \<Rightarrow> approval \<Rightarrow> bool" where
  "of_instrument b s db a \<longleftrightarrow>
     list_ex (\<lambda>r. tr_id r = ap_tradeRecordId a \<and> tr_broker r = b) (db_orders db) \<and>
     ap_market a = sg_market s \<and> ap_exchangeCode a = sg_exchangeCode s \<and> ap_stockCode a = sg_stockCode s"

definition awaiting :: "string \<Rightarrow> trade_record \<Rightarrow> bool" where
  "awaiting i r \<longleftrightarrow> tr_id r = i \<and> tr_status r = AWAITING_APPROVAL"

definition set_status :: "order_status \<Rightarrow> trade_record \<Rightarrow> trade_record" where
  "set_status st r = r\<lparr>tr_status := st\<rparr>"

definition expired :: "approval \<Rightarrow> approval" where
  "expired a = a\<lparr>ap_status := ApExpired\<rparr>"

text \<open>One transaction per pair: the approval expires and its order is cancelled, or neither.\<close>

definition expire_pair :: "(approval \<Rightarrow> bool) \<Rightarrow> string \<Rightarrow> string \<Rightarrow> approval_tables \<Rightarrow> js_error + approval_tables" where
  "expire_pair guard tradeRecordId failure tabs =
    (let e = update_approvals guard expired (fst tabs) in
     if snd e = 0 then Inr tabs
     else let c = updateMany (awaiting tradeRecordId) (set_status CANCELLED) (snd tabs) in
       if snd c \<noteq> 1 then Inl (Error failure) else Inr (fst e, fst c))"

definition expireApprovalPair :: "string \<Rightarrow> string \<Rightarrow> approval_tables \<Rightarrow> js_error + approval_tables" where
  "expireApprovalPair approvalId tradeRecordId =
     expire_pair (\<lambda>a. ap_id a = approvalId \<and> ap_tradeRecordId a = tradeRecordId \<and> ap_status a = ApPending)
       tradeRecordId ''Failed to cancel undelivered approval trade''"

fun expire_due_loop :: "int \<Rightarrow> approval list \<Rightarrow> approval_tables \<Rightarrow> js_error + approval_tables" where
  "expire_due_loop t [] tabs = Inr tabs"
| "expire_due_loop t (a # as) tabs =
    (case expire_pair (\<lambda>x. ap_id x = ap_id a \<and> ap_status x = ApPending \<and> ap_expiresAt x \<le> t)
        (ap_tradeRecordId a) ''Failed to cancel expired approval trade'' tabs of
       Inl e \<Rightarrow> Inl e
     | Inr tabs' \<Rightarrow> expire_due_loop t as tabs')"

definition expireDueApprovalPairs :: "broker \<Rightarrow> trading_signal \<Rightarrow> int \<Rightarrow> approval_tables \<Rightarrow> js_error + approval_tables" where
  "expireDueApprovalPairs b s t tabs =
     expire_due_loop t (filter (\<lambda>a. of_instrument b s (snd tabs) a \<and> ap_status a = ApPending \<and> ap_expiresAt a \<le> t) (fst tabs)) tabs"

text \<open>The unique index: one pending approval per market, exchange and stock, whatever the broker.\<close>

definition unique_violation :: js_error where
  "unique_violation = Error ''P2002''"

definition create_approval :: "approval \<Rightarrow> approval list \<Rightarrow> js_error + approval list" where
  "create_approval a as =
    (if ap_status a = ApPending \<and> list_ex (\<lambda>x. ap_status x = ApPending \<and> ap_market x = ap_market a \<and>
        ap_exchangeCode x = ap_exchangeCode a \<and> ap_stockCode x = ap_stockCode a) as
     then Inl unique_violation else Inr (as @ [a]))"

text \<open>What the request computes from the signal and its context.\<close>

definition approval_avgPrice :: "trading_signal \<Rightarrow> 'p strategy_context option \<Rightarrow> jsnum" where
  "approval_avgPrice s ctx = asFiniteNumber [map_option pos_avgPrice (Option.bind ctx position), sg_price s,
     map_option (\<lambda>c. px_currentPrice (price c)) ctx, Some (Fin 0)]"

definition approval_currentPrice :: "trading_signal \<Rightarrow> 'p strategy_context option \<Rightarrow> jsnum" where
  "approval_currentPrice s ctx = asFiniteNumber [map_option (\<lambda>c. px_currentPrice (price c)) ctx, sg_price s,
     Some (approval_avgPrice s ctx), Some (Fin 0)]"

definition approval_lossRate :: "trading_signal \<Rightarrow> 'p strategy_context option \<Rightarrow> jsnum" where
  "approval_lossRate s ctx = (let avgPrice = approval_avgPrice s ctx in
     - (if avgPrice > Fin 0 then (approval_currentPrice s ctx - avgPrice) / avgPrice else Fin 0))"

definition waiting_record :: "string \<Rightarrow> int \<Rightarrow> trading_signal \<Rightarrow> order_type \<Rightarrow> string option \<Rightarrow>
    'p strategy_context option \<Rightarrow> broker \<Rightarrow> broker_context \<Rightarrow> trade_record" where
  "waiting_record i t s orderType strategyName ctx b c =
    \<lparr>tr_id = i, tr_broker = b, tr_market = sg_market s, tr_exchangeCode = sg_exchangeCode s, tr_stockCode = sg_stockCode s,
     tr_stockName = or_str (map_option (\<lambda>c. ws_stockName (watchStock c)) ctx) (sg_stockCode s),
     tr_side = sg_side s, tr_orderType = orderType, tr_quantity = sg_quantity s,
     tr_price = asFiniteNumber [sg_price s, Some (Fin 0)],
     tr_executedPrice = None, tr_executedQty = None, tr_executedAt = None, tr_orderNo = None,
     tr_status = AWAITING_APPROVAL, tr_strategyName = Some (or_str (effective_strategy strategyName ctx) ''unknown''),
     tr_reason = Some (sg_reason s),
     tr_submissionStartedAt = None, tr_brokerOrderDate = None, tr_brokerOrderTime = None,
     tr_brokerEnvironment = Some (bc_environment c), tr_brokerAccountHash = Some (bc_accountHash c),
     tr_brokerMessage = None, tr_submissionResolvedAt = None, tr_submissionResolvedBy = None,
     tr_submissionResolution = None, tr_cancellationStatus = None, tr_cancellationStartedAt = None,
     tr_cancellationResolvedAt = None, tr_cancellationResolvedBy = None, tr_cancellationMessage = None,
     tr_createdAt = t\<rparr>"

definition new_approval :: "string \<Rightarrow> string \<Rightarrow> int \<Rightarrow> trading_signal \<Rightarrow> string option \<Rightarrow> 'p strategy_context option \<Rightarrow> approval" where
  "new_approval approvalId tradeRecordId requestedAt s strategyName ctx =
    \<lparr>ap_id = approvalId, ap_tradeRecordId = tradeRecordId, ap_market = sg_market s,
     ap_exchangeCode = sg_exchangeCode s, ap_stockCode = sg_stockCode s,
     ap_stockName = or_str (map_option (\<lambda>c. ws_stockName (watchStock c)) ctx) (sg_stockCode s),
     ap_strategyName = Some (or_str (effective_strategy strategyName ctx) ''unknown''),
     ap_signal = s, ap_currentPrice = approval_currentPrice s ctx, ap_avgPrice = approval_avgPrice s ctx,
     ap_quantity = sg_quantity s, ap_lossRate = approval_lossRate s ctx, ap_status = ApPending,
     ap_slackMessageTs = None, ap_slackChannel = None, ap_requestedAt = requestedAt,
     ap_expiresAt = requestedAt + PROVISIONAL_APPROVAL_MINUTES * 60 * 1000, ap_notifiedAt = None,
     ap_respondedAt = None, ap_respondedBy = None, ap_timeoutMinutes = APPROVAL_VALIDITY_MINUTES\<rparr>"

text \<open>The creation under the lock: nothing while a recent notification cools down, else the pair.\<close>

definition recently_notified :: "broker \<Rightarrow> trading_signal \<Rightarrow> int \<Rightarrow> approval_tables \<Rightarrow> bool" where
  "recently_notified b s requestedAt tabs \<longleftrightarrow>
     list_ex (\<lambda>a. of_instrument b s (snd tabs) a \<and>
       (case ap_notifiedAt a of None \<Rightarrow> False
        | Some n \<Rightarrow> n > requestedAt - SUCCESSFUL_NOTIFICATION_COOLDOWN_MINUTES * 60 * 1000)) (fst tabs)"

definition approval_creator :: "int \<Rightarrow> broker \<Rightarrow> trading_signal \<Rightarrow> trade_record \<Rightarrow> approval \<Rightarrow> order_key \<Rightarrow>
    approval_tables \<Rightarrow> js_error + (approval_tables \<times> approval option)" where
  "approval_creator requestedAt b s record approval k tabs =
    (if recently_notified b s requestedAt tabs then Inr (tabs, None)
     else case create_approval approval (fst tabs) of
         Inl e \<Rightarrow> Inl e
       | Inr as \<Rightarrow> Inr ((as, create record (snd tabs)), Some approval))"

definition reloadPendingApproval :: "broker \<Rightarrow> trading_signal \<Rightarrow> approval_tables \<Rightarrow> bool" where
  "reloadPendingApproval b s tabs \<longleftrightarrow> list_ex (\<lambda>a. of_instrument b s (snd tabs) a \<and> ap_status a = ApPending) (fst tabs)"

text \<open>
  From the expiry of due pairs to the admission. The clock and the context are those of the moment;
  the answer is the admitted approval, \<open>None\<close> when the request ends there.
\<close>

definition request_admission :: "exec_env \<Rightarrow> string \<Rightarrow> string \<Rightarrow> broker \<Rightarrow> trading_signal \<Rightarrow> order_type \<Rightarrow>
    string option \<Rightarrow> 'p strategy_context option \<Rightarrow> approval_tables \<Rightarrow> js_error + (approval_tables \<times> approval option)" where
  "request_admission env tradeRecordId approvalId b signal orderType strategyName ctx tabs =
    (let s = normalizeApprovalSignal signal; requestedAt = env_now env in
     case env_context env b of Inl e \<Rightarrow> Inl e
     | Inr c \<Rightarrow>
       (case admit snd (signal_key b s)
           (approval_creator requestedAt b s (waiting_record tradeRecordId requestedAt s orderType strategyName ctx b c)
             (new_approval approvalId tradeRecordId requestedAt s strategyName ctx)) tabs of
          Inl e \<Rightarrow>
            if e = unique_violation \<and> reloadPendingApproval b s tabs then Inr (tabs, None) else Inl e
        | Inr (tabs', admitted) \<Rightarrow> Inr (tabs', Option.bind admitted id)))"

section \<open>The delivery\<close>

text \<open>\<open>new Date(x)\<close> of a number: whole milliseconds, within the range of dates.\<close>

definition date_of_number :: "jsnum \<Rightarrow> int option" where
  "date_of_number x = (case x of
     Fin v \<Rightarrow> if \<bar>v\<bar> \<le> 8640000000000000 then Some (if v < 0 then - \<lfloor>- v\<rfloor> else \<lfloor>v\<rfloor>) else None
   | _ \<Rightarrow> None)"

text \<open>\<open>/^\\d+(?:\\.\\d+)?$/\<close>, with the number read.\<close>

definition decimal_text_value :: "string \<Rightarrow> jsnum option" where
  "decimal_text_value s =
    (let whole = takeWhile is_digit s; rest = dropWhile is_digit s in
     if whole = [] then None
     else if rest = [] then Some (decimal_number whole [])
     else if take 1 rest = ''.'' \<and> drop 1 rest \<noteq> [] \<and> list_all is_digit (drop 1 rest)
     then Some (decimal_number whole (drop 1 rest))
     else None)"

record delivery =
  dl_ts :: string
  dl_channel :: string
  dl_notifiedAt :: int

definition parseSlackDelivery :: "(string \<times> string) option \<Rightarrow> int \<Rightarrow> int \<Rightarrow> delivery option" where
  "parseSlackDelivery result requestedAt deliveryReceivedAt =
    (case result of None \<Rightarrow> None
     | Some (rts, rchannel) \<Rightarrow>
    (let ts = trim rts; channel = trim rchannel in
     if ts = [] \<or> channel = [] then None
     else case decimal_text_value ts of None \<Rightarrow> None
     | Some epochSeconds \<Rightarrow>
       if \<not> isFinite epochSeconds \<or> epochSeconds \<le> Fin 0 then None
       else case date_of_number (epochSeconds * Fin 1000) of None \<Rightarrow> None
       | Some notifiedAt \<Rightarrow>
         if notifiedAt < requestedAt \<or> notifiedAt > deliveryReceivedAt then None
         else Some \<lparr>dl_ts = ts, dl_channel = channel, dl_notifiedAt = notifiedAt\<rparr>))"

definition delivered :: "delivery \<Rightarrow> approval \<Rightarrow> approval" where
  "delivered d a = a\<lparr>ap_notifiedAt := Some (dl_notifiedAt d),
     ap_expiresAt := dl_notifiedAt d + APPROVAL_VALIDITY_MINUTES * 60 * 1000,
     ap_slackMessageTs := Some (dl_ts d), ap_slackChannel := Some (dl_channel d),
     ap_timeoutMinutes := APPROVAL_VALIDITY_MINUTES\<rparr>"

text \<open>Recording a delivery; the answer tells whether the approval was still pending and in time.\<close>

definition finalize_delivery :: "int \<Rightarrow> approval \<Rightarrow> delivery option \<Rightarrow> approval list \<Rightarrow> approval list \<times> bool" where
  "finalize_delivery t a delivery as =
    (case delivery of None \<Rightarrow> (as, False)
     | Some d \<Rightarrow>
       (let f = update_approvals (\<lambda>x. ap_id x = ap_id a \<and> ap_tradeRecordId x = ap_tradeRecordId a \<and>
              ap_status x = ApPending \<and> ap_expiresAt x > t) (delivered d) as
        in (fst f, snd f = 1)))"

section \<open>What an admitted request leaves\<close>

lemma update_approvals_none: "snd (update_approvals P f as) = 0 \<Longrightarrow> fst (update_approvals P f as) = as"
  by (auto simp: update_approvals_def filter_empty_conv intro!: map_idI)

lemma update_approvals_some: "snd (update_approvals P f as) \<noteq> 0 \<Longrightarrow> \<exists>a \<in> set as. P a"
  by (auto simp: update_approvals_def filter_empty_conv)

lemma normal_signal_key:
  assumes "normalizeKey (signal_key b (normalizeApprovalSignal s)) = Inr k"
  shows "k = signal_key b (normalizeApprovalSignal s)"
  using assms
  by (auto simp: normalizeKey_def normalizeComponent_Inr signal_key_def normalizeApprovalSignal_def trim_to_upper
      split: sum.splits)

text \<open>The pair a request creates: a waiting order of a free key, and its approval, provisional for two minutes.\<close>

definition fresh_pair :: "trade_record \<Rightarrow> approval \<Rightarrow> approval_tables \<Rightarrow> bool" where
  "fresh_pair r a tabs \<longleftrightarrow> tr_status r = AWAITING_APPROVAL \<and> tr_submissionStartedAt r = None \<and> tr_executedQty r = None \<and>
     ap_tradeRecordId a = tr_id r \<and> ap_status a = ApPending \<and> ap_notifiedAt a = None \<and>
     ap_expiresAt a = ap_requestedAt a + PROVISIONAL_APPROVAL_MINUTES * 60 * 1000 \<and>
     key_of r = \<lparr>ok_broker = tr_broker r, ok_market = ap_market a, ok_exchangeCode = ap_exchangeCode a,
       ok_stockCode = ap_stockCode a, ok_side = tr_side r\<rparr> \<and>
     unresolved_of (key_of r) (db_orders (snd tabs)) = [] \<and>
     (\<forall>x \<in> set (fst tabs). ap_market x = ap_market a \<longrightarrow> ap_exchangeCode x = ap_exchangeCode a \<longrightarrow>
        ap_stockCode x = ap_stockCode a \<longrightarrow> ap_status x \<noteq> ApPending \<and>
        (\<forall>n y. ap_notifiedAt x = Some n \<longrightarrow> y \<in> set (db_orders (snd tabs)) \<longrightarrow> tr_id y = ap_tradeRecordId x \<longrightarrow>
          tr_broker y = tr_broker r \<longrightarrow> n \<le> ap_requestedAt a - SUCCESSFUL_NOTIFICATION_COOLDOWN_MINUTES * 60 * 1000))"

lemma request_admission_facts:
  assumes "request_admission env i j b sg ot n ctx tabs = Inr (tabs', Some a)" "exclusive (snd tabs)"
  shows "\<exists>r. tabs' = (fst tabs @ [a], create r (snd tabs)) \<and> fresh_pair r a tabs \<and> tr_id r = i \<and> ap_id a = j \<and>
    tr_side r = sg_side sg \<and> tr_quantity r = sg_quantity sg \<and> exclusive (create r (snd tabs)) \<and>
    ap_requestedAt a = env_now env"
proof -
  let ?s = "normalizeApprovalSignal sg"
  obtain c where c: "env_context env b = Inr c"
    using assms(1) by (auto simp: request_admission_def Let_def split: sum.splits)
  let ?r = "waiting_record i (env_now env) ?s ot n ctx b c" and ?a = "new_approval j i (env_now env) ?s n ctx"
  obtain k where k: "normalizeKey (signal_key b ?s) = Inr k"
      "findFirst (\<lambda>r. key_of r = k \<and> is_unresolved r) (snd tabs) = None"
      "approval_creator (env_now env) b ?s ?r ?a k tabs = Inr (tabs', Some a)"
    using assms(1) c by (auto simp: request_admission_def admit_def Let_def split: sum.splits option.splits if_splits)
  have ke: "k = signal_key b ?s" by (rule normal_signal_key [OF k(1)])
  have kr: "key_of ?r = k" by (simp add: ke key_of_def waiting_record_def signal_key_def)
  have un: "unresolved_of (key_of ?r) (db_orders (snd tabs)) = []"
    using k(2) by (auto simp: kr findFirst_None unresolved_of_def filter_empty_conv)
  have cr: "\<not> recently_notified b ?s (env_now env) tabs" "tabs' = (fst tabs @ [a], create ?r (snd tabs))" "a = ?a"
      "\<not> list_ex (\<lambda>x. ap_status x = ApPending \<and> ap_market x = ap_market ?a \<and> ap_exchangeCode x = ap_exchangeCode ?a \<and>
        ap_stockCode x = ap_stockCode ?a) (fst tabs)"
    using k(3) by (auto simp: approval_creator_def create_approval_def new_approval_def split: if_splits sum.splits)
  have fields: "tr_status ?r = AWAITING_APPROVAL" "tr_submissionStartedAt ?r = None" "tr_executedQty ?r = None"
    "ap_tradeRecordId a = tr_id ?r" "ap_status a = ApPending" "ap_notifiedAt a = None" "tr_broker ?r = b"
    "ap_market a = sg_market ?s" "ap_exchangeCode a = sg_exchangeCode ?s" "ap_stockCode a = sg_stockCode ?s"
    "ap_requestedAt a = env_now env" "tr_id ?r = i" "ap_id a = j" "tr_side ?r = sg_side sg" "tr_quantity ?r = sg_quantity sg"
    "tr_side ?r = sg_side ?s" "ap_expiresAt a = ap_requestedAt a + PROVISIONAL_APPROVAL_MINUTES * 60 * 1000"
    by (simp_all add: cr(3) waiting_record_def new_approval_def normalizeApprovalSignal_def)
  have "key_of ?r = \<lparr>ok_broker = tr_broker ?r, ok_market = ap_market a, ok_exchangeCode = ap_exchangeCode a,
       ok_stockCode = ap_stockCode a, ok_side = tr_side ?r\<rparr>"
    using kr ke fields by (simp add: signal_key_def)
  moreover have "ap_status x \<noteq> ApPending \<and> (\<forall>n y. ap_notifiedAt x = Some n \<longrightarrow> y \<in> set (db_orders (snd tabs)) \<longrightarrow>
        tr_id y = ap_tradeRecordId x \<longrightarrow> tr_broker y = tr_broker ?r \<longrightarrow>
        n \<le> ap_requestedAt a - SUCCESSFUL_NOTIFICATION_COOLDOWN_MINUTES * 60 * 1000)"
    if x: "x \<in> set (fst tabs)" "ap_market x = ap_market a" "ap_exchangeCode x = ap_exchangeCode a"
      "ap_stockCode x = ap_stockCode a" for x
  proof -
    have "ap_status x \<noteq> ApPending" using cr(3,4) x by (auto simp: list_ex_iff)
    moreover have "n \<le> ap_requestedAt a - SUCCESSFUL_NOTIFICATION_COOLDOWN_MINUTES * 60 * 1000"
      if y: "ap_notifiedAt x = Some n" "y \<in> set (db_orders (snd tabs))" "tr_id y = ap_tradeRecordId x" "tr_broker y = b" for n y
    proof (rule ccontr)
      assume n: "\<not> ?thesis"
      have "of_instrument b ?s (snd tabs) x" using x y fields(8-10) by (auto simp: of_instrument_def list_ex_iff)
      then have "recently_notified b ?s (env_now env) tabs"
        using x(1) y(1) n fields(11) unfolding recently_notified_def list_ex_iff by (intro bexI [of _ x]) auto
      then show False using cr(1) by simp
    qed
    ultimately show ?thesis unfolding fields(7) by simp
  qed
  ultimately have "fresh_pair ?r a tabs" using un fields unfolding fresh_pair_def by blast
  then show ?thesis using cr(2) exclusive_create [OF assms(2) un] fields by blast
qed

lemma expire_pair_cases:
  "expire_pair g i m tabs = Inr tabs' \<Longrightarrow> tabs' = tabs \<or>
    (tabs' = (fst (update_approvals g expired (fst tabs)), fst (updateMany (awaiting i) (set_status CANCELLED) (snd tabs))) \<and>
     snd (update_approvals g expired (fst tabs)) \<noteq> 0 \<and> snd (updateMany (awaiting i) (set_status CANCELLED) (snd tabs)) = 1)"
  by (auto simp: expire_pair_def Let_def split: if_splits)

end
