(* ===== verification/SellApprovalWorkflow.thy ===== *)
theory SellApprovalWorkflow imports SellApproval begin

text \<open>
  The decision of an administrator on a waiting sell, and the execution of an approved one
  (\<open>src/trading/trading-sell-approval-workflow.service.ts\<close>). The decision is one transaction whose reads
  may be older than its writes; each write is guarded, and a guard that fails rolls the pair back. The
  execution is cut at its awaits like that of an automatic order. Log lines, the execution log and the
  update of the Slack message are left out, and the reasons stored in \<open>brokerMessage\<close> are in English.
\<close>

section \<open>Results\<close>

datatype workflow_reason = UNAUTHORIZED | NOT_FOUND | DELIVERY_NOT_READY | TRADING_DISABLED | EXPIRED
  | ALREADY_HANDLED | REFRESH_FAILED | NO_HOLDING | SUBMISSION_CLAIM_LOST | BROKER_CONTEXT_MISMATCH
  | BROKER_DISABLED | BROKER_REJECTED | BROKER_UNKNOWN | STATE_CHANGED | ACCEPTED_PERSISTENCE_PENDING

record workflow_result =
  wr_approvalId :: string
  wr_approvalStatus :: "approval_status option"
  wr_tradeRecordId :: "string option"
  wr_tradeStatus :: "order_status option"
  wr_claimed :: bool
  wr_submitted :: bool
  wr_reason :: "workflow_reason option"

text \<open>A result without the fields of an approval, and one that tells where a pair stands.\<close>

definition bare_result :: "string \<Rightarrow> workflow_reason \<Rightarrow> workflow_result" where
  "bare_result i reason = \<lparr>wr_approvalId = i, wr_approvalStatus = None, wr_tradeRecordId = None, wr_tradeStatus = None,
     wr_claimed = False, wr_submitted = False, wr_reason = Some reason\<rparr>"

definition pair_result :: "string \<Rightarrow> approval_status \<Rightarrow> string \<Rightarrow> order_status \<Rightarrow> workflow_reason \<Rightarrow> workflow_result" where
  "pair_result i status tradeRecordId tradeStatus reason =
    \<lparr>wr_approvalId = i, wr_approvalStatus = Some status, wr_tradeRecordId = Some tradeRecordId,
     wr_tradeStatus = Some tradeStatus, wr_claimed = False, wr_submitted = False, wr_reason = Some reason\<rparr>"

section \<open>Who may decide\<close>

definition authorizedActor :: "string list option \<Rightarrow> string \<Rightarrow> string option" where
  "authorizedActor configured slackUserId =
    (let actor = trim slackUserId in
     if actor = [] then None
     else case configured of None \<Rightarrow> None
     | Some users \<Rightarrow> if list_ex (\<lambda>u. trim u = actor) users then Some actor else None)"

text \<open>A context that cannot be resolved does not match.\<close>

definition matchesCurrentBrokerContext :: "exec_env \<Rightarrow> broker \<Rightarrow> broker_environment option \<Rightarrow> string option \<Rightarrow> bool" where
  "matchesCurrentBrokerContext env b environment accountHash =
    (case matchesCurrentContext (env_context env) b environment accountHash of Inl _ \<Rightarrow> False | Inr m \<Rightarrow> m)"

definition matches_record :: "exec_env \<Rightarrow> trade_record \<Rightarrow> bool" where
  "matches_record env r = matchesCurrentBrokerContext env (tr_broker r) (tr_brokerEnvironment r) (tr_brokerAccountHash r)"

section \<open>The decision\<close>

datatype decision_action = APPROVE | REJECT

text \<open>The approval with its order, \<open>findUnique\<close> with \<open>include\<close>.\<close>

definition find_pair :: "string \<Rightarrow> approval_tables \<Rightarrow> (approval \<times> trade_record) option" where
  "find_pair i tabs =
    (case List.find (\<lambda>a. ap_id a = i) (fst tabs) of None \<Rightarrow> None
     | Some a \<Rightarrow> map_option (Pair a) (findFirst (\<lambda>r. tr_id r = ap_tradeRecordId a) (snd tabs)))"

definition readPersistedOutcome :: "string \<Rightarrow> approval_tables \<Rightarrow> workflow_result" where
  "readPersistedOutcome i tabs =
    (case find_pair i tabs of None \<Rightarrow> bare_result i NOT_FOUND
     | Some (a, r) \<Rightarrow> pair_result i (ap_status a) (ap_tradeRecordId a) (tr_status r) ALREADY_HANDLED)"

definition responded :: "approval_status \<Rightarrow> int \<Rightarrow> string \<Rightarrow> approval \<Rightarrow> approval" where
  "responded st t actor a = a\<lparr>ap_status := st, ap_respondedAt := Some t, ap_respondedBy := Some actor\<rparr>"

text \<open>Two guarded updates that both change one row, or a rollback.\<close>

definition claim_pair :: "(approval \<Rightarrow> bool) \<Rightarrow> (approval \<Rightarrow> approval) \<Rightarrow> string \<Rightarrow> order_status \<Rightarrow> approval_tables \<Rightarrow>
    approval_tables option" where
  "claim_pair guard change tradeRecordId st tabs =
    (let a = update_approvals guard change (fst tabs) in
     if snd a \<noteq> 1 then None
     else let r = updateMany (awaiting tradeRecordId) (set_status st) (snd tabs) in
       if snd r \<noteq> 1 then None else Some (fst a, fst r))"

text \<open>
  \<open>decide\<close>: \<open>found\<close> is the pair as the transaction read it, \<open>tabs\<close> the tables its writes meet. The answer
  of a rollback is read afterwards.
\<close>

definition decide :: "exec_env \<Rightarrow> string \<Rightarrow> decision_action \<Rightarrow> string \<Rightarrow> (approval \<times> trade_record) option \<Rightarrow>
    approval_tables \<Rightarrow> approval_tables \<times> workflow_result" where
  "decide env actor action approvalId found tabs =
    (let t = env_now env in
     case found of None \<Rightarrow> (tabs, bare_result approvalId NOT_FOUND)
     | Some (a, r) \<Rightarrow>
     (let told = pair_result approvalId (ap_status a) (ap_tradeRecordId a) (tr_status r) in
      if ap_status a \<noteq> ApPending \<or> tr_status r \<noteq> AWAITING_APPROVAL then (tabs, told ALREADY_HANDLED)
      else if ap_expiresAt a \<le> t then
        (case claim_pair (\<lambda>x. ap_id x = approvalId \<and> ap_status x = ApPending \<and> ap_expiresAt x \<le> t) expired
            (ap_tradeRecordId a) CANCELLED tabs of
           None \<Rightarrow> (tabs, readPersistedOutcome approvalId tabs)
         | Some tabs' \<Rightarrow> (tabs', pair_result approvalId ApExpired (ap_tradeRecordId a) CANCELLED EXPIRED))
      else if ap_notifiedAt a = None \<or> \<not> nonblank (ap_slackMessageTs a) \<or> \<not> nonblank (ap_slackChannel a)
      then (tabs, told DELIVERY_NOT_READY)
      else if action = APPROVE \<and> \<not> matches_record env r then (tabs, told BROKER_CONTEXT_MISMATCH)
      else if action = APPROVE \<and> \<not> env_live env then (tabs, told TRADING_DISABLED)
      else if action = APPROVE \<and> \<not> env_active env (tr_broker r) then (tabs, told BROKER_DISABLED)
      else
        (let approvalStatus = (if action = APPROVE then ApApproved else ApRejected);
             tradeStatus = (if action = APPROVE then SUBMITTING else CANCELLED)
         in case claim_pair (\<lambda>x. ap_id x = approvalId \<and> ap_status x = ApPending \<and> ap_expiresAt x > t)
              (responded approvalStatus t actor) (ap_tradeRecordId a) tradeStatus tabs of
             None \<Rightarrow> (tabs, readPersistedOutcome approvalId tabs)
           | Some tabs' \<Rightarrow> (tabs',
               \<lparr>wr_approvalId = approvalId, wr_approvalStatus = Some approvalStatus,
                wr_tradeRecordId = Some (ap_tradeRecordId a), wr_tradeStatus = Some tradeStatus,
                wr_claimed = True, wr_submitted = False, wr_reason = None\<rparr>))))"

text \<open>\<open>approve\<close> and \<open>reject\<close> up to the decision.\<close>

definition respond :: "exec_env \<Rightarrow> string list option \<Rightarrow> decision_action \<Rightarrow> string \<Rightarrow> string \<Rightarrow>
    (approval \<times> trade_record) option \<Rightarrow> approval_tables \<Rightarrow> approval_tables \<times> workflow_result" where
  "respond env configured action approvalId slackUserId found tabs =
    (case authorizedActor configured slackUserId of
       None \<Rightarrow> (tabs, bare_result approvalId UNAUTHORIZED)
     | Some actor \<Rightarrow> decide env actor action approvalId found tabs)"

section \<open>The execution of an approved sell\<close>

text \<open>Where the execution stands between two segments; a quantity is the one to be sold.\<close>

datatype sell_pc =
    Opening
  | SellCancelling string workflow_reason
  | Refreshing jsnum
  | Clamping jsnum
  | SellClaiming jsnum
  | SellClaimed int jsnum
  | SellLogged int jsnum
  | SellAborting int string workflow_reason
  | SellSubmitted jsnum
  | SellRecording "string + order_result"
  | SellReturned workflow_result

definition sell_open :: "exec_env \<Rightarrow> string \<Rightarrow> approval_tables \<Rightarrow> sell_pc" where
  "sell_open env approvalId tabs =
    (case find_pair approvalId tabs of
       None \<Rightarrow> SellReturned (readPersistedOutcome approvalId tabs)
     | Some (a, r) \<Rightarrow>
       if ap_status a \<noteq> ApApproved \<or> tr_status r \<noteq> SUBMITTING then SellReturned (readPersistedOutcome approvalId tabs)
       else if \<not> matches_record env r
       then SellCancelling ''Broker context changed before submission'' BROKER_CONTEXT_MISMATCH
       else if \<not> env_active env (tr_broker r) then SellCancelling ''Broker disabled before submission'' BROKER_DISABLED
       else Refreshing (tr_quantity r))"

record holding =
  ho_exchangeCode :: "string option"
  ho_stockCode :: string
  ho_quantity :: jsnum

definition matchesHolding :: "market \<Rightarrow> string \<Rightarrow> string \<Rightarrow> holding \<Rightarrow> bool" where
  "matchesHolding m exchangeCode stockCode h \<longleftrightarrow>
    (if m = DOMESTIC then ''KRX'' else to_upper (trim exchangeCode)) =
    (if m = DOMESTIC then ''KRX'' else to_upper (trim (or_str (ho_exchangeCode h) []))) \<and>
    to_upper (trim stockCode) = to_upper (trim (ho_stockCode h))"

definition held_quantity :: "approval \<Rightarrow> holding list \<Rightarrow> jsnum" where
  "held_quantity a hs = floor_num (or_opt (map_option ho_quantity
     (List.find (matchesHolding (ap_market a) (ap_exchangeCode a) (ap_stockCode a)) hs)) (Fin 0))"

text \<open>The fresh holdings bound the quantity.\<close>

definition sell_prepare :: "exec_env \<Rightarrow> approval \<Rightarrow> jsnum \<Rightarrow> string + holding list \<Rightarrow> sell_pc" where
  "sell_prepare env a requested holdings =
    (case holdings of
       Inl failure \<Rightarrow> SellCancelling (''Position refresh failed: '' @ failure) REFRESH_FAILED
     | Inr hs \<Rightarrow>
       (let heldQuantity = held_quantity a hs in
        if heldQuantity \<le> Fin 0 then SellCancelling ''No matching broker holding'' NO_HOLDING
        else if \<not> env_live env then SellCancelling ''Live trading disabled before submission'' TRADING_DISABLED
        else Clamping (min_num requested heldQuantity)))"

text \<open>The bounded signal is stored in the approval before the claim, then the account is checked again.\<close>

definition store_signal :: "jsnum \<Rightarrow> approval \<Rightarrow> approval" where
  "store_signal q a = a\<lparr>ap_signal := (ap_signal a)\<lparr>sg_quantity := q\<rparr>\<rparr>"

definition sell_clamp :: "exec_env \<Rightarrow> approval \<Rightarrow> trade_record \<Rightarrow> jsnum \<Rightarrow> db_reply \<Rightarrow> approval list \<Rightarrow> approval list \<times> sell_pc" where
  "sell_clamp env a r q reply as =
    (let stored = update_approvals (\<lambda>x. ap_id x = ap_id a \<and> ap_tradeRecordId x = ap_tradeRecordId a \<and>
           ap_status x = ApApproved) (store_signal q) as;
         failed = SellCancelling ''Approved quantity could not be stored'' STATE_CHANGED
     in case reply of
       DbFailed \<Rightarrow> (as, failed)
     | DbLost \<Rightarrow> (fst stored, failed)
     | DbDone \<Rightarrow> (fst stored,
         if snd stored \<noteq> 1 then failed
         else if \<not> matches_record env r
         then SellCancelling ''Broker context changed before submission'' BROKER_CONTEXT_MISMATCH
         else if \<not> env_active env (tr_broker r) then SellCancelling ''Broker disabled before submission'' BROKER_DISABLED
         else SellClaiming q))"

definition resolveStateChangedResult :: "workflow_result \<Rightarrow> string \<Rightarrow> bool \<Rightarrow> order_db \<Rightarrow> workflow_result" where
  "resolveStateChangedResult current tradeRecordId submitted db =
    current\<lparr>wr_tradeStatus := (case findFirst (\<lambda>r. tr_id r = tradeRecordId) db of
         None \<Rightarrow> wr_tradeStatus current | Some r \<Rightarrow> Some (tr_status r)),
       wr_submitted := submitted, wr_reason := Some STATE_CHANGED\<rparr>"

definition sell_cancel :: "workflow_result \<Rightarrow> string \<Rightarrow> string \<Rightarrow> workflow_reason \<Rightarrow> order_db \<Rightarrow> order_db \<times> sell_pc" where
  "sell_cancel current i message reason db =
    (let c = updateMany (unsubmitted i) (set_cancelled message) db in
     (fst c, SellReturned
       (if snd c \<noteq> 1 then resolveStateChangedResult current i False (fst c)
        else current\<lparr>wr_tradeStatus := Some CANCELLED, wr_reason := Some reason\<rparr>)))"

definition set_sell_started :: "jsnum \<Rightarrow> int \<Rightarrow> trade_record \<Rightarrow> trade_record" where
  "set_sell_started q t r = r\<lparr>tr_quantity := q, tr_submissionStartedAt := Some t\<rparr>"

definition sell_claim :: "workflow_result \<Rightarrow> string \<Rightarrow> jsnum \<Rightarrow> int \<Rightarrow> order_db \<Rightarrow> order_db \<times> sell_pc" where
  "sell_claim current i q t db =
    (let c = updateMany (unsubmitted i) (set_sell_started q t) db in
     (fst c, if snd c \<noteq> 1 then SellReturned (current\<lparr>wr_claimed := False, wr_reason := Some SUBMISSION_CLAIM_LOST\<rparr>)
             else SellClaimed t q))"

text \<open>The checks after the claim, and again after the execution log was written.\<close>

definition sell_check :: "exec_env \<Rightarrow> trade_record \<Rightarrow> int \<Rightarrow> jsnum \<Rightarrow> sell_pc" where
  "sell_check env r t q =
    (if \<not> matches_record env r
     then SellAborting t ''Broker context changed after submission claim'' BROKER_CONTEXT_MISMATCH
     else if \<not> env_live env then SellAborting t ''Live trading disabled after submission claim'' TRADING_DISABLED
     else if \<not> env_active env (tr_broker r) then SellAborting t ''Broker disabled after submission claim'' BROKER_DISABLED
     else SellLogged t q)"

definition sell_submit :: "exec_env \<Rightarrow> trade_record \<Rightarrow> int \<Rightarrow> jsnum \<Rightarrow> sell_pc" where
  "sell_submit env r t q =
    (if \<not> env_live env then SellAborting t ''Live trading disabled after submission claim'' TRADING_DISABLED
     else if \<not> matches_record env r
     then SellAborting t ''Broker context changed after submission claim'' BROKER_CONTEXT_MISMATCH
     else if \<not> env_active env (tr_broker r) then SellAborting t ''Broker disabled after submission claim'' BROKER_DISABLED
     else SellSubmitted q)"

text \<open>The order that is sent.\<close>

definition posted_order :: "approval \<Rightarrow> trade_record \<Rightarrow> jsnum \<Rightarrow> trading_signal" where
  "posted_order a r q = (ap_signal a)\<lparr>sg_market := ap_market a, sg_exchangeCode := ap_exchangeCode a,
     sg_stockCode := ap_stockCode a, sg_side := SELL, sg_quantity := q, sg_price := Some (tr_price r)\<rparr>"

definition sell_abort :: "workflow_result \<Rightarrow> string \<Rightarrow> int \<Rightarrow> string \<Rightarrow> workflow_reason \<Rightarrow> order_db \<Rightarrow> order_db \<times> sell_pc" where
  "sell_abort current i t message reason db =
    (let c = updateMany (started_at i t) (set_aborted message) db in
     (fst c, SellReturned
       (if snd c \<noteq> 1 then resolveStateChangedResult current i False (fst c)
        else current\<lparr>wr_tradeStatus := Some CANCELLED, wr_submitted := False, wr_reason := Some reason\<rparr>)))"

text \<open>Unlike the automatic handler's loop this one also tries again when the guard found no row.\<close>

fun sell_persist_loop :: "nat \<Rightarrow> (nat \<Rightarrow> db_reply) \<Rightarrow> string \<Rightarrow> order_result \<Rightarrow> order_db \<Rightarrow> order_db \<times> bool" where
  "sell_persist_loop 0 reply i res db = (db, False)"
| "sell_persist_loop (Suc left) reply i res db =
    (let stored = updateMany (started i) (set_pending res) db in
     case reply (3 - left) of
       DbDone \<Rightarrow> if snd stored = 1 then (fst stored, True) else sell_persist_loop left reply i res (fst stored)
     | DbFailed \<Rightarrow> sell_persist_loop left reply i res db
     | DbLost \<Rightarrow> sell_persist_loop left reply i res (fst stored))"

definition sell_unknown :: "workflow_result \<Rightarrow> string \<Rightarrow> string \<Rightarrow> order_db \<Rightarrow> order_db \<times> workflow_result" where
  "sell_unknown current i message db =
    (let u = markSubmissionUnknown i message db in
     (fst u, if \<not> snd u then resolveStateChangedResult current i True (fst u)
             else current\<lparr>wr_tradeStatus := Some SUBMISSION_UNKNOWN, wr_submitted := True, wr_reason := Some BROKER_UNKNOWN\<rparr>))"

definition sell_record :: "(nat \<Rightarrow> db_reply) \<Rightarrow> workflow_result \<Rightarrow> string \<Rightarrow> string + order_result \<Rightarrow> order_db \<Rightarrow>
    order_db \<times> workflow_result" where
  "sell_record reply current i answer db =
    (case answer of
       Inl message \<Rightarrow> sell_unknown current i message db
     | Inr res \<Rightarrow>
       if res_outcome res = ACCEPTED \<and> hasCompleteOrderIdentity res
       then (let p = sell_persist_loop 3 reply i res db in
         (fst p, current\<lparr>wr_tradeStatus := Some (if snd p then PENDING else SUBMITTING), wr_submitted := True,
            wr_reason := (if snd p then None else Some ACCEPTED_PERSISTENCE_PENDING)\<rparr>))
       else if res_outcome res = REJECTED
       then (let u = updateMany (started i) (set_failed (res_message res)) db in
         (fst u, if snd u \<noteq> 1 then resolveStateChangedResult current i True (fst u)
                 else current\<lparr>wr_tradeStatus := Some FAILED, wr_submitted := True, wr_reason := Some BROKER_REJECTED\<rparr>))
       else sell_unknown current i
         (if res_outcome res = ACCEPTED then ''Accepted broker response missing required order identity'' else res_message res) db)"

section \<open>What a decision leaves\<close>

lemma claim_pair_cases:
  "claim_pair g f i st tabs = Some tabs' \<Longrightarrow>
    tabs' = (fst (update_approvals g f (fst tabs)), fst (updateMany (awaiting i) (set_status st) (snd tabs))) \<and>
    snd (update_approvals g f (fst tabs)) = 1 \<and> snd (updateMany (awaiting i) (set_status st) (snd tabs)) = 1"
  by (auto simp: claim_pair_def Let_def split: if_splits)

definition decided_pair :: "exec_env \<Rightarrow> decision_action \<Rightarrow> string \<Rightarrow> approval \<Rightarrow> trade_record \<Rightarrow> approval_tables \<Rightarrow> approval_tables \<Rightarrow> bool" where
  "decided_pair env action j a r tabs tabs' \<longleftrightarrow> (\<exists>actor st tst.
     claim_pair (\<lambda>x. ap_id x = j \<and> ap_status x = ApPending \<and> ap_expiresAt x > env_now env) (responded st (env_now env) actor)
       (ap_tradeRecordId a) tst tabs = Some tabs' \<and>
     (if action = APPROVE then st = ApApproved \<and> tst = SUBMITTING \<and> matches_record env r \<and> env_live env \<and> env_active env (tr_broker r)
      else st = ApRejected \<and> tst = CANCELLED))"

lemma respond_cases:
  assumes "respond env users action j user found tabs = (tabs', res)"
  shows "(tabs' = tabs \<and> \<not> wr_claimed res) \<or>
    (\<exists>a r. found = Some (a, r) \<and> \<not> wr_claimed res \<and>
       claim_pair (\<lambda>x. ap_id x = j \<and> ap_status x = ApPending \<and> ap_expiresAt x \<le> env_now env) expired (ap_tradeRecordId a) CANCELLED tabs
         = Some tabs') \<or>
    (\<exists>a r. found = Some (a, r) \<and> wr_claimed res \<and> decided_pair env action j a r tabs tabs')"
proof (cases "authorizedActor users user")
  case None
  then show ?thesis using assms by (auto simp: respond_def bare_result_def)
next
  case (Some actor)
  have po: "\<not> wr_claimed (readPersistedOutcome j tabs)"
    by (simp add: readPersistedOutcome_def bare_result_def pair_result_def split: option.splits)
  have nc: "\<not> wr_claimed (bare_result x y)" "\<not> wr_claimed (pair_result x st t u y)" for x y st t u
    by (simp_all add: bare_result_def pair_result_def)
  show ?thesis
  proof (cases found)
    case None
    then show ?thesis using assms Some nc by (auto simp: respond_def decide_def)
  next
    case (Some p)
    obtain a r where p: "p = (a, r)" by force
    show ?thesis
      using assms \<open>authorizedActor users user = Some actor\<close> Some p nc po
      by (cases action) (auto simp: respond_def decide_def decided_pair_def Let_def split: if_splits option.splits)
  qed
qed

section \<open>The quantity that is sold\<close>

lemma min_within_floor:
  assumes "0 < q" "\<not> floor_num (or_opt (Some x) (Fin 0)) \<le> Fin 0"
  shows "Fin 0 < min_num (Fin q) (floor_num (or_opt (Some x) (Fin 0))) \<and>
    min_num (Fin q) (floor_num (or_opt (Some x) (Fin 0))) \<le> Fin q \<and> min_num (Fin q) (floor_num (or_opt (Some x) (Fin 0))) \<le> x"
proof (cases x)
  case (Fin v)
  then have "or_opt (Some x) (Fin 0) = Fin v" by (simp add: or_opt_def or_num_def truthy_def)
  then show ?thesis using assms Fin by (auto simp: min_num_def isNaN_def) linarith+
qed (use assms in \<open>simp_all add: or_opt_def or_num_def truthy_def min_num_def isNaN_def floor_num_def\<close>)

text \<open>
  (C15) An approved sell goes on only with a positive quantity that exceeds neither the quantity approved
  nor what the broker reports as held of that instrument now, and only while live trading is on.
\<close>

theorem approved_sell_within_holding:
  assumes "sell_prepare env a (Fin q) holdings = Clamping n" "0 < q"
  shows "env_live env \<and> (\<exists>hs h. holdings = Inr hs \<and> h \<in> set hs \<and>
    matchesHolding (ap_market a) (ap_exchangeCode a) (ap_stockCode a) h \<and> Fin 0 < n \<and> n \<le> Fin q \<and> n \<le> ho_quantity h)"
proof -
  obtain hs where hs: "holdings = Inr hs" "env_live env" "\<not> held_quantity a hs \<le> Fin 0" "n = min_num (Fin q) (held_quantity a hs)"
    using assms(1) by (auto simp: sell_prepare_def Let_def split: sum.splits if_splits)
  obtain h where h: "List.find (matchesHolding (ap_market a) (ap_exchangeCode a) (ap_stockCode a)) hs = Some h"
    using hs(3) by (cases "List.find (matchesHolding (ap_market a) (ap_exchangeCode a) (ap_stockCode a)) hs")
      (auto simp: held_quantity_def or_opt_def floor_num_def)
  have "held_quantity a hs = floor_num (or_opt (Some (ho_quantity h)) (Fin 0))"
    by (simp add: held_quantity_def h)
  then have "Fin 0 < n \<and> n \<le> Fin q \<and> n \<le> ho_quantity h"
    using min_within_floor [OF assms(2)] hs(3,4) by simp
  moreover have "h \<in> set hs \<and> matchesHolding (ap_market a) (ap_exchangeCode a) (ap_stockCode a) h"
    using h by (auto simp: find_Some_iff)
  ultimately show ?thesis using hs(1,2) by blast
qed

definition example_approval :: approval where
  "example_approval = new_approval ''p'' ''a'' 1000 (example_signal\<lparr>sg_side := SELL\<rparr>) (Some ''daily-dca'') (None :: unit strategy_context option)"

definition example_holdings :: "holding list" where
  "example_holdings = [\<lparr>ho_exchangeCode = Some ''NASD'', ho_stockCode = ''SOXL'', ho_quantity = Fin 9\<rparr>,
     \<lparr>ho_exchangeCode = Some ''NASD'', ho_stockCode = ''TQQQ'', ho_quantity = Fin 3\<rparr>]"

theorem approved_sell_within_holding_witness:
  "sell_prepare example_env example_approval (Fin 5) (Inr example_holdings) = Clamping (Fin 3) \<and> Fin 0 < Fin 3"
proof -
  have c: "sell_prepare example_env example_approval (Fin 5) (Inr example_holdings) = Clamping (Fin 3)"
    by (simp add: sell_prepare_def held_quantity_def example_holdings_def matchesHolding_def example_approval_def new_approval_def
        example_signal_def example_env_def to_upper_def upper_char_def trim_def is_space_def or_str_def or_opt_def or_num_def
        truthy_def min_num_def isNaN_def Let_def)
  show ?thesis using approved_sell_within_holding [OF c] c by simp
qed

end
