(* ===== verification/OrderSystem.thy ===== *)
theory OrderSystem imports OrderTables SellApprovalWorkflow begin

text \<open>
  The order services together: any number of handlers, of automatic orders and of approved sells, each
  standing between two of its segments, beside the requests for approvals and the decisions on them, the
  take-over at start, cancellations and reconciliation passes, all working on the same tables. A step is
  one segment of a handler or one transaction; a handler may be lost at any point (a crash or a database
  error), the configuration may change at any point, and a step works on rows as they were when it read
  them. The broker's inbox and the notices to the strategies are recorded as they happen.
\<close>

section \<open>State\<close>

datatype handler_pc = Automatic exec_pc | Approved sell_pc

record run =
  rn_id :: string
  rn_account :: broker_context
  rn_pc :: handler_pc

text \<open>\<open>sy_sent\<close> are the ids whose order was sent to a broker; \<open>sy_seen\<close> every version of every row so far.\<close>

record order_system =
  sy_db :: order_db
  sy_approvals :: "approval list"
  sy_env :: exec_env
  sy_runs :: "run list"
  sy_sent :: "string list"
  sy_seen :: "trade_record set"
  sy_notices :: "strategy_notice list"

definition stored :: "order_db \<Rightarrow> order_system \<Rightarrow> order_system" where
  "stored db s = s\<lparr>sy_db := db, sy_seen := sy_seen s \<union> set (db_orders db)\<rparr>"

definition stored_pair :: "approval_tables \<Rightarrow> order_system \<Rightarrow> order_system" where
  "stored_pair tabs s = (stored (snd tabs) s)\<lparr>sy_approvals := fst tabs\<rparr>"

definition tables :: "order_system \<Rightarrow> approval_tables" where
  "tables s = (sy_approvals s, sy_db s)"

definition with_pc :: "string \<Rightarrow> handler_pc \<Rightarrow> run list \<Rightarrow> run list" where
  "with_pc i pc rns = map (\<lambda>rn. if rn_id rn = i then rn\<lparr>rn_pc := pc\<rparr> else rn) rns"

definition moved :: "string \<Rightarrow> handler_pc \<Rightarrow> order_system \<Rightarrow> order_system" where
  "moved i pc s = s\<lparr>sy_runs := with_pc i pc (sy_runs s)\<rparr>"

definition begun :: "run list \<Rightarrow> order_system \<Rightarrow> order_system" where
  "begun rns s = s\<lparr>sy_runs := sy_runs s @ rns\<rparr>"

definition posted :: "string \<Rightarrow> order_system \<Rightarrow> order_system" where
  "posted i s = s\<lparr>sy_sent := sy_sent s @ [i]\<rparr>"

definition stands :: "string \<Rightarrow> broker_context \<Rightarrow> handler_pc \<Rightarrow> order_system \<Rightarrow> bool" where
  "stands i c pc s \<longleftrightarrow> \<lparr>rn_id = i, rn_account = c, rn_pc = pc\<rparr> \<in> set (sy_runs s)"

text \<open>A version of a row that was read, at any time before.\<close>

definition read_row :: "string \<Rightarrow> trade_record \<Rightarrow> order_system \<Rightarrow> bool" where
  "read_row i r s \<longleftrightarrow> r \<in> sy_seen s \<and> tr_id r = i"

text \<open>A pair as a transaction read it: the row of the approval may have changed since, its order too.\<close>

definition read_pair :: "string \<Rightarrow> (approval \<times> trade_record) option \<Rightarrow> order_system \<Rightarrow> bool" where
  "read_pair approvalId found s \<longleftrightarrow> (case found of None \<Rightarrow> True
     | Some (a, r) \<Rightarrow> read_row (ap_tradeRecordId a) r s \<and>
        (\<exists>x \<in> set (sy_approvals s). ap_id x = approvalId \<and> ap_id a = approvalId \<and> ap_tradeRecordId x = ap_tradeRecordId a))"

text \<open>The account an order was admitted for, as its row has it.\<close>

definition record_account :: "trade_record \<Rightarrow> broker_context" where
  "record_account r = \<lparr>bc_broker = tr_broker r, bc_environment = the (tr_brokerEnvironment r),
     bc_accountHash = the (tr_brokerAccountHash r), bc_maskedAccount = []\<rparr>"

text \<open>The handler a decision starts, if it claimed an approved sell.\<close>

definition decided_runs :: "(approval \<times> trade_record) option \<Rightarrow> decision_action \<Rightarrow> workflow_result \<Rightarrow> run list" where
  "decided_runs found action res =
    (case found of None \<Rightarrow> []
     | Some (a, r) \<Rightarrow> if action = APPROVE \<and> wr_claimed res
         then [\<lparr>rn_id = ap_tradeRecordId a, rn_account = record_account r, rn_pc = Approved Opening\<rparr>] else [])"

section \<open>Steps\<close>

inductive order_step :: "order_system \<Rightarrow> order_system \<Rightarrow> bool" where
  configured: "order_step s (s\<lparr>sy_env := env\<rparr>)"
| admitted: "exec_admit (sy_env s) i id bo (sg :: trading_signal) n (sy_db s) = Inr (db, Some (r, c)) \<Longrightarrow>
    i \<notin> set (ids (sy_db s)) \<Longrightarrow> sg_quantity sg = Fin (of_nat q) \<Longrightarrow> q \<le> 2 ^ 53 \<Longrightarrow>
    order_step s (begun [\<lparr>rn_id = i, rn_account = c, rn_pc = Automatic Preparing\<rparr>] (stored db s))"
| prepared: "stands i c (Automatic Preparing) s \<Longrightarrow>
    order_step s (moved i (Automatic (exec_prepare (sy_env s) c marked refreshed)) s)"
| cancelled_before: "stands i c (Automatic (CancellingPre m)) s \<Longrightarrow>
    order_step s (moved i (Automatic (Returned False)) (stored (cancelPreSubmit i m (sy_db s)) s))"
| claimed: "stands i c (Automatic Claiming) s \<Longrightarrow> exec_claim i t (sy_db s) = (db, pc) \<Longrightarrow>
    order_step s (moved i (Automatic pc) (stored db s))"
| not_submitted: "stands i c (Automatic (Claimed t)) s \<Longrightarrow> exec_submit (sy_env s) c t = Aborting t m \<Longrightarrow>
    order_step s (moved i (Automatic (Aborting t m)) s)"
| submitted: "stands i c (Automatic (Claimed t)) s \<Longrightarrow> exec_submit (sy_env s) c t = Submitted \<Longrightarrow>
    order_step s (posted i (moved i (Automatic Submitted) s))"
| aborted: "stands i c (Automatic (Aborting t m)) s \<Longrightarrow>
    order_step s (moved i (Automatic (Returned False)) (stored (exec_abort i t m (sy_db s)) s))"
| answered: "stands i c (Automatic Submitted) s \<Longrightarrow> order_step s (moved i (Automatic (Recording answer)) s)"
| recorded: "stands i c (Automatic (Recording answer)) s \<Longrightarrow> exec_record reply i answer (sy_db s) = (db, ok) \<Longrightarrow>
    order_step s (moved i (Automatic (Returned ok)) (stored db s))"
| lost: "order_step s (s\<lparr>sy_runs := filter (\<lambda>rn. rn_id rn \<noteq> i) (sy_runs s)\<rparr>)"
| due_expired: "expireDueApprovalPairs b sg t (tables s) = Inr tabs \<Longrightarrow> order_step s (stored_pair tabs s)"
| approval_requested: "request_admission (sy_env s) i j b sg ot n (ctx :: unit strategy_context option) (tables s) =
      Inr (tabs, Some a) \<Longrightarrow> shouldRequireApproval sg n ctx \<Longrightarrow>
    i \<notin> set (ids (sy_db s)) \<Longrightarrow> j \<notin> set (map ap_id (sy_approvals s)) \<Longrightarrow>
    sg_quantity sg = Fin (of_nat q) \<Longrightarrow> q \<le> 2 ^ 53 \<Longrightarrow> order_step s (stored_pair tabs s)"
| request_delivered: "a \<in> set (sy_approvals s) \<Longrightarrow>
    order_step s (s\<lparr>sy_approvals := fst (finalize_delivery t a
      (parseSlackDelivery answer (ap_requestedAt a) received) (sy_approvals s))\<rparr>)"
| request_undelivered: "a \<in> set (sy_approvals s) \<Longrightarrow>
    expireApprovalPair (ap_id a) (ap_tradeRecordId a) (tables s) = Inr tabs \<Longrightarrow> order_step s (stored_pair tabs s)"
| decided: "read_pair j found s \<Longrightarrow> respond (sy_env s) users action j user found (tables s) = (tabs, res) \<Longrightarrow>
    order_step s (begun (decided_runs found action res) (stored_pair tabs s))"
| sell_opened: "stands i c (Approved Opening) s \<Longrightarrow> a \<in> set (sy_approvals s) \<Longrightarrow> ap_tradeRecordId a = i \<Longrightarrow>
    order_step s (moved i (Approved (sell_open (sy_env s) (ap_id a) (tables s))) s)"
| sell_prepared: "stands i c (Approved (Refreshing q)) s \<Longrightarrow> a \<in> set (sy_approvals s) \<Longrightarrow> ap_tradeRecordId a = i \<Longrightarrow>
    order_step s (moved i (Approved (sell_prepare (sy_env s) a q holdings)) s)"
| sell_clamped: "stands i c (Approved (Clamping q)) s \<Longrightarrow> a \<in> set (sy_approvals s) \<Longrightarrow> ap_tradeRecordId a = i \<Longrightarrow>
    read_row i r s \<Longrightarrow>
    sell_clamp (sy_env s) a r q reply (sy_approvals s) = (as, pc) \<Longrightarrow>
    order_step s (moved i (Approved pc) (s\<lparr>sy_approvals := as\<rparr>))"
| sell_cancelled: "stands i c (Approved (SellCancelling m reason)) s \<Longrightarrow> sell_cancel cur i m reason (sy_db s) = (db, pc) \<Longrightarrow>
    order_step s (moved i (Approved pc) (stored db s))"
| sell_claimed: "stands i c (Approved (SellClaiming q)) s \<Longrightarrow> sell_claim cur i q t (sy_db s) = (db, pc) \<Longrightarrow>
    order_step s (moved i (Approved pc) (stored db s))"
| sell_checked: "stands i c (Approved (SellClaimed t q)) s \<Longrightarrow> read_row i r s \<Longrightarrow>
    order_step s (moved i (Approved (sell_check (sy_env s) r t q)) s)"
| sell_not_submitted: "stands i c (Approved (SellLogged t q)) s \<Longrightarrow> read_row i r s \<Longrightarrow>
    sell_submit (sy_env s) r t q = SellAborting t m reason \<Longrightarrow>
    order_step s (moved i (Approved (SellAborting t m reason)) s)"
| sell_submitted: "stands i c (Approved (SellLogged t q)) s \<Longrightarrow> read_row i r s \<Longrightarrow>
    sell_submit (sy_env s) r t q = SellSubmitted q \<Longrightarrow>
    order_step s (posted i (moved i (Approved (SellSubmitted q)) s))"
| sell_aborted: "stands i c (Approved (SellAborting t m reason)) s \<Longrightarrow> sell_abort cur i t m reason (sy_db s) = (db, pc) \<Longrightarrow>
    order_step s (moved i (Approved pc) (stored db s))"
| sell_answered: "stands i c (Approved (SellSubmitted q)) s \<Longrightarrow>
    order_step s (moved i (Approved (SellRecording answer)) s)"
| sell_recorded: "stands i c (Approved (SellRecording answer)) s \<Longrightarrow> sell_record reply cur i answer (sy_db s) = (db, res) \<Longrightarrow>
    order_step s (moved i (Approved (SellReturned res)) (stored db s))"
| taken_over: "r \<in> sy_seen s \<Longrightarrow> tr_status r = SUBMITTING \<Longrightarrow>
    order_step s (stored (fst (take_over_submission (tr_id r) (tr_submissionStartedAt r) (sy_db s))) s)"
| cancellation_claimed: "order_step s (stored (fst (claimCancellation i b t (sy_db s))) s)"
| cancellation_released: "order_step s (stored (fst (releaseCancellationClaim i b m t (sy_db s))) s)"
| cancellation_accepted: "order_step s (stored (fst (markCancellationAccepted i b m (sy_db s))) s)"
| cancellation_rejected: "order_step s (stored (fst (markCancellationRejected i b m t (sy_db s))) s)"
| cancellation_unknown: "order_step s (stored (fst (markCancellationUnknown i b m (sy_db s))) s)"
| assigned: "assignCurrentContext current token_matches i token actor (sy_db s) = Inr (db, item) \<Longrightarrow>
    order_step s (stored db s)"
| reconciled: "r \<in> sy_seen s \<Longrightarrow> tr_status r \<in> {PENDING, PARTIAL} \<Longrightarrow> tr_orderNo r \<noteq> None \<Longrightarrow> whole_fills os \<Longrightarrow>
    apply_decision (reconcile_decision describe m t held_now us os r) (sy_db s) = (db, ns, new) \<Longrightarrow>
    order_step s ((stored db s)\<lparr>sy_notices := sy_notices s @ ns\<rparr>)"

text \<open>The system starts with empty tables and no handler.\<close>

definition initial :: "order_system \<Rightarrow> bool" where
  "initial s \<longleftrightarrow> db_orders (sy_db s) = [] \<and> sy_approvals s = [] \<and> sy_runs s = [] \<and> sy_sent s = [] \<and> sy_seen s = {} \<and>
     sy_notices s = []"

inductive reachable :: "order_system \<Rightarrow> bool" where
  start: "initial s \<Longrightarrow> reachable s"
| step: "reachable s \<Longrightarrow> order_step s s' \<Longrightarrow> reachable s'"

section \<open>The parts of a state after a step\<close>

lemma stored_simps [simp]:
  "sy_db (stored db s) = db" "sy_seen (stored db s) = sy_seen s \<union> set (db_orders db)"
  "sy_approvals (stored db s) = sy_approvals s" "sy_env (stored db s) = sy_env s" "sy_runs (stored db s) = sy_runs s"
  "sy_sent (stored db s) = sy_sent s" "sy_notices (stored db s) = sy_notices s"
  by (simp_all add: stored_def)

lemma stored_pair_simps [simp]:
  "sy_db (stored_pair tabs s) = snd tabs" "sy_seen (stored_pair tabs s) = sy_seen s \<union> set (db_orders (snd tabs))"
  "sy_approvals (stored_pair tabs s) = fst tabs" "sy_env (stored_pair tabs s) = sy_env s"
  "sy_runs (stored_pair tabs s) = sy_runs s" "sy_sent (stored_pair tabs s) = sy_sent s"
  "sy_notices (stored_pair tabs s) = sy_notices s"
  by (simp_all add: stored_pair_def)

lemma moved_simps [simp]:
  "sy_db (moved i pc s) = sy_db s" "sy_seen (moved i pc s) = sy_seen s" "sy_approvals (moved i pc s) = sy_approvals s"
  "sy_env (moved i pc s) = sy_env s" "sy_runs (moved i pc s) = with_pc i pc (sy_runs s)" "sy_sent (moved i pc s) = sy_sent s"
  "sy_notices (moved i pc s) = sy_notices s"
  by (simp_all add: moved_def)

lemma begun_simps [simp]:
  "sy_db (begun rns s) = sy_db s" "sy_seen (begun rns s) = sy_seen s" "sy_approvals (begun rns s) = sy_approvals s"
  "sy_env (begun rns s) = sy_env s" "sy_runs (begun rns s) = sy_runs s @ rns" "sy_sent (begun rns s) = sy_sent s"
  "sy_notices (begun rns s) = sy_notices s"
  by (simp_all add: begun_def)

lemma posted_simps [simp]:
  "sy_db (posted i s) = sy_db s" "sy_seen (posted i s) = sy_seen s" "sy_approvals (posted i s) = sy_approvals s"
  "sy_env (posted i s) = sy_env s" "sy_runs (posted i s) = sy_runs s" "sy_sent (posted i s) = sy_sent s @ [i]"
  "sy_notices (posted i s) = sy_notices s"
  by (simp_all add: posted_def)

lemma tables_simps [simp]: "fst (tables s) = sy_approvals s" "snd (tables s) = sy_db s"
  by (simp_all add: tables_def)

end
