(* ===== verification/OrderHandlers.thy ===== *)
theory OrderHandlers imports OrderSystem begin

text \<open>
  The invariant of the handlers: at most one per order, each knowing the account of its row, holding the
  submission start it stored, and past its submission once its order was sent; and no handler for an order
  that awaits an approval. Every step of the system keeps it together with the invariant of the tables.
\<close>

section \<open>The invariant of the handlers\<close>

definition account_of :: "broker_context \<Rightarrow> trade_record \<Rightarrow> bool" where
  "account_of c r \<longleftrightarrow> tr_broker r = bc_broker c \<and> tr_brokerEnvironment r = Some (bc_environment c) \<and>
     tr_brokerAccountHash r = Some (bc_accountHash c)"

definition past_claim :: "handler_pc \<Rightarrow> int option" where
  "past_claim pc = (case pc of
     Automatic p \<Rightarrow> (case p of Claimed t \<Rightarrow> Some t | Aborting t m \<Rightarrow> Some t | _ \<Rightarrow> None)
   | Approved p \<Rightarrow> (case p of SellClaimed t q \<Rightarrow> Some t | SellLogged t q \<Rightarrow> Some t | SellAborting t m x \<Rightarrow> Some t | _ \<Rightarrow> None))"

definition sent_pc :: "handler_pc \<Rightarrow> bool" where
  "sent_pc pc = (case pc of
     Automatic p \<Rightarrow> (case p of Submitted \<Rightarrow> True | Recording _ \<Rightarrow> True | Returned _ \<Rightarrow> True | _ \<Rightarrow> False)
   | Approved p \<Rightarrow> (case p of SellSubmitted _ \<Rightarrow> True | SellRecording _ \<Rightarrow> True | SellReturned _ \<Rightarrow> True | _ \<Rightarrow> False))"

text \<open>The quantity an approved sell is about to claim.\<close>

definition selling :: "handler_pc \<Rightarrow> jsnum option" where
  "selling pc = (case pc of Automatic p \<Rightarrow> None
   | Approved p \<Rightarrow> (case p of Refreshing q \<Rightarrow> Some q | Clamping q \<Rightarrow> Some q | SellClaiming q \<Rightarrow> Some q | _ \<Rightarrow> None))"

definition whole :: "jsnum \<Rightarrow> bool" where
  "whole q \<longleftrightarrow> (\<exists>n. q = Fin (of_nat n) \<and> n \<le> 2 ^ 53)"

definition run_ok :: "order_db \<Rightarrow> string list \<Rightarrow> run \<Rightarrow> bool" where
  "run_ok db sent rn \<longleftrightarrow> rn_id rn \<in> set (ids db) \<and> (rn_id rn \<in> set sent \<longrightarrow> sent_pc (rn_pc rn)) \<and>
     (\<forall>q. selling (rn_pc rn) = Some q \<longrightarrow> whole q) \<and>
     (\<forall>r \<in> set (db_orders db). tr_id r = rn_id rn \<longrightarrow> account_of (rn_account rn) r \<and> tr_status r \<noteq> AWAITING_APPROVAL \<and>
        (\<forall>t. past_claim (rn_pc rn) = Some t \<longrightarrow> tr_submissionStartedAt r = Some t))"

definition run_inv :: "order_db \<Rightarrow> run list \<Rightarrow> string list \<Rightarrow> bool" where
  "run_inv db rns sent \<longleftrightarrow> distinct (map rn_id rns) \<and> distinct sent \<and> (\<forall>rn \<in> set rns. run_ok db sent rn) \<and>
     (\<forall>i \<in> set sent. \<exists>r \<in> set (db_orders db). tr_id r = i \<and> tr_submissionStartedAt r \<noteq> None) \<and>
     (\<forall>r \<in> set (db_orders db). tr_status r = AWAITING_APPROVAL \<longrightarrow> tr_submissionStartedAt r = None)"

lemma run_ok_kept:
  assumes "rows kept db db'" "run_ok db sent rn"
  shows "run_ok db' sent rn"
proof -
  have "ids db' = ids db" using rows_id [OF assms(1)] by (simp add: kept_def)
  moreover have "account_of (rn_account rn) r' \<and> tr_status r' \<noteq> AWAITING_APPROVAL \<and> (\<forall>t. past_claim (rn_pc rn) = Some t \<longrightarrow> tr_submissionStartedAt r' = Some t)"
    if r': "r' \<in> set (db_orders db')" "tr_id r' = rn_id rn" for r'
  proof -
    obtain r where r: "r \<in> set (db_orders db)" "kept r r'" using rows_backward [OF assms(1) r'(1)] by blast
    then have "account_of (rn_account rn) r \<and> tr_status r \<noteq> AWAITING_APPROVAL \<and> (\<forall>t. past_claim (rn_pc rn) = Some t \<longrightarrow> tr_submissionStartedAt r = Some t)"
      using assms(2) r'(2) by (simp add: run_ok_def kept_def)
    then show ?thesis using r(2) by (simp add: account_of_def kept_def same_account_def)
  qed
  ultimately show ?thesis using assms(2) by (simp add: run_ok_def)
qed

lemma run_inv_sent:
  "run_inv db rns sent \<Longrightarrow> j \<in> set sent \<Longrightarrow>
    \<exists>r \<in> set (db_orders db). tr_id r = j \<and> tr_submissionStartedAt r \<noteq> None"
  by (simp add: run_inv_def)

lemma run_inv_run: "run_inv db rns sent \<Longrightarrow> rn \<in> set rns \<Longrightarrow> run_ok db sent rn"
  by (simp add: run_inv_def)

lemma run_inv_kept: "rows kept db db' \<Longrightarrow> run_inv db rns sent \<Longrightarrow> run_inv db' rns sent"
proof -
  assume k: "rows kept db db'" and i: "run_inv db rns sent"
  have "\<exists>r \<in> set (db_orders db'). tr_id r = j \<and> tr_submissionStartedAt r \<noteq> None" if j: "j \<in> set sent" for j
  proof -
    obtain r where r: "r \<in> set (db_orders db)" "tr_id r = j" "tr_submissionStartedAt r \<noteq> None"
      using run_inv_sent [OF i j] by blast
    obtain r' where "r' \<in> set (db_orders db')" "kept r r'" using rows_forward [OF k r(1)] by blast
    then show ?thesis using r by (auto simp: kept_def)
  qed
  moreover have "tr_submissionStartedAt r' = None" if r': "r' \<in> set (db_orders db')" "tr_status r' = AWAITING_APPROVAL" for r'
  proof -
    obtain r where "r \<in> set (db_orders db)" "kept r r'" using rows_backward [OF k r'(1)] by blast
    then show ?thesis using i r'(2) by (auto simp: run_inv_def kept_def)
  qed
  ultimately show ?thesis using i run_ok_kept [OF k] by (simp add: run_inv_def)
qed

lemma run_unique: "distinct (map rn_id rns) \<Longrightarrow> a \<in> set rns \<Longrightarrow> b \<in> set rns \<Longrightarrow> rn_id a = rn_id b \<Longrightarrow> a = b"
  by (metis distinct_map inj_onD)

lemma with_pc_ids [simp]: "map rn_id (with_pc i pc rns) = map rn_id rns"
  by (simp add: with_pc_def comp_def)

lemma with_pc_at: "rn \<in> set (with_pc i pc rns) \<Longrightarrow> rn_id rn = i \<Longrightarrow> rn_pc rn = pc"
  unfolding with_pc_def set_map by (elim imageE) (simp split: if_splits)

text \<open>A handler moves: its next point must fit its row, and the other handlers are not touched.\<close>

lemma run_inv_move:
  assumes "run_inv db rns sent" "\<lparr>rn_id = i, rn_account = c, rn_pc = pc0\<rparr> \<in> set rns"
    "run_ok db sent \<lparr>rn_id = i, rn_account = c, rn_pc = pc\<rparr>"
  shows "run_inv db (with_pc i pc rns) sent"
proof -
  have "run_ok db sent rn" if rn: "rn \<in> set (with_pc i pc rns)" for rn
  proof (cases "rn_id rn = i")
    case True
    then obtain rn0 where rn0: "rn0 \<in> set rns" "rn = rn0\<lparr>rn_pc := pc\<rparr>" "rn_id rn0 = i"
      using rn by (auto simp: with_pc_def split: if_splits)
    have "rn0 = \<lparr>rn_id = i, rn_account = c, rn_pc = pc0\<rparr>"
      by (rule run_unique [OF _ rn0(1) assms(2)]) (use assms(1) rn0(3) in \<open>simp_all add: run_inv_def\<close>)
    then show ?thesis using assms(3) rn0(2) by simp
  next
    case False
    then show ?thesis using rn assms(1) by (auto simp: with_pc_def run_inv_def split: if_splits)
  qed
  then show ?thesis using assms(1) by (simp add: run_inv_def)
qed

lemma run_ok_at:
  "run_inv db rns sent \<Longrightarrow> \<lparr>rn_id = i, rn_account = c, rn_pc = pc0\<rparr> \<in> set rns \<Longrightarrow>
    run_ok db sent \<lparr>rn_id = i, rn_account = c, rn_pc = pc0\<rparr>"
  by (simp add: run_inv_def)

lemma run_ok_step:
  assumes "run_ok db sent \<lparr>rn_id = i, rn_account = c, rn_pc = pc0\<rparr>" "past_claim pc = None \<or> past_claim pc = past_claim pc0"
    "sent_pc pc0 \<longrightarrow> sent_pc pc" "\<And>q. selling pc = Some q \<Longrightarrow> whole q"
  shows "run_ok db sent \<lparr>rn_id = i, rn_account = c, rn_pc = pc\<rparr>"
  using assms by (auto simp: run_ok_def)

text \<open>The handler's own claim and abort touch its row only.\<close>

lemma others_kept:
  assumes "\<And>r. g r \<Longrightarrow> tr_id r = i" "\<And>r. tr_id (f r) = tr_id r" "run_ok db sent rn" "rn_id rn \<noteq> i"
  shows "run_ok (fst (updateMany g f db)) sent rn"
proof -
  have "ids (fst (updateMany g f db)) = ids db" using assms(2) by (simp add: ids_def change_where_def comp_def)
  moreover have "r \<in> set (db_orders db)" if "r \<in> set (db_orders (fst (updateMany g f db)))" "tr_id r = rn_id rn" for r
    using that assms(1,2,4) by (auto simp: change_where_def split: if_splits)
  ultimately show ?thesis using assms(3) by (auto simp: run_ok_def)
qed

lemma sent_rows_kept:
  assumes "\<And>r. g r \<Longrightarrow> tr_id r = i" "\<And>r. tr_id (f r) = tr_id r" "i \<notin> set sent \<or> (\<forall>r. tr_submissionStartedAt (f r) \<noteq> None)"
    "\<forall>j \<in> set sent. \<exists>r \<in> set (db_orders db). tr_id r = j \<and> tr_submissionStartedAt r \<noteq> None"
  shows "\<forall>j \<in> set sent. \<exists>r \<in> set (db_orders (fst (updateMany g f db))). tr_id r = j \<and> tr_submissionStartedAt r \<noteq> None"
proof
  fix j assume j: "j \<in> set sent"
  then obtain r where r: "r \<in> set (db_orders db)" "tr_id r = j" "tr_submissionStartedAt r \<noteq> None" using assms(4) by blast
  have "tr_id (change_where g f r) = j \<and> tr_submissionStartedAt (change_where g f r) \<noteq> None"
    using assms(1,2,3) r j by (auto simp: change_where_def)
  then show "\<exists>r \<in> set (db_orders (fst (updateMany g f db))). tr_id r = j \<and> tr_submissionStartedAt r \<noteq> None"
    using r(1) by auto
qed

lemma run_inv_own:
  assumes "run_inv db rns sent" "\<lparr>rn_id = i, rn_account = c, rn_pc = pc0\<rparr> \<in> set rns" "\<not> sent_pc pc0"
    "\<And>r. g r \<Longrightarrow> tr_id r = i" "\<And>r. tr_id (f r) = tr_id r" "\<And>r. account_of c r \<Longrightarrow> account_of c (f r)"
    "\<And>r t. r \<in> set (db_orders db) \<Longrightarrow> tr_id r = i \<Longrightarrow> past_claim pc = Some t \<Longrightarrow>
       tr_submissionStartedAt (change_where g f r) = Some t"
    "\<And>r. g r \<Longrightarrow> tr_status (f r) \<noteq> AWAITING_APPROVAL" "selling pc = None"
  shows "run_inv (fst (updateMany g f db)) (with_pc i pc rns) sent"
proof -
  let ?db = "fst (updateMany g f db)"
  have ok: "run_ok db sent \<lparr>rn_id = i, rn_account = c, rn_pc = pc0\<rparr>" by (rule run_ok_at [OF assms(1,2)])
  then have ns: "i \<notin> set sent" using assms(3) by (auto simp: run_ok_def)
  have "account_of c r \<and> tr_status r \<noteq> AWAITING_APPROVAL \<and> (\<forall>t. past_claim pc = Some t \<longrightarrow> tr_submissionStartedAt r = Some t)"
    if r: "r \<in> set (db_orders ?db)" "tr_id r = i" for r
  proof -
    obtain r0 where r0: "r0 \<in> set (db_orders db)" "r = change_where g f r0" using r(1) by auto
    then have "tr_id r0 = i" using r(2) assms(5) by (auto simp: change_where_def split: if_splits)
    then show ?thesis using r0 ok assms(6-8) by (auto simp: run_ok_def change_where_def)
  qed
  then have own: "run_ok ?db sent \<lparr>rn_id = i, rn_account = c, rn_pc = pc\<rparr>"
    using ok ns assms(5,9) by (auto simp: run_ok_def ids_def change_where_def)
  have aw: "tr_submissionStartedAt r = None" if "r \<in> set (db_orders ?db)" "tr_status r = AWAITING_APPROVAL" for r
    using that assms(1,8) by (auto simp: run_inv_def change_where_def split: if_splits)
  have "run_ok ?db sent rn" if rn: "rn \<in> set (with_pc i pc rns)" for rn
  proof (cases "rn_id rn = i")
    case True
    then obtain rn0 where rn0: "rn0 \<in> set rns" "rn = rn0\<lparr>rn_pc := pc\<rparr>" "rn_id rn0 = i"
      using rn by (auto simp: with_pc_def split: if_splits)
    have "rn0 = \<lparr>rn_id = i, rn_account = c, rn_pc = pc0\<rparr>"
      by (rule run_unique [OF _ rn0(1) assms(2)]) (use assms(1) rn0(3) in \<open>simp_all add: run_inv_def\<close>)
    then show ?thesis using own rn0(2) by simp
  next
    case False
    then have "run_ok db sent rn" using rn assms(1) by (auto simp: with_pc_def run_inv_def split: if_splits)
    then show ?thesis using others_kept [OF assms(4,5)] False by blast
  qed
  then show ?thesis using assms(1) sent_rows_kept [OF assms(4,5), where sent = sent and db = db] ns aw by (simp add: run_inv_def)
qed

end
