(* ===== verification/OrderSteps.thy ===== *)
theory OrderSteps imports OrderHandlers begin

text \<open>
  Every step of the system keeps the invariant of the tables and that of the handlers; so they hold of
  every reachable state.
\<close>

section \<open>The invariant of the system\<close>

definition order_inv :: "order_system \<Rightarrow> bool" where
  "order_inv s \<longleftrightarrow> db_inv (sy_db s) (sy_seen s) (sy_notices s) \<and> run_inv (sy_db s) (sy_runs s) (sy_sent s)"

lemma inv_stored: "order_inv s \<Longrightarrow> rows tame (sy_db s) db \<and> rows kept (sy_db s) db \<Longrightarrow> order_inv (stored db s)"
  using db_inv_tame run_inv_kept by (auto simp: order_inv_def)

lemma inv_moved:
  assumes "order_inv s" "stands i c pc0 s" "past_claim pc = None \<or> past_claim pc = past_claim pc0"
    "sent_pc pc0 \<longrightarrow> sent_pc pc" "\<And>q. selling pc = Some q \<Longrightarrow> whole q"
  shows "order_inv (moved i pc s)"
proof -
  have "run_inv (sy_db s) (with_pc i pc (sy_runs s)) (sy_sent s)"
    using assms run_inv_move run_ok_step run_ok_at unfolding order_inv_def stands_def by meson
  then show ?thesis using assms(1) by (simp add: order_inv_def)
qed

lemma stands_moved: "stands i c pc0 s \<Longrightarrow> stands i c pc (moved i pc s)"
  by (force simp: stands_def moved_def with_pc_def image_iff)

lemma inv_approvals [simp]: "order_inv (s\<lparr>sy_approvals := as\<rparr>) = order_inv s"
  by (simp add: order_inv_def)

lemma stands_stored [simp]: "stands i c pc (stored db s) = stands i c pc s"
  "stands i c pc (s\<lparr>sy_approvals := as\<rparr>) = stands i c pc s"
  by (simp_all add: stands_def)

text \<open>The stage of a handler, reached from another, as simplification facts.\<close>

lemmas stage_defs = past_claim_def sent_pc_def selling_def

lemma whole_quantity:
  assumes "order_inv s" "stands i c pc s" "selling pc = Some q"
  shows "whole q"
  using assms by (auto simp: order_inv_def run_inv_def run_ok_def stands_def)

lemma run_inv_awaiting:
  "run_inv db rns sent \<Longrightarrow> r \<in> set (db_orders db) \<Longrightarrow> tr_status r = AWAITING_APPROVAL \<Longrightarrow> tr_submissionStartedAt r = None"
  by (simp add: run_inv_def)

lemma run_inv_row:
  "run_inv db rns sent \<Longrightarrow> rn \<in> set rns \<Longrightarrow> r \<in> set (db_orders db) \<Longrightarrow> tr_id r = rn_id rn \<Longrightarrow>
    account_of (rn_account rn) r \<and> tr_status r \<noteq> AWAITING_APPROVAL"
  by (simp add: run_inv_def run_ok_def)

lemma run_inv_ids: "run_inv db rns sent \<Longrightarrow> rn \<in> set rns \<Longrightarrow> rn_id rn \<in> set (ids db)"
  by (simp add: run_inv_def run_ok_def)

lemma run_invI:
  assumes "distinct (map rn_id rns)" "distinct sent" "\<And>rn. rn \<in> set rns \<Longrightarrow> run_ok db sent rn"
    "\<And>i. i \<in> set sent \<Longrightarrow> \<exists>r \<in> set (db_orders db). tr_id r = i \<and> tr_submissionStartedAt r \<noteq> None"
    "\<And>r. r \<in> set (db_orders db) \<Longrightarrow> tr_status r = AWAITING_APPROVAL \<Longrightarrow> tr_submissionStartedAt r = None"
  shows "run_inv db rns sent"
  using assms unfolding run_inv_def by blast

lemma run_inv_distinct: "run_inv db rns sent \<Longrightarrow> distinct (map rn_id rns) \<and> distinct sent"
  by (simp add: run_inv_def)

lemma order_inv_runs: "order_inv s \<Longrightarrow> run_inv (sy_db s) (sy_runs s) (sy_sent s)"
  by (simp add: order_inv_def)

lemma unique_row:
  "order_inv s \<Longrightarrow> x \<in> set (db_orders (sy_db s)) \<Longrightarrow> y \<in> set (db_orders (sy_db s)) \<Longrightarrow> tr_id x = tr_id y \<Longrightarrow> x = y"
  unfolding order_inv_def db_inv_def ids_def by (metis distinct_map inj_onD)

section \<open>A handler's own updates\<close>

lemma tame_claim: "rows tame db (fst (updateMany (unsubmitted i) (set_started t) db))"
  by (rule rows_update) (auto simp: row_change_defs change_defs guard_defs key_of_def is_unresolved_def)

lemma tame_abort: "rows tame db (fst (updateMany (started_at i t) (set_aborted m) db))"
  by (rule rows_update) (auto simp: row_change_defs change_defs guard_defs key_of_def is_unresolved_def)

lemma own_start:
  assumes "distinct (ids db)" "snd (updateMany (unsubmitted i) f db) \<noteq> 0" "\<And>r. tr_submissionStartedAt (f r) = Some t"
    "r \<in> set (db_orders db)" "tr_id r = i"
  shows "tr_submissionStartedAt (change_where (unsubmitted i) f r) = Some t"
proof -
  obtain x where x: "x \<in> set (db_orders db)" "unsubmitted i x" using assms(2) by (auto simp: updateMany_count)
  have "r = x" using assms(1,4,5) x by (auto simp: ids_def distinct_map unsubmitted_def dest: inj_onD)
  then show ?thesis using x(2) assms(3) by (simp add: change_where_def)
qed

lemma inv_claimed:
  assumes "order_inv s" "stands i c (Automatic Claiming) s" "exec_claim i t (sy_db s) = (db, pc)"
  shows "order_inv (moved i (Automatic pc) (stored db s))"
proof (cases "snd (updateMany (unsubmitted i) (set_started t) (sy_db s)) = 0")
  case True
  then have "db = sy_db s" "pc = Returned False"
    using assms(3) updateMany_none [of "sy_db s" "unsubmitted i"] by (auto simp: exec_claim_def Let_def updateMany_count)
  then show ?thesis using inv_moved [OF inv_stored [OF assms(1)], of "sy_db s" i c "Automatic Claiming" "Automatic pc"] assms(2)
    by (simp add: rows_refl stage_defs)
next
  case False
  then have p: "db = fst (updateMany (unsubmitted i) (set_started t) (sy_db s))" "pc = Claimed t"
    using assms(3) by (auto simp: exec_claim_def Let_def)
  have d: "distinct (ids (sy_db s))" using assms(1) by (simp add: order_inv_def db_inv_def)
  note st = own_start [OF d False, of t]
  have "run_inv db (with_pc i (Automatic pc) (sy_runs s)) (sy_sent s)" unfolding p
    using assms(1,2) st by (intro run_inv_own [where ?pc0.0 = "Automatic Claiming" and c = c])
      (auto simp: order_inv_def stands_def stage_defs unsubmitted_def set_started_def account_of_def)
  moreover have "db_inv db (sy_seen s \<union> set (db_orders db)) (sy_notices s)"
    using db_inv_tame [OF _ tame_claim] assms(1) p(1) by (simp add: order_inv_def)
  ultimately show ?thesis by (simp add: order_inv_def)
qed

text \<open>The abort of either handler: the claim it made is taken back.\<close>

lemma inv_abort:
  assumes "order_inv s" "stands i c pc0 s" "past_claim pc0 = Some t" "\<not> sent_pc pc0" "past_claim pc = None" "selling pc = None"
  shows "order_inv (moved i pc (stored (fst (updateMany (started_at i t) (set_aborted m) (sy_db s))) s))"
proof -
  let ?db = "fst (updateMany (started_at i t) (set_aborted m) (sy_db s))"
  have "run_inv ?db (with_pc i pc (sy_runs s)) (sy_sent s)"
    using assms by (intro run_inv_own [where ?pc0.0 = pc0 and c = c])
      (auto simp: order_inv_def stands_def started_at_def set_aborted_def account_of_def)
  moreover have "db_inv ?db (sy_seen s \<union> set (db_orders ?db)) (sy_notices s)"
    using db_inv_tame [OF _ tame_abort] assms(1) by (simp add: order_inv_def)
  ultimately show ?thesis by (simp add: order_inv_def)
qed

text \<open>An order is sent by a handler that holds its claim.\<close>

lemma inv_submitted:
  assumes "order_inv s" "stands i c pc0 s" "past_claim pc0 = Some t" "\<not> sent_pc pc0" "past_claim pc = None" "sent_pc pc"
    "selling pc = None"
  shows "order_inv (posted i (moved i pc s))"
proof -
  let ?rns = "with_pc i pc (sy_runs s)"
  have inv: "run_inv (sy_db s) (sy_runs s) (sy_sent s)" using assms(1) by (simp add: order_inv_def)
  have ok: "run_ok (sy_db s) (sy_sent s) \<lparr>rn_id = i, rn_account = c, rn_pc = pc0\<rparr>"
    using inv assms(2) by (simp add: run_inv_def stands_def)
  then have ni: "i \<notin> set (sy_sent s)" using assms(4) by (auto simp: run_ok_def)
  obtain r where r: "r \<in> set (db_orders (sy_db s))" "tr_id r = i" using ok by (auto simp: run_ok_def ids_def)
  then have st: "tr_submissionStartedAt r = Some t" using ok assms(3) by (auto simp: run_ok_def)
  have "run_ok (sy_db s) (sy_sent s) \<lparr>rn_id = i, rn_account = c, rn_pc = pc\<rparr>"
    using ok assms(5-7) by (auto simp: run_ok_def)
  then have m: "run_inv (sy_db s) ?rns (sy_sent s)" using run_inv_move [OF inv] assms(2) by (simp add: stands_def)
  have "run_ok (sy_db s) (sy_sent s @ [i]) rn" if rn: "rn \<in> set ?rns" for rn
  proof -
    have "rn_id rn = i \<longrightarrow> rn_pc rn = pc" using with_pc_at [OF rn] by blast
    then show ?thesis using run_inv_run [OF m rn] assms(6) unfolding run_ok_def
      by (cases "rn_id rn = i") simp_all
  qed
  moreover have "\<exists>r \<in> set (db_orders (sy_db s)). tr_id r = j \<and> tr_submissionStartedAt r \<noteq> None"
    if "j \<in> set (sy_sent s @ [i])" for j
  proof (cases "j = i")
    case True
    then show ?thesis using r st by (intro bexI [of _ r]) simp_all
  next
    case False
    then show ?thesis using run_inv_sent [OF m] that by simp
  qed
  ultimately have "run_inv (sy_db s) ?rns (sy_sent s @ [i])" using m ni by (simp add: run_inv_def)
  then show ?thesis using assms(1) by (simp add: order_inv_def)
qed

section \<open>The claim of an approved sell\<close>

text \<open>It also stores the quantity, which no version that a reconciliation may have read has seen.\<close>

lemma db_inv_sell_claim:
  assumes "db_inv db seen ns" "whole q"
  shows "let db' = fst (updateMany (unsubmitted i) (set_sell_started q t) db) in db_inv db' (seen \<union> set (db_orders db')) ns"
proof -
  let ?f = "change_where (unsubmitted i) (set_sell_started q t)"
  let ?db = "fst (updateMany (unsubmitted i) (set_sell_started q t) db)"
  have keep: "tr_id (?f r) = tr_id r" "key_of (?f r) = key_of r" "is_unresolved (?f r) = is_unresolved r"
    "same_account r (?f r)" "early (?f r) = early r" "executed_before (?f r) = executed_before r"
    "tr_cancellationStatus (?f r) = tr_cancellationStatus r" "tr_executedQty (?f r) = tr_executedQty r" for r
    by (simp_all add: change_where_def set_sell_started_def key_of_def is_unresolved_def same_account_def early_def
        executed_before_def)
  have ex: "exclusive ?db" using exclusive_rows [of "\<lambda>r r'. r' = ?f r" db ?db] assms(1) keep(2,3)
    by (simp add: rows_def list_all2_map2 list_all2_same db_inv_def)
  have ok: "row_ok (?f r)" if "row_ok r" for r
  proof (cases "unsubmitted i r")
    case True
    then have "early r" by (simp add: unsubmitted_def early_def)
    then have "executed_before (?f r) = Fin 0" using that keep(6) by (auto simp: row_ok_def)
    moreover obtain n where "q = Fin (of_nat n)" "n \<le> 2 ^ 53" using assms(2) by (auto simp: whole_def)
    ultimately show ?thesis using True
      by (auto simp: row_ok_def change_where_def set_sell_started_def intro!: exI [of _ n] exI [of _ 0])
  next
    case False
    then show ?thesis using that by (simp add: change_where_def)
  qed
  have ver: "version v (?f r)" if "version v r" for v r
  proof (cases "unsubmitted i r")
    case True
    then have "early r" by (simp add: unsubmitted_def early_def)
    then have "tr_status v \<notin> {PENDING, PARTIAL}" using that by (auto simp: version_def)
    then show ?thesis using that keep [of r] unfolding version_def same_account_def by simp
  next
    case False
    then show ?thesis using that by (simp add: change_where_def)
  qed
  have v: "row_ok v \<and> (\<exists>r \<in> set (db_orders ?db). version v r)" if "v \<in> seen \<union> set (db_orders ?db)" for v
  proof (cases "v \<in> set (db_orders ?db)")
    case True
    then obtain r where "r \<in> set (db_orders db)" "v = ?f r" by auto
    then show ?thesis using True ok assms(1) version_refl unfolding db_inv_def by blast
  next
    case False
    then have "v \<in> seen" using that by blast
    then obtain r where "row_ok v" "r \<in> set (db_orders db)" "version v r" using assms(1) unfolding db_inv_def by blast
    then show ?thesis using ver by auto
  qed
  have "ids ?db = ids db" by (simp add: ids_def keep)
  moreover have "told (tr_id r) ns = qty_of (executed_before r)" if "r \<in> set (db_orders ?db)" for r
    using that assms(1) keep by (auto simp: db_inv_def)
  ultimately show ?thesis using assms(1) ex v unfolding db_inv_def Let_def by auto
qed

lemma inv_sell_claimed:
  assumes "order_inv s" "stands i c (Approved (SellClaiming q)) s" "sell_claim cur i q t (sy_db s) = (db, pc)"
  shows "order_inv (moved i (Approved pc) (stored db s))"
proof -
  let ?u = "updateMany (unsubmitted i) (set_sell_started q t) (sy_db s)"
  have w: "whole q" using whole_quantity [OF assms(1,2)] by (simp add: selling_def)
  have db: "db = fst ?u" and pc: "pc = (if snd ?u \<noteq> 1 then SellReturned (cur\<lparr>wr_claimed := False,
      wr_reason := Some SUBMISSION_CLAIM_LOST\<rparr>) else SellClaimed t q)"
    using assms(3) by (auto simp: sell_claim_def Let_def)
  have d: "distinct (ids (sy_db s))" using assms(1) by (simp add: order_inv_def db_inv_def)
  have st: "r \<in> set (db_orders (sy_db s)) \<Longrightarrow> tr_id r = i \<Longrightarrow> past_claim (Approved pc) = Some t' \<Longrightarrow>
      tr_submissionStartedAt (change_where (unsubmitted i) (set_sell_started q t) r) = Some t'" for r t'
    using own_start [OF d, of i "set_sell_started q t" t r]
    by (auto simp: pc past_claim_def set_sell_started_def split: if_splits)
  have "run_inv db (with_pc i (Approved pc) (sy_runs s)) (sy_sent s)" unfolding db
    using assms(1,2) st by (intro run_inv_own [where ?pc0.0 = "Approved (SellClaiming q)" and c = c])
      (auto simp: order_inv_def stands_def sent_pc_def selling_def pc unsubmitted_def set_sell_started_def account_of_def)
  moreover have "db_inv db (sy_seen s \<union> set (db_orders db)) (sy_notices s)"
    using db_inv_sell_claim [OF _ w] assms(1) db by (simp add: order_inv_def Let_def)
  ultimately show ?thesis by (simp add: order_inv_def)
qed

section \<open>Creating an order\<close>

text \<open>A row is added, under an id no row has; its handler may start with it.\<close>

lemma inv_created:
  assumes "order_inv s" "exclusive (create r (sy_db s))" "tr_id r \<notin> set (ids (sy_db s))" "row_ok r"
    "executed_before r = Fin 0" "tr_status r = AWAITING_APPROVAL \<longrightarrow> tr_submissionStartedAt r = None"
  shows "order_inv (stored (create r (sy_db s)) s)"
    and "\<And>i. i \<notin> set (ids (sy_db s)) \<Longrightarrow> i \<notin> set (sy_sent s) \<and> i \<notin> set (map rn_id (sy_runs s))"
proof -
  let ?db = "create r (sy_db s)"
  have inv: "run_inv (sy_db s) (sy_runs s) (sy_sent s)" using assms(1) by (simp add: order_inv_def)
  have dbi: "db_inv ?db (sy_seen s \<union> set (db_orders ?db)) (sy_notices s)"
    using db_inv_create [of "sy_db s" "sy_seen s" "sy_notices s" r] assms by (simp add: order_inv_def)
  have nr: "rn \<in> set (sy_runs s) \<Longrightarrow> rn_id rn \<noteq> tr_id r" for rn using run_inv_ids [OF inv] assms(3) by metis
  have ro: "run_ok ?db (sy_sent s) rn" if "rn \<in> set (sy_runs s)" for rn
    using run_inv_run [OF inv that] nr [OF that] unfolding run_ok_def ids_def by auto
  have se: "\<exists>x \<in> set (db_orders ?db). tr_id x = j \<and> tr_submissionStartedAt x \<noteq> None" if "j \<in> set (sy_sent s)" for j
    using run_inv_sent [OF inv that] by auto
  have aw: "tr_submissionStartedAt x = None" if "x \<in> set (db_orders ?db)" "tr_status x = AWAITING_APPROVAL" for x
    using run_inv_awaiting [OF inv] that assms(6) by auto
  have "run_inv ?db (sy_runs s) (sy_sent s)" 
    by (rule run_invI [OF _ _ ro]) (use run_inv_distinct [OF inv] se aw in blast)+
  then show "order_inv (stored ?db s)" using dbi by (simp add: order_inv_def)
  fix i assume i: "i \<notin> set (ids (sy_db s))"
  show "i \<notin> set (sy_sent s) \<and> i \<notin> set (map rn_id (sy_runs s))"
    using i run_inv_sent [OF inv] run_inv_ids [OF inv] by (auto simp: ids_def)
qed

text \<open>A handler starts for an order that has none and was not sent.\<close>

lemma inv_begun:
  assumes "order_inv s" "i \<notin> set (sy_sent s)" "i \<notin> set (map rn_id (sy_runs s))" "r \<in> set (db_orders (sy_db s))" "tr_id r = i"
    "account_of c r" "tr_status r \<noteq> AWAITING_APPROVAL" "past_claim pc = None" "selling pc = None"
  shows "order_inv (begun [\<lparr>rn_id = i, rn_account = c, rn_pc = pc\<rparr>] s)"
proof -
  have u: "x = r" if "x \<in> set (db_orders (sy_db s))" "tr_id x = i" for x
    using unique_row [OF assms(1) that(1) assms(4)] that(2) assms(5) by simp
  have "i \<in> set (ids (sy_db s))" using assms(4,5) by (auto simp: ids_def)
  then have "run_ok (sy_db s) (sy_sent s) \<lparr>rn_id = i, rn_account = c, rn_pc = pc\<rparr>"
    using u assms(2,6-9) unfolding run_ok_def by auto
  then show ?thesis using assms(1,3) unfolding order_inv_def run_inv_def by simp
qed

lemma inv_admitted:
  assumes "order_inv s" "exec_admit (sy_env s) i id bo (sg :: trading_signal) n (sy_db s) = Inr (db, Some (r, c))"
    "i \<notin> set (ids (sy_db s))" "sg_quantity sg = Fin (of_nat q)" "q \<le> 2 ^ 53"
  shows "order_inv (begun [\<lparr>rn_id = i, rn_account = c, rn_pc = Automatic Preparing\<rparr>] (stored db s))"
proof -
  have e: "exclusive (sy_db s)" using assms(1) by (simp add: order_inv_def db_inv_def)
  note f = admission_facts [OF e assms(2)]
  have db: "db = create r (sy_db s)" "tr_id r = i" "account_of c r" "tr_quantity r = sg_quantity sg" "tr_executedQty r = None"
    "tr_status r = SUBMITTING" "exclusive (create r (sy_db s))"
    using f exec_admit_record [OF assms(2)] by (auto simp: account_of_def unsubmitted_def)
  have ok: "row_ok r" "executed_before r = Fin 0" using db(4,5) assms(4,5)
    by (auto simp: row_ok_def executed_before_def)
  note cr = inv_created [OF assms(1) db(7) _ ok] 
  show ?thesis unfolding db(1)
    by (rule inv_begun [where r = r]) (use cr db assms(3) in \<open>auto simp: past_claim_def selling_def\<close>)
qed

section \<open>Orders that await an approval\<close>

text \<open>The update of a waiting order: no handler has it, and it was not sent.\<close>

lemma waiting_free:
  assumes "order_inv s" "r \<in> set (db_orders (sy_db s))" "awaiting i r"
  shows "i \<notin> set (sy_sent s) \<and> i \<notin> set (map rn_id (sy_runs s))"
proof -
  have inv: "run_inv (sy_db s) (sy_runs s) (sy_sent s)" using assms(1) by (simp add: order_inv_def)
  have a: "tr_status r = AWAITING_APPROVAL" "tr_id r = i" using assms(3) by (simp_all add: awaiting_def)
  have n: "tr_submissionStartedAt r = None" by (rule run_inv_awaiting [OF inv assms(2) a(1)])
  have "x = r" if "x \<in> set (db_orders (sy_db s))" "tr_id x = i" for x
    using unique_row [OF assms(1) that(1) assms(2)] that(2) a(2) by simp
  then have "i \<notin> set (sy_sent s)" using run_inv_sent [OF inv, of i] n(1) by metis
  moreover have "i \<notin> set (map rn_id (sy_runs s))"
    using run_inv_row [OF inv _ assms(2)] a by auto
  ultimately show ?thesis by simp
qed

lemma tame_waiting: "st \<in> {CANCELLED, SUBMITTING} \<Longrightarrow> rows tame db (fst (updateMany (awaiting i) (set_status st) db))"
  by (rule rows_update) (auto simp: row_change_defs awaiting_def set_status_def key_of_def is_unresolved_def)

lemma inv_waiting:
  assumes "order_inv s" "st \<in> {CANCELLED, SUBMITTING}"
  shows "order_inv (stored (fst (updateMany (awaiting i) (set_status st) (sy_db s))) s)"
proof (cases "\<exists>r \<in> set (db_orders (sy_db s)). awaiting i r")
  case False
  then have "fst (updateMany (awaiting i) (set_status st) (sy_db s)) = sy_db s" by (intro updateMany_none) blast
  then show ?thesis using inv_stored [OF assms(1)] by (simp add: rows_refl)
next
  case True
  let ?db = "fst (updateMany (awaiting i) (set_status st) (sy_db s))"
  have inv: "run_inv (sy_db s) (sy_runs s) (sy_sent s)" using assms(1) by (simp add: order_inv_def)
  have free: "i \<notin> set (sy_sent s)" "i \<notin> set (map rn_id (sy_runs s))" using waiting_free [OF assms(1)] True by blast+
  have ro: "run_ok ?db (sy_sent s) rn" if rn: "rn \<in> set (sy_runs s)" for rn
    using free(2) rn by (intro others_kept [where i = i] run_inv_run [OF inv rn]) (auto simp: awaiting_def set_status_def)
  have se: "\<forall>j \<in> set (sy_sent s). \<exists>r \<in> set (db_orders ?db). tr_id r = j \<and> tr_submissionStartedAt r \<noteq> None"
    using free(1) run_inv_sent [OF inv] by (intro sent_rows_kept [where i = i]) (auto simp: awaiting_def set_status_def)
  have aw: "tr_submissionStartedAt r = None" if r: "r \<in> set (db_orders ?db)" "tr_status r = AWAITING_APPROVAL" for r
    using r run_inv_awaiting [OF inv] assms(2) by (auto simp: change_where_def set_status_def split: if_splits)
  have "run_inv ?db (sy_runs s) (sy_sent s)"
    by (rule run_invI [OF _ _ ro]) (use run_inv_distinct [OF inv] se aw in blast)+
  then show ?thesis using db_inv_tame [OF _ tame_waiting [OF assms(2)]] assms(1) by (simp add: order_inv_def)
qed

lemma order_inv_pair: "order_inv (stored_pair tabs s) = order_inv (stored (snd tabs) s)"
  by (simp add: order_inv_def)

lemma inv_expired:
  assumes "order_inv s" "expire_pair g i m (tables s) = Inr tabs"
  shows "order_inv (stored_pair tabs s)"
proof -
  have "snd tabs = sy_db s \<or> snd tabs = fst (updateMany (awaiting i) (set_status CANCELLED) (sy_db s))"
    using expire_pair_cases [OF assms(2)] by auto
  then show ?thesis using inv_waiting [OF assms(1), of CANCELLED i] inv_stored [OF assms(1)]
    by (auto simp: order_inv_pair rows_refl)
qed

lemma inv_seen_mono:
  "order_inv (stored_pair tabs' (stored_pair tabs s)) \<Longrightarrow> order_inv (stored_pair tabs' s)"
  unfolding order_inv_def by (auto simp: db_inv_def)

lemma inv_due:
  assumes "order_inv s" "expire_due_loop t as (tables s) = Inr tabs"
  shows "order_inv (stored_pair tabs s)"
  using assms
proof (induction as arbitrary: s)
  case Nil
  then show ?case using inv_stored [OF Nil(1)] by (auto simp: order_inv_pair rows_refl)
next
  case (Cons a as)
  obtain tabs1 where e: "expire_pair (\<lambda>x. ap_id x = ap_id a \<and> ap_status x = ApPending \<and> ap_expiresAt x \<le> t)
      (ap_tradeRecordId a) ''Failed to cancel expired approval trade'' (tables s) = Inr tabs1"
      "expire_due_loop t as tabs1 = Inr tabs"
    using Cons.prems(2) by (auto split: sum.splits)
  have "order_inv (stored_pair tabs1 s)" by (rule inv_expired [OF Cons.prems(1) e(1)])
  moreover have "expire_due_loop t as (tables (stored_pair tabs1 s)) = Inr tabs" using e(2) by (simp add: tables_def)
  ultimately show ?case using Cons.IH inv_seen_mono by blast
qed

lemma inv_requested:
  assumes "order_inv s" "request_admission (sy_env s) i j b sg ot n ctx (tables s) = Inr (tabs, Some a)"
    "i \<notin> set (ids (sy_db s))" "sg_quantity sg = Fin (of_nat q)" "q \<le> 2 ^ 53"
  shows "order_inv (stored_pair tabs s)"
proof -
  have e: "exclusive (snd (tables s))" using assms(1) by (simp add: order_inv_def db_inv_def)
  obtain r where r: "tabs = (sy_approvals s @ [a], create r (sy_db s))" "fresh_pair r a (tables s)" "tr_id r = i"
      "tr_quantity r = sg_quantity sg" "exclusive (create r (sy_db s))"
    using request_admission_facts [OF assms(2) e] by auto
  have x: "tr_status r = AWAITING_APPROVAL" "tr_submissionStartedAt r = None" "tr_executedQty r = None"
    using r(2) by (simp_all add: fresh_pair_def)
  have ok: "row_ok r" "executed_before r = Fin 0" using x(3) r(4) assms(4,5)
    by (auto simp: row_ok_def executed_before_def)
  show ?thesis using inv_created(1) [OF assms(1) r(5) _ ok] r(1,3) assms(3) x(2) by (simp add: order_inv_pair)
qed

text \<open>A decision that claims: the waiting order is settled, and an approved one gets its handler.\<close>

lemma matches_record_facts:
  "matches_record env r \<Longrightarrow> \<exists>c. env_context env (tr_broker r) = Inr c \<and> bc_broker c = tr_broker r \<and>
     tr_brokerEnvironment r = Some (bc_environment c) \<and> tr_brokerAccountHash r = Some (bc_accountHash c)"
  unfolding matches_record_def matchesCurrentBrokerContext_def matchesCurrentContext_def
  by (cases "env_context env (tr_broker r)") (auto split: if_splits)

lemma seen_account:
  assumes "order_inv s" "read_row i r s" "matches_record env r" "x \<in> set (db_orders (sy_db s))" "tr_id x = i"
  shows "account_of (record_account r) x \<and> tr_broker x = tr_broker r"
proof -
  obtain y where y: "y \<in> set (db_orders (sy_db s))" "version r y"
    using assms(1,2) unfolding order_inv_def db_inv_def read_row_def by blast
  have "tr_id y = tr_id x" using y(2) assms(2,5) by (simp add: version_def read_row_def)
  then have "y = x" using unique_row [OF assms(1) y(1) assms(4)] by simp
  then show ?thesis using y(2) matches_record_facts [OF assms(3)]
    by (auto simp: version_def same_account_def account_of_def record_account_def)
qed

lemma decided_pair_orders:
  assumes "decided_pair env action j a r tabs tabs'"
  shows "\<exists>st. snd tabs' = fst (updateMany (awaiting (ap_tradeRecordId a)) (set_status st) (snd tabs)) \<and>
    snd (updateMany (awaiting (ap_tradeRecordId a)) (set_status st) (snd tabs)) = 1 \<and>
    (if action = APPROVE then st = SUBMITTING \<and> matches_record env r else st = CANCELLED)"
proof -
  obtain actor st tst where c: "claim_pair (\<lambda>x. ap_id x = j \<and> ap_status x = ApPending \<and> ap_expiresAt x > env_now env)
       (responded st (env_now env) actor) (ap_tradeRecordId a) tst tabs = Some tabs'"
     "if action = APPROVE then st = ApApproved \<and> tst = SUBMITTING \<and> matches_record env r \<and> env_live env \<and>
        env_active env (tr_broker r) else st = ApRejected \<and> tst = CANCELLED"
    using assms unfolding decided_pair_def by blast
  show ?thesis using claim_pair_cases [OF c(1)] c(2) by (intro exI [of _ tst]) (simp split: if_splits)
qed

lemma inv_decided:
  assumes "order_inv s" "read_pair j found s" "respond (sy_env s) users action j user found (tables s) = (tabs, res)"
  shows "order_inv (begun (decided_runs found action res) (stored_pair tabs s))"
proof -
  have same: "order_inv (begun [] s') = order_inv s'" for s' by (simp add: order_inv_def)
  consider "tabs = tables s" "\<not> wr_claimed res"
    | a r where "found = Some (a, r)" "\<not> wr_claimed res" "snd tabs = fst (updateMany (awaiting (ap_tradeRecordId a)) (set_status CANCELLED) (sy_db s))"
    | a r where "found = Some (a, r)" "wr_claimed res" "decided_pair (sy_env s) action j a r (tables s) tabs"
    using respond_cases [OF assms(3)] claim_pair_cases by fastforce
  then show ?thesis
  proof cases
    case 1
    then show ?thesis using inv_stored [OF assms(1)] same
      by (auto simp: decided_runs_def order_inv_pair rows_refl split: option.splits)
  next
    case 2
    then show ?thesis using inv_waiting [OF assms(1), of CANCELLED] same by (simp add: decided_runs_def order_inv_pair)
  next
    case 3
    let ?i = "ap_tradeRecordId a"
    obtain st where st: "st \<in> {CANCELLED, SUBMITTING}" "action = APPROVE \<longrightarrow> st = SUBMITTING \<and> matches_record (sy_env s) r"
        "snd tabs = fst (updateMany (awaiting ?i) (set_status st) (sy_db s))"
        "snd (updateMany (awaiting ?i) (set_status st) (sy_db s)) = 1"
      using decided_pair_orders [OF 3(3)] by (cases "action = APPROVE") auto
    have inv: "order_inv (stored_pair tabs s)" using inv_waiting [OF assms(1) st(1)] st(3) by (simp add: order_inv_pair)
    show ?thesis
    proof (cases "action = APPROVE")
      case False
      then show ?thesis using inv same 3(1) by (simp add: decided_runs_def)
    next
      case True
      obtain x where x: "x \<in> set (db_orders (sy_db s))" "awaiting ?i x"
        using st(4) updateMany_count [of "awaiting ?i" "set_status st" "sy_db s"] by auto
      have m: "matches_record (sy_env s) r" "st = SUBMITTING" using st(2) True by simp_all
      have acc: "account_of (record_account r) x"
        using seen_account [OF assms(1) _ m(1) x(1)] assms(2) x(2) 3(1) by (auto simp: read_pair_def awaiting_def)
      have "set_status SUBMITTING x \<in> set (db_orders (snd tabs))"
        using st(3) m(2) x by (auto simp: change_where_def intro!: image_eqI [of _ _ x])
      moreover have "account_of (record_account r) (set_status SUBMITTING x)" "tr_id (set_status SUBMITTING x) = ?i"
        "tr_status (set_status SUBMITTING x) \<noteq> AWAITING_APPROVAL"
        using acc x(2) by (simp_all add: account_of_def set_status_def awaiting_def)
      ultimately show ?thesis using inv waiting_free [OF assms(1) x] 3(1,2) True
        by (auto simp: decided_runs_def past_claim_def selling_def
            intro!: inv_begun [where r = "set_status SUBMITTING x"])
    qed
  qed
qed

section \<open>The other segments of an approved sell\<close>

lemma sell_cancel_rows:
  "rows tame db (fst (sell_cancel cur i m reason db)) \<and> rows kept db (fst (sell_cancel cur i m reason db))"
  using cancelPreSubmit_rows [of db i m] by (simp add: sell_cancel_def cancelPreSubmit_def Let_def)

lemma sell_persist_rows:
  "rows tame db (fst (sell_persist_loop n reply i res db)) \<and> rows kept db (fst (sell_persist_loop n reply i res db))"
proof (induction n arbitrary: db)
  case (Suc n)
  have u: "rows tame db (fst (updateMany (started i) (set_pending res) db)) \<and>
      rows kept db (fst (updateMany (started i) (set_pending res) db))"
    by (rule both_update) (simp add: row_change_defs change_defs guard_defs key_of_def is_unresolved_def)
  show ?case using u Suc rows_trans [OF _ _ tame_trans] rows_trans [OF _ _ kept_trans]
    by (auto simp: Let_def split: db_reply.splits)
qed (simp add: rows_refl)

lemma sell_record_rows:
  "rows tame db (fst (sell_record reply cur i answer db)) \<and> rows kept db (fst (sell_record reply cur i answer db))"
proof -
  have f: "rows tame db (fst (updateMany (started i) (set_failed m) db)) \<and>
      rows kept db (fst (updateMany (started i) (set_failed m) db))" for m
    by (rule both_update) (simp add: row_change_defs change_defs guard_defs key_of_def is_unresolved_def)
  show ?thesis using f record_unknown_rows sell_persist_rows
    by (auto simp: sell_record_def sell_unknown_def Let_def split: sum.splits)
qed

lemma whole_clamped:
  assumes "whole q" "\<not> held_quantity a hs \<le> Fin 0"
  shows "whole (min_num q (held_quantity a hs))"
proof -
  obtain n where n: "q = Fin (of_nat n)" "n \<le> 2 ^ 53" using assms(1) by (auto simp: whole_def)
  define x where "x = or_opt (map_option ho_quantity
     (List.find (matchesHolding (ap_market a) (ap_exchangeCode a) (ap_stockCode a)) hs)) (Fin 0)"
  have h: "held_quantity a hs = floor_num x" by (simp add: held_quantity_def x_def)
  have nn: "x \<noteq> NaN" by (auto simp: x_def or_opt_def or_num_def truthy_def split: option.splits)
  show ?thesis
  proof (cases x)
    case (Fin y)
    then have "0 < \<lfloor>y\<rfloor>" using assms(2) h by simp
    then have "min (of_nat n) (of_int \<lfloor>y\<rfloor>) = (of_nat (min n (nat \<lfloor>y\<rfloor>)) :: rat)"
      by (simp add: of_nat_min)
    then show ?thesis using n h Fin by (auto simp: whole_def intro!: exI [of _ "min n (nat \<lfloor>y\<rfloor>)"])
  qed (use assms(2) h n nn in \<open>auto simp: floor_num_def whole_def\<close>)
qed

lemma sell_prepare_stage:
  assumes "whole q" "selling (Approved (sell_prepare env a q holdings)) = Some q'"
  shows "whole q'"
  using assms whole_clamped [OF assms(1)]
  by (auto simp: sell_prepare_def selling_def Let_def split: sum.splits if_splits)

lemma sell_open_stage:
  assumes "order_inv s" "selling (Approved (sell_open env j (tables s))) = Some q"
  shows "whole q"
proof -
  obtain a r where r: "find_pair j (tables s) = Some (a, r)" "q = tr_quantity r"
    using assms(2) by (auto simp: sell_open_def selling_def split: option.splits if_splits)
  then have "r \<in> set (db_orders (sy_db s))"
    by (auto simp: find_pair_def split: option.splits dest!: findFirst_SomeD)
  then have "row_ok r" using assms(1) by (auto simp: order_inv_def db_inv_def)
  then show ?thesis using r(2) by (auto simp: row_ok_def whole_def)
qed

lemma sell_pcs:
  "past_claim (Approved (sell_open env j tabs)) = None"
  "past_claim (Approved (sell_prepare env a q holdings)) = None"
  "past_claim (Approved (sell_check env r t q)) = Some t" "selling (Approved (sell_check env r t q)) = None"
  "\<not> sent_pc (Approved (sell_check env r t q))"
  by (auto simp: sell_open_def sell_prepare_def sell_check_def stage_defs Let_def split: option.splits sum.splits)

lemma sell_clamp_stage:
  "sell_clamp env a r q reply as = (as', pc) \<Longrightarrow>
    past_claim (Approved pc) = None \<and> (\<forall>q'. selling (Approved pc) = Some q' \<longrightarrow> q' = q)"
  by (auto simp: sell_clamp_def stage_defs Let_def split: db_reply.splits if_splits)

lemma sell_end_stage:
  "sell_cancel cur i m reason db = (db', pc) \<Longrightarrow> \<exists>res. pc = SellReturned res"
  "sell_abort cur i t m reason db = (db', pc) \<Longrightarrow>
    db' = fst (updateMany (started_at i t) (set_aborted m) db) \<and> (\<exists>res. pc = SellReturned res)"
  by (auto simp: sell_cancel_def sell_abort_def Let_def)

section \<open>Every step keeps the invariant\<close>

lemma inv_lost: "order_inv s \<Longrightarrow> order_inv (s\<lparr>sy_runs := filter (\<lambda>rn. rn_id rn \<noteq> i) (sy_runs s)\<rparr>)"
  by (auto simp: order_inv_def run_inv_def distinct_map_filter)

lemma inv_reconciled:
  assumes "order_inv s" "r \<in> sy_seen s" "tr_status r \<in> {PENDING, PARTIAL}" "tr_orderNo r \<noteq> None" "whole_fills os"
    "apply_decision (reconcile_decision describe m t cq us os r) (sy_db s) = (db, ns, new)"
  shows "order_inv ((stored db s)\<lparr>sy_notices := sy_notices s @ ns\<rparr>)"
  using db_inv_reconcile [OF _ assms(2-6), of "sy_notices s"] run_inv_kept assms(1)
  by (auto simp: order_inv_def)

lemma automatic_stage [simp]:
  "past_claim (Automatic (exec_prepare env c marked refreshed)) = None"
  "selling (Automatic pc) = None"
  by (auto simp: exec_prepare_def stage_defs)

lemma order_inv_step: "order_step s s' \<Longrightarrow> order_inv s \<Longrightarrow> order_inv s'"
proof (induction rule: order_step.induct)
  case (configured s env)
  then show ?case by (simp add: order_inv_def)
next
  case (prepared i c s marked refreshed)
  then show ?case by (intro inv_moved [OF prepared(2,1)]) (simp_all add: sent_pc_def)
next
  case (cancelled_before i c m s)
  then show ?case using inv_stored [OF cancelled_before(2) cancelPreSubmit_rows]
    by (intro inv_moved [of _ i c "Automatic (CancellingPre m)"]) (simp_all add: stage_defs)
next
  case (not_submitted i c t s m)
  then show ?case by (intro inv_moved [OF not_submitted(3,1)]) (simp_all add: stage_defs)
next
  case (submitted i c t s)
  then show ?case by (intro inv_submitted [OF submitted(3,1)]) (simp_all add: stage_defs)
next
  case (aborted i c t m s)
  then show ?case unfolding exec_abort_def by (intro inv_abort [OF aborted(2,1)]) (simp_all add: stage_defs)
next
  case (answered i c s answer)
  then show ?case by (intro inv_moved [OF answered(2,1)]) (simp_all add: stage_defs)
next
  case (recorded i c answer s reply db ok)
  have "rows tame (sy_db s) db \<and> rows kept (sy_db s) db" using exec_record_rows [of "sy_db s" reply i answer] recorded(2) by simp
  then show ?case using inv_stored [OF recorded(3)] recorded(1)
    by (intro inv_moved [of _ i c "Automatic (Recording answer)"]) (simp_all add: stage_defs)
next
  case (due_expired b sg t s tabs)
  then show ?case using inv_due unfolding expireDueApprovalPairs_def by blast
next
  case (request_undelivered a s tabs)
  then show ?case using inv_expired unfolding expireApprovalPair_def by blast
next
  case (sell_opened i c s a)
  then show ?case
    by (intro inv_moved [OF sell_opened(4,1)] sell_open_stage [OF sell_opened(4)]) (simp_all add: sell_pcs, simp add: sent_pc_def)
next
  case (sell_prepared i c q s a holdings)
  have q: "whole q" using whole_quantity [OF sell_prepared(4,1)] by (simp add: selling_def)
  show ?case
  proof (rule inv_moved [OF sell_prepared(4,1)])
    fix q' assume "selling (Approved (sell_prepare (sy_env s) a q holdings)) = Some q'"
    then show "whole q'" by (rule sell_prepare_stage [OF q])
  qed (simp_all add: sell_pcs, simp add: sent_pc_def)
next
  case (sell_clamped i c q s a r reply as pc)
  have "whole q" using whole_quantity [OF sell_clamped(6,1)] by (simp add: selling_def)
  then have w: "selling (Approved pc) = Some q' \<Longrightarrow> whole q'" for q'
    using sell_clamp_stage [OF sell_clamped(5)] by metis
  show ?case
    by (rule inv_moved [of _ i c "Approved (Clamping q)"])
      (use sell_clamp_stage [OF sell_clamped(5)] w sell_clamped(1,6) in \<open>simp_all add: sent_pc_def\<close>)
next
  case (sell_cancelled i c m reason s cur db pc)
  have "rows tame (sy_db s) db \<and> rows kept (sy_db s) db"
    using sell_cancel_rows [of "sy_db s" cur i m reason] sell_cancelled(2) by simp
  then show ?case using inv_stored [OF sell_cancelled(3)] sell_cancelled(1) sell_end_stage(1) [OF sell_cancelled(2)]
    by (intro inv_moved [of _ i c "Approved (SellCancelling m reason)"]) (auto simp: stage_defs)
next
  case (sell_checked i c t q s r)
  then show ?case
    by (intro inv_moved [OF sell_checked(3,1)]) (simp_all add: sell_pcs, simp_all add: stage_defs)
next
  case (sell_not_submitted i c t q s r m reason)
  then show ?case by (intro inv_moved [OF sell_not_submitted(4,1)]) (simp_all add: stage_defs)
next
  case (sell_submitted i c t q s r)
  then show ?case by (intro inv_submitted [OF sell_submitted(4,1)]) (simp_all add: stage_defs)
next
  case (sell_aborted i c t m reason s cur db pc)
  then show ?case using sell_end_stage(2) [OF sell_aborted(2)]
    by (auto simp: stage_defs intro!: inv_abort [OF sell_aborted(3,1)])
next
  case (sell_answered i c q s answer)
  then show ?case by (intro inv_moved [OF sell_answered(2,1)]) (simp_all add: stage_defs)
next
  case (sell_recorded i c answer s reply cur db res)
  have "rows tame (sy_db s) db \<and> rows kept (sy_db s) db"
    using sell_record_rows [of "sy_db s" reply cur i answer] sell_recorded(2) by simp
  then show ?case using inv_stored [OF sell_recorded(3)] sell_recorded(1)
    by (intro inv_moved [of _ i c "Approved (SellRecording answer)"]) (simp_all add: stage_defs)
qed (simp_all add: inv_admitted inv_claimed inv_lost inv_stored take_over_rows cancellation_rows assignment_rows
    inv_reconciled inv_requested inv_decided inv_sell_claimed)

lemma reachable_inv: "reachable s \<Longrightarrow> order_inv s"
proof (induction rule: reachable.induct)
  case (start s)
  then show ?case
    by (simp add: initial_def order_inv_def db_inv_def run_inv_def ids_def exclusive_def unresolved_of_def)
qed (rule order_inv_step)

end
