(* ===== verification/ApprovalPairs.thy ===== *)
theory ApprovalPairs imports OrderSteps begin

text \<open>
  Approvals and orders in step: an approval is pending exactly while its order waits for it, each waiting
  order has its approval, requests of one key are spaced by the cool-down, and each approved sell under
  way has its approval. Every step keeps this, so the transactions that settle a pair never fail.
\<close>

section \<open>The invariant of the pairs\<close>

definition paired :: "approval \<Rightarrow> trade_record \<Rightarrow> bool" where
  "paired a r \<longleftrightarrow> tr_id r = ap_tradeRecordId a \<and>
     key_of r = \<lparr>ok_broker = tr_broker r, ok_market = ap_market a, ok_exchangeCode = ap_exchangeCode a,
       ok_stockCode = ap_stockCode a, ok_side = SELL\<rparr> \<and>
     (ap_status a = ApPending \<longleftrightarrow> tr_status r = AWAITING_APPROVAL)"

definition in_time :: "approval \<Rightarrow> bool" where
  "in_time a \<longleftrightarrow> (case ap_notifiedAt a of
       None \<Rightarrow> ap_expiresAt a = ap_requestedAt a + PROVISIONAL_APPROVAL_MINUTES * 60 * 1000
     | Some n \<Rightarrow> ap_requestedAt a \<le> n \<and> ap_expiresAt a = n + APPROVAL_VALIDITY_MINUTES * 60 * 1000)"

definition cooldown :: int where
  "cooldown = SUCCESSFUL_NOTIFICATION_COOLDOWN_MINUTES * 60 * 1000"

text \<open>Of two approvals of one key: a pending one was requested, and a delivered one sent, after a cool-down.\<close>

definition spaced :: "approval \<Rightarrow> approval \<Rightarrow> bool" where
  "spaced a b \<longleftrightarrow> (\<forall>n. ap_notifiedAt b = Some n \<longrightarrow>
     (ap_status a = ApPending \<longrightarrow> n + cooldown \<le> ap_requestedAt a) \<and>
     (\<forall>m. ap_notifiedAt a = Some m \<longrightarrow> cooldown \<le> \<bar>m - n\<bar>))"

definition pairs_inv :: "approval list \<Rightarrow> order_db \<Rightarrow> bool" where
  "pairs_inv as db \<longleftrightarrow> distinct (map ap_id as) \<and> distinct (map ap_tradeRecordId as) \<and>
     (\<forall>a \<in> set as. in_time a \<and> (\<exists>r \<in> set (db_orders db). paired a r)) \<and>
     (\<forall>r \<in> set (db_orders db). tr_status r = AWAITING_APPROVAL \<longrightarrow> (\<exists>a \<in> set as. ap_tradeRecordId a = tr_id r)) \<and>
     (\<forall>a \<in> set as. \<forall>b \<in> set as. \<forall>r \<in> set (db_orders db). \<forall>r' \<in> set (db_orders db). a \<noteq> b \<longrightarrow> paired a r \<longrightarrow> paired b r' \<longrightarrow>
        key_of r = key_of r' \<longrightarrow> spaced a b)"

lemma pairs_invI:
  assumes "distinct (map ap_id as)" "distinct (map ap_tradeRecordId as)" "\<And>a. a \<in> set as \<Longrightarrow> in_time a"
    "\<And>a. a \<in> set as \<Longrightarrow> \<exists>r \<in> set (db_orders db). paired a r"
    "\<And>r. r \<in> set (db_orders db) \<Longrightarrow> tr_status r = AWAITING_APPROVAL \<Longrightarrow> \<exists>a \<in> set as. ap_tradeRecordId a = tr_id r"
    "\<And>a b r r'. a \<in> set as \<Longrightarrow> b \<in> set as \<Longrightarrow> r \<in> set (db_orders db) \<Longrightarrow> r' \<in> set (db_orders db) \<Longrightarrow> a \<noteq> b \<Longrightarrow>
       paired a r \<Longrightarrow> paired b r' \<Longrightarrow> key_of r = key_of r' \<Longrightarrow> spaced a b"
  shows "pairs_inv as db"
  using assms unfolding pairs_inv_def by blast

lemma pairs_invD:
  assumes "pairs_inv as db"
  shows "distinct (map ap_id as)" "distinct (map ap_tradeRecordId as)" "\<And>a. a \<in> set as \<Longrightarrow> in_time a"
    "\<And>a. a \<in> set as \<Longrightarrow> \<exists>r \<in> set (db_orders db). paired a r"
    "\<And>r. r \<in> set (db_orders db) \<Longrightarrow> tr_status r = AWAITING_APPROVAL \<Longrightarrow> \<exists>a \<in> set as. ap_tradeRecordId a = tr_id r"
    "\<And>a b r r'. a \<in> set as \<Longrightarrow> b \<in> set as \<Longrightarrow> r \<in> set (db_orders db) \<Longrightarrow> r' \<in> set (db_orders db) \<Longrightarrow> a \<noteq> b \<Longrightarrow>
       paired a r \<Longrightarrow> paired b r' \<Longrightarrow> key_of r = key_of r' \<Longrightarrow> spaced a b"
  using assms unfolding pairs_inv_def by blast+

section \<open>Steps that leave the approvals alone\<close>

definition quiet :: "trade_record \<Rightarrow> trade_record \<Rightarrow> bool" where
  "quiet r r' \<longleftrightarrow> tr_id r' = tr_id r \<and> key_of r' = key_of r \<and>
     (tr_status r' = AWAITING_APPROVAL \<longleftrightarrow> tr_status r = AWAITING_APPROVAL)"

lemma quiet_broker: "quiet r r' \<Longrightarrow> tr_broker r' = tr_broker r"
  by (auto simp: quiet_def key_of_def)

lemma quiet_paired: "quiet r r' \<Longrightarrow> paired a r' \<longleftrightarrow> paired a r"
  using quiet_broker [of r r'] by (auto simp: quiet_def paired_def)

lemma pairs_quiet:
  assumes "pairs_inv as db" "rows quiet db db'"
  shows "pairs_inv as db'"
proof (rule pairs_invI)
  note d = pairs_invD [OF assms(1)]
  show "distinct (map ap_id as)" "distinct (map ap_tradeRecordId as)" using d(1,2) by blast+
  fix a assume a: "a \<in> set as"
  show "in_time a" by (rule d(3) [OF a])
  obtain r where r: "r \<in> set (db_orders db)" "paired a r" using d(4) [OF a] by blast
  then show "\<exists>r \<in> set (db_orders db'). paired a r" using rows_forward [OF assms(2) r(1)] quiet_paired by blast
next
  note d = pairs_invD [OF assms(1)]
  fix r' assume "r' \<in> set (db_orders db')" "tr_status r' = AWAITING_APPROVAL"
  then obtain r where "r \<in> set (db_orders db)" "quiet r r'" using rows_backward [OF assms(2)] by blast
  then show "\<exists>a \<in> set as. ap_tradeRecordId a = tr_id r'" using d(5) \<open>tr_status r' = _\<close> unfolding quiet_def by metis
next
  note d = pairs_invD [OF assms(1)]
  fix a b r r' assume h: "a \<in> set as" "b \<in> set as" "r \<in> set (db_orders db')" "r' \<in> set (db_orders db')" "a \<noteq> b"
    "paired a r" "paired b r'" "key_of r = key_of r'"
  obtain x where x: "x \<in> set (db_orders db)" "quiet x r" using rows_backward [OF assms(2) h(3)] by blast
  obtain y where y: "y \<in> set (db_orders db)" "quiet y r'" using rows_backward [OF assms(2) h(4)] by blast
  have "paired a x" "paired b y" using x(2) y(2) h(6,7) quiet_paired by blast+
  moreover have "key_of x = key_of y" using x(2) y(2) h(8) by (simp add: quiet_def)
  ultimately show "spaced a b" by (rule d(6) [OF h(1,2) x(1) y(1) h(5)])
qed

lemma rows_quiet: "rows tame db db' \<and> rows kept db db' \<Longrightarrow> rows quiet db db'"
  by (auto simp: rows_def list_all2_conv_all_nth quiet_def tame_def kept_def)

lemma quiet_update:
  "(\<And>r. g r \<Longrightarrow> quiet r (f r)) \<Longrightarrow> rows quiet db (fst (updateMany g f db))"
  by (rule rows_update) (auto simp: quiet_def)

lemma quiet_own:
  "rows quiet db (fst (updateMany (unsubmitted i) (set_started t) db))"
  "rows quiet db (fst (updateMany (unsubmitted i) (set_sell_started q t) db))"
  "rows quiet db (fst (updateMany (started_at i t) (set_aborted m) db))"
  by (rule quiet_update, simp add: quiet_def change_defs guard_defs key_of_def set_sell_started_def)+

lemma decision_quiet:
  assumes "tr_status r \<in> {PENDING, PARTIAL}" "reconcile_decision describe m t cq us os r = Some d" "de_guard d x"
  shows "quiet x (de_change d x)"
proof -
  have ns: "getBrokerOrderStatus a b c \<noteq> AWAITING_APPROVAL" for a b c by (simp add: getBrokerOrderStatus_def)
  consider o' where "reconcile_matched describe t cq r o' = Some d"
    | bo st where "reconcileAcceptedCancellation t r bo st cq = Some d" | "reconcile_absent t r = Some d"
    using assms(2) by (auto simp: reconcile_decision_def Let_def split: if_splits option.splits)
  then show ?thesis
  proof cases
    case 1
    then have "tr_status x = tr_status r"
      using assms(3) by (auto simp: reconcile_matched_def as_seen_def Let_def split: if_splits)
    then show ?thesis using matched_fields [OF 1, of x] ns assms(1) by (auto simp: quiet_def)
  next
    case 2
    then show ?thesis using assms(1,3)
      by (auto simp: reconcileAcceptedCancellation_def Let_def quiet_def key_of_def split: if_splits option.splits)
  next
    case 3
    then show ?thesis using assms(1,3)
      by (auto simp: reconcile_absent_def as_seen_def quiet_def key_of_def split: if_splits)
  qed
qed

lemma reconcile_quiet:
  assumes "tr_status r \<in> {PENDING, PARTIAL}"
    "apply_decision (reconcile_decision describe m t cq us os r) db = (db', ns, new)"
  shows "rows quiet db db'"
proof (cases "reconcile_decision describe m t cq us os r")
  case None
  then show ?thesis using assms(2) by (auto simp: apply_decision_def quiet_def intro: rows_refl)
next
  case (Some d)
  have "rows quiet db (fst (updateMany (de_guard d) (de_change d) db))"
    by (rule quiet_update) (rule decision_quiet [OF assms(1) Some])
  moreover have "db_orders db' = db_orders (fst (updateMany (de_guard d) (de_change d) db))"
    using assms(2) Some by (auto simp: apply_decision_def Let_def split: if_splits)
  ultimately show ?thesis by (simp add: rows_def)
qed

lemma pairs_created:
  assumes "pairs_inv as db" "tr_status r \<noteq> AWAITING_APPROVAL" "tr_id r \<notin> set (ids db)"
  shows "pairs_inv as (create r db)"
proof (rule pairs_invI)
  note d = pairs_invD [OF assms(1)]
  show "distinct (map ap_id as)" "distinct (map ap_tradeRecordId as)" using d(1,2) by blast+
  show "\<And>a. a \<in> set as \<Longrightarrow> in_time a" using d(3) by blast
  show "\<exists>r' \<in> set (db_orders (create r db)). paired a r'" if "a \<in> set as" for a
    using d(4) [OF that] by auto
  show "\<exists>a \<in> set as. ap_tradeRecordId a = tr_id r'"
    if "r' \<in> set (db_orders (create r db))" "tr_status r' = AWAITING_APPROVAL" for r'
    using that d(5) assms(2) by auto
  have old: "x \<in> set (db_orders db)" if h: "x \<in> set (db_orders (create r db))" "a \<in> set as" "paired a x" for x a
  proof -
    obtain y where "y \<in> set (db_orders db)" "paired a y" using d(4) [OF h(2)] by blast
    moreover from this have "tr_id x = tr_id y" using h(3) by (simp add: paired_def)
    ultimately have "tr_id x \<in> set (ids db)" by (simp add: ids_def)
    then show ?thesis using h(1) assms(3) by auto
  qed
  show "spaced a b" if "a \<in> set as" "b \<in> set as" "x \<in> set (db_orders (create r db))" "y \<in> set (db_orders (create r db))"
    "a \<noteq> b" "paired a x" "paired b y" "key_of x = key_of y" for a b x y
    using d(6) that old by blast
qed

section \<open>Steps that change approvals\<close>

text \<open>A change of what the invariant does not look at.\<close>

definition same_approval :: "approval \<Rightarrow> approval \<Rightarrow> bool" where
  "same_approval a a' \<longleftrightarrow> ap_id a' = ap_id a \<and> ap_tradeRecordId a' = ap_tradeRecordId a \<and> ap_market a' = ap_market a \<and>
     ap_exchangeCode a' = ap_exchangeCode a \<and> ap_stockCode a' = ap_stockCode a \<and> ap_requestedAt a' = ap_requestedAt a"

lemma update_approvals_ids:
  assumes "\<And>a. g a \<Longrightarrow> same_approval a (f a)"
  shows "map ap_id (fst (update_approvals g f as)) = map ap_id as"
    "map ap_tradeRecordId (fst (update_approvals g f as)) = map ap_tradeRecordId as"
  using assms by (auto simp: update_approvals_def same_approval_def)

lemma unique_approval:
  "distinct (map ap_tradeRecordId as) \<Longrightarrow> a \<in> set as \<Longrightarrow> b \<in> set as \<Longrightarrow> ap_tradeRecordId a = ap_tradeRecordId b \<Longrightarrow> a = b"
  "distinct (map ap_id as) \<Longrightarrow> a \<in> set as \<Longrightarrow> b \<in> set as \<Longrightarrow> ap_id a = ap_id b \<Longrightarrow> a = b"
  by (metis distinct_map inj_onD)+

lemma updated_approval:
  "a' \<in> set (fst (update_approvals g f as)) \<longleftrightarrow> (\<exists>a \<in> set as. a' = (if g a then f a else a))"
  by (auto simp: update_approvals_def)

text \<open>
  The end of a waiting pair: the approval with the order leaves the pending state, and the order its
  wait, both or neither.
\<close>

lemma pairs_settled:
  assumes "pairs_inv as db" "distinct (ids db)" "st \<noteq> AWAITING_APPROVAL"
    "\<And>a. a \<in> set as \<Longrightarrow> g a \<Longrightarrow> ap_tradeRecordId a = i \<and> ap_status a = ApPending"
    "\<And>a. same_approval a (f a) \<and> ap_notifiedAt (f a) = ap_notifiedAt a \<and> ap_expiresAt (f a) = ap_expiresAt a \<and>
       ap_status (f a) \<noteq> ApPending"
    "snd (update_approvals g f as) \<noteq> 0"
  shows "pairs_inv (fst (update_approvals g f as)) (fst (updateMany (awaiting i) (set_status st) db))"
proof -
  note d = pairs_invD [OF assms(1)]
  let ?as = "fst (update_approvals g f as)" and ?db = "fst (updateMany (awaiting i) (set_status st) db)"
  let ?c = "change_where (awaiting i) (set_status st)"
  obtain x where x: "x \<in> set as" "g x" using update_approvals_some [OF assms(6)] by blast
  then have xi: "ap_tradeRecordId x = i" "ap_status x = ApPending" using assms(4) by blast+
  have gx: "g a \<longleftrightarrow> ap_tradeRecordId a = i" if "a \<in> set as" for a
    using assms(4) [OF that] unique_approval(1) [OF d(2) that x(1)] x(2) xi(1) by metis
  have orig: "\<exists>r0 \<in> set (db_orders db). r = ?c r0 \<and> tr_id r0 = tr_id r \<and> key_of r0 = key_of r" if "r \<in> set (db_orders ?db)" for r
    using that by (auto simp: change_where_def set_status_def key_of_def)
  have pr: "paired (if g a then f a else a) (?c r) = paired a r" if ar: "a \<in> set as" "r \<in> set (db_orders db)" for a r
  proof (cases "tr_id r = ap_tradeRecordId a")
    case True
    obtain r1 where "r1 \<in> set (db_orders db)" "paired a r1" using d(4) [OF ar(1)] by blast
    then have p: "paired a r" using True ar(2) assms(2) unfolding ids_def paired_def by (metis distinct_map inj_onD)
    show ?thesis
    proof (cases "g a")
      case g: True
      then have "ap_tradeRecordId a = i" "ap_status a = ApPending" using assms(4) ar(1) by blast+
      then have "awaiting i r" using p by (simp add: paired_def awaiting_def)
      then show ?thesis using p g assms(3) assms(5) [of a]
        by (simp add: paired_def change_where_def set_status_def key_of_def same_approval_def)
    next
      case False
      then have "\<not> awaiting i r" using gx [OF ar(1)] True by (simp add: awaiting_def)
      then show ?thesis using False by (simp add: change_where_def)
    qed
  next
    case False
    then show ?thesis using assms(5) [of a] by (simp add: paired_def change_where_def set_status_def same_approval_def)
  qed
  show ?thesis
  proof (rule pairs_invI)
    show "distinct (map ap_id ?as)" "distinct (map ap_tradeRecordId ?as)"
      using d(1,2) update_approvals_ids [of g f as] assms(5) by simp_all
  next
    fix a' assume "a' \<in> set ?as"
    then obtain a where a: "a \<in> set as" "a' = (if g a then f a else a)" unfolding updated_approval by blast
    show "in_time a'" using d(3) [OF a(1)] assms(5) [of a] a(2)
      by (auto simp: in_time_def same_approval_def split: option.splits)
    obtain r where "r \<in> set (db_orders db)" "paired a r" using d(4) [OF a(1)] by blast
    then show "\<exists>r \<in> set (db_orders ?db). paired a' r" using pr [OF a(1)] a(2) by auto
  next
    fix r assume r: "r \<in> set (db_orders ?db)" "tr_status r = AWAITING_APPROVAL"
    obtain r0 where r0: "r0 \<in> set (db_orders db)" "r = ?c r0" "tr_id r0 = tr_id r" using orig [OF r(1)] by blast
    have "tr_status (?c r0) = AWAITING_APPROVAL" using r(2) r0(2) by simp
    then have "tr_status r0 = AWAITING_APPROVAL" using assms(3)
      by (simp add: change_where_def set_status_def split: if_split_asm)
    then obtain a where a: "a \<in> set as" "ap_tradeRecordId a = tr_id r0" using d(5) [OF r0(1)] by blast
    have "(if g a then f a else a) \<in> set ?as" using a(1) unfolding updated_approval by blast
    moreover have "ap_tradeRecordId (if g a then f a else a) = tr_id r"
      using a(2) r0(3) assms(5) [of a] by (simp add: same_approval_def)
    ultimately show "\<exists>a \<in> set ?as. ap_tradeRecordId a = tr_id r" by blast
  next
    fix a' b' r r' assume h: "a' \<in> set ?as" "b' \<in> set ?as" "r \<in> set (db_orders ?db)" "r' \<in> set (db_orders ?db)" "a' \<noteq> b'"
      "paired a' r" "paired b' r'" "key_of r = key_of r'"
    obtain a where a: "a \<in> set as" "a' = (if g a then f a else a)" using h(1) unfolding updated_approval by blast
    obtain b where b: "b \<in> set as" "b' = (if g b then f b else b)" using h(2) unfolding updated_approval by blast
    obtain r0 where r0: "r0 \<in> set (db_orders db)" "r = ?c r0" "key_of r0 = key_of r" using orig [OF h(3)] by blast
    obtain r1 where r1: "r1 \<in> set (db_orders db)" "r' = ?c r1" "key_of r1 = key_of r'" using orig [OF h(4)] by blast
    have "paired a r0" "paired b r1" using pr a b r0(1,2) r1(1,2) h(6,7) by auto
    then have "spaced a b" using d(6) [OF a(1) b(1) r0(1) r1(1)] h(5,8) a(2) b(2) r0(3) r1(3) by auto
    then show "spaced a' b'" using assms(5) [of a] assms(5) [of b] a(2) b(2)
      by (auto simp: spaced_def same_approval_def split: if_splits)
  qed
qed

text \<open>A delivery: the other approvals of the key were sent a cool-down before it was requested.\<close>

lemma one_pending:
  assumes "pairs_inv as db" "exclusive db" "distinct (ids db)" "a \<in> set as" "b \<in> set as" "r \<in> set (db_orders db)"
    "r' \<in> set (db_orders db)" "paired a r" "paired b r'" "key_of r = key_of r'" "ap_status a = ApPending" "ap_status b = ApPending"
  shows "a = b"
proof -
  have "tr_status r = AWAITING_APPROVAL" "tr_status r' = AWAITING_APPROVAL" using assms(8,9,11,12) by (simp_all add: paired_def)
  then have "r = r'" using exclusive_unique [OF assms(2,3,6,7,10)] by (simp add: is_unresolved_def)
  then have "ap_tradeRecordId a = ap_tradeRecordId b" using assms(8,9) by (simp add: paired_def)
  then show ?thesis by (rule unique_approval(1) [OF pairs_invD(2) [OF assms(1)] assms(4,5)])
qed

lemma delivery_after_request:
  "parseSlackDelivery result requestedAt received = Some d \<Longrightarrow> requestedAt \<le> dl_notifiedAt d \<and> dl_notifiedAt d \<le> received"
  by (auto simp: parseSlackDelivery_def Let_def split: option.splits prod.splits if_splits)

lemma pairs_delivered:
  assumes "pairs_inv as db" "exclusive db" "distinct (ids db)" "a \<in> set as"
  shows "pairs_inv (fst (finalize_delivery t a (parseSlackDelivery result (ap_requestedAt a) received) as)) db"
proof (cases "parseSlackDelivery result (ap_requestedAt a) received")
  case None
  then show ?thesis using assms(1) by (simp add: finalize_delivery_def)
next
  case (Some dl)
  note d = pairs_invD [OF assms(1)] and late = delivery_after_request [OF Some]
  define g :: "approval \<Rightarrow> bool" where "g = (\<lambda>x. ap_id x = ap_id a \<and> ap_tradeRecordId x = ap_tradeRecordId a \<and> ap_status x = ApPending \<and> ap_expiresAt x > t)"
  let ?f = "delivered dl" and ?as = "fst (update_approvals g (delivered dl) as)"
  have same: "same_approval x (?f x)" "ap_status (?f x) = ap_status x" "paired (?f x) r = paired x r" for x r
    by (simp_all add: same_approval_def delivered_def paired_def)
  have gx: "x = a \<and> ap_status a = ApPending" if "x \<in> set as" "g x" for x
    using unique_approval(2) [OF d(1) that(1) assms(4)] that(2) by (auto simp: g_def)
  have "pairs_inv ?as db"
  proof (rule pairs_invI)
    show "distinct (map ap_id ?as)" "distinct (map ap_tradeRecordId ?as)"
      using d(1,2) update_approvals_ids [of g ?f as] same by simp_all
  next
    fix x' assume "x' \<in> set ?as"
    then obtain x where x: "x \<in> set as" "x' = (if g x then ?f x else x)" unfolding updated_approval by blast
    have "in_time (?f a)" using late by (simp add: in_time_def delivered_def)
    then show "in_time x'" using d(3) [OF x(1)] x(2) gx [OF x(1)] by auto
    show "\<exists>r \<in> set (db_orders db). paired x' r" using d(4) [OF x(1)] x(2) same by auto
  next
    fix r assume r: "r \<in> set (db_orders db)" "tr_status r = AWAITING_APPROVAL"
    obtain x where x: "x \<in> set as" "ap_tradeRecordId x = tr_id r" using d(5) [OF r] by blast
    have "(if g x then ?f x else x) \<in> set ?as" using x(1) unfolding updated_approval by blast
    moreover have "ap_tradeRecordId (if g x then ?f x else x) = tr_id r" using x(2) same(1) [of x] by (simp add: same_approval_def)
    ultimately show "\<exists>a \<in> set ?as. ap_tradeRecordId a = tr_id r" by blast
  next
    fix x' y' r r' assume h: "x' \<in> set ?as" "y' \<in> set ?as" "r \<in> set (db_orders db)" "r' \<in> set (db_orders db)" "x' \<noteq> y'"
      "paired x' r" "paired y' r'" "key_of r = key_of r'"
    obtain x where x: "x \<in> set as" "x' = (if g x then ?f x else x)" using h(1) unfolding updated_approval by blast
    obtain y where y: "y \<in> set as" "y' = (if g y then ?f y else y)" using h(2) unfolding updated_approval by blast
    have p: "paired x r" "paired y r'" "x \<noteq> y" using h(5-7) x(2) y(2) same(3) by (auto split: if_splits)
    have sp: "spaced x y" "spaced y x" using d(6) x(1) y(1) h(3,4,8) p by metis+
    show "spaced x' y'"
    proof (cases "g x")
      case True
      then have "x = a" "ap_status a = ApPending" using gx x(1) by blast+
      then have "\<not> g y" using gx [OF y(1)] p(3) by blast
      then show ?thesis using True x(2) y(2) sp(1) late \<open>x = a\<close> \<open>ap_status a = ApPending\<close>
        by (auto simp: spaced_def delivered_def)
    next
      case nx: False
      show ?thesis
      proof (cases "g y")
        case True
        then have ya: "y = a" "ap_status a = ApPending" using gx y(1) by blast+
        have "ap_status x \<noteq> ApPending"
          using one_pending [OF assms(1-3) x(1) y(1) h(3,4) p(1,2) h(8)] ya p(3) by blast
        then show ?thesis using True nx x(2) y(2) sp(2) late ya by (auto simp: spaced_def delivered_def)
      next
        case False
        then show ?thesis using nx x(2) y(2) sp(1) by simp
      qed
    qed
  qed
  then show ?thesis by (simp add: finalize_delivery_def Some g_def Let_def)
qed

text \<open>A request.\<close>

lemma pairs_requested:
  assumes "pairs_inv as db" "fresh_pair r a (as, db)" "tr_id r \<notin> set (ids db)" "ap_id a \<notin> set (map ap_id as)" "tr_side r = SELL"
  shows "pairs_inv (as @ [a]) (create r db)"
proof -
  note d = pairs_invD [OF assms(1)]
  have f: "tr_status r = AWAITING_APPROVAL" "ap_tradeRecordId a = tr_id r" "ap_status a = ApPending" "ap_notifiedAt a = None"
    "ap_expiresAt a = ap_requestedAt a + PROVISIONAL_APPROVAL_MINUTES * 60 * 1000" "paired a r"
    using assms(2,5) by (auto simp: fresh_pair_def paired_def)
  have tid: "ap_tradeRecordId b \<in> set (ids db)" if b: "b \<in> set as" for b
  proof -
    obtain y where "y \<in> set (db_orders db)" "tr_id y = ap_tradeRecordId b" using d(4) [OF b] by (auto simp: paired_def)
    then show ?thesis by (metis ids_def imageI set_map)
  qed
  have old: "x \<in> set (db_orders db)" if h: "x \<in> set (db_orders (create r db))" "b \<in> set as" "paired b x" for x b
    using h tid [OF h(2)] assms(3) by (auto simp: paired_def)
  have new: "x = r" if h: "x \<in> set (db_orders (create r db))" "paired a x" for x
  proof -
    have "tr_id x = tr_id r" using h(2) f(2) by (simp add: paired_def)
    then have "x \<notin> set (db_orders db)" using assms(3) by (metis ids_def imageI set_map)
    then show ?thesis using h(1) by simp
  qed
  show ?thesis
  proof (rule pairs_invI)
    show "distinct (map ap_id (as @ [a]))" using d(1) assms(4) by simp
    show "distinct (map ap_tradeRecordId (as @ [a]))" using d(2) f(2) tid assms(3) by auto
  next
    fix b assume "b \<in> set (as @ [a])"
    then consider "b \<in> set as" | "b = a" by auto
    then show "in_time b" using d(3) f(4,5) by cases (simp_all add: in_time_def)
    from \<open>b \<in> set (as @ [a])\<close> consider "b \<in> set as" | "b = a" by auto
    then show "\<exists>r' \<in> set (db_orders (create r db)). paired b r'" using d(4) f(6) by cases auto
  next
    fix x assume "x \<in> set (db_orders (create r db))" "tr_status x = AWAITING_APPROVAL"
    then show "\<exists>b \<in> set (as @ [a]). ap_tradeRecordId b = tr_id x" using d(5) f(2) by auto
  next
    fix b c x y assume h: "b \<in> set (as @ [a])" "c \<in> set (as @ [a])" "x \<in> set (db_orders (create r db))"
      "y \<in> set (db_orders (create r db))" "b \<noteq> c" "paired b x" "paired c y" "key_of x = key_of y"
    show "spaced b c"
    proof (cases "c = a")
      case True
      then show ?thesis using f(4) by (simp add: spaced_def)
    next
      case False
      then have c: "c \<in> set as" using h(2) by simp
      have y: "y \<in> set (db_orders db)" by (rule old [OF h(4) c h(7)])
      show ?thesis
      proof (cases "b = a")
        case True
        have "x = r" using new h(3,6) True by blast
        then have k: "ap_market c = ap_market a" "ap_exchangeCode c = ap_exchangeCode a" "ap_stockCode c = ap_stockCode a"
          "tr_broker y = tr_broker r" "tr_id y = ap_tradeRecordId c"
          using h(6-8) True by (auto simp: paired_def)
        have "n \<le> ap_requestedAt a - SUCCESSFUL_NOTIFICATION_COOLDOWN_MINUTES * 60 * 1000" if "ap_notifiedAt c = Some n" for n
          using assms(2) c y k that by (auto simp: fresh_pair_def)
        then show ?thesis using True f(4) by (auto simp: spaced_def cooldown_def)
      next
        case False
        then have "b \<in> set as" using h(1) by simp
        then show ?thesis using d(6) c y old h by blast
      qed
    qed
  qed
qed

end
