(* ===== verification/ApprovalRun.thy ===== *)
theory ApprovalRun imports OrderSteps begin

text \<open>
  A concrete run with approvals, at which the properties are applied: a stop loss is requested and
  delivered; it is approved, which starts a handler; or it is rejected and, an hour later, a second one
  is requested and delivered.
\<close>

section \<open>States\<close>

definition stop_signal :: trading_signal where
  "stop_signal = \<lparr>sg_market = OVERSEAS, sg_exchangeCode = ''NASD'', sg_stockCode = ''TQQQ'', sg_side = SELL,
     sg_quantity = Fin (of_nat 5), sg_price = Some (Fin 50), sg_reason = ''exit'', sg_orderDivision = None,
     sg_metadata = Some (no_meta\<lparr>md_phase := Some ''stop-loss''\<rparr>)\<rparr>"

abbreviation no_context :: "unit strategy_context option" where "no_context \<equiv> None"

definition stop_row :: "string \<Rightarrow> int \<Rightarrow> trade_record" where
  "stop_row i t = waiting_record i t stop_signal LIMIT (Some ''trend-following'') no_context KIS example_account"

definition stop_approval :: "string \<Rightarrow> string \<Rightarrow> int \<Rightarrow> approval" where
  "stop_approval j i t = new_approval j i t stop_signal (Some ''trend-following'') no_context"

definition first_delivery :: delivery where
  "first_delivery = \<lparr>dl_ts = ''2'', dl_channel = ''C'', dl_notifiedAt = 2000\<rparr>"

definition second_delivery :: delivery where
  "second_delivery = \<lparr>dl_ts = ''3601'', dl_channel = ''C'', dl_notifiedAt = 3601000\<rparr>"

definition run_start :: order_system where
  "run_start = \<lparr>sy_db = no_orders, sy_approvals = [], sy_env = example_env, sy_runs = [], sy_sent = [], sy_seen = {}, sy_notices = []\<rparr>"

definition run_requested :: order_system where
  "run_requested = stored_pair ([stop_approval ''p'' ''a'' 1000], create (stop_row ''a'' 1000) no_orders) run_start"

definition run_delivered :: order_system where
  "run_delivered = run_requested\<lparr>sy_approvals := [delivered first_delivery (stop_approval ''p'' ''a'' 1000)]\<rparr>"

definition decided_as :: "approval_status \<Rightarrow> approval" where
  "decided_as st = responded st 1000 ''U'' (delivered first_delivery (stop_approval ''p'' ''a'' 1000))"

definition after_decision :: "approval_status \<Rightarrow> order_status \<Rightarrow> approval_tables" where
  "after_decision st tst = ([decided_as st], create (set_status tst (stop_row ''a'' 1000)) no_orders)"

definition run_approved :: order_system where
  "run_approved = begun [\<lparr>rn_id = ''a'', rn_account = record_account (stop_row ''a'' 1000), rn_pc = Approved Opening\<rparr>]
     (stored_pair (after_decision ApApproved SUBMITTING) run_delivered)"

definition run_rejected :: order_system where
  "run_rejected = stored_pair (after_decision ApRejected CANCELLED) run_delivered"

definition later_env :: exec_env where
  "later_env = example_env\<lparr>env_now := 3600000\<rparr>"

definition run_again :: order_system where
  "run_again = stored_pair ([decided_as ApRejected, stop_approval ''q'' ''b'' 3600000],
       create (stop_row ''b'' 3600000) (create (set_status CANCELLED (stop_row ''a'' 1000)) no_orders))
     (run_rejected\<lparr>sy_env := later_env\<rparr>)"

definition run_twice :: order_system where
  "run_twice = run_again\<lparr>sy_approvals :=
     [decided_as ApRejected, delivered second_delivery (stop_approval ''q'' ''b'' 3600000)]\<rparr>"

section \<open>The run\<close>

lemma stop_signal_normal: "normalizeApprovalSignal stop_signal = stop_signal"
  by (simp add: normalizeApprovalSignal_def stop_signal_def to_upper_def upper_char_def trim_def is_space_def)

lemma stop_key: "normalizeKey (signal_key KIS stop_signal) = Inr (signal_key KIS stop_signal)"
  by (simp add: normalizeKey_def normalizeComponent_def key_text_def key_char_def to_upper_def upper_char_def
      trim_def is_space_def signal_key_def stop_signal_def)

lemma stop_quantity: "sg_quantity stop_signal = Fin (of_nat 5)"
  by (simp add: stop_signal_def)

lemma stop_needs_approval: "shouldRequireApproval stop_signal n ctx"
  by (simp add: shouldRequireApproval_def stop_signal_def isManualSellExitSignal_def phase_of_def or_str_def
      MANUAL_SELL_APPROVAL_PHASES_def)

lemma stop_row_fields [simp]:
  "tr_id (stop_row i t) = i" "tr_status (stop_row i t) = AWAITING_APPROVAL" "tr_broker (stop_row i t) = KIS"
  "key_of (stop_row i t) = signal_key KIS stop_signal" "tr_brokerEnvironment (stop_row i t) = Some PAPER_ACCOUNT"
  "tr_brokerAccountHash (stop_row i t) = Some ''hash''"
  by (simp_all add: stop_row_def waiting_record_def key_of_def signal_key_def example_account_def)

lemma stop_approval_fields [simp]:
  "ap_id (stop_approval j i t) = j" "ap_tradeRecordId (stop_approval j i t) = i" "ap_status (stop_approval j i t) = ApPending"
  "ap_requestedAt (stop_approval j i t) = t" "ap_expiresAt (stop_approval j i t) = t + 120000"
  "ap_notifiedAt (stop_approval j i t) = None"
  by (simp_all add: stop_approval_def new_approval_def PROVISIONAL_APPROVAL_MINUTES_def)

lemma delivered_fields [simp]:
  "ap_id (delivered d a) = ap_id a" "ap_tradeRecordId (delivered d a) = ap_tradeRecordId a"
  "ap_status (delivered d a) = ap_status a" "ap_notifiedAt (delivered d a) = Some (dl_notifiedAt d)"
  "ap_expiresAt (delivered d a) = dl_notifiedAt d + 600000" "ap_slackMessageTs (delivered d a) = Some (dl_ts d)"
  "ap_slackChannel (delivered d a) = Some (dl_channel d)"
  by (simp_all add: delivered_def APPROVAL_VALIDITY_MINUTES_def)

lemma decided_fields [simp]:
  "ap_id (decided_as st) = ''p''" "ap_tradeRecordId (decided_as st) = ''a''" "ap_status (decided_as st) = st"
  "ap_notifiedAt (decided_as st) = Some 2000"
  by (simp_all add: decided_as_def responded_def first_delivery_def)

lemma first_parsed: "parseSlackDelivery (Some (''2'', ''C'')) 1000 3000 = Some first_delivery"
  by (simp add: parseSlackDelivery_def first_delivery_def decimal_text_value_def decimal_number_def digits_value_def
      is_digit_def trim_def is_space_def date_of_number_def fl_eval Fin_arith)

lemma second_parsed: "parseSlackDelivery (Some (''3601'', ''C'')) 3600000 3602000 = Some second_delivery"
  by (simp add: parseSlackDelivery_def second_delivery_def decimal_text_value_def decimal_number_def digits_value_def
      is_digit_def trim_def is_space_def date_of_number_def fl_eval Fin_arith)

lemma env_fields [simp]:
  "env_now example_env = 1000" "env_live example_env" "env_active example_env KIS" "env_context example_env b = Inr example_account"
  "env_now later_env = 3600000" "env_context later_env b = Inr example_account"
  by (simp_all add: example_env_def later_env_def)

lemma run_fields [simp]:
  "sy_env run_start = example_env" "sy_env run_requested = example_env" "sy_env run_delivered = example_env"
  "sy_env run_again = later_env"
  "sy_db run_requested = create (stop_row ''a'' 1000) no_orders" "sy_db run_delivered = sy_db run_requested"
  "sy_approvals run_requested = [stop_approval ''p'' ''a'' 1000]"
  "sy_approvals run_delivered = [delivered first_delivery (stop_approval ''p'' ''a'' 1000)]"
  "sy_seen run_delivered = {stop_row ''a'' 1000}"
  "sy_approvals run_rejected = [decided_as ApRejected]"
  "sy_db run_rejected = create (set_status CANCELLED (stop_row ''a'' 1000)) no_orders"
  by (simp_all add: run_start_def run_requested_def run_delivered_def run_again_def run_rejected_def after_decision_def no_orders_def)

lemma reachable_requested: "reachable run_requested"
proof -
  have "reachable run_start" by (rule start) (simp add: initial_def run_start_def no_orders_def)
  moreover have "request_admission example_env ''a'' ''p'' KIS stop_signal LIMIT (Some ''trend-following'') no_context ([], no_orders) =
      Inr (([stop_approval ''p'' ''a'' 1000], create (stop_row ''a'' 1000) no_orders), Some (stop_approval ''p'' ''a'' 1000))"
    by (simp add: request_admission_def stop_signal_normal admit_def stop_key findFirst_def no_orders_def approval_creator_def
        recently_notified_def create_approval_def stop_approval_def stop_row_def)
  then have "request_admission (sy_env run_start) ''a'' ''p'' KIS stop_signal LIMIT (Some ''trend-following'') no_context (tables run_start) =
      Inr (([stop_approval ''p'' ''a'' 1000], create (stop_row ''a'' 1000) no_orders), Some (stop_approval ''p'' ''a'' 1000))"
    by (simp add: run_start_def tables_def)
  then have "order_step run_start run_requested" unfolding run_requested_def
    by (rule order_step.approval_requested [OF _ stop_needs_approval _ _ stop_quantity])
      (simp_all add: run_start_def ids_def no_orders_def)
  ultimately show ?thesis by (rule reachable.step)
qed

lemma reachable_delivered: "reachable run_delivered"
proof -
  have "finalize_delivery 3000 (stop_approval ''p'' ''a'' 1000) (Some first_delivery) (sy_approvals run_requested) =
      ([delivered first_delivery (stop_approval ''p'' ''a'' 1000)], True)"
    by (simp add: finalize_delivery_def update_approvals_def)
  then show ?thesis
    using reachable.step [OF reachable_requested order_step.request_delivered [of "stop_approval ''p'' ''a'' 1000" run_requested 3000
        "Some (''2'', ''C'')" 3000]] first_parsed
    by (simp add: run_delivered_def)
qed

lemma read_delivered:
  "read_pair ''p'' (Some (delivered first_delivery (stop_approval ''p'' ''a'' 1000), stop_row ''a'' 1000)) run_delivered"
  by (simp add: read_pair_def read_row_def)

lemma stop_decision:
  assumes "st = (if action = APPROVE then ApApproved else ApRejected)" "tst = (if action = APPROVE then SUBMITTING else CANCELLED)"
  shows "respond example_env (Some [''U'']) action ''p'' ''U''
      (Some (delivered first_delivery (stop_approval ''p'' ''a'' 1000), stop_row ''a'' 1000)) (tables run_delivered) =
    (after_decision st tst,
     \<lparr>wr_approvalId = ''p'', wr_approvalStatus = Some st, wr_tradeRecordId = Some ''a'', wr_tradeStatus = Some tst,
      wr_claimed = True, wr_submitted = False, wr_reason = None\<rparr>)"
proof -
  have u: "authorizedActor (Some [''U'']) ''U'' = Some ''U''" by (simp add: authorizedActor_def trim_def is_space_def)
  have m: "matches_record example_env (stop_row ''a'' 1000)"
    by (simp add: matches_record_def matchesCurrentBrokerContext_def matchesCurrentContext_def example_account_def
        trim_def is_space_def)
  have n: "nonblank (Some ''2'')" "nonblank (Some ''C'')" by (simp_all add: nonblank_def trim_def is_space_def)
  have c: "claim_pair (\<lambda>x. ap_id x = ''p'' \<and> ap_status x = ApPending \<and> 1000 < ap_expiresAt x) (responded st 1000 ''U'') ''a'' tst
      (tables run_delivered) = Some (after_decision st tst)"
    by (simp add: claim_pair_def update_approvals_def updateMany_def awaiting_def change_where_def after_decision_def
        decided_as_def create_def no_orders_def first_delivery_def)
  show ?thesis
    using assms u m n c by (cases action) (simp_all add: respond_def decide_def first_delivery_def Let_def)
qed

lemma begun_nil: "begun [] s = s"
  by (simp add: begun_def)

lemma decision_step:
  assumes "st = (if action = APPROVE then ApApproved else ApRejected)" "tst = (if action = APPROVE then SUBMITTING else CANCELLED)"
  shows "order_step run_delivered (begun (if action = APPROVE
      then [\<lparr>rn_id = ''a'', rn_account = record_account (stop_row ''a'' 1000), rn_pc = Approved Opening\<rparr>] else [])
      (stored_pair (after_decision st tst) run_delivered))"
proof -
  have "order_step run_delivered (begun (decided_runs
      (Some (delivered first_delivery (stop_approval ''p'' ''a'' 1000), stop_row ''a'' 1000)) action
      \<lparr>wr_approvalId = ''p'', wr_approvalStatus = Some st, wr_tradeRecordId = Some ''a'', wr_tradeStatus = Some tst,
        wr_claimed = True, wr_submitted = False, wr_reason = None\<rparr>) (stored_pair (after_decision st tst) run_delivered))"
    using order_step.decided [OF read_delivered, of "Some [''U'']" action "''U''"] stop_decision [OF assms] by simp
  then show ?thesis by (cases action) (simp_all add: decided_runs_def)
qed

lemma reachable_approved: "reachable run_approved"
  using reachable.step [OF reachable_delivered decision_step [of ApApproved APPROVE SUBMITTING]] by (simp add: run_approved_def)

lemma reachable_rejected: "reachable run_rejected"
  using reachable.step [OF reachable_delivered decision_step [of ApRejected REJECT CANCELLED]]
  by (simp add: run_rejected_def begun_nil)

lemma reachable_again: "reachable run_again"
proof -
  let ?s = "run_rejected\<lparr>sy_env := later_env\<rparr>"
  have r: "reachable ?s" by (rule reachable.step [OF reachable_rejected order_step.configured])
  have un: "\<not> is_unresolved (set_status CANCELLED (stop_row ''a'' 1000))"
    by (simp add: is_unresolved_def set_status_def stop_row_def waiting_record_def)
  have k: "key_of (set_status CANCELLED (stop_row ''a'' 1000)) = signal_key KIS stop_signal"
    using stop_row_fields(4) [of "''a''" 1000] by (simp add: key_of_def set_status_def)
  have "request_admission later_env ''b'' ''q'' KIS stop_signal LIMIT (Some ''trend-following'') no_context (tables ?s) =
      Inr ((sy_approvals run_again, sy_db run_again), Some (stop_approval ''q'' ''b'' 3600000))"
    using un by (simp add: request_admission_def stop_signal_normal admit_def stop_key findFirst_def approval_creator_def
        recently_notified_def create_approval_def stop_approval_def stop_row_def run_again_def no_orders_def
        SUCCESSFUL_NOTIFICATION_COOLDOWN_MINUTES_def create_def)
  then have "request_admission (sy_env ?s) ''b'' ''q'' KIS stop_signal LIMIT (Some ''trend-following'') no_context (tables ?s) =
      Inr ((sy_approvals run_again, sy_db run_again), Some (stop_approval ''q'' ''b'' 3600000))" by simp
  then have "order_step ?s (stored_pair (sy_approvals run_again, sy_db run_again) ?s)"
    by (rule order_step.approval_requested [OF _ stop_needs_approval _ _ stop_quantity])
      (simp_all add: ids_def no_orders_def create_def set_status_def)
  moreover have "stored_pair (sy_approvals run_again, sy_db run_again) ?s = run_again" by (simp add: run_again_def)
  ultimately have "order_step ?s run_again" by simp
  then show ?thesis by (rule reachable.step [OF r])
qed

lemma reachable_twice: "reachable run_twice"
proof -
  have as: "sy_approvals run_again = [decided_as ApRejected, stop_approval ''q'' ''b'' 3600000]" by (simp add: run_again_def)
  have "finalize_delivery 3602000 (stop_approval ''q'' ''b'' 3600000) (Some second_delivery) (sy_approvals run_again) =
      ([decided_as ApRejected, delivered second_delivery (stop_approval ''q'' ''b'' 3600000)], True)"
    by (simp add: finalize_delivery_def update_approvals_def as)
  then show ?thesis
    using reachable.step [OF reachable_again order_step.request_delivered [of "stop_approval ''q'' ''b'' 3600000" run_again 3602000
        "Some (''3601'', ''C'')" 3602000]] second_parsed as
    by (simp add: run_twice_def)
qed

end
