(* ===== verification/ApprovalSafety.thy ===== *)
theory ApprovalSafety imports ApprovalPairs ApprovalRun begin

text \<open>
  What holds of the approvals in every reachable state of the order system: pairs in step, at most one
  decision per approval, the cool-down between requests, and for each approved sell under way its
  approval. The transactions that expire a pair never fail.
\<close>

section \<open>Every step keeps the pairs\<close>

definition sells_inv :: "approval list \<Rightarrow> run list \<Rightarrow> bool" where
  "sells_inv as rns \<longleftrightarrow> (\<forall>rn \<in> set rns. \<forall>p. rn_pc rn = Approved p \<longrightarrow> (\<exists>a \<in> set as. ap_tradeRecordId a = rn_id rn))"

definition approval_inv :: "order_system \<Rightarrow> bool" where
  "approval_inv s \<longleftrightarrow> pairs_inv (sy_approvals s) (sy_db s) \<and> sells_inv (sy_approvals s) (sy_runs s)"

lemma approval_inv_quiet:
  assumes "approval_inv s" "rows quiet (sy_db s) db"
  shows "approval_inv (stored db s)"
  using assms pairs_quiet by (auto simp: approval_inv_def)

text \<open>A handler stays of its kind.\<close>

lemma approval_inv_moved:
  assumes "approval_inv s" "stands i c (Approved p0) s \<or> pc = Automatic p"
  shows "approval_inv (moved i pc s)"
proof -
  have "\<exists>a \<in> set (sy_approvals s). ap_tradeRecordId a = rn_id rn"
    if rn: "rn \<in> set (with_pc i pc (sy_runs s))" "rn_pc rn = Approved q" for rn q
  proof -
    obtain rn0 where rn0: "rn0 \<in> set (sy_runs s)" "rn = (if rn_id rn0 = i then rn0\<lparr>rn_pc := pc\<rparr> else rn0)"
      using rn(1) by (auto simp: with_pc_def)
    show ?thesis
    proof (cases "rn_id rn0 = i")
      case True
      then have "pc = Approved q" using rn0(2) rn(2) by simp
      then have "stands i c (Approved p0) s" using assms(2) by simp
      then show ?thesis using assms(1) True rn0(2) by (force simp: approval_inv_def sells_inv_def stands_def)
    next
      case False
      then show ?thesis using assms(1) rn0 rn(2) by (auto simp: approval_inv_def sells_inv_def)
    qed
  qed
  then show ?thesis using assms(1) by (auto simp: approval_inv_def sells_inv_def)
qed

lemma approval_inv_posted [simp]: "approval_inv (posted i s) = approval_inv s"
  by (simp add: approval_inv_def)

lemma approval_inv_notices [simp]: "approval_inv (s\<lparr>sy_notices := ns\<rparr>) = approval_inv s"
  by (simp add: approval_inv_def)

lemma sells_mono:
  "sells_inv as rns \<Longrightarrow> set (map ap_tradeRecordId as) \<subseteq> set (map ap_tradeRecordId as') \<Longrightarrow> sells_inv as' rns"
  unfolding sells_inv_def by (metis (no_types, lifting) imageE imageI set_map subsetD)

text \<open>Settling a pair.\<close>

lemma approval_inv_settled:
  assumes "approval_inv s" "order_inv s" "st \<noteq> AWAITING_APPROVAL" "x \<in> set (sy_approvals s)" "ap_id x = j" "ap_tradeRecordId x = i"
    "\<And>a. g a \<Longrightarrow> ap_id a = j \<and> ap_status a = ApPending"
    "\<And>a. same_approval a (f a) \<and> ap_notifiedAt (f a) = ap_notifiedAt a \<and> ap_expiresAt (f a) = ap_expiresAt a \<and>
       ap_status (f a) \<noteq> ApPending"
    "snd (update_approvals g f (sy_approvals s)) \<noteq> 0"
    "tabs = (fst (update_approvals g f (sy_approvals s)), fst (updateMany (awaiting i) (set_status st) (sy_db s)))"
  shows "approval_inv (stored_pair tabs s)"
proof -
  have p: "pairs_inv (sy_approvals s) (sy_db s)" and d: "distinct (ids (sy_db s))"
    using assms(1,2) by (simp_all add: approval_inv_def order_inv_def db_inv_def)
  have "ap_tradeRecordId a = i \<and> ap_status a = ApPending" if a: "a \<in> set (sy_approvals s)" "g a" for a
    using unique_approval(2) [OF pairs_invD(1) [OF p] a(1) assms(4)] assms(5,6,7) a(2) by blast
  then have "pairs_inv (fst tabs) (snd tabs)"
    using pairs_settled [OF p d assms(3), of g i f] assms(8,9) unfolding assms(10) by simp
  moreover have "map ap_tradeRecordId (fst tabs) = map ap_tradeRecordId (sy_approvals s)"
    using update_approvals_ids(2) [of g f] assms(8) unfolding assms(10) by simp
  ultimately show ?thesis using assms(1) sells_mono [of "sy_approvals s" "sy_runs s" "fst tabs"]
    by (simp add: approval_inv_def)
qed

lemma expired_keeps:
  "same_approval a (expired a) \<and> ap_notifiedAt (expired a) = ap_notifiedAt a \<and> ap_expiresAt (expired a) = ap_expiresAt a \<and>
     ap_status (expired a) \<noteq> ApPending"
  by (simp add: expired_def same_approval_def)

lemma approval_inv_expired:
  assumes "approval_inv s" "order_inv s" "expire_pair g i m (tables s) = Inr tabs" "x \<in> set (sy_approvals s)" "ap_id x = j"
    "ap_tradeRecordId x = i" "\<And>a. g a \<Longrightarrow> ap_id a = j \<and> ap_status a = ApPending"
  shows "approval_inv (stored_pair tabs s)"
proof -
  have same: "approval_inv (stored_pair (tables s) s)" using assms(1) by (simp add: approval_inv_def)
  show ?thesis using expire_pair_cases [OF assms(3)]
  proof (elim disjE conjE)
    assume "tabs = tables s"
    then show ?thesis using same by simp
  next
    assume t: "tabs = (fst (update_approvals g expired (fst (tables s))),
        fst (updateMany (awaiting i) (set_status CANCELLED) (snd (tables s))))"
      "snd (update_approvals g expired (fst (tables s))) \<noteq> 0"
    show ?thesis
      by (rule approval_inv_settled [OF assms(1,2) _ assms(4-7) expired_keeps]) (use t in simp_all)
  qed
qed

lemma expire_pair_keeps_ids:
  "expire_pair g i m tabs = Inr tabs' \<Longrightarrow> map ap_id (fst tabs') = map ap_id (fst tabs) \<and>
     map ap_tradeRecordId (fst tabs') = map ap_tradeRecordId (fst tabs)"
  using expire_pair_cases [of g i m tabs tabs'] update_approvals_ids [of g expired "fst tabs"] expired_keeps by auto

lemma approval_inv_due:
  assumes "approval_inv s" "order_inv s" "expire_due_loop t as (tables s) = Inr tabs"
    "\<forall>a \<in> set as. \<exists>x \<in> set (sy_approvals s). ap_id x = ap_id a \<and> ap_tradeRecordId x = ap_tradeRecordId a"
  shows "approval_inv (stored_pair tabs s)"
  using assms
proof (induction as arbitrary: s)
  case Nil
  then show ?case by (auto simp: approval_inv_def)
next
  case (Cons a as)
  obtain tabs1 where e: "expire_pair (\<lambda>x. ap_id x = ap_id a \<and> ap_status x = ApPending \<and> ap_expiresAt x \<le> t)
      (ap_tradeRecordId a) ''Failed to cancel expired approval trade'' (tables s) = Inr tabs1"
      "expire_due_loop t as tabs1 = Inr tabs"
    using Cons.prems(3) by (auto split: sum.splits)
  obtain x where x: "x \<in> set (sy_approvals s)" "ap_id x = ap_id a" "ap_tradeRecordId x = ap_tradeRecordId a"
    using Cons.prems(4) by auto
  let ?s = "stored_pair tabs1 s"
  have i: "approval_inv ?s"
    by (rule approval_inv_expired [OF Cons.prems(1,2) e(1) x]) simp
  have o': "order_inv ?s" by (rule inv_expired [OF Cons.prems(2) e(1)])
  have ids: "map (\<lambda>x. (ap_id x, ap_tradeRecordId x)) (fst tabs1) = map (\<lambda>x. (ap_id x, ap_tradeRecordId x)) (sy_approvals s)"
    using expire_pair_keeps_ids [OF e(1)] by (simp add: list_eq_iff_nth_eq)
  have "\<exists>y \<in> set (fst tabs1). ap_id y = ap_id b \<and> ap_tradeRecordId y = ap_tradeRecordId b" if b: "b \<in> set as" for b
  proof -
    obtain x where "x \<in> set (sy_approvals s)" "ap_id x = ap_id b" "ap_tradeRecordId x = ap_tradeRecordId b"
      using Cons.prems(4) b by auto
    then have "(ap_id b, ap_tradeRecordId b) \<in> set (map (\<lambda>x. (ap_id x, ap_tradeRecordId x)) (sy_approvals s))"
      by (simp add: image_iff) metis
    then show ?thesis unfolding ids [symmetric] by auto
  qed
  then have "approval_inv (stored_pair tabs ?s)" using Cons.IH [OF i o'] e(2) by (simp add: tables_def)
  then show ?case by (simp add: approval_inv_def)
qed

lemma approval_inv_begun:
  assumes "approval_inv s" "\<And>rn p. rn \<in> set rns \<Longrightarrow> rn_pc rn = Approved p \<Longrightarrow> \<exists>a \<in> set (sy_approvals s). ap_tradeRecordId a = rn_id rn"
  shows "approval_inv (begun rns s)"
  using assms by (auto simp: approval_inv_def sells_inv_def)

lemma approval_inv_admitted:
  assumes "approval_inv s" "order_inv s" "exec_admit (sy_env s) i id bo (sg :: trading_signal) n (sy_db s) = Inr (db, Some (r, c))"
    "i \<notin> set (ids (sy_db s))"
  shows "approval_inv (begun [\<lparr>rn_id = i, rn_account = c, rn_pc = Automatic Preparing\<rparr>] (stored db s))"
proof -
  have "exclusive (sy_db s)" using assms(2) by (simp add: order_inv_def db_inv_def)
  from admission_facts [OF this assms(3)]
  have "db = create r (sy_db s)" "tr_id r = i" "tr_status r = SUBMITTING" by (auto simp: unsubmitted_def)
  then have "approval_inv (stored db s)" using assms(1,4) pairs_created by (auto simp: approval_inv_def)
  then show ?thesis by (rule approval_inv_begun) auto
qed

lemma approval_inv_requested:
  assumes "approval_inv s" "order_inv s" "request_admission (sy_env s) i j b sg ot n ctx (tables s) = Inr (tabs, Some a)"
    "shouldRequireApproval sg n' ctx'" "i \<notin> set (ids (sy_db s))" "j \<notin> set (map ap_id (sy_approvals s))"
  shows "approval_inv (stored_pair tabs s)"
proof -
  have e: "exclusive (snd (tables s))" using assms(2) by (simp add: order_inv_def db_inv_def)
  obtain r where r: "tabs = (sy_approvals s @ [a], create r (sy_db s))" "fresh_pair r a (tables s)" "tr_id r = i" "ap_id a = j"
      "tr_side r = sg_side sg"
    using request_admission_facts [OF assms(3) e] by auto
  have "sg_side sg = SELL" using assms(4) by (auto simp: shouldRequireApproval_def split: if_splits)
  then have "pairs_inv (fst tabs) (snd tabs)"
    using pairs_requested [of "sy_approvals s" "sy_db s" r a] assms(1,5,6) r by (simp add: approval_inv_def tables_def)
  moreover have "sells_inv (fst tabs) (sy_runs s)" using assms(1) r(1) by (auto simp: approval_inv_def sells_inv_def)
  ultimately show ?thesis by (simp add: approval_inv_def)
qed

lemma claim_pair_ids:
  assumes "claim_pair g f i st tabs = Some tabs'" "\<And>a. ap_tradeRecordId (f a) = ap_tradeRecordId a"
  shows "map ap_tradeRecordId (fst tabs') = map ap_tradeRecordId (fst tabs)"
  using claim_pair_cases [OF assms(1)] assms(2) by (auto simp: update_approvals_def)

lemma respond_ids:
  assumes "respond env users action j user found tabs = (tabs', res)"
  shows "map ap_tradeRecordId (fst tabs') = map ap_tradeRecordId (fst tabs)"
  using respond_cases [OF assms]
proof (elim disjE exE conjE)
  fix a r assume "claim_pair (\<lambda>x. ap_id x = j \<and> ap_status x = ApPending \<and> ap_expiresAt x \<le> env_now env) expired
      (ap_tradeRecordId a) CANCELLED tabs = Some tabs'"
  then show ?thesis by (rule claim_pair_ids) (simp add: expired_def)
next
  fix a r assume "decided_pair env action j a r tabs tabs'"
  then obtain actor st tst where "claim_pair (\<lambda>x. ap_id x = j \<and> ap_status x = ApPending \<and> ap_expiresAt x > env_now env)
       (responded st (env_now env) actor) (ap_tradeRecordId a) tst tabs = Some tabs'"
    unfolding decided_pair_def by blast
  then show ?thesis by (rule claim_pair_ids) (simp add: responded_def)
qed simp

lemma approval_inv_decided:
  assumes "approval_inv s" "order_inv s" "read_pair j found s"
    "respond (sy_env s) users action j user found (tables s) = (tabs, res)"
  shows "approval_inv (begun (decided_runs found action res) (stored_pair tabs s))"
proof -
  have "approval_inv (stored_pair tabs s)" using respond_cases [OF assms(4)]
  proof (elim disjE exE conjE)
    assume "tabs = tables s"
    then show ?thesis using assms(1) by (simp add: approval_inv_def)
  next
    fix a r assume f: "found = Some (a, r)" and c: "claim_pair (\<lambda>x. ap_id x = j \<and> ap_status x = ApPending \<and>
        ap_expiresAt x \<le> env_now (sy_env s)) expired (ap_tradeRecordId a) CANCELLED (tables s) = Some tabs"
    obtain x where "x \<in> set (sy_approvals s)" "ap_id x = j" "ap_tradeRecordId x = ap_tradeRecordId a"
      using assms(3) f by (auto simp: read_pair_def)
    note y = this and z = claim_pair_cases [OF c]
    show ?thesis by (rule approval_inv_settled [OF assms(1,2) _ y(1,2,3) _ expired_keeps]) (use z in simp_all)
  next
    fix a r assume f: "found = Some (a, r)" and dp: "decided_pair (sy_env s) action j a r (tables s) tabs"
    obtain x where y: "x \<in> set (sy_approvals s)" "ap_id x = j" "ap_tradeRecordId x = ap_tradeRecordId a"
      using assms(3) f by (auto simp: read_pair_def)
    obtain actor st tst where c: "claim_pair (\<lambda>x. ap_id x = j \<and> ap_status x = ApPending \<and> ap_expiresAt x > env_now (sy_env s))
       (responded st (env_now (sy_env s)) actor) (ap_tradeRecordId a) tst (tables s) = Some tabs"
     "st \<noteq> ApPending" "tst \<noteq> AWAITING_APPROVAL"
      using dp unfolding decided_pair_def by (auto split: if_splits)
    have k: "same_approval x (responded st t actor x) \<and> ap_notifiedAt (responded st t actor x) = ap_notifiedAt x \<and>
        ap_expiresAt (responded st t actor x) = ap_expiresAt x \<and> ap_status (responded st t actor x) \<noteq> ApPending" for x t
      using c(2) by (simp add: responded_def same_approval_def)
    show ?thesis
      by (rule approval_inv_settled [OF assms(1,2) c(3) y _ k]) (use claim_pair_cases [OF c(1)] in simp_all)
  qed
  moreover have "\<exists>a \<in> set (fst tabs). ap_tradeRecordId a = rn_id rn" if rn: "rn \<in> set (decided_runs found action res)" for rn
  proof -
    obtain a r where f: "found = Some (a, r)" "rn_id rn = ap_tradeRecordId a"
      using rn by (auto simp: decided_runs_def split: option.splits if_splits)
    obtain x where x: "x \<in> set (sy_approvals s)" "ap_tradeRecordId x = ap_tradeRecordId a"
      using assms(3) f(1) by (auto simp: read_pair_def)
    have "map ap_tradeRecordId (fst tabs) = map ap_tradeRecordId (sy_approvals s)"
      using respond_ids [OF assms(4)] by simp
    then show ?thesis using x f(2) by (metis imageE imageI set_map)
  qed
  ultimately show ?thesis by (intro approval_inv_begun) auto
qed

lemma approval_inv_clamped:
  assumes "approval_inv s" "sell_clamp env a r q reply (sy_approvals s) = (as, pc)"
  shows "approval_inv (s\<lparr>sy_approvals := as\<rparr>)"
proof -
  obtain g where as: "as = sy_approvals s \<or> as = fst (update_approvals g (store_signal q) (sy_approvals s))"
    using assms(2) by (auto simp: sell_clamp_def Let_def split: db_reply.splits)
  have st: "paired (store_signal q a) = paired a" "in_time (store_signal q a) = in_time a" "ap_id (store_signal q a) = ap_id a"
    "ap_tradeRecordId (store_signal q a) = ap_tradeRecordId a" "spaced (store_signal q a) b = spaced a b"
    "spaced b (store_signal q a) = spaced b a" for a b
    by (auto simp: store_signal_def paired_def in_time_def spaced_def fun_eq_iff split: option.splits)
  have ids: "map ap_id as = map ap_id (sy_approvals s)" "map ap_tradeRecordId as = map ap_tradeRecordId (sy_approvals s)"
    using as by (auto simp: update_approvals_def st)
  note d = pairs_invD [of "sy_approvals s" "sy_db s"]
  have inv: "pairs_inv (sy_approvals s) (sy_db s)" using assms(1) by (simp add: approval_inv_def)
  have like: "\<exists>a \<in> set (sy_approvals s). a' = a \<or> a' = store_signal q a" if "a' \<in> set as" for a'
    using as
  proof
    assume "as = fst (update_approvals g (store_signal q) (sy_approvals s))"
    then have "a' \<in> set (fst (update_approvals g (store_signal q) (sy_approvals s)))" using that by (rule subst)
    then obtain a where "a \<in> set (sy_approvals s)" "a' = (if g a then store_signal q a else a)"
      unfolding updated_approval by blast
    then show ?thesis by (cases "g a") auto
  qed (use that in blast)
  have "pairs_inv as (sy_db s)"
  proof (rule pairs_invI)
    show "distinct (map ap_id as)" "distinct (map ap_tradeRecordId as)" using d(1,2) [OF inv] ids by simp_all
    show "in_time a'" "\<exists>r \<in> set (db_orders (sy_db s)). paired a' r" if "a' \<in> set as" for a'
      using like [OF that] d(3,4) [OF inv] st by auto
    show "\<exists>a \<in> set as. ap_tradeRecordId a = tr_id r"
      if "r \<in> set (db_orders (sy_db s))" "tr_status r = AWAITING_APPROVAL" for r
      using d(5) [OF inv that] ids(2) by (metis imageE imageI set_map)
    show "spaced a' b'" if h: "a' \<in> set as" "b' \<in> set as" "r \<in> set (db_orders (sy_db s))" "r' \<in> set (db_orders (sy_db s))"
      "a' \<noteq> b'" "paired a' r" "paired b' r'" "key_of r = key_of r'" for a' b' r r'
    proof -
      obtain a where a: "a \<in> set (sy_approvals s)" "a' = a \<or> a' = store_signal q a" using like [OF h(1)] by blast
      obtain b where b: "b \<in> set (sy_approvals s)" "b' = b \<or> b' = store_signal q b" using like [OF h(2)] by blast
      have "distinct (map ap_id as)" using d(1) [OF inv] ids by simp
      then have "ap_id a' \<noteq> ap_id b'" using h(1,2,5) unique_approval(2) by blast
      then have "a \<noteq> b" using a(2) b(2) st by auto
      moreover have "paired a r" "paired b r'" using h(6,7) a(2) b(2) st by auto
      ultimately have "spaced a b" using d(6) [OF inv a(1) b(1) h(3,4)] h(8) by blast
      then show ?thesis using a(2) b(2) st by auto
    qed
  qed
  then show ?thesis using assms(1) sells_mono [of "sy_approvals s" "sy_runs s" as] ids by (simp add: approval_inv_def)
qed

lemmas quiet_steps = approval_inv_quiet [OF _ rows_quiet [OF take_over_rows]]
  approval_inv_quiet [OF _ rows_quiet [OF cancellation_rows(1)]] approval_inv_quiet [OF _ rows_quiet [OF cancellation_rows(2)]]
  approval_inv_quiet [OF _ rows_quiet [OF cancellation_rows(3)]] approval_inv_quiet [OF _ rows_quiet [OF cancellation_rows(4)]]
  approval_inv_quiet [OF _ rows_quiet [OF cancellation_rows(5)]]

lemma approval_inv_step: "order_step s s' \<Longrightarrow> order_inv s \<Longrightarrow> approval_inv s \<Longrightarrow> approval_inv s'"
proof (induction rule: order_step.induct)
  case (configured s env)
  then show ?case by (simp add: approval_inv_def)
next
  case (admitted s i bo sg n db r c q)
  then show ?case using approval_inv_admitted by blast
next
  case (cancelled_before i c m s)
  then show ?case using approval_inv_quiet [OF _ rows_quiet [OF cancelPreSubmit_rows]] approval_inv_moved by blast
next
  case (claimed i c s t db pc)
  have "db = fst (updateMany (unsubmitted i) (set_started t) (sy_db s))" using claimed(2) by (simp add: exec_claim_def Let_def)
  then show ?case using approval_inv_quiet [OF claimed(4)] quiet_own(1) approval_inv_moved by blast
next
  case (aborted i c t m s)
  then show ?case using approval_inv_quiet quiet_own(3) approval_inv_moved unfolding exec_abort_def by blast
next
  case (recorded i c answer s reply db ok)
  have "rows quiet (sy_db s) db" using rows_quiet [OF exec_record_rows [of "sy_db s" reply i answer]] recorded(2) by simp
  then show ?case using approval_inv_quiet recorded(4) approval_inv_moved by blast
next
  case (lost s i)
  then show ?case by (auto simp: approval_inv_def sells_inv_def)
next
  case (due_expired b sg t s tabs)
  show ?case using due_expired
    by (intro approval_inv_due [of s t]) (auto simp: expireDueApprovalPairs_def)
next
  case (approval_requested s i j b sg ot n ctx tabs a q)
  then show ?case using approval_inv_requested by blast
next
  case (request_delivered a s t answer received)
  have "exclusive (sy_db s)" "distinct (ids (sy_db s))" using request_delivered(2) by (simp_all add: order_inv_def db_inv_def)
  then have p: "pairs_inv (fst (finalize_delivery t a (parseSlackDelivery answer (ap_requestedAt a) received) (sy_approvals s))) (sy_db s)"
    using pairs_delivered request_delivered(1,3) by (simp add: approval_inv_def)
  have "map ap_tradeRecordId (fst (finalize_delivery t a dl as)) = map ap_tradeRecordId as" for dl as
    by (auto simp: finalize_delivery_def update_approvals_def delivered_def Let_def split: option.splits)
  then have "sells_inv (fst (finalize_delivery t a dl (sy_approvals s))) (sy_runs s)" for dl
    using request_delivered(3) unfolding approval_inv_def by (metis order_refl sells_mono)
  then show ?case using p by (simp add: approval_inv_def)
next
  case (request_undelivered a s tabs)
  show ?case
    by (rule approval_inv_expired [OF request_undelivered(4,3) request_undelivered(2) [unfolded expireApprovalPair_def]
        request_undelivered(1)]) auto
next
  case (decided j found s users action user tabs res)
  then show ?case using approval_inv_decided by blast
next
  case (sell_clamped i c q s a r reply as pc)
  have "stands i c (Approved (Clamping q)) (s\<lparr>sy_approvals := as\<rparr>)" using sell_clamped(1) by simp
  then show ?case using approval_inv_clamped [OF sell_clamped(7,5)] approval_inv_moved by blast
next
  case (sell_cancelled i c m reason s cur db pc)
  have "rows quiet (sy_db s) db" using rows_quiet [OF sell_cancel_rows [of "sy_db s" cur i m reason]] sell_cancelled(2) by simp
  then have "approval_inv (stored db s)" using approval_inv_quiet sell_cancelled(4) by blast
  then show ?case using approval_inv_moved sell_cancelled(1) stands_stored(1) by blast
next
  case (sell_claimed i c q s cur t db pc)
  have "db = fst (updateMany (unsubmitted i) (set_sell_started q t) (sy_db s))" using sell_claimed(2) by (auto simp: sell_claim_def Let_def)
  then have "approval_inv (stored db s)" using approval_inv_quiet [OF sell_claimed(4)] quiet_own(2) by blast
  then show ?case using approval_inv_moved sell_claimed(1) stands_stored(1) by blast
next
  case (sell_aborted i c t m reason s cur db pc)
  have "db = fst (updateMany (started_at i t) (set_aborted m) (sy_db s))" using sell_end_stage(2) [OF sell_aborted(2)] by blast
  then have "approval_inv (stored db s)" using approval_inv_quiet [OF sell_aborted(4)] quiet_own(3) by blast
  then show ?case using approval_inv_moved sell_aborted(1) stands_stored(1) by blast
next
  case (sell_recorded i c answer s reply cur db res)
  have "rows quiet (sy_db s) db" using rows_quiet [OF sell_record_rows [of "sy_db s" reply cur i answer]] sell_recorded(2) by simp
  then have "approval_inv (stored db s)" using approval_inv_quiet sell_recorded(4) by blast
  then show ?case using approval_inv_moved sell_recorded(1) stands_stored(1) by blast
next
  case (assigned current token_matches i token actor s db item)
  then show ?case using approval_inv_quiet rows_quiet [OF assignment_rows] by blast
next
  case (reconciled r s os describe m t held_now us db ns new)
  then show ?case using approval_inv_quiet [OF _ reconcile_quiet] by simp
qed (auto intro: approval_inv_moved quiet_steps simp del: moved_simps)

lemma reachable_approvals: "reachable s \<Longrightarrow> approval_inv s"
proof (induction rule: reachable.induct)
  case (start s)
  then show ?case by (simp add: initial_def approval_inv_def pairs_inv_def sells_inv_def)
qed (rule approval_inv_step [OF _ reachable_inv])

section \<open>Properties\<close>

text \<open>
  (C5) Approvals and orders are in step: every approval has its order, a sell of its instrument, which
  waits exactly while the approval is pending; and every order that waits has its pending approval. An
  order is never left waiting for a decision nobody can make.
\<close>

theorem approvals_in_step:
  assumes "reachable s"
  shows "(\<forall>a \<in> set (sy_approvals s). \<exists>r \<in> set (db_orders (sy_db s)). paired a r) \<and>
    (\<forall>r \<in> set (db_orders (sy_db s)). tr_status r = AWAITING_APPROVAL \<longrightarrow>
       (\<exists>a \<in> set (sy_approvals s). paired a r \<and> ap_status a = ApPending))"
proof -
  have p: "pairs_inv (sy_approvals s) (sy_db s)" using reachable_approvals [OF assms] by (simp add: approval_inv_def)
  note d = pairs_invD [OF p]
  have "\<exists>a \<in> set (sy_approvals s). paired a r \<and> ap_status a = ApPending"
    if r: "r \<in> set (db_orders (sy_db s))" "tr_status r = AWAITING_APPROVAL" for r
  proof -
    obtain a where a: "a \<in> set (sy_approvals s)" "ap_tradeRecordId a = tr_id r" using d(5) [OF r] by blast
    obtain r' where r': "r' \<in> set (db_orders (sy_db s))" "paired a r'" using d(4) [OF a(1)] by blast
    have "r' = r" using unique_row [OF reachable_inv [OF assms] r'(1) r(1)] r'(2) a(2) by (simp add: paired_def)
    then show ?thesis using a(1) r'(2) r(2) by (auto simp: paired_def)
  qed
  then show ?thesis using d(4) by blast
qed

lemma waiting_count:
  assumes "distinct (ids db)" "r \<in> set (db_orders db)" "awaiting i r"
  shows "snd (updateMany (awaiting i) f db) = 1"
proof -
  have "awaiting i x \<longleftrightarrow> x = r" if "x \<in> set (db_orders db)" for x
    using assms that unfolding awaiting_def ids_def by (metis distinct_map inj_onD)
  then have "filter (awaiting i) (db_orders db) = filter (\<lambda>x. x = r) (db_orders db)" by (rule filter_cong [OF refl])
  moreover have "distinct (db_orders db)" using assms(1) by (simp add: ids_def distinct_map)
  moreover have "{x. x = r} \<inter> set (db_orders db) = {r}" using assms(2) by blast
  ultimately show ?thesis by (simp add: updateMany_def distinct_length_filter)
qed

lemma expire_succeeds:
  assumes "pairs_inv as db" "distinct (ids db)" "\<And>a. a \<in> set as \<Longrightarrow> g a \<Longrightarrow> ap_tradeRecordId a = i \<and> ap_status a = ApPending"
  shows "\<exists>tabs. expire_pair g i m (as, db) = Inr tabs"
proof (cases "snd (update_approvals g expired as) = 0")
  case False
  then obtain a where a: "a \<in> set as" "g a" using update_approvals_some by blast
  obtain r where r: "r \<in> set (db_orders db)" "paired a r" using pairs_invD(4) [OF assms(1) a(1)] by blast
  have "awaiting i r" using assms(3) [OF a] r(2) by (simp add: paired_def awaiting_def)
  then show ?thesis using waiting_count [OF assms(2) r(1)] by (simp add: expire_pair_def Let_def)
qed (simp add: expire_pair_def Let_def)

lemma due_succeeds:
  assumes "pairs_inv as db" "distinct (ids db)" "\<forall>b \<in> set bs. \<exists>x \<in> set as. ap_id x = ap_id b \<and> ap_tradeRecordId x = ap_tradeRecordId b"
  shows "\<exists>tabs. expire_due_loop t bs (as, db) = Inr tabs"
  using assms
proof (induction bs arbitrary: as db)
  case (Cons b bs)
  let ?g = "\<lambda>x. ap_id x = ap_id b \<and> ap_status x = ApPending \<and> ap_expiresAt x \<le> t"
  obtain x where x: "x \<in> set as" "ap_id x = ap_id b" "ap_tradeRecordId x = ap_tradeRecordId b" using Cons.prems(3) by auto
  have g: "a \<in> set as \<Longrightarrow> ?g a \<Longrightarrow> ap_tradeRecordId a = ap_tradeRecordId b \<and> ap_status a = ApPending" for a
    using unique_approval(2) [OF pairs_invD(1) [OF Cons.prems(1)] _ x(1)] x(2,3) by metis
  obtain tabs where t: "expire_pair ?g (ap_tradeRecordId b) ''Failed to cancel expired approval trade'' (as, db) = Inr tabs"
    using expire_succeeds [OF Cons.prems(1,2), of ?g] g by blast
  have p: "pairs_inv (fst tabs) (snd tabs) \<and> ids (snd tabs) = ids db"
    using expire_pair_cases [OF t]
  proof (elim disjE conjE)
    assume u: "tabs = (fst (update_approvals ?g expired (fst (as, db))),
        fst (updateMany (awaiting (ap_tradeRecordId b)) (set_status CANCELLED) (snd (as, db))))"
      "snd (update_approvals ?g expired (fst (as, db))) \<noteq> 0"
    have "pairs_inv (fst (update_approvals ?g expired as))
        (fst (updateMany (awaiting (ap_tradeRecordId b)) (set_status CANCELLED) db))"
      by (rule pairs_settled [OF Cons.prems(1,2) _ g expired_keeps]) (use u(2) in simp_all)
    then show ?thesis by (simp add: u(1) ids_def change_where_def set_status_def comp_def if_distrib cong: if_cong)
  qed (use Cons.prems in simp)
  have i: "map ap_id (fst tabs) = map ap_id as" "map ap_tradeRecordId (fst tabs) = map ap_tradeRecordId as"
    using expire_pair_keeps_ids [OF t] by simp_all
  have "\<exists>y \<in> set (fst tabs). ap_id y = ap_id c \<and> ap_tradeRecordId y = ap_tradeRecordId c" if c: "c \<in> set bs" for c
  proof -
    obtain y where "y \<in> set as" "ap_id y = ap_id c" "ap_tradeRecordId y = ap_tradeRecordId c" using Cons.prems(3) c by auto
    then obtain k where k: "k < length as" "ap_id (as ! k) = ap_id c" "ap_tradeRecordId (as ! k) = ap_tradeRecordId c"
      by (metis in_set_conv_nth)
    have "length (fst tabs) = length as" using i(1) by (metis length_map)
    then show ?thesis using k i by (metis nth_map nth_mem)
  qed
  then have "\<exists>tabs'. expire_due_loop t bs (fst tabs, snd tabs) = Inr tabs'"
    using Cons.IH p Cons.prems(2) by metis
  then show ?case using t by simp
qed simp

text \<open>
  Expiring pairs never fails: the transactions that expire what is due, or a request that was not
  delivered, find the order of each pair they settle still waiting, and so never roll back.
\<close>

lemma expiry_never_fails:
  assumes "reachable s"
  shows "\<not> throws (expireDueApprovalPairs b sg t (tables s)) \<and>
    (\<forall>a \<in> set (sy_approvals s). \<not> throws (expireApprovalPair (ap_id a) (ap_tradeRecordId a) (tables s)))"
proof -
  have p: "pairs_inv (sy_approvals s) (sy_db s)" using reachable_approvals [OF assms] by (simp add: approval_inv_def)
  have d: "distinct (ids (sy_db s))" using reachable_inv [OF assms] by (simp add: order_inv_def db_inv_def)
  let ?due = "filter (\<lambda>a. of_instrument b sg (sy_db s) a \<and> ap_status a = ApPending \<and> ap_expiresAt a \<le> t) (sy_approvals s)"
  have "\<exists>tabs. expire_due_loop t ?due (tables s) = Inr tabs"
    unfolding tables_def by (rule due_succeeds [OF p d]) auto
  then have "\<not> throws (expireDueApprovalPairs b sg t (tables s))"
    by (auto simp: expireDueApprovalPairs_def throws_def)
  moreover have "\<not> throws (expireApprovalPair (ap_id a) (ap_tradeRecordId a) (tables s))" for a
  proof -
    have "\<exists>tabs. expireApprovalPair (ap_id a) (ap_tradeRecordId a) (tables s) = Inr tabs"
      unfolding expireApprovalPair_def tables_def by (rule expire_succeeds [OF p d]) simp
    then show ?thesis by (auto simp: throws_def)
  qed
  ultimately show ?thesis by blast
qed

text \<open>
  (C30) The cool-down: of two approvals of one key that were delivered to the administrators, the messages
  lie at least thirty minutes apart, whatever happened in between.
\<close>

theorem approval_requests_spaced:
  assumes "reachable s" "a \<in> set (sy_approvals s)" "b \<in> set (sy_approvals s)" "a \<noteq> b"
    "r \<in> set (db_orders (sy_db s))" "r' \<in> set (db_orders (sy_db s))" "tr_id r = ap_tradeRecordId a" "tr_id r' = ap_tradeRecordId b"
    "key_of r = key_of r'" "ap_notifiedAt a = Some m" "ap_notifiedAt b = Some n"
  shows "30 * 60 * 1000 \<le> \<bar>m - n\<bar>"
proof -
  have p: "pairs_inv (sy_approvals s) (sy_db s)" using reachable_approvals [OF assms(1)] by (simp add: approval_inv_def)
  have pr: "paired c x" if c: "c \<in> set (sy_approvals s)" "x \<in> set (db_orders (sy_db s))" "tr_id x = ap_tradeRecordId c" for c x
  proof -
    obtain y where y: "y \<in> set (db_orders (sy_db s))" "paired c y" using pairs_invD(4) [OF p c(1)] by blast
    have "y = x" using unique_row [OF reachable_inv [OF assms(1)] y(1) c(2)] y(2) c(3) by (simp add: paired_def)
    then show ?thesis using y(2) by simp
  qed
  have "spaced a b" by (rule pairs_invD(6) [OF p assms(2,3,5,6,4) pr pr assms(9)]) (use assms in simp_all)
  then show ?thesis using assms(10,11) by (auto simp: spaced_def cooldown_def SUCCESSFUL_NOTIFICATION_COOLDOWN_MINUTES_def)
qed

text \<open>
  (C6) A decision is made once, by an authorised administrator, in time: a response that claims an
  approval finds it pending and not expired, and after it no response to the same approval, on whatever
  reading of the tables, claims it again.
\<close>

theorem decision_claimed_once:
  assumes "reachable s" "read_pair j found s" "respond (sy_env s) users action j user found (tables s) = (tabs, res)"
    "wr_claimed res"
  shows "authorizedActor users user \<noteq> None \<and>
    (\<exists>a \<in> set (sy_approvals s). ap_id a = j \<and> ap_status a = ApPending \<and> env_now (sy_env s) < ap_expiresAt a \<and> in_time a) \<and>
    \<not> wr_claimed (snd (respond env users' action' j user' found' tabs))"
proof -
  have p: "pairs_inv (sy_approvals s) (sy_db s)" using reachable_approvals [OF assms(1)] by (simp add: approval_inv_def)
  obtain a r where f: "found = Some (a, r)" "decided_pair (sy_env s) action j a r (tables s) tabs"
    using respond_cases [OF assms(3)] assms(4) by auto
  obtain actor st tst where c: "claim_pair (\<lambda>x. ap_id x = j \<and> ap_status x = ApPending \<and> ap_expiresAt x > env_now (sy_env s))
       (responded st (env_now (sy_env s)) actor) (ap_tradeRecordId a) tst (tables s) = Some tabs" "st \<noteq> ApPending"
    using f(2) unfolding decided_pair_def by (auto split: if_splits)
  let ?g = "\<lambda>x. ap_id x = j \<and> ap_status x = ApPending \<and> ap_expiresAt x > env_now (sy_env s)"
  note cc = claim_pair_cases [OF c(1)]
  obtain x where x: "x \<in> set (sy_approvals s)" "?g x"
    using update_approvals_some [of ?g _ "sy_approvals s"] cc by fastforce
  have act: "authorizedActor users user \<noteq> None"
    using assms(3,4) by (auto simp: respond_def bare_result_def split: option.splits)
  have time: "in_time x" by (rule pairs_invD(3) [OF p x(1)])
  have no: "ap_id y = j \<longrightarrow> ap_status y \<noteq> ApPending" if y: "y \<in> set (fst tabs)" for y
  proof -
    have "y \<in> set (fst (update_approvals ?g (responded st (env_now (sy_env s)) actor) (sy_approvals s)))" using y cc by simp
    then obtain y0 where y0: "y0 \<in> set (sy_approvals s)" "y = (if ?g y0 then responded st (env_now (sy_env s)) actor y0 else y0)"
      unfolding updated_approval by blast
    show ?thesis
    proof (cases "ap_id y0 = j")
      case True
      then have "y0 = x" using unique_approval(2) [OF pairs_invD(1) [OF p] y0(1) x(1)] x(2) by simp
      then show ?thesis using y0(2) x(2) c(2) by (simp add: responded_def)
    next
      case False
      then show ?thesis using y0(2) by simp
    qed
  qed
  have "\<not> wr_claimed (snd (respond env users' action' j user' found' tabs))"
  proof
    assume w: "wr_claimed (snd (respond env users' action' j user' found' tabs))"
    obtain tabs2 res2 where t2: "respond env users' action' j user' found' tabs = (tabs2, res2)" by (meson surj_pair)
    then obtain a2 r2 where "decided_pair env action' j a2 r2 tabs tabs2" using respond_cases [OF t2] w by auto
    then obtain f i st2 where "claim_pair (\<lambda>x. ap_id x = j \<and> ap_status x = ApPending \<and> ap_expiresAt x > env_now env) f i st2 tabs = Some tabs2"
      unfolding decided_pair_def by blast
    from claim_pair_cases [OF this] have "snd (update_approvals (\<lambda>x. ap_id x = j \<and> ap_status x = ApPending \<and>
        ap_expiresAt x > env_now env) f (fst tabs)) \<noteq> 0" by simp
    then show False using update_approvals_some no by blast
  qed
  then show ?thesis using act x time by blast
qed

text \<open>
  (C39) An approval that nobody answers blocks every automatic sell of its key, however long ago it
  expired: while it is pending its order waits, and the admission refuses the sell and changes nothing.
  Expiry is made only by another request for an approval or by an answer, never by time alone.
\<close>

theorem abandoned_approval_blocks_sells:
  assumes "reachable s" "a \<in> set (sy_approvals s)" "ap_status a = ApPending"
    "r \<in> set (db_orders (sy_db s))" "tr_id r = ap_tradeRecordId a"
    "normalizeKey (signal_key (tr_broker r) sg) = Inr (key_of r)"
    "exec_admit (sy_env s) i render (Some (tr_broker r)) sg n (sy_db s) = Inr (db, res)"
  shows "db = sy_db s \<and> res = None"
proof -
  have p: "pairs_inv (sy_approvals s) (sy_db s)" using reachable_approvals [OF assms(1)] by (simp add: approval_inv_def)
  obtain x where x: "x \<in> set (db_orders (sy_db s))" "paired a x" using pairs_invD(4) [OF p assms(2)] by blast
  then have "x = r" using unique_row [OF reachable_inv [OF assms(1)] x(1) assms(4)] assms(5) by (simp add: paired_def)
  then have u: "is_unresolved r" using x(2) assms(3) by (simp add: paired_def is_unresolved_def)
  then have "findFirst (\<lambda>x. key_of x = key_of r \<and> is_unresolved x) (sy_db s) \<noteq> None"
    using assms(4) by (auto simp: findFirst_None)
  then show ?thesis using assms(6,7)
    by (auto simp: exec_admit_def admit_order_eq split: if_splits sum.splits option.splits)
qed

section \<open>The properties at the run\<close>

theorem approvals_in_step_witness:
  "\<exists>r. r \<in> set (db_orders (sy_db run_delivered)) \<and> tr_id r = ''a'' \<and> tr_status r = AWAITING_APPROVAL"
  using approvals_in_step [OF reachable_delivered] by (simp add: paired_def create_def no_orders_def)

theorem expiry_never_fails_witness:
  "\<not> throws (expireDueApprovalPairs KIS stop_signal 700000 (tables run_delivered))"
  using expiry_never_fails [OF reachable_delivered] by blast

theorem approval_requests_spaced_witness: "(30 * 60 * 1000 :: int) \<le> \<bar>2000 - 3601000\<bar> \<and> reachable run_twice"
proof -
  have "ap_id (decided_as ApRejected) \<noteq> ap_id (delivered second_delivery (stop_approval ''q'' ''b'' 3600000))" by simp
  then have ne: "decided_as ApRejected \<noteq> delivered second_delivery (stop_approval ''q'' ''b'' 3600000)" by metis
  have a: "decided_as ApRejected \<in> set (sy_approvals run_twice)"
    "delivered second_delivery (stop_approval ''q'' ''b'' 3600000) \<in> set (sy_approvals run_twice)"
    by (simp_all add: run_twice_def)
  have r: "set_status CANCELLED (stop_row ''a'' 1000) \<in> set (db_orders (sy_db run_twice))"
    "stop_row ''b'' 3600000 \<in> set (db_orders (sy_db run_twice))"
    by (simp_all add: run_twice_def run_again_def create_def no_orders_def)
  have k: "key_of (set_status CANCELLED (stop_row ''a'' 1000)) = key_of (stop_row ''b'' 3600000)"
    by (simp add: key_of_def set_status_def stop_row_def waiting_record_def)
  have "30 * 60 * 1000 \<le> \<bar>2000 - (3601000 :: int)\<bar>"
    by (rule approval_requests_spaced [OF reachable_twice a ne r _ _ k])
      (simp_all add: set_status_def second_delivery_def stop_row_def waiting_record_def)
  then show ?thesis using reachable_twice by blast
qed

theorem decision_claimed_once_witness:
  "\<not> wr_claimed (snd (respond later_env (Some [''V'']) REJECT ''p'' ''V''
      (Some (delivered first_delivery (stop_approval ''p'' ''a'' 1000), stop_row ''a'' 1000))
      (after_decision ApApproved SUBMITTING)))"
  using decision_claimed_once [OF reachable_delivered read_delivered, of "Some [''U'']" APPROVE "''U''"]
    stop_decision [of ApApproved APPROVE SUBMITTING] by simp

definition profit_signal :: trading_signal where
  "profit_signal = stop_signal\<lparr>sg_reason := ''profit'', sg_metadata := None\<rparr>"

definition run_waiting :: order_system where
  "run_waiting = run_delivered\<lparr>sy_env := later_env\<rparr>"

theorem abandoned_approval_blocks_sells_witness:
  "\<not> shouldRequireApproval profit_signal (Some ''trend-following'') no_context \<and>
   ap_expiresAt (hd (sy_approvals run_waiting)) < env_now (sy_env run_waiting) \<and>
   exec_admit (sy_env run_waiting) ''c'' id (Some KIS) profit_signal ''trend-following'' (sy_db run_waiting) =
     Inr (sy_db run_waiting, None)"
proof -
  have r: "reachable run_waiting" unfolding run_waiting_def by (rule reachable.step [OF reachable_delivered order_step.configured])
  have k: "signal_key KIS profit_signal = signal_key KIS stop_signal" by (simp add: signal_key_def profit_signal_def)
  have "\<exists>p. exec_admit (sy_env run_waiting) ''c'' id (Some KIS) profit_signal ''trend-following'' (sy_db run_waiting) = Inr p"
    using stop_key k by (simp add: exec_admit_def admit_order_eq run_waiting_def later_env_def example_account_def split: option.split)
  then obtain db res where x: "exec_admit (sy_env run_waiting) ''c'' id (Some KIS) profit_signal ''trend-following'' (sy_db run_waiting) =
      Inr (db, res)" by (metis prod.collapse)
  have "db = sy_db run_waiting \<and> res = None"
    by (rule abandoned_approval_blocks_sells [OF r, of "delivered first_delivery (stop_approval ''p'' ''a'' 1000)" "stop_row ''a'' 1000"
          profit_signal "''c''" id "''trend-following''"])
      (use x stop_key k in \<open>simp_all add: run_waiting_def create_def no_orders_def\<close>)
  moreover have "\<not> shouldRequireApproval profit_signal (Some ''trend-following'') no_context"
    by code_simp
  ultimately show ?thesis using x by (simp add: run_waiting_def first_delivery_def)
qed

end
