(* ===== verification/HandlerProgress.thy ===== *)
theory HandlerProgress imports ApprovalSafety begin

text \<open>
  Progress of the handlers: whatever the tables hold and whatever the others do, a handler that has not
  returned has a next step, and each step brings it closer to its return.
\<close>

section \<open>The steps a handler has left, at most\<close>

fun sell_steps_left :: "sell_pc \<Rightarrow> nat" where
  "sell_steps_left Opening = 8"
| "sell_steps_left (Refreshing _) = 7"
| "sell_steps_left (Clamping _) = 6"
| "sell_steps_left (SellClaiming _) = 5"
| "sell_steps_left (SellClaimed _ _) = 4"
| "sell_steps_left (SellLogged _ _) = 3"
| "sell_steps_left (SellSubmitted _) = 2"
| "sell_steps_left (SellRecording _) = 1"
| "sell_steps_left (SellCancelling _ _) = 1"
| "sell_steps_left (SellAborting _ _ _) = 1"
| "sell_steps_left (SellReturned _) = 0"

fun exec_steps_left :: "exec_pc \<Rightarrow> nat" where
  "exec_steps_left Preparing = 5"
| "exec_steps_left Claiming = 4"
| "exec_steps_left (Claimed _) = 3"
| "exec_steps_left Submitted = 2"
| "exec_steps_left (Recording _) = 1"
| "exec_steps_left (CancellingPre _) = 1"
| "exec_steps_left (Aborting _ _) = 1"
| "exec_steps_left (Returned _) = 0"

fun steps_left :: "handler_pc \<Rightarrow> nat" where
  "steps_left (Automatic pc) = exec_steps_left pc"
| "steps_left (Approved pc) = sell_steps_left pc"

text \<open>What each segment leaves.\<close>

lemma exec_left:
  "exec_steps_left (exec_prepare env c marked refreshed) < 5"
  "exec_steps_left (exec_submit env c t) < 3"
  "exec_steps_left (snd (exec_claim i t db)) < 4"
  by (simp_all add: exec_prepare_def exec_submit_def exec_claim_def Let_def)

lemma sell_left:
  "sell_steps_left (sell_open env j tabs) < 8"
  "sell_steps_left (sell_prepare env a q hs) < 7"
  "sell_steps_left (snd (sell_clamp env a r q reply as)) < 6"
  "sell_steps_left (snd (sell_claim cur i q t db)) < 5"
  "sell_steps_left (sell_check env r t q) < 4"
  "sell_steps_left (sell_submit env r t q) < 3"
  "sell_steps_left (snd (sell_cancel cur i m reason db)) < 1"
  "sell_steps_left (snd (sell_abort cur i t m reason db)) < 1"
  by (simp_all add: sell_open_def sell_prepare_def sell_clamp_def sell_claim_def sell_check_def sell_submit_def
      sell_cancel_def sell_abort_def Let_def split: option.split sum.split db_reply.split)

lemma exec_submit_cases: "exec_submit env c t = Submitted \<or> (\<exists>m. exec_submit env c t = Aborting t m)"
  by (simp add: exec_submit_def)

lemma sell_submit_cases: "sell_submit env r t q = SellSubmitted q \<or> (\<exists>m why. sell_submit env r t q = SellAborting t m why)"
  by (simp add: sell_submit_def)

section \<open>Progress\<close>

lemma stands_kept [simp]:
  "stands i c pc (stored db s) = stands i c pc s" "stands i c pc (posted j s) = stands i c pc s"
  "stands i c pc (s\<lparr>sy_approvals := as\<rparr>) = stands i c pc s"
  by (simp_all add: stands_def)

definition progresses :: "string \<Rightarrow> broker_context \<Rightarrow> nat \<Rightarrow> order_system \<Rightarrow> bool" where
  "progresses i c n s \<longleftrightarrow> (\<exists>s' pc. order_step s s' \<and> stands i c pc s' \<and> steps_left pc < n)"

lemma progressI:
  "order_step s (moved i pc s') \<Longrightarrow> stands i c pc0 s' \<Longrightarrow> steps_left pc < n \<Longrightarrow> progresses i c n s"
  "order_step s (posted i (moved i pc s')) \<Longrightarrow> stands i c pc0 s' \<Longrightarrow> steps_left pc < n \<Longrightarrow> progresses i c n s"
  using stands_moved [of i c pc0 s' pc] unfolding progresses_def by fastforce+

lemma automatic_progress:
  assumes "stands i c (Automatic pc) s" "exec_steps_left pc \<noteq> 0"
  shows "progresses i c (exec_steps_left pc) s"
proof (cases pc)
  case Preparing
  show ?thesis by (rule progressI(1) [OF order_step.prepared [of i c s True True]]) (use assms Preparing exec_left in auto)
next
  case (CancellingPre m)
  show ?thesis by (rule progressI(1) [OF order_step.cancelled_before [of i c m]]) (use assms CancellingPre in auto)
next
  case Claiming
  obtain db pc' where x: "exec_claim i 0 (sy_db s) = (db, pc')" by (meson surj_pair)
  show ?thesis by (rule progressI(1) [OF order_step.claimed [OF _ x, of c]])
      (use assms Claiming exec_left(3) [of i 0 "sy_db s"] x in auto)
next
  case (Claimed t)
  show ?thesis using exec_submit_cases [of "sy_env s" c t]
  proof (elim disjE exE)
    assume "exec_submit (sy_env s) c t = Submitted"
    then show ?thesis by (intro progressI(2) [OF order_step.submitted [of i c t]]) (use assms Claimed in auto)
  next
    fix m assume "exec_submit (sy_env s) c t = Aborting t m"
    then show ?thesis by (intro progressI(1) [OF order_step.not_submitted [of i c t]]) (use assms Claimed in auto)
  qed
next
  case (Aborting t m)
  show ?thesis by (rule progressI(1) [OF order_step.aborted [of i c t m]]) (use assms Aborting in auto)
next
  case Submitted
  show ?thesis by (rule progressI(1) [OF order_step.answered [of i c s "Inl []"]]) (use assms Submitted in auto)
next
  case (Recording answer)
  obtain db ok where x: "exec_record (\<lambda>_. DbDone) i answer (sy_db s) = (db, ok)" by (meson surj_pair)
  show ?thesis by (rule progressI(1) [OF order_step.recorded [OF _ x, of c]]) (use assms Recording in auto)
qed (use assms in auto)

lemma approved_progress:
  assumes "stands i c (Approved pc) s" "sell_steps_left pc \<noteq> 0" "a \<in> set (sy_approvals s)" "ap_tradeRecordId a = i"
    "read_row i r s"
  shows "progresses i c (sell_steps_left pc) s"
proof (cases pc)
  case Opening
  show ?thesis by (rule progressI(1) [OF order_step.sell_opened [OF _ assms(3,4), of c]]) (use assms Opening sell_left in auto)
next
  case (SellCancelling m why)
  obtain db pc' where x: "sell_cancel (bare_result [] NOT_FOUND) i m why (sy_db s) = (db, pc')" by (meson surj_pair)
  show ?thesis by (rule progressI(1) [OF order_step.sell_cancelled [OF _ x, of c]])
      (use assms SellCancelling sell_left(7) [of "bare_result [] NOT_FOUND" i m why "sy_db s"] x in auto)
next
  case (Refreshing q)
  show ?thesis by (rule progressI(1) [OF order_step.sell_prepared [OF _ assms(3,4), of c q "Inl []"]])
      (use assms Refreshing sell_left(2) in auto)
next
  case (Clamping q)
  obtain as pc' where x: "sell_clamp (sy_env s) a r q DbDone (sy_approvals s) = (as, pc')" by (meson surj_pair)
  show ?thesis by (rule progressI(1) [OF order_step.sell_clamped [OF _ assms(3-5) x, of c]])
      (use assms Clamping sell_left(3) [of "sy_env s" a r q DbDone "sy_approvals s"] x in auto)
next
  case (SellClaiming q)
  obtain db pc' where x: "sell_claim (bare_result [] NOT_FOUND) i q 0 (sy_db s) = (db, pc')" by (meson surj_pair)
  show ?thesis by (rule progressI(1) [OF order_step.sell_claimed [OF _ x, of c]])
      (use assms SellClaiming sell_left(4) [of "bare_result [] NOT_FOUND" i q 0 "sy_db s"] x in auto)
next
  case (SellClaimed t q)
  show ?thesis by (rule progressI(1) [OF order_step.sell_checked [OF _ assms(5), of c t q]])
      (use assms SellClaimed sell_left(5) in auto)
next
  case (SellLogged t q)
  show ?thesis using sell_submit_cases [of "sy_env s" r t q]
  proof (elim disjE exE)
    assume "sell_submit (sy_env s) r t q = SellSubmitted q"
    then show ?thesis by (intro progressI(2) [OF order_step.sell_submitted [OF _ assms(5), of c t q]]) (use assms SellLogged in auto)
  next
    fix m why assume "sell_submit (sy_env s) r t q = SellAborting t m why"
    then show ?thesis
      by (intro progressI(1) [OF order_step.sell_not_submitted [OF _ assms(5), of c t q m why]]) (use assms SellLogged in auto)
  qed
next
  case (SellAborting t m why)
  obtain db pc' where x: "sell_abort (bare_result [] NOT_FOUND) i t m why (sy_db s) = (db, pc')" by (meson surj_pair)
  show ?thesis by (rule progressI(1) [OF order_step.sell_aborted [OF _ x, of c]])
      (use assms SellAborting sell_left(8) [of "bare_result [] NOT_FOUND" i t m why "sy_db s"] x in auto)
next
  case (SellSubmitted q)
  show ?thesis by (rule progressI(1) [OF order_step.sell_answered [of i c q s "Inl []"]]) (use assms SellSubmitted in auto)
next
  case (SellRecording answer)
  obtain db res where x: "sell_record (\<lambda>_. DbDone) (bare_result [] NOT_FOUND) i answer (sy_db s) = (db, res)" by (meson surj_pair)
  show ?thesis by (rule progressI(1) [OF order_step.sell_recorded [OF _ x, of c]]) (use assms SellRecording in auto)
qed (use assms in auto)



end
