(* ===== verification/OrderSafety.thy ===== *)
theory OrderSafety imports OrderSteps begin

text \<open>
  What holds of every reachable state of the order system: at most one submission per order, only under
  the checks made in the same tick, no submitted order without its mark, one unresolved order per key,
  every fill told exactly once, and no handler stuck; and a concrete run, from admission to fill, at
  which these properties are applied.
\<close>

section \<open>Properties\<close>

lemma reachable_runs: "reachable s \<Longrightarrow> run_inv (sy_db s) (sy_runs s) (sy_sent s)"
  and reachable_db: "reachable s \<Longrightarrow> db_inv (sy_db s) (sy_seen s) (sy_notices s)"
  using reachable_inv by (simp_all add: order_inv_def)

text \<open>
  (C1) No order is sent to a broker twice, whatever handlers, take-overs, cancellations, crashes and
  configuration changes are interleaved.
\<close>

theorem submitted_at_most_once:
  assumes "reachable s"
  shows "distinct (sy_sent s)"
  using reachable_inv [OF assms] by (simp add: order_inv_def run_inv_def)

text \<open>
  An order that was sent has a row whose submission start is stored: a row that was cancelled
  before its submission, or that is still waiting for it, was never sent, so no order the broker may
  hold is ever shown as not submitted.
\<close>

lemma sent_orders_marked:
  assumes "reachable s" "r \<in> set (db_orders (sy_db s))" "tr_submissionStartedAt r = None"
  shows "tr_id r \<notin> set (sy_sent s)"
proof
  assume "tr_id r \<in> set (sy_sent s)"
  then obtain r' where r': "r' \<in> set (db_orders (sy_db s))" "tr_id r' = tr_id r" "tr_submissionStartedAt r' \<noteq> None"
    using run_inv_sent [OF reachable_runs [OF assms(1)]] by blast
  have "distinct (map tr_id (db_orders (sy_db s)))"
    using reachable_db [OF assms(1)] by (simp add: db_inv_def ids_def)
  then have "r' = r" using r'(1,2) assms(2) by (metis distinct_map inj_onD)
  then show False using r'(3) assms(3) by simp
qed

text \<open>
  (C4) At every moment two different unresolved orders differ in broker, market, exchange, stock or
  side.
\<close>

theorem one_unresolved_order_per_key:
  assumes "reachable s" "r \<in> set (db_orders (sy_db s))" "r' \<in> set (db_orders (sy_db s))"
    "is_unresolved r" "is_unresolved r'" "key_of r = key_of r'"
  shows "r = r'"
  using exclusive_unique [of "sy_db s" r r'] reachable_db [OF assms(1)] assms(2-6) by (simp add: db_inv_def)


text \<open>
  (C8) The step that sends an order finds live trading on, the broker active, and the configured
  account equal to the one stored in the order's row.
\<close>

theorem submission_guarded:
  assumes "reachable s" "order_step s s'" "sy_sent s' \<noteq> sy_sent s"
  shows "\<exists>i r c. sy_sent s' = sy_sent s @ [i] \<and> r \<in> set (db_orders (sy_db s)) \<and> tr_id r = i \<and>
    env_live (sy_env s) \<and> env_active (sy_env s) (tr_broker r) \<and> env_context (sy_env s) (tr_broker r) = Inr c \<and>
    account_of c r"
  using assms(2,3,1)
proof (cases rule: order_step.cases)
  case (submitted i c t)
  have ok: "run_ok (sy_db s) (sy_sent s) \<lparr>rn_id = i, rn_account = c, rn_pc = Automatic (Claimed t)\<rparr>"
    using run_inv_run [OF reachable_runs [OF assms(1)]] submitted(2) by (simp add: stands_def)
  then obtain r where r: "r \<in> set (db_orders (sy_db s))" "tr_id r = i" by (auto simp: run_ok_def ids_def)
  then have a: "account_of c r" using ok by (auto simp: run_ok_def)
  have e: "env_live (sy_env s)" "env_active (sy_env s) (bc_broker c)" "isCurrentBrokerContext (sy_env s) c"
    using submitted(3) by (auto simp: exec_submit_def split: if_splits)
  then obtain c' where c': "env_context (sy_env s) (bc_broker c) = Inr c'" "bc_broker c' = bc_broker c"
      "bc_environment c' = bc_environment c" "bc_accountHash c' = bc_accountHash c"
    by (auto simp: isCurrentBrokerContext_def split: sum.splits)
  show ?thesis
    using r a e(1,2) c' submitted(1)
    by (intro exI [of _ i] exI [of _ r] exI [of _ c']) (auto simp: account_of_def)
next
  case (sell_submitted i c t q v)
  have ok: "run_ok (sy_db s) (sy_sent s) \<lparr>rn_id = i, rn_account = c, rn_pc = Approved (SellLogged t q)\<rparr>"
    using run_inv_run [OF reachable_runs [OF assms(1)]] sell_submitted(2) by (simp add: stands_def)
  then obtain r where r: "r \<in> set (db_orders (sy_db s))" "tr_id r = i" by (auto simp: run_ok_def ids_def)
  have e: "env_live (sy_env s)" "env_active (sy_env s) (tr_broker v)" "matches_record (sy_env s) v"
    using sell_submitted(4) by (auto simp: sell_submit_def split: if_splits)
  have a: "account_of (record_account v) r" "tr_broker r = tr_broker v"
    using seen_account [OF reachable_inv [OF assms(1)] sell_submitted(3) e(3) r] by simp_all
  obtain c' where "env_context (sy_env s) (tr_broker v) = Inr c'" "bc_broker c' = tr_broker v"
      "tr_brokerEnvironment v = Some (bc_environment c')" "tr_brokerAccountHash v = Some (bc_accountHash c')"
    using matches_record_facts [OF e(3)] by blast
  then show ?thesis using r a e(1,2) sell_submitted(1)
    by (intro exI [of _ i] exI [of _ r] exI [of _ c']) (auto simp: account_of_def record_account_def)
qed (use assms(3) in simp_all)

section \<open>A run of the system\<close>

text \<open>
  One order from its admission to its full fill: admitted, prepared, claimed, sent, accepted, recorded
  and reconciled.
\<close>

definition example_result :: order_result where
  "example_result = \<lparr>res_outcome = ACCEPTED, res_orderNo = Some ''1'', res_brokerOrderDate = Some ''20260701'',
     res_orderTime = Some ''230000'', res_message = ''ok''\<rparr>"

definition example_fill :: broker_order where
  "example_fill = \<lparr>bo_orderNo = ''1'', bo_stockCode = ''TQQQ'', bo_side = BUY, bo_filledQuantity = Fin (of_nat 5),
     bo_remainingQuantity = Fin 0, bo_filledPrice = Some (Fin 60), bo_exchangeCode = Some ''NASD'',
     bo_orderDate = Some ''20260701'', bo_orderTime = None, bo_rejected = None, bo_rejectedReason = None\<rparr>"

definition example_start :: order_system where
  "example_start = \<lparr>sy_db = no_orders, sy_approvals = [], sy_env = example_env, sy_runs = [], sy_sent = [], sy_seen = {}, sy_notices = []\<rparr>"

definition example_admitted :: order_system where
  "example_admitted = begun [\<lparr>rn_id = ''a'', rn_account = example_account, rn_pc = Automatic Preparing\<rparr>]
     (stored (create (example_order ''a'') no_orders) example_start)"

definition example_claimed :: order_system where
  "example_claimed = moved ''a'' (Automatic (Claimed 5)) (stored
     (fst (updateMany (unsubmitted ''a'') (set_started 5) (create (example_order ''a'') no_orders)))
     (moved ''a'' (Automatic Claiming) example_admitted))"

definition example_sent :: order_system where
  "example_sent = posted ''a'' (moved ''a'' (Automatic Submitted) example_claimed)"

definition example_row :: trade_record where
  "example_row = set_pending example_result (set_started 5 (example_order ''a''))"

definition example_pending :: order_system where
  "example_pending = moved ''a'' (Automatic (Returned True)) (stored
     (fst (exec_record (\<lambda>_. DbDone) ''a'' (Inr example_result) (sy_db example_sent)))
     (moved ''a'' (Automatic (Recording (Inr example_result))) example_sent))"

definition example_filled :: order_system where
  "example_filled = (let r = apply_decision (reconcile_decision (\<lambda>_ _ _. None) OVERSEAS 0 (Fin 5) [] [example_fill]
      example_row) (sy_db example_pending)
    in (stored (fst r) example_pending)\<lparr>sy_notices := sy_notices example_pending @ fst (snd r)\<rparr>)"

lemma example_admission:
  "exec_admit example_env ''a'' id (Some KIS) example_signal ''daily-dca'' no_orders =
    Inr (create (example_order ''a'') no_orders, Some (example_order ''a'', example_account))"
  using example_key by (simp add: exec_admit_def example_env_def example_account_def admit_order_eq example_order_def
      findFirst_def no_orders_def)

lemma example_order_row:
  "unsubmitted ''a'' (example_order ''a'')" "tr_id (example_order ''a'') = ''a''"
  by (simp_all add: unsubmitted_def example_order_def new_order_def)

lemma example_db:
  "db_orders (sy_db example_admitted) = [example_order ''a'']"
  "db_orders (sy_db example_claimed) = [set_started 5 (example_order ''a'')]"
  "sy_db example_sent = sy_db example_claimed" "sy_db example_admitted = create (example_order ''a'') no_orders"
  by (simp_all add: example_admitted_def example_claimed_def example_sent_def stored_def moved_def change_where_def
      example_order_row no_orders_def create_def)

lemma example_env_of:
  "sy_env example_admitted = example_env" "sy_env example_claimed = example_env" "sy_env example_sent = example_env"
  by (simp_all add: example_admitted_def example_claimed_def example_sent_def example_start_def stored_def moved_def)

lemma example_context: "isCurrentBrokerContext example_env example_account"
  by (simp add: isCurrentBrokerContext_def example_env_def)

lemma reachable_admitted: "reachable example_admitted"
proof -
  have "reachable example_start"
    by (rule start) (simp add: initial_def example_start_def no_orders_def)
  moreover have "order_step example_start example_admitted"
    using order_step.admitted [of example_start "''a''" "Some KIS" example_signal "''daily-dca''" _ _ example_account 5]
      example_admission
    by (simp add: example_start_def example_admitted_def ids_def no_orders_def example_signal_def)
  ultimately show ?thesis by (rule reachable.step)
qed

lemma reachable_claimed: "reachable example_claimed"
proof -
  have p: "exec_prepare (sy_env example_admitted) example_account True True = Claiming"
    using example_context unfolding example_env_of
    by (simp add: exec_prepare_def example_env_def example_account_def)
  have a: "stands ''a'' example_account (Automatic Preparing) example_admitted"
    by (simp add: stands_def example_admitted_def)
  have "order_step example_admitted (moved ''a'' (Automatic Claiming) example_admitted)"
    using order_step.prepared [OF a, of True True] p by simp
  then have r: "reachable (moved ''a'' (Automatic Claiming) example_admitted)" by (rule reachable.step [OF reachable_admitted])
  have d: "sy_db (moved ''a'' (Automatic Claiming) example_admitted) = create (example_order ''a'') no_orders"
    by (simp add: moved_def example_db)
  have "exec_claim ''a'' 5 (sy_db (moved ''a'' (Automatic Claiming) example_admitted)) =
      (fst (updateMany (unsubmitted ''a'') (set_started 5) (create (example_order ''a'') no_orders)), Claimed 5)"
    unfolding d by (simp add: exec_claim_def Let_def updateMany_def no_orders_def example_order_row)
  then show ?thesis
    using reachable.step [OF r order_step.claimed [OF stands_moved [OF a]]] by (simp add: example_claimed_def)
qed

lemma example_stands: "stands ''a'' example_account (Automatic (Claimed 5)) example_claimed"
  by (simp add: stands_def example_claimed_def moved_def with_pc_def stored_def example_admitted_def)

lemma example_submission: "order_step example_claimed example_sent"
proof -
  have "exec_submit (sy_env example_claimed) example_account 5 = Submitted"
    using example_context unfolding example_env_of by (simp add: exec_submit_def example_env_def example_account_def)
  then show ?thesis using order_step.submitted [OF example_stands]
    by (simp add: example_sent_def example_claimed_def moved_def stored_def example_admitted_def example_start_def)
qed

lemma reachable_sent: "reachable example_sent"
  by (rule reachable.step [OF reachable_claimed example_submission])

lemma reachable_pending: "reachable example_pending"
proof -
  have a: "stands ''a'' example_account (Automatic Submitted) example_sent"
    using stands_moved [OF example_stands, of "Automatic Submitted"] by (simp add: stands_def example_sent_def)
  let ?s = "moved ''a'' (Automatic (Recording (Inr example_result))) example_sent"
  have r: "reachable ?s" by (rule reachable.step [OF reachable_sent order_step.answered [OF a]])
  obtain db ok where x: "exec_record (\<lambda>_. DbDone) ''a'' (Inr example_result) (sy_db ?s) = (db, ok)" by (meson surj_pair)
  have ok: "ok" using arg_cong [OF x, of snd] by (simp add: exec_record_def example_result_def hasCompleteOrderIdentity_def
        trim_def is_space_def)
  have "sy_db ?s = sy_db example_sent" by (simp add: moved_def)
  then have "example_pending = moved ''a'' (Automatic (Returned ok)) (stored db ?s)" using x ok by (simp add: example_pending_def)
  then show ?thesis using reachable.step [OF r order_step.recorded [OF stands_moved [OF a] x]] by simp
qed

lemma example_row_fields [simp]:
  "tr_id example_row = ''a''" "tr_status example_row = PENDING" "tr_orderNo example_row = Some ''1''"
  "tr_quantity example_row = Fin 5" "tr_executedQty example_row = None" "tr_executedPrice example_row = None"
  "tr_cancellationStatus example_row = None" "tr_exchangeCode example_row = ''NASD''" "tr_stockCode example_row = ''TQQQ''"
  "tr_side example_row = BUY" "tr_brokerOrderDate example_row = Some ''20260701''" "tr_price example_row = Fin 60"
  "tr_submissionStartedAt example_row = Some 5" "is_unresolved example_row"
  by (simp_all add: example_row_def set_pending_def set_started_def example_order_def new_order_def example_result_def
      example_signal_def signal_key_def is_unresolved_def or_num_def truthy_def)

lemma example_pending_db: "db_orders (sy_db example_pending) = [example_row]"
proof -
  have s: "started ''a'' (set_started 5 (example_order ''a''))"
    by (simp add: started_def set_started_def example_order_def new_order_def)
  have "fst (exec_record (\<lambda>_. DbDone) ''a'' (Inr example_result) (sy_db example_sent)) =
      fst (updateMany (started ''a'') (set_pending example_result) (sy_db example_sent))"
    by (simp add: exec_record_def example_result_def hasCompleteOrderIdentity_def trim_def is_space_def
        persistAccepted_def numeral_3_eq_3 Let_def)
  then show ?thesis
    by (simp add: example_pending_def moved_def stored_def example_db change_where_def s example_row_def)
qed

lemma example_match: "findMatchingBrokerOrder example_row [example_fill] OVERSEAS = Some example_fill"
  by (simp add: findMatchingBrokerOrder_def matchesOrderTuple_def broker_tuple_def example_fill_def blank_def merge_order_def)

definition example_filled_row :: trade_record where
  "example_filled_row = example_row\<lparr>tr_status := FILLED, tr_executedQty := Some (Fin 5),
     tr_executedPrice := Some (Fin 60), tr_executedAt := Some 0\<rparr>"

lemma example_decision:
  "\<exists>d. reconcile_decision (\<lambda>_ _ _. None) OVERSEAS 0 (Fin 5) [] [example_fill] example_row = Some d \<and>
     de_guard d example_row \<and> de_change d example_row = example_filled_row \<and> de_audit d = [] \<and>
     de_notices d = [StrategyFill ''a'' FILLED (Fin 0) (Fin 5)]"
proof -
  have f: "bo_filledQuantity example_fill = Fin (of_nat 5)" "bo_rejected example_fill = None"
    "bo_filledPrice example_fill = Some (Fin 60)" "bo_remainingQuantity example_fill = Fin 0"
    by (simp_all add: example_fill_def)
  have e: "executed_total example_row example_fill = Fin 5" "filled_now example_row example_fill = Fin 5"
    using executed_nat [of 0 5 example_row example_fill 5] f(1) by (simp_all add: executed_before_def)
  have h: "holding_before example_row (Fin 5) (Fin 5) = Fin 0"
    by (simp add: holding_before_def fl_eval Fin_arith)
  show ?thesis
    by (simp add: reconcile_decision_def example_match reconcile_matched_def e f h getBrokerOrderStatus_def
        resolveExecutedPrice_def executed_before_def as_seen_def Let_def example_filled_row_def)
qed

lemma example_filled_facts:
  "reachable example_filled" "db_orders (sy_db example_filled) = [example_filled_row]"
  "sy_notices example_filled = [StrategyFill ''a'' FILLED (Fin 0) (Fin 5)]"
proof -
  obtain d where d: "reconcile_decision (\<lambda>_ _ _. None) OVERSEAS 0 (Fin 5) [] [example_fill] example_row = Some d"
     "de_guard d example_row" "de_change d example_row = example_filled_row" "de_audit d = []"
     "de_notices d = [StrategyFill ''a'' FILLED (Fin 0) (Fin 5)]"
    using example_decision by blast
  obtain db ns new where x: "apply_decision (reconcile_decision (\<lambda>_ _ _. None) OVERSEAS 0 (Fin 5) [] [example_fill] example_row)
      (sy_db example_pending) = (db, ns, new)" by (metis prod_cases3)
  have y: "db_orders db = [example_filled_row]" "ns = [StrategyFill ''a'' FILLED (Fin 0) (Fin 5)]"
    using x d by (auto simp: apply_decision_def Let_def updateMany_def example_pending_db change_where_def)
  have seen: "example_row \<in> sy_seen example_pending"
    using reachable_db [OF reachable_pending] by (auto simp: db_inv_def example_pending_db)
  have w: "whole_fills [example_fill]" unfolding whole_fills_def by (auto simp: example_fill_def intro: exI [of _ 5])
  have "order_step example_pending example_filled" unfolding example_filled_def x Let_def
    using order_step.reconciled [OF seen _ _ w x] by simp
  then show "reachable example_filled" by (rule reachable.step [OF reachable_pending])
  show "db_orders (sy_db example_filled) = [example_filled_row]"
    by (simp add: example_filled_def x y stored_def)
  have "sy_notices example_pending = []"
    by (simp add: example_pending_def example_sent_def example_claimed_def example_admitted_def example_start_def
        stored_def moved_def)
  then show "sy_notices example_filled = [StrategyFill ''a'' FILLED (Fin 0) (Fin 5)]"
    by (simp add: example_filled_def x y)
qed

theorem submitted_at_most_once_witness: "distinct (sy_sent example_sent) \<and> sy_sent example_sent = [''a'']"
  using submitted_at_most_once [OF reachable_sent]
  by (simp add: example_sent_def example_claimed_def example_admitted_def example_start_def)

theorem sent_orders_marked_witness:
  "tr_submissionStartedAt (example_order ''a'') = None \<and> ''a'' \<notin> set (sy_sent example_admitted)"
proof -
  have n: "tr_submissionStartedAt (example_order ''a'') = None" by (simp add: example_order_def new_order_def)
  show ?thesis
    using sent_orders_marked [OF reachable_admitted, of "example_order ''a''"] n by (simp add: example_db example_order_row)
qed

theorem one_unresolved_order_per_key_witness:
  "is_unresolved example_row \<and> hd (db_orders (sy_db example_pending)) = example_row"
  using one_unresolved_order_per_key [OF reachable_pending, of "hd (db_orders (sy_db example_pending))" example_row]
  by (simp add: example_pending_db)


theorem submission_guarded_witness:
  "\<exists>i r c. sy_sent example_sent = sy_sent example_claimed @ [i] \<and> tr_id r = i \<and>
    env_context (sy_env example_claimed) (tr_broker r) = Inr c \<and> account_of c r"
proof -
  have "sy_sent example_sent \<noteq> sy_sent example_claimed"
    by (simp add: example_sent_def example_claimed_def example_admitted_def example_start_def stored_def moved_def)
  from submission_guarded [OF reachable_claimed example_submission this] show ?thesis by blast
qed

end
