(* ===== verification/MarketHours.thy ===== *)
theory MarketHours imports JsDate "HOL-Library.Signed_Division" begin

text \<open>
  The trading hours of the exchanges in Korean time and what is decided by them: whether a market is
  open (\<open>src/trading/market-state-sync.service.ts\<close>), the minute at which a strategy that runs once a day
  runs (\<open>src/trading/trading-orchestrator.service.ts\<close>), and the minutes left until the close
  (\<open>src/trading/trading.service.ts\<close>). Whether New York has daylight saving time is an argument.
\<close>

section \<open>Hours (\<open>src/kis/types/kis-config.types.ts\<close>)\<close>

record clock_time =
  hour :: int
  minute :: int

record market_hours =
  opens :: clock_time
  closes :: clock_time
  overnight :: bool

definition clock :: "int \<Rightarrow> int \<Rightarrow> clock_time" where
  "clock h m = \<lparr>hour = h, minute = m\<rparr>"

definition day_hours :: "clock_time \<Rightarrow> clock_time \<Rightarrow> market_hours" where
  "day_hours o' c = \<lparr>opens = o', closes = c, overnight = False\<rparr>"

definition US_EXCHANGES :: "string list" where
  "US_EXCHANGES = [''NASD'', ''NYSE'', ''AMEX'']"

definition us_hours :: market_hours where
  "us_hours = \<lparr>opens = clock 23 30, closes = clock 6 0, overnight = True\<rparr>"

definition MARKET_HOURS :: "(string \<times> market_hours) list" where
  "MARKET_HOURS =
    [(''KRX'', day_hours (clock 9 0) (clock 15 30)),
     (''NASD'', us_hours), (''NYSE'', us_hours), (''AMEX'', us_hours),
     (''SEHK'', day_hours (clock 10 30) (clock 17 0)),
     (''SHAA'', day_hours (clock 10 30) (clock 16 0)),
     (''SZAA'', day_hours (clock 10 30) (clock 16 0)),
     (''TKSE'', day_hours (clock 9 0) (clock 15 0)),
     (''HASE'', day_hours (clock 9 0) (clock 14 30)),
     (''VNSE'', day_hours (clock 9 0) (clock 14 30))]"

definition getMarketHours :: "bool \<Rightarrow> string \<Rightarrow> market_hours option" where
  "getMarketHours dst exchangeCode =
    (case map_of MARKET_HOURS exchangeCode of
       None \<Rightarrow> None
     | Some hours \<Rightarrow>
         if exchangeCode \<notin> set US_EXCHANGES then Some hours
         else if dst then Some \<lparr>opens = clock 22 30, closes = clock 5 0, overnight = True\<rparr>
         else Some hours)"

definition minutes :: "clock_time \<Rightarrow> int" where
  "minutes t = hour t * 60 + minute t"

section \<open>The Korean clock\<close>

definition kst :: "int \<Rightarrow> int" where
  "kst t = t + 9 * 60 * 60 * 1000"

text \<open>\<open>getUTCDay\<close> of the shifted instant: 0 is a Sunday; the epoch was a Thursday.\<close>

definition kst_weekday :: "int \<Rightarrow> int" where
  "kst_weekday t = (kst t div 86400000 + 4) mod 7"

definition kst_minutes :: "int \<Rightarrow> int" where
  "kst_minutes t = minutesOfDay (kst t)"

definition getKSTTime :: "int \<Rightarrow> clock_time" where
  "getKSTTime t = clock (kst_minutes t div 60) (kst_minutes t mod 60)"

section \<open>Open markets\<close>

definition isWithinHours :: "int \<Rightarrow> market_hours \<Rightarrow> bool" where
  "isWithinHours currentMin hours =
    (if overnight hours then currentMin \<ge> minutes (opens hours) \<or> currentMin < minutes (closes hours)
     else currentMin \<ge> minutes (opens hours) \<and> currentMin < minutes (closes hours))"

definition isMarketOpen :: "bool \<Rightarrow> int \<Rightarrow> string \<Rightarrow> bool" where
  "isMarketOpen dst t exchangeCode =
    (case getMarketHours dst exchangeCode of
       None \<Rightarrow> False
     | Some hours \<Rightarrow>
         let day = kst_weekday t in
         if \<not> overnight hours \<and> (day = 0 \<or> day = 6) then False
         else if overnight hours \<and> day = 0 then False
         else if overnight hours \<and> day = 6 then kst_minutes t < minutes (closes hours)
         else isWithinHours (kst_minutes t) hours)"

section \<open>When a strategy runs\<close>

datatype basis = AfterOpen | BeforeClose

datatype execution_mode = Continuous | OnceDaily int basis int

text \<open>The modes of the strategies.\<close>

definition execution_modes :: "(string \<times> execution_mode) list" where
  "execution_modes =
    [(''infinite-buy'', OnceDaily 11 AfterOpen 2), (''infinite-buy-v4'', OnceDaily 11 AfterOpen 2),
     (''daily-dca'', OnceDaily 10 AfterOpen 1), (''trend-following'', OnceDaily 15 BeforeClose 1),
     (''value-factor'', OnceDaily 15 BeforeClose 1), (''grid-mean-reversion'', Continuous),
     (''conservative'', Continuous), (''momentum-breakout'', Continuous)]"

text \<open>\<open>%\<close> keeps the sign of the dividend.\<close>

definition getOverseasExecutionTime :: "bool \<Rightarrow> string \<Rightarrow> basis \<Rightarrow> int \<Rightarrow> clock_time" where
  "getOverseasExecutionTime dst exchangeCode basis offsetHours =
    (case getMarketHours dst exchangeCode of
       None \<Rightarrow> clock ((offsetHours + 24) smod 24) 0
     | Some hours \<Rightarrow>
         (case basis of
            AfterOpen \<Rightarrow> clock ((hour (opens hours) + offsetHours) smod 24) (minute (opens hours))
          | BeforeClose \<Rightarrow>
              let closeHour = (if overnight hours then hour (closes hours) + 24 else hour (closes hours))
              in clock (((closeHour - offsetHours) smod 24 + 24) smod 24) (minute (closes hours))))"

definition execution_time :: "bool \<Rightarrow> market \<Rightarrow> string \<Rightarrow> int \<Rightarrow> basis \<Rightarrow> int \<Rightarrow> clock_time" where
  "execution_time dst m exchangeCode domesticHour basis offsetHours =
    (if m = DOMESTIC then clock domesticHour 0 else getOverseasExecutionTime dst exchangeCode basis offsetHours)"

definition shouldExecuteNow :: "bool \<Rightarrow> int \<Rightarrow> execution_mode \<Rightarrow> market \<Rightarrow> string \<Rightarrow> bool" where
  "shouldExecuteNow dst t mode m exchangeCode =
    (case mode of
       Continuous \<Rightarrow> True
     | OnceDaily domesticHour basis offsetHours \<Rightarrow>
         getKSTTime t = execution_time dst m exchangeCode domesticHour basis offsetHours)"

section \<open>The time left\<close>

definition getMinutesUntilMarketClose :: "bool \<Rightarrow> int \<Rightarrow> market option \<Rightarrow> string \<Rightarrow> int option" where
  "getMinutesUntilMarketClose dst currentMinutes m exchangeCode =
    (let targetExchange = (if m = Some DOMESTIC then ''KRX'' else exchangeCode) in
     if targetExchange = [] then None
     else case getMarketHours dst targetExchange of
       None \<Rightarrow> None
     | Some hours \<Rightarrow>
         let closeMinutes = (if overnight hours \<and> currentMinutes > minutes (closes hours)
               then minutes (closes hours) + 24 * 60 else minutes (closes hours));
             normalizedCurrentMinutes = (if overnight hours \<and> currentMinutes < minutes (opens hours)
               then currentMinutes + 24 * 60 else currentMinutes)
         in Some (closeMinutes - normalizedCurrentMinutes))"

text \<open>What it should be: the minutes from now to the next close.\<close>

definition minutes_left :: "market_hours \<Rightarrow> int \<Rightarrow> int" where
  "minutes_left hours currentMinutes = (minutes (closes hours) - currentMinutes) mod (24 * 60)"

section \<open>Lemmas\<close>

lemmas hours_defs = getMarketHours_def MARKET_HOURS_def US_EXCHANGES_def us_hours_def day_hours_def clock_def minutes_def

lemma market_hours_cases:
  assumes "getMarketHours dst e = Some hours"
  obtains "e = ''KRX''" "hours = day_hours (clock 9 0) (clock 15 30)"
    | "e \<in> set US_EXCHANGES" "dst" "hours = \<lparr>opens = clock 22 30, closes = clock 5 0, overnight = True\<rparr>"
    | "e \<in> set US_EXCHANGES" "\<not> dst" "hours = us_hours"
    | "e \<noteq> ''KRX''" "e \<notin> set US_EXCHANGES" "hours \<in> {day_hours (clock 10 30) (clock 17 0), day_hours (clock 10 30) (clock 16 0),
         day_hours (clock 9 0) (clock 15 0), day_hours (clock 9 0) (clock 14 30)}"
  using assms by (auto simp: getMarketHours_def MARKET_HOURS_def US_EXCHANGES_def split: if_splits)

lemma us_not_krx: "e \<in> set US_EXCHANGES \<Longrightarrow> e \<noteq> ''KRX''"
  by (auto simp: US_EXCHANGES_def)

lemma kst_minutes_bounds: "0 \<le> kst_minutes t" "kst_minutes t < 1440"
  by (simp_all add: kst_minutes_def minutesOfDay_def)

lemma smod_pos: "0 \<le> a \<Longrightarrow> 0 < b \<Longrightarrow> (a :: int) smod b = a mod b"
  by (cases "a = 0") (simp_all add: signed_modulo_int_def)

lemma wrapped: "- 1440 \<le> x \<Longrightarrow> x < 0 \<Longrightarrow> (x :: int) mod 1440 = x + 1440"
  using mod_pos_pos_trivial [of "x + 1440" 1440] by simp

text \<open>
  A strategy that runs once a day runs in exactly one minute of the day on every exchange, and that
  minute lies within the trading hours, for all strategies of the program and in both halves of the year.
\<close>

lemma once_daily_runs_in_session:
  assumes "(name, OnceDaily h b k) \<in> set execution_modes" "getMarketHours dst e = Some hours" "m = DOMESTIC \<longleftrightarrow> e = ''KRX''"
  shows "isWithinHours (minutes (execution_time dst m e h b k)) hours \<and>
    (shouldExecuteNow dst t (OnceDaily h b k) m e \<longleftrightarrow> kst_minutes t = minutes (execution_time dst m e h b k))"
proof -
  have modes: "(h, b, k) \<in> {(11, AfterOpen, 2), (10, AfterOpen, 1), (15, BeforeClose, 1)}"
    using assms(1) by (auto simp: execution_modes_def)
  have os: "getOverseasExecutionTime dst e b k = (case b of
      AfterOpen \<Rightarrow> clock ((hour (opens hours) + k) smod 24) (minute (opens hours))
    | BeforeClose \<Rightarrow> clock ((((if overnight hours then hour (closes hours) + 24 else hour (closes hours)) - k) smod 24 + 24) smod 24)
        (minute (closes hours)))"
    using assms(2) by (simp add: getOverseasExecutionTime_def Let_def split: basis.split)
  note ev = isWithinHours_def day_hours_def us_hours_def clock_def minutes_def smod_pos
  have w: "isWithinHours (minutes (execution_time dst m e h b k)) hours \<and>
      0 \<le> minute (execution_time dst m e h b k) \<and> minute (execution_time dst m e h b k) < 60"
    using assms(2)
  proof (cases rule: market_hours_cases)
    case 1
    then have "execution_time dst m e h b k = clock h 0" using assms(3) by (simp add: execution_time_def)
    moreover have "h \<in> {10, 11, 15}" using modes by auto
    ultimately show ?thesis using 1 by (auto simp: ev)
  next
    case 2
    then have "execution_time dst m e h b k = getOverseasExecutionTime dst e b k"
      using assms(3) us_not_krx by (simp add: execution_time_def)
    note x = this [unfolded os]
    show ?thesis using modes 2(3) unfolding x by (elim insertE) (simp_all add: ev)
  next
    case 3
    then have "execution_time dst m e h b k = getOverseasExecutionTime dst e b k"
      using assms(3) us_not_krx by (simp add: execution_time_def)
    note x = this [unfolded os]
    show ?thesis using modes 3(3) unfolding x by (elim insertE) (simp_all add: ev)
  next
    case 4
    then have "execution_time dst m e h b k = getOverseasExecutionTime dst e b k"
      using assms(3) by (simp add: execution_time_def)
    note x = this [unfolded os]
    show ?thesis using modes 4(3) unfolding x by (elim insertE) (simp_all add: ev)
  qed
  have "getKSTTime t = x \<longleftrightarrow> kst_minutes t = minutes x" if "0 \<le> minute x" "minute x < 60" for x
  proof -
    obtain a c where x: "x = clock a c" using clock_time.cases [of x] by (auto simp: clock_def)
    then show ?thesis using that by (auto simp: getKSTTime_def clock_def minutes_def)
  qed
  then show ?thesis using w by (simp add: shouldExecuteNow_def)
qed

theorem once_daily_runs_in_session_witness:
  "shouldExecuteNow True 1751383800000 (OnceDaily 11 AfterOpen 2) OVERSEAS ''NASD''"
  using once_daily_runs_in_session [of "''infinite-buy-v4''" 11 AfterOpen 2 True "''NASD''"
      "\<lparr>opens = clock 22 30, closes = clock 5 0, overnight = True\<rparr>" OVERSEAS 1751383800000]
  by (simp add: execution_modes_def hours_defs execution_time_def getOverseasExecutionTime_def kst_minutes_def minutesOfDay_def
      kst_def smod_pos)

text \<open>
  During trading hours the time left until the close is exact, but for a market whose session runs
  over midnight it is a whole day too small, hence negative, from midnight to the close.
\<close>

lemma minutes_until_close_in_session:
  assumes "getMarketHours dst (if m = Some DOMESTIC then ''KRX'' else e) = Some hours" "isWithinHours now hours"
    "0 \<le> now" "now < 24 * 60"
  shows "getMinutesUntilMarketClose dst now m e =
    Some (minutes_left hours now - (if overnight hours \<and> now < minutes (closes hours) then 24 * 60 else 0))"
proof -
  have e: "(if m = Some DOMESTIC then ''KRX'' else e) \<noteq> []"
    using assms(1) by (auto simp: getMarketHours_def MARKET_HOURS_def split: if_splits)
  have "minutes (closes hours) < minutes (opens hours) \<and> 0 < minutes (closes hours) \<and> minutes (opens hours) < 1440 \<or>
      \<not> overnight hours \<and> 0 < minutes (opens hours) \<and> minutes (closes hours) < 1440"
    using assms(1) by (cases rule: market_hours_cases) (auto simp: day_hours_def us_hours_def clock_def minutes_def)
  moreover have "overnight hours \<longrightarrow> minutes (closes hours) < minutes (opens hours)"
    using assms(1) by (cases rule: market_hours_cases) (auto simp: day_hours_def us_hours_def clock_def minutes_def)
  ultimately show ?thesis
    using assms e by (auto simp: getMinutesUntilMarketClose_def Let_def minutes_left_def isWithinHours_def wrapped)
qed

theorem minutes_until_close_in_session_witness:
  "getMinutesUntilMarketClose False 90 (Some OVERSEAS) ''NASD'' = Some (270 - 24 * 60)"
  using minutes_until_close_in_session [of False "Some OVERSEAS" "''NASD''" us_hours 90]
  by (simp add: hours_defs isWithinHours_def minutes_left_def)

end
