(* ===== verification/StrategyState.thy ===== *)
theory StrategyState imports OrderExecution V4Ledger V4Strategy MarketHours begin

text \<open>
  The state a strategy keeps between evaluations: the JSON column \<open>strategyParams\<close> of a watched stock,
  with the keys the services write, and the updates of that column. An update reads the row and writes
  the whole column back; \<open>write_params\<close> is the write alone, of a value read before.
\<close>

section \<open>Stored parameters\<close>

record exit_plan =
  xp_firstTargetDate :: string
  xp_secondTargetPrice :: jsnum
  xp_secondTargetRate :: jsnum
  xp_secondTargetQuantity :: jsnum
  xp_secondTargetAttemptedDate :: "string option"

record stored_params =
  jp_accumulatedQuota :: "jsnum option"
  jp_lastAccumulatedDate :: "string option"
  jp_v4 :: "v4_params option"
  jp_secondaryExitPlan :: "exit_plan option"
  jp_entryDate :: "string option"
  jp_entryDayHigh :: "jsnum option"
  jp_halfTakeProfitDone :: "bool option"
  jp_middleTakeProfitDone :: "bool option"
  jp_completedGridLevels :: "jsnum list option"

definition empty_params :: stored_params where
  "empty_params = \<lparr>jp_accumulatedQuota = None, jp_lastAccumulatedDate = None, jp_v4 = None, jp_secondaryExitPlan = None,
     jp_entryDate = None, jp_entryDayHigh = None, jp_halfTakeProfitDone = None, jp_middleTakeProfitDone = None,
     jp_completedGridLevels = None\<rparr>"

type_synonym stock_row = "stored_params watch_stock"

definition params_of :: "stock_row \<Rightarrow> stored_params" where
  "params_of w = coalesce (ws_strategyParams w) empty_params"

definition find_stock :: "string \<Rightarrow> stock_row list \<Rightarrow> stock_row option" where
  "find_stock i ws = List.find (\<lambda>w. ws_id w = i) ws"

definition write_params :: "string \<Rightarrow> stored_params \<Rightarrow> stock_row list \<Rightarrow> stock_row list" where
  "write_params i p ws = map (\<lambda>w. if ws_id w = i then w\<lparr>ws_strategyParams := Some p\<rparr> else w) ws"

definition updateWatchStockStrategyParams :: "string \<Rightarrow> (stored_params \<Rightarrow> stored_params) \<Rightarrow> stock_row list \<Rightarrow> stock_row list" where
  "updateWatchStockStrategyParams i updater ws =
    (case find_stock i ws of None \<Rightarrow> ws | Some w \<Rightarrow> write_params i (updater (params_of w)) ws)"

section \<open>Dates\<close>

definition getKstDateString :: "int \<Rightarrow> string" where
  "getKstDateString t = isoDate (t + 9 * 60 * 60 * 1000)"

text \<open>The order of texts by their characters.\<close>

fun text_le :: "string \<Rightarrow> string \<Rightarrow> bool" where
  "text_le [] b = True"
| "text_le (a # as) [] = False"
| "text_le (a # as) (b # bs) =
    (if (of_char a :: nat) < of_char b then True else if (of_char b :: nat) < of_char a then False else text_le as bs)"

section \<open>The reasons a strategy gives for not buying\<close>

definition "ko_quantity_short = [CHR 0xEB, CHR 0xA7, CHR 0xA4, CHR 0xEC, CHR 0x88, CHR 0x98, CHR 0x20, CHR 0xEC, CHR 0x88, CHR 0x98,
  CHR 0xEB, CHR 0x9F, CHR 0x89, CHR 0x20, CHR 0xEB, CHR 0xB6, CHR 0x80, CHR 0xEC, CHR 0xA1, CHR 0xB1, CHR 0x3A]"
definition "ko_last_cycle = [CHR 0xEC, CHR 0xB5, CHR 0x9C, CHR 0xEB, CHR 0x8C, CHR 0x80, CHR 0x20, CHR 0xEC, CHR 0x82, CHR 0xAC,
  CHR 0xEC, CHR 0x9D, CHR 0xB4, CHR 0xED, CHR 0x81, CHR 0xB4, CHR 0x20, CHR 0xEB, CHR 0x8F, CHR 0x84, CHR 0xEB, CHR 0x8B, CHR 0xAC, CHR 0x3A]"
definition "ko_executed_today = [CHR 0xEC, CHR 0x98, CHR 0xA4, CHR 0xEB, CHR 0x8A, CHR 0x98, CHR 0x20, CHR 0xEC, CHR 0x9D, CHR 0xB4,
  CHR 0xEB, CHR 0xAF, CHR 0xB8, CHR 0x20, CHR 0xEC, CHR 0x8B, CHR 0xA4, CHR 0xED, CHR 0x96, CHR 0x89, CHR 0xEB, CHR 0x90, CHR 0xA8]"
definition "ko_watching = [CHR 0xEA, CHR 0xB4, CHR 0x80, CHR 0xEB, CHR 0xA7, CHR 0x9D]"

definition isQuotaCarryEligible :: "string list \<Rightarrow> bool" where
  "isQuotaCarryEligible reasons \<longleftrightarrow> list_ex (is_prefix ko_quantity_short) reasons"

definition isTerminalQuotaExhaustedSkip :: "string list \<Rightarrow> bool" where
  "isTerminalQuotaExhaustedSkip reasons \<longleftrightarrow> list_ex (is_prefix ko_last_cycle) reasons"

definition isRoutineAlreadyExecutedSkip :: "string list \<Rightarrow> bool" where
  "isRoutineAlreadyExecutedSkip reasons \<longleftrightarrow> reasons \<noteq> [] \<and> list_all (is_prefix ko_executed_today) reasons"

definition isSilentWaitSkip :: "string list \<Rightarrow> bool" where
  "isSilentWaitSkip reasons \<longleftrightarrow> reasons \<noteq> [] \<and> list_all (is_prefix ko_watching) reasons"

section \<open>Lemmas\<close>

lemma find_stock_Some: "find_stock i ws = Some w \<Longrightarrow> w \<in> set ws \<and> ws_id w = i"
  by (auto simp: find_stock_def find_Some_iff)

lemma write_params_ids [simp]: "map ws_id (write_params i p ws) = map ws_id ws"
  by (simp add: write_params_def comp_def if_distrib cong: if_cong)

lemma find_map_stock:
  "(\<And>w. ws_id (f w) = ws_id w) \<Longrightarrow> find_stock i (map f ws) = map_option f (find_stock i ws)"
  by (induction ws) (auto simp: find_stock_def)

lemma find_written:
  "find_stock i (write_params j p ws) =
    (if i = j then map_option (\<lambda>w. w\<lparr>ws_strategyParams := Some p\<rparr>) (find_stock i ws) else find_stock i ws)"
proof -
  have "find_stock i (write_params j p ws) =
      map_option (\<lambda>w. if ws_id w = j then w\<lparr>ws_strategyParams := Some p\<rparr> else w) (find_stock i ws)"
    unfolding write_params_def by (rule find_map_stock) simp
  then show ?thesis by (cases "find_stock i ws") (auto dest: find_stock_Some)
qed

lemma write_write [simp]: "write_params i p (write_params i q ws) = write_params i p ws"
  by (simp add: write_params_def)

lemma params_written [simp]: "params_of (w\<lparr>ws_strategyParams := Some p\<rparr>) = p"
  by (simp add: params_of_def coalesce_def)

lemma update_update:
  "updateWatchStockStrategyParams i g (updateWatchStockStrategyParams i f ws) =
    updateWatchStockStrategyParams i (g \<circ> f) ws"
  by (cases "find_stock i ws") (simp_all add: updateWatchStockStrategyParams_def find_written)

end
