(* ===== verification/QuotaCarry.thy ===== *)
theory QuotaCarry imports StrategyState begin

text \<open>
  The quota an installment strategy carries over to another day: reset after a submitted buy, cleared at
  the last cycle, accumulated when nothing could be bought (\<open>src/trading/trading.service.ts\<close>), and
  restored when an order ends without a fill (\<open>src/trading/trading-order-reconciliation.service.ts\<close>).
  \<open>today\<close> is the Korean date.
\<close>

section \<open>Reset and clearing\<close>

definition resetAccumulatedQuota :: "string \<Rightarrow> string \<Rightarrow> stock_row list \<Rightarrow> stock_row list" where
  "resetAccumulatedQuota today watchStockId ws =
    (case find_stock watchStockId ws of
       None \<Rightarrow> ws
     | Some w \<Rightarrow> write_params watchStockId
         ((params_of w)\<lparr>jp_accumulatedQuota := Some (Fin 0), jp_lastAccumulatedDate := Some today\<rparr>) ws)"

definition clearAccumulatedQuota :: "string \<Rightarrow> stock_row list \<Rightarrow> stock_row list" where
  "clearAccumulatedQuota watchStockId ws =
    (case find_stock watchStockId ws of
       None \<Rightarrow> ws
     | Some w \<Rightarrow>
         if \<not> truthy_opt (jp_accumulatedQuota (params_of w)) then ws
         else write_params watchStockId ((params_of w)\<lparr>jp_accumulatedQuota := None\<rparr>) ws)"

section \<open>Carrying over\<close>

text \<open>The plan for a second target is due: made before today and not tried on another day.\<close>

definition hasActiveInfiniteBuySecondTarget :: "string \<Rightarrow> stored_params option \<Rightarrow> bool" where
  "hasActiveInfiniteBuySecondTarget today strategyParams =
    (case Option.bind strategyParams jp_secondaryExitPlan of
       None \<Rightarrow> False
     | Some plan \<Rightarrow>
         if xp_firstTargetDate plan = [] \<or> xp_secondTargetQuantity plan \<le> Fin 0 then False
         else if text_le today (xp_firstTargetDate plan) then False
         else xp_secondTargetAttemptedDate plan \<in> {None, Some []} \<or> xp_secondTargetAttemptedDate plan = Some today)"

definition remaining_quota :: "jsnum \<Rightarrow> stock_position option \<Rightarrow> jsnum" where
  "remaining_quota quota pos = max_num (Fin 0) (quota - or_opt (map_option pos_totalInvested pos) (Fin 0))"

definition accumulate_unused :: "string \<Rightarrow> string \<Rightarrow> stored_params strategy_context \<Rightarrow> stock_row list \<Rightarrow> stock_row list" where
  "accumulate_unused strategyName today ctx ws =
    (let i = ws_id (watchStock ctx) in
     if alreadyExecutedToday ctx then ws
     else if strategyName = ''infinite-buy'' \<and> hasActiveInfiniteBuySecondTarget today (ws_strategyParams (watchStock ctx)) then ws
     else case find_stock i ws of None \<Rightarrow> ws | Some w \<Rightarrow>
     (case ws_quota w of None \<Rightarrow> ws | Some quota \<Rightarrow>
       let params = params_of w in
       if jp_lastAccumulatedDate params = Some today then ws
       else let perCycleQuota = quota / ws_maxCycles w in
       if perCycleQuota \<le> Fin 0 then ws
       else let remainingQuota = remaining_quota quota (position ctx) in
       if remainingQuota \<le> Fin 0 then ws
       else let newAccumulated = min_num (or_opt (jp_accumulatedQuota params) (Fin 0) + perCycleQuota) remainingQuota in
       write_params i (params\<lparr>jp_accumulatedQuota := Some newAccumulated, jp_lastAccumulatedDate := Some today\<rparr>) ws))"

fun accumulateUnusedQuotas :: "string \<Rightarrow> string \<Rightarrow> stored_params strategy_context list \<Rightarrow> string list \<Rightarrow> string list \<Rightarrow>
    stock_row list \<Rightarrow> stock_row list" where
  "accumulateUnusedQuotas strategyName today [] eligible skipped ws = ws"
| "accumulateUnusedQuotas strategyName today (ctx # ctxs) eligible skipped ws =
    (let i = ws_id (watchStock ctx) in
     accumulateUnusedQuotas strategyName today ctxs eligible skipped
       (if i \<notin> set eligible then ws
        else if i \<in> set skipped then ws
        else accumulate_unused strategyName today ctx ws))"

section \<open>Restoring after an order without a fill\<close>

definition stock_key :: "'p watch_stock \<Rightarrow> broker \<times> market \<times> string \<times> string" where
  "stock_key w = (ws_broker w, ws_market w, ws_exchangeCode w, ws_stockCode w)"

definition record_key :: "trade_record \<Rightarrow> broker \<times> market \<times> string \<times> string" where
  "record_key r = (tr_broker r, tr_market r, tr_exchangeCode r, tr_stockCode r)"

definition stock_of_record :: "trade_record \<Rightarrow> stock_row list \<Rightarrow> stock_row option" where
  "stock_of_record r ws = List.find (\<lambda>w. stock_key w = record_key r) ws"

definition applyReconciledStrategyFailure :: "string \<Rightarrow> trade_record \<Rightarrow> stock_position option \<Rightarrow> stock_row list \<Rightarrow> stock_row list" where
  "applyReconciledStrategyFailure today r pos ws =
    (if tr_strategyName r = None \<or> tr_strategyName r = Some [] then ws
     else if tr_side r \<noteq> BUY then ws
     else if tr_strategyName r \<notin> {Some ''infinite-buy'', Some ''daily-dca''} then ws
     else case stock_of_record r ws of None \<Rightarrow> ws | Some w \<Rightarrow>
     (case ws_quota w of None \<Rightarrow> ws | Some quota \<Rightarrow>
       let params = params_of w in
       if jp_lastAccumulatedDate params = Some today then ws
       else let perCycleQuota = quota / ws_maxCycles w in
       if perCycleQuota \<le> Fin 0 then ws
       else let remainingQuota = remaining_quota quota pos in
       if remainingQuota \<le> Fin 0 then ws
       else let nextAccumulated = min_num (or_opt (jp_accumulatedQuota params) (Fin 0) + perCycleQuota) remainingQuota in
       write_params (ws_id w) (params\<lparr>jp_accumulatedQuota := Some nextAccumulated, jp_lastAccumulatedDate := Some today\<rparr>) ws))"

section \<open>One carry per stock and day\<close>

text \<open>What both ways of carrying over do to a row.\<close>

definition carried_params :: "string \<Rightarrow> stock_position option \<Rightarrow> stock_row \<Rightarrow> stored_params option" where
  "carried_params today pos w =
    (case ws_quota w of None \<Rightarrow> None | Some quota \<Rightarrow>
      if jp_lastAccumulatedDate (params_of w) = Some today \<or> quota / ws_maxCycles w \<le> Fin 0 \<or> remaining_quota quota pos \<le> Fin 0
      then None
      else Some ((params_of w)\<lparr>
        jp_accumulatedQuota := Some (min_num (or_opt (jp_accumulatedQuota (params_of w)) (Fin 0) + quota / ws_maxCycles w)
          (remaining_quota quota pos)), jp_lastAccumulatedDate := Some today\<rparr>))"

definition carried :: "string \<Rightarrow> stock_position option \<Rightarrow> stock_row \<Rightarrow> stock_row option" where
  "carried today pos w = map_option (\<lambda>p. w\<lparr>ws_strategyParams := Some p\<rparr>) (carried_params today pos w)"

datatype quota_event = Unused string "stored_params strategy_context" | Unfilled trade_record "stock_position option"

fun quota_step :: "string \<Rightarrow> quota_event \<Rightarrow> stock_row list \<Rightarrow> stock_row list" where
  "quota_step today (Unused strategyName ctx) ws = accumulate_unused strategyName today ctx ws"
| "quota_step today (Unfilled r pos) ws = applyReconciledStrategyFailure today r pos ws"

definition quota_day :: "string \<Rightarrow> quota_event list \<Rightarrow> stock_row list \<Rightarrow> stock_row list" where
  "quota_day today es ws = foldl (\<lambda>ws e. quota_step today e ws) ws es"

fun event_position :: "quota_event \<Rightarrow> stock_position option" where
  "event_position (Unused strategyName ctx) = position ctx"
| "event_position (Unfilled r pos) = pos"

lemma carried_once: "jp_lastAccumulatedDate (params_of w) = Some today \<Longrightarrow> carried today pos w = None"
  by (simp add: carried_def carried_params_def split: option.split)

lemma carried_date: "carried_params today pos w = Some p \<Longrightarrow> jp_lastAccumulatedDate p = Some today"
  by (auto simp: carried_params_def split: option.splits if_splits)

lemma accumulate_cases:
  "accumulate_unused s today ctx ws = ws \<or>
    (\<exists>w p. find_stock (ws_id w) ws = Some w \<and> carried_params today (position ctx) w = Some p \<and>
       accumulate_unused s today ctx ws = write_params (ws_id w) p ws)"
proof (cases "find_stock (ws_id (watchStock ctx)) ws")
  case None
  then show ?thesis by (simp add: accumulate_unused_def Let_def)
next
  case (Some w)
  then have i: "ws_id (watchStock ctx) = ws_id w" by (auto dest: find_stock_Some)
  have "accumulate_unused s today ctx ws = ws \<or> (\<exists>p. carried_params today (position ctx) w = Some p \<and>
      accumulate_unused s today ctx ws = write_params (ws_id w) p ws)"
    using Some i by (cases "ws_quota w") (simp_all add: accumulate_unused_def carried_params_def Let_def)
  then show ?thesis using Some i by metis
qed

lemma stock_of_record_found:
  assumes "distinct (map ws_id ws)" "stock_of_record r ws = Some w"
  shows "find_stock (ws_id w) ws = Some w"
proof -
  have w: "w \<in> set ws" using assms(2) by (auto simp: stock_of_record_def find_Some_iff)
  then obtain v where v: "find_stock (ws_id w) ws = Some v"
    by (cases "find_stock (ws_id w) ws") (auto simp: find_stock_def find_None_iff)
  then have "v = w" using assms(1) w find_stock_Some [OF v] by (metis distinct_map inj_onD)
  then show ?thesis using v by simp
qed

lemma stock_of_record_written:
  assumes "distinct (map ws_id ws)" "stock_of_record r ws = Some w"
  shows "stock_of_record r (write_params (ws_id w) p ws) = Some (w\<lparr>ws_strategyParams := Some p\<rparr>)"
proof -
  have "stock_of_record r (write_params i p ws) =
      map_option (\<lambda>w. if ws_id w = i then w\<lparr>ws_strategyParams := Some p\<rparr> else w) (stock_of_record r ws)" for i
    by (induction ws) (auto simp: stock_of_record_def write_params_def stock_key_def)
  then show ?thesis using assms(2) by simp
qed

lemma failure_cases:
  assumes "distinct (map ws_id ws)"
  shows "applyReconciledStrategyFailure today r pos ws = ws \<or>
    (\<exists>w p. find_stock (ws_id w) ws = Some w \<and> carried_params today pos w = Some p \<and>
       applyReconciledStrategyFailure today r pos ws = write_params (ws_id w) p ws)"
proof (cases "stock_of_record r ws")
  case None
  then show ?thesis by (simp add: applyReconciledStrategyFailure_def)
next
  case (Some w)
  then have v: "find_stock (ws_id w) ws = Some w" by (rule stock_of_record_found [OF assms])
  have "applyReconciledStrategyFailure today r pos ws = ws \<or> (\<exists>p. carried_params today pos w = Some p \<and>
      applyReconciledStrategyFailure today r pos ws = write_params (ws_id w) p ws)"
    using Some by (cases "ws_quota w") (simp_all add: applyReconciledStrategyFailure_def carried_params_def Let_def)
  then show ?thesis using v by metis
qed

lemma quota_step_cases:
  assumes "distinct (map ws_id ws)"
  shows "quota_step today e ws = ws \<or>
    (\<exists>w p. find_stock (ws_id w) ws = Some w \<and> carried_params today (event_position e) w = Some p \<and>
       quota_step today e ws = write_params (ws_id w) p ws)"
  using accumulate_cases failure_cases [OF assms] by (cases e) simp_all

lemma quota_step_ids [simp]: "distinct (map ws_id ws) \<Longrightarrow> map ws_id (quota_step today e ws) = map ws_id ws"
  using quota_step_cases [of ws today e] by (metis write_params_ids)

text \<open>
  (C22) However often on one day a stock is carried over, after evaluations that could not buy and after
  orders that ended without a fill, at most one carry changes it: the row is as before, or it is what a
  single carry makes of it.
\<close>

theorem quota_carried_once_per_day:
  assumes "distinct (map ws_id ws)"
  shows "find_stock i (quota_day today es ws) = find_stock i ws \<or>
    (\<exists>w pos w'. find_stock i ws = Some w \<and> pos \<in> event_position ` set es \<and> carried today pos w = Some w' \<and>
      find_stock i (quota_day today es ws) = Some w')"
  using assms
proof (induction es arbitrary: ws)
  case Nil
  then show ?case by (simp add: quota_day_def)
next
  case (Cons e es)
  let ?ws = "quota_step today e ws"
  have d: "quota_day today (e # es) ws = quota_day today es ?ws" by (simp add: quota_day_def)
  have d': "distinct (map ws_id ?ws)" using Cons.prems by simp
  note IH = Cons.IH [OF d']
  show ?case using quota_step_cases [OF Cons.prems, of today e]
  proof (elim disjE exE conjE)
    assume "?ws = ws"
    then show ?thesis using IH unfolding d by auto
  next
    fix w p assume w: "find_stock (ws_id w) ws = Some w" "carried_params today (event_position e) w = Some p"
      "?ws = write_params (ws_id w) p ws"
    show ?thesis
    proof (cases "i = ws_id w")
      case True
      let ?w = "w\<lparr>ws_strategyParams := Some p\<rparr>"
      have f: "find_stock i ?ws = Some ?w" using w True by (simp add: find_written)
      have "carried today pos ?w = None" for pos using carried_once [of ?w today] carried_date [OF w(2)] by simp
      then have "find_stock i (quota_day today es ?ws) = Some ?w" using IH f by auto
      moreover have "carried today (event_position e) w = Some ?w" using w(2) by (simp add: carried_def)
      ultimately show ?thesis using w(1) True unfolding d by auto
    next
      case False
      then have "find_stock i ?ws = find_stock i ws" using w(3) by (simp add: find_written)
      then show ?thesis using IH unfolding d by auto
    qed
  qed
qed

definition example_row :: "string \<Rightarrow> stored_params option \<Rightarrow> stock_row" where
  "example_row i p = \<lparr>ws_id = i, ws_broker = KIS, ws_market = OVERSEAS, ws_exchangeCode = ''NASD'', ws_stockCode = ''TQQQ'',
     ws_stockName = ''TQQQ'', ws_strategyName = Some ''infinite-buy'', ws_quota = Some (Fin 1000), ws_cycle = Fin 0,
     ws_maxCycles = Fin 4, ws_stopLossRate = Fin 0, ws_maxPortfolioRate = Fin 0, ws_strategyParams = p\<rparr>"

definition example_buy :: "string \<Rightarrow> side \<Rightarrow> trade_record" where
  "example_buy strategyName sd =
    (new_order ''t1'' 0 id \<lparr>sg_market = OVERSEAS, sg_exchangeCode = ''NASD'', sg_stockCode = ''TQQQ'', sg_side = sd,
       sg_quantity = Fin 3, sg_price = Some (Fin 50), sg_reason = ''r'', sg_orderDivision = Some ''00'', sg_metadata = Some no_meta\<rparr>
     strategyName \<lparr>bc_broker = KIS, bc_environment = LIVE_ACCOUNT, bc_accountHash = ''h'', bc_maskedAccount = ''m''\<rparr>
     \<lparr>ok_broker = KIS, ok_market = OVERSEAS, ok_exchangeCode = ''NASD'', ok_stockCode = ''TQQQ'', ok_side = sd\<rparr>)"

theorem quota_carried_once_per_day_witness:
  "find_stock ''w1'' (quota_day ''2026-07-01'' [Unfilled (example_buy ''infinite-buy'' BUY) None,
      Unfilled (example_buy ''daily-dca'' BUY) None] [example_row ''w1'' None]) \<noteq> None"
  using quota_carried_once_per_day [of "[example_row ''w1'' None]" "''w1''" "''2026-07-01''"
      "[Unfilled (example_buy ''infinite-buy'' BUY) None, Unfilled (example_buy ''daily-dca'' BUY) None]"]
  by (auto simp: find_stock_def example_row_def)

text \<open>
  A submitted buy that ends the same Korean day without any fill does not give its share back:
  the reset made when the order was accepted already wrote today's date, so the restoring step leaves
  the row alone and the carried quota stays at zero, whatever had been carried before.
\<close>

lemma failed_buy_not_restored_same_day:
  assumes "distinct (map ws_id ws)" "stock_of_record r ws = Some w"
  shows "applyReconciledStrategyFailure today r pos (resetAccumulatedQuota today (ws_id w) ws) =
      resetAccumulatedQuota today (ws_id w) ws \<and>
    map_option (jp_accumulatedQuota \<circ> params_of) (find_stock (ws_id w)
      (applyReconciledStrategyFailure today r pos (resetAccumulatedQuota today (ws_id w) ws))) = Some (Some (Fin 0))"
proof -
  let ?p = "(params_of w)\<lparr>jp_accumulatedQuota := Some (Fin 0), jp_lastAccumulatedDate := Some today\<rparr>"
  have wf: "find_stock (ws_id w) ws = Some w" using assms by (rule stock_of_record_found)
  then have r: "resetAccumulatedQuota today (ws_id w) ws = write_params (ws_id w) ?p ws"
    by (simp add: resetAccumulatedQuota_def)
  have s: "stock_of_record r (write_params (ws_id w) ?p ws) = Some (w\<lparr>ws_strategyParams := Some ?p\<rparr>)"
    using assms by (rule stock_of_record_written)
  have "applyReconciledStrategyFailure today r pos (write_params (ws_id w) ?p ws) = write_params (ws_id w) ?p ws"
    by (simp add: applyReconciledStrategyFailure_def s Let_def split: option.split)
  then show ?thesis using wf by (simp add: r find_written)
qed

theorem failed_buy_not_restored_same_day_witness:
  "applyReconciledStrategyFailure ''2026-07-01'' (example_buy ''infinite-buy'' BUY) None
     (resetAccumulatedQuota ''2026-07-01'' ''w1'' [example_row ''w1'' None]) =
   resetAccumulatedQuota ''2026-07-01'' ''w1'' [example_row ''w1'' None]"
  using failed_buy_not_restored_same_day [of "[example_row ''w1'' None]" "example_buy ''infinite-buy'' BUY"
      "example_row ''w1'' None" "''2026-07-01''" None]
  by (simp add: stock_of_record_def stock_key_def record_key_def example_row_def example_buy_def new_order_def)

end
