(* ===== verification/FillHandling.thy ===== *)
theory FillHandling imports QuotaCarry OrderReconciliation SellApproval begin

text \<open>
  What a confirmed fill does to the state of the strategy that ordered it: the reconciliation finds the
  signal the order was submitted with (\<open>src/trading/trading-order-reconciliation.service.ts\<close>) and hands it
  to the handler of the strategy (\<open>src/trading/trading.service.ts\<close>), which updates the stored parameters of
  the stock. The V4 handler is the live caller of the fill ledger. The same-day second target of the
  installment strategy is the one handler that may submit another order: what the broker and the market
  analysis answer and whether the order is accepted are fields of its environment. Log lines are left
  out; the text of a reason is shortened.
\<close>

section \<open>The submitted signal\<close>

datatype log_event = SKIPPED | SIGNAL_CREATED | ORDER_SUBMITTED | ORDER_FILLED | ORDER_FAILED | ORDER_AWAITING_APPROVAL
  | ORDER_CANCELLED | ORDER_SUBMISSION_UNKNOWN | ORDER_RECONCILIATION | LOG_ERROR

definition option_list :: "'a option \<Rightarrow> 'a list" where
  "option_list x = (case x of None \<Rightarrow> [] | Some v \<Rightarrow> [v])"

text \<open>A row of the execution log with the keys of \<open>details\<close> read here; \<open>NaN\<close> is a quantity that is no number.\<close>

record execution_log =
  xl_tradeRecordId :: "string option"
  xl_eventType :: log_event
  xl_market :: market
  xl_exchangeCode :: string
  xl_stockCode :: string
  xl_message :: string
  xl_createdAt :: int
  xl_side :: "side option"
  xl_quantity :: jsnum
  xl_price :: "jsnum option"
  xl_orderDivision :: "string option"
  xl_reason :: "string option"
  xl_metadata :: "signal_meta option"

text \<open>A stored signal read back from JSON: any key may be missing or of another type.\<close>

record stored_signal =
  ss_market :: "market option"
  ss_exchangeCode :: "string option"
  ss_stockCode :: "string option"
  ss_side :: "side option"
  ss_quantity :: jsnum
  ss_price :: "jsnum option"
  ss_orderDivision :: "string option"
  ss_reason :: "string option"
  ss_metadata :: "signal_meta option"

definition normalizeStoredSignal :: "stored_signal option \<Rightarrow> trading_signal option" where
  "normalizeStoredSignal value =
    (case value of None \<Rightarrow> None
     | Some s \<Rightarrow>
       (case (ss_market s, ss_side s, ss_exchangeCode s, ss_stockCode s, ss_reason s) of
          (Some m, Some sd, Some e, Some c, Some r) \<Rightarrow>
            if trim e = [] \<or> trim c = [] then None
            else if \<not> isFinite (ss_quantity s) \<or> ss_quantity s \<le> Fin 0 then None
            else if ss_price s \<noteq> None \<and> \<not> finite_opt (ss_price s) then None
            else Some \<lparr>sg_market = m, sg_exchangeCode = e, sg_stockCode = c, sg_side = sd, sg_quantity = ss_quantity s,
              sg_price = ss_price s, sg_reason = r, sg_orderDivision = ss_orderDivision s, sg_metadata = ss_metadata s\<rparr>
        | _ \<Rightarrow> None))"

definition log_signal :: "execution_log \<Rightarrow> trading_signal option" where
  "log_signal l =
    (case xl_side l of None \<Rightarrow> None
     | Some sd \<Rightarrow>
       if \<not> isFinite (xl_quantity l) \<or> xl_quantity l \<le> Fin 0 then None
       else Some \<lparr>sg_market = xl_market l, sg_exchangeCode = xl_exchangeCode l, sg_stockCode = xl_stockCode l, sg_side = sd,
         sg_quantity = xl_quantity l, sg_price = xl_price l, sg_reason = or_str (xl_reason l) (xl_message l),
         sg_orderDivision = xl_orderDivision l, sg_metadata = xl_metadata l\<rparr>)"

text \<open>The newest log of the submission that holds a signal, else the approved sell's signal.\<close>

definition getSubmittedSignal :: "string \<Rightarrow> execution_log list \<Rightarrow> stored_signal option \<Rightarrow> trading_signal option" where
  "getSubmittedSignal tradeRecordId logs approved =
    (let found = filter (\<lambda>l. xl_tradeRecordId l = Some tradeRecordId \<and> xl_eventType l = ORDER_SUBMITTED) logs;
         newestFirst = sort_key (\<lambda>l. - xl_createdAt l) found
     in case List.find (\<lambda>l. log_signal l \<noteq> None) newestFirst of
          Some l \<Rightarrow> log_signal l
        | None \<Rightarrow> normalizeStoredSignal approved)"

section \<open>Stop-loss signals\<close>

definition lower_char :: "char \<Rightarrow> char" where
  "lower_char c = (if 65 \<le> (of_char c :: nat) \<and> (of_char c :: nat) \<le> 90 then char_of ((of_char c :: nat) + 32) else c)"

definition ko_stop_loss :: string where
  "ko_stop_loss = [CHR 0xEC, CHR 0x86, CHR 0x90, CHR 0xEC, CHR 0xA0, CHR 0x88]"

definition isStopLossSignal :: "trading_signal \<Rightarrow> bool" where
  "isStopLossSignal s \<longleftrightarrow> sg_side s = SELL \<and>
     (contains_text ''stop loss'' (map lower_char (sg_reason s)) \<or> contains_text ko_stop_loss (sg_reason s))"

definition meta :: "trading_signal \<Rightarrow> signal_meta" where
  "meta s = coalesce (sg_metadata s) no_meta"

definition phase :: "trading_signal \<Rightarrow> string" where
  "phase s = or_str (md_phase (meta s)) []"

section \<open>Infinite buy V4\<close>

definition ledger_of :: "stock_row \<Rightarrow> jsnum \<Rightarrow> v4_ledger" where
  "ledger_of w previousHoldingQty =
    (let v4 = coalesce (jp_v4 (params_of w)) no_v4_params; principal = (case ws_quota w of None \<Rightarrow> Fin 0 | Some q \<Rightarrow> q) in
     \<lparr>turn = finite_or (v4p_turn v4) (Fin 0), cashRemaining = finite_or (v4p_cashRemaining v4) principal,
      cycleSeq = coalesce (v4p_cycleSeq v4) (Fin 0), lastKnownHoldQty = finite_or (v4p_lastKnownHoldQty v4) previousHoldingQty\<rparr>)"

definition v4_fill_of :: "stock_row \<Rightarrow> trading_signal \<Rightarrow> jsnum \<Rightarrow> jsnum option \<Rightarrow> v4_fill" where
  "v4_fill_of w s previousHoldingQty executedPrice =
    (let v4 = coalesce (jp_v4 (params_of w)) no_v4_params;
         fillPrice = finite_or executedPrice (coalesce (sg_price s) (Fin 0));
         fillAmount = roundToCent (fillPrice * sg_quantity s);
         holding = lastKnownHoldQty (ledger_of w previousHoldingQty)
     in \<lparr>f_side = sg_side s, f_phase = phase s, f_quantity = sg_quantity s, f_fillAmount = fillAmount,
         f_previousHoldingQty = holding,
         f_sellRatioPrevHolding = Some (coalesce (md_v4PrevHolding (meta s)) holding),
         f_attemptAmount = Some (coalesce (md_v4DayBuyAttemptTotal (meta s)) (coalesce (md_v4AttemptAmount (meta s)) fillAmount)),
         f_N = ws_maxCycles w, f_quota = (case ws_quota w of None \<Rightarrow> Fin 0 | Some q \<Rightarrow> q),
         f_compoundMode = coalesce (v4p_compoundMode v4) True\<rparr>)"

definition with_ledger :: "v4_ledger \<Rightarrow> stored_params \<Rightarrow> stored_params" where
  "with_ledger l p = p\<lparr>jp_v4 := Some ((coalesce (jp_v4 p) no_v4_params)
     \<lparr>v4p_turn := Some (turn l), v4p_cashRemaining := Some (cashRemaining l), v4p_cycleSeq := Some (cycleSeq l),
      v4p_lastKnownHoldQty := Some (lastKnownHoldQty l)\<rparr>)\<rparr>"

definition handleInfiniteBuyV4SignalFill :: "string \<Rightarrow> trading_signal \<Rightarrow> jsnum \<Rightarrow> jsnum option \<Rightarrow> stock_row list \<Rightarrow> stock_row list" where
  "handleInfiniteBuyV4SignalFill watchStockId s previousHoldingQty executedPrice ws =
    (case find_stock watchStockId ws of None \<Rightarrow> ws
     | Some w \<Rightarrow>
       write_params watchStockId
         (with_ledger (r_state (applyV4Fill (ledger_of w previousHoldingQty) (v4_fill_of w s previousHoldingQty executedPrice)))
           (params_of w)) ws)"

text \<open>The mode and the recent closes an evaluation found; the ledger is left alone.\<close>

definition persistInfiniteBuyV4State :: "string \<Rightarrow> v4_mode \<Rightarrow> v4_close list \<Rightarrow> stock_row list \<Rightarrow> stock_row list" where
  "persistInfiniteBuyV4State watchStockId md recentCloses ws =
    updateWatchStockStrategyParams watchStockId
      (\<lambda>p. p\<lparr>jp_v4 := Some ((coalesce (jp_v4 p) no_v4_params)\<lparr>v4p_mode := Some md, v4p_recentCloses := Some recentCloses\<rparr>)\<rparr>) ws"

section \<open>Infinite buy\<close>

definition num :: "jsnum option \<Rightarrow> jsnum" where
  "num x = coalesce x NaN"

definition set_plan :: "exit_plan option \<Rightarrow> stored_params \<Rightarrow> stored_params" where
  "set_plan x p = p\<lparr>jp_secondaryExitPlan := x\<rparr>"

definition clearInfiniteBuySecondaryExitPlan :: "string \<Rightarrow> stock_row list \<Rightarrow> stock_row list" where
  "clearInfiniteBuySecondaryExitPlan watchStockId ws = updateWatchStockStrategyParams watchStockId (set_plan None) ws"

definition persistInfiniteBuySecondaryExitPlan :: "string \<Rightarrow> string \<Rightarrow> trading_signal \<Rightarrow> stock_row list \<Rightarrow> stock_row list" where
  "persistInfiniteBuySecondaryExitPlan today watchStockId s ws =
    (let secondTargetPrice = num (md_secondaryTargetPrice (meta s)); secondTargetRate = num (md_secondaryTargetRate (meta s));
         secondTargetQuantity = num (md_secondaryTargetQuantity (meta s))
     in if \<not> truthy secondTargetPrice \<or> \<not> truthy secondTargetRate \<or> \<not> truthy secondTargetQuantity then ws
        else updateWatchStockStrategyParams watchStockId
          (set_plan (Some \<lparr>xp_firstTargetDate = today, xp_secondTargetPrice = secondTargetPrice,
             xp_secondTargetRate = secondTargetRate, xp_secondTargetQuantity = secondTargetQuantity,
             xp_secondTargetAttemptedDate = None\<rparr>)) ws)"

text \<open>
  What the handler reads outside the table of stocks: the day, the clock, the stored position, the refreshed
  price, indicators and volume-weighted average price, each of which may fail, and whether the follow-up
  order is admitted by the execution service and whether it is accepted.
\<close>

record follow_up =
  fo_today :: string
  fo_dst :: bool
  fo_now :: int
  fo_position :: "stock_row \<Rightarrow> stock_position option"
  fo_price :: "js_error + stock_price"
  fo_indicators :: "js_error + stock_indicators"
  fo_vwap :: "js_error + jsnum option"
  fo_admitted :: "trading_signal \<Rightarrow> bool"
  fo_accepted :: "trading_signal \<Rightarrow> bool"

definition buildInfiniteBuyFollowUpContext :: "follow_up \<Rightarrow> stock_position option \<Rightarrow> jsnum \<Rightarrow>
    stock_price \<times> stock_indicators \<times> jsnum option" where
  "buildInfiniteBuyFollowUpContext env pos fallbackPrice =
    (case (fo_price env, fo_indicators env, fo_vwap env) of
       (Inr px, Inr ind, Inr vwap) \<Rightarrow> (px, ind, vwap)
     | _ \<Rightarrow>
       let p = coalesce (map_option pos_currentPrice pos) fallbackPrice in
       (\<lparr>px_currentPrice = p, px_openPrice = p, px_highPrice = p, px_lowPrice = p, px_volume = Fin 0, px_tradingValue = None\<rparr>,
        no_indicators, None))"

definition if_given :: "(jsnum \<Rightarrow> bool) \<Rightarrow> jsnum option \<Rightarrow> bool" where
  "if_given P x = (case x of None \<Rightarrow> True | Some v \<Rightarrow> P v)"

definition shouldSubmitInfiniteBuySameDaySecondTarget :: "int option \<Rightarrow> stock_price \<times> stock_indicators \<times> jsnum option \<Rightarrow> bool" where
  "shouldSubmitInfiniteBuySameDaySecondTarget minutesToClose ctx =
    (case ctx of (px, ind, intradayVwap) \<Rightarrow>
      let currentPrice = px_currentPrice px;
          openPrice = coalesce (todayOpen ind) (px_openPrice px);
          highPrice = or_num (px_highPrice px) currentPrice;
          aboveOpen = (if isFinite openPrice then currentPrice \<ge> openPrice else True);
          aboveIntradayVwap = if_given (\<lambda>v. currentPrice \<ge> v) intradayVwap;
          aboveMa20 = if_given (\<lambda>v. currentPrice \<ge> v) (ma20 ind);
          strongAdx = if_given (\<lambda>v. v \<ge> Fin 20) (adx14 ind);
          healthyMomentum = given (\<lambda>v. v \<ge> Fin 55 \<and> v < Fin 78) (rsi14 ind);
          pullbackLimit = (case atrPercent ind of
              Some v \<Rightarrow> min_num (max_num (v / Fin 100 * lit (75 / 100)) (lit (8 / 1000))) (lit (2 / 100))
            | None \<Rightarrow> lit (15 / 1000));
          shallowPullback = (if highPrice \<le> Fin 0 then True else currentPrice \<ge> highPrice * (Fin 1 - pullbackLimit));
          volumeHealthy = if_given (\<lambda>v. v \<ge> lit (8 / 10)) (volumeRatio ind);
          momentumNotFading = (case (macdHistogram ind, macdPrevHistogram ind) of
              (Some h, Some prev) \<Rightarrow> h \<ge> prev * lit (85 / 100) | _ \<Rightarrow> True);
          enoughTime = (case minutesToClose of None \<Rightarrow> True | Some k \<Rightarrow> k \<ge> 60)
      in aboveOpen \<and> aboveIntradayVwap \<and> aboveMa20 \<and> strongAdx \<and> healthyMomentum \<and> shallowPullback \<and>
         volumeHealthy \<and> momentumNotFading \<and> enoughTime)"

text \<open>The first of the given numbers that is finite.\<close>

definition readMetadataNumber :: "jsnum option list \<Rightarrow> jsnum option" where
  "readMetadataNumber xs = Option.bind (List.find finite_opt xs) id"

definition follow_up_signal :: "stock_row \<Rightarrow> trading_signal \<Rightarrow> jsnum \<Rightarrow> jsnum \<Rightarrow> trading_signal" where
  "follow_up_signal w s secondTargetPrice secondTargetQuantity =
    \<lparr>sg_market = ws_market w, sg_exchangeCode = ws_exchangeCode w, sg_stockCode = ws_stockCode w, sg_side = SELL,
     sg_quantity = secondTargetQuantity, sg_price = Some secondTargetPrice, sg_reason = ''Take profit 2: same-day trend'',
     sg_orderDivision = Some ''00'', sg_metadata = Some (no_meta\<lparr>md_phase := Some ''take-profit-2'',
       md_tValue := readMetadataNumber [md_tValue (meta s), md_T (meta s), md_t (meta s), md_postFillTValue (meta s)]\<rparr>)\<rparr>"

text \<open>The order handed to the execution, when the checks let one through.\<close>

definition trySubmitInfiniteBuySameDaySecondTarget :: "follow_up \<Rightarrow> stock_row \<Rightarrow> stock_position option \<Rightarrow> trading_signal \<Rightarrow>
    jsnum \<Rightarrow> trading_signal option" where
  "trySubmitInfiniteBuySameDaySecondTarget env w pos s remainingQty =
    (let secondTargetPrice = num (md_secondaryTargetPrice (meta s)); secondTargetRate = num (md_secondaryTargetRate (meta s));
         secondTargetQuantity = min_num remainingQty (or_opt (md_secondaryTargetQuantity (meta s)) (Fin 0))
     in if \<not> truthy secondTargetPrice \<or> \<not> truthy secondTargetRate \<or> secondTargetQuantity \<le> Fin 0 then None
        else if \<not> shouldSubmitInfiniteBuySameDaySecondTarget
            (getMinutesUntilMarketClose (fo_dst env) (kst_minutes (fo_now env)) (Some (ws_market w)) (ws_exchangeCode w))
            (buildInfiniteBuyFollowUpContext env pos secondTargetPrice) then None
        else Some (follow_up_signal w s secondTargetPrice secondTargetQuantity))"

text \<open>An admitted order of the second target marks the stored plan as tried today.\<close>

definition markInfiniteBuySecondTargetAttempted :: "string \<Rightarrow> trading_signal \<Rightarrow> string \<Rightarrow> string \<Rightarrow> stock_row list \<Rightarrow> stock_row list" where
  "markInfiniteBuySecondTargetAttempted today s strategyName watchStockId ws =
    (if strategyName \<noteq> ''infinite-buy'' \<or> phase s \<noteq> ''take-profit-2'' then ws
     else updateWatchStockStrategyParams watchStockId
       (\<lambda>p. case jp_secondaryExitPlan p of None \<Rightarrow> p
          | Some x \<Rightarrow> p\<lparr>jp_secondaryExitPlan := Some (x\<lparr>xp_secondTargetAttemptedDate := Some today\<rparr>)\<rparr>) ws)"

definition submit_follow_up :: "follow_up \<Rightarrow> string \<Rightarrow> trading_signal option \<Rightarrow> stock_row list \<Rightarrow> stock_row list" where
  "submit_follow_up env watchStockId followUp ws =
    (case followUp of None \<Rightarrow> ws
     | Some f \<Rightarrow> if fo_admitted env f
         then markInfiniteBuySecondTargetAttempted (fo_today env) f ''infinite-buy'' watchStockId ws else ws)"

definition handleInfiniteBuySignalFill :: "follow_up \<Rightarrow> string \<Rightarrow> trading_signal \<Rightarrow> jsnum \<Rightarrow> stock_row list \<Rightarrow>
    stock_row list \<times> trading_signal list" where
  "handleInfiniteBuySignalFill env watchStockId s currentPositionQty ws =
    (if sg_side s = BUY then
       (case Option.bind (find_stock watchStockId ws) (jp_secondaryExitPlan \<circ> params_of) of
          None \<Rightarrow> (clearInfiniteBuySecondaryExitPlan watchStockId ws, [])
        | Some x \<Rightarrow> (ws, []))
     else if phase s = ''take-profit-1'' then
       (let row = find_stock watchStockId ws; pos = Option.bind row (fo_position env);
            remainingQty = coalesce (map_option pos_quantity pos) (max_num (Fin 0) (currentPositionQty - sg_quantity s))
        in if remainingQty > Fin 0 then
             (let remainingSignal = s\<lparr>sg_metadata := Some ((meta s)\<lparr>md_secondaryTargetQuantity := Some remainingQty\<rparr>)\<rparr>;
                  followUp = Option.bind row (\<lambda>w. trySubmitInfiniteBuySameDaySecondTarget env w pos remainingSignal remainingQty);
                  ws' = submit_follow_up env watchStockId followUp ws
              in if list_ex (fo_accepted env) (option_list followUp)
                 then (ws', option_list followUp)
                 else (persistInfiniteBuySecondaryExitPlan (fo_today env) watchStockId remainingSignal ws', option_list followUp))
           else (clearInfiniteBuySecondaryExitPlan watchStockId ws, []))
     else if phase s = ''take-profit-2'' \<or> isStopLossSignal s \<or> sg_quantity s \<ge> currentPositionQty
     then (clearInfiniteBuySecondaryExitPlan watchStockId ws, [])
     else (ws, []))"

section \<open>Momentum breakout\<close>

definition MOMENTUM_FULL_EXIT_PHASES :: "string list" where
  "MOMENTUM_FULL_EXIT_PHASES = [''carryover-exit'', ''intraday-stop'', ''trailing-stop'', ''take-profit'', ''eod-exit'',
     ''risk-liquidation'']"

definition handleMomentumBreakoutSignalFill :: "int \<Rightarrow> string \<Rightarrow> trading_signal \<Rightarrow> jsnum \<Rightarrow> stock_row list \<Rightarrow> stock_row list" where
  "handleMomentumBreakoutSignalFill filledAt watchStockId s currentPositionQty ws =
    (if sg_side s = BUY then
       updateWatchStockStrategyParams watchStockId
         (\<lambda>p. p\<lparr>jp_entryDate := Some (getKstDateString filledAt),
                jp_entryDayHigh := (if finite_opt (md_entryDayHigh (meta s)) \<and> num (md_entryDayHigh (meta s)) > Fin 0
                  then md_entryDayHigh (meta s) else None),
                jp_halfTakeProfitDone := None\<rparr>) ws
     else if phase s \<in> set MOMENTUM_FULL_EXIT_PHASES \<or> isStopLossSignal s \<or> sg_quantity s \<ge> currentPositionQty then
       updateWatchStockStrategyParams watchStockId
         (\<lambda>p. p\<lparr>jp_entryDate := None, jp_entryDayHigh := None, jp_halfTakeProfitDone := None\<rparr>) ws
     else ws)"

section \<open>Grid mean reversion\<close>

text \<open>A set of numbers sorted ascending: adding to it, and the set of a list.\<close>

fun add_level :: "jsnum \<Rightarrow> jsnum list \<Rightarrow> jsnum list" where
  "add_level x [] = [x]"
| "add_level x (y # ys) = (if x = y then y # ys else if x < y then x # y # ys else y # add_level x ys)"

definition level_set :: "jsnum list \<Rightarrow> jsnum list" where
  "level_set xs = fold add_level xs []"

definition clear_grid :: "stored_params \<Rightarrow> stored_params" where
  "clear_grid p = p\<lparr>jp_middleTakeProfitDone := None, jp_completedGridLevels := None\<rparr>"

definition handleGridMeanReversionSignalFill :: "string \<Rightarrow> trading_signal \<Rightarrow> jsnum \<Rightarrow> stock_row list \<Rightarrow> stock_row list" where
  "handleGridMeanReversionSignalFill watchStockId s currentPositionQty ws =
    (if sg_side s = BUY then
       updateWatchStockStrategyParams watchStockId
         (\<lambda>p. let gridLevel = num (md_gridLevel (meta s)); p' = p\<lparr>jp_middleTakeProfitDone := Some False\<rparr> in
            if phase s = ''grid-entry'' \<or> currentPositionQty \<le> Fin 0 then p'\<lparr>jp_completedGridLevels := Some []\<rparr>
            else let levels = level_set (coalesce (jp_completedGridLevels p) []) in
              p'\<lparr>jp_completedGridLevels := Some (if gridLevel > Fin 0 then add_level gridLevel levels else levels)\<rparr>) ws
     else if phase s = ''take-profit-middle'' then
       (if max_num (Fin 0) (currentPositionQty - sg_quantity s) > Fin 0
        then updateWatchStockStrategyParams watchStockId (\<lambda>p. p\<lparr>jp_middleTakeProfitDone := Some True\<rparr>) ws
        else updateWatchStockStrategyParams watchStockId clear_grid ws)
     else if phase s = ''take-profit-full'' \<or> isStopLossSignal s \<or> sg_quantity s \<ge> currentPositionQty
     then updateWatchStockStrategyParams watchStockId clear_grid ws
     else ws)"

section \<open>The dispatch\<close>

definition handleStrategySignalFill :: "follow_up \<Rightarrow> string option \<Rightarrow> string \<Rightarrow> trading_signal \<Rightarrow> jsnum \<Rightarrow> int \<Rightarrow> jsnum option \<Rightarrow>
    stock_row list \<Rightarrow> stock_row list \<times> trading_signal list" where
  "handleStrategySignalFill env strategyName watchStockId s currentPositionQty filledAt executedPrice ws =
    (if strategyName = Some ''infinite-buy'' then handleInfiniteBuySignalFill env watchStockId s currentPositionQty ws
     else if strategyName = Some ''infinite-buy-v4''
     then (handleInfiniteBuyV4SignalFill watchStockId s currentPositionQty executedPrice ws, [])
     else if strategyName = Some ''momentum-breakout''
     then (handleMomentumBreakoutSignalFill filledAt watchStockId s currentPositionQty ws, [])
     else if strategyName = Some ''grid-mean-reversion''
     then (handleGridMeanReversionSignalFill watchStockId s currentPositionQty ws, [])
     else (ws, []))"

text \<open>The reconciliation's notice of a fill; the record and its logs are read when the notice is given.\<close>

definition applyReconciledStrategyFill :: "follow_up \<Rightarrow> execution_log list \<Rightarrow> (string \<Rightarrow> stored_signal option) \<Rightarrow> trade_record \<Rightarrow>
    order_status \<Rightarrow> jsnum \<Rightarrow> jsnum \<Rightarrow> stock_row list \<Rightarrow> stock_row list \<times> trading_signal list" where
  "applyReconciledStrategyFill env logs approved r status currentPositionQty filledNow ws =
    (if tr_strategyName r = None \<or> tr_strategyName r = Some [] then (ws, [])
     else case stock_of_record r ws of None \<Rightarrow> (ws, [])
     | Some w \<Rightarrow>
       (case getSubmittedSignal (tr_id r) logs (approved (tr_id r)) of None \<Rightarrow> (ws, [])
        | Some s \<Rightarrow>
          if tr_side r = BUY \<and> filledNow > Fin 0
          then handleStrategySignalFill env (tr_strategyName r) (ws_id w) (s\<lparr>sg_quantity := filledNow\<rparr>) currentPositionQty
            (tr_createdAt r) (tr_executedPrice r) ws
          else if tr_side r = SELL \<and> status = FILLED
          then handleStrategySignalFill env (tr_strategyName r) (ws_id w) s currentPositionQty
            (tr_createdAt r) (tr_executedPrice r) ws
          else (ws, [])))"

end
