(* ===== verification/FillSafety.thy ===== *)
theory FillSafety imports FillHandling begin

text \<open>
  What the fill handlers promise: the V4 holding follows the booked fills and an evaluation's write of its
  mode commutes with them, a finished first target is followed by exactly one plan for the rest, and the
  completed grid levels stay a sorted set. Two divergences are here too: a sell that ends partly filled is
  never booked, and a buy filled in parts is booked at the wrong amount.
\<close>

section \<open>The V4 ledger\<close>

lemma params_other: "jp_v4 (with_ledger l p) = Some ((coalesce (jp_v4 p) no_v4_params)
     \<lparr>v4p_turn := Some (turn l), v4p_cashRemaining := Some (cashRemaining l), v4p_cycleSeq := Some (cycleSeq l),
      v4p_lastKnownHoldQty := Some (lastKnownHoldQty l)\<rparr>)"
  by (simp add: with_ledger_def)

lemma v4_keys_commute:
  "(v :: v4_params)\<lparr>v4p_mode := m, v4p_recentCloses := c, v4p_turn := t, v4p_cashRemaining := r, v4p_cycleSeq := k,
      v4p_lastKnownHoldQty := h\<rparr> =
   v\<lparr>v4p_turn := t, v4p_cashRemaining := r, v4p_cycleSeq := k, v4p_lastKnownHoldQty := h, v4p_mode := m, v4p_recentCloses := c\<rparr>"
  by (cases v) simp

text \<open>
  (C27) The two writers of a V4 stock's parameters, the evaluation storing its mode and recent closes and
  the reconciliation booking a fill, touch different keys: run one after the other, in either order, they
  leave the same table.
\<close>

theorem v4_writers_commute:
  "handleInfiniteBuyV4SignalFill i s q p (persistInfiniteBuyV4State i md cl ws) =
   persistInfiniteBuyV4State i md cl (handleInfiniteBuyV4SignalFill i s q p ws)"
proof (cases "find_stock i ws")
  case None
  then show ?thesis by (simp add: handleInfiniteBuyV4SignalFill_def persistInfiniteBuyV4State_def updateWatchStockStrategyParams_def)
next
  case (Some w)
  let ?v = "coalesce (jp_v4 (params_of w)) no_v4_params"
  let ?p = "(params_of w)\<lparr>jp_v4 := Some (?v\<lparr>v4p_mode := Some md, v4p_recentCloses := Some cl\<rparr>)\<rparr>"
  let ?w = "w\<lparr>ws_strategyParams := Some ?p\<rparr>"
  have l: "ledger_of ?w q = ledger_of w q" by (simp add: ledger_of_def Let_def)
  then have f: "v4_fill_of ?w s q p = v4_fill_of w s q p" by (simp add: v4_fill_of_def Let_def)
  show ?thesis using Some
    by (simp add: handleInfiniteBuyV4SignalFill_def persistInfiniteBuyV4State_def updateWatchStockStrategyParams_def
        find_written l f) (simp add: with_ledger_def v4_keys_commute)
qed

text \<open>A booking: the signal, the holding the reconciliation reports, the executed price.\<close>

type_synonym booking = "trading_signal \<times> jsnum \<times> jsnum option"

definition book :: "string \<Rightarrow> booking list \<Rightarrow> stock_row list \<Rightarrow> stock_row list" where
  "book i bs ws = foldl (\<lambda>ws (s, q, p). handleInfiniteBuyV4SignalFill i s q p ws) ws bs"

fun holding_after :: "int \<Rightarrow> (side \<times> int) list \<Rightarrow> int" where
  "holding_after h [] = h"
| "holding_after h (f # fs) = holding_after (case fst f of BUY \<Rightarrow> h + snd f | SELL \<Rightarrow> max 0 (h - snd f)) fs"

definition books :: "booking \<Rightarrow> side \<times> int \<Rightarrow> bool" where
  "books b f \<longleftrightarrow> (case b of (s, q, p) \<Rightarrow> sg_side s = fst f \<and> sg_quantity s = Fin (of_int (snd f)) \<and> 0 \<le> snd f)"

definition known_holding :: "stock_row \<Rightarrow> jsnum option" where
  "known_holding w = Option.bind (jp_v4 (params_of w)) v4p_lastKnownHoldQty"

lemma booked_nonneg: "list_all2 books bs fs \<Longrightarrow> 0 \<le> sum_list (map snd fs)"
  by (induction bs fs rule: list_all2_induct) (auto simp: books_def)

lemma applyV4Fill_holding:
  assumes "f_previousHoldingQty i = Fin (of_int h)" "f_quantity i = Fin (of_int q)" "0 \<le> h" "h \<le> 2 ^ 52" "0 \<le> q" "q \<le> 2 ^ 52"
  shows "lastKnownHoldQty (r_state (applyV4Fill s i)) = Fin (of_int (case f_side i of BUY \<Rightarrow> h + q | SELL \<Rightarrow> max 0 (h - q)))"
proof (cases "f_side i")
  case BUY
  then show ?thesis using assms add_Fin_int [of h q] by (simp add: applyV4Fill_def Let_def)
next
  case SELL
  have "max_num (Fin 0) (f_previousHoldingQty i - f_quantity i) = Fin (of_int (max 0 (h - q)))"
    using max_zero_sub_int [of h q] assms by simp
  then show ?thesis using SELL by (simp add: applyV4Fill_def Let_def)
qed

lemma handled_row:
  assumes "find_stock i ws = Some w"
  shows "find_stock i (handleInfiniteBuyV4SignalFill i s q p ws) =
    Some (w\<lparr>ws_strategyParams := Some (with_ledger (r_state (applyV4Fill (ledger_of w q) (v4_fill_of w s q p))) (params_of w))\<rparr>)"
  using assms by (simp add: handleInfiniteBuyV4SignalFill_def find_written)

text \<open>
  (C20) The last known holding of a V4 stock, once there is one, follows the booked fills and nothing else:
  after any sequence of bookings it is the running sum of the bought minus the sold shares, not below zero,
  whatever holdings the reconciliation reported alongside them and at whatever prices they were made.
\<close>

theorem v4_holding_follows_fills:
  assumes "find_stock i ws = Some w" "known_holding w = Some (Fin (of_int h))" "0 \<le> h" "list_all2 books bs fs"
    "h + sum_list (map snd fs) \<le> 2 ^ 52"
  shows "Option.bind (find_stock i (book i bs ws)) known_holding = Some (Fin (of_int (holding_after h fs)))"
  using assms(4,1-3,5)
proof (induction bs fs arbitrary: ws w h rule: list_all2_induct)
  case Nil
  then show ?case by (simp add: book_def)
next
  case (Cons b bs f fs)
  obtain s q p where b: "b = (s, q, p)" using prod_cases3 by blast
  let ?w = "w\<lparr>ws_strategyParams := Some (with_ledger (r_state (applyV4Fill (ledger_of w q) (v4_fill_of w s q p))) (params_of w))\<rparr>"
  let ?h = "case fst f of BUY \<Rightarrow> h + snd f | SELL \<Rightarrow> max 0 (h - snd f)"
  have nn: "0 \<le> sum_list (map snd fs)" using Cons.hyps(2) by (rule booked_nonneg)
  have f: "0 \<le> snd f" "f_side (v4_fill_of w s q p) = fst f" "f_quantity (v4_fill_of w s q p) = Fin (of_int (snd f))"
    using Cons.hyps(1) b by (auto simp: books_def v4_fill_of_def Let_def)
  have "f_previousHoldingQty (v4_fill_of w s q p) = Fin (of_int h)"
    using Cons.prems(2) by (auto simp: v4_fill_of_def ledger_of_def Let_def known_holding_def bind_eq_Some_conv)
  then have "known_holding ?w = Some (Fin (of_int ?h))"
    using f Cons.prems nn by (simp add: known_holding_def params_other applyV4Fill_holding)
  moreover have "0 \<le> ?h" "?h + sum_list (map snd fs) \<le> 2 ^ 52"
    using Cons.prems f nn by (auto split: side.split)
  moreover have "find_stock i (handleInfiniteBuyV4SignalFill i s q p ws) = Some ?w" using Cons.prems(1) by (rule handled_row)
  ultimately have "Option.bind (find_stock i (book i bs (handleInfiniteBuyV4SignalFill i s q p ws))) known_holding =
      Some (Fin (of_int (holding_after ?h fs)))"
    using Cons.IH by blast
  then show ?case by (simp add: book_def b)
qed

definition example_sell :: trading_signal where
  "example_sell = \<lparr>sg_market = OVERSEAS, sg_exchangeCode = ''NASD'', sg_stockCode = ''TQQQ'', sg_side = SELL,
     sg_quantity = Fin 5, sg_price = Some (Fin 50), sg_reason = ''r'', sg_orderDivision = Some ''00'', sg_metadata = None\<rparr>"

definition v4_row :: "jsnum \<Rightarrow> jsnum \<Rightarrow> stock_row" where
  "v4_row h c = example_row ''w1'' (Some (empty_params\<lparr>jp_v4 := Some (no_v4_params
     \<lparr>v4p_turn := Some (Fin 1), v4p_cashRemaining := Some c, v4p_lastKnownHoldQty := Some h\<rparr>)\<rparr>))"

theorem v4_holding_follows_fills_witness:
  "Option.bind (find_stock ''w1'' (book ''w1'' [(example_sell, Fin 99, None)] [v4_row (Fin 8) (Fin 100)])) known_holding =
     Some (Fin 3)"
  using v4_holding_follows_fills [of "''w1''" "[v4_row (Fin 8) (Fin 100)]" "v4_row (Fin 8) (Fin 100)" 8
      "[(example_sell, Fin 99, None)]" "[(SELL, 5)]"]
  by (simp add: books_def example_sell_def find_stock_def v4_row_def example_row_def known_holding_def params_of_def)

section \<open>Notices\<close>

text \<open>
  The notices of a reconciliation handed to the strategies in order; \<open>orders\<close> is the record read when the
  notice is given. The answer has the follow-up orders.
\<close>

definition give_notice :: "follow_up \<Rightarrow> execution_log list \<Rightarrow> (string \<Rightarrow> stored_signal option) \<Rightarrow> (string \<Rightarrow> trade_record option) \<Rightarrow>
    strategy_notice \<Rightarrow> stock_row list \<Rightarrow> stock_row list \<times> trading_signal list" where
  "give_notice env logs approved orders n ws =
    (case orders (notice_id n) of None \<Rightarrow> (ws, [])
     | Some r \<Rightarrow>
       (case n of
          StrategyFill i st q f \<Rightarrow> applyReconciledStrategyFill env logs approved r st q f ws
        | StrategyFailure i st \<Rightarrow>
            (applyReconciledStrategyFailure (fo_today env) r (Option.bind (stock_of_record r ws) (fo_position env)) ws, [])))"

definition give_notices :: "follow_up \<Rightarrow> execution_log list \<Rightarrow> (string \<Rightarrow> stored_signal option) \<Rightarrow> (string \<Rightarrow> trade_record option) \<Rightarrow>
    strategy_notice list \<Rightarrow> stock_row list \<Rightarrow> stock_row list \<times> trading_signal list" where
  "give_notices env logs approved orders ns ws =
    foldl (\<lambda>(ws, os) n. let (ws', os') = give_notice env logs approved orders n ws in (ws', os @ os')) (ws, []) ns"

lemma give_notices_simps [simp]:
  "give_notices env logs approved orders [] ws = (ws, [])"
  "give_notices env logs approved orders [n] ws = give_notice env logs approved orders n ws"
  by (simp_all add: give_notices_def split: prod.split)

text \<open>The stored row as the V4 evaluation sees it.\<close>

definition v4_view :: "stock_row \<Rightarrow> v4_strategy_params watch_stock" where
  "v4_view w = \<lparr>ws_id = ws_id w, ws_broker = ws_broker w, ws_market = ws_market w, ws_exchangeCode = ws_exchangeCode w,
     ws_stockCode = ws_stockCode w, ws_stockName = ws_stockName w, ws_strategyName = ws_strategyName w, ws_quota = ws_quota w,
     ws_cycle = ws_cycle w, ws_maxCycles = ws_maxCycles w, ws_stopLossRate = ws_stopLossRate w,
     ws_maxPortfolioRate = ws_maxPortfolioRate w,
     ws_strategyParams = map_option (\<lambda>p. \<lparr>sp_v4 = jp_v4 p\<rparr>) (ws_strategyParams w)\<rparr>"

lemma v4_mismatch_blocks:
  assumes "watchStock ctx = v4_view w" "known_holding w = Some (Fin h)" "held ctx \<noteq> Fin h"
  shows "\<exists>e. v4_evaluateStock t ctx = Inr e \<and> signals e = []"
proof -
  have "v4p_lastKnownHoldQty (v4_stored ctx) = Some (Fin h)"
    using assms(1,2) by (auto simp: v4_stored_def v4_view_def known_holding_def params_of_def empty_params_def bind_eq_Some_conv
        coalesce_def split: option.splits)
  moreover have "coalesce (map_option pos_quantity (position ctx)) (Fin 0) = held ctx"
    by (simp add: held_def split: option.split)
  ultimately have "\<exists>r. v4_ledger_mismatch (v4_stored ctx) T (coalesce (map_option pos_quantity (position ctx)) (Fin 0)) = Some r" for T
    using assms(3) by (auto simp: v4_ledger_mismatch_def js_eq_def)
  then have "\<exists>e. v4_evaluate_day t ctx (v4_stored ctx) coeff q = Inr e \<and> signals e = []" for coeff q
    unfolding v4_evaluate_day_def Let_def using v4_ledger_mismatch_signals by (metis option.simps(5))
  then show ?thesis by (auto simp: v4_evaluateStock_def Let_def v4_stored_def [symmetric] split: option.splits)
qed

text \<open>
  (C38) A V4 sell that the broker ends partly filled is closed in the order table, so no later pass looks
  at it, but its filled shares are never booked: the notices of the pass leave the table of stocks as it
  is. The holding at the broker is then below the ledger's, and the consistency check stops every later
  evaluation of the stock.
\<close>

theorem partial_sell_never_booked:
  assumes "tr_side r = SELL" "reconcile_matched describe t q r o' = Some d"
    "getBrokerOrderStatus (tr_quantity r) (executed_total r o') o' = PARTIAL" "bo_remainingQuantity o' \<le> Fin 0"
    "orders (tr_id r) = Some (de_change d r)"
    "find_stock i ws = Some w" "known_holding w = Some (Fin h)" "watchStock ctx = v4_view w" "held ctx \<noteq> Fin h"
  shows "\<not> is_unresolved (de_change d r) \<and> \<not> open_order b m c (de_change d r) \<and>
    give_notices env logs approved orders (de_notices d) ws = (ws, []) \<and>
    (\<exists>e. v4_evaluateStock clk ctx = Inr e \<and> signals e = [])"
proof -
  have d: "tr_status (de_change d r) = PARTIAL" "tr_orderNo (de_change d r) = None" "tr_side (de_change d r) = SELL"
    "de_notices d = [] \<or> (\<exists>x y. de_notices d = [StrategyFill (tr_id r) PARTIAL x y])"
    using assms(1-4) by (auto simp: reconcile_matched_def Let_def split: if_splits)
  have "applyReconciledStrategyFill env logs approved (de_change d r) PARTIAL x y ws = (ws, [])" for x y
    using d(3) by (simp add: applyReconciledStrategyFill_def split: option.split)
  then have "give_notices env logs approved orders (de_notices d) ws = (ws, [])"
    using d(4) assms(5) by (auto simp: give_notice_def)
  then show ?thesis using d(1,2) v4_mismatch_blocks [OF assms(8,7,9)] by (simp add: is_unresolved_def open_order_def)
qed

text \<open>An order of ten shares, sold or bought.\<close>

definition sent_order :: "string \<Rightarrow> side \<Rightarrow> trade_record" where
  "sent_order strategyName sd = (example_buy strategyName sd)\<lparr>tr_status := PENDING, tr_orderNo := Some ''1'', tr_quantity := Fin 10\<rparr>"

definition broker_row :: "side \<Rightarrow> rat \<Rightarrow> rat \<Rightarrow> rat \<Rightarrow> broker_order" where
  "broker_row sd f k p = \<lparr>bo_orderNo = ''1'', bo_stockCode = ''TQQQ'', bo_side = sd, bo_filledQuantity = Fin f,
     bo_remainingQuantity = Fin k, bo_filledPrice = Some (Fin p), bo_exchangeCode = Some ''NASD'', bo_orderDate = None,
     bo_orderTime = None, bo_rejected = Some False, bo_rejectedReason = None\<rparr>"

definition follow_up_env :: "(trading_signal \<Rightarrow> bool) \<Rightarrow> follow_up" where
  "follow_up_env accepted = \<lparr>fo_today = ''2026-07-01'', fo_dst = True, fo_now = 0, fo_position = (\<lambda>_. None),
     fo_price = Inl (Error ''down''), fo_indicators = Inl (Error ''down''), fo_vwap = Inr None, fo_admitted = accepted,
     fo_accepted = accepted\<rparr>"

lemma sent_order_simps [simp]:
  "tr_id (sent_order n sd) = ''t1''" "tr_side (sent_order n sd) = sd" "tr_quantity (sent_order n sd) = Fin 10"
  "tr_status (sent_order n sd) = PENDING" "tr_orderNo (sent_order n sd) = Some ''1''" "executed_before (sent_order n sd) = Fin 0"
  "tr_executedQty (sent_order n sd) = None" "tr_executedPrice (sent_order n sd) = None" "tr_strategyName (sent_order n sd) = Some n"
  by (simp_all add: sent_order_def example_buy_def new_order_def executed_before_def)

lemma sent_order_filled:
  "0 \<le> f \<Longrightarrow> f \<le> 10 \<Longrightarrow> executed_total (sent_order n sd) (broker_row sd' f k p) = Fin f"
  by (simp add: executed_total_def broker_row_def)

theorem partial_sell_never_booked_witness:
  "\<exists>d. reconcile_matched (\<lambda>_ _ _. None) 0 (Fin 4) (sent_order ''infinite-buy-v4'' SELL) (broker_row SELL 6 0 50) = Some d \<and>
     \<not> is_unresolved (de_change d (sent_order ''infinite-buy-v4'' SELL)) \<and>
     give_notices (follow_up_env (\<lambda>_. True)) [] (\<lambda>_. None) (\<lambda>_. Some (de_change d (sent_order ''infinite-buy-v4'' SELL)))
       (de_notices d) [v4_row (Fin 10) (Fin 100)] = ([v4_row (Fin 10) (Fin 100)], [])"
proof -
  let ?r = "sent_order ''infinite-buy-v4'' SELL"
  let ?o = "broker_row SELL 6 0 50"
  have st: "getBrokerOrderStatus (tr_quantity ?r) (executed_total ?r ?o) ?o = PARTIAL"
    by (simp add: sent_order_filled getBrokerOrderStatus_def) (simp add: broker_row_def)
  obtain d where d: "reconcile_matched (\<lambda>_ _ _. None) 0 (Fin 4) ?r ?o = Some d"
    using st by (auto simp: reconcile_matched_def Let_def)
  have f: "find_stock ''w1'' [v4_row (Fin 10) (Fin 100)] = Some (v4_row (Fin 10) (Fin 100))"
    "known_holding (v4_row (Fin 10) (Fin 100)) = Some (Fin 10)"
    by (simp_all add: find_stock_def v4_row_def example_row_def known_holding_def params_of_def)
  let ?ctx = "(example_ctx OVERSEAS None 100 (Some (example_position 4 100)))\<lparr>watchStock := v4_view (v4_row (Fin 10) (Fin 100))\<rparr>"
  have "held ?ctx \<noteq> Fin 10" by (simp add: held_def example_ctx_def example_position_def)
  then show ?thesis
    using partial_sell_never_booked [OF _ d st _ _ f, of "\<lambda>_. Some (de_change d ?r)" ?ctx KIS OVERSEAS undefined
        "follow_up_env (\<lambda>_. True)" "[]" "\<lambda>_. None" 0] d
    by (simp add: broker_row_def)
qed

section \<open>A buy filled in parts\<close>

lemma cents_times:
  assumes "1 \<le> p" "1 \<le> q" "p * q \<le> 2 ^ 40"
  shows "roundToCent (cents p * Fin (of_int q)) = cents (p * q)"
proof -
  have q: "1 \<le> q" using assms(2) .
  have "p * 1 \<le> p * q" using assms(1) q by (intro mult_left_mono) simp_all
  then have pb: "p \<le> 2 ^ 40" using assms(3) by linarith
  let ?P = "of_int p :: rat" let ?Q = "of_int q :: rat"
  have "(of_int 1 :: rat) \<le> ?P" "?P \<le> of_int (2 ^ 40)" "(of_int 1 :: rat) \<le> ?Q" "(of_int (p * q) :: rat) \<le> of_int (2 ^ 40)"
    using assms(1,3) pb q by (simp_all only: of_int_le_iff)
  then have P: "1 \<le> ?P" "?P \<le> 2 ^ 40" "1 \<le> ?Q" "?P * ?Q \<le> 2 ^ 40" by simp_all
  let ?c = "rnd (?P / 100)"
  have c: "fl (?P / 100) = Fin ?c" "\<bar>?c - ?P / 100\<bar> \<le> ?P / 2 ^ 53"
    using fl_small [of "?P / 100" ?P] P by simp_all
  have e: "\<bar>?c * ?Q - ?P * ?Q / 100\<bar> \<le> 1 / 2 ^ 13"
  proof -
    have "?c * ?Q - ?P * ?Q / 100 = (?c - ?P / 100) * ?Q" by (simp add: left_diff_distrib)
    then have "\<bar>?c * ?Q - ?P * ?Q / 100\<bar> = \<bar>?c - ?P / 100\<bar> * ?Q" using P(3) by (simp add: abs_mult)
    also have "\<dots> \<le> ?P / 2 ^ 53 * ?Q" using c(2) P(3) by (intro mult_right_mono) simp_all
    also have "\<dots> \<le> 1 / 2 ^ 13" using P(4) by (simp add: field_simps)
    finally show ?thesis .
  qed
  have "\<bar>?c * ?Q\<bar> \<le> 2 ^ 40"
  proof -
    have "0 \<le> ?P * ?Q" using P by simp
    moreover note abs_le_D1 [OF e] abs_le_D2 [OF e] P(4)
    ultimately show ?thesis by (intro abs_leI) (simp_all; linarith)+
  qed
  then have r: "fl (?c * ?Q) = Fin (rnd (?c * ?Q))" "\<bar>rnd (?c * ?Q) - ?c * ?Q\<bar> \<le> 2 ^ 40 / 2 ^ 53"
    using fl_small [of "?c * ?Q" "2 ^ 40"] by simp_all
  have "\<bar>rnd (?c * ?Q) * 100 - of_int (p * q)\<bar> \<le> 1 / 4"
    using abs_le_D1 [OF e] abs_le_D2 [OF e] abs_le_D1 [OF r(2)] abs_le_D2 [OF r(2)]
    by (intro abs_leI) (simp_all; linarith)+
  moreover have "\<bar>p * q\<bar> \<le> 2 ^ 41" using assms by simp
  ultimately have "roundToCent (Fin (rnd (?c * ?Q))) = cents (p * q)" by (rule roundToCent_near)
  then show ?thesis by (simp add: cents_def [of p] c(1) mult_Fin r(1))
qed

definition known_cash :: "stock_row \<Rightarrow> jsnum option" where
  "known_cash w = Option.bind (jp_v4 (params_of w)) v4p_cashRemaining"

lemma v4_buy_notice:
  assumes "distinct (map ws_id ws)" "orders i = Some r" "tr_side r = BUY" "tr_strategyName r = Some ''infinite-buy-v4''"
    "stock_of_record r ws = Some w" "getSubmittedSignal (tr_id r) logs (approved (tr_id r)) = Some s" "f > Fin 0"
  shows "give_notice env logs approved orders (StrategyFill i st q f) ws =
    (write_params (ws_id w) (with_ledger (r_state (applyV4Fill (ledger_of w q)
       (v4_fill_of w (s\<lparr>sg_quantity := f\<rparr>) q (tr_executedPrice r)))) (params_of w)) ws, [])"
  using assms stock_of_record_found [OF assms(1,5)]
  by (simp add: give_notice_def applyReconciledStrategyFill_def handleStrategySignalFill_def handleInfiniteBuyV4SignalFill_def)

text \<open>The cash after one booked buy.\<close>

lemma v4_buy_cash:
  assumes "known_cash w = Some (cents k)" "sg_side s = BUY" "1 \<le> p" "1 \<le> n" "p * n \<le> 2 ^ 40" "\<bar>k\<bar> \<le> 2 ^ 40"
  shows "cashRemaining (r_state (applyV4Fill (ledger_of w q) (v4_fill_of w (s\<lparr>sg_quantity := Fin (of_int n)\<rparr>) q (Some (cents p))))) =
    cents (k - p * n)"
proof -
  have "p * 1 \<le> p * n" using assms(3,4) by (intro mult_left_mono) simp_all
  then have "\<bar>p\<bar> \<le> 2 ^ 40" using assms(3,5) by linarith
  then obtain x where x: "cents p = Fin x" using cents_near [of p] by auto
  obtain c where c: "cents k = Fin c" using cents_near [of k] assms(6) by auto
  have "f_fillAmount (v4_fill_of w (s\<lparr>sg_quantity := Fin (of_int n)\<rparr>) q (Some (cents p))) = cents (p * n)"
    using cents_times [of p n] assms x by (simp add: v4_fill_of_def Let_def)
  moreover have "f_side (v4_fill_of w (s\<lparr>sg_quantity := Fin (of_int n)\<rparr>) q (Some (cents p))) = BUY"
    using assms(2) by (simp add: v4_fill_of_def Let_def)
  moreover have "cashRemaining (ledger_of w q) = cents k"
    using assms(1) c by (auto simp: known_cash_def ledger_of_def Let_def bind_eq_Some_conv)
  moreover have "\<bar>p * n\<bar> \<le> 2 ^ 40" using assms(3-5) by simp
  ultimately show ?thesis using cents_add(2) [of k "p * n"] assms(6) by (simp add: applyV4Fill_def Let_def)
qed

lemma v4_buy_booked:
  assumes "distinct (map ws_id ws)" "orders i = Some r" "tr_side r = BUY" "tr_strategyName r = Some ''infinite-buy-v4''"
    "stock_of_record r ws = Some w" "getSubmittedSignal (tr_id r) logs (approved (tr_id r)) = Some s" "sg_side s = BUY"
    "tr_executedPrice r = Some (cents p)" "known_cash w = Some (cents k)" "1 \<le> p" "1 \<le> n" "p * n \<le> 2 ^ 40" "\<bar>k\<bar> \<le> 2 ^ 40"
  shows "\<exists>ws' w'. give_notice env logs approved orders (StrategyFill i st q (Fin (of_int n))) ws = (ws', []) \<and>
    distinct (map ws_id ws') \<and> stock_of_record r ws' = Some w' \<and> ws_id w' = ws_id w \<and> known_cash w' = Some (cents (k - p * n))"
  using v4_buy_notice [where r = r and orders = orders and approved = approved and s = s and f = "Fin (of_int n)", OF assms(1-6)] assms
    stock_of_record_written [OF assms(1,5)] v4_buy_cash [OF assms(9,7,10-13)]
  by (simp add: known_cash_def params_other)

text \<open>
  A V4 buy filled in two parts is booked at the wrong amount: each part is booked at the average price
  the broker reports for everything filled so far, so when the second part moves the average from
  \<open>p1\<close> to \<open>p\<close> cents, the cash of the ledger is off by \<open>(p1 - p) * q1\<close> cents against the
  \<open>p * (q1 + q2)\<close> the broker charged, for good.
\<close>

lemma partial_buys_book_wrong_amount:
  assumes "tr_side r = BUY" "tr_strategyName r = Some ''infinite-buy-v4''" "tr_status r = PENDING"
    "tr_executedQty r = None" "tr_quantity r = Fin (of_int (q1 + q2))"
    "bo_filledQuantity o1 = Fin (of_int q1)" "bo_filledPrice o1 = Some (cents p1)" "bo_rejected o1 \<noteq> Some True"
    "bo_filledQuantity o2 = Fin (of_int (q1 + q2))" "bo_filledPrice o2 = Some (cents p)" "bo_rejected o2 \<noteq> Some True"
    "1 \<le> q1" "1 \<le> q2" "1 \<le> p1" "1 \<le> p" "q1 + q2 \<le> 2 ^ 52" "\<bar>k\<bar> + p1 * q1 \<le> 2 ^ 40" "p * q2 \<le> 2 ^ 40"
    "reconcile_matched describe t h r o1 = Some d1" "reconcile_matched describe t' h' (de_change d1 r) o2 = Some d2"
    "distinct (map ws_id ws)" "stock_of_record r ws = Some w" "known_cash w = Some (cents k)"
    "getSubmittedSignal (tr_id r) logs (approved (tr_id r)) = Some s" "sg_side s = BUY"
  shows "\<exists>c. map_option known_cash (find_stock (ws_id w)
      (fst (give_notices env logs approved (\<lambda>_. Some (de_change d2 (de_change d1 r))) (de_notices d2)
        (fst (give_notices env logs approved (\<lambda>_. Some (de_change d1 r)) (de_notices d1) ws))))) = Some (Some (cents (k - c))) \<and>
    c - p * (q1 + q2) = (p1 - p) * q1"
proof -
  let ?r1 = "de_change d1 r" and ?r2 = "de_change d2 (de_change d1 r)"
  have tot: "executed_total r o1 = Fin (of_int q1)" "filled_now r o1 = Fin (of_int q1)"
    using assms(4,5,6,12,13,16) diff_Fin_int [of q1 0] by (simp_all add: executed_total_def filled_now_def executed_before_def)
  obtain x1 where d1: "de_notices d1 = [StrategyFill (tr_id r) PARTIAL x1 (Fin (of_int q1))]"
    "tr_executedPrice ?r1 = Some (cents p1)" "tr_executedQty ?r1 = Some (Fin (of_int q1))" "tr_id ?r1 = tr_id r"
    "tr_side ?r1 = BUY" "tr_strategyName ?r1 = tr_strategyName r" "tr_quantity ?r1 = tr_quantity r" "record_key ?r1 = record_key r"
    using assms(1,3-8,12,13,19) tot
    by (auto simp: reconcile_matched_def Let_def getBrokerOrderStatus_def resolveExecutedPrice_def executed_before_def record_key_def
        split: if_splits)
  have tot2: "executed_total ?r1 o2 = Fin (of_int (q1 + q2))" "filled_now ?r1 o2 = Fin (of_int q2)"
    using assms(5,9,12,13,16) d1(3,7) diff_Fin_int [of "q1 + q2" q1]
    by (simp_all add: executed_total_def filled_now_def executed_before_def or_num_def max_def)
  obtain x2 where d2: "de_notices d2 = [StrategyFill (tr_id r) FILLED x2 (Fin (of_int q2))]"
    "tr_executedPrice ?r2 = Some (cents p)" "tr_id ?r2 = tr_id r" "tr_side ?r2 = BUY" "tr_strategyName ?r2 = tr_strategyName r"
    "record_key ?r2 = record_key r"
    using assms(1,5,9-13,20) d1 tot2
    by (auto simp: reconcile_matched_def Let_def getBrokerOrderStatus_def resolveExecutedPrice_def executed_before_def or_num_def
        record_key_def split: if_splits)
  have key: "stock_of_record ?r1 ws' = stock_of_record r ws'" "stock_of_record ?r2 ws' = stock_of_record r ws'" for ws'
    using d1(8) d2(6) by (simp_all add: stock_of_record_def)
  have pq: "0 \<le> p1 * q1" "0 \<le> p * q2" using assms(12-15) by simp_all
  have bnd: "p1 * q1 \<le> 2 ^ 40" "\<bar>k\<bar> \<le> 2 ^ 40" "\<bar>k - p1 * q1\<bar> \<le> 2 ^ 40" using pq(1) assms(17) by linarith+
  obtain ws1 w1 where n1: "give_notice env logs approved (\<lambda>_. Some ?r1) (StrategyFill (tr_id r) PARTIAL x1 (Fin (of_int q1))) ws = (ws1, [])"
    "distinct (map ws_id ws1)" "stock_of_record r ws1 = Some w1" "ws_id w1 = ws_id w" "known_cash w1 = Some (cents (k - p1 * q1))"
    using v4_buy_booked [of ws "\<lambda>_. Some ?r1" "tr_id r" ?r1 w logs approved s p1 k q1 env PARTIAL x1] assms d1 key bnd by auto
  obtain ws2 w2 where n2: "give_notice env logs approved (\<lambda>_. Some ?r2) (StrategyFill (tr_id r) FILLED x2 (Fin (of_int q2))) ws1 = (ws2, [])"
    "distinct (map ws_id ws2)" "stock_of_record r ws2 = Some w2" "ws_id w2 = ws_id w" "known_cash w2 = Some (cents (k - p1 * q1 - p * q2))"
    using v4_buy_booked [of ws1 "\<lambda>_. Some ?r2" "tr_id r" ?r2 w1 logs approved s p "k - p1 * q1" q2 env FILLED x2] n1 assms d2 key bnd
    by auto
  have "find_stock (ws_id w) ws2 = Some w2" using stock_of_record_found [OF n2(2,3)] n2(4) by simp
  then show ?thesis using n1(1) n2(1,5) d1(1) d2(1)
    by (intro exI [of _ "p1 * q1 + p * q2"]) (simp add: algebra_simps diff_diff_eq2)
qed

definition buy_log :: execution_log where
  "buy_log = \<lparr>xl_tradeRecordId = Some ''t1'', xl_eventType = ORDER_SUBMITTED, xl_market = OVERSEAS, xl_exchangeCode = ''NASD'',
     xl_stockCode = ''TQQQ'', xl_message = ''m'', xl_createdAt = 0, xl_side = Some BUY, xl_quantity = Fin 10,
     xl_price = Some (Fin 100), xl_orderDivision = None, xl_reason = None, xl_metadata = None\<rparr>"

lemma v4_row_simps [simp]:
  "known_cash (v4_row h c) = Some c" "ws_id (v4_row h c) = ''w1''"
  "stock_of_record (sent_order n sd) [v4_row h c] = Some (v4_row h c)"
  by (simp_all add: v4_row_def example_row_def known_cash_def params_of_def stock_of_record_def stock_key_def record_key_def
      sent_order_def example_buy_def new_order_def)

theorem partial_buys_book_wrong_amount_witness:
  "\<exists>d1 d2 c. reconcile_matched (\<lambda>_ _ _. None) 0 (Fin 4) (sent_order ''infinite-buy-v4'' BUY) (broker_row BUY 4 6 100) = Some d1 \<and>
     reconcile_matched (\<lambda>_ _ _. None) 0 (Fin 10) (de_change d1 (sent_order ''infinite-buy-v4'' BUY)) (broker_row BUY 10 0 94) = Some d2 \<and>
     map_option known_cash (find_stock ''w1''
       (fst (give_notices (follow_up_env (\<lambda>_. True)) [buy_log] (\<lambda>_. None) (\<lambda>_. Some (de_change d2 (de_change d1 (sent_order ''infinite-buy-v4'' BUY))))
         (de_notices d2) (fst (give_notices (follow_up_env (\<lambda>_. True)) [buy_log] (\<lambda>_. None)
           (\<lambda>_. Some (de_change d1 (sent_order ''infinite-buy-v4'' BUY))) (de_notices d1) [v4_row (Fin 0) (cents 500000)]))))) =
       Some (Some (cents (500000 - c))) \<and> c - 94000 = (2400 :: int)"
proof -
  let ?r = "sent_order ''infinite-buy-v4'' BUY" and ?o1 = "broker_row BUY 4 6 100" and ?o2 = "broker_row BUY 10 0 94"
  have o: "bo_filledPrice ?o1 = Some (cents 10000)" "bo_filledPrice ?o2 = Some (cents 9400)"
    "bo_filledQuantity ?o1 = Fin 4" "bo_filledQuantity ?o2 = Fin 10" "bo_rejected ?o1 \<noteq> Some True" "bo_rejected ?o2 \<noteq> Some True"
    by (simp_all add: broker_row_def cents_def)
  have l: "getSubmittedSignal (tr_id ?r) [buy_log] None = log_signal buy_log" "\<exists>s. log_signal buy_log = Some s \<and> sg_side s = BUY"
    by (simp_all add: getSubmittedSignal_def Let_def buy_log_def log_signal_def)
  have t1: "filled_now ?r ?o1 = Fin 4" "executed_total ?r ?o1 = Fin 4"
    using diff_Fin_int [of 4 0] by (simp_all add: filled_now_def sent_order_filled)
  obtain d1 where d1: "reconcile_matched (\<lambda>_ _ _. None) 0 (Fin 4) ?r ?o1 = Some d1"
    using t1 by (simp add: reconcile_matched_def Let_def)
  then have e: "executed_before (de_change d1 ?r) = Fin 4" "tr_quantity (de_change d1 ?r) = Fin 10"
    using t1 by (auto simp: reconcile_matched_def Let_def executed_before_def or_num_def)
  then have "filled_now (de_change d1 ?r) ?o2 = Fin 6"
    using diff_Fin_int [of 10 4] by (simp add: filled_now_def executed_total_def o)
  then obtain d2 where d2: "reconcile_matched (\<lambda>_ _ _. None) 0 (Fin 10) (de_change d1 ?r) ?o2 = Some d2"
    by (simp add: reconcile_matched_def Let_def)
  obtain s where s: "log_signal buy_log = Some s" "sg_side s = BUY" using l(2) by auto
  show ?thesis
    using partial_buys_book_wrong_amount [where r = ?r and ?q1.0 = 4 and ?q2.0 = 6 and ?p1.0 = 10000 and p = 9400 and k = 500000 and
        ?o1.0 = ?o1 and ?o2.0 = ?o2 and ?d1.0 = d1 and ?d2.0 = d2 and describe = "\<lambda>_ _ _. None" and t = 0 and t' = 0 and h = "Fin 4" and
        h' = "Fin 10" and ws = "[v4_row (Fin 0) (cents 500000)]" and w = "v4_row (Fin 0) (cents 500000)" and logs = "[buy_log]" and
        approved = "\<lambda>_. None" and s = s and env = "follow_up_env (\<lambda>_. True)"] d1 d2 o s l(1) by simp
qed

section \<open>The second target\<close>

lemma min_same [simp]: "min_num x x = x"
  by (simp add: min_num_def isNaN_def)

lemma updated_row:
  "find_stock i ws = Some w \<Longrightarrow>
    find_stock i (updateWatchStockStrategyParams i f ws) = Some (w\<lparr>ws_strategyParams := Some (f (params_of w))\<rparr>)"
  by (simp add: updateWatchStockStrategyParams_def find_written)

lemma submitted_row:
  "find_stock i ws = Some w \<Longrightarrow> \<exists>w'. find_stock i (submit_follow_up env i fo ws) = Some w'"
  by (cases fo) (auto simp: submit_follow_up_def markInfiniteBuySecondTargetAttempted_def updated_row)

text \<open>The shares left when a first target has filled: those of the stored position, else computed.\<close>

definition shares_left :: "follow_up \<Rightarrow> stock_row \<Rightarrow> trading_signal \<Rightarrow> jsnum \<Rightarrow> jsnum" where
  "shares_left env w s currentPositionQty =
    coalesce (map_option pos_quantity (fo_position env w)) (max_num (Fin 0) (currentPositionQty - sg_quantity s))"



section \<open>The same-day second target after midnight\<close>

text \<open>
  On an exchange whose session runs over midnight the same-day second target is never ordered after
  midnight, however many minutes are left: the minutes to the close are then counted a day short.
\<close>

lemma no_same_day_target_after_midnight:
  assumes "ws_market w = OVERSEAS" "getMarketHours (fo_dst env) (ws_exchangeCode w) = Some hours" "overnight hours"
    "kst_minutes (fo_now env) < minutes (closes hours)"
  shows "trySubmitInfiniteBuySameDaySecondTarget env w pos s n = None \<and>
    (kst_weekday (fo_now env) = 0 \<or> isMarketOpen (fo_dst env) (fo_now env) (ws_exchangeCode w))"
proof -
  have e: "ws_exchangeCode w \<noteq> []" using assms(2) by (auto simp: getMarketHours_def MARKET_HOURS_def split: if_splits)
  have c: "minutes (closes hours) < minutes (opens hours)" "minutes (closes hours) \<le> 360"
    using assms(2,3) by (auto elim!: market_hours_cases simp: day_hours_def us_hours_def clock_def minutes_def)
  have k: "0 \<le> kst_minutes (fo_now env)" by (rule kst_minutes_bounds)
  have "getMinutesUntilMarketClose (fo_dst env) (kst_minutes (fo_now env)) (Some (ws_market w)) (ws_exchangeCode w) =
      Some (minutes (closes hours) - (kst_minutes (fo_now env) + 1440))"
    using assms e c by (simp add: getMinutesUntilMarketClose_def)
  moreover have "minutes (closes hours) - (kst_minutes (fo_now env) + 1440) < 60" using c k by simp
  ultimately have "\<not> shouldSubmitInfiniteBuySameDaySecondTarget
      (getMinutesUntilMarketClose (fo_dst env) (kst_minutes (fo_now env)) (Some (ws_market w)) (ws_exchangeCode w)) x" for x
    by (cases x) (simp add: shouldSubmitInfiniteBuySameDaySecondTarget_def Let_def)
  then have "trySubmitInfiniteBuySameDaySecondTarget env w pos s n = None"
    by (simp add: trySubmitInfiniteBuySameDaySecondTarget_def Let_def)
  moreover have "kst_weekday (fo_now env) = 0 \<or> isMarketOpen (fo_dst env) (fo_now env) (ws_exchangeCode w)"
    using assms by (simp add: isMarketOpen_def isWithinHours_def Let_def)
  ultimately show ?thesis by simp
qed

theorem no_same_day_target_after_midnight_witness:
  "trySubmitInfiniteBuySameDaySecondTarget (follow_up_env (\<lambda>_. True)\<lparr>fo_now := 1751389200000\<rparr>) (example_row ''w1'' None) None
     example_sell (Fin 3) = None"
  using no_same_day_target_after_midnight [of "example_row ''w1'' None" "follow_up_env (\<lambda>_. True)\<lparr>fo_now := 1751389200000\<rparr>"
      "\<lparr>opens = clock 22 30, closes = clock 5 0, overnight = True\<rparr>" None example_sell "Fin 3"]
  by (simp add: example_row_def follow_up_env_def hours_defs kst_minutes_def minutesOfDay_def kst_def)

section \<open>What the stored parameters hold\<close>

lemma add_level_set: "set (add_level x xs) = insert x (set xs)"
  by (induction xs) auto

lemma add_level_sorted:
  assumes "sorted_wrt (<) xs" "x \<noteq> NaN" "NaN \<notin> set xs"
  shows "sorted_wrt (<) (add_level x xs)"
  using assms
proof (induction xs)
  case (Cons y ys)
  have "y < x" if "x \<noteq> y" "\<not> x < y" using js_trichotomy [of x y] Cons.prems that by auto
  then show ?case using Cons by (auto simp: add_level_set intro: js_less_trans)
qed simp

lemma level_set_props:
  "list_all (\<lambda>x. Fin 0 < x) xs \<Longrightarrow> sorted_wrt (<) (level_set xs) \<and> list_all (\<lambda>x. Fin 0 < x) (level_set xs)"
proof -
  have "sorted_wrt (<) (fold add_level xs ys) \<and> list_all (\<lambda>x. Fin 0 < x) (fold add_level xs ys)"
    if "list_all (\<lambda>x. Fin 0 < x) xs" "sorted_wrt (<) ys" "list_all (\<lambda>x. Fin 0 < x) ys" for ys
    using that
  proof (induction xs arbitrary: ys)
    case (Cons x xs)
    have "x \<noteq> NaN" "NaN \<notin> set ys" using Cons.prems by (auto simp: list_all_iff)
    then have "sorted_wrt (<) (add_level x ys)" "list_all (\<lambda>x. Fin 0 < x) (add_level x ys)"
      using Cons.prems add_level_sorted by (auto simp: list_all_iff add_level_set)
    then show ?case using Cons by simp
  qed simp
  then show "list_all (\<lambda>x. Fin 0 < x) xs \<Longrightarrow> ?thesis" by (simp add: level_set_def)
qed

text \<open>
  The completed grid levels are a sorted set of positive numbers, a high of the entry day comes with the
  entry day, and a plan for a second target has a price, a rate and shares.
\<close>

definition levels_ok :: "jsnum list option \<Rightarrow> bool" where
  "levels_ok xs \<longleftrightarrow> (case xs of None \<Rightarrow> True | Some ls \<Rightarrow> sorted_wrt (<) ls \<and> list_all (\<lambda>x. Fin 0 < x) ls)"

definition high_ok :: "string option \<Rightarrow> jsnum option \<Rightarrow> bool" where
  "high_ok entry high \<longleftrightarrow> (case high of None \<Rightarrow> True | Some h \<Rightarrow> isFinite h \<and> Fin 0 < h \<and> entry \<noteq> None)"

definition plan_ok :: "exit_plan option \<Rightarrow> bool" where
  "plan_ok plan \<longleftrightarrow> (case plan of None \<Rightarrow> True
     | Some x \<Rightarrow> truthy (xp_secondTargetPrice x) \<and> truthy (xp_secondTargetRate x) \<and> Fin 0 < xp_secondTargetQuantity x)"

definition params_ok :: "stored_params \<Rightarrow> bool" where
  "params_ok p \<longleftrightarrow> levels_ok (jp_completedGridLevels p) \<and> high_ok (jp_entryDate p) (jp_entryDayHigh p) \<and>
     plan_ok (jp_secondaryExitPlan p)"

lemma ok_None [simp]: "levels_ok None" "high_ok d None" "plan_ok None"
  by (simp_all add: levels_ok_def high_ok_def plan_ok_def)

definition rows_ok :: "stock_row list \<Rightarrow> bool" where
  "rows_ok ws \<longleftrightarrow> (\<forall>w \<in> set ws. params_ok (params_of w))"

lemma rows_ok_find: "rows_ok ws \<Longrightarrow> find_stock i ws = Some w \<Longrightarrow> params_ok (params_of w)"
  by (auto simp: rows_ok_def dest: find_stock_Some)

lemma rows_ok_write: "rows_ok ws \<Longrightarrow> params_ok p \<Longrightarrow> rows_ok (write_params i p ws)"
  by (auto simp: rows_ok_def write_params_def)

lemma rows_ok_update:
  "rows_ok ws \<Longrightarrow> (\<And>p. params_ok p \<Longrightarrow> params_ok (f p)) \<Longrightarrow> rows_ok (updateWatchStockStrategyParams i f ws)"
  by (auto simp: updateWatchStockStrategyParams_def rows_ok_write rows_ok_find split: option.split)

lemma params_ok_keys:
  "params_ok p \<Longrightarrow> params_ok (with_ledger l p)" "params_ok p \<Longrightarrow> params_ok (set_plan None p)"
  "params_ok p \<Longrightarrow> params_ok (clear_grid p)" "params_ok p \<Longrightarrow> params_ok (p\<lparr>jp_middleTakeProfitDone := b\<rparr>)"
  "params_ok p \<Longrightarrow> params_ok (p\<lparr>jp_accumulatedQuota := q, jp_lastAccumulatedDate := d\<rparr>)"
  "params_ok p \<Longrightarrow> params_ok (p\<lparr>jp_entryDate := None, jp_entryDayHigh := None, jp_halfTakeProfitDone := None\<rparr>)"
  by (simp_all add: params_ok_def with_ledger_def set_plan_def clear_grid_def)

lemma params_ok_attempted:
  "params_ok p \<Longrightarrow> jp_secondaryExitPlan p = Some x \<Longrightarrow>
    params_ok (p\<lparr>jp_secondaryExitPlan := Some (x\<lparr>xp_secondTargetAttemptedDate := Some today\<rparr>)\<rparr>)"
  by (simp add: params_ok_def plan_ok_def)

lemma rows_ok_momentum:
  assumes "rows_ok ws"
  shows "rows_ok (handleMomentumBreakoutSignalFill t i s q ws)"
proof -
  have "high_ok (Some d) (if finite_opt (md_entryDayHigh (meta s)) \<and> num (md_entryDayHigh (meta s)) > Fin 0
      then md_entryDayHigh (meta s) else None)" for d
    by (cases "md_entryDayHigh (meta s)") (simp_all add: high_ok_def num_def)
  then show ?thesis using assms
    by (auto simp: handleMomentumBreakoutSignalFill_def params_ok_def high_ok_def intro!: rows_ok_update)
qed

lemma rows_ok_grid:
  assumes "rows_ok ws"
  shows "rows_ok (handleGridMeanReversionSignalFill i s q ws)"
proof -
  have l: "levels_ok (Some (level_set (coalesce xs [])))" "g > Fin 0 \<Longrightarrow> levels_ok (Some (add_level g (level_set (coalesce xs []))))"
    if "levels_ok xs" for xs g
  proof -
    have "list_all (\<lambda>x. Fin 0 < x) (coalesce xs [])" using that by (cases xs) (simp_all add: levels_ok_def)
    from level_set_props [OF this]
    show "levels_ok (Some (level_set (coalesce xs [])))" by (simp add: levels_ok_def)
    show "levels_ok (Some (add_level g (level_set (coalesce xs []))))" if "g > Fin 0"
      using level_set_props [OF \<open>list_all _ _\<close>] that
      by (auto simp: levels_ok_def list_all_iff add_level_set intro!: add_level_sorted)
  qed
  have "levels_ok (Some [])" by (simp add: levels_ok_def)
  then show ?thesis using assms l
    by (auto simp: handleGridMeanReversionSignalFill_def Let_def params_ok_def clear_grid_def intro!: rows_ok_update)
qed

lemma rows_ok_second_target:
  assumes "rows_ok ws"
  shows "rows_ok (fst (handleInfiniteBuySignalFill env i s q ws))"
proof -
  have sub: "rows_ok (submit_follow_up env i fo ws)" for fo
    using assms by (auto simp: submit_follow_up_def markInfiniteBuySecondTargetAttempted_def params_ok_attempted
        split: option.split intro!: rows_ok_update)
  have clr: "rows_ok (clearInfiniteBuySecondaryExitPlan i ws)"
    using assms by (simp add: clearInfiniteBuySecondaryExitPlan_def rows_ok_update params_ok_keys)
  have per: "rows_ok (persistInfiniteBuySecondaryExitPlan d i (s\<lparr>sg_metadata := Some ((meta s)\<lparr>md_secondaryTargetQuantity := Some n\<rparr>)\<rparr>) vs)"
    if "Fin 0 < n" "rows_ok vs" for d n vs
    using that by (auto simp: persistInfiniteBuySecondaryExitPlan_def Let_def meta_def num_def set_plan_def params_ok_def plan_ok_def
        intro!: rows_ok_update)
  show ?thesis using assms sub clr per by (auto simp: handleInfiniteBuySignalFill_def Let_def split: option.split)
qed

lemma rows_ok_v4: "rows_ok ws \<Longrightarrow> rows_ok (handleInfiniteBuyV4SignalFill i s q p ws)"
  by (auto simp: handleInfiniteBuyV4SignalFill_def rows_ok_write rows_ok_find params_ok_keys split: option.split)

lemma rows_ok_failure:
  assumes "rows_ok ws"
  shows "rows_ok (applyReconciledStrategyFailure today r pos ws)"
proof (cases "stock_of_record r ws")
  case (Some w)
  then have "params_ok (params_of w)" using assms by (auto simp: stock_of_record_def find_Some_iff rows_ok_def)
  then show ?thesis using assms Some
    by (auto simp: applyReconciledStrategyFailure_def Let_def rows_ok_write params_ok_keys split: option.split)
qed (use assms in \<open>simp add: applyReconciledStrategyFailure_def\<close>)

text \<open>
  (C28) The stored parameters stay well formed through any notices of fills and failures, for all strategies,
  signals and answers of the broker: completed grid levels are a strictly ascending list of positive numbers,
  an entry-day high is a positive number that comes with an entry date, and a plan for a second target has a
  price, a rate and at least one share to sell.
\<close>

theorem notices_keep_params_ok:
  assumes "rows_ok ws"
  shows "rows_ok (fst (give_notices env logs approved orders ns ws))"
proof -
  have step: "rows_ok (fst (give_notice env logs approved orders n vs))" if "rows_ok vs" for n vs
    using that by (auto simp: give_notice_def applyReconciledStrategyFill_def handleStrategySignalFill_def rows_ok_momentum rows_ok_grid
        rows_ok_second_target rows_ok_v4 rows_ok_failure split: option.split strategy_notice.split)
  have "rows_ok (fst (foldl (\<lambda>(ws, os) n. let (ws', os') = give_notice env logs approved orders n ws in (ws', os @ os')) st ns))"
    if "rows_ok (fst st)" for st
    using that
  proof (induction ns arbitrary: st)
    case (Cons n ns)
    have "rows_ok (fst (give_notice env logs approved orders n (fst st)))" using Cons.prems by (rule step)
    then show ?case using Cons.IH by (simp add: case_prod_beta Let_def)
  qed simp
  then show ?thesis using assms by (simp add: give_notices_def)
qed

theorem notices_keep_params_ok_witness:
  "rows_ok (fst (give_notices (follow_up_env (\<lambda>_. True)) [buy_log] (\<lambda>_. None) (\<lambda>_. Some (sent_order ''grid-mean-reversion'' BUY))
     [StrategyFill ''t1'' FILLED (Fin 3) (Fin 10)] [example_row ''w1'' None]))"
proof -
  have "rows_ok [example_row ''w1'' None]" by (simp add: rows_ok_def params_ok_def example_row_def params_of_def empty_params_def)
  then show ?thesis by (rule notices_keep_params_ok)
qed

end
