(* ===== verification/SignalDispatch.thy ===== *)
theory SignalDispatch imports FillHandling begin

text \<open>
  What is done with the signals of an evaluation (\<open>src/trading/trading.service.ts\<close>): buys that would cross
  a sell of the same evaluation are blocked, V4 submits its sells first, every remaining signal is executed
  in turn, and the outcome decides whether the quota of an installment strategy is reset or carried over.
  The world of the execution is a type argument; \<open>execute\<close> is a signal's execution or approval request
  (\<open>executeSignal\<close>), whose answer is whether it was accepted or the error it threw. The last part runs the
  order service's own segments as that execution. Execution logs and Slack messages are left out.
\<close>

section \<open>Opposite orders of one evaluation\<close>

text \<open>\<open>Number.EPSILON\<close>\<close>

definition epsilon :: jsnum where
  "epsilon = lit (1 / 2 ^ 52)"

definition getSameCycleMinProfitRate :: "trading_signal \<Rightarrow> jsnum" where
  "getSameCycleMinProfitRate s =
    (let configured = num (md_sameCycleMinProfitRate (meta s)) in
     if isFinite configured \<and> configured \<ge> Fin 0 then configured else Fin 0)"

definition isSameCycleProfitGapInsufficient :: "trading_signal \<Rightarrow> trading_signal \<Rightarrow> bool" where
  "isSameCycleProfitGapInsufficient buySignal sellSignal =
    (case (sg_price buySignal, sg_price sellSignal) of
       (Some b, Some s) \<Rightarrow>
         let minProfitRate = getSameCycleMinProfitRate sellSignal in
         if minProfitRate \<le> Fin 0 then s \<le> b else s + epsilon < b * (Fin 1 + minProfitRate)
     | _ \<Rightarrow> False)"

definition priced_sells :: "trading_signal list \<Rightarrow> trading_signal list" where
  "priced_sells ss = filter (\<lambda>s. sg_side s = SELL \<and> sg_price s \<noteq> None) ss"

definition blocking_sell :: "trading_signal list \<Rightarrow> trading_signal \<Rightarrow> trading_signal option" where
  "blocking_sell ss s =
    (if sg_side s = BUY \<and> sg_price s \<noteq> None then List.find (isSameCycleProfitGapInsufficient s) (priced_sells ss) else None)"

text \<open>The executable signals, the blocked buys, and the highest profit rate that blocked one.\<close>

definition preventSameCycleOppositeOrders :: "trading_signal list \<Rightarrow> trading_signal list \<times> trading_signal list \<times> jsnum" where
  "preventSameCycleOppositeOrders ss =
    (if priced_sells ss = [] then (ss, [], Fin 0)
     else (let blocked = filter (\<lambda>s. blocking_sell ss s \<noteq> None) ss;
               rates = map (\<lambda>s. getSameCycleMinProfitRate (the (blocking_sell ss s))) blocked
           in (filter (\<lambda>s. blocking_sell ss s = None) ss, blocked, if rates = [] then Fin 0 else foldr max_num rates NInf)))"

section \<open>Execution in turn\<close>

text \<open>The stable sort of V4's signals that puts the sells first.\<close>

definition sells_first :: "trading_signal list \<Rightarrow> trading_signal list" where
  "sells_first ss = filter (\<lambda>s. sg_side s = SELL) ss @ filter (\<lambda>s. sg_side s = BUY) ss"

definition submission_order :: "string \<Rightarrow> trading_signal list \<Rightarrow> trading_signal list" where
  "submission_order strategyName ss = (if strategyName = ''infinite-buy-v4'' then sells_first ss else ss)"

text \<open>The answers in order; an error ends the loop.\<close>

fun execute_all :: "(trading_signal \<Rightarrow> 'w \<Rightarrow> 'w \<times> (js_error + bool)) \<Rightarrow> trading_signal list \<Rightarrow> 'w \<Rightarrow> 'w \<times> (js_error + bool list)" where
  "execute_all execute [] w = (w, Inr [])"
| "execute_all execute (s # ss) w =
    (case execute s w of
       (w', Inl e) \<Rightarrow> (w', Inl e)
     | (w', Inr ok) \<Rightarrow>
         (case execute_all execute ss w' of
            (w'', Inl e) \<Rightarrow> (w'', Inl e)
          | (w'', Inr oks) \<Rightarrow> (w'', Inr (ok # oks))))"

section \<open>One stock\<close>

text \<open>An evaluation as the service reads it.\<close>

record evaluated =
  ev_signals :: "trading_signal list"
  ev_skipReasons :: "string list"
  ev_v4StateUpdate :: "(v4_mode \<times> v4_close list) option"

text \<open>The table of stocks, the world of the execution, and the two sets of stocks gathered on the way.\<close>

record 'w dispatch =
  dp_rows :: "stock_row list"
  dp_world :: 'w
  dp_eligible :: "string list"
  dp_skip :: "string list"

definition installment :: "string \<Rightarrow> bool" where
  "installment strategyName \<longleftrightarrow> strategyName \<in> {''infinite-buy'', ''daily-dca''}"

definition add_eligible :: "bool \<Rightarrow> string \<Rightarrow> 'w dispatch \<Rightarrow> 'w dispatch" where
  "add_eligible c i d = (if c then d\<lparr>dp_eligible := List.insert i (dp_eligible d)\<rparr> else d)"

definition map_rows :: "bool \<Rightarrow> (stock_row list \<Rightarrow> stock_row list) \<Rightarrow> 'w dispatch \<Rightarrow> 'w dispatch" where
  "map_rows c f d = (if c then d\<lparr>dp_rows := f (dp_rows d)\<rparr> else d)"

text \<open>The signals of a stock are executed, and what follows from the answers.\<close>

definition dispatch_signals :: "(trading_signal \<Rightarrow> 'w \<Rightarrow> 'w \<times> (js_error + bool)) \<Rightarrow> string \<Rightarrow> string \<Rightarrow> string \<Rightarrow>
    evaluated \<Rightarrow> 'w dispatch \<Rightarrow> 'w dispatch" where
  "dispatch_signals execute strategyName today i ev d =
    (let (executableSignals, blockedBuySignals, minProfitRate) = preventSameCycleOppositeOrders (ev_signals ev);
         allBuysBlocked = (blockedBuySignals \<noteq> [] \<and> \<not> list_ex (\<lambda>s. sg_side s = BUY) executableSignals);
         d1 = add_eligible (allBuysBlocked \<and> installment strategyName) i d;
         ordered = submission_order strategyName executableSignals;
         (w, answer) = execute_all execute ordered (dp_world d1);
         d2 = d1\<lparr>dp_world := w\<rparr>
     in case answer of
          Inl e \<Rightarrow> d2
        | Inr oks \<Rightarrow>
          let d3 = (if strategyName = ''infinite-buy'' \<and> list_ex (\<lambda>s. phase s = ''take-profit-2'') (ev_signals ev)
                then d2\<lparr>dp_skip := List.insert i (dp_skip d2)\<rparr> else d2);
              d4 = map_rows (installment strategyName \<and> isTerminalQuotaExhaustedSkip (ev_skipReasons ev)) (clearAccumulatedQuota i) d3;
              buyOutcomes = map snd (filter (\<lambda>(s, ok). sg_side s = BUY) (zip ordered oks))
          in if installment strategyName \<and> buyOutcomes \<noteq> []
             then (if list_ex id buyOutcomes then map_rows True (resetAccumulatedQuota today i) d4 else add_eligible True i d4)
             else d4)"

definition dispatch_stock :: "(trading_signal \<Rightarrow> 'w \<Rightarrow> 'w \<times> (js_error + bool)) \<Rightarrow> string \<Rightarrow> string \<Rightarrow>
    stored_params strategy_context \<Rightarrow> js_error + evaluated \<Rightarrow> 'w dispatch \<Rightarrow> 'w dispatch" where
  "dispatch_stock execute strategyName today ctx answer d =
    (case answer of Inl e \<Rightarrow> d
     | Inr ev \<Rightarrow>
       let i = ws_id (watchStock ctx);
           d1 = (case ev_v4StateUpdate ev of
               Some (md, recent) \<Rightarrow> map_rows (strategyName = ''infinite-buy-v4'') (persistInfiniteBuyV4State i md recent) d
             | None \<Rightarrow> d);
           d2 = add_eligible (isQuotaCarryEligible (ev_skipReasons ev)) i d1
       in if ev_signals ev = []
          then map_rows (installment strategyName \<and> isTerminalQuotaExhaustedSkip (ev_skipReasons ev)) (clearAccumulatedQuota i) d2
          else dispatch_signals execute strategyName today i ev d2)"

text \<open>All stocks of one strategy, each evaluated when its turn comes, then the quotas left over.\<close>

definition executePerStockStrategy :: "bool \<Rightarrow> (stored_params strategy_context \<Rightarrow> js_error + evaluated) \<Rightarrow>
    (stored_params strategy_context \<Rightarrow> trading_signal \<Rightarrow> 'w \<Rightarrow> 'w \<times> (js_error + bool)) \<Rightarrow> string \<Rightarrow> string \<Rightarrow>
    stored_params strategy_context list \<Rightarrow> stock_row list \<times> 'w \<Rightarrow> stock_row list \<times> 'w" where
  "executePerStockStrategy tradingEnabled evaluate execute strategyName today ctxs st =
    (if \<not> tradingEnabled then st
     else let d = foldl (\<lambda>d ctx. dispatch_stock (execute ctx) strategyName today ctx (evaluate ctx) d)
            \<lparr>dp_rows = fst st, dp_world = snd st, dp_eligible = [], dp_skip = []\<rparr> ctxs
          in (if installment strategyName
              then accumulateUnusedQuotas strategyName today ctxs (dp_eligible d) (dp_skip d) (dp_rows d) else dp_rows d, dp_world d))"

section \<open>The order service as the execution\<close>

text \<open>What an automatic order meets between its segments: nothing else runs in between.\<close>

record meeting =
  me_id :: string
  me_marked :: bool
  me_refreshed :: bool
  me_reply :: "nat \<Rightarrow> db_reply"
  me_answer :: "string + order_result"

definition run_order :: "exec_env \<Rightarrow> meeting \<Rightarrow> broker \<Rightarrow> string \<Rightarrow> trading_signal \<Rightarrow> order_db \<Rightarrow> order_db \<times> (js_error + bool)" where
  "run_order env m b strategyName s db =
    (case exec_admit env (me_id m) id (Some b) s strategyName db of
       Inl e \<Rightarrow> (db, Inl e)
     | Inr (db1, None) \<Rightarrow> (db1, Inr False)
     | Inr (db1, Some (r, c)) \<Rightarrow>
       (case exec_prepare env c (me_marked m) (me_refreshed m) of
          CancellingPre message \<Rightarrow> (cancelPreSubmit (me_id m) message db1, Inr False)
        | _ \<Rightarrow>
          (case exec_claim (me_id m) (env_now env) db1 of
             (db2, Claimed t) \<Rightarrow>
               (case exec_submit env c t of
                  Aborting t' message \<Rightarrow> (exec_abort (me_id m) t' message db2, Inr False)
                | _ \<Rightarrow> (case exec_record (me_reply m) (me_id m) (me_answer m) db2 of (db3, ok) \<Rightarrow> (db3, Inr ok)))
           | (db2, _) \<Rightarrow> (db2, Inr False))))"

text \<open>An execution that meets the given things, one order after the other.\<close>

definition run_orders :: "exec_env \<Rightarrow> broker \<Rightarrow> string \<Rightarrow> trading_signal \<Rightarrow> order_db \<times> meeting list \<Rightarrow>
    (order_db \<times> meeting list) \<times> (js_error + bool)" where
  "run_orders env b strategyName s w =
    (case snd w of [] \<Rightarrow> (w, Inr False)
     | m # ms \<Rightarrow> (case run_order env m b strategyName s (fst w) of (db, r) \<Rightarrow> ((db, ms), r)))"

section \<open>No crossing pair\<close>

lemma prevent_parts:
  assumes "preventSameCycleOppositeOrders ss = (xs, bs, r)"
  shows "xs = filter (\<lambda>s. blocking_sell ss s = None) ss" "bs = filter (\<lambda>s. blocking_sell ss s \<noteq> None) ss"
proof -
  have n: "priced_sells ss = [] \<Longrightarrow> blocking_sell ss s = None" for s by (simp add: blocking_sell_def)
  show "xs = filter (\<lambda>s. blocking_sell ss s = None) ss" "bs = filter (\<lambda>s. blocking_sell ss s \<noteq> None) ss"
    using assms n by (auto simp: preventSameCycleOppositeOrders_def Let_def split: if_splits)
qed


definition leg :: "side \<Rightarrow> rat \<Rightarrow> trading_signal" where
  "leg sd p = example_signal\<lparr>sg_side := sd, sg_price := Some (Fin p)\<rparr>"


section \<open>One accepted order per side\<close>

definition held_key :: "order_key \<Rightarrow> order_db \<Rightarrow> bool" where
  "held_key k db \<longleftrightarrow> unresolved_of k (db_orders db) \<noteq> []"

definition others_stay :: "string \<Rightarrow> order_db \<Rightarrow> order_db \<Rightarrow> bool" where
  "others_stay i db db' \<longleftrightarrow> (\<forall>r \<in> set (db_orders db). tr_id r \<noteq> i \<longrightarrow> r \<in> set (db_orders db')) \<and> set (ids db') \<subseteq> insert i (set (ids db))"

lemma others_stay_trans: "others_stay i a b \<Longrightarrow> others_stay i b c \<Longrightarrow> others_stay i a c"
  by (auto simp: others_stay_def)

lemma others_stay_update:
  "(\<And>r. P r \<Longrightarrow> tr_id r = i) \<Longrightarrow> (\<And>r. tr_id (f r) = tr_id r) \<Longrightarrow> others_stay i db (fst (updateMany P f db))"
  by (auto simp: others_stay_def ids_def change_where_def image_iff split: if_splits)

lemma others_stay_simps [simp]: "others_stay i db db" "others_stay i db (audit a db') = others_stay i db db'"
  by (auto simp: others_stay_def ids_def)

lemma others_stay_record: "others_stay i db (fst (exec_record reply i answer db))"
proof -
  have u: "others_stay i db (fst (updateMany (started i) f db))" if "\<And>r. tr_id (f r) = tr_id r" for f db
    using that by (intro others_stay_update) (auto simp: started_def)
  have m: "others_stay i db (fst (markSubmissionUnknown i msg db))" for msg db
    using u by (simp add: markSubmissionUnknown_def Let_def set_unknown_def)
  have p: "others_stay i db (fst (persist_loop n reply i res db))" for n res db
  proof (induction n arbitrary: db)
    case (Suc n)
    have "others_stay i db (fst (updateMany (started i) (set_pending res) db))" by (intro u) (simp add: set_pending_def)
    then show ?case using Suc others_stay_trans by (auto simp: Let_def split: db_reply.splits)
  qed simp
  show ?thesis using u m p by (auto simp: exec_record_def persistAccepted_def set_failed_def split: sum.splits)
qed

lemma held_key_other:
  assumes "others_stay i db db'" "i \<notin> set (ids db)" "held_key k db"
  shows "held_key k db'"
  using assms by (fastforce simp: others_stay_def held_key_def unresolved_of_def ids_def filter_empty_conv)

text \<open>One order: nothing of another id changes, and an accepted order is unresolved afterwards.\<close>

lemma run_order_facts:
  assumes "run_order env m b n s db = (db', ans)" "normalizeKey (signal_key b s) = Inr k" "me_id m \<notin> set (ids db)"
  shows "others_stay (me_id m) db db' \<and> (ans = Inr True \<longrightarrow> \<not> held_key k db \<and> held_key k db')"
proof (cases "exec_admit env (me_id m) id (Some b) s n db")
  case (Inl e)
  then show ?thesis using assms by (auto simp: run_order_def)
next
  case (Inr x)
  then obtain db1 res where a: "exec_admit env (me_id m) id (Some b) s n db = Inr (db1, res)" by (cases x) auto
  let ?i = "me_id m" and ?t = "env_now env"
  show ?thesis
  proof (cases res)
    case None
    then have "db1 = db" using a by (auto simp: exec_admit_def admit_order_eq split: if_splits option.splits sum.splits)
    then show ?thesis using assms a None by (auto simp: run_order_def)
  next
    case (Some rc)
    obtain r c where rc: "rc = (r, c)" by force
    have r: "db1 = create r db" "r = new_order ?i ?t id s n c k" "unresolved_of k (db_orders db) = []"
      using a Some rc assms(2)
      by (auto simp: exec_admit_def admit_order_eq findFirst_None unresolved_of_def filter_empty_conv split: if_splits option.splits sum.splits)
    have r1: "tr_id r = ?i" "key_of r = k" "unsubmitted ?i r" by (simp_all add: r(2) new_order_key) (simp_all add: new_order_def unsubmitted_def)
    have s1: "others_stay ?i db db1" using r1 by (auto simp: r(1) others_stay_def ids_def)
    have s2: "others_stay ?i db1 (cancelPreSubmit ?i msg db1)" for msg
      unfolding cancelPreSubmit_def by (rule others_stay_update) (auto simp: unsubmitted_def set_cancelled_def)
    have cl: "exec_claim ?i ?t db1 = (fst (updateMany (unsubmitted ?i) (set_started ?t) db1), Claimed ?t)"
      using r1(3) by (auto simp: exec_claim_def Let_def updateMany_count r(1))
    let ?db2 = "fst (updateMany (unsubmitted ?i) (set_started ?t) db1)"
    have s3: "others_stay ?i db1 ?db2" by (rule others_stay_update) (auto simp: unsubmitted_def set_started_def)
    have s4: "others_stay ?i ?db2 (exec_abort ?i t msg ?db2)" for t msg
      unfolding exec_abort_def by (rule others_stay_update) (auto simp: started_at_def set_aborted_def)
    note s5 = others_stay_record [of ?i ?db2 "me_reply m" "me_answer m"]
    have st: "set_started ?t r \<in> set (db_orders ?db2)" "started ?i (set_started ?t r)"
      using r1 by (auto simp: r(1) change_where_def unsubmitted_def started_def set_started_def)
    have acc: "held_key k (fst (exec_record (me_reply m) ?i (me_answer m) ?db2))"
      if ok: "snd (exec_record (me_reply m) ?i (me_answer m) ?db2)"
    proof -
      obtain res where res: "me_answer m = Inr res" "exec_record (me_reply m) ?i (me_answer m) ?db2 = (fst (persistAccepted (me_reply m) ?i res ?db2), True)"
        using ok by (cases "me_answer m") (auto simp: exec_record_def split: if_splits)
      let ?f = "change_where (started ?i) (if me_reply m 1 = DbFailed \<and> me_reply m 2 = DbFailed \<and> me_reply m 3 = DbFailed then id else set_pending res)"
      have "?f (set_started ?t r) \<in> set (db_orders (fst (persistAccepted (me_reply m) ?i res ?db2)))"
        using st(1) unfolding persist_orders set_map by (rule imageI)
      moreover have "key_of (?f (set_started ?t r)) = k" "is_unresolved (?f (set_started ?t r))"
        using r1 by (auto simp: change_where_def is_unresolved_def set_pending_def key_of_def set_started_def unsubmitted_def)
      ultimately show ?thesis unfolding held_key_def unresolved_of_def res(2) by (auto simp: filter_empty_conv)
    qed
    have nk: "\<not> held_key k db" using r(3) by (simp add: held_key_def)
    have t2: "others_stay ?i db ?db2" using s1 s3 by (rule others_stay_trans)
    show ?thesis
    proof (cases "exec_prepare env c (me_marked m) (me_refreshed m)")
      case (CancellingPre msg)
      then show ?thesis using assms(1) a Some rc others_stay_trans [OF s1 s2 [of msg]] by (auto simp: run_order_def)
    next
      case Claiming
      then have run: "run_order env m b n s db = (case exec_submit env c ?t of
          Aborting t' message \<Rightarrow> (exec_abort ?i t' message ?db2, Inr False)
        | _ \<Rightarrow> (case exec_record (me_reply m) ?i (me_answer m) ?db2 of (db3, ok) \<Rightarrow> (db3, Inr ok)))"
        using a Some rc cl by (simp add: run_order_def)
      show ?thesis
      proof (cases "exec_submit env c ?t")
        case (Aborting t' msg)
        then show ?thesis using assms(1) run others_stay_trans [OF t2 s4 [of t' msg]] by auto
      next
        case Submitted
        obtain db3 ok where e: "exec_record (me_reply m) ?i (me_answer m) ?db2 = (db3, ok)" by force
        then show ?thesis using assms(1) run Submitted others_stay_trans [OF t2 s5] acc nk by auto
      qed (auto simp: exec_submit_def split: if_splits)
    qed (auto simp: exec_prepare_def split: if_splits)
  qed
qed

text \<open>The answers of a run of orders, and how many of a side were accepted.\<close>

definition accepted :: "trading_signal list \<Rightarrow> bool list \<Rightarrow> side \<Rightarrow> nat" where
  "accepted ss oks sd = length (filter (\<lambda>(s, ok). ok \<and> sg_side s = sd) (zip ss oks))"

lemma execute_all_Cons:
  "execute_all ex (s # ss) w = (w'', Inr oks) \<longleftrightarrow>
    (\<exists>w' ok os. ex s w = (w', Inr ok) \<and> execute_all ex ss w' = (w'', Inr os) \<and> oks = ok # os)"
  by (auto split: prod.splits sum.splits)


text \<open>With a configured broker and well-formed codes no execution throws.\<close>

lemma run_orders_answers:
  assumes "env_context env b = Inr c" "normalizeKey (signal_key b s) = Inr k"
  shows "\<exists>w ok. run_orders env b strategyName s st = (w, Inr ok)"
proof (cases "snd st")
  case (Cons m ms)
  have "\<exists>db r. exec_admit env (me_id m) id (Some b) s strategyName (fst st) = Inr (db, r)"
    using assms by (auto simp: exec_admit_def admit_order_eq split: option.split)
  then obtain db r where "exec_admit env (me_id m) id (Some b) s strategyName (fst st) = Inr (db, r)" by blast
  then have "\<not> isl (snd (run_order env m b strategyName s (fst st)))"
    by (cases r) (simp_all add: run_order_def case_prod_beta split: exec_pc.split)
  then show ?thesis using Cons by (cases "snd (run_order env m b strategyName s (fst st))") (auto simp: run_orders_def case_prod_beta)
qed (auto simp: run_orders_def intro: exI [of _ False])

lemma execute_all_answers:
  assumes "env_context env b = Inr c" "list_all (\<lambda>s. \<exists>k. normalizeKey (signal_key b s) = Inr k) ss"
  shows "\<exists>w oks. execute_all (run_orders env b strategyName) ss st = (w, Inr oks)"
  using assms(2)
proof (induction ss arbitrary: st)
  case (Cons s ss)
  obtain k where "normalizeKey (signal_key b s) = Inr k" using Cons.prems by auto
  then obtain w ok where "run_orders env b strategyName s st = (w, Inr ok)" using run_orders_answers [OF assms(1)] by blast
  moreover obtain w' oks where "execute_all (run_orders env b strategyName) ss w = (w', Inr oks)" using Cons by fastforce
  ultimately show ?case by auto
qed simp

definition accepting :: "string \<Rightarrow> meeting" where
  "accepting i = \<lparr>me_id = i, me_marked = True, me_refreshed = True, me_reply = (\<lambda>_. DbDone), me_answer = Inr
     \<lparr>res_outcome = ACCEPTED, res_orderNo = Some i, res_brokerOrderDate = Some ''20260701'', res_orderTime = Some ''230000'',
      res_message = ''ok''\<rparr>\<rparr>"


end
