(* ===== verification/InfiniteBuy.thy ===== *)
theory InfiniteBuy imports StrategyState begin

text \<open>
  The installment strategy with two buys a day (\<open>src/trading/strategy/infinite-buy.strategy.ts\<close>), its target
  table and carried quota (\<open>infinite-buy-target-table.ts\<close>, \<open>infinite-buy-quota.util.ts\<close>) and the price ticks
  (\<open>src/common/utils/tick-size.util.ts\<close>). \<open>today\<close> is the Korean date. Of the metadata and the details the
  keys that another service reads are kept; a reason is a constructor with the numbers its text shows.
\<close>

section \<open>Parameters\<close>

datatype buy2_dip_mode = AtrLight | AtrStrong | Fixed3Pct | Fixed5Pct

datatype rsi_policy = PolicyNone | LegacyHard | ContinuousPolicy | HardStop70 | HardStop75 | HardStop80

record target_row =
  maxT :: jsnum
  primary :: jsnum
  bonus :: jsnum

record ib_params =
  ip_accumulatedQuota :: "jsnum option"
  ip_secondaryExitPlan :: "exit_plan option"
  ip_buy2DipMode :: "buy2_dip_mode option"
  ip_targetTableOverride :: "target_row list option"
  ip_mddLiquidateStockLossThreshold :: "jsnum option"
  ip_rsiPolicy :: "rsi_policy option"
  ip_maxDailyQuotaMultiple :: "jsnum option"
  ip_sameCycleMinProfitRate :: "jsnum option"

definition no_ib_params :: ib_params where
  "no_ib_params = \<lparr>ip_accumulatedQuota = None, ip_secondaryExitPlan = None, ip_buy2DipMode = None,
     ip_targetTableOverride = None, ip_mddLiquidateStockLossThreshold = None, ip_rsiPolicy = None,
     ip_maxDailyQuotaMultiple = None, ip_sameCycleMinProfitRate = None\<rparr>"

section \<open>Ticks, targets and quota\<close>

definition tickSize :: "bool \<Rightarrow> jsnum \<Rightarrow> jsnum" where
  "tickSize isOverseas p =
    (if isOverseas then lit (1 / 100)
     else if p < Fin 2000 then Fin 1
     else if p < Fin 5000 then Fin 5
     else if p < Fin 20000 then Fin 10
     else if p < Fin 50000 then Fin 50
     else if p < Fin 200000 then Fin 100
     else if p < Fin 500000 then Fin 500
     else Fin 1000)"

definition target_row_of :: "jsnum \<Rightarrow> nat \<Rightarrow> nat \<Rightarrow> target_row" where
  "target_row_of t p b = \<lparr>maxT = t, primary = lit (of_nat p / 1000), bonus = lit (of_nat b / 1000)\<rparr>"

definition INFINITE_BUY_TARGET_TABLE :: "target_row list" where
  "INFINITE_BUY_TARGET_TABLE =
    [target_row_of (Fin 2) 170 30, target_row_of (Fin 4) 150 30, target_row_of (Fin 6) 135 26, target_row_of (Fin 8) 120 26,
     target_row_of (Fin 10) 110 22, target_row_of (Fin 12) 100 22, target_row_of (Fin 14) 95 18, target_row_of (Fin 16) 90 18,
     target_row_of (Fin 18) 85 18, target_row_of (Fin 20) 80 18, target_row_of (Fin 24) 77 14, target_row_of (Fin 28) 74 14,
     target_row_of (Fin 32) 72 11, target_row_of (Fin 36) 70 11, target_row_of (Fin 40) 68 11, target_row_of PInf 50 11]"

fun lookup_from :: "jsnum \<Rightarrow> target_row \<Rightarrow> target_row list \<Rightarrow> target_row" where
  "lookup_from T d [] = d"
| "lookup_from T d (r # rs) = (if T < maxT r then r else lookup_from T d rs)"

definition lookup :: "jsnum \<Rightarrow> target_row list \<Rightarrow> target_row" where
  "lookup T table = lookup_from T (last table) table"

definition target_table :: "target_row list option \<Rightarrow> target_row list" where
  "target_table override = (case override of Some (r # rs) \<Rightarrow> r # rs | _ \<Rightarrow> INFINITE_BUY_TARGET_TABLE)"

definition lookupTargetProfitRate :: "jsnum \<Rightarrow> target_row list option \<Rightarrow> jsnum" where
  "lookupTargetProfitRate T override = primary (lookup T (target_table override))"

definition lookupSecondaryBonusRate :: "jsnum \<Rightarrow> target_row list option \<Rightarrow> jsnum" where
  "lookupSecondaryBonusRate T override = bonus (lookup T (target_table override))"

text \<open>The carried amount, its sum with the base, and the sum within the remaining quota.\<close>

definition applyAccumulatedQuota :: "jsnum \<Rightarrow> ib_params \<Rightarrow> jsnum \<Rightarrow> jsnum \<times> jsnum \<times> jsnum" where
  "applyAccumulatedQuota baseQuota params remainingQuota =
    (let carriedIn = max_num (Fin 0) (or_opt (ip_accumulatedQuota params) (Fin 0));
         combinedQuota = baseQuota + carriedIn
     in (carriedIn, combinedQuota, max_num (Fin 0) (min_num combinedQuota remainingQuota)))"

definition clamp :: "jsnum \<Rightarrow> jsnum \<Rightarrow> jsnum \<Rightarrow> jsnum" where
  "clamp value lo hi = max_num lo (min_num hi value)"

definition getBuy2DipRate :: "stock_indicators \<Rightarrow> buy2_dip_mode option \<Rightarrow> jsnum" where
  "getBuy2DipRate ind mode =
    (let atr = (case atrPercent ind of Some v \<Rightarrow> (if isFinite v \<and> v > Fin 0 then Some v else None) | None \<Rightarrow> None) in
     case coalesce mode AtrStrong of
       AtrLight \<Rightarrow> (case atr of Some v \<Rightarrow> clamp (v / Fin 100 * lit (1 / 2)) (lit (5 / 1000)) (lit (15 / 1000)) | None \<Rightarrow> lit (1 / 100))
     | AtrStrong \<Rightarrow> (case atr of Some v \<Rightarrow> clamp (v / Fin 100 * Fin 1) (lit (15 / 1000)) (lit (5 / 100)) | None \<Rightarrow> lit (25 / 1000))
     | Fixed3Pct \<Rightarrow> lit (3 / 100)
     | Fixed5Pct \<Rightarrow> lit (5 / 100))"

definition hard_stop :: "rsi_policy \<Rightarrow> jsnum option" where
  "hard_stop policy = (case policy of HardStop70 \<Rightarrow> Some (Fin 70) | HardStop75 \<Rightarrow> Some (Fin 75) | HardStop80 \<Rightarrow> Some (Fin 80) | _ \<Rightarrow> None)"

definition getRsiMultiplier :: "jsnum option \<Rightarrow> rsi_policy option \<Rightarrow> jsnum" where
  "getRsiMultiplier rsi policy =
    (let pol = coalesce policy HardStop70 in
     if pol = PolicyNone then Fin 1
     else case rsi of None \<Rightarrow> Fin 1 | Some r \<Rightarrow>
     if \<not> isFinite r then Fin 1
     else if pol = LegacyHard then
       (if r < Fin 30 then lit (125 / 100) else if r \<ge> Fin 80 then lit (4 / 10) else if r \<ge> Fin 70 then lit (6 / 10)
        else if r \<ge> Fin 60 then lit (85 / 100) else Fin 1)
     else case hard_stop pol of
       Some threshold \<Rightarrow> (if r < Fin 30 then lit (125 / 100) else if r \<ge> threshold then Fin 0 else Fin 1)
     | None \<Rightarrow>
        (if r < Fin 30 then lit (125 / 100) else if r < Fin 60 then Fin 1 else if r \<ge> Fin 80 then lit (4 / 10)
         else clamp (Fin 1 - (r - Fin 60) * (lit (6 / 10) / Fin 20)) (lit (4 / 10)) (Fin 1)))"

definition getBuy2OnlyThreshold :: "rsi_policy option \<Rightarrow> jsnum option" where
  "getBuy2OnlyThreshold policy = hard_stop (coalesce policy HardStop70)"

section \<open>The plan for a second target\<close>

definition getSecondaryExitPlan :: "ib_params \<Rightarrow> exit_plan option" where
  "getSecondaryExitPlan params =
    (case ip_secondaryExitPlan params of None \<Rightarrow> None
     | Some plan \<Rightarrow>
       if xp_firstTargetDate plan = [] \<or> \<not> isFinite (xp_secondTargetPrice plan) \<or> \<not> isFinite (xp_secondTargetRate plan) \<or>
          \<not> isFinite (xp_secondTargetQuantity plan) then None
       else Some plan)"

definition isActiveSecondaryExitPlan :: "exit_plan option \<Rightarrow> string \<Rightarrow> bool" where
  "isActiveSecondaryExitPlan plan today =
    (case plan of None \<Rightarrow> False
     | Some x \<Rightarrow>
       if xp_secondTargetQuantity x \<le> Fin 0 then False
       else if text_le today (xp_firstTargetDate x) then False
       else xp_secondTargetAttemptedDate x \<in> {None, Some []} \<or> xp_secondTargetAttemptedDate x = Some today)"

section \<open>The evaluation\<close>

datatype ib_reason =
    IbRiskLiquidation string jsnum jsnum
  | IbStopLoss jsnum jsnum
  | IbTakeProfit2 jsnum jsnum jsnum jsnum
  | IbBuy1 jsnum jsnum jsnum
  | IbBuy2 jsnum jsnum jsnum jsnum
  | IbTakeProfit1 jsnum jsnum jsnum jsnum
  | IbTakeProfit jsnum jsnum jsnum jsnum

datatype ib_skip =
    IbNoQuota
  | IbInvalidPrice jsnum
  | IbAlreadyExecuted
  | IbRiskBlocked string
  | IbInvestCaution
  | IbMarketWarning "string option"
  | IbNoCash jsnum
  | IbRsiStop "jsnum option"
  | IbCycleNearlyDone jsnum jsnum
  | IbBelowOneShare jsnum jsnum
  | IbCycleDoneWaiting jsnum jsnum
  | IbCycleDoneHolding jsnum jsnum

record ib_details =
  id_T :: jsnum
  id_adjustedQuota :: jsnum
  id_cycleCompleted :: bool
  id_buy2OnlyMode :: bool
  id_terminalQuotaReached :: bool

type_synonym ib_signal = "(ib_reason, signal_meta) signal"
type_synonym ib_evaluation = "(ib_reason, signal_meta, ib_skip, ib_details) evaluation"
type_synonym ib_ctx = "ib_params strategy_context"

definition ib_params_of :: "ib_ctx \<Rightarrow> ib_params" where
  "ib_params_of ctx = coalesce (ws_strategyParams (watchStock ctx)) no_ib_params"

definition ib_sameCycleMinProfitRate :: "ib_params \<Rightarrow> jsnum" where
  "ib_sameCycleMinProfitRate params =
    (let configured = coalesce (ip_sameCycleMinProfitRate params) NaN in
     if isFinite configured \<and> configured \<ge> Fin 0 then configured else lit (6 / 1000))"

definition ceilPriceToTick :: "market \<Rightarrow> jsnum \<Rightarrow> jsnum" where
  "ceilPriceToTick m p =
    (let tick = tickSize (m = OVERSEAS) p in roundPrice m (ceil_num (p / tick - lit (1 / 10 ^ 9)) * tick))"

text \<open>The price of a take-profit order, given the prices of the buys beside it.\<close>

definition takeProfitOrderPrice :: "market \<Rightarrow> jsnum \<Rightarrow> jsnum \<Rightarrow> jsnum \<Rightarrow> jsnum list \<Rightarrow> jsnum" where
  "takeProfitOrderPrice m curPrice rate targetPrice sameCycleBuyPrices =
    (let targetRounded = roundPrice m targetPrice; currentRounded = roundPrice m curPrice;
         tick = tickSize (m = OVERSEAS) currentRounded
     in if targetRounded \<ge> currentRounded + tick then targetRounded
        else if sameCycleBuyPrices \<noteq> []
        then ceilPriceToTick m (foldl max_num currentRounded sameCycleBuyPrices * (Fin 1 + rate))
        else roundPrice m (currentRounded - tick))"

text \<open>What the evaluation computes of the position.\<close>

record ib_base =
  b_quota :: jsnum
  b_perCycleQuota :: jsnum
  b_remainingQuota :: jsnum
  b_T :: jsnum
  b_avgPrice :: jsnum
  b_holdQty :: jsnum

definition ib_base_of :: "ib_ctx \<Rightarrow> ib_base" where
  "ib_base_of ctx =
    (let quota = coalesce (ws_quota (watchStock ctx)) NaN;
         totalInvested = or_opt (map_option pos_totalInvested (position ctx)) (Fin 0);
         perCycleQuota = quota / ws_maxCycles (watchStock ctx)
     in \<lparr>b_quota = quota, b_perCycleQuota = perCycleQuota, b_remainingQuota = max_num (Fin 0) (quota - totalInvested),
         b_T = (if totalInvested > Fin 0 then totalInvested / perCycleQuota else Fin 0),
         b_avgPrice = or_opt (map_option pos_avgPrice (position ctx)) (px_currentPrice (price ctx)),
         b_holdQty = or_opt (map_option pos_quantity (position ctx)) (Fin 0)\<rparr>)"

definition ib_riskReason :: "ib_ctx \<Rightarrow> string" where
  "ib_riskReason ctx = or_str (joined_reasons ctx) ''MDD''"

definition ib_cycle_done :: "ib_ctx \<Rightarrow> bool" where
  "ib_cycle_done ctx \<longleftrightarrow> b_T (ib_base_of ctx) \<ge> ws_maxCycles (watchStock ctx) \<or> b_remainingQuota (ib_base_of ctx) \<le> Fin 0"

text \<open>The amount of the day before the cash limit, and within it.\<close>

definition ib_preCashQuota :: "ib_ctx \<Rightarrow> jsnum" where
  "ib_preCashQuota ctx =
    (let params = ib_params_of ctx; b = ib_base_of ctx; ind = stockIndicators ctx;
         (carriedIn, combined, capped) = applyAccumulatedQuota (b_perCycleQuota b) params (b_remainingQuota b);
         q0 = (if ib_cycle_done ctx then Fin 0 else capped);
         q1 = (case rsi14 ind of None \<Rightarrow> q0
            | Some r \<Rightarrow> let k = getRsiMultiplier (Some r) (ip_rsiPolicy params) in if js_eq k (Fin 1) then q0 else q0 * k);
         q2 = (if coalesce (volatility30d ind) (Fin 0) \<ge> Fin 45 then q1 * lit (85 / 100) else q1);
         multiple = coalesce (ip_maxDailyQuotaMultiple params) NaN;
         dailyCap = (if multiple > Fin 0 then multiple else Fin 3) * b_perCycleQuota b
     in if q2 > dailyCap then dailyCap else q2)"

definition ib_adjustedQuota :: "ib_ctx \<Rightarrow> jsnum" where
  "ib_adjustedQuota ctx = min_num (ib_preCashQuota ctx) (buyableAmount ctx)"

definition ib_buy2Only :: "ib_ctx \<Rightarrow> bool" where
  "ib_buy2Only ctx = (case (getBuy2OnlyThreshold (ip_rsiPolicy (ib_params_of ctx)), rsi14 (stockIndicators ctx)) of
     (Some threshold, Some r) \<Rightarrow> r \<ge> threshold | _ \<Rightarrow> False)"

text \<open>The quantities of the two buys: split, in one when the split buys nothing, and the rest to the one side.\<close>

record ib_buys =
  b1_price :: jsnum
  b2_price :: jsnum
  b1_qty :: jsnum
  b2_qty :: jsnum
  b_dip :: jsnum

definition ib_split :: "bool \<Rightarrow> jsnum \<Rightarrow> jsnum \<Rightarrow> jsnum \<Rightarrow> jsnum \<times> jsnum" where
  "ib_split buy2Only quota p1 p2 =
    (let q1 = (if buy2Only then Fin 0 else floor_num (quota * lit (7 / 10) / p1));
         q2 = floor_num (quota * lit (3 / 10) / p2)
     in if js_eq q1 (Fin 0) \<and> js_eq q2 (Fin 0)
        then (if buy2Only then (q1, floor_num (quota / p2)) else (floor_num (quota / p1), q2))
        else (q1, q2))"

definition ib_reallocate :: "jsnum \<Rightarrow> jsnum \<Rightarrow> jsnum \<Rightarrow> jsnum \<times> jsnum \<Rightarrow> jsnum \<times> jsnum" where
  "ib_reallocate quota p1 p2 q =
    (case q of (q1, q2) \<Rightarrow>
      let remainingBudget = max_num (Fin 0) (quota - (q1 * p1 + q2 * p2)) in
      if q1 > Fin 0 \<and> js_eq q2 (Fin 0) \<and> p1 > Fin 0
      then (let extra = floor_num (remainingBudget / p1) in (if extra > Fin 0 then q1 + extra else q1, q2))
      else if js_eq q1 (Fin 0) \<and> q2 > Fin 0 \<and> p2 > Fin 0
      then (let extra = floor_num (remainingBudget / p2) in (q1, if extra > Fin 0 then q2 + extra else q2))
      else (q1, q2))"

definition ib_buys_of :: "ib_ctx \<Rightarrow> ib_buys" where
  "ib_buys_of ctx =
    (let m = ws_market (watchStock ctx); cur = px_currentPrice (price ctx); quota = ib_adjustedQuota ctx;
         dip = getBuy2DipRate (stockIndicators ctx) (ip_buy2DipMode (ib_params_of ctx));
         p1 = roundPrice m cur; p2 = roundPrice m (cur * (Fin 1 - dip));
         q = ib_reallocate quota p1 p2 (ib_split (ib_buy2Only ctx) quota p1 p2)
     in \<lparr>b1_price = p1, b2_price = p2, b1_qty = fst q, b2_qty = snd q, b_dip = dip\<rparr>)"

definition ib_buyAllowed :: "ib_ctx \<Rightarrow> bool" where
  "ib_buyAllowed ctx \<longleftrightarrow> ib_adjustedQuota ctx > Fin 0 \<and> \<not> flag (map_option rs_buyBlocked (riskState ctx))"

definition ib_buy_signals :: "ib_ctx \<Rightarrow> ib_signal list" where
  "ib_buy_signals ctx =
    (if \<not> ib_buyAllowed ctx then []
     else let b = ib_buys_of ctx; T = b_T (ib_base_of ctx) in
       (if b1_qty b > Fin 0 \<and> b1_price b > Fin 0
        then [order ctx BUY (b1_qty b) (Some (b1_price b)) (IbBuy1 T (b1_qty b) (b1_price b)) (Some ''00'') None] else []) @
       (if b2_qty b > Fin 0 \<and> b2_price b > Fin 0
        then [order ctx BUY (b2_qty b) (Some (b2_price b)) (IbBuy2 T (b_dip b * Fin 100) (b2_qty b) (b2_price b)) (Some ''00'') None]
        else []))"

text \<open>The reasons not to buy, in the order they are found.\<close>

definition ib_terminal :: "ib_ctx \<Rightarrow> bool" where
  "ib_terminal ctx \<longleftrightarrow> ib_buyAllowed ctx \<and> ib_buy_signals ctx = [] \<and>
     (let b = ib_buys_of ctx; reference = min_num (b1_price b) (b2_price b); remaining = b_remainingQuota (ib_base_of ctx)
      in remaining > Fin 0 \<and> remaining < reference)"

definition ib_buy_skips :: "ib_ctx \<Rightarrow> ib_skip list" where
  "ib_buy_skips ctx =
    (let blocked = flag (map_option rs_buyBlocked (riskState ctx)); m = ws_market (watchStock ctx);
         free = (\<not> ib_buyAllowed ctx \<and> \<not> ib_cycle_done ctx \<and> \<not> blocked)
     in (if free \<and> buyableAmount ctx \<le> Fin 0 then [IbNoCash (buyableAmount ctx)]
         else if free \<and> buyableAmount ctx > Fin 0 then [IbRsiStop (rsi14 (stockIndicators ctx))] else []) @
        (if ib_buyAllowed ctx \<and> ib_buy_signals ctx = []
         then (let b = ib_buys_of ctx; reference = min_num (b1_price b) (b2_price b); remaining = b_remainingQuota (ib_base_of ctx)
           in if remaining > Fin 0 \<and> remaining < reference then [IbCycleNearlyDone remaining (roundPrice m reference)]
              else [IbBelowOneShare (ib_adjustedQuota ctx) (roundPrice m reference)])
         else []))"

definition first_sell_qty :: "jsnum \<Rightarrow> jsnum" where
  "first_sell_qty holdQty = (if holdQty \<ge> Fin 2 then ceil_num (holdQty / Fin 2) else holdQty)"

text \<open>The first target, beside the day's buys.\<close>

definition ib_sell_signals :: "ib_ctx \<Rightarrow> ib_signal list" where
  "ib_sell_signals ctx =
    (let b = ib_base_of ctx; holdQty = b_holdQty b; T = b_T b; avgPrice = b_avgPrice b; params = ib_params_of ctx;
         m = ws_market (watchStock ctx); cur = px_currentPrice (price ctx) in
     if \<not> holdQty > Fin 0 then []
     else
     let buyPrices = map (\<lambda>s. coalesce (sg_price s) NaN) (ib_buy_signals ctx);
         rate = ib_sameCycleMinProfitRate params;
         metaRate = (if buyPrices \<noteq> [] then Some rate else None);
         override = ip_targetTableOverride params;
         targetProfitRate = lookupTargetProfitRate T override;
         orderPrice = takeProfitOrderPrice m cur rate (avgPrice * (Fin 1 + targetProfitRate)) buyPrices;
         firstSellQty = first_sell_qty holdQty;
         secondSellQty = holdQty - firstSellQty;
         secondaryTargetRate = targetProfitRate + lookupSecondaryBonusRate T override;
         secondaryTargetPrice = takeProfitOrderPrice m cur rate (avgPrice * (Fin 1 + secondaryTargetRate)) buyPrices
     in if \<not> orderPrice > Fin 0 then []
        else [order ctx SELL firstSellQty (Some orderPrice)
          (if secondSellQty > Fin 0 then IbTakeProfit1 T (targetProfitRate * Fin 100) firstSellQty orderPrice
           else IbTakeProfit T (targetProfitRate * Fin 100) firstSellQty orderPrice)
          (Some ''00'')
          (if secondSellQty > Fin 0
           then Some (no_meta\<lparr>md_phase := Some ''take-profit-1'', md_tValue := Some T,
             md_secondaryTargetPrice := Some secondaryTargetPrice, md_secondaryTargetRate := Some secondaryTargetRate,
             md_secondaryTargetQuantity := Some secondSellQty, md_sameCycleMinProfitRate := metaRate\<rparr>)
           else if buyPrices \<noteq> [] then Some (no_meta\<lparr>md_sameCycleMinProfitRate := metaRate\<rparr>) else None)])"

definition ib_end_skips :: "ib_ctx \<Rightarrow> ib_skip list" where
  "ib_end_skips ctx =
    (let T = b_T (ib_base_of ctx); N = ws_maxCycles (watchStock ctx); holdQty = b_holdQty (ib_base_of ctx) in
     (if \<not> hasPosition ctx \<and> \<not> ib_buyAllowed ctx
      then (if ib_cycle_done ctx then [IbCycleDoneWaiting T N]
            else if flag (map_option rs_buyBlocked (riskState ctx)) then [IbRiskBlocked (ib_riskReason ctx)] else [])
      else []) @
     (if hasPosition ctx \<and> ib_cycle_done ctx \<and> holdQty > Fin 0 then [IbCycleDoneHolding T N] else []))"

definition ib_trade :: "ib_ctx \<Rightarrow> ib_evaluation" where
  "ib_trade ctx =
    \<lparr>signals = ib_buy_signals ctx @ ib_sell_signals ctx, skipReasons = ib_buy_skips ctx @ ib_end_skips ctx,
     details = Some \<lparr>id_T = b_T (ib_base_of ctx), id_adjustedQuota = ib_adjustedQuota ctx, id_cycleCompleted = ib_cycle_done ctx,
       id_buy2OnlyMode = (ib_buyAllowed ctx \<and> ib_buy2Only ctx), id_terminalQuotaReached = ib_terminal ctx\<rparr>\<rparr>"

definition ib_risk_exit :: "ib_ctx \<Rightarrow> bool" where
  "ib_risk_exit ctx \<longleftrightarrow> flag (map_option rs_liquidateAll (riskState ctx)) \<and> hasPosition ctx \<and>
     (let avg = b_avgPrice (ib_base_of ctx); threshold = finite_or (ip_mddLiquidateStockLossThreshold (ib_params_of ctx)) (lit (2 / 10))
      in (if avg > Fin 0 then (avg - px_currentPrice (price ctx)) / avg else Fin 0) \<ge> threshold)"

definition ib_stop :: "ib_ctx \<Rightarrow> bool" where
  "ib_stop ctx \<longleftrightarrow> hasPosition ctx \<and>
     px_currentPrice (price ctx) < b_avgPrice (ib_base_of ctx) * (Fin 1 - ws_stopLossRate (watchStock ctx))"

text \<open>The order at the second target.\<close>

definition ib_second_target :: "ib_ctx \<Rightarrow> exit_plan \<Rightarrow> ib_signal list" where
  "ib_second_target ctx plan =
    (let m = ws_market (watchStock ctx); b = ib_base_of ctx;
         remainingQty = min_num (b_holdQty b) (xp_secondTargetQuantity plan);
         orderPrice = takeProfitOrderPrice m (px_currentPrice (price ctx)) (ib_sameCycleMinProfitRate (ib_params_of ctx))
           (xp_secondTargetPrice plan) []
     in if remainingQty > Fin 0 \<and> orderPrice > Fin 0
        then [order ctx SELL remainingQty (Some orderPrice)
          (IbTakeProfit2 (b_T b) (xp_secondTargetRate plan * Fin 100) remainingQty orderPrice) (Some ''00'')
          (Some (no_meta\<lparr>md_phase := Some ''take-profit-2''\<rparr>))]
        else [])"

definition ib_evaluateStock :: "string \<Rightarrow> ib_ctx \<Rightarrow> ib_evaluation" where
  "ib_evaluateStock today ctx =
    (let ws = watchStock ctx; cur = px_currentPrice (price ctx); b = ib_base_of ctx; rp = roundPrice (ws_market ws);
         plan = getSecondaryExitPlan (ib_params_of ctx)
     in
     if \<not> truthy (b_quota b) \<or> b_quota b \<le> Fin 0 then skip IbNoQuota
     else if cur \<le> Fin 0 then skip (IbInvalidPrice cur)
     else if ib_risk_exit ctx
     then emit [order ctx SELL (b_holdQty b) (Some (rp cur)) (IbRiskLiquidation (ib_riskReason ctx)
        ((b_avgPrice b - cur) / b_avgPrice b) (finite_or (ip_mddLiquidateStockLossThreshold (ib_params_of ctx)) (lit (2 / 10))))
        (Some ''00'') (Some (no_meta\<lparr>md_phase := Some ''risk-liquidation''\<rparr>))]
     else if ib_stop ctx
     then emit [order ctx SELL (b_holdQty b) (Some (rp cur)) (IbStopLoss (b_T b) ((Fin 1 - cur / b_avgPrice b) * Fin 100)) (Some ''00'') None]
     else if alreadyExecutedToday ctx then skip IbAlreadyExecuted
     else if hasPosition ctx \<and> isActiveSecondaryExitPlan plan today
     then (case plan of Some x \<Rightarrow> emit (ib_second_target ctx x) | None \<Rightarrow> emit [])
     else if \<not> hasPosition ctx \<and> flag (map_option rs_buyBlocked (riskState ctx)) then skip (IbRiskBlocked (ib_riskReason ctx))
     else if \<not> hasPosition ctx \<and> flag (investCautionYn (stockIndicators ctx)) then skip IbInvestCaution
     else if \<not> hasPosition ctx \<and> market_warned (stockIndicators ctx)
     then skip (IbMarketWarning (marketWarnCode (stockIndicators ctx)))
     else ib_trade ctx)"

text \<open>The constant beginning of a reason's text (UTF-8); the rest shows numbers.\<close>

definition ib_skip_prefix :: "ib_skip \<Rightarrow> string" where
  "ib_skip_prefix s = (case s of
       IbNoQuota \<Rightarrow> ''Quota '' @ [CHR 0xEB, CHR 0xAF, CHR 0xB8, CHR 0xEC, CHR 0x84, CHR 0xA4, CHR 0xEC, CHR 0xA0, CHR 0x95]
     | IbInvalidPrice p \<Rightarrow> [CHR 0xEC, CHR 0x9C, CHR 0xA0, CHR 0xED, CHR 0x9A, CHR 0xA8, CHR 0xED, CHR 0x95, CHR 0x98, CHR 0xEC,
        CHR 0xA7, CHR 0x80] @ '' '' @ [CHR 0xEC, CHR 0x95, CHR 0x8A, CHR 0xEC, CHR 0x9D, CHR 0x80] @ '' '' @ [CHR 0xED, CHR 0x98, CHR 0x84, CHR
        0xEC, CHR 0x9E, CHR 0xAC, CHR 0xEA, CHR 0xB0, CHR 0x80] @ '' (''
     | IbAlreadyExecuted \<Rightarrow> [CHR 0xEC, CHR 0x98, CHR 0xA4, CHR 0xEB, CHR 0x8A, CHR 0x98] @ '' '' @ [CHR 0xEC, CHR 0x9D, CHR 0xB4,
        CHR 0xEB, CHR 0xAF, CHR 0xB8] @ '' '' @ [CHR 0xEC, CHR 0x8B, CHR 0xA4, CHR 0xED, CHR 0x96, CHR 0x89, CHR 0xEB, CHR 0x90, CHR 0xA8]
     | IbRiskBlocked r \<Rightarrow> [CHR 0xEB, CHR 0xA6, CHR 0xAC, CHR 0xEC, CHR 0x8A, CHR 0xA4, CHR 0xED, CHR 0x81, CHR 0xAC] @ '' '' @
        [CHR 0xEB, CHR 0xA7, CHR 0xA4, CHR 0xEC, CHR 0x88, CHR 0x98] @ '' '' @ [CHR 0xEC, CHR 0xB0, CHR 0xA8, CHR 0xEB, CHR 0x8B, CHR 0xA8] @ '': ''
     | IbInvestCaution \<Rightarrow> [CHR 0xED, CHR 0x88, CHR 0xAC, CHR 0xEC, CHR 0x9E, CHR 0x90, CHR 0xEC, CHR 0x9C, CHR 0xA0, CHR 0xEC,
        CHR 0x9D, CHR 0x98] @ '' '' @ [CHR 0xEC, CHR 0xA2, CHR 0x85, CHR 0xEB, CHR 0xAA, CHR 0xA9]
     | IbMarketWarning c \<Rightarrow> [CHR 0xEC, CHR 0x8B, CHR 0x9C, CHR 0xEC, CHR 0x9E, CHR 0xA5, CHR 0xEA, CHR 0xB2, CHR 0xBD, CHR 0xEA,
        CHR 0xB3, CHR 0xA0] @ '' '' @ [CHR 0xEC, CHR 0xA2, CHR 0x85, CHR 0xEB, CHR 0xAA, CHR 0xA9] @ '' ('' @ [CHR 0xEC, CHR 0xBD, CHR 0x94, CHR
        0xEB, CHR 0x93, CHR 0x9C] @ '': ''
     | IbNoCash a \<Rightarrow> [CHR 0xEB, CHR 0xA7, CHR 0xA4, CHR 0xEC, CHR 0x88, CHR 0x98] @ '' '' @ [CHR 0xEC, CHR 0x88, CHR 0x98, CHR
        0xEB, CHR 0x9F, CHR 0x89] @ '' '' @ [CHR 0xEB, CHR 0xB6, CHR 0x80, CHR 0xEC, CHR 0xA1, CHR 0xB1] @ '': '' @ [CHR 0xEC, CHR 0xA3, CHR 0xBC,
        CHR 0xEB, CHR 0xAC, CHR 0xB8, CHR 0xEA, CHR 0xB0, CHR 0x80, CHR 0xEB, CHR 0x8A, CHR 0xA5, CHR 0xEA, CHR 0xB8, CHR 0x88, CHR 0xEC, CHR 0x95,
        CHR 0xA1] @ '' ''
     | IbRsiStop r \<Rightarrow> [CHR 0xEB, CHR 0xA7, CHR 0xA4, CHR 0xEC, CHR 0x88, CHR 0x98] @ '' '' @ [CHR 0xEC, CHR 0x88, CHR 0x98, CHR
        0xEB, CHR 0x9F, CHR 0x89] @ '' '' @ [CHR 0xEB, CHR 0xB6, CHR 0x80, CHR 0xEC, CHR 0xA1, CHR 0xB1] @ '': RSI '' @ [CHR 0xEA, CHR 0xB3, CHR
        0xBC, CHR 0xEC, CHR 0x97, CHR 0xB4] @ '' (''
     | IbCycleNearlyDone a p \<Rightarrow> [CHR 0xEC, CHR 0x82, CHR 0xAC, CHR 0xEC, CHR 0x9D, CHR 0xB4, CHR 0xED, CHR 0x81, CHR 0xB4] @ '' '' @ [CHR 0xEC, CHR 0x99, CHR 0x84, CHR 0xEC, CHR 0xA3, CHR 0xBC] @ '' '' @ [CHR 0xEC, CHR 0x9E, CHR 0x84, CHR 0xEB, CHR 0xB0, CHR 0x95] @
        '': '' @ [CHR 0xEC, CHR 0x9E, CHR 0x94, CHR 0xEC, CHR 0x97, CHR 0xAC] @ '' '' @ [CHR 0xED, CHR 0x88, CHR 0xAC, CHR 0xEC, CHR 0x9E, CHR 0x90,
        CHR 0xED, CHR 0x95, CHR 0x9C, CHR 0xEB, CHR 0x8F, CHR 0x84] @ '' ''
     | IbBelowOneShare a p \<Rightarrow> [CHR 0xEB, CHR 0xA7, CHR 0xA4, CHR 0xEC, CHR 0x88, CHR 0x98] @ '' '' @ [CHR 0xEC, CHR 0x88, CHR
        0x98, CHR 0xEB, CHR 0x9F, CHR 0x89] @ '' '' @ [CHR 0xEB, CHR 0xB6, CHR 0x80, CHR 0xEC, CHR 0xA1, CHR 0xB1] @ '': '' @ [CHR 0xEC, CHR 0xA1,
        CHR 0xB0, CHR 0xEC, CHR 0xA0, CHR 0x95] @ '' '' @ [CHR 0xED, CHR 0x95, CHR 0xA0, CHR 0xEB, CHR 0x8B, CHR 0xB9, CHR 0xEA, CHR 0xB8, CHR 0x88]
        @ '' ''
     | IbCycleDoneWaiting t n \<Rightarrow> [CHR 0xEC, CHR 0x82, CHR 0xAC, CHR 0xEC, CHR 0x9D, CHR 0xB4, CHR 0xED, CHR 0x81, CHR 0xB4] @ '' '' @ [CHR 0xEC, CHR 0x99, CHR 0x84, CHR 0xEC, CHR 0xA3, CHR 0xBC] @ '' (T=''
     | IbCycleDoneHolding t n \<Rightarrow> [CHR 0xEC, CHR 0x82, CHR 0xAC, CHR 0xEC, CHR 0x9D, CHR 0xB4, CHR 0xED, CHR 0x81, CHR 0xB4] @ '' '' @ [CHR 0xEC, CHR 0x99, CHR 0x84, CHR 0xEC, CHR 0xA3, CHR 0xBC] @ '' (T='')"

definition ib_skip_text :: "(ib_skip \<Rightarrow> string) \<Rightarrow> ib_skip \<Rightarrow> string" where
  "ib_skip_text shown s = ib_skip_prefix s @ shown s"

section \<open>What the services make of the reasons\<close>

lemma is_prefix_append: "length p \<le> length s \<Longrightarrow> is_prefix p (s @ t) = is_prefix p s"
  by (induction p s rule: is_prefix.induct) auto

lemmas ko_defs = ko_quantity_short_def ko_last_cycle_def ko_executed_today_def ko_watching_def

lemma ib_skip_not_terminal: "\<not> is_prefix ko_last_cycle (ib_skip_text shown s)"
  by (cases s) (simp_all add: ib_skip_text_def ib_skip_prefix_def ko_defs)

lemma ib_skip_carry:
  "is_prefix ko_quantity_short (ib_skip_text shown s) \<longleftrightarrow>
    (case s of IbNoCash a \<Rightarrow> True | IbRsiStop r \<Rightarrow> True | IbBelowOneShare a p \<Rightarrow> True | _ \<Rightarrow> False)"
  by (cases s) (simp_all add: ib_skip_text_def ib_skip_prefix_def ko_defs)

end
