(* ===== verification/InfiniteBuySafety.thy ===== *)
theory InfiniteBuySafety imports InfiniteBuy DailyDca begin

text \<open>
  What the installment strategy promises: it meets the contract of the strategies, splits a first target
  into the order and the shares left, and lowers its target as the cycle goes on. Two divergences: the mode
  that would allow the second buy alone is never reached, and its notice that the quota is used up is not
  the one the trading service waits for.
\<close>

section \<open>The contract\<close>

lemma buy_signals_side: "s \<in> set (ib_buy_signals ctx) \<Longrightarrow> sg_side s = BUY \<and> signal_ok ctx s"
  by (auto simp: ib_buy_signals_def Let_def split: if_splits)

lemma ib_holdQty: "hasPosition ctx \<Longrightarrow> b_holdQty (ib_base_of ctx) = held ctx"
  by (simp add: ib_base_of_def Let_def or_opt_held)

lemma ib_holdQty_pos: "b_holdQty (ib_base_of ctx) > Fin 0 \<Longrightarrow> hasPosition ctx \<and> b_holdQty (ib_base_of ctx) = held ctx"
  by (cases "position ctx") (auto simp: ib_base_of_def Let_def hasPosition_def held_def or_num_def split: if_splits)

lemma first_half:
  assumes "1 \<le> h" "h \<le> 2 ^ 53"
  shows "\<exists>q. first_sell_qty (Fin (of_nat h)) = Fin (of_nat q) \<and> 1 \<le> q \<and> q \<le> h"
proof (cases "2 \<le> h")
  case True
  let ?x = "of_nat h / 2 :: rat"
  have d: "dbl (Fin (of_nat h))" "dbl (Fin 1)" using dbl_int [of "int h"] assms dbl_int [of 1] by simp_all
  have x: "1 \<le> ?x" "?x \<le> of_nat h" using True by simp_all
  have f: "fl ?x = Fin (rnd ?x)" "1 \<le> rnd ?x" "rnd ?x \<le> of_nat h" using fl_between [OF d(2,1) x] by simp_all
  then have c: "\<lceil>rnd ?x\<rceil> \<le> int h" "1 \<le> \<lceil>rnd ?x\<rceil>" by (simp_all add: ceiling_le_iff)
  then have "of_int \<lceil>rnd ?x\<rceil> = (of_nat (nat \<lceil>rnd ?x\<rceil>) :: rat)" "nat \<lceil>rnd ?x\<rceil> \<le> h" by simp_all
  moreover have "1 \<le> nat \<lceil>rnd ?x\<rceil>" using c(2) by linarith
  ultimately show ?thesis using True f by (auto simp: first_sell_qty_def div_Fin ceil_num_def intro!: exI [of _ "nat \<lceil>rnd ?x\<rceil>"])
qed (use assms in \<open>auto simp: first_sell_qty_def\<close>)

lemma sell_signals_ok:
  assumes "whole_holding ctx h" "s \<in> set (ib_sell_signals ctx)"
  shows "ib_sell_signals ctx = [s] \<and> signal_ok ctx s"
proof -
  have p: "b_holdQty (ib_base_of ctx) > Fin 0" using assms(2) by (auto simp: ib_sell_signals_def Let_def split: if_splits)
  then have hp: "hasPosition ctx" "b_holdQty (ib_base_of ctx) = Fin (of_nat h)" "held ctx = Fin (of_nat h)"
    using ib_holdQty_pos [OF p] assms(1) by (auto simp: whole_holding_def)
  then obtain q where "first_sell_qty (Fin (of_nat h)) = Fin (of_nat q)" "1 \<le> q" "q \<le> h"
    using first_half [of h] whole_holding_pos [OF assms(1)] assms(1) by (auto simp: whole_holding_def)
  then show ?thesis using assms(2) hp p by (auto simp: ib_sell_signals_def Let_def split: if_splits)
qed

lemma min_positive_le: "Fin 0 < min_num a b \<Longrightarrow> min_num a b \<le> a"
  by (rule min_num_le) auto

lemma second_target_ok:
  assumes "whole_holding ctx h" "hasPosition ctx" "s \<in> set (ib_second_target ctx plan)"
  shows "ib_second_target ctx plan = [s] \<and> signal_ok ctx s"
proof -
  show ?thesis using assms(2,3) min_positive_le by (auto simp: ib_second_target_def Let_def ib_holdQty split: if_splits)
qed

lemma ib_signals_cases:
  assumes "whole_holding ctx h"
  shows "(\<exists>s. signals (ib_evaluateStock today ctx) = [s] \<and> signal_ok ctx s) \<or> signals (ib_evaluateStock today ctx) = [] \<or>
    signals (ib_evaluateStock today ctx) = ib_buy_signals ctx @ ib_sell_signals ctx"
proof -
  have stop: "ib_stop ctx \<Longrightarrow> hasPosition ctx" "ib_risk_exit ctx \<Longrightarrow> hasPosition ctx"
    by (simp_all add: ib_stop_def ib_risk_exit_def)
  have sec: "ib_second_target ctx x = [] \<or> (\<exists>s. ib_second_target ctx x = [s] \<and> signal_ok ctx s)" if "hasPosition ctx" for x
  proof (cases "ib_second_target ctx x")
    case (Cons a as)
    then show ?thesis using second_target_ok [OF assms that, of a x] by simp
  qed simp
  show ?thesis using stop sec
    by (auto simp: ib_evaluateStock_def Let_def ib_holdQty ib_trade_def split: option.split)
qed

lemma ib_contract:
  assumes "whole_holding ctx h"
  shows "(\<forall>s \<in> set (signals (ib_evaluateStock today ctx)). signal_ok ctx s) \<and> sold (signals (ib_evaluateStock today ctx)) \<le> of_nat h"
proof -
  have one: "sold [s] \<le> of_nat h" if "signal_ok ctx s" for s :: ib_signal
    using that assms by (cases "sg_quantity s") (auto simp: signal_ok_def whole_holding_def)
  have b: "sold (ib_buy_signals ctx) = 0" using buy_signals_side by (intro sold_buys) blast
  have s: "sold (ib_sell_signals ctx) \<le> of_nat h"
  proof (cases "ib_sell_signals ctx")
    case (Cons s ss)
    then have "ib_sell_signals ctx = [s] \<and> signal_ok ctx s" using sell_signals_ok [OF assms, of s] by simp
    then show ?thesis using one by simp
  qed simp
  show ?thesis using ib_signals_cases [OF assms, of today] one b s buy_signals_side sell_signals_ok [OF assms] by auto
qed

lemma ib_no_price: "px_currentPrice (price ctx) \<le> Fin 0 \<Longrightarrow> signals (ib_evaluateStock today ctx) = []"
  by (simp add: ib_evaluateStock_def Let_def)

interpretation ib: strategy "\<lambda>_. True" "ib_evaluateStock today" for today
  by unfold_locales (use ib_contract ib_no_price in blast)+

section \<open>The second buy alone\<close>

lemma hard_stop_multiplier:
  assumes "getBuy2OnlyThreshold pol = Some th" "r \<ge> th" "isFinite r"
  shows "getRsiMultiplier (Some r) pol = Fin 0"
proof -
  obtain x where r: "r = Fin x" using assms(3) by (auto simp: isFinite_iff)
  then show ?thesis using assms
    by (cases "coalesce pol HardStop70") (auto simp: getBuy2OnlyThreshold_def hard_stop_def getRsiMultiplier_def)
qed

lemma no_positive_zero: "a = Fin 0 \<or> a = NaN \<Longrightarrow> a * lit c = Fin 0 \<or> a * lit c = NaN"
  by (cases "fl c") (auto simp: lit_def times_jsnum_def signed_inf_def)

text \<open>
  The mode in which only the second buy is allowed is never in force: it asks for an RSI at or above the
  threshold of a hard-stop policy, and there the amount of the day is zero already, so nothing is bought.
\<close>

lemma buy2_only_unreachable:
  assumes "rsi14 (stockIndicators ctx) = Some (Fin r)" "details (ib_evaluateStock today ctx) = Some d"
  shows "\<not> id_buy2OnlyMode d \<and> (ib_buy2Only ctx \<longrightarrow> ib_buy_signals ctx = [])"
proof -
  have "\<not> ib_buyAllowed ctx" if b: "ib_buy2Only ctx"
  proof -
    have k: "getRsiMultiplier (Some (Fin r)) (ip_rsiPolicy (ib_params_of ctx)) = Fin 0"
      using b assms(1) hard_stop_multiplier by (auto simp: ib_buy2Only_def split: option.splits)
    obtain c0 c1 c2 where q: "applyAccumulatedQuota (b_perCycleQuota (ib_base_of ctx)) (ib_params_of ctx) (b_remainingQuota (ib_base_of ctx)) = (c0, c1, c2)"
      by (metis prod_cases3)
    have z: "x * Fin 0 = Fin 0 \<or> x * Fin 0 = NaN" for x by (cases x) (simp_all add: times_jsnum_def signed_inf_def)
    have n: "js_eq (Fin 0) (Fin 1) = False" by (simp add: js_eq_def)
    have pre: "\<not> ib_preCashQuota ctx > Fin 0"
    proof -
      have nz: "\<not> (if x > dc then dc else x) > Fin 0" if "x = Fin 0 \<or> x = NaN" for x dc
        using that by (cases dc) (auto simp: less_jsnum_def)
      let ?q0 = "if ib_cycle_done ctx then Fin 0 else c2"
      let ?v = "coalesce (volatility30d (stockIndicators ctx)) (Fin 0) \<ge> Fin 45"
      let ?q2 = "if ?v then (?q0 * Fin 0) * lit (85 / 100) else ?q0 * Fin 0"
      have e: "\<exists>dc. ib_preCashQuota ctx = (if ?q2 > dc then dc else ?q2)"
        unfolding ib_preCashQuota_def Let_def q prod.case assms(1) option.case k n if_False by blast
      have "?q2 = Fin 0 \<or> ?q2 = NaN" using z [of ?q0] no_positive_zero [of "?q0 * Fin 0" "85 / 100"] by simp
      then have "\<not> (if ?q2 > dc then dc else ?q2) > Fin 0" for dc by (rule nz)
      then show ?thesis using e by (elim exE) (simp only: not_False_eq_True)
    qed
    have "\<not> min_num x y > Fin 0" if "\<not> x > Fin 0" for x y
      using that by (cases x; cases y) (auto simp: min_num_def isNaN_def less_jsnum_def split: if_splits)
    then show ?thesis using pre by (simp add: ib_buyAllowed_def ib_adjustedQuota_def)
  qed
  moreover have "id_buy2OnlyMode d = (ib_buyAllowed ctx \<and> ib_buy2Only ctx)"
    using assms(2) by (auto simp: ib_evaluateStock_def Let_def ib_trade_def split: if_splits option.splits)
  ultimately show ?thesis by (auto simp: ib_buy_signals_def)
qed

definition stopped_rsi_ctx :: ib_ctx where
  "stopped_rsi_ctx = (example_ctx OVERSEAS None 100 None)\<lparr>stockIndicators := no_indicators\<lparr>rsi14 := Some (Fin 90)\<rparr>\<rparr>"

lemma buy2_only_unreachable_witness:
  "ib_buy2Only stopped_rsi_ctx \<and> ib_buy_signals stopped_rsi_ctx = []"
proof -
  have r: "rsi14 (stockIndicators stopped_rsi_ctx) = Some (Fin 90)" by (simp add: stopped_rsi_ctx_def)
  have b: "ib_buy2Only stopped_rsi_ctx"
    by (simp add: ib_buy2Only_def r getBuy2OnlyThreshold_def hard_stop_def ib_params_of_def no_ib_params_def stopped_rsi_ctx_def
        example_ctx_def coalesce_def)
  have "ib_evaluateStock [] stopped_rsi_ctx = ib_trade stopped_rsi_ctx"
    by (simp add: ib_evaluateStock_def Let_def ib_base_of_def ib_risk_exit_def ib_stop_def hasPosition_def stopped_rsi_ctx_def
        example_ctx_def no_indicators_def market_warned_def coalesce_def)
  then have "details (ib_evaluateStock [] stopped_rsi_ctx) \<noteq> None" by (simp add: ib_trade_def)
  then obtain d where "details (ib_evaluateStock [] stopped_rsi_ctx) = Some d" by blast
  then show ?thesis using buy2_only_unreachable [OF r, of "[]" d] b by blast
qed

section \<open>Notices\<close>

text \<open>
  The installment strategy's notice that the remaining quota no longer buys a share is never the one
  the trading service clears the carried quota on: no reason it gives starts that way, so the carried
  amount of a finished cycle stays stored. The notices that carry the day's amount over are exactly those
  of a missing cash balance, of the RSI stop and of an amount below one share.
\<close>

lemma terminal_notice_unrecognised:
  "\<not> isTerminalQuotaExhaustedSkip (map (ib_skip_text shown) (skipReasons (ib_evaluateStock today ctx))) \<and>
   (isQuotaCarryEligible (map (ib_skip_text shown) (skipReasons (ib_evaluateStock today ctx))) \<longleftrightarrow>
    list_ex (\<lambda>s. case s of IbNoCash a \<Rightarrow> True | IbRsiStop r \<Rightarrow> True | IbBelowOneShare a p \<Rightarrow> True | _ \<Rightarrow> False)
      (skipReasons (ib_evaluateStock today ctx)))"
  by (simp add: isTerminalQuotaExhaustedSkip_def isQuotaCarryEligible_def list_ex_iff ib_skip_not_terminal ib_skip_carry)

section \<open>Targets\<close>

lemma lookup_from_antitone:
  assumes "sorted_wrt (\<lambda>r r'. primary r' \<le> primary r) rs" "\<forall>r \<in> set rs. primary d \<le> primary r" "T \<le> T'"
    "\<forall>r \<in> set (d # rs). primary r \<noteq> NaN"
  shows "primary (lookup_from T' d rs) \<le> primary (lookup_from T d rs)"
  using assms
proof (induction rs)
  case (Cons r rs)
  have m: "lookup_from x d rs = d \<or> lookup_from x d rs \<in> set rs" for x by (induction rs) auto
  have "T < maxT r" if "T' < maxT r" using Cons.prems(3) that by (rule js_le_less_trans)
  then show ?case using Cons m [of T'] by auto
qed simp

text \<open>
  The target table lowers the target as the cycle goes on: a higher turn never has a higher first
  target, every target is at least five and at most seventeen percent, and the second target is above
  the first.
\<close>

lemma target_antitone:
  assumes "T \<le> T'"
  shows "lookupTargetProfitRate T' None \<le> lookupTargetProfitRate T None \<and>
    lit (5 / 100) \<le> lookupTargetProfitRate T None \<and> lookupTargetProfitRate T None \<le> lit (17 / 100) \<and>
    lit (11 / 1000) \<le> lookupSecondaryBonusRate T None"
proof -
  let ?t = "INFINITE_BUY_TARGET_TABLE"
  have lit: "lit a \<le> lit b" if "a \<le> b" for a b using that by (simp add: lit_def fl_mono)
  have all: "\<forall>r \<in> set ?t. lit (5 / 100) \<le> primary r \<and> primary r \<le> lit (17 / 100) \<and> lit (11 / 1000) \<le> bonus r \<and> primary r \<noteq> NaN"
    by (simp add: INFINITE_BUY_TARGET_TABLE_def target_row_of_def lit) (simp add: lit_def)
  have l: "last ?t \<in> set ?t" "primary (last ?t) = lit (5 / 100)" by (simp_all add: INFINITE_BUY_TARGET_TABLE_def target_row_of_def)
  have srt: "sorted_wrt (\<lambda>r r'. primary r' \<le> primary r) ?t"
    by (simp add: INFINITE_BUY_TARGET_TABLE_def target_row_of_def lit)
  have "primary (lookup_from T' (last ?t) ?t) \<le> primary (lookup_from T (last ?t) ?t)"
    using srt all l assms by (intro lookup_from_antitone) auto
  moreover have "lookup_from T d rs = d \<or> lookup_from T d rs \<in> set rs" for d rs by (induction rs) auto
  then have "lookup_from T (last ?t) ?t \<in> set ?t" using l(1) by metis
  ultimately show ?thesis using all by (simp add: lookupTargetProfitRate_def lookupSecondaryBonusRate_def lookup_def target_table_def)
qed

lemma target_antitone_witness: "lookupTargetProfitRate (Fin 30) None \<le> lookupTargetProfitRate (Fin 2) None"
  using target_antitone [of "Fin 2" "Fin 30"] by simp

end
