(* ===== verification/MomentumBreakout.thy ===== *)
theory MomentumBreakout imports FillHandling StrategyContract begin

text \<open>
  The day-trading strategy (\<open>src/trading/strategy/momentum-breakout.strategy.ts\<close>): the exits of a held
  position in their order, the entry on a breakout in real time, and the conditional entry of the backtest.
  A reason is a constructor with the numbers its text shows; the signals are market orders but for the
  backtest's.
\<close>

section \<open>Parameters\<close>

record mb_params =
  mp_entryDate :: "string option"
  mp_entryDayHigh :: "jsnum option"
  mp_kValue :: "jsnum option"
  mp_stopLossRate :: "jsnum option"
  mp_trailingStopEnabled :: "bool option"
  mp_trailingStopRate :: "jsnum option"
  mp_takeProfitEnabled :: "bool option"
  mp_takeProfitRate :: "jsnum option"
  mp_useMa20Filter :: "bool option"
  mp_volumeMultiplier :: "jsnum option"
  mp_minSoftConditions :: "jsnum option"
  mp_maxChaseRate :: "jsnum option"
  mp_entryStartTime :: "string option"
  mp_entryEndTime :: "string option"
  mp_exitTime :: "string option"

definition no_mb_params :: mb_params where
  "no_mb_params = \<lparr>mp_entryDate = None, mp_entryDayHigh = None, mp_kValue = None, mp_stopLossRate = None,
     mp_trailingStopEnabled = None, mp_trailingStopRate = None, mp_takeProfitEnabled = None, mp_takeProfitRate = None,
     mp_useMa20Filter = None, mp_volumeMultiplier = None, mp_minSoftConditions = None, mp_maxChaseRate = None,
     mp_entryStartTime = None, mp_entryEndTime = None, mp_exitTime = None\<rparr>"

type_synonym mb_ctx = "mb_params strategy_context"

definition mb_params_of :: "mb_ctx \<Rightarrow> mb_params" where
  "mb_params_of ctx = coalesce (ws_strategyParams (watchStock ctx)) no_mb_params"

text \<open>The parameters with the defaults of the source.\<close>

definition mb_kValue :: "mb_params \<Rightarrow> jsnum" where "mb_kValue p = coalesce (mp_kValue p) (lit (1 / 2))"
definition mb_stopLossRate :: "mb_params \<Rightarrow> jsnum" where "mb_stopLossRate p = coalesce (mp_stopLossRate p) (lit (2 / 100))"
definition mb_trailingStopEnabled :: "mb_params \<Rightarrow> bool" where "mb_trailingStopEnabled p = coalesce (mp_trailingStopEnabled p) True"
definition mb_trailingStopRate :: "mb_params \<Rightarrow> jsnum" where "mb_trailingStopRate p = coalesce (mp_trailingStopRate p) (lit (2 / 100))"
definition mb_takeProfitEnabled :: "mb_params \<Rightarrow> bool" where "mb_takeProfitEnabled p = coalesce (mp_takeProfitEnabled p) False"
definition mb_takeProfitRate :: "mb_params \<Rightarrow> jsnum" where "mb_takeProfitRate p = coalesce (mp_takeProfitRate p) (lit (5 / 100))"
definition mb_useMa20Filter :: "mb_params \<Rightarrow> bool" where "mb_useMa20Filter p = coalesce (mp_useMa20Filter p) True"
definition mb_volumeMultiplier :: "mb_params \<Rightarrow> jsnum" where "mb_volumeMultiplier p = coalesce (mp_volumeMultiplier p) (Fin 1)"
definition mb_minSoftConditions :: "mb_params \<Rightarrow> jsnum" where "mb_minSoftConditions p = coalesce (mp_minSoftConditions p) (Fin 2)"
definition mb_maxChaseRate :: "mb_params \<Rightarrow> jsnum" where "mb_maxChaseRate p = coalesce (mp_maxChaseRate p) (lit (1 / 100))"
definition mb_entryStartTime :: "mb_params \<Rightarrow> string" where "mb_entryStartTime p = coalesce (mp_entryStartTime p) ''09:05''"
definition mb_entryEndTime :: "mb_params \<Rightarrow> string" where "mb_entryEndTime p = coalesce (mp_entryEndTime p) ''14:30''"
definition mb_exitTime :: "mb_params \<Rightarrow> string" where "mb_exitTime p = coalesce (mp_exitTime p) ''15:10''"

section \<open>Times\<close>

definition digit :: "char \<Rightarrow> int option" where
  "digit c = (let n = (of_char c :: int) in if 48 \<le> n \<and> n \<le> 57 then Some (n - 48) else None)"

text \<open>\<open>/^(\d{1,2}):(\d{2})$/\<close>\<close>

definition parse_clock :: "string \<Rightarrow> int option" where
  "parse_clock s =
    (case s of
       [a, c, d, e] \<Rightarrow>
         (case (digit a, digit d, digit e) of
            (Some h, Some x, Some y) \<Rightarrow> if c = CHR '':'' then Some (h * 60 + (x * 10 + y)) else None | _ \<Rightarrow> None)
     | [a, b, c, d, e] \<Rightarrow>
         (case (digit a, digit b, digit d, digit e) of
            (Some h, Some h', Some x, Some y) \<Rightarrow> if c = CHR '':'' then Some ((h * 10 + h') * 60 + (x * 10 + y)) else None | _ \<Rightarrow> None)
     | _ \<Rightarrow> None)"

definition parseTimeToMinutes :: "string \<Rightarrow> int \<Rightarrow> int" where
  "parseTimeToMinutes value fallbackMinutes =
    (if value = [] then fallbackMinutes else coalesce (parse_clock (trim value)) fallbackMinutes)"

definition mb_exitMinutes :: "mb_params \<Rightarrow> int" where
  "mb_exitMinutes p = parseTimeToMinutes (mb_exitTime p) (parseTimeToMinutes ''15:10'' 910)"

section \<open>Reasons and metadata\<close>

datatype mb_reason =
    MbRiskLiquidation jsnum
  | MbCarryover string
  | MbEndOfDay string
  | MbStop jsnum jsnum
  | MbTrailing jsnum jsnum
  | MbTakeProfit jsnum jsnum
  | MbEntry jsnum jsnum nat nat
  | MbBarEntry jsnum

datatype mb_skip =
    MbBarExit | MbExitNoPrice | MbOpenSell | MbHolding jsnum | MbInvalidPrice | MbOverseas | MbRiskBlocked string
  | MbOpenOrder | MbDone | MbOverweight jsnum | MbCaution | MbOverheat | MbWarned "string option" | MbOutsideWindow
  | MbRsi jsnum | MbBelowMa20 jsnum jsnum | MbNoRange | MbNoOpen | MbZeroRange | MbWaiting jsnum jsnum | MbChase jsnum jsnum
  | MbSoft nat nat jsnum | MbNoQuantity jsnum jsnum

datatype mb_meta =
    ExitMeta string
  | EntryMeta jsnum jsnum
  | BarMeta jsnum jsnum "jsnum option"

text \<open>What the trading services read of it.\<close>

definition mb_signal_meta :: "mb_meta \<Rightarrow> signal_meta" where
  "mb_signal_meta m = (case m of
       ExitMeta ph \<Rightarrow> no_meta\<lparr>md_phase := Some ph\<rparr>
     | EntryMeta breakoutPrice high \<Rightarrow> no_meta\<lparr>md_phase := Some ''vb-entry'', md_entryDayHigh := (if isFinite high then Some high else None)\<rparr>
     | BarMeta breakoutPrice stopRate profitRate \<Rightarrow> no_meta\<lparr>md_phase := Some ''vb-entry''\<rparr>)"

record soft_score =
  so_evaluable :: nat
  so_passed :: nat
  so_required :: jsnum
  so_satisfied :: bool

record mb_details =
  mbd_breakoutPrice :: jsnum
  mbd_soft :: "soft_score option"

type_synonym mb_evaluation = "(mb_reason, mb_meta, mb_skip, mb_details) evaluation"

definition mb_mddBuyBlock :: jsnum where "mb_mddBuyBlock = - lit (8 / 100)"
definition mb_mddLiquidate :: jsnum where "mb_mddLiquidate = - lit (12 / 100)"

section \<open>Exits\<close>

definition sellAll :: "mb_ctx \<Rightarrow> stock_position \<Rightarrow> mb_reason \<Rightarrow> string \<Rightarrow> mb_evaluation" where
  "sellAll ctx p reason ph = emit [order ctx SELL (pos_quantity p) None reason None (Some (ExitMeta ph))]"

definition mb_profitRate :: "mb_ctx \<Rightarrow> stock_position \<Rightarrow> jsnum" where
  "mb_profitRate ctx p = (px_currentPrice (price ctx) - pos_avgPrice p) / pos_avgPrice p"

text \<open>The high since the entry, when one is known to be that.\<close>

definition highSinceEntry :: "mb_ctx \<Rightarrow> jsnum option" where
  "highSinceEntry ctx =
    (case mp_entryDayHigh (mb_params_of ctx) of
       Some h \<Rightarrow> if px_highPrice (price ctx) > h then Some (px_highPrice (price ctx)) else None
     | None \<Rightarrow> None)"

text \<open>The exits that depend on the price.\<close>

definition mb_price_exit :: "mb_ctx \<Rightarrow> stock_position \<Rightarrow> mb_evaluation" where
  "mb_price_exit ctx p =
    (let params = mb_params_of ctx; cur = px_currentPrice (price ctx); profitRate = mb_profitRate ctx p in
     if cur \<le> Fin 0 then skip MbExitNoPrice
     else if hasOpenSellOrder ctx = Some True then skip MbOpenSell
     else if profitRate \<le> - mb_stopLossRate params
     then sellAll ctx p (MbStop (profitRate * Fin 100) (mb_stopLossRate params * Fin 100)) ''intraday-stop''
     else if mb_trailingStopEnabled params \<and> given (\<lambda>h. cur < h * (Fin 1 - mb_trailingStopRate params)) (highSinceEntry ctx)
     then sellAll ctx p (MbTrailing (coalesce (highSinceEntry ctx) NaN) (mb_trailingStopRate params * Fin 100)) ''trailing-stop''
     else if mb_takeProfitEnabled params \<and> profitRate \<ge> mb_takeProfitRate params
     then sellAll ctx p (MbTakeProfit (profitRate * Fin 100) (mb_takeProfitRate params * Fin 100)) ''take-profit''
     else skip (MbHolding (profitRate * Fin 100)))"

definition mb_exit :: "int \<Rightarrow> mb_ctx \<Rightarrow> stock_position \<Rightarrow> mb_evaluation" where
  "mb_exit t ctx p =
    (let params = mb_params_of ctx; mdd = mddCheck mb_mddBuyBlock mb_mddLiquidate ctx in
     if evaluationMode ctx = Some DailyBar then skip MbBarExit
     else if flag (map_option liquidateAll mdd)
     then sellAll ctx p (MbRiskLiquidation (coalesce (map_option rs_drawdown (riskState ctx)) NaN * Fin 100)) ''risk-liquidation''
     else case mp_entryDate params of
         Some d \<Rightarrow> if d \<noteq> [] \<and> \<not> text_le (getKstDateString t) d then sellAll ctx p (MbCarryover d) ''carryover-exit''
           else if kst_minutes t \<ge> mb_exitMinutes params then sellAll ctx p (MbEndOfDay (mb_exitTime params)) ''eod-exit''
           else mb_price_exit ctx p
       | None \<Rightarrow> if kst_minutes t \<ge> mb_exitMinutes params then sellAll ctx p (MbEndOfDay (mb_exitTime params)) ''eod-exit''
           else mb_price_exit ctx p)"

section \<open>Entries\<close>

definition resolveBreakoutPrice :: "mb_ctx \<Rightarrow> mb_skip + jsnum" where
  "resolveBreakoutPrice ctx =
    (case (prevHigh (stockIndicators ctx), prevLow (stockIndicators ctx)) of
       (Some hi, Some lo) \<Rightarrow>
         let op = (if px_openPrice (price ctx) > Fin 0 then Some (px_openPrice (price ctx)) else todayOpen (stockIndicators ctx)) in
         (case op of None \<Rightarrow> Inl MbNoOpen
          | Some o' \<Rightarrow>
            if o' \<le> Fin 0 then Inl MbNoOpen
            else if hi - lo \<le> Fin 0 then Inl MbZeroRange
            else Inr (o' + (hi - lo) * mb_kValue (mb_params_of ctx)))
     | _ \<Rightarrow> Inl MbNoRange)"

definition count :: "bool option list \<Rightarrow> nat \<times> nat" where
  "count bs = (length (filter (\<lambda>b. b \<noteq> None) bs), length (filter (\<lambda>b. b = Some True) bs))"

text \<open>The three soft conditions, each \<open>None\<close> when its data is missing.\<close>

definition soft_volume :: "mb_ctx \<Rightarrow> int \<Rightarrow> bool option" where
  "soft_volume ctx nowKstMinutes =
    (case avgVolume20 (stockIndicators ctx) of
       Some v \<Rightarrow>
         if v > Fin 0 \<and> px_volume (price ctx) > Fin 0
         then (let elapsed = min (max (nowKstMinutes - 9 * 60) 5) 390;
                   expected = v * (Fin (of_int elapsed) / Fin 390) * mb_volumeMultiplier (mb_params_of ctx)
               in Some (px_volume (price ctx) \<ge> expected))
         else None
     | None \<Rightarrow> None)"

definition soft_vwap :: "mb_ctx \<Rightarrow> bool option" where
  "soft_vwap ctx =
    (case px_tradingValue (price ctx) of
       Some v \<Rightarrow>
         if v > Fin 0 \<and> px_volume (price ctx) > Fin 0
         then Some (px_currentPrice (price ctx) \<ge> v / px_volume (price ctx)) else None
     | None \<Rightarrow> None)"

definition soft_flow :: "mb_ctx \<Rightarrow> bool option" where
  "soft_flow ctx =
    (let ind = stockIndicators ctx in
     if foreignNetBuy ind \<noteq> None \<or> institutionNetBuy ind \<noteq> None \<or> programTradeDirection ind \<noteq> None
     then Some (flag (foreignNetBuy ind) \<or> flag (institutionNetBuy ind) \<or> programTradeDirection ind = Some BUY)
     else None)"

definition scoreSoftConditions :: "mb_ctx \<Rightarrow> int \<Rightarrow> soft_score" where
  "scoreSoftConditions ctx nowKstMinutes =
    (let (evaluable, passed) = count [soft_volume ctx nowKstMinutes, soft_vwap ctx, soft_flow ctx];
         requestedMin = mb_minSoftConditions (mb_params_of ctx);
         sanitizedMin = (if isFinite requestedMin \<and> requestedMin \<ge> Fin 1 then floor_num requestedMin else Fin 2);
         required = min_num sanitizedMin (Fin (of_nat evaluable))
     in \<lparr>so_evaluable = evaluable, so_passed = passed, so_required = required,
         so_satisfied = (evaluable > 0 \<and> Fin (of_nat passed) \<ge> required)\<rparr>)"

definition mb_quantity :: "mb_ctx \<Rightarrow> jsnum \<Rightarrow> jsnum" where
  "mb_quantity ctx p = floor_num (min_num (or_opt (ws_quota (watchStock ctx)) (Fin 0)) (buyableAmount ctx) / p)"

definition with_details :: "jsnum \<Rightarrow> soft_score option \<Rightarrow> mb_evaluation \<Rightarrow> mb_evaluation" where
  "with_details b s e = e\<lparr>details := Some \<lparr>mbd_breakoutPrice = b, mbd_soft = s\<rparr>\<rparr>"

text \<open>The conditions of a real-time entry before the price, as the reason of the first that fails.\<close>

definition mb_entry_block :: "int \<Rightarrow> mb_ctx \<Rightarrow> mb_skip option" where
  "mb_entry_block t ctx =
    (let params = mb_params_of ctx; ind = stockIndicators ctx; cur = px_currentPrice (price ctx);
         mdd = mddCheck mb_mddBuyBlock mb_mddLiquidate ctx; now = kst_minutes t
     in if ws_market (watchStock ctx) \<noteq> DOMESTIC then Some MbOverseas
        else if risk_buy_blocked ctx mdd then Some (MbRiskBlocked (or_str (joined_reasons ctx) ''MDD''))
        else if hasOpenBuyOrder ctx = Some True \<or> hasOpenSellOrder ctx = Some True then Some MbOpenOrder
        else if alreadyExecutedToday ctx then Some MbDone
        else if (case position ctx of None \<Rightarrow> False | Some p \<Rightarrow> totalPortfolioValue ctx > Fin 0 \<and>
            pos_totalInvested p / totalPortfolioValue ctx > lit (15 / 100))
        then Some (MbOverweight (coalesce (map_option pos_totalInvested (position ctx)) NaN / totalPortfolioValue ctx * Fin 100))
        else if flag (investCautionYn ind) then Some MbCaution
        else if flag (shortOverheatYn ind) then Some MbOverheat
        else if market_warned ind then Some (MbWarned (marketWarnCode ind))
        else if now < parseTimeToMinutes (mb_entryStartTime params) 545 \<or> now > parseTimeToMinutes (mb_entryEndTime params) 870
        then Some MbOutsideWindow
        else if given (\<lambda>r. r > Fin 75) (rsi14 ind) then Some (MbRsi (coalesce (rsi14 ind) NaN))
        else if mb_useMa20Filter params \<and> given (\<lambda>m. cur \<le> m) (ma20 ind) then Some (MbBelowMa20 cur (coalesce (ma20 ind) NaN))
        else None)"

definition mb_realtime_entry :: "int \<Rightarrow> mb_ctx \<Rightarrow> mb_evaluation" where
  "mb_realtime_entry t ctx =
    (let cur = px_currentPrice (price ctx); params = mb_params_of ctx in
     case mb_entry_block t ctx of Some s \<Rightarrow> skip s
     | None \<Rightarrow>
       (case resolveBreakoutPrice ctx of Inl s \<Rightarrow> skip s
        | Inr breakoutPrice \<Rightarrow>
          if cur < breakoutPrice then skip (MbWaiting cur breakoutPrice)
          else let chaseLimit = breakoutPrice * (Fin 1 + mb_maxChaseRate params) in
          if cur > chaseLimit then skip (MbChase cur chaseLimit)
          else let soft = scoreSoftConditions ctx (kst_minutes t) in
          if \<not> so_satisfied soft
          then with_details breakoutPrice (Some soft) (skip (MbSoft (so_passed soft) (so_evaluable soft) (so_required soft)))
          else let buyQty = mb_quantity ctx cur in
          if buyQty \<le> Fin 0
          then with_details breakoutPrice (Some soft)
            (skip (MbNoQuantity (or_opt (ws_quota (watchStock ctx)) (Fin 0)) (buyableAmount ctx)))
          else with_details breakoutPrice (Some soft)
            (emit [order ctx BUY buyQty None (MbEntry breakoutPrice cur (so_passed soft) (so_evaluable soft)) None
               (Some (EntryMeta breakoutPrice (px_highPrice (price ctx))))])))"

definition mb_bar_entry :: "mb_ctx \<Rightarrow> mb_evaluation" where
  "mb_bar_entry ctx =
    (let params = mb_params_of ctx; ind = stockIndicators ctx; cur = px_currentPrice (price ctx) in
     if ws_market (watchStock ctx) \<noteq> DOMESTIC then skip MbOverseas
     else if flag (map_option rs_buyBlocked (riskState ctx)) then skip (MbRiskBlocked [])
     else if given (\<lambda>r. r > Fin 75) (rsi14 ind) then skip (MbRsi (coalesce (rsi14 ind) NaN))
     else if mb_useMa20Filter params \<and> given (\<lambda>m. cur \<le> m) (ma20 ind) then skip (MbBelowMa20 cur (coalesce (ma20 ind) NaN))
     else case resolveBreakoutPrice ctx of Inl s \<Rightarrow> skip s
     | Inr b \<Rightarrow>
       let breakoutPrice = round_num b; buyQty = mb_quantity ctx breakoutPrice in
       if buyQty \<le> Fin 0 then skip (MbNoQuantity (or_opt (ws_quota (watchStock ctx)) (Fin 0)) (buyableAmount ctx))
       else with_details breakoutPrice None
         (emit [order ctx BUY buyQty (Some breakoutPrice) (MbBarEntry breakoutPrice) None
            (Some (BarMeta breakoutPrice (mb_stopLossRate params)
              (if mb_takeProfitEnabled params then Some (mb_takeProfitRate params) else None)))]))"

definition mb_evaluateStock :: "int \<Rightarrow> mb_ctx \<Rightarrow> mb_evaluation" where
  "mb_evaluateStock clk ctx =
    (let t = coalesce (now ctx) clk in
     case held_position ctx of
       Some p \<Rightarrow> mb_exit t ctx p
     | None \<Rightarrow>
       if px_currentPrice (price ctx) \<le> Fin 0 then skip MbInvalidPrice
       else if evaluationMode ctx = Some DailyBar then mb_bar_entry ctx
       else mb_realtime_entry t ctx)"

section \<open>The contract\<close>

lemma sellAll_simps [simp]:
  "signals (sellAll ctx p r ph) = [order ctx SELL (pos_quantity p) None r None (Some (ExitMeta ph))]"
  by (simp add: sellAll_def)

lemma with_details_signals [simp]: "signals (with_details b s e) = signals e"
  by (simp add: with_details_def)

text \<open>The exits sell the whole holding at market, or nothing.\<close>

definition full_exit :: "mb_ctx \<Rightarrow> stock_position \<Rightarrow> mb_evaluation \<Rightarrow> bool" where
  "full_exit ctx p e \<longleftrightarrow> (\<exists>r ph. signals e = [order ctx SELL (pos_quantity p) None r None (Some (ExitMeta ph))])"

lemma full_exit_intros [intro, simp]: "full_exit ctx p (sellAll ctx p r ph)"
  unfolding full_exit_def sellAll_simps by blast

lemma full_exit_skip [simp]: "\<not> full_exit ctx p (skip s)"
  by (simp add: full_exit_def)

lemma mb_price_exit_signals:
  "signals (mb_price_exit ctx p) = [] \<or> full_exit ctx p (mb_price_exit ctx p)"
  by (simp add: mb_price_exit_def Let_def)

lemma mb_exit_cases:
  "mb_exit t ctx p = mb_price_exit ctx p \<or> mb_exit t ctx p = skip MbBarExit \<or> full_exit ctx p (mb_exit t ctx p)"
  by (cases "mp_entryDate (mb_params_of ctx)") (simp_all add: mb_exit_def Let_def)

lemma mb_exit_signals: "signals (mb_exit t ctx p) = [] \<or> full_exit ctx p (mb_exit t ctx p)"
  using mb_exit_cases [of t ctx p] mb_price_exit_signals [of ctx p] by auto

section \<open>No position is kept overnight\<close>

text \<open>The position is due to be closed: the drawdown limit, an entry on an earlier day, or the exit time.\<close>

definition exit_due :: "int \<Rightarrow> mb_ctx \<Rightarrow> bool" where
  "exit_due t ctx \<longleftrightarrow>
    flag (map_option (\<lambda>r. rs_drawdown r \<le> mb_mddLiquidate) (riskState ctx)) \<or>
    (case mp_entryDate (mb_params_of ctx) of None \<Rightarrow> False | Some d \<Rightarrow> d \<noteq> [] \<and> \<not> text_le (getKstDateString t) d) \<or>
    mb_exitMinutes (mb_params_of ctx) \<le> kst_minutes t"

lemma exit_due_exits:
  assumes "exit_due t ctx" "evaluationMode ctx \<noteq> Some DailyBar"
  shows "full_exit ctx p (mb_exit t ctx p)"
proof (cases "flag (map_option (\<lambda>r. rs_drawdown r \<le> mb_mddLiquidate) (riskState ctx))")
  case True
  then have "flag (map_option liquidateAll (mddCheck mb_mddBuyBlock mb_mddLiquidate ctx))"
    by (cases "riskState ctx") (simp_all add: mddCheck_def evaluateStrategyMdd_def)
  then show ?thesis using assms(2) by (simp add: mb_exit_def Let_def)
next
  case False
  then show ?thesis using assms
    by (cases "mp_entryDate (mb_params_of ctx)") (auto simp: mb_exit_def Let_def exit_due_def)
qed

text \<open>
  (C25) The day-trading strategy keeps no position overnight: when the drawdown limit is reached, when the
  entry was on an earlier day, or from the exit time on, a held position is sold whole at market - even
  without a price and while another sell is open. The default exit time lies inside the domestic session.
\<close>

theorem no_overnight_position:
  assumes "held_position ctx = Some p" "evaluationMode ctx \<noteq> Some DailyBar" "exit_due (coalesce (now ctx) clk) ctx"
  shows "\<exists>r ph. signals (mb_evaluateStock clk ctx) = [order ctx SELL (pos_quantity p) None r None (Some (ExitMeta ph))] \<and>
    mb_exitMinutes no_mb_params = 15 * 60 + 10"
proof -
  have e: "mb_exitMinutes no_mb_params = 15 * 60 + 10" by code_simp
  have "signals (mb_evaluateStock clk ctx) = signals (mb_exit (coalesce (now ctx) clk) ctx p)"
    using assms(1) by (simp add: mb_evaluateStock_def Let_def)
  then show ?thesis using exit_due_exits [OF assms(3,2), of p] e by (simp add: full_exit_def)
qed

lemma no_overnight_position_witness:
  "(let ctx = example_ctx DOMESTIC (Some no_mb_params) 0 (Some (example_position 3 70000)) in
    \<exists>r ph. signals (mb_evaluateStock 0 (ctx\<lparr>now := Some (16 * 60 * 60 * 1000 - 9 * 60 * 60 * 1000), hasOpenSellOrder := Some True\<rparr>)) =
      [order ctx SELL (Fin 3) None r None (Some (ExitMeta ph))])"
proof -
  let ?ctx = "(example_ctx DOMESTIC (Some no_mb_params) 0 (Some (example_position 3 70000)))
    \<lparr>now := Some (16 * 60 * 60 * 1000 - 9 * 60 * 60 * 1000), hasOpenSellOrder := Some True\<rparr>"
  have "held_position ?ctx = Some (example_position 3 70000)" "evaluationMode ?ctx \<noteq> Some DailyBar"
    by (simp_all add: held_position_def hasPosition_def example_ctx_def example_position_def)
  moreover have "exit_due (coalesce (now ?ctx) 0) ?ctx"
  proof -
    have "mb_exitMinutes no_mb_params = 910" by code_simp
    then show ?thesis by (simp add: exit_due_def mb_params_of_def coalesce_def example_ctx_def kst_minutes_def minutesOfDay_def kst_def)
  qed
  ultimately show ?thesis
    using no_overnight_position [of ?ctx "example_position 3 70000" 0] by (simp add: example_position_def order_def Let_def)
qed

section \<open>Entries\<close>

lemma mb_bought:
  assumes "s \<in> set (signals (mb_realtime_entry t ctx))"
  obtains b where "mb_entry_block t ctx = None" "resolveBreakoutPrice ctx = Inr b"
    "\<not> px_currentPrice (price ctx) < b" "\<not> b * (Fin 1 + mb_maxChaseRate (mb_params_of ctx)) < px_currentPrice (price ctx)"
    "so_satisfied (scoreSoftConditions ctx (kst_minutes t))" "\<not> mb_quantity ctx (px_currentPrice (price ctx)) \<le> Fin 0"
    "sg_side s = BUY" "sg_quantity s = mb_quantity ctx (px_currentPrice (price ctx))" "sg_price s = None"
    "sg_metadata s = Some (EntryMeta b (px_highPrice (price ctx)))"
proof -
  have n: "mb_entry_block t ctx = None" using assms by (cases "mb_entry_block t ctx") (simp_all add: mb_realtime_entry_def Let_def)
  then obtain b where b: "resolveBreakoutPrice ctx = Inr b" using assms
    by (cases "resolveBreakoutPrice ctx") (simp_all add: mb_realtime_entry_def Let_def)
  have "\<not> px_currentPrice (price ctx) < b \<and> \<not> b * (Fin 1 + mb_maxChaseRate (mb_params_of ctx)) < px_currentPrice (price ctx) \<and>
    so_satisfied (scoreSoftConditions ctx (kst_minutes t)) \<and> \<not> mb_quantity ctx (px_currentPrice (price ctx)) \<le> Fin 0 \<and>
    sg_side s = BUY \<and> sg_quantity s = mb_quantity ctx (px_currentPrice (price ctx)) \<and> sg_price s = None \<and>
    sg_metadata s = Some (EntryMeta b (px_highPrice (price ctx)))"
    using assms n b by (simp add: mb_realtime_entry_def Let_def split: if_splits)
  then show ?thesis using n b by (intro that) simp_all
qed

lemma exits_do_not_buy: "s \<in> set (signals (mb_exit t ctx p)) \<Longrightarrow> sg_side s = SELL"
  using mb_exit_signals [of t ctx p] by (auto simp: full_exit_def)

text \<open>
  A real-time purchase of the day-trading strategy meets every condition of its documentation: nothing
  is held, the market is domestic, no risk limit and no open order stands in the way, nothing was
  traded today, the time is in the entry window, the price has broken out and is not above the chase
  limit, and with no evaluable soft condition it does not buy.
\<close>

lemma breakout_entry_conditions:
  assumes "s \<in> set (signals (mb_evaluateStock clk ctx))" "sg_side s = BUY" "evaluationMode ctx \<noteq> Some DailyBar"
  shows "\<not> hasPosition ctx \<and> ws_market (watchStock ctx) = DOMESTIC \<and> \<not> flag (map_option rs_buyBlocked (riskState ctx)) \<and>
    hasOpenBuyOrder ctx \<noteq> Some True \<and> hasOpenSellOrder ctx \<noteq> Some True \<and> \<not> alreadyExecutedToday ctx \<and>
    parseTimeToMinutes (mb_entryStartTime (mb_params_of ctx)) 545 \<le> kst_minutes (coalesce (now ctx) clk) \<and>
    kst_minutes (coalesce (now ctx) clk) \<le> parseTimeToMinutes (mb_entryEndTime (mb_params_of ctx)) 870 \<and>
    (\<exists>b. resolveBreakoutPrice ctx = Inr b \<and> \<not> px_currentPrice (price ctx) < b \<and>
      \<not> b * (Fin 1 + mb_maxChaseRate (mb_params_of ctx)) < px_currentPrice (price ctx)) \<and>
    0 < so_evaluable (scoreSoftConditions ctx (kst_minutes (coalesce (now ctx) clk)))"
proof -
  let ?t = "coalesce (now ctx) clk"
  have h: "held_position ctx = None"
    using assms(1,2) exits_do_not_buy by (cases "held_position ctx") (auto simp: mb_evaluateStock_def Let_def)
  then have "s \<in> set (signals (mb_realtime_entry ?t ctx))"
    using assms(1,3) by (simp add: mb_evaluateStock_def Let_def split: if_splits)
  then obtain b where b: "mb_entry_block ?t ctx = None" "resolveBreakoutPrice ctx = Inr b"
      "\<not> px_currentPrice (price ctx) < b" "\<not> b * (Fin 1 + mb_maxChaseRate (mb_params_of ctx)) < px_currentPrice (price ctx)"
      "so_satisfied (scoreSoftConditions ctx (kst_minutes ?t))"
    by (rule mb_bought)
  have "ws_market (watchStock ctx) = DOMESTIC \<and> \<not> flag (map_option rs_buyBlocked (riskState ctx)) \<and>
    hasOpenBuyOrder ctx \<noteq> Some True \<and> hasOpenSellOrder ctx \<noteq> Some True \<and> \<not> alreadyExecutedToday ctx \<and>
    parseTimeToMinutes (mb_entryStartTime (mb_params_of ctx)) 545 \<le> kst_minutes ?t \<and>
    kst_minutes ?t \<le> parseTimeToMinutes (mb_entryEndTime (mb_params_of ctx)) 870"
    using b(1) by (simp add: mb_entry_block_def Let_def risk_buy_blocked_def split: if_splits)
  moreover have "0 < so_evaluable (scoreSoftConditions ctx (kst_minutes ?t))"
    using b(5) by (auto simp: scoreSoftConditions_def Let_def split: prod.splits)
  ultimately show ?thesis using h b by (auto simp: held_position_None)
qed

definition breakout_ctx :: mb_ctx where
  "breakout_ctx = (example_ctx DOMESTIC (Some (no_mb_params\<lparr>mp_maxChaseRate := Some (Fin 0), mp_kValue := Some (Fin 1)\<rparr>)) 100 None)
    \<lparr>price := \<lparr>px_currentPrice = Fin 100, px_openPrice = Fin 90, px_highPrice = Fin 100, px_lowPrice = Fin 89,
       px_volume = Fin 0, px_tradingValue = None\<rparr>,
     stockIndicators := no_indicators\<lparr>prevHigh := Some (Fin 110), prevLow := Some (Fin 100), foreignNetBuy := Some True\<rparr>,
     now := Some (60 * 60 * 1000)\<rparr>"

lemma breakout_ctx_buys:
  "mb_evaluateStock 0 breakout_ctx = with_details (Fin 100)
      (Some \<lparr>so_evaluable = 1, so_passed = 1, so_required = Fin 1, so_satisfied = True\<rparr>)
      (emit [order breakout_ctx BUY (Fin 10) None (MbEntry (Fin 100) (Fin 100) 1 1) None (Some (EntryMeta (Fin 100) (Fin 100)))])"
proof -
  note ev = breakout_ctx_def example_ctx_def no_indicators_def mb_params_of_def no_mb_params_def coalesce_def fl_eval Fin_arith or_num_def
  have b: "resolveBreakoutPrice breakout_ctx = Inr (Fin 100)" by (simp add: resolveBreakoutPrice_def mb_kValue_def ev)
  have q: "mb_quantity breakout_ctx (Fin 100) = Fin 10" by (simp add: mb_quantity_def ev)
  have so: "scoreSoftConditions breakout_ctx 600 = \<lparr>so_evaluable = 1, so_passed = 1, so_required = Fin 1, so_satisfied = True\<rparr>"
    by (simp add: scoreSoftConditions_def count_def soft_volume_def soft_vwap_def soft_flow_def mb_minSoftConditions_def ev) blast
  have w: "parseTimeToMinutes (mb_entryStartTime (mb_params_of breakout_ctx)) 545 = 545"
    "parseTimeToMinutes (mb_entryEndTime (mb_params_of breakout_ctx)) 870 = 870" "kst_minutes 3600000 = 600" by code_simp+
  have n: "mb_entry_block 3600000 breakout_ctx = None"
    by (simp add: mb_entry_block_def w Let_def) (simp add: risk_buy_blocked_def mddCheck_def market_warned_def ev)
  have l: "Fin 100 * (Fin 1 + mb_maxChaseRate (mb_params_of breakout_ctx)) = Fin 100" by (simp add: mb_maxChaseRate_def ev)
  have k: "kst_minutes 3600000 = 600" by code_simp
  have c: "px_currentPrice (price breakout_ctx) = Fin 100" "px_highPrice (price breakout_ctx) = Fin 100" "now breakout_ctx = Some 3600000"
    "held_position breakout_ctx = None" "evaluationMode breakout_ctx = None"
    by (simp_all add: breakout_ctx_def example_ctx_def held_position_def hasPosition_def)
  show ?thesis
    by (simp add: mb_evaluateStock_def mb_realtime_entry_def Let_def b q so n l k c coalesce_def)
qed

lemma breakout_entry_conditions_witness:
  "0 < so_evaluable (scoreSoftConditions breakout_ctx (kst_minutes (60 * 60 * 1000)))"
proof -
  have "evaluationMode breakout_ctx \<noteq> Some DailyBar" "coalesce (now breakout_ctx) 0 = 60 * 60 * 1000"
    by (simp_all add: breakout_ctx_def example_ctx_def coalesce_def)
  then show ?thesis
    using breakout_entry_conditions [of "order breakout_ctx BUY (Fin 10) None (MbEntry (Fin 100) (Fin 100) 1 1) None
      (Some (EntryMeta (Fin 100) (Fin 100)))" 0 breakout_ctx] breakout_ctx_buys by simp
qed

section \<open>The trailing stop\<close>

lemma trailing_needs_high:
  assumes "highSinceEntry ctx = None" "s \<in> set (signals (mb_evaluateStock clk ctx))"
  shows "sg_metadata s \<noteq> Some (ExitMeta ''trailing-stop'')"
proof (cases "held_position ctx")
  case None
  have e: "sg_side x = BUY \<and> (\<exists>b h. sg_metadata x = Some (EntryMeta b h))" if "x \<in> set (signals (mb_realtime_entry t ctx))" for x t
    using that by (rule mb_bought) simp
  have "s \<in> set (signals (mb_bar_entry ctx)) \<Longrightarrow> \<exists>b r q. sg_metadata s = Some (BarMeta b r q)"
    by (cases "resolveBreakoutPrice ctx") (auto simp: mb_bar_entry_def Let_def split: if_splits)
  then show ?thesis using None assms(2) e [of s] by (auto simp: mb_evaluateStock_def Let_def split: if_splits)
next
  case (Some p)
  let ?t = "coalesce (now ctx) clk"
  have s: "s \<in> set (signals (mb_exit ?t ctx p))" using Some assms(2) by (simp add: mb_evaluateStock_def Let_def)
  have pr: "s \<in> set (signals (mb_price_exit ctx p)) \<Longrightarrow> sg_metadata s \<noteq> Some (ExitMeta ''trailing-stop'')"
    using assms(1) by (simp add: mb_price_exit_def Let_def split: if_splits)
  show ?thesis
    using s pr by (cases "mp_entryDate (mb_params_of ctx)") (auto simp: mb_exit_def Let_def split: if_splits)
qed

text \<open>
  The trailing stop waits for a high made after the entry: when the purchase of an evaluation has been
  filled and its high recorded, no later evaluation sells by the trailing stop while the day's high is
  still the one of the entry. Before the record the high of the session, with a spike before the entry,
  would have triggered it at once.
\<close>

lemma trailing_waits_for_new_high:
  assumes "s \<in> set (signals (mb_realtime_entry t ctx))" "sg_metadata s = Some m"
    "sg_side s' = BUY" "sg_metadata s' = Some (mb_signal_meta m)"
    "find_stock i (handleMomentumBreakoutSignalFill f i s' q ws) = Some w"
    "mp_entryDayHigh (mb_params_of ctx') = jp_entryDayHigh (params_of w)"
    "\<not> px_highPrice (price ctx) < px_highPrice (price ctx')" "x \<in> set (signals (mb_evaluateStock clk ctx'))"
  shows "sg_metadata x \<noteq> Some (ExitMeta ''trailing-stop'')"
proof -
  obtain b where "sg_metadata s = Some (EntryMeta b (px_highPrice (price ctx)))"
    using assms(1) by (rule mb_bought)
  then have md: "md_entryDayHigh (meta s') = (if isFinite (px_highPrice (price ctx)) then Some (px_highPrice (price ctx)) else None)"
    using assms(2,4) by (simp add: meta_def coalesce_def mb_signal_meta_def)
  have "jp_entryDayHigh (params_of w) \<in> {None, Some (px_highPrice (price ctx))}"
    using assms(3,5) md
    by (auto simp: handleMomentumBreakoutSignalFill_def updateWatchStockStrategyParams_def find_written split: option.splits)
  then have "highSinceEntry ctx' = None"
    using assms(6,7) by (auto simp: highSinceEntry_def)
  then show ?thesis using assms(8) by (rule trailing_needs_high)
qed

definition stopped_ctx :: mb_ctx where
  "stopped_ctx = (example_ctx DOMESTIC (Some (no_mb_params\<lparr>mp_entryDayHigh := Some (Fin 100), mp_stopLossRate := Some (Fin (1 / 2))\<rparr>)) 40
     (Some (example_position 9 100)))\<lparr>now := Some (2 * 60 * 60 * 1000)\<rparr>"

lemma trailing_waits_for_new_high_witness:
  "list_all (\<lambda>x. sg_metadata x \<noteq> Some (ExitMeta ''trailing-stop'')) (signals (mb_evaluateStock 0 stopped_ctx)) \<and>
   length (signals (mb_evaluateStock 0 stopped_ctx)) = 1"
proof
  let ?m = "EntryMeta (Fin 100) (Fin 100)"
  let ?s = "order breakout_ctx BUY (Fin 10) None (MbEntry (Fin 100) (Fin 100) 1 1) None (Some ?m)"
  let ?s' = "order breakout_ctx BUY (Fin 10) None ''r'' None (Some (mb_signal_meta ?m))"
  let ?row = "watchStock (example_ctx DOMESTIC (Some empty_params) 100 None)"
  let ?ws = "handleMomentumBreakoutSignalFill 3600000 ''w1'' ?s' (Fin 0) [?row]"
  let ?p = "empty_params\<lparr>jp_entryDate := Some (getKstDateString 3600000), jp_entryDayHigh := Some (Fin 100), jp_halfTakeProfitDone := None\<rparr>"
  have "now breakout_ctx = Some 3600000" "held_position breakout_ctx = None" "evaluationMode breakout_ctx = None"
    "px_currentPrice (price breakout_ctx) = Fin 100"
    by (simp_all add: breakout_ctx_def example_ctx_def held_position_def hasPosition_def)
  then have s: "?s \<in> set (signals (mb_realtime_entry 3600000 breakout_ctx))"
    using breakout_ctx_buys by (simp add: mb_evaluateStock_def Let_def coalesce_def)
  have r: "find_stock ''w1'' ?ws = Some (?row\<lparr>ws_strategyParams := Some ?p\<rparr>)"
    by (simp add: handleMomentumBreakoutSignalFill_def updateWatchStockStrategyParams_def find_written)
       (simp add: find_stock_def write_params_def example_ctx_def params_of_def coalesce_def meta_def mb_signal_meta_def finite_opt_def num_def)
  have h: "mp_entryDayHigh (mb_params_of stopped_ctx) = jp_entryDayHigh (params_of (?row\<lparr>ws_strategyParams := Some ?p\<rparr>))"
    by (simp add: mb_params_of_def stopped_ctx_def example_ctx_def params_of_def coalesce_def)
  have u: "\<not> px_highPrice (price breakout_ctx) < px_highPrice (price stopped_ctx)"
    by (simp add: breakout_ctx_def stopped_ctx_def example_ctx_def)
  show "list_all (\<lambda>x. sg_metadata x \<noteq> Some (ExitMeta ''trailing-stop'')) (signals (mb_evaluateStock 0 stopped_ctx))"
    unfolding list_all_iff
    by (intro ballI trailing_waits_for_new_high [OF s _ _ _ r h u]) simp_all
  have "mb_exitMinutes (mb_params_of stopped_ctx) = 910" by code_simp
  moreover have "kst_minutes 7200000 = 660" by code_simp
  ultimately show "length (signals (mb_evaluateStock 0 stopped_ctx)) = 1"
    by (simp add: mb_evaluateStock_def mb_exit_def mb_price_exit_def Let_def held_position_def hasPosition_def mddCheck_def
        mb_profitRate_def mb_stopLossRate_def stopped_ctx_def example_ctx_def example_position_def mb_params_of_def no_mb_params_def
        coalesce_def Fin_arith fl_eval)
qed

end
