(* ===== verification/RiskManagement.thy ===== *)
theory RiskManagement
  imports Conservative TrendFollowing GridReversion ValueFactor DailyDca
begin

text \<open>
  The portfolio risk state (\<open>src/trading/risk-management.service.ts\<close>): drawdown and rates from the position rows
  and the last snapshot, and the daily snapshot. Snapshot rows are listed in the order of their creation. A
  decimal column is a function of its precision, its scale and the number written: what is read back, or nothing
  when the database refuses it. Then what the drawdown test of the strategies makes of it.
\<close>

section \<open>Data\<close>

record position_row =
  pr_broker :: broker
  pr_market :: market
  pr_quantity :: jsnum
  pr_avgPrice :: jsnum
  pr_currentPrice :: jsnum

record risk_snapshot =
  rk_broker :: broker
  rk_market :: market
  rk_date :: string
  rk_portfolioValue :: jsnum
  rk_cashBalance :: jsnum
  rk_dailyPnl :: jsnum
  rk_dailyPnlRate :: jsnum
  rk_drawdown :: jsnum
  rk_peakValue :: jsnum
  rk_positionCount :: jsnum
  rk_investedRate :: jsnum

definition positions_of :: "broker \<Rightarrow> market \<Rightarrow> position_row list \<Rightarrow> position_row list" where
  "positions_of b m = filter (\<lambda>p. pr_broker p = b \<and> pr_market p = m)"

definition latest_snapshot :: "broker \<Rightarrow> market \<Rightarrow> risk_snapshot list \<Rightarrow> risk_snapshot option" where
  "latest_snapshot b m rows =
    (case filter (\<lambda>s. rk_broker s = b \<and> rk_market s = m) rows of [] \<Rightarrow> None | s # ss \<Rightarrow> Some (last (s # ss)))"

definition sum_products :: "(position_row \<Rightarrow> jsnum) \<Rightarrow> position_row list \<Rightarrow> jsnum" where
  "sum_products f ps = foldl (\<lambda>s p. s + pr_quantity p * f p) (Fin 0) ps"

definition rate_of :: "jsnum \<Rightarrow> jsnum \<Rightarrow> jsnum" where
  "rate_of a b = (if b > Fin 0 then a / b else Fin 0)"

section \<open>The operations\<close>

definition evaluateRisk :: "broker \<Rightarrow> market \<Rightarrow> position_row list \<Rightarrow> risk_snapshot list \<Rightarrow> risk_state" where
  "evaluateRisk b m rows snapshots =
    (let positions = positions_of b m rows;
         totalInvested = sum_products pr_avgPrice positions;
         totalCurrentValue = sum_products pr_currentPrice positions;
         latestSnapshot = latest_snapshot b m snapshots;
         cashBalance = (case latestSnapshot of None \<Rightarrow> Fin 0 | Some s \<Rightarrow> rk_cashBalance s);
         totalValue = totalCurrentValue + cashBalance;
         peakValue = (case latestSnapshot of None \<Rightarrow> totalCurrentValue | Some s \<Rightarrow> max_num (rk_peakValue s) totalCurrentValue)
     in \<lparr>rs_buyBlocked = False, rs_liquidateAll = False, rs_positionCount = Fin (of_nat (length positions)),
         rs_investedRate = rate_of totalCurrentValue totalValue,
         rs_dailyPnlRate = rate_of (totalCurrentValue - totalInvested) totalInvested,
         rs_drawdown = rate_of (totalCurrentValue - peakValue) peakValue, rs_reasons = []\<rparr>)"

definition checkSingleStockLimit :: "jsnum \<Rightarrow> jsnum \<Rightarrow> bool" where
  "checkSingleStockLimit stockInvested portfolio =
    (if portfolio \<le> Fin 0 then False else stockInvested / portfolio > lit (15 / 100))"

text \<open>One row for each broker, market and day; a refused write is logged and leaves the rows as they are.\<close>

definition upsert_snapshot :: "risk_snapshot \<Rightarrow> risk_snapshot list \<Rightarrow> risk_snapshot list" where
  "upsert_snapshot r rows =
    (let same = (\<lambda>s. rk_broker s = rk_broker r \<and> rk_market s = rk_market r \<and> rk_date s = rk_date r) in
     if list_ex same rows then map (\<lambda>s. if same s then r else s) rows else rows @ [r])"

definition saveRiskSnapshot :: "(nat \<Rightarrow> nat \<Rightarrow> jsnum \<Rightarrow> jsnum option) \<Rightarrow> string \<Rightarrow> broker \<Rightarrow> market \<Rightarrow> jsnum \<Rightarrow> jsnum \<Rightarrow>
    position_row list \<Rightarrow> risk_snapshot list \<Rightarrow> risk_snapshot list" where
  "saveRiskSnapshot column today b m portfolioValue cashBalance positions rows =
    (let prevSnapshot = latest_snapshot b m rows;
         prevPortfolioValue = (case prevSnapshot of None \<Rightarrow> portfolioValue | Some s \<Rightarrow> rk_portfolioValue s);
         peakValue = (case prevSnapshot of None \<Rightarrow> portfolioValue | Some s \<Rightarrow> max_num (rk_peakValue s) portfolioValue);
         dailyPnl = portfolioValue - prevPortfolioValue;
         amount = column 16 4; rate = column 8 6
     in case (amount portfolioValue, amount cashBalance, amount dailyPnl, rate (rate_of dailyPnl prevPortfolioValue),
              rate (rate_of (portfolioValue - peakValue) peakValue), amount peakValue,
              rate (rate_of portfolioValue (portfolioValue + cashBalance))) of
          (Some v, Some c, Some p, Some pr, Some dd, Some pk, Some ir) \<Rightarrow>
            upsert_snapshot \<lparr>rk_broker = b, rk_market = m, rk_date = today, rk_portfolioValue = v, rk_cashBalance = c,
              rk_dailyPnl = p, rk_dailyPnlRate = pr, rk_drawdown = dd, rk_peakValue = pk,
              rk_positionCount = Fin (of_nat (length (positions_of b m positions))), rk_investedRate = ir\<rparr> rows
        | _ \<Rightarrow> rows)"

section \<open>The strategies' drawdown test\<close>

text \<open>A strategy that buys only while the drawdown is above its own threshold.\<close>

locale drawdown_guarded =
  fixes evaluate :: "'p strategy_context \<Rightarrow> ('r, 'm, 's, 'd) evaluation" and block :: jsnum
  assumes no_buy: "riskState ctx = Some rs \<Longrightarrow> rs_drawdown rs \<le> block \<Longrightarrow> s \<in> set (signals (evaluate ctx)) \<Longrightarrow> sg_side s \<noteq> BUY"
    and above_total_loss: "Fin (- 1) \<le> block"
begin

lemma exit_stops_buys:
  "riskState ctx = Some rs \<Longrightarrow> rs_drawdown rs = Fin (- 1) \<Longrightarrow> s \<in> set (signals (evaluate ctx)) \<Longrightarrow> sg_side s = SELL"
  using no_buy [of ctx rs s] above_total_loss by (cases "sg_side s") auto

end

lemma blocked: "riskState ctx = Some rs \<Longrightarrow> rs_drawdown rs \<le> block \<Longrightarrow> risk_buy_blocked ctx (mddCheck block l ctx)"
  by (simp add: risk_buy_blocked_def mddCheck_def evaluateStrategyMdd_def)

lemma thresholds: "Fin (- 1) \<le> cons_mddBuyBlock" "Fin (- 1) \<le> trend_mddBuyBlock" "Fin (- 1) \<le> grid_mddBuyBlock"
    "Fin (- 1) \<le> value_mddBuyBlock" "Fin (- 1) \<le> dca_mddBuyBlock"
  by (simp_all add: cons_mddBuyBlock_def trend_mddBuyBlock_def grid_mddBuyBlock_def value_mddBuyBlock_def dca_mddBuyBlock_def fl_eval)

interpretation cons_guard: drawdown_guarded cons_evaluateStock cons_mddBuyBlock
proof
  fix ctx :: "cons_params strategy_context" and rs s
  assume a: "riskState ctx = Some rs" "rs_drawdown rs \<le> cons_mddBuyBlock" "s \<in> set (signals (cons_evaluateStock ctx))"
  from blocked [OF a(1,2)] a(3) cons_exit_signals [of ctx _ s] show "sg_side s \<noteq> BUY"
    by (auto simp: cons_evaluateStock_def cons_entry_def Let_def split: if_splits option.splits)
qed (rule thresholds)

interpretation dca_guard: drawdown_guarded dca_evaluateStock dca_mddBuyBlock
proof
  fix ctx :: "dca_params strategy_context" and rs s
  assume a: "riskState ctx = Some rs" "rs_drawdown rs \<le> dca_mddBuyBlock" "s \<in> set (signals (dca_evaluateStock ctx))"
  from blocked [OF a(1,2), of dca_mddLiquidate] a(3) show "sg_side s \<noteq> BUY"
    by (auto simp: dca_evaluateStock_def Let_def split: if_splits)
qed (rule thresholds)

interpretation value_guard: drawdown_guarded value_evaluateStock value_mddBuyBlock
proof
  fix ctx :: "value_params strategy_context" and rs s
  assume a: "riskState ctx = Some rs" "rs_drawdown rs \<le> value_mddBuyBlock" "s \<in> set (signals (value_evaluateStock ctx))"
  from blocked [OF a(1,2)] a(3) value_exit_signals [of ctx _ s] show "sg_side s \<noteq> BUY"
    by (auto simp: value_evaluateStock_def value_entry_def Let_def split: if_splits option.splits)
qed (rule thresholds)

interpretation trend_guard: drawdown_guarded trend_evaluateStock trend_mddBuyBlock
proof
  fix ctx :: "trend_params strategy_context" and rs s
  assume a: "riskState ctx = Some rs" "rs_drawdown rs \<le> trend_mddBuyBlock" "s \<in> set (signals (trend_evaluateStock ctx))"
  from blocked [OF a(1,2)] a(3) show "sg_side s \<noteq> BUY"
    by (auto simp: trend_evaluateStock_def trend_held_def trend_entry_def Let_def split: if_splits option.splits)
qed (rule thresholds)

interpretation grid_guard: drawdown_guarded grid_evaluateStock grid_mddBuyBlock
proof
  fix ctx :: "grid_params strategy_context" and rs s
  assume a: "riskState ctx = Some rs" "rs_drawdown rs \<le> grid_mddBuyBlock" "s \<in> set (signals (grid_evaluateStock ctx))"
  from blocked [OF a(1,2)] a(3) show "sg_side s \<noteq> BUY"
    by (auto simp: grid_evaluateStock_def grid_held_def grid_entry_def Let_def split: if_splits option.splits)
qed (rule thresholds)

section \<open>After everything is sold\<close>

definition sold_out :: "broker \<Rightarrow> market \<Rightarrow> position_row list \<Rightarrow> bool" where
  "sold_out b m rows = list_all (\<lambda>p. pr_quantity p = Fin 0 \<and> isFinite (pr_currentPrice p)) (positions_of b m rows)"

text \<open>There are snapshots, each with a positive peak that the column stores as it is.\<close>

definition peaks_kept :: "(nat \<Rightarrow> nat \<Rightarrow> jsnum \<Rightarrow> jsnum option) \<Rightarrow> broker \<Rightarrow> market \<Rightarrow> risk_snapshot list \<Rightarrow> bool" where
  "peaks_kept column b m rows \<longleftrightarrow>
     list_ex (\<lambda>s. rk_broker s = b \<and> rk_market s = m) rows \<and>
     list_all (\<lambda>s. rk_broker s = b \<and> rk_market s = m \<longrightarrow> isFinite (rk_peakValue s) \<and> Fin 0 < rk_peakValue s \<and>
       dbl (rk_peakValue s) \<and> column 16 4 (rk_peakValue s) = Some (rk_peakValue s)) rows"

text \<open>The daily snapshots of a market without holdings.\<close>

definition empty_days :: "(nat \<Rightarrow> nat \<Rightarrow> jsnum \<Rightarrow> jsnum option) \<Rightarrow> broker \<Rightarrow> market \<Rightarrow> position_row list \<Rightarrow> (string \<times> jsnum) list \<Rightarrow>
    risk_snapshot list \<Rightarrow> risk_snapshot list" where
  "empty_days column b m positions days rows =
     fold (\<lambda>(today, cash). saveRiskSnapshot column today b m (Fin 0) cash positions) days rows"

lemma latest_in: "latest_snapshot b m rows = Some s \<Longrightarrow> s \<in> set rows \<and> rk_broker s = b \<and> rk_market s = m"
  using last_in_set [of "filter (\<lambda>s. rk_broker s = b \<and> rk_market s = m) rows"]
  by (auto simp: latest_snapshot_def split: list.splits)

lemma latest_exists: "list_ex (\<lambda>s. rk_broker s = b \<and> rk_market s = m) rows \<Longrightarrow> \<exists>s. latest_snapshot b m rows = Some s"
  by (auto simp: latest_snapshot_def list_ex_iff filter_empty_conv split: list.splits)

lemma upserted: "s \<in> set (upsert_snapshot r rows) \<Longrightarrow> s = r \<or> s \<in> set rows"
  by (auto simp: upsert_snapshot_def Let_def split: if_splits)

lemma upserted_here: "r \<in> set (upsert_snapshot r rows)"
  by (force simp: upsert_snapshot_def Let_def list_ex_iff)

lemma peaks_kept_save:
  assumes "peaks_kept column b m rows"
  shows "peaks_kept column b m (saveRiskSnapshot column today b m (Fin 0) cash positions rows)"
proof -
  obtain s where s: "latest_snapshot b m rows = Some s" using assms latest_exists unfolding peaks_kept_def by blast
  have p: "isFinite (rk_peakValue s)" "Fin 0 < rk_peakValue s" "dbl (rk_peakValue s)" "column 16 4 (rk_peakValue s) = Some (rk_peakValue s)"
    using latest_in [OF s] assms by (auto simp: peaks_kept_def list_all_iff)
  obtain q where q: "rk_peakValue s = Fin q" "0 < q" using p(1,2) by (auto simp: isFinite_iff)
  have m: "max_num (rk_peakValue s) (Fin 0) = rk_peakValue s" using q by (simp add: max_def)
  let ?rows = "saveRiskSnapshot column today b m (Fin 0) cash positions rows"
  have "?rows = rows \<or> (\<exists>r. ?rows = upsert_snapshot r rows \<and> rk_broker r = b \<and> rk_market r = m \<and> rk_peakValue r = rk_peakValue s)"
    by (auto simp: saveRiskSnapshot_def Let_def s m p(4) split: option.splits)
  then show ?thesis
  proof (elim disjE exE conjE)
    fix r assume r: "?rows = upsert_snapshot r rows" "rk_broker r = b" "rk_market r = m" "rk_peakValue r = rk_peakValue s"
    then show ?thesis using assms p upserted [of _ r rows] upserted_here [of r rows]
      unfolding peaks_kept_def list_ex_iff list_all_iff by metis
  qed (use assms in simp)
qed

lemma peaks_kept_days: "peaks_kept column b m rows \<Longrightarrow> peaks_kept column b m (empty_days column b m positions days rows)"
  unfolding empty_days_def by (induction days arbitrary: rows) (auto simp: peaks_kept_save)

lemma sold_out_value:
  assumes "sold_out b m rows" shows "sum_products pr_currentPrice (positions_of b m rows) = Fin 0"
proof -
  have "foldl (\<lambda>s p. s + pr_quantity p * pr_currentPrice p) (Fin 0) ps = Fin 0"
    if "list_all (\<lambda>p. pr_quantity p = Fin 0 \<and> isFinite (pr_currentPrice p)) ps" for ps :: "position_row list"
    using that by (induction ps) (auto simp: isFinite_iff mult_Fin add_Fin)
  then show ?thesis using assms by (simp add: sold_out_def sum_products_def)
qed

lemma total_drawdown:
  assumes "sold_out b m rows" "peaks_kept column b m snapshots"
  shows "rs_drawdown (evaluateRisk b m rows snapshots) = Fin (- 1)"
proof -
  obtain s where s: "latest_snapshot b m snapshots = Some s" using assms(2) latest_exists unfolding peaks_kept_def by blast
  obtain q where q: "rk_peakValue s = Fin q" "0 < q" "dbl (Fin q)"
    using latest_in [OF s] assms(2) by (auto simp: peaks_kept_def list_all_iff isFinite_iff)
  have "fl (- q) = Fin (- q)" using q(2,3) dbl_Fin_rnd [OF q(3)] by (auto simp: dbl_Fin fl_def Let_def rnd_uminus split: if_splits)
  then have "(Fin 0 - Fin q) / Fin q = Fin (- 1)" using q(2) fl_of_int [of "- 1"] by (simp add: diff_Fin div_Fin)
  then show ?thesis using q by (simp add: evaluateRisk_def Let_def sold_out_value [OF assms(1)] s rate_of_def max_def)
qed


text \<open>
  Selling looks like losing: when a quarter or more of the peak has been sold, at whatever gain, the conservative
  strategy sells every other holding of the market in full.
\<close>

lemma sale_liquidates_the_rest:
  assumes "latest_snapshot b m rows = Some s" "rk_peakValue s = Fin (of_int p)" "0 < p" "p \<le> 2 ^ 53"
    "sum_products pr_currentPrice (positions_of b m positions) = Fin (of_int v)" "0 \<le> v" "4 * v \<le> 3 * p"
    "riskState ctx = Some (evaluateRisk b m positions rows)" "held_position ctx = Some h" "Fin 0 < px_currentPrice (price ctx)"
  shows "map (\<lambda>x. (sg_side x, sg_quantity x)) (signals (cons_evaluateStock ctx)) = [(SELL, pos_quantity h)]"
proof -
  have d: "(Fin (of_int v) - Fin (of_int p)) / Fin (of_int p) \<le> Fin (- (1 / 4))"
  proof -
    have "Fin (of_int v) - Fin (of_int p) = Fin (of_int (v - p))" using fl_of_int [of "v - p"] assms(3,4,6,7) by (simp add: diff_Fin)
    moreover have "(of_int (v - p) :: rat) / of_int p \<le> - (1 / 4)"
    proof -
      have "(4 :: rat) * of_int v \<le> 3 * of_int p" using assms(7) by (metis of_int_le_iff of_int_mult of_int_numeral)
      then show ?thesis using assms(3) by (simp add: divide_le_eq)
    qed
    moreover have "fl (- (1 / 4)) = Fin (- (1 / 4))" by (simp add: fl_eval)
    ultimately show ?thesis using assms(3) fl_mono [of "of_int (v - p) / of_int p" "- (1 / 4)"] by (simp add: div_Fin)
  qed
  have "rs_drawdown (evaluateRisk b m positions rows) = (Fin (of_int v) - Fin (of_int p)) / Fin (of_int p)"
  proof -
    have "v \<le> p" using assms(3,7) by linarith
    then have "max_num (Fin (of_int p)) (Fin (of_int v)) = Fin (of_int p)" by (simp add: max_def)
    then show ?thesis using assms(3) by (simp add: evaluateRisk_def Let_def assms(1,2,5) rate_of_def)
  qed
  moreover have "Fin (- (1 / 4)) \<le> cons_mddLiquidate" by (simp add: cons_mddLiquidate_def fl_eval)
  ultimately have "rs_drawdown (evaluateRisk b m positions rows) \<le> cons_mddLiquidate" using d js_le_trans by metis
  moreover have "\<not> px_currentPrice (price ctx) \<le> Fin 0" using assms(10) by (auto simp: zero_less_iff)
  ultimately show ?thesis
    using assms(8,9) by (simp add: cons_evaluateStock_def Let_def mddCheck_def evaluateStrategyMdd_def)
qed

section \<open>Examples\<close>

definition sold_row :: position_row where
  "sold_row = \<lparr>pr_broker = KIS, pr_market = DOMESTIC, pr_quantity = Fin 0, pr_avgPrice = Fin 50, pr_currentPrice = Fin 80\<rparr>"

definition peak_row :: risk_snapshot where
  "peak_row = \<lparr>rk_broker = KIS, rk_market = DOMESTIC, rk_date = ''2026-07-10'', rk_portfolioValue = Fin 800, rk_cashBalance = Fin 200,
     rk_dailyPnl = Fin 0, rk_dailyPnlRate = Fin 0, rk_drawdown = Fin 0, rk_peakValue = Fin 800, rk_positionCount = Fin 1, rk_investedRate = Fin 1\<rparr>"

definition at_risk :: "risk_state \<Rightarrow> 'p strategy_context \<Rightarrow> 'p strategy_context" where
  "at_risk rs ctx = ctx\<lparr>riskState := Some rs\<rparr>"


definition kept_row :: position_row where
  "kept_row = \<lparr>pr_broker = KIS, pr_market = DOMESTIC, pr_quantity = Fin 7, pr_avgPrice = Fin 50, pr_currentPrice = Fin 80\<rparr>"

lemma sale_liquidates_the_rest_witness:
  "map (\<lambda>x. (sg_side x, sg_quantity x)) (signals (cons_evaluateStock
     (at_risk (evaluateRisk KIS DOMESTIC [kept_row] [peak_row]) (example_ctx DOMESTIC None 80 (Some (example_position 7 50)))))) = [(SELL, Fin 7)]"
  (is "map _ (signals (cons_evaluateStock ?ctx)) = _")
proof -
  have l: "latest_snapshot KIS DOMESTIC [peak_row] = Some peak_row" "rk_peakValue peak_row = Fin (of_int 800)"
    by (simp_all add: latest_snapshot_def peak_row_def)
  have v: "sum_products pr_currentPrice (positions_of KIS DOMESTIC [kept_row]) = Fin (of_int 560)"
    by (simp add: sum_products_def positions_of_def kept_row_def Fin_arith)
  have h: "held_position ?ctx = Some (example_position 7 50)" "Fin 0 < px_currentPrice (price ?ctx)"
    by (simp_all add: held_position_def hasPosition_def at_risk_def example_ctx_def example_position_def)
  show ?thesis
    using sale_liquidates_the_rest [OF l _ _ v _ _ _ h] by (simp add: at_risk_def example_position_def)
qed

end
