(* ===== verification/MarketIndicators.thy ===== *)
theory MarketIndicators imports Prelude begin

text \<open>
  The technical indicators of \<open>src/trading/market-analysis.service.ts\<close>, on lists with the newest day first, in
  the rounding and the order of addition of the code. The square squareRoot is an argument: the language leaves its
  accuracy to the implementation. A power with exponent two is a product.
\<close>

section \<open>Averages\<close>

definition num :: "nat \<Rightarrow> jsnum" where "num n = Fin (of_nat n)"

definition fsum :: "jsnum list \<Rightarrow> jsnum" where "fsum xs = foldl (+) (Fin 0) xs"

definition highest :: "jsnum list \<Rightarrow> jsnum" where "highest xs = foldl max_num NInf xs"

definition lowest :: "jsnum list \<Rightarrow> jsnum" where "lowest xs = foldl min_num PInf xs"

definition windows :: "nat \<Rightarrow> 'a list \<Rightarrow> 'a list list" where
  "windows n xs = map (\<lambda>start. take n (drop start xs)) [0..<length xs + 1 - n]"

definition calculateMA :: "jsnum list \<Rightarrow> nat \<Rightarrow> jsnum" where
  "calculateMA prices period = (if length prices < period then Fin 0 else fsum (take period prices) / num period)"

definition calculateAvgVolume :: "jsnum list \<Rightarrow> nat \<Rightarrow> jsnum" where
  "calculateAvgVolume volumes period = (if length volumes < period then Fin 0 else fsum (take period volumes) / num period)"

fun ema_run :: "jsnum \<Rightarrow> jsnum \<Rightarrow> jsnum list \<Rightarrow> jsnum list" where
  "ema_run multiplier previous [] = []"
| "ema_run multiplier previous (x # xs) =
    (let val = (x - previous) * multiplier + previous in val # ema_run multiplier val xs)"

definition calculateEMA :: "jsnum list \<Rightarrow> nat \<Rightarrow> jsnum list" where
  "calculateEMA prices period =
    (if length prices < period then []
     else let reversed = rev prices; first = fsum (take period reversed) / num period in
     rev (first # ema_run (Fin 2 / num (period + 1)) first (drop period reversed)))"

definition calculateSmaSeries :: "jsnum list \<Rightarrow> nat \<Rightarrow> jsnum list" where
  "calculateSmaSeries values period =
    (if length values < period then [] else map (\<lambda>w. fsum w / num period) (windows period values))"

definition calculateVWMA :: "jsnum list \<Rightarrow> jsnum list \<Rightarrow> nat \<Rightarrow> jsnum" where
  "calculateVWMA prices volumes period =
    (if length prices < period \<or> length volumes < period then Fin 0
     else case foldl (\<lambda>(volumeSum, weightedSum) (p, v). (volumeSum + v, weightedSum + p * v)) (Fin 0, Fin 0)
         (zip (take period prices) (take period volumes)) of
       (volumeSum, weightedSum) \<Rightarrow> if volumeSum > Fin 0 then weightedSum / volumeSum else Fin 0)"

definition calculateWmaSeries :: "jsnum list \<Rightarrow> nat \<Rightarrow> jsnum list" where
  "calculateWmaSeries prices period =
    (if length prices < period then []
     else map (\<lambda>w. foldl (\<lambda>weighted (p, k). weighted + p * num k) (Fin 0) (zip w (rev [1..<period + 1])) /
         (num period * num (period + 1) / Fin 2)) (windows period prices))"

definition whole :: "jsnum \<Rightarrow> nat" where
  "whole x = (case x of Fin q \<Rightarrow> nat \<lfloor>q\<rfloor> | _ \<Rightarrow> 0)"

definition calculateHMA :: "(jsnum \<Rightarrow> jsnum) \<Rightarrow> jsnum list \<Rightarrow> nat \<Rightarrow> jsnum" where
  "calculateHMA squareRoot prices period =
    (if length prices < period then Fin 0
     else let half = max 1 (period div 2); sqrtPeriod = max 1 (whole (floor_num (squareRoot (num period))));
         halfWma = calculateWmaSeries prices half; fullWma = calculateWmaSeries prices period;
         rawSeries = map (\<lambda>(h, f). Fin 2 * h - f) (zip halfWma fullWma) in
     if rawSeries = [] then Fin 0
     else case calculateWmaSeries rawSeries sqrtPeriod of [] \<Rightarrow> Fin 0 | x # _ \<Rightarrow> x)"

section \<open>Spread\<close>

definition square_sum :: "jsnum \<Rightarrow> jsnum list \<Rightarrow> jsnum" where
  "square_sum mean xs = foldl (\<lambda>s x. s + (x - mean) * (x - mean)) (Fin 0) xs"

record bollinger_bands =
  bb_upper :: jsnum
  bb_middle :: jsnum
  bb_lower :: jsnum

definition calculateBollingerBands :: "(jsnum \<Rightarrow> jsnum) \<Rightarrow> jsnum list \<Rightarrow> nat \<Rightarrow> jsnum \<Rightarrow> bollinger_bands" where
  "calculateBollingerBands squareRoot closes period multiplier =
    (let middle = calculateMA closes period; variance = square_sum middle (take period closes) / num period;
         stdDev = squareRoot variance in
     \<lparr>bb_upper = middle + multiplier * stdDev, bb_middle = middle, bb_lower = middle - multiplier * stdDev\<rparr>)"

definition calculateVolatility :: "(jsnum \<Rightarrow> jsnum) \<Rightarrow> jsnum list \<Rightarrow> jsnum" where
  "calculateVolatility squareRoot closes =
    (let returns = List.map_filter (\<lambda>(c, c'). if c > Fin 0 \<and> c' > Fin 0 then Some (c / c' - Fin 1) else None) (zip closes (tl closes)) in
     if returns = [] then Fin 0
     else let mean = fsum returns / num (length returns); variance = square_sum mean returns / num (length returns) in
     squareRoot variance * squareRoot (Fin 252) * Fin 100)"

definition calculateCCI :: "jsnum list \<Rightarrow> nat \<Rightarrow> jsnum" where
  "calculateCCI source period =
    (if length source < period then NaN
     else let values = take period source; sma = fsum values / num period;
         meanDeviation = foldl (\<lambda>s v. s + \<bar>v - sma\<bar>) (Fin 0) values / num period in
     if js_eq meanDeviation (Fin 0) then Fin 0 else (hd values - sma) / (lit (15 / 1000) * meanDeviation))"

section \<open>Relative strength\<close>

definition price_changes :: "jsnum list \<Rightarrow> jsnum list" where
  "price_changes prices = map (\<lambda>(p, q). p - q) (zip prices (tl prices))"

fun rsi_add :: "jsnum \<times> jsnum \<Rightarrow> jsnum \<Rightarrow> jsnum \<times> jsnum" where
  "rsi_add (g, l) c = (if c > Fin 0 then (g + c, l) else (g, l + \<bar>c\<bar>))"

fun rsi_smooth :: "nat \<Rightarrow> jsnum \<times> jsnum \<Rightarrow> jsnum \<Rightarrow> jsnum \<times> jsnum" where
  "rsi_smooth period (g, l) c =
    (if c > Fin 0 then ((g * num (period - 1) + c) / num period, l * num (period - 1) / num period)
     else (g * num (period - 1) / num period, (l * num (period - 1) + \<bar>c\<bar>) / num period))"

definition rsi_averages :: "jsnum list \<Rightarrow> nat \<Rightarrow> jsnum \<times> jsnum" where
  "rsi_averages changes period =
    (let start = length changes - period; (g, l) = foldl rsi_add (Fin 0, Fin 0) (drop start changes)
     in foldl (rsi_smooth period) (g / num period, l / num period) (rev (take start changes)))"

definition rsi_of :: "jsnum \<times> jsnum \<Rightarrow> jsnum" where
  "rsi_of gl = (case gl of (avgGain, avgLoss) \<Rightarrow>
     if js_eq avgLoss (Fin 0) then Fin 100 else Fin 100 - Fin 100 / (Fin 1 + avgGain / avgLoss))"

definition calculateRSI :: "jsnum list \<Rightarrow> nat \<Rightarrow> jsnum" where
  "calculateRSI prices period =
    (if length prices < period + 1 then Fin 50 else rsi_of (rsi_averages (price_changes prices) period))"

record macd =
  mc_line :: jsnum
  mc_signal :: jsnum
  mc_histogram :: jsnum
  mc_prevHistogram :: jsnum

definition first_or_zero :: "jsnum list \<Rightarrow> jsnum" where
  "first_or_zero xs = (case xs of [] \<Rightarrow> Fin 0 | x # _ \<Rightarrow> or_num x (Fin 0))"

definition calculateMACD :: "jsnum list \<Rightarrow> macd" where
  "calculateMACD closes =
    (let ema12 = calculateEMA closes 12; ema26 = calculateEMA closes 26 in
     if ema12 = [] \<or> ema26 = [] then \<lparr>mc_line = Fin 0, mc_signal = Fin 0, mc_histogram = Fin 0, mc_prevHistogram = Fin 0\<rparr>
     else let macdLine = map (\<lambda>(a, b). a - b) (zip ema12 ema26); signalLine = calculateEMA macdLine 9 in
     case (macdLine, signalLine) of
       (m0 # m1 # _, s0 # s1 # _) \<Rightarrow> \<lparr>mc_line = m0, mc_signal = s0, mc_histogram = m0 - s0, mc_prevHistogram = m1 - s1\<rparr>
     | _ \<Rightarrow> \<lparr>mc_line = first_or_zero macdLine, mc_signal = first_or_zero signalLine,
           mc_histogram = first_or_zero macdLine - first_or_zero signalLine, mc_prevHistogram = Fin 0\<rparr>)"

section \<open>Directional movement\<close>

text \<open>One day after another, oldest first: the true range and the movements up and down.\<close>

type_synonym hlc = "jsnum \<times> jsnum \<times> jsnum"

definition movement :: "hlc \<times> hlc \<Rightarrow> jsnum \<times> jsnum \<times> jsnum" where
  "movement days = (case days of ((h0, l0, c0), (h, l, c)) \<Rightarrow>
     let upMove = h - h0; downMove = l0 - l in
     (max_num (max_num (h - l) \<bar>h - c0\<bar>) \<bar>l - c0\<bar>,
      if upMove > downMove \<and> upMove > Fin 0 then upMove else Fin 0,
      if downMove > upMove \<and> downMove > Fin 0 then downMove else Fin 0))"

definition movements :: "jsnum list \<Rightarrow> jsnum list \<Rightarrow> jsnum list \<Rightarrow> (jsnum \<times> jsnum \<times> jsnum) list" where
  "movements highs lows closes =
    (let days = rev (zip highs (zip lows closes)) in map movement (zip days (tl days)))"

text \<open>The three running totals, with the indices they give.\<close>

definition di_of :: "jsnum \<Rightarrow> jsnum \<Rightarrow> jsnum" where
  "di_of dmSum atrSum = (if atrSum > Fin 0 then dmSum / atrSum * Fin 100 else Fin 0)"

definition dx_of :: "jsnum \<times> jsnum \<times> jsnum \<Rightarrow> jsnum \<times> jsnum \<times> jsnum" where
  "dx_of totals = (case totals of (a, p, m) \<Rightarrow>
     let plusDi = di_of p a; minusDi = di_of m a; diSum = plusDi + minusDi in
     (plusDi, minusDi, if diSum > Fin 0 then (\<bar>plusDi - minusDi\<bar>) / diSum * Fin 100 else Fin 0))"

definition smooth_sums :: "nat \<Rightarrow> jsnum \<times> jsnum \<times> jsnum \<Rightarrow> jsnum \<times> jsnum \<times> jsnum \<Rightarrow> jsnum \<times> jsnum \<times> jsnum" where
  "smooth_sums period totals x = (case (totals, x) of ((a, p, m), (tr, up, down)) \<Rightarrow>
     (a - a / num period + tr, p - p / num period + up, m - m / num period + down))"

fun run_sums :: "nat \<Rightarrow> jsnum \<times> jsnum \<times> jsnum \<Rightarrow> (jsnum \<times> jsnum \<times> jsnum) list \<Rightarrow> (jsnum \<times> jsnum \<times> jsnum) list" where
  "run_sums period s [] = [s]"
| "run_sums period s (x # xs) = s # run_sums period (smooth_sums period s x) xs"

definition first_sums :: "nat \<Rightarrow> (jsnum \<times> jsnum \<times> jsnum) list \<Rightarrow> jsnum \<times> jsnum \<times> jsnum" where
  "first_sums period ms = (fsum (map fst (take period ms)), fsum (map (fst \<circ> snd) (take period ms)), fsum (map (snd \<circ> snd) (take period ms)))"

definition adx_step :: "nat \<Rightarrow> jsnum \<Rightarrow> jsnum \<Rightarrow> jsnum" where
  "adx_step period adx dx = (adx * num (period - 1) + dx) / num period"

record adx_atr =
  aa_adx :: jsnum
  aa_atr :: jsnum

definition calculateADXWithATR :: "jsnum list \<Rightarrow> jsnum list \<Rightarrow> jsnum list \<Rightarrow> nat \<Rightarrow> adx_atr" where
  "calculateADXWithATR highs lows closes period =
    (if length highs < period * 2 then \<lparr>aa_adx = Fin 0, aa_atr = Fin 0\<rparr>
     else let ms = movements highs lows closes in
     if length ms < period then \<lparr>aa_adx = Fin 0, aa_atr = Fin 0\<rparr>
     else let totals = run_sums period (first_sums period ms) (drop period ms);
         dxValues = map (snd \<circ> snd \<circ> dx_of) totals; atr = fst (last totals) / num period in
     if length dxValues < period then \<lparr>aa_adx = or_num (last dxValues) (Fin 0), aa_atr = atr\<rparr>
     else \<lparr>aa_adx = foldl (adx_step period) (fsum (take period dxValues) / num period) (drop period dxValues), aa_atr = atr\<rparr>)"

definition calculateADX :: "jsnum list \<Rightarrow> jsnum list \<Rightarrow> jsnum list \<Rightarrow> nat \<Rightarrow> jsnum" where
  "calculateADX highs lows closes period = aa_adx (calculateADXWithATR highs lows closes period)"

record adx_signal =
  ax_adx :: jsnum
  ax_prevAdx :: jsnum
  ax_plusDi :: jsnum
  ax_minusDi :: jsnum

fun adx_run :: "nat \<Rightarrow> jsnum \<Rightarrow> jsnum list \<Rightarrow> jsnum list" where
  "adx_run period adx [] = [adx]"
| "adx_run period adx (dx # dxs) = adx # adx_run period (adx_step period adx dx) dxs"

definition calculateADXSignalSnapshot :: "jsnum list \<Rightarrow> jsnum list \<Rightarrow> jsnum list \<Rightarrow> nat \<Rightarrow> adx_signal option" where
  "calculateADXSignalSnapshot highs lows closes period =
    (if length highs < period * 2 + 1 then None
     else let ms = movements highs lows closes in
     if length ms < period + 1 then None
     else let dxs = map dx_of (run_sums period (first_sums period ms) (drop period ms)); dxValues = map (snd \<circ> snd) dxs in
     if length dxValues < period + 1 then None
     else let adxSeries = adx_run period (fsum (take period dxValues) / num period) (drop period dxValues) in
     if length adxSeries < 2 then None
     else Some \<lparr>ax_adx = last adxSeries, ax_prevAdx = last (butlast adxSeries),
       ax_plusDi = fst (last dxs), ax_minusDi = fst (snd (last dxs))\<rparr>)"

section \<open>Oscillators over days\<close>

record daily_price =
  bar_date :: string
  bar_close :: jsnum
  bar_open :: jsnum
  bar_high :: jsnum
  bar_low :: jsnum
  bar_volume :: jsnum

definition in_range :: "jsnum \<Rightarrow> jsnum \<Rightarrow> jsnum \<Rightarrow> jsnum" where
  "in_range value low high = (if js_eq high low then Fin 50 else (value - low) / (high - low) * Fin 100)"

definition smoothed :: "jsnum list \<Rightarrow> nat \<Rightarrow> nat \<Rightarrow> (jsnum \<times> jsnum) option" where
  "smoothed values smoothK smoothD =
    (let ks = calculateSmaSeries values smoothK in
     case (ks, calculateSmaSeries ks smoothD) of (k # _, d # _) \<Rightarrow> Some (k, d) | _ \<Rightarrow> None)"

definition calculateSlowStochastic :: "daily_price list \<Rightarrow> nat \<Rightarrow> nat \<Rightarrow> nat \<Rightarrow> (jsnum \<times> jsnum) option" where
  "calculateSlowStochastic prices kPeriod smoothK dPeriod =
    (if int (length prices) < int kPeriod + int smoothK + int dPeriod - 2 then None
     else smoothed (map (\<lambda>w. in_range (bar_close (hd w)) (lowest (map bar_low w)) (highest (map bar_high w))) (windows kPeriod prices))
       smoothK dPeriod)"

definition calculateStochasticRsi :: "jsnum list \<Rightarrow> nat \<Rightarrow> nat \<Rightarrow> nat \<Rightarrow> nat \<Rightarrow> (jsnum \<times> jsnum) option" where
  "calculateStochasticRsi closes rsiPeriod stochPeriod smoothK smoothD =
    (if length closes < rsiPeriod + stochPeriod + smoothK + smoothD then None
     else let rsiSeries = map (\<lambda>start. calculateRSI (drop start closes) rsiPeriod) [0..<length closes - rsiPeriod] in
     smoothed (map (\<lambda>w. in_range (hd w) (lowest w) (highest w)) (windows stochPeriod rsiSeries)) smoothK smoothD)"

record awesome =
  ao_current :: jsnum
  ao_prev :: jsnum
  ao_prev2 :: jsnum

definition calculateAwesomeOscillator :: "daily_price list \<Rightarrow> awesome option" where
  "calculateAwesomeOscillator prices =
    (if length prices < 36 then None
     else let medians = map (\<lambda>p. (bar_high p + bar_low p) / Fin 2) prices;
         aoAt = (\<lambda>offset. calculateMA (drop offset medians) 5 - calculateMA (drop offset medians) 34) in
     Some \<lparr>ao_current = aoAt 0, ao_prev = aoAt 1, ao_prev2 = aoAt 2\<rparr>)"

definition calculateMomentum :: "jsnum list \<Rightarrow> nat \<Rightarrow> jsnum" where
  "calculateMomentum prices period = (if length prices \<le> period then NaN else prices ! 0 - prices ! period)"

definition calculateWilliamsR :: "daily_price list \<Rightarrow> nat \<Rightarrow> jsnum" where
  "calculateWilliamsR prices period =
    (if length prices < period then NaN
     else let w = take period prices; high = highest (map bar_high w); low = lowest (map bar_low w) in
     if js_eq high low then Fin (- 50) else (high - bar_close (hd w)) / (high - low) * Fin (- 100))"

record bull_bear =
  bp_bullPower :: jsnum
  bp_bearPower :: jsnum
  bp_prevBullPower :: jsnum
  bp_prevBearPower :: jsnum
  bp_combined :: jsnum

definition calculateBullBearPower :: "daily_price list \<Rightarrow> nat \<Rightarrow> bull_bear option" where
  "calculateBullBearPower prices emaPeriod =
    (if length prices < emaPeriod + 1 then None
     else case (calculateEMA (map bar_close prices) emaPeriod, prices) of
       (e0 # e1 # _, p0 # p1 # _) \<Rightarrow>
         Some \<lparr>bp_bullPower = bar_high p0 - e0, bp_bearPower = bar_low p0 - e0, bp_prevBullPower = bar_high p1 - e1,
           bp_prevBearPower = bar_low p1 - e1, bp_combined = (bar_high p0 - e0) + (bar_low p0 - e0)\<rparr>
     | _ \<Rightarrow> None)"

definition calculateUltimateOscillator :: "daily_price list \<Rightarrow> nat \<Rightarrow> nat \<Rightarrow> nat \<Rightarrow> jsnum" where
  "calculateUltimateOscillator prices shortPeriod midPeriod longPeriod =
    (if length prices < longPeriod + 1 then NaN
     else let days = zip prices (tl prices);
         buyingPressure = map (\<lambda>(p, q). bar_close p - min_num (bar_low p) (bar_close q)) days;
         trueRange = map (\<lambda>(p, q). max_num (bar_high p) (bar_close q) - min_num (bar_low p) (bar_close q)) days;
         avg = (\<lambda>period. let bp = fsum (take period buyingPressure); tr = fsum (take period trueRange) in
           if tr > Fin 0 then bp / tr else Fin 0) in
     Fin 100 * (Fin 4 * avg shortPeriod + Fin 2 * avg midPeriod + avg longPeriod) / Fin 7)"

record ichimoku =
  ik_conversionLine :: jsnum
  ik_baseLine :: jsnum
  ik_leadA :: jsnum
  ik_leadB :: jsnum

definition calculateIchimokuSnapshot :: "daily_price list \<Rightarrow> ichimoku option" where
  "calculateIchimokuSnapshot prices =
    (if length prices < 52 then None
     else let mid = (\<lambda>n. (highest (map bar_high (take n prices)) + lowest (map bar_low (take n prices))) / Fin 2);
         conversionLine = mid 9; baseLine = mid 26 in
     Some \<lparr>ik_conversionLine = conversionLine, ik_baseLine = baseLine, ik_leadA = (conversionLine + baseLine) / Fin 2, ik_leadB = mid 52\<rparr>)"

section \<open>Magnitudes\<close>

text \<open>
  Sums of a few prices stay far from overflow: a number between zero and \<open>k\<close> times a scale that is a power of two
  stays so when it is added, multiplied by a count or divided by one, in spite of the rounding.
\<close>

definition scale :: rat where "scale = 2 ^ 900"

definition upto_scale :: "nat \<Rightarrow> jsnum \<Rightarrow> bool" where
  "upto_scale k x \<longleftrightarrow> (\<exists>q. x = Fin q \<and> 0 \<le> q \<and> q \<le> of_nat k * scale)"

lemma scale_pos [simp]: "0 < scale" "0 \<le> scale" by (simp_all add: scale_def)

lemma dbl_scale:
  assumes "k \<le> 2 ^ 53" shows "dbl (Fin (of_nat k * scale))"
proof -
  have s: "scale = 2 powi 900" by (simp add: scale_def rat_powi_nat)
  have "\<bar>int k\<bar> \<le> 2 ^ 53" using assms by (metis abs_of_nat of_nat_le_iff of_nat_numeral of_nat_power)
  then have "representable (of_nat k * scale)"
    unfolding representable_def s by (intro exI [of _ "int k"] exI [of _ 900]) simp
  then have r: "rnd (of_nat k * scale) = of_nat k * scale" by (rule rnd_representable)
  have "(of_nat k :: rat) \<le> 2 ^ 53" using assms by (metis of_nat_le_iff of_nat_numeral of_nat_power)
  then have "of_nat k * scale \<le> 2 ^ 53 * scale" by (rule mult_right_mono) simp
  also have "\<dots> = (2 :: rat) ^ 953" unfolding scale_def by (simp only: power_add [symmetric]) simp
  also have "\<dots> \<le> 2 ^ 1023" by (rule power_increasing) simp_all
  finally have "of_nat k * scale \<le> 2 ^ 1023" .
  moreover have "0 \<le> of_nat k * scale" by simp
  ultimately have "fl (of_nat k * scale) = Fin (rnd (of_nat k * scale))" using fl_power2_bounds(1) [of 1023 "of_nat k * scale"] by simp
  then show ?thesis by (simp add: dbl_Fin r)
qed

lemma upto_fl:
  assumes "0 \<le> x" "x \<le> of_nat k * scale" "k \<le> 2 ^ 53" shows "upto_scale k (fl x)"
  using fl_between [of 0 "of_nat k * scale" x] dbl_scale [OF assms(3)] assms(1,2) by (auto simp: upto_scale_def dbl_Fin)

lemma upto_add: "upto_scale i x \<Longrightarrow> upto_scale j y \<Longrightarrow> i + j \<le> 2 ^ 53 \<Longrightarrow> upto_scale (i + j) (x + y)"
proof -
  assume "upto_scale i x" "upto_scale j y" and k: "i + j \<le> 2 ^ 53"
  then obtain p q where "x = Fin p" "y = Fin q" "0 \<le> p" "0 \<le> q" "p \<le> of_nat i * scale" "q \<le> of_nat j * scale"
    by (auto simp: upto_scale_def)
  then show ?thesis using upto_fl [of "p + q" "i + j"] k by (simp add: add_Fin distrib_right add_mono)
qed

lemma upto_mult: "upto_scale i x \<Longrightarrow> i * n \<le> 2 ^ 53 \<Longrightarrow> upto_scale (i * n) (x * num n)"
proof -
  assume "upto_scale i x" and k: "i * n \<le> 2 ^ 53"
  then obtain p where p: "x = Fin p" "0 \<le> p" "p \<le> of_nat i * scale" by (auto simp: upto_scale_def)
  then have "p * of_nat n \<le> of_nat i * scale * of_nat n" by (intro mult_right_mono) simp_all
  then show ?thesis using upto_fl [of "p * of_nat n" "i * n"] k p by (simp add: num_def mult_Fin mult_ac)
qed

lemma upto_div: "upto_scale (i * n) x \<Longrightarrow> 0 < n \<Longrightarrow> i \<le> 2 ^ 53 \<Longrightarrow> upto_scale i (x / num n)"
proof -
  assume "upto_scale (i * n) x" and n: "0 < n" "i \<le> 2 ^ 53"
  then obtain p where p: "x = Fin p" "0 \<le> p" "p \<le> of_nat (i * n) * scale" by (auto simp: upto_scale_def)
  then have "p / of_nat n \<le> of_nat i * scale" using n(1) by (simp add: divide_le_eq mult_ac)
  then show ?thesis using upto_fl [of "p / of_nat n" i] n p by (simp add: num_def div_Fin)
qed

lemma upto_zero [simp]: "upto_scale k (Fin 0)" by (simp add: upto_scale_def)

lemma upto_mono: "upto_scale i x \<Longrightarrow> i \<le> j \<Longrightarrow> upto_scale j x"
proof -
  assume "upto_scale i x" and ij: "i \<le> j"
  then obtain q where q: "x = Fin q" "0 \<le> q" "q \<le> of_nat i * scale" by (auto simp: upto_scale_def)
  note q(3)
  also have "of_nat i * scale \<le> of_nat j * scale" using ij by (intro mult_right_mono) simp_all
  finally show ?thesis using q(1,2) by (simp add: upto_scale_def)
qed

lemma upto_change: "upto_scale 1 p \<Longrightarrow> upto_scale 1 q \<Longrightarrow> upto_scale 1 \<bar>p - q\<bar> \<and> (p - q > Fin 0 \<longrightarrow> upto_scale 1 (p - q))"
proof -
  assume "upto_scale 1 p" "upto_scale 1 q"
  then obtain x y where x: "p = Fin x" "q = Fin y" "0 \<le> x" "0 \<le> y" "x \<le> scale" "y \<le> scale" by (auto simp: upto_scale_def)
  have "dbl (Fin (- scale))" "dbl (Fin scale)" using dbl_power2 [of 900] by (simp_all add: scale_def)
  then have "fl (x - y) = Fin (rnd (x - y))" "- scale \<le> rnd (x - y)" "rnd (x - y) \<le> scale"
    using fl_between [of "- scale" scale "x - y"] x by simp_all
  then show ?thesis using x by (auto simp: upto_scale_def diff_Fin abs_jsnum_def js_defs)
qed

section \<open>The relative strength stays within its scale\<close>

lemma changes_upto:
  assumes "list_all (upto_scale 1) prices" "c \<in> set (price_changes prices)"
  shows "upto_scale 1 \<bar>c\<bar> \<and> (c > Fin 0 \<longrightarrow> upto_scale 1 c)"
proof -
  obtain p q where c: "c = p - q" "(p, q) \<in> set (zip prices (tl prices))" using assms(2) by (auto simp: price_changes_def)
  then have "p \<in> set prices" "q \<in> set prices" using set_zip_leftD set_zip_rightD list.set_sel(2) by (metis list.sel(2))+
  then show ?thesis using assms(1) upto_change by (auto simp: list_all_iff c(1))
qed

definition step_ok :: "jsnum \<Rightarrow> bool" where "step_ok c \<longleftrightarrow> upto_scale 1 \<bar>c\<bar> \<and> (c > Fin 0 \<longrightarrow> upto_scale 1 c)"

lemma rsi_added:
  "list_all step_ok cs \<Longrightarrow> upto_scale i g \<Longrightarrow> upto_scale i l \<Longrightarrow> i + length cs \<le> 2 ^ 53 \<Longrightarrow>
   upto_scale (i + length cs) (fst (foldl rsi_add (g, l) cs)) \<and> upto_scale (i + length cs) (snd (foldl rsi_add (g, l) cs))"
proof (induction cs arbitrary: g l i)
  case (Cons c cs)
  have "upto_scale (i + 1) (fst (rsi_add (g, l) c)) \<and> upto_scale (i + 1) (snd (rsi_add (g, l) c))"
    using Cons.prems upto_add [of i g 1 c] upto_add [of i l 1 "\<bar>c\<bar>"] upto_mono [of i _ "i + 1"] by (simp add: step_ok_def)
  then show ?case using Cons.IH [of "i + 1" "fst (rsi_add (g, l) c)" "snd (rsi_add (g, l) c)"] Cons.prems by simp
qed simp

lemma rsi_smoothed_step:
  assumes "step_ok c" "upto_scale 1 g" "upto_scale 1 l" "0 < n" "n \<le> 2 ^ 53"
  shows "upto_scale 1 (fst (rsi_smooth n (g, l) c)) \<and> upto_scale 1 (snd (rsi_smooth n (g, l) c))"
proof -
  have m: "upto_scale (n - 1) (x * num (n - 1))" if "upto_scale 1 x" for x using upto_mult [OF that, of "n - 1"] assms(5) by simp
  have a: "upto_scale 1 ((x * num (n - 1) + y) / num n)" if "upto_scale 1 x" "upto_scale 1 y" for x y
    using upto_div [of 1 n] upto_add [OF m [OF that(1)] that(2)] assms(4,5) by simp
  have b: "upto_scale 1 (x * num (n - 1) / num n)" if "upto_scale 1 x" for x
    using upto_div [of 1 n] upto_mono [OF m [OF that], of n] assms(4) by simp
  show ?thesis using assms(1-3) a b by (simp add: step_ok_def)
qed

lemma rsi_smoothed:
  "list_all step_ok cs \<Longrightarrow> upto_scale 1 (fst s) \<Longrightarrow> upto_scale 1 (snd s) \<Longrightarrow> 0 < n \<Longrightarrow> n \<le> 2 ^ 53 \<Longrightarrow>
   upto_scale 1 (fst (foldl (rsi_smooth n) s cs)) \<and> upto_scale 1 (snd (foldl (rsi_smooth n) s cs))"
proof (induction cs arbitrary: s)
  case (Cons c cs)
  then have "upto_scale 1 (fst (rsi_smooth n s c)) \<and> upto_scale 1 (snd (rsi_smooth n s c))"
    using rsi_smoothed_step [of c "fst s" "snd s" n] by simp
  then show ?case using Cons by simp
qed simp

lemma rsi_of_bounds:
  assumes "upto_scale 1 g" "upto_scale 1 l"
  shows "\<exists>q. rsi_of (g, l) = Fin q \<and> 0 \<le> q \<and> q \<le> 100"
proof -
  obtain x y where xy: "g = Fin x" "l = Fin y" "0 \<le> x" "0 \<le> y" using assms by (auto simp: upto_scale_def)
  have h: "dbl (Fin 100)" "dbl (Fin 0)" by (simp_all add: dbl_Fin)
  have r: "\<exists>q. Fin 100 - z = Fin q \<and> 0 \<le> q \<and> q \<le> 100" if "z = Fin u" "0 \<le> u" "u \<le> 100" for z u
    using fl_between [OF h(2,1), of "100 - u"] that by (simp add: diff_Fin)
  show ?thesis
  proof (cases "y = 0")
    case True
    then show ?thesis by (simp add: rsi_of_def xy js_eq_def)
  next
    case False
    have "Fin 0 \<le> g / l" using xy False fl_nonneg [of "x / y"] by (simp add: div_Fin)
    moreover have "g / l \<noteq> NaN" "g / l \<noteq> NInf" using xy False fl_nonneg [of "x / y"] by (auto simp: div_Fin)
    ultimately consider "g / l = PInf" | w where "g / l = Fin w" "0 \<le> w" by (cases "g / l") auto
    then have "\<exists>z. Fin 1 + g / l = PInf \<or> (Fin 1 + g / l = Fin z \<and> 1 \<le> z)"
    proof cases
      case 2
      then show ?thesis using fl_ge_dbl [of 1 "1 + w"] by (cases "fl (1 + w)") (auto simp: add_Fin dbl_Fin)
    qed simp
    then obtain z where "Fin 1 + g / l = PInf \<or> (Fin 1 + g / l = Fin z \<and> 1 \<le> z)" by blast
    then have "\<exists>u. Fin 100 / (Fin 1 + g / l) = Fin u \<and> 0 \<le> u \<and> u \<le> 100"
    proof
      assume "Fin 1 + g / l = PInf"
      then show ?thesis by (simp add: divide_jsnum_def)
    next
      assume z: "Fin 1 + g / l = Fin z \<and> 1 \<le> z"
      then have "0 \<le> 100 / z" "100 / z \<le> 100" by (simp_all add: divide_le_eq)
      then show ?thesis using fl_between [OF h(2,1), of "100 / z"] z by (simp add: div_Fin)
    qed
    then show ?thesis using r False by (auto simp: rsi_of_def xy js_eq_def)
  qed
qed

text \<open>
  (C35) The relative strength index of prices between zero and 2^900 is a number from 0 to 100, for every period and
  every length of the history: no rounding, no loss of zero and no short history takes it outside.
\<close>

theorem rsi_within_scale:
  assumes "list_all (upto_scale 1) prices" "0 < period" "period \<le> 2 ^ 53"
  shows "\<exists>q. calculateRSI prices period = Fin q \<and> 0 \<le> q \<and> q \<le> 100"
proof (cases "length prices < period + 1")
  case False
  let ?cs = "price_changes prices" let ?k = "length (price_changes prices) - period"
  have ok: "list_all step_ok ?cs" using changes_upto [OF assms(1)] by (auto simp: list_all_iff step_ok_def)
  have len: "length (drop ?k ?cs) = period" using False by (simp add: price_changes_def)
  have ok': "list_all step_ok (drop ?k ?cs)" using ok by (auto simp: list_all_iff dest: in_set_dropD)
  obtain g l where gl: "foldl rsi_add (Fin 0, Fin 0) (drop ?k ?cs) = (g, l)" by force
  have "upto_scale period g \<and> upto_scale period l"
    using rsi_added [of "drop ?k ?cs" 0 "Fin 0" "Fin 0"] ok' len assms(3) gl by simp
  then have "upto_scale 1 (g / num period)" "upto_scale 1 (l / num period)" using upto_div [of 1 period] assms(2) by simp_all
  moreover have "list_all step_ok (rev (take ?k ?cs))" using ok by (auto simp: list_all_iff dest: in_set_takeD)
  moreover have "rsi_averages ?cs period = foldl (rsi_smooth period) (g / num period, l / num period) (rev (take ?k ?cs))"
    by (simp add: rsi_averages_def Let_def gl)
  ultimately have "upto_scale 1 (fst (rsi_averages ?cs period)) \<and> upto_scale 1 (snd (rsi_averages ?cs period))"
    using rsi_smoothed [of "rev (take ?k ?cs)" "(g / num period, l / num period)" period] assms(2,3) by simp
  then show ?thesis using rsi_of_bounds [of "fst (rsi_averages ?cs period)" "snd (rsi_averages ?cs period)"] False
    by (simp add: calculateRSI_def)
qed (simp add: calculateRSI_def)

lemma rsi_within_scale_witness: "\<exists>q. calculateRSI [Fin 3, Fin 2, Fin 4] 2 = Fin q \<and> 0 \<le> q \<and> q \<le> 100"
  using rsi_within_scale [of "[Fin 3, Fin 2, Fin 4]" 2] by (simp add: upto_scale_def scale_def)

end
