(* ===== verification/TechnicalRatings.thy ===== *)
theory TechnicalRatings imports MarketIndicators begin

text \<open>
  The technical ratings of \<open>src/trading/market-analysis.service.ts\<close>: the current quote merged into the newest
  day, each indicator with the action it suggests, and the recommendation of a group. The labels are left out.
\<close>

section \<open>The current quote\<close>

record day_quote =
  dq_currentPrice :: "jsnum option"
  dq_openPrice :: "jsnum option"
  dq_highPrice :: "jsnum option"
  dq_lowPrice :: "jsnum option"
  dq_volume :: "jsnum option"

definition merge_day :: "daily_price \<Rightarrow> day_quote \<Rightarrow> daily_price" where
  "merge_day latest q =
    (let mergedOpen = coalesce (dq_openPrice q) (bar_open latest); mergedClose = coalesce (dq_currentPrice q) (bar_close latest) in
     latest\<lparr>bar_close := mergedClose, bar_open := mergedOpen,
       bar_high := highest (filter isFinite [bar_high latest, coalesce (dq_highPrice q) NInf, mergedOpen, mergedClose]),
       bar_low := lowest (filter isFinite [bar_low latest, coalesce (dq_lowPrice q) PInf, mergedOpen, mergedClose]),
       bar_volume := max_num (bar_volume latest) (coalesce (dq_volume q) (Fin 0))\<rparr>)"

definition applyCurrentQuoteToPrices :: "daily_price list \<Rightarrow> day_quote option \<Rightarrow> daily_price list" where
  "applyCurrentQuoteToPrices prices quote =
    (case (prices, quote) of (latest # rest, Some q) \<Rightarrow> merge_day latest q # rest | _ \<Rightarrow> prices)"

section \<open>Indicators and actions\<close>

datatype rating_action = RBuy | RSell | RNeutral

record indicator =
  in_key :: string
  in_value :: jsnum
  in_action :: rating_action

definition compareAverageToPrice :: "jsnum option \<Rightarrow> jsnum \<Rightarrow> rating_action" where
  "compareAverageToPrice value p =
    (if \<not> finite_opt value \<or> \<not> isFinite p then RNeutral
     else if the value < p then RBuy else if the value > p then RSell else RNeutral)"

text \<open>An indicator without a finite value is not listed.\<close>

definition pushIndicator :: "string \<Rightarrow> jsnum option \<Rightarrow> rating_action \<Rightarrow> indicator list" where
  "pushIndicator key value action =
    (if finite_opt value then [\<lparr>in_key = key, in_value = the value, in_action = action\<rparr>] else [])"

definition when_buy_sell :: "bool \<Rightarrow> bool \<Rightarrow> rating_action" where
  "when_buy_sell b s = (if b then RBuy else if s then RSell else RNeutral)"

definition first_of :: "jsnum list \<Rightarrow> jsnum option" where
  "first_of xs = (case xs of [] \<Rightarrow> None | x # _ \<Rightarrow> Some x)"

definition MA_PERIODS :: "(nat \<times> string) list" where
  "MA_PERIODS = [(10, ''10''), (20, ''20''), (30, ''30''), (50, ''50''), (100, ''100''), (200, ''200'')]"

definition ichimoku_action :: "ichimoku option \<Rightarrow> jsnum \<Rightarrow> rating_action" where
  "ichimoku_action i p = (case i of None \<Rightarrow> RNeutral | Some k \<Rightarrow>
     when_buy_sell
       (ik_leadA k > ik_leadB k \<and> ik_baseLine k > ik_leadA k \<and> ik_conversionLine k > ik_baseLine k \<and> p > ik_conversionLine k)
       (ik_leadA k < ik_leadB k \<and> ik_baseLine k < ik_leadA k \<and> ik_conversionLine k < ik_baseLine k \<and> p < ik_conversionLine k))"

definition moving_averages :: "(jsnum \<Rightarrow> jsnum) \<Rightarrow> daily_price list \<Rightarrow> jsnum \<Rightarrow> indicator list" where
  "moving_averages squareRoot prices p =
    (let closes = map bar_close prices; volumes = map bar_volume prices;
         hma9 = calculateHMA squareRoot closes 9; vwma20 = calculateVWMA closes volumes 20; ik = calculateIchimokuSnapshot prices in
     concat (map (\<lambda>(period, text).
         let sma = calculateMA closes period; ema = first_of (calculateEMA closes period) in
         pushIndicator (''sma'' @ text) (if truthy sma then Some sma else None) (compareAverageToPrice (Some sma) p) @
         pushIndicator (''ema'' @ text) ema (compareAverageToPrice ema p)) MA_PERIODS) @
     pushIndicator ''hma9'' (Some hma9) (compareAverageToPrice (Some hma9) p) @
     pushIndicator ''vwma20'' (Some vwma20) (compareAverageToPrice (Some vwma20) p) @
     pushIndicator ''ichimoku'' (map_option ik_baseLine ik) (ichimoku_action ik p))"

definition crossing :: "(jsnum \<times> jsnum) option \<Rightarrow> bool \<Rightarrow> bool \<Rightarrow> rating_action" where
  "crossing kd mayBuy maySell = (case kd of None \<Rightarrow> RNeutral | Some (k, d) \<Rightarrow>
     when_buy_sell (mayBuy \<and> k < Fin 20 \<and> d < Fin 20 \<and> k > d) (maySell \<and> k > Fin 80 \<and> d > Fin 80 \<and> k < d))"

definition adx_action :: "adx_signal option \<Rightarrow> rating_action" where
  "adx_action a = (case a of None \<Rightarrow> RNeutral | Some x \<Rightarrow>
     when_buy_sell (ax_plusDi x > ax_minusDi x \<and> ax_adx x > Fin 20 \<and> ax_adx x > ax_prevAdx x)
       (ax_plusDi x < ax_minusDi x \<and> ax_adx x > Fin 20 \<and> ax_adx x < ax_prevAdx x))"

definition ao_action :: "awesome option \<Rightarrow> rating_action" where
  "ao_action a = (case a of None \<Rightarrow> RNeutral | Some x \<Rightarrow>
     when_buy_sell
       ((ao_prev x \<le> Fin 0 \<and> ao_current x > Fin 0) \<or>
        (ao_current x > Fin 0 \<and> ao_prev x > Fin 0 \<and> ao_current x > ao_prev x \<and> ao_prev x < ao_prev2 x))
       ((ao_prev x \<ge> Fin 0 \<and> ao_current x < Fin 0) \<or>
        (ao_current x < Fin 0 \<and> ao_prev x < Fin 0 \<and> ao_current x < ao_prev x \<and> ao_prev x > ao_prev2 x)))"

definition bull_bear_action :: "bull_bear option \<Rightarrow> bool \<Rightarrow> bool \<Rightarrow> rating_action" where
  "bull_bear_action b uptrend downtrend = (case b of None \<Rightarrow> RNeutral | Some x \<Rightarrow>
     when_buy_sell (uptrend \<and> bp_bearPower x < Fin 0 \<and> bp_bearPower x > bp_prevBearPower x)
       (downtrend \<and> bp_bullPower x > Fin 0 \<and> bp_bullPower x < bp_prevBullPower x))"

definition oscillators_of :: "daily_price list \<Rightarrow> jsnum \<Rightarrow> indicator list" where
  "oscillators_of prices p =
    (let closes = map bar_close prices; highs = map bar_high prices; lows = map bar_low prices;
         rsi = calculateRSI closes 14; prevRsi = calculateRSI (tl closes) 14;
         stochastic = calculateSlowStochastic prices 14 3 3;
         cci = calculateCCI closes 20; prevCci = calculateCCI (tl closes) 20;
         adx = calculateADXSignalSnapshot highs lows closes 14; ao = calculateAwesomeOscillator prices;
         momentum = calculateMomentum closes 10; prevMomentum = calculateMomentum (tl closes) 10; mc = calculateMACD closes;
         ema13 = first_of (calculateEMA closes 13);
         uptrend = (finite_opt ema13 \<and> p > the ema13); downtrend = (finite_opt ema13 \<and> p < the ema13);
         stochRsi = calculateStochasticRsi closes 14 14 3 3;
         williams = calculateWilliamsR prices 14; prevWilliams = calculateWilliamsR (tl prices) 14;
         bullBear = calculateBullBearPower prices 13; uo = calculateUltimateOscillator prices 7 14 28 in
     pushIndicator ''rsi14'' (Some rsi) (when_buy_sell (rsi < Fin 30 \<and> rsi > prevRsi) (rsi > Fin 70 \<and> rsi < prevRsi)) @
     pushIndicator ''stochasticK'' (map_option fst stochastic) (crossing stochastic True True) @
     pushIndicator ''cci20'' (Some cci) (when_buy_sell (cci < Fin (- 100) \<and> cci > prevCci) (cci > Fin 100 \<and> cci < prevCci)) @
     pushIndicator ''adx14'' (map_option ax_adx adx) (adx_action adx) @
     pushIndicator ''ao'' (map_option ao_current ao) (ao_action ao) @
     pushIndicator ''momentum10'' (Some momentum) (when_buy_sell (momentum > prevMomentum) (momentum < prevMomentum)) @
     pushIndicator ''macd12269'' (Some (mc_line mc)) (when_buy_sell (mc_line mc > mc_signal mc) (mc_line mc < mc_signal mc)) @
     pushIndicator ''stochRsiFast'' (map_option fst stochRsi) (crossing stochRsi downtrend uptrend) @
     pushIndicator ''williamsR14'' (Some williams)
       (when_buy_sell (williams < Fin (- 80) \<and> williams > prevWilliams) (williams > Fin (- 20) \<and> williams < prevWilliams)) @
     pushIndicator ''bullBearPower13'' (map_option bp_combined bullBear) (bull_bear_action bullBear uptrend downtrend) @
     pushIndicator ''uo71428'' (Some uo) (when_buy_sell (uo > Fin 70) (uo < Fin 30)))"

section \<open>Recommendations\<close>

datatype recommendation = STRONG_BUY | RATING_BUY | RATING_NEUTRAL | RATING_SELL | STRONG_SELL

definition scoreToRecommendation :: "jsnum \<Rightarrow> recommendation" where
  "scoreToRecommendation score =
    (if score > lit (5 / 10) then STRONG_BUY else if score > lit (1 / 10) then RATING_BUY
     else if score < - lit (5 / 10) then STRONG_SELL else if score < - lit (1 / 10) then RATING_SELL else RATING_NEUTRAL)"

record rating_group =
  rg_score :: jsnum
  rg_recommendation :: recommendation
  rg_buyCount :: nat
  rg_neutralCount :: nat
  rg_sellCount :: nat

definition action_sign :: "rating_action \<Rightarrow> jsnum" where
  "action_sign a = (case a of RBuy \<Rightarrow> Fin 1 | RSell \<Rightarrow> Fin (- 1) | RNeutral \<Rightarrow> Fin 0)"

definition count_action :: "rating_action \<Rightarrow> indicator list \<Rightarrow> nat" where
  "count_action a xs = length (filter (\<lambda>x. in_action x = a) xs)"

definition buildTechnicalRatingGroup :: "indicator list \<Rightarrow> rating_group" where
  "buildTechnicalRatingGroup xs =
    (let score = (if xs = [] then Fin 0 else foldl (\<lambda>s x. s + action_sign (in_action x)) (Fin 0) xs / num (length xs)) in
     \<lparr>rg_score = score, rg_recommendation = scoreToRecommendation score, rg_buyCount = count_action RBuy xs,
      rg_neutralCount = count_action RNeutral xs, rg_sellCount = count_action RSell xs\<rparr>)"

record technical_ratings =
  tq_oscillators :: "indicator list"
  tq_movingAverages :: "indicator list"
  tq_oscillatorSummary :: rating_group
  tq_movingAverageSummary :: rating_group
  tq_overallSummary :: rating_group

definition calculateTechnicalRatings :: "(jsnum \<Rightarrow> jsnum) \<Rightarrow> daily_price list \<Rightarrow> day_quote option \<Rightarrow> technical_ratings" where
  "calculateTechnicalRatings squareRoot prices quote =
    (let merged = applyCurrentQuoteToPrices prices quote;
         p = (case Option.bind quote dq_currentPrice of Some c \<Rightarrow> c
           | None \<Rightarrow> coalesce (first_of (map bar_close merged)) (Fin 0));
         os = oscillators_of merged p; mas = moving_averages squareRoot merged p in
     \<lparr>tq_oscillators = os, tq_movingAverages = mas, tq_oscillatorSummary = buildTechnicalRatingGroup os,
      tq_movingAverageSummary = buildTechnicalRatingGroup mas, tq_overallSummary = buildTechnicalRatingGroup (os @ mas)\<rparr>)"

section \<open>The merged day\<close>

lemma foldl_max_Fin: "foldl max_num (Fin a) (map Fin xs) = Fin (foldl max a xs)"
  by (induction xs arbitrary: a) simp_all

lemma foldl_max_ge: "a \<le> foldl max a xs \<and> (\<forall>x \<in> set xs. x \<le> foldl max (a :: rat) xs)"
proof (induction xs arbitrary: a)
  case (Cons x xs)
  show ?case using Cons.IH [of "max a x"] by (auto intro: order_trans)
qed simp

lemma foldl_min_le: "foldl min a xs \<le> a \<and> (\<forall>x \<in> set xs. foldl min (a :: rat) xs \<le> x)"
proof (induction xs arbitrary: a)
  case (Cons x xs)
  show ?case using Cons.IH [of "min a x"] by (auto intro: order_trans)
qed simp

lemma foldl_min_Fin: "foldl min_num (Fin a) (map Fin xs) = Fin (foldl min a xs)"
  by (induction xs arbitrary: a) simp_all

lemma finite_map: "list_all isFinite xs \<Longrightarrow> \<exists>qs. xs = map Fin qs"
proof (induction xs)
  case (Cons x xs)
  then obtain q qs where "x = Fin q" "xs = map Fin qs" by (auto simp: isFinite_iff)
  then show ?case by (metis list.simps(9))
qed simp

lemma highest_bound:
  assumes "list_all isFinite xs" "x \<in> set xs"
  shows "x \<le> highest xs \<and> lowest xs \<le> x"
proof -
  obtain qs where qs: "xs = map Fin qs" using finite_map [OF assms(1)] by blast
  obtain q rest where r: "qs = q # rest" using assms(2) qs by (cases qs) auto
  have m: "max_num NInf (Fin q) = Fin q" "min_num PInf (Fin q) = Fin q" by (simp_all add: max_num_def min_num_def isNaN_def)
  show ?thesis using assms(2) foldl_max_ge [of q rest] foldl_min_le [of q rest]
    by (auto simp: highest_def lowest_def qs r m foldl_max_Fin foldl_min_Fin)
qed

text \<open>
  A quote merged into the newest day only widens it: the day spans its open, its close and the quote's own
  high and low, the older days stay, and the day keeps its date.
\<close>

lemma merged_day_spans:
  assumes "applyCurrentQuoteToPrices (latest # rest) (Some q) = day # days"
  shows "days = rest \<and> bar_date day = bar_date latest \<and>
    list_all (\<lambda>x. isFinite x \<longrightarrow> bar_low day \<le> x \<and> x \<le> bar_high day)
      [bar_open day, bar_close day] \<and>
    (isFinite (bar_high latest) \<longrightarrow> bar_high latest \<le> bar_high day) \<and> (isFinite (bar_low latest) \<longrightarrow> bar_low day \<le> bar_low latest) \<and>
    (\<forall>h. dq_highPrice q = Some h \<and> isFinite h \<longrightarrow> h \<le> bar_high day) \<and>
    (\<forall>l. dq_lowPrice q = Some l \<and> isFinite l \<longrightarrow> bar_low day \<le> l)"
proof -
  let ?hs = "filter isFinite [bar_high latest, coalesce (dq_highPrice q) NInf, coalesce (dq_openPrice q) (bar_open latest), coalesce (dq_currentPrice q) (bar_close latest)]"
  let ?ls = "filter isFinite [bar_low latest, coalesce (dq_lowPrice q) PInf, coalesce (dq_openPrice q) (bar_open latest), coalesce (dq_currentPrice q) (bar_close latest)]"
  have d: "day = merge_day latest q" "days = rest" using assms by (simp_all add: applyCurrentQuoteToPrices_def)
  have f: "list_all isFinite ?hs" "list_all isFinite ?ls" by (simp_all add: list_all_iff)
  have h: "bar_high day = highest ?hs" "bar_low day = lowest ?ls" "bar_open day = coalesce (dq_openPrice q) (bar_open latest)"
    "bar_close day = coalesce (dq_currentPrice q) (bar_close latest)" "bar_date day = bar_date latest"
    by (simp_all only: d merge_day_def Let_def) simp_all
  have b: "x \<in> set ?hs \<Longrightarrow> x \<le> bar_high day" "x \<in> set ?ls \<Longrightarrow> bar_low day \<le> x" for x
    using highest_bound [OF f(1), of x] highest_bound [OF f(2), of x] h(1,2) by simp_all
  show ?thesis using d(2) h(3-5) b by (auto split: if_splits)
qed

lemma counts_all: "count_action RBuy xs + count_action RNeutral xs + count_action RSell xs = length xs"
proof (induction xs)
  case (Cons x xs)
  then show ?case by (cases "in_action x") (simp_all add: count_action_def)
qed (simp add: count_action_def)

lemma sign_sum:
  assumes "length ys + k \<le> 100" "\<bar>z\<bar> \<le> int k"
  shows "foldl (\<lambda>s x. s + action_sign (in_action x)) (Fin (of_int z)) ys =
    Fin (of_int (z + int (count_action RBuy ys) - int (count_action RSell ys)))"
  using assms
proof (induction ys arbitrary: z k)
  case (Cons y ys)
  define e :: int where "e = (case in_action y of RBuy \<Rightarrow> 1 | RSell \<Rightarrow> - 1 | RNeutral \<Rightarrow> 0)"
  have e: "action_sign (in_action y) = Fin (of_int e)" "\<bar>e\<bar> \<le> 1" by (auto simp: e_def action_sign_def split: rating_action.splits)
  have "Fin (of_int z) + Fin (of_int e) = Fin (of_int (z + e))"
    using fl_of_int [of "z + e"] Cons.prems e(2) by (simp add: add_Fin)
  then show ?case using Cons.IH [of "k + 1" "z + e"] Cons.prems e
    by (simp add: count_action_def) (auto simp: e_def split: rating_action.splits)
qed (simp add: count_action_def)

lemma share_above:
  assumes "0 < n" "n \<le> 100"
  shows "fl (of_int d / of_int n) > Fin (1 / 2) \<longleftrightarrow> 2 * d > (n :: int)"
    and "fl (of_int d / of_int n) > lit (1 / 10) \<longleftrightarrow> 10 * d > n"
proof -
  have le: "of_int d / of_int n \<le> (1 :: rat) / of_int k" if "k * d \<le> n" "0 < k" for k :: int
  proof -
    have "(of_int k :: rat) * of_int d \<le> of_int n" using that(1) by (metis of_int_le_iff of_int_mult)
    then show ?thesis using assms(1) that(2) by (simp add: divide_le_eq le_divide_eq mult_ac)
  qed
  have ge: "(1 :: rat) / of_int k + 1 / (100 * of_int k) \<le> of_int d / of_int n" if "n + 1 \<le> k * d" "0 < k" for k :: int
  proof -
    have "(of_int n :: rat) + 1 \<le> of_int k * of_int d" using that(1) by (metis of_int_1 of_int_add of_int_le_iff of_int_mult)
    moreover have "(of_int n :: rat) \<le> 100" using assms(2) by (metis of_int_le_iff of_int_numeral)
    ultimately have "(101 :: rat) * of_int n \<le> of_int (k * d) * 100" by simp
    then have "(101 :: rat) / (100 * of_int k) \<le> of_int d / of_int n" using assms(1) that(2)
      by (simp add: divide_le_eq le_divide_eq mult_ac)
    then show ?thesis using that(2) by (simp add: divide_simps)
  qed
  have h: "fl (1 / 2) = Fin (1 / 2)" "Fin (1 / 2) < fl (101 / 200)" "fl (1 / 10) = lit (1 / 10)" "lit (1 / 10) < fl (101 / 1000)"
    by (simp_all add: fl_eval)
  show "fl (of_int d / of_int n) > Fin (1 / 2) \<longleftrightarrow> 2 * d > n"
  proof (cases "2 * d > n")
    case True
    then have "(101 :: rat) / 200 \<le> of_int d / of_int n" using ge [of 2] by simp
    then show ?thesis using True fl_mono h(2) js_less_le_trans by blast
  next
    case False
    then have "fl (of_int d / of_int n) \<le> Fin (1 / 2)" using le [of 2] fl_mono [of "of_int d / of_int n" "1 / 2"] h(1) by simp
    then show ?thesis using False by (metis js_le_less_trans less_irrefl_js)
  qed
  show "fl (of_int d / of_int n) > lit (1 / 10) \<longleftrightarrow> 10 * d > n"
  proof (cases "10 * d > n")
    case True
    then have "(101 :: rat) / 1000 \<le> of_int d / of_int n" using ge [of 10] by simp
    then show ?thesis using True fl_mono h(4) js_less_le_trans by blast
  next
    case False
    then have "fl (of_int d / of_int n) \<le> lit (1 / 10)" using le [of 10] fl_mono [of "of_int d / of_int n" "1 / 10"] h(3) by simp
    then show ?thesis using False by (metis js_le_less_trans less_irrefl_js)
  qed
qed

lemma share_negated:
  assumes "0 < n" "\<bar>d\<bar> \<le> (n :: int)"
  shows "fl (of_int d / of_int n) < - x \<longleftrightarrow> fl (of_int (- d) / of_int n) > x"
proof -
  have "\<bar>of_int d / of_int n :: rat\<bar> \<le> 2 ^ 0" using assms by (simp add: abs_le_iff divide_le_eq le_divide_eq)
  then have "fl (of_int d / of_int n) = Fin (rnd (of_int d / of_int n))" "fl (of_int (- d) / of_int n) = Fin (- rnd (of_int d / of_int n))"
    using fl_power2_bounds(1) [of 0 "of_int d / of_int n"] fl_power2_bounds(1) [of 0 "- (of_int d / of_int n)"] rnd_uminus by simp_all
  then show ?thesis by (cases x) (auto simp: js_defs)
qed

text \<open>
  (C34) The recommendation follows the majority: of at most a hundred indicators, strong buy means that the buys
  exceed the sells by more than half of all, buy by more than a tenth, and the sell side in the same way; the
  three counts add up to all indicators.
\<close>

theorem recommendation_by_majority:
  assumes "xs \<noteq> []" "length xs \<le> 100" "g = buildTechnicalRatingGroup xs" "d = int (rg_buyCount g) - int (rg_sellCount g)"
  shows "rg_buyCount g + rg_neutralCount g + rg_sellCount g = length xs \<and>
    rg_recommendation g = (if 2 * d > int (length xs) then STRONG_BUY else if 10 * d > int (length xs) then RATING_BUY
      else if 2 * d < - int (length xs) then STRONG_SELL else if 10 * d < - int (length xs) then RATING_SELL else RATING_NEUTRAL)"
proof -
  let ?n = "int (length xs)" let ?s = "fl (of_int d / of_int ?n)"
  have c: "rg_buyCount g + rg_neutralCount g + rg_sellCount g = length xs"
    using counts_all [of xs] by (simp add: assms(3) buildTechnicalRatingGroup_def Let_def)
  have n: "0 < ?n" "?n \<le> 100" using assms(1,2) by simp_all
  have d: "\<bar>d\<bar> \<le> ?n" using c assms(4) by linarith
  have "foldl (\<lambda>s x. s + action_sign (in_action x)) (Fin 0) xs = Fin (of_int d)"
    using sign_sum [of xs 0 0] assms(2) by (simp add: assms(3,4) buildTechnicalRatingGroup_def Let_def)
  then have "rg_recommendation g = scoreToRecommendation ?s"
    using assms(1) by (simp add: assms(3) buildTechnicalRatingGroup_def Let_def num_def div_Fin)
  moreover have h: "lit (5 / 10) = Fin (1 / 2)" by (simp add: fl_eval)
  moreover have "(?s > Fin (1 / 2)) = (2 * d > ?n)" "(?s > lit (1 / 10)) = (10 * d > ?n)" by (rule share_above [OF n])+
  moreover have "(?s < - Fin (1 / 2)) = (2 * d < - ?n)" "(?s < - lit (1 / 10)) = (10 * d < - ?n)"
    unfolding share_negated [OF n(1) d] share_above [OF n] by linarith+
  ultimately have "rg_recommendation g = (if 2 * d > ?n then STRONG_BUY else if 10 * d > ?n then RATING_BUY
      else if 2 * d < - ?n then STRONG_SELL else if 10 * d < - ?n then RATING_SELL else RATING_NEUTRAL)"
    by (simp only: scoreToRecommendation_def)
  then show ?thesis using c by blast
qed

lemma recommendation_by_majority_witness:
  "rg_recommendation (buildTechnicalRatingGroup [\<lparr>in_key = ''rsi14'', in_value = Fin 20, in_action = RBuy\<rparr>,
     \<lparr>in_key = ''uo71428'', in_value = Fin 50, in_action = RNeutral\<rparr>]) = RATING_BUY" (is "rg_recommendation (buildTechnicalRatingGroup ?xs) = _")
  using recommendation_by_majority [of ?xs, OF _ _ refl refl]
  by (simp add: buildTechnicalRatingGroup_def Let_def count_action_def)

lemma merged_day_spans_witness:
  "\<exists>day. applyCurrentQuoteToPrices [\<lparr>bar_date = ''20260708'', bar_close = Fin 7, bar_open = Fin 6, bar_high = Fin 8, bar_low = Fin 5, bar_volume = Fin 1\<rparr>]
     (Some \<lparr>dq_currentPrice = Some (Fin 9), dq_openPrice = None, dq_highPrice = None, dq_lowPrice = None, dq_volume = None\<rparr>) = [day] \<and>
     Fin 9 \<le> bar_high day" (is "\<exists>day. applyCurrentQuoteToPrices [?l] (Some ?q) = _ \<and> _")
proof -
  obtain day where d: "applyCurrentQuoteToPrices [?l] (Some ?q) = [day]" "bar_close day = Fin 9"
    by (simp add: applyCurrentQuoteToPrices_def merge_day_def Let_def)
  show ?thesis using merged_day_spans [OF d(1)] d by auto
qed

end
