(* ===== verification/KstTime.thy ===== *)
theory KstTime imports BrokerContext MarketHours begin

text \<open>
  Korean dates and times as a broker writes them, eight and six digits, and back
  (\<open>src/trading/trading-broker-order-matcher.service.ts\<close>, \<open>trading-broker-order-resolution.service.ts\<close>,
  \<open>trading-order-cancellation.service.ts\<close>). \<open>Date.UTC\<close> carries fields that are out of range and takes a
  year below 100 for one of the last century.
\<close>

section \<open>Dates from their fields\<close>

definition day_of_civil :: "int \<Rightarrow> int \<Rightarrow> int \<Rightarrow> int" where
  "day_of_civil y m d =
    (let y1 = y + (m - 1) div 12; m1 = (m - 1) mod 12 + 1;
         y2 = (if m1 \<le> 2 then y1 - 1 else y1);
         yoe = y2 mod 400; mp = (m1 + 9) mod 12;
         doy = (153 * mp + 2) div 5 + d - 1
     in (y2 div 400) * 146097 + (yoe * 365 + yoe div 4 - yoe div 100 + doy) - 719468)"

text \<open>\<open>Date.UTC(y, m - 1, d, h, mi, s)\<close>\<close>

definition utc :: "int \<Rightarrow> int \<Rightarrow> int \<Rightarrow> int \<Rightarrow> int \<Rightarrow> int \<Rightarrow> int" where
  "utc y m d h mi s = day_of_civil (if 0 \<le> y \<and> y \<le> 99 then 1900 + y else y) m d * 86400000 + h * 3600000 + mi * 60000 + s * 1000"

definition number_of :: "string \<Rightarrow> int" where
  "number_of s = foldl (\<lambda>n c. 10 * n + (of_char c - 48)) 0 s"

text \<open>\<open>toISOString().slice(11, 19)\<close> of an instant of the years 0 to 9999.\<close>

definition isoTime :: "int \<Rightarrow> string" where
  "isoTime ms =
    (let s = (ms mod 86400000) div 1000 in
     digits_text 2 (nat (s div 3600)) @ '':'' @ digits_text 2 (nat (s div 60 mod 60)) @ '':'' @ digits_text 2 (nat (s mod 60)))"

definition without :: "char \<Rightarrow> string \<Rightarrow> string" where
  "without c s = filter (\<lambda>x. x \<noteq> c) s"

section \<open>The texts of a broker\<close>

definition formatKstDate :: "int \<Rightarrow> string" where
  "formatKstDate t = without CHR ''-'' (isoDate (kst t))"

definition formatKstTime :: "int \<Rightarrow> string" where
  "formatKstTime t = without CHR '':'' (isoTime (kst t))"

definition parseKstTimestamp :: "string \<Rightarrow> string \<Rightarrow> int option" where
  "parseKstTimestamp orderDate orderTime =
    (if \<not> digits 8 orderDate \<or> \<not> digits 6 orderTime then None
     else let y = number_of (take 4 orderDate); m = number_of (take 2 (drop 4 orderDate)); d = number_of (drop 6 orderDate);
              h = number_of (take 2 orderTime); mi = number_of (take 2 (drop 2 orderTime)); s = number_of (drop 4 orderTime) in
     if h > 23 \<or> mi > 59 \<or> s > 59 then None
     else let timestamp = utc y m d (h - 9) mi s in
     if formatKstDate timestamp \<noteq> orderDate \<or> formatKstTime timestamp \<noteq> orderTime then None
     else Some timestamp)"

text \<open>A day of the calendar, at midnight of universal time.\<close>

definition parseKstCalendarDay :: "string \<Rightarrow> int option" where
  "parseKstCalendarDay v =
    (if \<not> digits 8 v then None
     else let day = utc (number_of (take 4 v)) (number_of (take 2 (drop 4 v))) (number_of (drop 6 v)) 0 0 0 in
     if without CHR ''-'' (isoDate day) = v then Some day else None)"

definition kstCalendarDay :: "int \<Rightarrow> int" where
  "kstCalendarDay t = (kst t div 86400000) * 86400000"

definition isValidBrokerOrderDate :: "string option \<Rightarrow> bool" where
  "isValidBrokerOrderDate v =
    (case v of None \<Rightarrow> False
     | Some date \<Rightarrow>
       digits 8 date \<and>
       (let y = number_of (take 4 date); m = number_of (take 2 (drop 4 date)); d = number_of (drop 6 date)
        in civil_of_day (utc y m d 0 0 0 div 86400000) = (y, m, d)))"

section \<open>The calendar and back\<close>

lemma civil_fields:
  fixes doe :: int
  assumes "0 \<le> doe" "doe \<le> 146096"
  defines "yoe \<equiv> (doe - doe div 1460 + doe div 36524 - doe div 146096) div 365"
  shows "0 \<le> yoe \<and> yoe \<le> 399 \<and> 0 \<le> doe - (365 * yoe + yoe div 4 - yoe div 100) \<and>
    doe - (365 * yoe + yoe div 4 - yoe div 100) \<le> 365"
proof (cases "doe = 146096")
  case True
  then show ?thesis by (simp add: yoe_def)
next
  case False
  define a b p q where "a = doe div 1460" and "b = doe div 36524" and "p = yoe div 4" and "q = yoe div 100"
  have c: "doe div 146096 = 0" using assms(1,2) False by simp
  have a: "1460 * a \<le> doe" "doe < 1460 * a + 1460" unfolding a_def by linarith+
  have b: "36524 * b \<le> doe" "doe < 36524 * b + 36524" unfolding b_def by linarith+
  have y: "365 * yoe \<le> doe - a + b" "doe - a + b < 365 * yoe + 365" unfolding yoe_def a_def b_def c by linarith+
  have p: "4 * p \<le> yoe" "yoe < 4 * p + 4" unfolding p_def by linarith+
  have q: "100 * q \<le> yoe" "yoe < 100 * q + 100" unfolding q_def by linarith+
  have ab: "0 \<le> a" "0 \<le> b" "b \<le> 3" "a \<le> 100" using assms(1,2) a b False by linarith+
  have yb: "0 \<le> yoe" "yoe \<le> 399" using y a b ab assms(1,2) False by linarith+
  have "b \<le> a" using a b ab by linarith
  then have pa: "p \<le> a" "a \<le> p + 1" using y a b ab p by linarith+
  have qb: "b \<le> q" "q \<le> b" using y a b ab q by linarith+
  have "doe - (365 * yoe + p - q) = (doe - a + b - 365 * yoe) + (a - p) + (q - b)" by simp
  then show ?thesis using yb pa qb y unfolding p_def [symmetric] q_def [symmetric] by linarith
qed

lemma day_of_civil_of_day:
  assumes "civil_of_day day = (y, m, d)"
  shows "day_of_civil y m d = day \<and> 1 \<le> m \<and> m \<le> 12 \<and> 1 \<le> d \<and> d \<le> 31"
proof -
  define z doe where "z = day + 719468" and "doe = z mod 146097"
  define yoe where "yoe = (doe - doe div 1460 + doe div 36524 - doe div 146096) div 365"
  define doy where "doy = doe - (365 * yoe + yoe div 4 - yoe div 100)"
  define mp where "mp = (5 * doy + 2) div 153"
  have "0 \<le> doe" "doe \<le> 146096" by (simp_all add: doe_def)
  then have f: "0 \<le> yoe" "yoe \<le> 399" "0 \<le> doy" "doy \<le> 365"
    using civil_fields [of doe] unfolding yoe_def doy_def by blast+
  then have mp: "0 \<le> mp" "mp \<le> 11" "153 * mp \<le> 5 * doy + 2" "5 * doy + 2 < 153 * mp + 153" unfolding mp_def by linarith+
  have c: "civil_of_day day = (yoe + z div 146097 * 400 + (if (if mp < 10 then mp + 3 else mp - 9) \<le> 2 then 1 else 0),
      (if mp < 10 then mp + 3 else mp - 9), doy - (153 * mp + 2) div 5 + 1)"
    by (simp only: civil_of_day_def Let_def z_def doe_def yoe_def doy_def mp_def add.commute)
  have e: "m = (if mp < 10 then mp + 3 else mp - 9)" "d = doy - (153 * mp + 2) div 5 + 1"
    "y = yoe + z div 146097 * 400 + (if m \<le> 2 then 1 else 0)"
    using assms unfolding c by (simp_all split: if_splits)
  have "mp \<in> {0, 1, 2, 3, 4, 5, 6, 7, 8, 9, 10, 11}" using mp(1,2) by (simp, presburger)
  then have mm: "1 \<le> m \<and> m \<le> 12 \<and> (m + 9) mod 12 = mp" unfolding e(1) by (elim insertE) simp_all
  have y1: "(if m \<le> 2 then y - 1 else y) = yoe + z div 146097 * 400" unfolding e(3) by (cases "m \<le> 2") simp_all
  have "(m - 1) div 12 = 0" "(m - 1) mod 12 = m - 1" using mm by simp_all
  note m = this mm y1
  have y2: "(yoe + z div 146097 * 400) mod 400 = yoe" "(yoe + z div 146097 * 400) div 400 = z div 146097" using f by simp_all
  have "d \<ge> 1 \<and> d \<le> 31" using mp e(2) by linarith
  moreover have "day_of_civil y m d = day"
  proof -
    have s1: "y + 0 = y" "m - 1 + 1 = m" by simp_all
    have "day_of_civil y m d = z div 146097 * 146097 + (yoe * 365 + yoe div 4 - yoe div 100 + ((153 * mp + 2) div 5 + d - 1)) - 719468"
      by (simp only: day_of_civil_def Let_def m(1,2) s1 conjunct2 [OF conjunct2 [OF mm]] y1 y2)
    also have "\<dots> = z div 146097 * 146097 + doe - 719468" unfolding e(2) doy_def by linarith
    also have "\<dots> = day" unfolding doe_def by (simp add: z_def)
    finally show ?thesis .
  qed
  ultimately show ?thesis using mm by blast
qed

lemma civil_year:
  assumes "civil_of_day day = (y, m, d)" "0 \<le> day" "day \<le> 2900000"
  shows "1900 \<le> y \<and> y \<le> 9999"
proof -
  define z doe where "z = day + 719468" and "doe = z mod 146097"
  define yoe where "yoe = (doe - doe div 1460 + doe div 36524 - doe div 146096) div 365"
  define doy where "doy = doe - (365 * yoe + yoe div 4 - yoe div 100)"
  define mp where "mp = (5 * doy + 2) div 153"
  define e :: int where "e = (if (if mp < 10 then mp + 3 else mp - 9) \<le> 2 then 1 else 0)"
  have "civil_of_day day = (yoe + z div 146097 * 400 + e, (if mp < 10 then mp + 3 else mp - 9), doy - (153 * mp + 2) div 5 + 1)"
    by (simp only: civil_of_day_def Let_def z_def doe_def yoe_def doy_def mp_def e_def add.commute)
  then have e: "y = yoe + z div 146097 * 400 + e" "0 \<le> e" "e \<le> 1" using assms(1) by (simp_all add: e_def)
  have doe: "0 \<le> doe" "doe \<le> 146096" by (simp_all add: doe_def)
  then have yoe: "0 \<le> yoe" "yoe \<le> 399" using civil_fields [of doe] unfolding yoe_def by blast+
  have z: "z = 146097 * (z div 146097) + doe" by (simp add: doe_def)
  have era: "4 \<le> z div 146097" "z div 146097 \<le> 24" using assms(2,3) by (simp_all add: z_def)
  have "365 * yoe \<le> doe + 4"
  proof -
    have "doe div 36524 \<le> 4" "0 \<le> doe div 1460" "0 \<le> doe div 146096" using doe by simp_all
    moreover have "365 * yoe \<le> doe - doe div 1460 + doe div 36524 - doe div 146096" unfolding yoe_def by simp
    ultimately show ?thesis by linarith
  qed
  moreover have "z div 146097 = 24 \<longrightarrow> doe \<le> 113140" using z assms(3) by (simp add: z_def)
  moreover have "z div 146097 = 4 \<longrightarrow> 135080 \<le> doe" using z assms(2) by (simp add: z_def)
  moreover have "135080 \<le> doe \<longrightarrow> 300 \<le> yoe"
  proof
    assume "135080 \<le> doe"
    moreover have "doe div 1460 \<le> 101" "0 \<le> doe div 36524" "doe div 146096 \<le> 1" using doe by simp_all
    ultimately show "300 \<le> yoe" unfolding yoe_def by linarith
  qed
  moreover have "z div 146097 = 4 \<or> 5 \<le> z div 146097" "z div 146097 = 24 \<or> z div 146097 \<le> 23" using era by linarith+
  ultimately show ?thesis using e yoe by (elim disjE) linarith+
qed

section \<open>Digits and back\<close>

lemma number_of_append: "number_of (s @ [c]) = 10 * number_of s + (of_char c - 48)"
  by (simp add: number_of_def)

lemma number_of_digits: "number_of (digits_text k n) = int (n mod 10 ^ k)"
proof (induction k arbitrary: n)
  case 0
  then show ?case by (simp add: number_of_def)
next
  case (Suc k)
  let ?c = "char_of (48 + n mod 10) :: char"
  have c: "(of_char ?c :: int) = int (of_char ?c)" by (rule of_nat_of_char [symmetric])
  have "(of_char ?c :: nat) = 48 + n mod 10" by simp
  then have c: "(of_char ?c :: int) - 48 = int (n mod 10)" unfolding c by simp
  have "n mod 10 ^ Suc k = 10 * (n div 10 mod 10 ^ k) + n mod 10" by (simp add: mod_mult2_eq)
  then have e: "int (n mod 10 ^ Suc k) = 10 * int (n div 10 mod 10 ^ k) + int (n mod 10)" by simp
  show ?case unfolding digits_text.simps number_of_append Suc c e ..
qed

lemma digits_digits [simp]: "digits k (digits_text k n)"
  by (induction k arbitrary: n) (auto simp: digits_def is_digit_def)

lemma digits_append: "digits k s \<Longrightarrow> digits l t \<Longrightarrow> digits (k + l) (s @ t)"
  by (simp add: digits_def)

lemma three_digits: "digits (j + (k + l)) (digits_text j a @ digits_text k b @ digits_text l c)"
  by (intro digits_append digits_digits)

lemma length_digits [simp]: "length (digits_text k n) = k"
  by (induction k arbitrary: n) simp_all

lemma without_digits: "\<not> is_digit c \<Longrightarrow> without c (digits_text k n) = digits_text k n"
proof -
  assume "\<not> is_digit c"
  then have "x \<noteq> c" if "x \<in> set (digits_text k n)" for x
    using that digits_digits [of k n] by (auto simp: digits_def list_all_iff)
  then show ?thesis by (simp add: without_def filter_id_conv)
qed

lemma without_append [simp]: "without c (s @ t) = without c s @ without c t" "without c [] = []"
    "without c (x # s) = (if x = c then without c s else x # without c s)"
  by (simp_all add: without_def)

lemma civil_day_bounds:
  assumes "civil_of_day day = (y, m, d)"
  shows "number_of (digits_text 2 (nat m)) = m" "number_of (digits_text 2 (nat d)) = d"
proof -
  have "0 \<le> m" "m < 100" "0 \<le> d" "d < 100" using day_of_civil_of_day [OF assms] by simp_all
  then show "number_of (digits_text 2 (nat m)) = m" "number_of (digits_text 2 (nat d)) = d"
    by (simp_all add: number_of_digits zmod_int)
qed

lemma kst_date_text:
  assumes "civil_of_day (t div 86400000) = (y, m, d)" "0 \<le> y" "y \<le> 9999"
  shows "without CHR ''-'' (isoDate t) = digits_text 4 (nat y) @ digits_text 2 (nat m) @ digits_text 2 (nat d)"
  using assms by (simp add: isoDate_def year_text_def without_digits is_digit_def)

lemma kst_time_text:
  "without CHR '':'' (isoTime t) = digits_text 2 (nat (t mod 86400000 div 1000 div 3600)) @
    digits_text 2 (nat (t mod 86400000 div 1000 div 60 mod 60)) @ digits_text 2 (nat (t mod 86400000 div 1000 mod 60))"
  by (simp add: isoTime_def without_digits is_digit_def Let_def)

lemma div_thousand: "(a :: int) div (1000 * 86400) = a div 1000 div 86400" "1000 * x div (1000 * 86400) = (x :: int) div 86400"
  and mod_thousand: "(a :: int) mod (1000 * 86400) div 1000 = a div 1000 mod 86400" "1000 * x mod (1000 * 86400) div 1000 = (x :: int) mod 86400"
  by (subst zdiv_zmult2_eq; simp)
    (simp_all only: zmod_zmult2_eq [of 86400 _ 1000] mult_mod_right [symmetric] div_mult_mult1_if; simp)+

lemma kst_read_back:
  assumes "civil_of_day (kst t div 86400000) = (y, m, d)" "100 \<le> y" "y \<le> 9999"
  shows "parseKstTimestamp (formatKstDate t) (formatKstTime t) = Some (t - t mod 1000)"
proof -
  define day s where "day = kst t div 86400000" and "s = kst t mod 86400000 div 1000"
  have s: "0 \<le> s" "s < 86400" by (simp_all add: s_def)
  have c: "civil_of_day day = (y, m, d)" using assms(1) by (simp add: day_def)
  note b = day_of_civil_of_day [OF c] civil_day_bounds [OF c]
  have D: "formatKstDate t = digits_text 4 (nat y) @ digits_text 2 (nat m) @ digits_text 2 (nat d)"
    using kst_date_text [OF assms(1)] assms(2,3) by (simp add: formatKstDate_def)
  have T: "formatKstTime t = digits_text 2 (nat (s div 3600)) @ digits_text 2 (nat (s div 60 mod 60)) @ digits_text 2 (nat (s mod 60))"
    by (simp add: formatKstTime_def kst_time_text s_def)
  have n: "number_of (digits_text 4 (nat y)) = y" using assms(2,3) by (simp add: number_of_digits zmod_int)
  have hm: "number_of (digits_text 2 (nat (s div 3600))) = s div 3600" "number_of (digits_text 2 (nat (s div 60 mod 60))) = s div 60 mod 60"
    "number_of (digits_text 2 (nat (s mod 60))) = s mod 60"
    using s by (simp_all add: number_of_digits zmod_int)
  have bd: "s div 3600 \<le> 23" "s div 60 mod 60 \<le> 59" "s mod 60 \<le> 59" using s by simp_all
  have ss: "s div 3600 * 3600 + s div 60 mod 60 * 60 + s mod 60 = s"
  proof -
    have "s div 3600 = s div 60 div 60" by (simp add: div_mult2_eq [symmetric])
    then show ?thesis using div_mult_mod_eq [of "s div 60" 60] div_mult_mod_eq [of s 60] by linarith
  qed
  have k: "kst t = day * 86400000 + s * 1000 + kst t mod 1000" 
  proof -
    have "kst t mod 86400000 div 1000 * 1000 + kst t mod 86400000 mod 1000 = kst t mod 86400000" by simp
    moreover have "kst t mod 86400000 mod 1000 = kst t mod 1000" by (simp add: mod_mod_cancel)
    ultimately show ?thesis using div_mult_mod_eq [of "kst t" 86400000] unfolding day_def s_def by linarith
  qed
  have u: "utc y m d (s div 3600 - 9) (s div 60 mod 60) (s mod 60) = t - t mod 1000"
  proof -
    have "utc y m d (s div 3600 - 9) (s div 60 mod 60) (s mod 60) =
        day * 86400000 + (s div 3600 * 3600 + s div 60 mod 60 * 60 + s mod 60) * 1000 - 9 * 3600000"
      using assms(2) b(1) by (simp add: utc_def algebra_simps)
    also have "\<dots> = kst t - kst t mod 1000 - 9 * 3600000" using ss k by simp
    also have "\<dots> = t - t mod 1000" by (simp add: kst_def mod_add_right_eq [symmetric])
    finally show ?thesis .
  qed
  have same: "kst (t - t mod 1000) div 86400000 = day" "kst (t - t mod 1000) mod 86400000 div 1000 = s"
  proof -
    define x where "x = kst t div 1000"
    have "(t + 32400 * 1000) div 1000 = t div 1000 + 32400" using div_mult_self1 [of 1000 t 32400] by simp
    then have k: "kst (t - t mod 1000) = 1000 * x"
      using minus_mod_eq_mult_div [of t 1000] by (simp add: x_def kst_def)
    have B: "(86400000 :: int) = 1000 * 86400" by simp
    have "kst t div 86400000 = x div 86400" "1000 * x div 86400000 = x div 86400"
      "kst t mod 86400000 div 1000 = x mod 86400" "1000 * x mod 86400000 div 1000 = x mod 86400"
      unfolding B by (simp_all only: div_thousand mod_thousand x_def) simp
    then show "kst (t - t mod 1000) div 86400000 = day" "kst (t - t mod 1000) mod 86400000 div 1000 = s"
      unfolding k day_def s_def by (simp_all only:)
  qed
  have f: "formatKstDate (t - t mod 1000) = formatKstDate t" "formatKstTime (t - t mod 1000) = formatKstTime t"
    by (simp_all add: formatKstDate_def formatKstTime_def isoDate_def isoTime_def same day_def [symmetric] s_def [symmetric])
  have dg: "digits 8 (formatKstDate t)" "digits 6 (formatKstTime t)"
    unfolding D T using three_digits [of 4 2 2 "nat y" "nat m" "nat d"]
      three_digits [of 2 2 2 "nat (s div 3600)" "nat (s div 60 mod 60)" "nat (s mod 60)"]
    by simp_all
  show ?thesis
  proof -
    have p: "take 4 (formatKstDate t) = digits_text 4 (nat y)" "take 2 (drop 4 (formatKstDate t)) = digits_text 2 (nat m)"
      "drop 6 (formatKstDate t) = digits_text 2 (nat d)" "take 2 (formatKstTime t) = digits_text 2 (nat (s div 3600))"
      "take 2 (drop 2 (formatKstTime t)) = digits_text 2 (nat (s div 60 mod 60))" "drop 4 (formatKstTime t) = digits_text 2 (nat (s mod 60))"
      by (simp_all add: D T)
    show ?thesis unfolding parseKstTimestamp_def Let_def p n hm b u f
      using dg bd by (simp only: not_less if_False if_True simp_thms not_le [symmetric])
  qed
qed

text \<open>
  (C32) What is written of an instant as a Korean date and time is read back as that instant, to the second,
  in every year from 100 to 9999; and what is read of two texts at all is an instant that is written as
  these texts.
\<close>

theorem timestamp_roundtrip:
  assumes "civil_of_day (kst t div 86400000) = (y, m, d)" "100 \<le> y" "y \<le> 9999" "parseKstTimestamp date time = Some u"
  shows "parseKstTimestamp (formatKstDate t) (formatKstTime t) = Some (t - t mod 1000) \<and>
    formatKstDate u = date \<and> formatKstTime u = time"
  using kst_read_back [OF assms(1-3)] assms(4) by (simp add: parseKstTimestamp_def Let_def split: if_splits)

lemma digits_text_numeral: "digits_text (numeral k) n = digits_text (pred_numeral k) (n div 10) @ [char_of (48 + n mod 10)]"
  unfolding numeral_eq_Suc [of k] by (rule digits_text.simps)

lemma parse_example: "parseKstTimestamp ''20260708'' ''150506'' = Some 1783490706000"
proof -
  have d: "civil_of_day 20642 = (2026, 7, 8)" unfolding civil_of_day_def Let_def by simp
  have n: "number_of ''2026'' = 2026" "number_of ''07'' = 7" "number_of ''08'' = 8" "number_of ''15'' = 15" "number_of ''05'' = 5"
    "number_of ''06'' = 6" "digits 8 ''20260708''" "digits 6 ''150506''"
    by (simp_all add: number_of_def digits_def is_digit_def)
  have u: "utc 2026 7 8 (15 - 9) 5 6 = 1783490706000" unfolding utc_def day_of_civil_def Let_def by simp
  have dt: "digits_text 4 2026 = ''2026''" "digits_text 2 7 = ''07''" "digits_text 2 8 = ''08''" "digits_text 2 15 = ''15''"
    "digits_text 2 5 = ''05''" "digits_text 2 6 = ''06''"
    by ((simp add: digits_text_numeral; code_simp)+)
  have "civil_of_day (kst 1783490706000 div 86400000) = (2026, 7, 8)" by (simp add: kst_def d)
  then have "formatKstDate 1783490706000 = ''20260708''" by (simp add: formatKstDate_def kst_date_text dt)
  moreover have "formatKstTime 1783490706000 = ''150506''" by (simp add: formatKstTime_def kst_time_text kst_def dt)
  ultimately have "formatKstDate 1783490706000 = ''20260708''" "formatKstTime 1783490706000 = ''150506''" .
  then show ?thesis using n u by (simp add: parseKstTimestamp_def Let_def)
qed

lemma timestamp_roundtrip_witness:
  "parseKstTimestamp (formatKstDate 1783490706789) (formatKstTime 1783490706789) = Some 1783490706000"
proof -
  have "civil_of_day 20642 = (2026, 7, 8)" unfolding civil_of_day_def Let_def by simp
  then have "civil_of_day (kst 1783490706789 div 86400000) = (2026, 7, 8)" by (simp add: kst_def)
  then show ?thesis using timestamp_roundtrip [of 1783490706789 2026 7 8 "''20260708''" "''150506''"] parse_example by simp
qed

end
