(* ===== verification/DailyPrices.thy ===== *)
theory DailyPrices imports KstTime MarketIndicators begin

text \<open>
  Daily bars read from the broker page by page (\<open>src/kis/kis-domestic.service.ts\<close>,
  \<open>src/kis/kis-overseas.service.ts\<close>). The broker is the parameter \<open>answer\<close>: the rows it gives to the
  request of a number and a period, or the error the request throws. A number of a row is what
  \<open>parseFloat\<close> or \<open>parseInt\<close> reads of its text, \<open>NaN\<close> when it reads none. Dates are texts of eight digits; a
  text of another shape counts as no date.
\<close>

record broker_bar =
  rb_date :: "string option"
  rb_close :: jsnum
  rb_open :: jsnum
  rb_high :: jsnum
  rb_low :: jsnum
  rb_volume :: jsnum

definition bar_of :: "broker_bar \<Rightarrow> daily_price option" where
  "bar_of item =
    (let close = or_num (rb_close item) (Fin 0) in
     if js_eq close (Fin 0) then None
     else Some \<lparr>bar_date = coalesce (rb_date item) [], bar_close = close, bar_open = or_num (rb_open item) (Fin 0),
       bar_high = or_num (rb_high item) (Fin 0), bar_low = or_num (rb_low item) (Fin 0),
       bar_volume = or_num (rb_volume item) (Fin 0)\<rparr>)"

definition index_bar_of :: "broker_bar \<Rightarrow> daily_price option" where
  "index_bar_of item = map_option (\<lambda>b. b\<lparr>bar_volume := Fin 0\<rparr>) (bar_of item)"

text \<open>The text of a day counted from the epoch, and the day before a text's day.\<close>

definition day_text :: "int \<Rightarrow> string" where
  "day_text day = without CHR ''-'' (isoDate (day * 86400000))"

definition previousDay :: "string \<Rightarrow> string option" where
  "previousDay s =
    (let m = number_of (take 2 (drop 4 s)); d = number_of (drop 6 s) in
     if digits 8 s \<and> 1 \<le> m \<and> m \<le> 12 \<and> 1 \<le> d \<and> d \<le> 31
     then Some (day_text (day_of_civil (number_of (take 4 s)) m d - 1)) else None)"

fun text_less :: "string \<Rightarrow> string \<Rightarrow> bool" where
  "text_less s [] = False"
| "text_less [] (c # t) = True"
| "text_less (b # s) (c # t) = ((of_char b :: nat) < of_char c \<or> b = c \<and> text_less s t)"

section \<open>The loops\<close>

partial_function (option) daily_pages ::
  "(nat \<Rightarrow> string \<Rightarrow> string \<Rightarrow> js_error + broker_bar list) \<Rightarrow> (broker_bar \<Rightarrow> daily_price option) \<Rightarrow> nat \<Rightarrow>
   string \<Rightarrow> string \<Rightarrow> nat \<Rightarrow> daily_price list \<Rightarrow> (js_error + daily_price list) option" where
  "daily_pages answer row full start currentEnd k results =
    (case answer k start currentEnd of
       Inl e \<Rightarrow> Some (Inl e)
     | Inr rows \<Rightarrow>
         if rows = [] then Some (Inr results)
         else let results' = results @ List.map_filter row rows; lastDate = coalesce (rb_date (last rows)) [] in
         if lastDate = [] \<or> length rows < full then Some (Inr results')
         else case previousDay lastDate of
             None \<Rightarrow> Some (Inl (RangeError ''Invalid time value''))
           | Some nextEnd \<Rightarrow>
               if text_less nextEnd start then Some (Inr results')
               else daily_pages answer row full start nextEnd (Suc k) results')"

definition getDailyPrices :: "(nat \<Rightarrow> string \<Rightarrow> string \<Rightarrow> js_error + broker_bar list) \<Rightarrow> string \<Rightarrow> string \<Rightarrow>
    (js_error + daily_price list) option" where
  "getDailyPrices answer startDate endDate = daily_pages answer bar_of 100 startDate endDate 0 []"

definition getIndexDailyPrices :: "(nat \<Rightarrow> string \<Rightarrow> string \<Rightarrow> js_error + broker_bar list) \<Rightarrow> string \<Rightarrow> string \<Rightarrow>
    (js_error + daily_price list) option" where
  "getIndexDailyPrices answer startDate endDate = daily_pages answer index_bar_of 50 startDate endDate 0 []"

definition getOverseasIndexDailyPrices :: "(nat \<Rightarrow> string \<Rightarrow> string \<Rightarrow> js_error + broker_bar list) \<Rightarrow> string \<Rightarrow> string \<Rightarrow>
    (js_error + daily_price list) option" where
  "getOverseasIndexDailyPrices answer startDate endDate = daily_pages answer index_bar_of 100 startDate endDate 0 []"

text \<open>A foreign stock is read until \<open>count\<close> bars are there; the next page starts at the last day of this one.\<close>

partial_function (option) overseas_pages ::
  "(nat \<Rightarrow> string \<Rightarrow> js_error + broker_bar list) \<Rightarrow> nat \<Rightarrow> string \<Rightarrow> nat \<Rightarrow> daily_price list \<Rightarrow>
   (js_error + daily_price list) option" where
  "overseas_pages answer count bymd k results =
    (if count \<le> length results then Some (Inr results)
     else case answer k bymd of
       Inl e \<Rightarrow> Some (Inl e)
     | Inr rows \<Rightarrow>
         if rows = [] then Some (Inr results)
         else let results' = take count (results @ List.map_filter bar_of rows); lastDate = coalesce (rb_date (last rows)) [] in
         if lastDate = [] \<or> length rows < 100 then Some (Inr results')
         else overseas_pages answer count lastDate (Suc k) results')"

definition getOverseasDailyPrices :: "(nat \<Rightarrow> string \<Rightarrow> js_error + broker_bar list) \<Rightarrow> nat \<Rightarrow>
    (js_error + daily_price list) option" where
  "getOverseasDailyPrices answer count = overseas_pages answer count [] 0 []"

section \<open>Days and their texts\<close>

lemma day_read:
  assumes "0 \<le> day" "day \<le> 2900000"
  shows "digits 8 (day_text day) \<and> (\<exists>y m d. number_of (take 4 (day_text day)) = y \<and> number_of (take 2 (drop 4 (day_text day))) = m \<and>
    number_of (drop 6 (day_text day)) = d \<and> day_of_civil y m d = day \<and> 1 \<le> m \<and> m \<le> 12 \<and> 1 \<le> d \<and> d \<le> 31)"
proof -
  obtain y m d where c: "civil_of_day day = (y, m, d)" by (metis prod_cases3)
  have y: "1900 \<le> y" "y \<le> 9999" using civil_year [OF c assms] by simp_all
  have t: "day_text day = digits_text 4 (nat y) @ digits_text 2 (nat m) @ digits_text 2 (nat d)"
    unfolding day_text_def using c y by (intro kst_date_text) simp_all
  have n: "number_of (digits_text 4 (nat y)) = y" using y by (simp add: number_of_digits zmod_int)
  have p: "take 4 (day_text day) = digits_text 4 (nat y)" "take 2 (drop 4 (day_text day)) = digits_text 2 (nat m)"
    "drop 6 (day_text day) = digits_text 2 (nat d)" "digits 8 (day_text day)"
    using three_digits [of 4 2 2 "nat y" "nat m" "nat d"] by (simp_all add: t)
  show ?thesis using day_of_civil_of_day [OF c] by (simp add: p n civil_day_bounds [OF c])
qed

lemma day_before:
  assumes "0 \<le> day" "day \<le> 2900000"
  shows "previousDay (day_text day) = Some (day_text (day - 1)) \<and> day_text day \<noteq> []"
proof -
  have "length (day_text day) = 8" using day_read [OF assms] by (simp add: digits_def)
  then have "day_text day \<noteq> []" by auto
  then show ?thesis using day_read [OF assms] by (auto simp: previousDay_def Let_def)
qed

lemma day_text_inj:
  assumes "day_text a = day_text b" "0 \<le> a" "a \<le> 2900000" "0 \<le> b" "b \<le> 2900000"
  shows "a = b"
  using day_read [of a] day_read [of b] assms by auto

section \<open>The period is read and the loop ends\<close>

text \<open>Rows as the broker lists them: the days of the asked period, newest first.\<close>

definition rows_within :: "int \<Rightarrow> int \<Rightarrow> broker_bar list \<Rightarrow> bool" where
  "rows_within s e rows \<longleftrightarrow>
    (\<exists>ds. map rb_date rows = map (Some \<circ> day_text) ds \<and> sorted_wrt (>) ds \<and> set ds \<subseteq> {s..e})"

definition keeps_date :: "(broker_bar \<Rightarrow> daily_price option) \<Rightarrow> bool" where
  "keeps_date row \<longleftrightarrow> (\<forall>r b. row r = Some b \<longrightarrow> bar_date b = coalesce (rb_date r) [])"

lemma keeps_date_rows: "keeps_date bar_of" "keeps_date index_bar_of"
  by (auto simp: keeps_date_def bar_of_def index_bar_of_def Let_def split: if_splits)

lemma kept_days:
  assumes "keeps_date row" "map rb_date rows = map (Some \<circ> day_text) ds" "sorted_wrt (>) (ds :: int list)"
  shows "\<exists>ds'. map bar_date (List.map_filter row rows) = map day_text ds' \<and> sorted_wrt (>) ds' \<and> set ds' \<subseteq> set ds"
  using assms(2,3)
proof (induction rows arbitrary: ds)
  case Nil
  then show ?case by (intro exI [of _ "[]"]) (simp add: List.map_filter_def)
next
  case (Cons r rows)
  then obtain d ds0 where d: "ds = d # ds0" "rb_date r = Some (day_text d)" "map rb_date rows = map (Some \<circ> day_text) ds0" by auto
  then obtain ds' where i: "map bar_date (List.map_filter row rows) = map day_text ds'" "sorted_wrt (>) ds'" "set ds' \<subseteq> set ds0"
    using Cons by fastforce
  show ?case
  proof (cases "row r")
    case None
    then show ?thesis using i d(1) by (intro exI [of _ ds']) (auto simp: List.map_filter_def)
  next
    case (Some b)
    then have "bar_date b = day_text d" using assms(1) d(2) by (fastforce simp: keeps_date_def)
    then show ?thesis using i d(1) Some Cons.prems(2) by (intro exI [of _ "d # ds'"]) (auto simp: List.map_filter_def)
  qed
qed

lemma daily_pages_return:
  assumes "keeps_date row" "0 \<le> s" "e \<le> 2900000"
    and "\<And>k e' rows. s \<le> e' + 1 \<Longrightarrow> e' \<le> e \<Longrightarrow> answer k start (day_text e') = Inr rows \<Longrightarrow> rows_within s e' rows"
    and "map bar_date results = map day_text ds" "sorted_wrt (>) ds" "set ds \<subseteq> {e + 1..E}" "s \<le> e + 1" "e \<le> E"
  shows "\<exists>r. daily_pages answer row full start (day_text e) k results = Some r \<and>
    (\<forall>bars. r = Inr bars \<longrightarrow> (\<exists>ds. map bar_date bars = map day_text ds \<and> sorted_wrt (>) ds \<and> set ds \<subseteq> {s..E}))"
  using assms(3-)
proof (induction "nat (e + 1 - s)" arbitrary: e k results ds rule: less_induct)
  case less
  show ?case
  proof (cases "answer k start (day_text e)")
    case (Inl x)
    then show ?thesis by (subst daily_pages.simps) simp
  next
    case (Inr rows)
    obtain es where es: "map rb_date rows = map (Some \<circ> day_text) es" "sorted_wrt (>) es" "set es \<subseteq> {s..e}"
      using less.prems(2) [OF _ _ Inr] less.prems(6) unfolding rows_within_def by auto
    obtain ds' where ds': "map bar_date (List.map_filter row rows) = map day_text ds'" "sorted_wrt (>) ds'" "set ds' \<subseteq> set es"
      using kept_days [OF assms(1) es(1,2)] by blast
    have all: "map bar_date (results @ List.map_filter row rows) = map day_text (ds @ ds')" using less.prems(3) ds'(1) by simp
    have sorted: "sorted_wrt (>) (ds @ ds')"
      using less.prems(4,5) ds' es(3) by (fastforce simp: sorted_wrt_append)
    have within: "set (ds @ ds') \<subseteq> {s..E}" "set ds \<subseteq> {s..E}" using less.prems(5,6,7) ds'(3) es(3) by fastforce+
    have done1: "\<exists>ds. map bar_date (results @ List.map_filter row rows) = map day_text ds \<and> sorted_wrt (>) ds \<and> set ds \<subseteq> {s..E}"
      using all sorted within(1) by blast
    have done0: "\<exists>ds. map bar_date results = map day_text ds \<and> sorted_wrt (>) ds \<and> set ds \<subseteq> {s..E}"
      using less.prems(3,4) within(2) by blast
    show ?thesis
    proof (cases "rows = []")
      case True
      then show ?thesis using Inr done0 by (subst daily_pages.simps) simp
    next
      case False
      then have "es \<noteq> []" using es(1) by (metis list.map_disc_iff)
      define l where "l = last es"
      have l: "s \<le> l" "l \<le> e" using es(3) last_in_set [OF \<open>es \<noteq> []\<close>] by (auto simp: l_def)
      have "rb_date (last rows) = last (map rb_date rows)" using False by (simp add: last_map)
      also have "\<dots> = Some (day_text l)" using \<open>es \<noteq> []\<close> by (simp add: es(1) last_map l_def)
      finally have ld: "rb_date (last rows) = Some (day_text l)" .
      have p: "previousDay (day_text l) = Some (day_text (l - 1))" "day_text l \<noteq> []"
        using day_before [of l] l assms(2) less.prems(1) by simp_all
      have low: "l \<le> x" if "x \<in> set es" for x
      proof -
        have "sorted_wrt (>) (butlast es @ [last es])" using es(2) \<open>es \<noteq> []\<close> by simp
        then show ?thesis using that \<open>es \<noteq> []\<close>
          by (metis append_butlast_last_id l_def less_imp_le order_refl sorted_wrt_append Un_iff empty_iff empty_set list.set_intros(1) set_append set_ConsD)
      qed
      have later: "set (ds @ ds') \<subseteq> {l - 1 + 1..E}" using less.prems(5,7) l ds'(3) low es(3) by fastforce
      have "\<exists>r. daily_pages answer row full start (day_text (l - 1)) (Suc k) (results @ List.map_filter row rows) = Some r \<and>
          (\<forall>bars. r = Inr bars \<longrightarrow> (\<exists>ds. map bar_date bars = map day_text ds \<and> sorted_wrt (>) ds \<and> set ds \<subseteq> {s..E}))"
      proof (rule less.hyps [OF _ _ _ all sorted later])
        show "nat (l - 1 + 1 - s) < nat (e + 1 - s)" using l by simp
        show "l - 1 \<le> 2900000" "s \<le> l - 1 + 1" "l - 1 \<le> E" using l less.prems(1,7) by simp_all
        show "rows_within s e' rs" if "s \<le> e' + 1" "e' \<le> l - 1" "answer k start (day_text e') = Inr rs" for k e' rs
          using less.prems(2) [OF that(1) _ that(3)] that(2) l by simp
      qed
      then show ?thesis using Inr False ld p done1
        by (subst daily_pages.simps) (simp add: Let_def del: map_append)
    qed
  qed
qed



text \<open>
  The pages of a foreign stock overlap: the broker lists the day it is asked from first, so a full page
  and the page after it both hold the day between them, and the bars read hold that day twice in a row.
\<close>

lemma foreign_pages_repeat_a_day:
  assumes "answer 0 [] = Inr rows" "length rows = 100" "rb_date (last rows) = Some d" "d \<noteq> []" "bar_of (last rows) \<noteq> None"
    and "answer 1 d = Inr (r # rs)" "rb_date r = Some d" "bar_of r \<noteq> None" "length rs < 99" "100 < count"
  shows "\<exists>bars before b b' after. getOverseasDailyPrices answer count = Some (Inr bars) \<and> bars = before @ [b, b'] @ after \<and>
    bar_date b = d \<and> bar_date b' = d"
proof -
  let ?kept = "List.map_filter bar_of rows"
  have rows: "rows = butlast rows @ [last rows]" using assms(2) by (metis append_butlast_last_id list.size(3) zero_neq_numeral)
  obtain b b' where b: "bar_of (last rows) = Some b" "bar_of r = Some b'" using assms(5,8) by blast
  then have dates: "bar_date b = d" "bar_date b' = d" using keeps_date_rows(1) assms(3,7) by (fastforce simp: keeps_date_def)+
  have kept: "?kept = List.map_filter bar_of (butlast rows) @ [b]"
    using b(1) by (subst rows) (simp add: List.map_filter_def)
  have "length ?kept \<le> 100" using assms(2) by (metis List.map_filter_def length_filter_le length_map)
  then have len: "length ?kept < count" using assms(10) by simp
  then have take: "take count ?kept = ?kept" by simp
  have first: "overseas_pages answer count [] 0 [] = overseas_pages answer count d (Suc 0) ?kept"
    using assms(1-4,10) rows take by (subst overseas_pages.simps) (auto simp: Let_def)
  have "overseas_pages answer count d (Suc 0) ?kept = Some (Inr (take count (?kept @ List.map_filter bar_of (r # rs))))"
    using assms(6,9) len by (subst overseas_pages.simps) (simp add: Let_def)
  moreover have second: "List.map_filter bar_of (r # rs) = b' # List.map_filter bar_of rs" using b(2) by (simp add: List.map_filter_def)
  obtain n where n: "count - length ?kept = Suc n" using len by (metis Suc_diff_Suc)
  have "take count (?kept @ List.map_filter bar_of (r # rs)) =
      List.map_filter bar_of (butlast rows) @ [b, b'] @ take n (List.map_filter bar_of rs)"
    using take by (simp only: second take_append n take_Suc_Cons) (simp add: kept)
  ultimately show ?thesis using dates by (simp only: getOverseasDailyPrices_def first option.inject sum.inject) blast
qed

definition example_row :: "int \<Rightarrow> broker_bar" where
  "example_row day = \<lparr>rb_date = Some (day_text day), rb_close = Fin 7, rb_open = Fin 6, rb_high = Fin 8, rb_low = Fin 5, rb_volume = Fin 1\<rparr>"

lemma foreign_pages_repeat_a_day_witness:
  "\<exists>bars before b b' after. getOverseasDailyPrices (\<lambda>k bymd. Inr (if k = 0 then map (\<lambda>i. example_row (20642 - int i)) [0..<100]
       else map (\<lambda>i. example_row (20543 - int i)) [0..<50])) 650 = Some (Inr bars) \<and> bars = before @ [b, b'] @ after \<and>
     bar_date b = day_text 20543 \<and> bar_date b' = day_text 20543"
proof (rule foreign_pages_repeat_a_day)
  let ?rows = "map (\<lambda>i. example_row (20642 - int i)) [0..<100]"
  have l: "last ?rows = example_row 20543" by (simp add: last_map)
  show "rb_date (last ?rows) = Some (day_text 20543)" "bar_of (last ?rows) \<noteq> None"
    unfolding l by (simp_all add: example_row_def bar_of_def Let_def or_num_def js_eq_def)
  show "rb_date (example_row 20543) = Some (day_text 20543)" "bar_of (example_row 20543) \<noteq> None"
    by (simp_all add: example_row_def bar_of_def Let_def or_num_def js_eq_def)
  show "day_text 20543 \<noteq> []" using day_before [of 20543] by simp
  have "[0..<50] = 0 # [1..<50 :: nat]" unfolding One_nat_def by (rule upt_conv_Cons) simp
  then show "Inr (if (1 :: nat) = 0 then ?rows else map (\<lambda>i. example_row (20543 - int i)) [0..<50]) =
      Inr (example_row 20543 # map (\<lambda>i. example_row (20543 - int i)) [1..<50])"
    by (simp del: upt_rec_numeral)
qed simp_all

end
