(* ===== verification/MarketAnalysis.thy ===== *)
theory MarketAnalysis imports TechnicalRatings DailyPrices begin

text \<open>
  The cached analysis of stocks and markets (\<open>src/trading/market-analysis.service.ts\<close>,
  \<open>src/trading/market-regime.service.ts\<close>). The one map of the code holds three kinds of data under keys of
  different prefixes; here it is a map for each kind. A call takes the instant it starts at, and the instant at
  which its data has arrived. Names shown to the user are left out.
\<close>

section \<open>Caches\<close>

type_synonym 'a cache = "string \<Rightarrow> ('a \<times> int) option"

definition CACHE_TTL_MS :: int where "CACHE_TTL_MS = 24 * 60 * 60 * 1000"

definition INTRADAY_VWAP_CACHE_TTL_MS :: int where "INTRADAY_VWAP_CACHE_TTL_MS = 30 * 1000"

definition getCache :: "int \<Rightarrow> string \<Rightarrow> 'a cache \<Rightarrow> 'a option \<times> 'a cache" where
  "getCache t key cache =
    (case cache key of None \<Rightarrow> (None, cache)
     | Some (data, expiry) \<Rightarrow> if t > expiry then (None, cache(key := None)) else (Some data, cache))"

definition setCache :: "int \<Rightarrow> int \<Rightarrow> string \<Rightarrow> 'a \<Rightarrow> 'a cache \<Rightarrow> 'a cache" where
  "setCache ttl t key data cache = cache(key \<mapsto> (data, t + ttl))"

section \<open>Periods and prices\<close>

definition getKstDate :: "int \<Rightarrow> string" where
  "getKstDate t = isoDate (kst t)"

definition ymd :: "string \<Rightarrow> string" where "ymd = without CHR ''-''"

text \<open>Half as many days again as trading days, rounded up; the dates are those of universal time.\<close>

definition getDateRange :: "int \<Rightarrow> nat \<Rightarrow> string \<times> string" where
  "getDateRange t tradingDays =
    (let calendarDays = (3 * int tradingDays + 1) div 2 in (ymd (isoDate (t - calendarDays * 86400000)), ymd (isoDate t)))"

definition EXCHANGE_CODE_MAP :: "string \<Rightarrow> string option" where
  "EXCHANGE_CODE_MAP = map_of [(''NASD'', ''NAS''), (''NYSE'', ''NYS''), (''AMEX'', ''AMS''), (''SEHK'', ''HKS''), (''SHAA'', ''SHS''),
     (''SZAA'', ''SZS''), (''TKSE'', ''TSE''), (''HASE'', ''HNX''), (''VNSE'', ''HSX'')]"

datatype index_type = domestic_index | overseas_index

definition EXCHANGE_REFERENCE_INDEX :: "string \<Rightarrow> (string \<times> index_type) option" where
  "EXCHANGE_REFERENCE_INDEX = map_of [(''KRX'', (''0001'', domestic_index)), (''NASD'', (''SPX'', overseas_index)),
     (''NYSE'', (''SPX'', overseas_index)), (''AMEX'', (''SPX'', overseas_index)), (''SEHK'', (''HSI'', overseas_index)),
     (''TKSE'', (''N225'', overseas_index)), (''SHAA'', (''SHCOMP'', overseas_index)), (''SZAA'', (''SHCOMP'', overseas_index)),
     (''HASE'', (''VNINDEX'', overseas_index)), (''VNSE'', (''VNINDEX'', overseas_index))]"

text \<open>What the broker answers to the numbered requests of one call, by what is asked for.\<close>

record broker_pages =
  pg_domestic :: "string \<Rightarrow> nat \<Rightarrow> string \<Rightarrow> string \<Rightarrow> js_error + broker_bar list"
  pg_overseas :: "string \<Rightarrow> string \<Rightarrow> nat \<Rightarrow> string \<Rightarrow> js_error + broker_bar list"
  pg_index :: "string \<Rightarrow> nat \<Rightarrow> string \<Rightarrow> string \<Rightarrow> js_error + broker_bar list"
  pg_overseasIndex :: "string \<Rightarrow> nat \<Rightarrow> string \<Rightarrow> string \<Rightarrow> js_error + broker_bar list"

definition fetchDailyPrices :: "broker_pages \<Rightarrow> int \<Rightarrow> market \<Rightarrow> string \<Rightarrow> string \<Rightarrow> nat \<Rightarrow> (js_error + daily_price list) option" where
  "fetchDailyPrices pages t market exchangeCode stockCode count =
    (case market of
       DOMESTIC \<Rightarrow> (case getDateRange t count of (startDate, endDate) \<Rightarrow> getDailyPrices (pg_domestic pages stockCode) startDate endDate)
     | OVERSEAS \<Rightarrow> getOverseasDailyPrices (pg_overseas pages (or_str (EXCHANGE_CODE_MAP exchangeCode) exchangeCode) stockCode) count)"

definition fetchIndexDailyPrices :: "broker_pages \<Rightarrow> int \<Rightarrow> index_type \<Rightarrow> string \<Rightarrow> nat \<Rightarrow> (js_error + daily_price list) option" where
  "fetchIndexDailyPrices pages t type indexCode count =
    (case getDateRange t count of (startDate, endDate) \<Rightarrow>
     (case type of domestic_index \<Rightarrow> getIndexDailyPrices (pg_index pages indexCode) startDate endDate
      | overseas_index \<Rightarrow> getOverseasIndexDailyPrices (pg_overseasIndex pages indexCode) startDate endDate))"

section \<open>Indicators of a stock\<close>

record stock_analysis =
  an_ma200 :: "jsnum option"
  an_currentAboveMA200 :: bool
  an_macdLine :: "jsnum option"
  an_macdSignal :: "jsnum option"
  an_indicators :: stock_indicators
  an_technicalRatings :: "technical_ratings option"

definition no_indicators :: stock_indicators where
  "no_indicators = \<lparr>rsi14 = None, volatility30d = None, ma20 = None, ma60 = None, bollingerUpper = None,
    bollingerMiddle = None, bollingerLower = None, macdHistogram = None, macdPrevHistogram = None, adx14 = None, atr14 =
    None, atrPercent = None, avgVolume20 = None, volumeRatio = None, prevHigh = None, prevLow = None, prevClose = None,
    todayOpen = None, foreignNetBuy = None, institutionNetBuy = None, programTradeDirection = None, investCautionYn =
    None, marketWarnCode = None, shortOverheatYn = None, d250HighRate = None, d250LowRate = None, yearLowRate = None,
    loanBalanceRate = None, shortSellable = None, dividendYield = None, targetPriceUpside = None, consensusRating = None,
    earningsSurprise = None, recentMaterialDisclosureCount30d = None, recentSecForm8KCount30d = None\<rparr>"

text \<open>Too few days, or an error: every filter passes.\<close>

definition unfiltered :: stock_analysis where
  "unfiltered = \<lparr>an_ma200 = None, an_currentAboveMA200 = True, an_macdLine = None, an_macdSignal = None,
     an_indicators = no_indicators, an_technicalRatings = None\<rparr>"

definition when_enough :: "nat \<Rightarrow> 'a list \<Rightarrow> 'b \<Rightarrow> 'b option" where
  "when_enough n prices v = (if n \<le> length prices then Some v else None)"

text \<open>\<open>x && x > 0\<close>, a number that may be missing.\<close>

definition positive_opt :: "jsnum option \<Rightarrow> bool" where
  "positive_opt x = (case x of None \<Rightarrow> False | Some v \<Rightarrow> truthy v \<and> v > Fin 0)"

definition truthy_number :: "jsnum option \<Rightarrow> bool" where
  "truthy_number x = (case x of None \<Rightarrow> False | Some v \<Rightarrow> truthy v)"

text \<open>The place of the previous day's bar: the newest bar may not be of today yet.\<close>

definition prevBarIndex :: "market \<Rightarrow> int \<Rightarrow> daily_price list \<Rightarrow> nat" where
  "prevBarIndex market t prices =
    (if market = DOMESTIC \<and> ymd (case prices of [] \<Rightarrow> [] | p # _ \<Rightarrow> bar_date p) \<noteq> ymd (getKstDate t) then 0 else 1)"

definition today_open :: "market \<Rightarrow> int \<Rightarrow> daily_price list \<Rightarrow> jsnum option" where
  "today_open market t prices =
    (case prices of [] \<Rightarrow> None | p # _ \<Rightarrow> if prevBarIndex market t prices = 0 then None else Some (bar_open p))"

definition previous_bar :: "market \<Rightarrow> int \<Rightarrow> daily_price list \<Rightarrow> daily_price option" where
  "previous_bar market t prices =
    (if prevBarIndex market t prices < length prices then Some (prices ! prevBarIndex market t prices) else None)"

definition calculate_indicators :: "(jsnum \<Rightarrow> jsnum) \<Rightarrow> market \<Rightarrow> int \<Rightarrow> daily_price list \<Rightarrow> jsnum \<Rightarrow> stock_analysis" where
  "calculate_indicators squareRoot market t prices currentPrice =
    (let closes = map bar_close prices; highs = map bar_high prices; lows = map bar_low prices; volumes = map bar_volume prices;
         ma200 = when_enough 200 prices (calculateMA closes 200);
         bb = calculateBollingerBands squareRoot closes 20 (Fin 2); mc = calculateMACD closes;
         aa = calculateADXWithATR highs lows closes 14; atr = when_enough 28 prices (aa_atr aa);
         avg = when_enough 20 prices (calculateAvgVolume volumes 20); prev = previous_bar market t prices in
     \<lparr>an_ma200 = ma200, an_currentAboveMA200 = (if truthy_number ma200 then currentPrice > the ma200 else True),
       an_macdLine = when_enough 35 prices (mc_line mc), an_macdSignal = when_enough 35 prices (mc_signal mc),
       an_indicators = no_indicators\<lparr>rsi14 := Some (calculateRSI closes 14),
         volatility30d := when_enough 31 prices (calculateVolatility squareRoot (take 31 closes)),
         ma20 := when_enough 20 prices (calculateMA closes 20), ma60 := when_enough 60 prices (calculateMA closes 60),
         bollingerUpper := when_enough 20 prices (bb_upper bb), bollingerMiddle := when_enough 20 prices (bb_middle bb),
         bollingerLower := when_enough 20 prices (bb_lower bb),
         macdHistogram := when_enough 35 prices (mc_histogram mc), macdPrevHistogram := when_enough 35 prices (mc_prevHistogram mc),
         adx14 := when_enough 28 prices (aa_adx aa), atr14 := atr,
         atrPercent := (if truthy_number atr \<and> currentPrice > Fin 0 then Some (the atr / currentPrice * Fin 100) else None),
         avgVolume20 := avg, volumeRatio := (if positive_opt avg then Some (hd volumes / the avg) else None),
         prevHigh := map_option bar_high prev, prevLow := map_option bar_low prev, prevClose := map_option bar_close prev,
         todayOpen := today_open market t prices\<rparr>,
       an_technicalRatings = Some (calculateTechnicalRatings squareRoot prices (Some \<lparr>dq_currentPrice = Some currentPrice,
         dq_openPrice = None, dq_highPrice = None, dq_lowPrice = None, dq_volume = None\<rparr>))\<rparr>)"

definition indicator_key :: "market \<Rightarrow> string \<Rightarrow> string \<Rightarrow> int \<Rightarrow> string" where
  "indicator_key market exchangeCode stockCode t =
    (case market of
       DOMESTIC \<Rightarrow> ''indicators:DOMESTIC:'' @ exchangeCode @ '':'' @ stockCode @ '':'' @ getKstDate t
     | OVERSEAS \<Rightarrow> ''indicators:OVERSEAS:'' @ exchangeCode @ '':'' @ stockCode)"

text \<open>\<open>fetched\<close>: what the reading of the bars gives, when it is needed.\<close>

definition getStockIndicators :: "(jsnum \<Rightarrow> jsnum) \<Rightarrow> int \<Rightarrow> int \<Rightarrow> (js_error + daily_price list) option \<Rightarrow> market \<Rightarrow> string \<Rightarrow>
    string \<Rightarrow> jsnum \<Rightarrow> stock_analysis cache \<Rightarrow> (stock_analysis \<times> stock_analysis cache) option" where
  "getStockIndicators squareRoot t t' fetched market exchangeCode stockCode currentPrice cache =
    (let key = indicator_key market exchangeCode stockCode t in
     case getCache t key cache of
       (Some a, cache') \<Rightarrow> Some (a, cache')
     | (None, cache') \<Rightarrow> map_option (\<lambda>answer. case answer of
           Inl e \<Rightarrow> (unfiltered, cache')
         | Inr prices \<Rightarrow>
             if length prices < 14 then (unfiltered, cache')
             else let a = calculate_indicators squareRoot market t' prices currentPrice in
               (a, setCache CACHE_TTL_MS t' key a cache')) fetched)"

section \<open>Condition of a market\<close>

record market_condition =
  referenceIndexAboveMA200 :: bool
  interestRateRising :: bool
  interestRate :: "jsnum option"

record fred_rate =
  fd_currentRate :: "jsnum option"
  fd_change :: "jsnum option"

record interest_rate =
  ir_ofUnitedStates :: bool
  ir_rate :: jsnum
  ir_change :: jsnum

definition index_above_ma200 :: "js_error + daily_price list \<Rightarrow> bool" where
  "index_above_ma200 answer =
    (case answer of Inl e \<Rightarrow> True
     | Inr prices \<Rightarrow> if length prices \<ge> 200 then hd (map bar_close prices) > calculateMA (map bar_close prices) 200 else True)"

definition policy_rate :: "bool \<Rightarrow> string \<Rightarrow> js_error + fred_rate option \<Rightarrow> js_error + interest_rate list option \<Rightarrow> jsnum option \<times> bool" where
  "policy_rate isPaper exchangeCode fred domesticRates =
    (if exchangeCode \<in> set [''NASD'', ''NYSE'', ''AMEX''] then
       (case fred of Inr (Some f) \<Rightarrow>
          (case fd_currentRate f of Some r \<Rightarrow> (Some r, coalesce (fd_change f) (Fin 0) > lit (1 / 10)) | None \<Rightarrow> (None, False))
        | _ \<Rightarrow> (None, False))
     else if \<not> isPaper then
       (case domesticRates of Inr (Some rates) \<Rightarrow>
          (case (case find ir_ofUnitedStates rates of Some r \<Rightarrow> Some r | None \<Rightarrow> (case rates of [] \<Rightarrow> None | r # _ \<Rightarrow> Some r)) of
             Some r \<Rightarrow> (Some (ir_rate r), ir_change r > lit (1 / 10)) | None \<Rightarrow> (None, False))
        | _ \<Rightarrow> (None, False))
     else (None, False))"

definition getMarketCondition :: "bool \<Rightarrow> int \<Rightarrow> int \<Rightarrow> (index_type \<Rightarrow> string \<Rightarrow> (js_error + daily_price list) option) \<Rightarrow>
    js_error + fred_rate option \<Rightarrow> js_error + interest_rate list option \<Rightarrow> string \<Rightarrow> market_condition cache \<Rightarrow>
    (market_condition \<times> market_condition cache) option" where
  "getMarketCondition isPaper t t' fetchIndex fred domesticRates exchangeCode cache =
    (let key = ''market-condition:'' @ exchangeCode in
     case getCache t key cache of
       (Some c, cache') \<Rightarrow> Some (c, cache')
     | (None, cache') \<Rightarrow>
         (case EXCHANGE_REFERENCE_INDEX exchangeCode of
            None \<Rightarrow> Some (\<lparr>referenceIndexAboveMA200 = True, interestRateRising = False, interestRate = None\<rparr>, cache')
          | Some (code, type) \<Rightarrow> map_option (\<lambda>answer.
              case policy_rate isPaper exchangeCode fred domesticRates of (rate, rising) \<Rightarrow>
              let result = \<lparr>referenceIndexAboveMA200 = index_above_ma200 answer, interestRateRising = rising, interestRate = rate\<rparr> in
              (result, setCache CACHE_TTL_MS t' key result cache')) (fetchIndex type code)))"

section \<open>Volume weighted price of the day\<close>

record intraday_price =
  iv_date :: string
  iv_high :: jsnum
  iv_low :: jsnum
  iv_close :: jsnum
  iv_volume :: jsnum
  iv_amount :: "jsnum option"

definition vwap_of :: "intraday_price list \<Rightarrow> jsnum option" where
  "vwap_of bars =
    (case bars of [] \<Rightarrow> None
     | b # _ \<Rightarrow>
        let same = filter (\<lambda>x. iv_date x = iv_date b \<and> iv_volume x > Fin 0) bars;
            totalAmount = foldl (\<lambda>s x. s + coalesce (iv_amount x) ((iv_high x + iv_low x + iv_close x) / Fin 3 * iv_volume x)) (Fin 0) same;
            totalVolume = foldl (\<lambda>s x. s + iv_volume x) (Fin 0) same in
        if same = [] \<or> totalAmount \<le> Fin 0 \<or> totalVolume \<le> Fin 0 then None else Some (totalAmount / totalVolume))"

definition getIntradayVwap :: "int \<Rightarrow> int \<Rightarrow> js_error + intraday_price list \<Rightarrow> market \<Rightarrow> string \<Rightarrow> string \<Rightarrow> stock_price option \<Rightarrow>
    jsnum cache \<Rightarrow> jsnum option \<times> jsnum cache" where
  "getIntradayVwap t t' answer market exchangeCode stockCode quote cache =
    (case market of
       DOMESTIC \<Rightarrow>
         (let tradingValue = coalesce (Option.bind quote px_tradingValue) (Fin 0);
              volume = (case quote of None \<Rightarrow> Fin 0 | Some q \<Rightarrow> px_volume q) in
          (if tradingValue > Fin 0 \<and> volume > Fin 0 then Some (tradingValue / volume) else None, cache))
     | OVERSEAS \<Rightarrow>
         (let key = ''intraday-vwap:OVERSEAS:'' @ exchangeCode @ '':'' @ stockCode @ '':'' @ getKstDate t in
          case getCache t key cache of
            (Some v, cache') \<Rightarrow> (Some v, cache')
          | (None, cache') \<Rightarrow>
              (case answer of Inl e \<Rightarrow> (None, cache')
               | Inr bars \<Rightarrow> (case vwap_of bars of None \<Rightarrow> (None, cache')
                   | Some v \<Rightarrow> (Some v, setCache INTRADAY_VWAP_CACHE_TTL_MS t' key v cache')))))"

section \<open>Regime of a market\<close>

datatype market_regime = TRENDING_UP | SIDEWAYS | TRENDING_DOWN

definition REGIME_TTL_MS :: int where "REGIME_TTL_MS = 12 * 60 * 60 * 1000"

definition regime_of :: "daily_price list \<Rightarrow> market_regime" where
  "regime_of prices =
    (let closes = map bar_close prices; m20 = calculateMA closes 20; m60 = calculateMA closes 60;
         adx = calculateADX (map bar_high prices) (map bar_low prices) closes 14; indexPrice = hd closes in
     if length prices < 60 then SIDEWAYS
     else if adx > Fin 25 \<and> m20 > m60 \<and> indexPrice > m60 then TRENDING_UP
     else if adx > Fin 25 \<and> m20 < m60 \<and> indexPrice < m60 then TRENDING_DOWN
     else SIDEWAYS)"

definition detectRegime :: "(index_type \<Rightarrow> string \<Rightarrow> (js_error + daily_price list) option) \<Rightarrow> string \<Rightarrow> market_regime option" where
  "detectRegime fetchIndex exchangeCode =
    (case EXCHANGE_REFERENCE_INDEX exchangeCode of
       None \<Rightarrow> Some SIDEWAYS
     | Some (code, type) \<Rightarrow> map_option (\<lambda>answer. case answer of Inl e \<Rightarrow> SIDEWAYS | Inr prices \<Rightarrow> regime_of prices) (fetchIndex type code))"

definition regime_key :: "market \<Rightarrow> string \<Rightarrow> string" where
  "regime_key market exchangeCode =
    ''regime:'' @ (case market of DOMESTIC \<Rightarrow> ''DOMESTIC'' | OVERSEAS \<Rightarrow> ''OVERSEAS'') @ '':'' @ exchangeCode"

definition cached_regime :: "int \<Rightarrow> string \<Rightarrow> market_regime cache \<Rightarrow> market_regime option" where
  "cached_regime t key cache = (case cache key of Some (regime, expiry) \<Rightarrow> if t < expiry then Some regime else None | None \<Rightarrow> None)"

definition detectAndSave :: "int \<Rightarrow> (index_type \<Rightarrow> string \<Rightarrow> (js_error + daily_price list) option) \<Rightarrow> market \<Rightarrow> string \<Rightarrow>
    market_regime cache \<Rightarrow> (market_regime \<times> market_regime cache) option" where
  "detectAndSave t' fetchIndex market exchangeCode cache =
    map_option (\<lambda>regime. (regime, setCache REGIME_TTL_MS t' (regime_key market exchangeCode) regime cache)) (detectRegime fetchIndex exchangeCode)"

definition getRegime :: "int \<Rightarrow> int \<Rightarrow> (index_type \<Rightarrow> string \<Rightarrow> (js_error + daily_price list) option) \<Rightarrow> market \<Rightarrow> string \<Rightarrow>
    market_regime cache \<Rightarrow> (market_regime \<times> market_regime cache) option" where
  "getRegime t t' fetchIndex market exchangeCode cache =
    (case cached_regime t (regime_key market exchangeCode) cache of
       Some regime \<Rightarrow> Some (regime, cache)
     | None \<Rightarrow> detectAndSave t' fetchIndex market exchangeCode cache)"

section \<open>What a cache promises\<close>

locale timed_cache =
  fixes look :: "int \<Rightarrow> string \<Rightarrow> 'c \<Rightarrow> 'a option"
    and keep :: "int \<Rightarrow> string \<Rightarrow> 'a \<Rightarrow> 'c \<Rightarrow> 'c"
    and lifetime :: int
  assumes kept: "t' < t + lifetime \<Longrightarrow> look t' k (keep t k a c) = Some a"
    and others: "k \<noteq> k' \<Longrightarrow> look t' k (keep t k' a c) = look t' k c"
    and expired: "t + lifetime < t' \<Longrightarrow> look t' k (keep t k a c) = None"
begin

lemma held:
  assumes "t' < t + lifetime" "k \<notin> set (map (fst \<circ> snd) later)"
  shows "look t' k (fold (\<lambda>(u, k', a'). keep u k' a') later (keep t k a c)) = Some a"
  using assms(2)
proof (induction later rule: rev_induct)
  case Nil
  then show ?case using kept [OF assms(1)] by simp
next
  case (snoc x later)
  then show ?case using others by (cases x) auto
qed

lemma forgotten:
  assumes "t + lifetime < t'" "k \<notin> set (map (fst \<circ> snd) later)"
  shows "look t' k (fold (\<lambda>(u, k', a'). keep u k' a') later (keep t k a c)) = None"
  using assms(2)
proof (induction later rule: rev_induct)
  case Nil
  then show ?case using expired [OF assms(1)] by simp
next
  case (snoc x later)
  then show ?case using others by (cases x) auto
qed

end

definition look_up :: "int \<Rightarrow> string \<Rightarrow> 'a cache \<Rightarrow> 'a option" where
  "look_up t key cache = fst (getCache t key cache)"

interpretation day_cache: timed_cache look_up "setCache CACHE_TTL_MS" CACHE_TTL_MS
  by unfold_locales (auto simp: look_up_def getCache_def setCache_def split: option.splits)

interpretation vwap_cache: timed_cache look_up "setCache INTRADAY_VWAP_CACHE_TTL_MS" INTRADAY_VWAP_CACHE_TTL_MS
  by unfold_locales (auto simp: look_up_def getCache_def setCache_def split: option.splits)

interpretation regime_cache: timed_cache cached_regime "setCache REGIME_TTL_MS" REGIME_TTL_MS
  by unfold_locales (simp_all add: cached_regime_def setCache_def)

lemma getCache_look: "look_up t key cache = Some a \<Longrightarrow> getCache t key cache = (Some a, cache)"
  by (auto simp: look_up_def getCache_def split: option.splits prod.splits if_splits)

lemma getCache_miss: "look_up t key cache = None \<Longrightarrow> \<exists>cache'. getCache t key cache = (None, cache')"
  by (cases "getCache t key cache") (simp add: look_up_def)

lemma cached_indicators:
  assumes "look_up t (indicator_key market ex code t) cache = Some a"
  shows "getStockIndicators squareRoot t t' fetched market ex code p cache = Some (a, cache)"
  by (simp add: getStockIndicators_def Let_def getCache_look [OF assms])

lemma computed_indicators:
  assumes "look_up t (indicator_key market ex code t) cache = None" "14 \<le> length prices"
  shows "\<exists>cache'. getStockIndicators squareRoot t t' (Some (Inr prices)) market ex code p cache =
    Some (calculate_indicators squareRoot market t' prices p,
      setCache CACHE_TTL_MS t' (indicator_key market ex code t) (calculate_indicators squareRoot market t' prices p) cache')"
proof -
  obtain cache' where "getCache t (indicator_key market ex code t) cache = (None, cache')" using getCache_miss [OF assms(1)] by blast
  then show ?thesis using assms(2) by (intro exI [of _ cache']) (simp add: getStockIndicators_def Let_def)
qed

lemma calculated_days:
  "prevHigh (an_indicators (calculate_indicators squareRoot market t prices p)) = map_option bar_high (previous_bar market t prices)"
  "prevLow (an_indicators (calculate_indicators squareRoot market t prices p)) = map_option bar_low (previous_bar market t prices)"
  "prevClose (an_indicators (calculate_indicators squareRoot market t prices p)) = map_option bar_close (previous_bar market t prices)"
  "todayOpen (an_indicators (calculate_indicators squareRoot market t prices p)) = today_open market t prices"
  by (simp_all add: calculate_indicators_def Let_def)

section \<open>The previous day\<close>

lemma length_isoDate: "length (isoDate ms) = 10"
proof -
  obtain y m d where c: "civil_of_day (ms div 86400000) = (y, m, d)" by (metis prod_cases3)
  have "4 \<le> length (year_text y)" by (simp add: year_text_def)
  then show ?thesis by (simp add: isoDate_def c)
qed

text \<open>A cache filled on other days only.\<close>

definition of_other_days :: "int \<Rightarrow> stock_analysis cache \<Rightarrow> bool" where
  "of_other_days t cache \<longleftrightarrow>
    (\<forall>key. cache key \<noteq> None \<longrightarrow> (\<exists>market ex code u. key = indicator_key market ex code u \<and> getKstDate u \<noteq> getKstDate t))"

lemma missed_of_other_days:
  assumes "of_other_days t cache"
  shows "look_up t (indicator_key DOMESTIC ex code t) cache = None"
proof (cases "cache (indicator_key DOMESTIC ex code t)")
  case None
  then show ?thesis by (simp add: look_up_def getCache_def)
next
  case (Some e)
  then obtain market ex' code' u where k: "indicator_key DOMESTIC ex code t = indicator_key market ex' code' u" "getKstDate u \<noteq> getKstDate t"
    using assms unfolding of_other_days_def by (metis option.distinct(1))
  have "market = DOMESTIC" using k(1) by (cases market) (simp_all add: indicator_key_def)
  then have "(ex @ '':'' @ code @ '':'') @ getKstDate t = (ex' @ '':'' @ code' @ '':'') @ getKstDate u"
    using k(1) by (simp add: indicator_key_def)
  moreover have "length (getKstDate t) = length (getKstDate u)" by (simp add: getKstDate_def length_isoDate)
  ultimately have "getKstDate t = getKstDate u" by (simp add: append_eq_append_conv del: append.simps append_assoc)
  then show ?thesis using k(2) by simp
qed


text \<open>
  (C40) The indicators of a foreign stock outlive its session. Whatever bar is the newest counts as today, the
  one after it as the previous day; and for the 24 hours after that reading every call answers the same
  indicators, whatever the price and the bars have become by then and whatever other stocks were read.
\<close>

theorem overseas_indicators_outlive_session:
  assumes "look_up t (indicator_key OVERSEAS ex code t) cache = None" "14 \<le> length prices"
    and "t2 < t1 + CACHE_TTL_MS" "indicator_key OVERSEAS ex code t \<notin> set (map (fst \<circ> snd) later)"
  shows "\<exists>a cache'. getStockIndicators squareRoot t t1 (Some (Inr prices)) OVERSEAS ex code p cache = Some (a, cache') \<and>
    todayOpen (an_indicators a) = Some (bar_open (prices ! 0)) \<and> prevHigh (an_indicators a) = Some (bar_high (prices ! 1)) \<and>
    (let later_cache = fold (\<lambda>(u, k, x). setCache CACHE_TTL_MS u k x) later cache' in
     getStockIndicators squareRoot t2 t3 fetched OVERSEAS ex code p2 later_cache = Some (a, later_cache))"
proof -
  let ?a = "calculate_indicators squareRoot OVERSEAS t1 prices p" let ?k = "indicator_key OVERSEAS ex code t"
  obtain c where c: "getStockIndicators squareRoot t t1 (Some (Inr prices)) OVERSEAS ex code p cache = Some (?a, setCache CACHE_TTL_MS t1 ?k ?a c)"
    using computed_indicators [OF assms(1,2)] by blast
  have key: "indicator_key OVERSEAS ex code t2 = ?k" by (simp add: indicator_key_def)
  have "look_up t2 ?k (fold (\<lambda>(u, k, x). setCache CACHE_TTL_MS u k x) later (setCache CACHE_TTL_MS t1 ?k ?a c)) = Some ?a"
    by (rule day_cache.held [OF assms(3,4)])
  then have "getStockIndicators squareRoot t2 t3 fetched OVERSEAS ex code p2
      (fold (\<lambda>(u, k, x). setCache CACHE_TTL_MS u k x) later (setCache CACHE_TTL_MS t1 ?k ?a c)) =
      Some (?a, fold (\<lambda>(u, k, x). setCache CACHE_TTL_MS u k x) later (setCache CACHE_TTL_MS t1 ?k ?a c))"
    by (intro cached_indicators) (simp only: key)
  moreover obtain b b' bs where "prices = b # b' # bs" using assms(2) by (cases prices; cases "tl prices") auto
  ultimately show ?thesis using c
    by (auto simp: calculated_days today_open_def previous_bar_def prevBarIndex_def)
qed

section \<open>A failed reading of the index\<close>

text \<open>
  One failed reading of the reference index opens the market filter for a day: the call answers that the
  index is above its average, and so does every call of the next 24 hours, whatever the index has done and
  however well it could be read.
\<close>

lemma failed_index_passes_for_a_day:
  assumes "EXCHANGE_REFERENCE_INDEX ex = Some (code, type)" "look_up t (''market-condition:'' @ ex) cache = None"
    and "fetchIndex type code = Some (Inl e)" "t2 < t1 + CACHE_TTL_MS"
  shows "\<exists>r cache'. getMarketCondition isPaper t t1 fetchIndex fred rates ex cache = Some (r, cache') \<and> referenceIndexAboveMA200 r \<and>
    getMarketCondition isPaper t2 t3 fetchIndex2 fred2 rates2 ex cache' = Some (r, cache')"
proof -
  let ?k = "''market-condition:'' @ ex"
  obtain c where c: "getCache t ?k cache = (None, c)" using getCache_miss [OF assms(2)] by blast
  obtain rate rising where p: "policy_rate isPaper ex fred rates = (rate, rising)" by (cases "policy_rate isPaper ex fred rates")
  let ?r = "\<lparr>referenceIndexAboveMA200 = True, interestRateRising = rising, interestRate = rate\<rparr>"
  have "getMarketCondition isPaper t t1 fetchIndex fred rates ex cache = Some (?r, setCache CACHE_TTL_MS t1 ?k ?r c)"
    using c assms(1,3) by (simp add: getMarketCondition_def Let_def p index_above_ma200_def)
  moreover have "getCache t2 ?k (setCache CACHE_TTL_MS t1 ?k ?r c) = (Some ?r, setCache CACHE_TTL_MS t1 ?k ?r c)"
    by (rule getCache_look, rule day_cache.kept, rule assms(4))
  ultimately show ?thesis by (auto simp: getMarketCondition_def Let_def)
qed

text \<open>The reading of the days of a domestic stock ends, so its indicators are always answered.\<close>

lemma day_text_of: "ymd (isoDate t) = day_text (t div 86400000)"
  by (simp add: ymd_def day_text_def isoDate_def)

lemma domestic_indicators_answered:
  assumes "975 \<le> t div 86400000" "t div 86400000 \<le> 2900000"
    and "\<And>k e' rows. t div 86400000 - 976 \<le> e' \<Longrightarrow> e' \<le> t div 86400000 \<Longrightarrow>
      pg_domestic pages code k (day_text (t div 86400000 - 975)) (day_text e') = Inr rows \<Longrightarrow> rows_within (t div 86400000 - 975) e' rows"
  shows "getStockIndicators squareRoot t t' (fetchDailyPrices pages t DOMESTIC ex code 650) DOMESTIC ex code p cache \<noteq> None"
proof -
  have "(t - 975 * 86400000) div 86400000 = t div 86400000 - 975" by simp
  then have r: "getDateRange t 650 = (day_text (t div 86400000 - 975), day_text (t div 86400000))"
    by (simp add: getDateRange_def day_text_of)
  have "\<exists>r. fetchDailyPrices pages t DOMESTIC ex code 650 = Some r"
    using daily_pages_return [OF keeps_date_rows(1), of "t div 86400000 - 975" "t div 86400000" "pg_domestic pages code"
      "day_text (t div 86400000 - 975)" "[]" "[]" "t div 86400000" 100 0] assms
    by (auto simp: fetchDailyPrices_def r getDailyPrices_def)
  then show ?thesis by (auto simp: getStockIndicators_def Let_def split: prod.splits option.splits)
qed

section \<open>The theorems at concrete inputs\<close>

definition example_bar :: "string \<Rightarrow> rat \<Rightarrow> daily_price" where
  "example_bar date x = \<lparr>bar_date = date, bar_close = Fin x, bar_open = Fin x, bar_high = Fin (x + 1), bar_low = Fin (x - 1), bar_volume = Fin 1\<rparr>"


lemma overseas_indicators_outlive_session_witness:
  "\<exists>a cache'. getStockIndicators id 0 1 (Some (Inr (replicate 14 (example_bar ''20260707'' 7)))) OVERSEAS ''NASD'' ''TSLA'' (Fin 7)
      Map.empty = Some (a, cache') \<and>
    getStockIndicators id 80000000 80000001 (Some (Inr (replicate 14 (example_bar ''20260708'' 5)))) OVERSEAS ''NASD'' ''TSLA''
      (Fin 5) cache' = Some (a, cache') \<and> todayOpen (an_indicators a) = Some (Fin 7)"
proof -
  have "look_up 0 (indicator_key OVERSEAS ''NASD'' ''TSLA'' 0) Map.empty = None" by (simp add: look_up_def getCache_def)
  from overseas_indicators_outlive_session [OF this, of "replicate 14 (example_bar ''20260707'' 7)" 80000000 1 "[]" id "Fin 7"
      80000001 "Some (Inr (replicate 14 (example_bar ''20260708'' 5)))" "Fin 5"]
  show ?thesis by (auto simp: CACHE_TTL_MS_def Let_def example_bar_def)
qed

lemma failed_index_passes_for_a_day_witness:
  "\<exists>r cache'. getMarketCondition False 0 1 (\<lambda>_ _. Some (Inl (Error ''timeout''))) (Inr None) (Inr None) ''NASD'' Map.empty = Some (r, cache') \<and>
    referenceIndexAboveMA200 r \<and>
    getMarketCondition False 80000000 80000001 (\<lambda>_ _. Some (Inr (example_bar ''20260708'' 5 # replicate 199 (example_bar ''20260707'' 9))))
      (Inr None) (Inr None) ''NASD'' cache' = Some (r, cache')"
  by (rule failed_index_passes_for_a_day [where code = "''SPX''" and type = overseas_index and e = "Error ''timeout''"])
    (simp_all add: EXCHANGE_REFERENCE_INDEX_def look_up_def getCache_def CACHE_TTL_MS_def)

end
