(* ===== verification/OrderMatching.thy ===== *)
theory OrderMatching imports KstTime OrderReconciliation begin

text \<open>
  The orders in a broker's history that an unknown submission may have become
  (\<open>src/trading/trading-broker-order-matcher.service.ts\<close>): those of the same exchange, stock, side and
  quantity within ten minutes of the submission, one per order identity. The history is an argument.
\<close>

section \<open>Data\<close>

datatype rejection_state = REJECTED_BY_BROKER | NOT_REJECTED | REJECTION_UNKNOWN

text \<open>The columns of an order in the history that the reconciliation does not read.\<close>

record listed_order = broker_order +
  lo_orderQuantity :: jsnum
  lo_orderPrice :: "jsnum option"
  lo_rejectionState :: "rejection_state option"

datatype collision_type = EXACT | LEGACY

record candidate =
  cd_orderNo :: string
  cd_stockCode :: string
  cd_side :: side
  cd_orderQuantity :: jsnum
  cd_filledQuantity :: jsnum
  cd_remainingQuantity :: jsnum
  cd_orderPrice :: "jsnum option"
  cd_filledPrice :: "jsnum option"
  cd_exchangeCode :: string
  cd_orderDate :: string
  cd_orderTime :: string
  cd_rejectionState :: rejection_state
  cd_rejected :: "bool option"
  cd_rejectedReason :: "string option"
  cd_existingTradeRecordId :: "string option"
  cd_collisionType :: "collision_type option"

record match_request =
  mq_tradeRecordId :: string
  mq_broker :: broker
  mq_market :: market
  mq_exchangeCode :: string
  mq_stockCode :: string
  mq_side :: side
  mq_quantity :: jsnum
  mq_submissionStartedAt :: "int option"
  mq_brokerEnvironment :: "broker_environment option"
  mq_brokerAccountHash :: "string option"

definition toMatchRequest :: "trade_record \<Rightarrow> match_request" where
  "toMatchRequest r = \<lparr>mq_tradeRecordId = tr_id r, mq_broker = tr_broker r, mq_market = tr_market r,
     mq_exchangeCode = tr_exchangeCode r, mq_stockCode = tr_stockCode r, mq_side = tr_side r, mq_quantity = tr_quantity r,
     mq_submissionStartedAt = tr_submissionStartedAt r, mq_brokerEnvironment = tr_brokerEnvironment r,
     mq_brokerAccountHash = tr_brokerAccountHash r\<rparr>"

section \<open>Matching\<close>

definition TEN_MINUTES_MS :: int where "TEN_MINUTES_MS = 10 * 60 * 1000"

definition assertCurrentContext :: "(broker \<Rightarrow> js_error + broker_context) \<Rightarrow> match_request \<Rightarrow> js_error + unit" where
  "assertCurrentContext current q =
    (if mq_brokerEnvironment q = None \<or> \<not> nonblank (mq_brokerAccountHash q)
     then Inl (Error ''Assign broker context before lookup'')
     else case current (mq_broker q) of Inl e \<Rightarrow> Inl e
     | Inr c \<Rightarrow>
       if bc_broker c \<noteq> mq_broker q \<or> Some (bc_environment c) \<noteq> mq_brokerEnvironment q \<or>
          Some (bc_accountHash c) \<noteq> mq_brokerAccountHash q
       then Inl (Error ''Stored broker context does not match current context'') else Inr ())"

definition same_code :: "string \<Rightarrow> string \<Rightarrow> bool" where
  "same_code a b \<longleftrightarrow> to_upper (trim a) = to_upper (trim b)"

definition exchange_of :: "market \<Rightarrow> string option \<Rightarrow> string" where
  "exchange_of m e = (if m = DOMESTIC then ''KRX'' else case e of None \<Rightarrow> [] | Some x \<Rightarrow> to_upper (trim x))"

definition normalizeCandidate :: "listed_order \<Rightarrow> match_request \<Rightarrow> int \<Rightarrow> int \<Rightarrow> candidate option" where
  "normalizeCandidate o' q windowStart windowEnd =
    (let orderNo = trim (bo_orderNo o'); orderDate = trim (coalesce (bo_orderDate o') []);
         orderTime = trim (coalesce (bo_orderTime o') []) in
     if orderNo = [] \<or> orderDate = [] \<or> orderTime = [] then None
     else case parseKstTimestamp orderDate orderTime of None \<Rightarrow> None
     | Some orderTimestamp \<Rightarrow>
       if orderTimestamp < windowStart \<or> orderTimestamp > windowEnd then None
       else let orderExchange = exchange_of (mq_market q) (bo_exchangeCode o') in
       if orderExchange = [] \<or> orderExchange \<noteq> exchange_of (mq_market q) (Some (mq_exchangeCode q)) then None
       else if \<not> same_code (bo_stockCode o') (mq_stockCode q) then None
       else if bo_side o' \<noteq> mq_side q \<or> \<not> js_eq (lo_orderQuantity o') (mq_quantity q) then None
       else let state = (case lo_rejectionState o' of Some REJECTED_BY_BROKER \<Rightarrow> REJECTED_BY_BROKER
              | Some NOT_REJECTED \<Rightarrow> NOT_REJECTED | _ \<Rightarrow> REJECTION_UNKNOWN) in
       Some \<lparr>cd_orderNo = orderNo, cd_stockCode = to_upper (trim (bo_stockCode o')), cd_side = bo_side o',
         cd_orderQuantity = lo_orderQuantity o', cd_filledQuantity = bo_filledQuantity o',
         cd_remainingQuantity = bo_remainingQuantity o', cd_orderPrice = lo_orderPrice o', cd_filledPrice = bo_filledPrice o',
         cd_exchangeCode = orderExchange, cd_orderDate = orderDate, cd_orderTime = orderTime, cd_rejectionState = state,
         cd_rejected = (case state of REJECTED_BY_BROKER \<Rightarrow> Some True | NOT_REJECTED \<Rightarrow> Some False | REJECTION_UNKNOWN \<Rightarrow> None),
         cd_rejectedReason = (if state = REJECTED_BY_BROKER then bo_rejectedReason o' else None),
         cd_existingTradeRecordId = None, cd_collisionType = None\<rparr>)"

definition candidate_identity :: "candidate \<Rightarrow> string" where
  "candidate_identity c = cd_orderDate c @ ''|'' @ cd_exchangeCode c @ ''|'' @ cd_orderNo c"

text \<open>The map from identities to candidates, in the order of insertion; the first of an identity stays.\<close>

fun add_candidates :: "candidate list \<Rightarrow> candidate list \<Rightarrow> candidate list" where
  "add_candidates cs [] = cs"
| "add_candidates cs (d # ds) =
    add_candidates (if list_ex (\<lambda>c. candidate_identity c = candidate_identity d) cs then cs else cs @ [d]) ds"

definition window :: "match_request \<Rightarrow> int \<times> int" where
  "window q = (let t = coalesce (mq_submissionStartedAt q) 0 in (t - TEN_MINUTES_MS, t + TEN_MINUTES_MS))"

text \<open>The days of the window are what the history is asked for.\<close>

definition findSubmissionCandidates :: "(broker \<Rightarrow> js_error + broker_context) \<Rightarrow>
    (broker \<Rightarrow> market \<Rightarrow> string \<Rightarrow> string \<Rightarrow> js_error + listed_order list) \<Rightarrow> match_request \<Rightarrow> js_error + candidate list" where
  "findSubmissionCandidates current getOrderExecutions q =
    (case assertCurrentContext current q of Inl e \<Rightarrow> Inl e
     | Inr _ \<Rightarrow>
       if mq_submissionStartedAt q = None then Inl (Error ''A valid submission timestamp is required'')
       else case window q of (windowStart, windowEnd) \<Rightarrow>
       (case getOrderExecutions (mq_broker q) (mq_market q) (formatKstDate windowStart) (formatKstDate windowEnd) of
          Inl e \<Rightarrow> Inl e
        | Inr orders \<Rightarrow> Inr (add_candidates [] (List.map_filter (\<lambda>o'. normalizeCandidate o' q windowStart windowEnd) orders))))"

section \<open>What is found\<close>

text \<open>An order of the history that may be the submission.\<close>

definition fits :: "match_request \<Rightarrow> listed_order \<Rightarrow> bool" where
  "fits q o' \<longleftrightarrow>
     trim (bo_orderNo o') \<noteq> [] \<and>
     (case (bo_orderDate o', bo_orderTime o', mq_submissionStartedAt q) of
        (Some d, Some h, Some t) \<Rightarrow>
          (case parseKstTimestamp (trim d) (trim h) of None \<Rightarrow> False | Some u \<Rightarrow> \<bar>u - t\<bar> \<le> TEN_MINUTES_MS)
      | _ \<Rightarrow> False) \<and>
     exchange_of (mq_market q) (bo_exchangeCode o') = exchange_of (mq_market q) (Some (mq_exchangeCode q)) \<and>
     exchange_of (mq_market q) (bo_exchangeCode o') \<noteq> [] \<and>
     same_code (bo_stockCode o') (mq_stockCode q) \<and> bo_side o' = mq_side q \<and> js_eq (lo_orderQuantity o') (mq_quantity q)"

definition order_identity :: "match_request \<Rightarrow> listed_order \<Rightarrow> string \<times> string" where
  "order_identity q o' = (trim (coalesce (bo_orderDate o') []), trim (bo_orderNo o'))"

lemma parse_blank [simp]: "parseKstTimestamp [] h = None" "parseKstTimestamp d [] = None"
  by (simp_all add: parseKstTimestamp_def digits_def)

lemma normalized_fits:
  assumes "window q = (a, b)" "mq_submissionStartedAt q = Some t"
  shows "normalizeCandidate o' q a b \<noteq> None \<longleftrightarrow> fits q o'"
proof -
  have w: "a = t - TEN_MINUTES_MS" "b = t + TEN_MINUTES_MS" using assms by (auto simp: window_def Let_def)
  have d: "trim [] = []" by (simp add: trim_def)
  show ?thesis
    by (cases "bo_orderDate o'"; cases "bo_orderTime o'")
      (auto simp: normalizeCandidate_def fits_def Let_def w d assms(2) abs_le_iff split: option.splits if_splits)
qed

lemma normalized_fields:
  assumes "normalizeCandidate o' q a b = Some c"
  shows "cd_orderNo c = trim (bo_orderNo o') \<and> cd_orderDate c = trim (coalesce (bo_orderDate o') []) \<and>
    cd_exchangeCode c = exchange_of (mq_market q) (Some (mq_exchangeCode q)) \<and> cd_existingTradeRecordId c = None \<and>
    cd_collisionType c = None \<and> digits 8 (cd_orderDate c) \<and> cd_side c = mq_side q \<and>
    cd_stockCode c = to_upper (trim (mq_stockCode q)) \<and> js_eq (cd_orderQuantity c) (mq_quantity q)"
  using assms
  by (auto simp: normalizeCandidate_def Let_def same_code_def parseKstTimestamp_def split: option.splits if_splits)

lemma added_distinct:
  "distinct (map candidate_identity cs) \<Longrightarrow> distinct (map candidate_identity (add_candidates cs ds))"
proof (induction cs ds rule: add_candidates.induct)
  case (2 cs d ds)
  then show ?case by (cases "list_ex (\<lambda>c. candidate_identity c = candidate_identity d) cs") (force simp: list_ex_iff)+
qed simp

lemma added_identities:
  "candidate_identity ` set (add_candidates cs ds) = candidate_identity ` (set cs \<union> set ds)"
proof (induction cs ds rule: add_candidates.induct)
  case (2 cs d ds)
  show ?case
  proof (cases "list_ex (\<lambda>c. candidate_identity c = candidate_identity d) cs")
    case True
    then have "candidate_identity d \<in> candidate_identity ` set cs" unfolding list_ex_iff by (metis image_eqI)
    then show ?thesis using 2 True by (simp add: image_Un insert_absorb)
  next
    case False
    then show ?thesis using 2 by (simp add: image_Un)
  qed
qed simp

lemma added_subset: "set (add_candidates cs ds) \<subseteq> set cs \<union> set ds"
proof (induction cs ds rule: add_candidates.induct)
  case (2 cs d ds)
  then show ?case by (auto split: if_splits)
qed simp

lemma identity_iff:
  assumes "cd_exchangeCode c = cd_exchangeCode c'" "digits 8 (cd_orderDate c)" "digits 8 (cd_orderDate c')"
  shows "candidate_identity c = candidate_identity c' \<longleftrightarrow> cd_orderDate c = cd_orderDate c' \<and> cd_orderNo c = cd_orderNo c'"
  using assms by (auto simp: candidate_identity_def digits_def)

lemma found_candidates:
  assumes "findSubmissionCandidates current history q = Inr cs"
  obtains orders where "history (mq_broker q) (mq_market q) (formatKstDate (fst (window q))) (formatKstDate (snd (window q))) = Inr orders"
    "distinct (map (\<lambda>c. (cd_orderDate c, cd_orderNo c)) cs)"
    "(\<lambda>c. (cd_orderDate c, cd_orderNo c)) ` set cs = order_identity q ` set (filter (fits q) orders)"
proof -
  obtain t where t: "mq_submissionStartedAt q = Some t"
    using assms by (auto simp: findSubmissionCandidates_def split: sum.splits if_splits)
  obtain a b where w: "window q = (a, b)" by (cases "window q") simp
  obtain orders where o: "history (mq_broker q) (mq_market q) (formatKstDate a) (formatKstDate b) = Inr orders"
      "cs = add_candidates [] (List.map_filter (\<lambda>o'. normalizeCandidate o' q a b) orders)"
    using assms t w by (auto simp: findSubmissionCandidates_def split: sum.splits)
  define ns where "ns = List.map_filter (\<lambda>o'. normalizeCandidate o' q a b) orders"
  have ns: "c \<in> set ns \<longleftrightarrow> (\<exists>o' \<in> set orders. normalizeCandidate o' q a b = Some c)" for c
    by (force simp: ns_def map_filter_def)
  let ?k = "\<lambda>c. (cd_orderDate c, cd_orderNo c)"
  have cs: "cs = add_candidates [] ns" "set cs \<subseteq> set ns" using o(2) added_subset [of "[]" ns] by (simp_all add: ns_def)
  have e: "candidate_identity c = candidate_identity c' \<longleftrightarrow> ?k c = ?k c'" if "c \<in> set ns" "c' \<in> set ns" for c c'
    using that ns normalized_fields identity_iff [of c c'] by fastforce
  have "distinct (map candidate_identity cs)" unfolding cs(1) by (rule added_distinct) simp
  moreover have "inj_on ?k (set cs) \<longleftrightarrow> inj_on candidate_identity (set cs)"
    unfolding inj_on_def using e cs(2) by (simp add: subset_iff)
  ultimately have d: "distinct (map ?k cs)" by (simp add: distinct_map)
  have "candidate_identity ` set cs = candidate_identity ` set ns" unfolding cs(1) using added_identities [of "[]" ns] by simp
  then have "?k ` set cs = ?k ` set ns"
  proof -
    assume im: "candidate_identity ` set cs = candidate_identity ` set ns"
    have "?k c \<in> ?k ` set cs" if c: "c \<in> set ns" for c
    proof -
      have "candidate_identity c \<in> candidate_identity ` set cs" using im c by simp
      then obtain c' where c': "c' \<in> set cs" "candidate_identity c = candidate_identity c'" by (elim imageE)
      from c'(1) cs(2) have "c' \<in> set ns" by (rule rev_subsetD)
      then have "?k c = ?k c'" using c'(2) by (rule iffD1 [OF e [OF c]])
      then show ?thesis using c'(1) by (rule image_eqI)
    qed
    then show ?thesis using cs(2) by blast
  qed
  also have "?k ` set ns = order_identity q ` set (filter (fits q) orders)"
  proof -
    have k: "?k c = order_identity q o'" if "normalizeCandidate o' q a b = Some c" for c o'
      using normalized_fields [OF that] by (simp add: order_identity_def)
    have f: "fits q o' \<longleftrightarrow> (\<exists>c. normalizeCandidate o' q a b = Some c)" for o'
      using normalized_fits [OF w t, of o'] by auto
    show ?thesis
    proof (intro set_eqI iffI; elim imageE)
      fix x c assume c: "x = ?k c" "c \<in> set ns"
      then obtain o' where "o' \<in> set orders" "normalizeCandidate o' q a b = Some c" using ns by blast
      then show "x \<in> order_identity q ` set (filter (fits q) orders)"
        using c(1) k f by (intro image_eqI [of _ _ o']) auto
    next
      fix x o' assume o': "x = order_identity q o'" "o' \<in> set (filter (fits q) orders)"
      then obtain c where "normalizeCandidate o' q a b = Some c" using f by auto
      then show "x \<in> ?k ` set ns" using o' k ns by (intro image_eqI [of _ _ c]) auto
    qed
  qed
  finally show ?thesis using o(1) d w by (intro that) simp_all
qed


definition submission_seen :: match_request where
  "submission_seen = \<lparr>mq_tradeRecordId = ''t1'', mq_broker = KIS, mq_market = DOMESTIC, mq_exchangeCode = ''KRX'',
     mq_stockCode = ''005930'', mq_side = BUY, mq_quantity = Fin 3, mq_submissionStartedAt = Some 1783490700000,
     mq_brokerEnvironment = Some LIVE_ACCOUNT, mq_brokerAccountHash = Some ''h''\<rparr>"

definition order_seen :: listed_order where
  "order_seen = \<lparr>bo_orderNo = ''0000117057'', bo_stockCode = ''005930'', bo_side = BUY, bo_filledQuantity = Fin 3,
     bo_remainingQuantity = Fin 0, bo_filledPrice = Some (Fin 71000), bo_exchangeCode = None, bo_orderDate = Some ''20260708'',
     bo_orderTime = Some ''150506'', bo_rejected = None, bo_rejectedReason = None, lo_orderQuantity = Fin 3,
     lo_orderPrice = Some (Fin 71000), lo_rejectionState = Some NOT_REJECTED\<rparr>"

definition candidate_seen :: candidate where
  "candidate_seen = \<lparr>cd_orderNo = ''0000117057'', cd_stockCode = ''005930'', cd_side = BUY, cd_orderQuantity = Fin 3,
     cd_filledQuantity = Fin 3, cd_remainingQuantity = Fin 0, cd_orderPrice = Some (Fin 71000), cd_filledPrice = Some (Fin 71000),
     cd_exchangeCode = ''KRX'', cd_orderDate = ''20260708'', cd_orderTime = ''150506'', cd_rejectionState = NOT_REJECTED,
     cd_rejected = Some False, cd_rejectedReason = None, cd_existingTradeRecordId = None, cd_collisionType = None\<rparr>"

abbreviation account_seen :: "broker \<Rightarrow> js_error + broker_context" where
  "account_seen b \<equiv> Inr \<lparr>bc_broker = b, bc_environment = LIVE_ACCOUNT, bc_accountHash = ''h'', bc_maskedAccount = ''1''\<rparr>"

lemma seen_texts: "trim ''0000117057'' = ''0000117057''" "trim ''005930'' = ''005930''" "trim ''20260708'' = ''20260708''"
    "trim ''150506'' = ''150506''" "trim ''KRX'' = ''KRX''" "nonblank (Some ''h'')" "trim ''h'' = ''h''"
    "to_upper ''005930'' = ''005930''" "to_upper ''KRX'' = ''KRX''"
  by code_simp+

lemma seen_found: "findSubmissionCandidates account_seen (\<lambda>_ _ _ _. Inr [order_seen, order_seen]) submission_seen = Inr [candidate_seen]"
proof -
  have "normalizeCandidate order_seen submission_seen (1783490700000 - TEN_MINUTES_MS) (1783490700000 + TEN_MINUTES_MS) = Some candidate_seen"
    by (simp add: normalizeCandidate_def submission_seen_def order_seen_def candidate_seen_def seen_texts parse_example exchange_of_def
        same_code_def TEN_MINUTES_MS_def js_eq_def Let_def)
  then show ?thesis using seen_texts
    by (simp add: findSubmissionCandidates_def assertCurrentContext_def window_def Let_def map_filter_def)
      (simp add: submission_seen_def)
qed


end
