(* ===== verification/OrderResolution.thy ===== *)
theory OrderResolution imports OrderMatching OrderRecovery begin

text \<open>
  The operator's answers to a submission of unknown outcome
  (\<open>src/trading/trading-broker-order-resolution.service.ts\<close> and \<open>inspectCandidates\<close> of the recovery service):
  link it to an order of the broker's history, confirm that it was never submitted, or that the order belongs to
  another record. Between the reads, the broker's answer and the transaction other handlers may run: an
  operation takes the tables as they are at each of these moments. The mirror row of the execution log is left out.
\<close>

section \<open>Steps that may throw\<close>

definition andThen :: "js_error + 'a \<Rightarrow> ('a \<Rightarrow> js_error + 'b) \<Rightarrow> js_error + 'b" where
  "andThen m f = (case m of Inl e \<Rightarrow> Inl e | Inr x \<Rightarrow> f x)"

definition require :: "bool \<Rightarrow> string \<Rightarrow> js_error + unit" where
  "require b message = (if b then Inr () else Inl (Error message))"

definition require_some :: "'a option \<Rightarrow> string \<Rightarrow> js_error + 'a" where
  "require_some x message = (case x of None \<Rightarrow> Inl (Error message) | Some v \<Rightarrow> Inr v)"

lemma andThen_Inr: "andThen m f = Inr y \<longleftrightarrow> (\<exists>x. m = Inr x \<and> f x = Inr y)"
  by (simp add: andThen_def split: sum.splits)

lemma andThen_simps [simp]: "andThen (Inr x) f = f x" "andThen (Inl e) f = Inl e"
  by (simp_all add: andThen_def)

lemma require_Inr [simp]: "require b m = Inr u \<longleftrightarrow> b" "require_some x m = Inr v \<longleftrightarrow> x = Some v"
  "require True m = Inr ()" "require_some (Some v) m = Inr v"
  by (simp_all add: require_def require_some_def split: option.splits)

definition KST_OFFSET_MS :: int where "KST_OFFSET_MS = 9 * 60 * 60 * 1000"

section \<open>Collisions with other records\<close>

text \<open>A candidate's order in the columns of the table; and the row has it too.\<close>

definition has_identity :: "candidate \<Rightarrow> trade_record \<Rightarrow> bool" where
  "has_identity c r \<longleftrightarrow> tr_exchangeCode r = to_upper (trim (cd_exchangeCode c)) \<and> tr_orderNo r = Some (trim (cd_orderNo c))"

definition exact_row :: "match_request \<Rightarrow> candidate list \<Rightarrow> trade_record \<Rightarrow> bool" where
  "exact_row q cs r \<longleftrightarrow> tr_id r \<noteq> mq_tradeRecordId q \<and> tr_broker r = mq_broker q \<and>
     tr_brokerEnvironment r = mq_brokerEnvironment q \<and> tr_brokerAccountHash r = mq_brokerAccountHash q \<and>
     tr_market r = mq_market q \<and> list_ex (\<lambda>c. tr_brokerOrderDate r = Some (cd_orderDate c) \<and> has_identity c r) cs"

definition legacy_row :: "match_request \<Rightarrow> candidate list \<Rightarrow> int \<Rightarrow> int \<Rightarrow> trade_record \<Rightarrow> bool" where
  "legacy_row q cs minDay maxDay r \<longleftrightarrow> tr_id r \<noteq> mq_tradeRecordId q \<and> tr_broker r = mq_broker q \<and> tr_market r = mq_market q \<and>
     minDay - KST_OFFSET_MS \<le> tr_createdAt r \<and> tr_createdAt r < maxDay - KST_OFFSET_MS \<and>
     (tr_brokerEnvironment r = None \<or> tr_brokerAccountHash r = None \<or> tr_brokerOrderDate r = None) \<and>
     list_ex (\<lambda>c. has_identity c r) cs"

definition DAY_MS :: int where "DAY_MS = 24 * 60 * 60 * 1000"

definition same_order :: "candidate \<Rightarrow> trade_record \<Rightarrow> bool" where
  "same_order c r \<longleftrightarrow> to_upper (trim (tr_exchangeCode r)) = to_upper (trim (cd_exchangeCode c)) \<and>
     map_option trim (tr_orderNo r) = Some (trim (cd_orderNo c))"

definition annotate :: "trade_record list \<Rightarrow> trade_record list \<Rightarrow> candidate \<Rightarrow> candidate" where
  "annotate exactRows legacyRows c =
    (case List.find (\<lambda>r. tr_brokerOrderDate r = Some (cd_orderDate c) \<and> same_order c r) exactRows of
       Some r \<Rightarrow> c\<lparr>cd_existingTradeRecordId := Some (tr_id r), cd_collisionType := Some EXACT\<rparr>
     | None \<Rightarrow>
       (case parseKstCalendarDay (cd_orderDate c) of None \<Rightarrow> c
        | Some candidateDay \<Rightarrow>
          (case List.find (\<lambda>r. same_order c r \<and> \<bar>kstCalendarDay (tr_createdAt r) - candidateDay\<bar> \<le> DAY_MS) legacyRows of
             Some r \<Rightarrow> c\<lparr>cd_existingTradeRecordId := Some (tr_id r), cd_collisionType := Some LEGACY\<rparr>
           | None \<Rightarrow> c)))"

text \<open>Without a readable day the bounds of the search are no dates, which the query refuses.\<close>

definition annotateCandidateCollisions :: "match_request \<Rightarrow> candidate list \<Rightarrow> order_db \<Rightarrow> js_error + candidate list" where
  "annotateCandidateCollisions q cs db =
    (if cs = [] then Inr []
     else if mq_brokerEnvironment q = None \<or> mq_brokerAccountHash q \<in> {None, Some []}
     then Inl (Error ''Broker context is required for collision checks'')
     else
       (case List.map_filter (\<lambda>c. parseKstCalendarDay (cd_orderDate c)) cs of
          [] \<Rightarrow> Inl (Error ''Provided Date object is invalid'')
        | d # ds \<Rightarrow>
          Inr (map (annotate (findMany (exact_row q cs) db)
            (findMany (legacy_row q cs (fold min ds d - DAY_MS) (fold max ds d + 2 * DAY_MS)) db)) cs)))"

section \<open>The operator's input\<close>

record identity_input =
  ii_tradeRecordId :: string
  ii_brokerOrderDate :: string
  ii_exchangeCode :: string
  ii_orderNo :: string

definition normalizeIdentity :: "identity_input \<Rightarrow> js_error + identity_input" where
  "normalizeIdentity i =
    (let i' = \<lparr>ii_tradeRecordId = trim (ii_tradeRecordId i), ii_brokerOrderDate = trim (ii_brokerOrderDate i),
        ii_exchangeCode = to_upper (trim (ii_exchangeCode i)), ii_orderNo = trim (ii_orderNo i)\<rparr> in
     if ii_tradeRecordId i' = [] \<or> \<not> digits 8 (ii_brokerOrderDate i') \<or> ii_exchangeCode i' = [] \<or> ii_orderNo i' = []
     then Inl (Error ''Invalid broker order identity'') else Inr i')"

definition normalizeExistingMatchInput :: "identity_input \<Rightarrow> string \<Rightarrow> js_error + (identity_input \<times> string)" where
  "normalizeExistingMatchInput i existing =
    andThen (normalizeIdentity i) (\<lambda>i'.
      if trim existing = [] \<or> trim existing = ii_tradeRecordId i'
      then Inl (Error ''Invalid existing TradeRecord identity'') else Inr (i', trim existing))"

definition normalizeTradeRecordId :: "string \<Rightarrow> js_error + string" where
  "normalizeTradeRecordId i = andThen (require (trim i \<noteq> []) ''TradeRecord identity is required'') (\<lambda>_. Inr (trim i))"

definition requireActor :: "string \<Rightarrow> js_error + string" where
  "requireActor a = andThen (require (trim a \<noteq> []) ''Recovery actor is required'') (\<lambda>_. Inr (trim a))"

definition loadUnknownSubmission :: "string \<Rightarrow> order_db \<Rightarrow> js_error + trade_record" where
  "loadUnknownSubmission i db =
    require_some (findFirst (\<lambda>r. tr_id r = i \<and> tr_status r = SUBMISSION_UNKNOWN) db) ''Trade record is not an unresolved submission''"

definition assertCurrentContextUnchanged :: "(broker \<Rightarrow> js_error + broker_context) \<Rightarrow> trade_record \<Rightarrow> string \<Rightarrow> js_error + unit" where
  "assertCurrentContextUnchanged current r operation =
    andThen (current (tr_broker r)) (\<lambda>c.
      require (tr_broker r = bc_broker c \<and> tr_brokerEnvironment r = Some (bc_environment c) \<and>
        tr_brokerAccountHash r = Some (bc_accountHash c)) (''Broker context changed during '' @ operation))"

definition selects :: "identity_input \<Rightarrow> candidate \<Rightarrow> bool" where
  "selects i c \<longleftrightarrow> cd_orderDate c = ii_brokerOrderDate i \<and> to_upper (trim (cd_exchangeCode c)) = ii_exchangeCode i \<and>
     trim (cd_orderNo c) = ii_orderNo i"

definition select_candidate :: "identity_input \<Rightarrow> candidate list \<Rightarrow> js_error + candidate" where
  "select_candidate i cs = require_some (List.find (selects i) cs) ''Selected broker order is no longer present in complete history''"

section \<open>The transactions\<close>

definition still_unknown :: "trade_record \<Rightarrow> trade_record \<Rightarrow> bool" where
  "still_unknown r x \<longleftrightarrow> tr_id x = tr_id r \<and> tr_broker x = tr_broker r \<and> tr_status x = SUBMISSION_UNKNOWN \<and>
     tr_brokerEnvironment x = tr_brokerEnvironment r \<and> tr_brokerAccountHash x = tr_brokerAccountHash r"

definition link_order :: "int \<Rightarrow> string \<Rightarrow> candidate \<Rightarrow> trade_record \<Rightarrow> trade_record" where
  "link_order t actor c x = x\<lparr>tr_status := PENDING, tr_orderNo := Some (cd_orderNo c), tr_brokerOrderDate := Some (cd_orderDate c),
     tr_brokerOrderTime := Some (cd_orderTime c), tr_submissionResolvedAt := Some t, tr_submissionResolvedBy := Some actor,
     tr_submissionResolution := Some LINKED_BROKER_ORDER, tr_brokerMessage := Some ''Broker order linked by operator recovery''\<rparr>"

definition fail_submission :: "int \<Rightarrow> string \<Rightarrow> submission_resolution \<Rightarrow> trade_record \<Rightarrow> trade_record" where
  "fail_submission t actor resolution x = x\<lparr>tr_status := FAILED, tr_submissionResolvedAt := Some t,
     tr_submissionResolvedBy := Some actor, tr_submissionResolution := Some resolution,
     tr_brokerMessage := Some (if resolution = CONFIRMED_NOT_SUBMITTED then ''Operator confirmed no matching broker order''
       else ''Operator confirmed broker order belongs to an existing TradeRecord'')\<rparr>"

text \<open>
  The unique index \<open>trade_records_broker_identity_unique\<close> (migration 20260713000000): no two rows have one
  complete broker identity; an update that would give a row the identity of another fails.
\<close>

definition broker_identity :: "trade_record \<Rightarrow> (broker_environment \<times> string \<times> market \<times> string \<times> string \<times> string) option" where
  "broker_identity r =
    (case (tr_brokerEnvironment r, tr_brokerAccountHash r, tr_brokerOrderDate r, tr_orderNo r) of
       (Some e, Some h, Some d, Some n) \<Rightarrow> Some (e, h, tr_market r, tr_exchangeCode r, d, n)
     | _ \<Rightarrow> None)"

definition conflicts :: "order_db \<Rightarrow> trade_record \<Rightarrow> bool" where
  "conflicts db r \<longleftrightarrow> broker_identity r \<noteq> None \<and>
     list_ex (\<lambda>x. tr_id x \<noteq> tr_id r \<and> broker_identity x = broker_identity r) (db_orders db)"

definition unique_identities :: "order_db \<Rightarrow> bool" where
  "unique_identities db \<longleftrightarrow> list_all (\<lambda>r. \<not> conflicts db r) (db_orders db)"

text \<open>A resolution: the guarded update, its audit row, and the record read back.\<close>

definition resolve_submission :: "trade_record \<Rightarrow> (trade_record \<Rightarrow> trade_record) \<Rightarrow> audit_log \<Rightarrow> string \<Rightarrow> order_db \<Rightarrow>
    js_error + (order_db \<times> trade_record)" where
  "resolve_submission r change a message db =
    (if list_ex (\<lambda>x. still_unknown r x \<and> conflicts db (change x)) (db_orders db)
     then Inl (Error ''Broker order is already linked to another TradeRecord'')
     else let claimed = updateMany (still_unknown r) change db in
     andThen (require (snd claimed = 1) message) (\<lambda>_.
     andThen (require_some (findFirst (\<lambda>x. tr_id x = tr_id r) (fst claimed)) ''Resolved TradeRecord disappeared'') (\<lambda>x.
     Inr (audit a (fst claimed), x))))"

definition linkCandidate :: "(broker \<Rightarrow> js_error + broker_context) \<Rightarrow> (broker \<Rightarrow> js_error + broker_context) \<Rightarrow>
    (broker \<Rightarrow> market \<Rightarrow> string \<Rightarrow> string \<Rightarrow> js_error + listed_order list) \<Rightarrow> identity_input \<Rightarrow> string \<Rightarrow> int \<Rightarrow>
    order_db \<Rightarrow> order_db \<Rightarrow> order_db \<Rightarrow> js_error + (order_db \<times> trade_record)" where
  "linkCandidate current current' getOrderExecutions input actor t d0 d1 d2 =
    andThen (normalizeIdentity input) (\<lambda>i.
    andThen (requireActor actor) (\<lambda>a.
    andThen (loadUnknownSubmission (ii_tradeRecordId i) d0) (\<lambda>r.
    andThen (findSubmissionCandidates current getOrderExecutions (toMatchRequest r)) (\<lambda>candidates.
    andThen (assertCurrentContextUnchanged current' r ''candidate link'') (\<lambda>_.
    andThen (annotateCandidateCollisions (toMatchRequest r) candidates d1) (\<lambda>annotated.
    andThen (select_candidate i annotated) (\<lambda>c.
    andThen (require (cd_existingTradeRecordId c \<in> {None, Some []}) ''Broker order collides with existing TradeRecord'') (\<lambda>_.
    resolve_submission r (link_order t a c)
      \<lparr>al_tradeRecordId = ii_tradeRecordId i, al_action = BROKER_ORDER_LINKED, al_actor = a,
       al_brokerOrderDate = Some (cd_orderDate c), al_exchangeCode = Some (cd_exchangeCode c), al_orderNo = Some (cd_orderNo c),
       al_beforeStatus = Some SUBMISSION_UNKNOWN, al_afterStatus = Some PENDING, al_message = None\<rparr>
      ''Submission recovery state changed before link'' d2))))))))"

definition resolveSubmissionAsFailed :: "trade_record \<Rightarrow> string \<Rightarrow> submission_resolution \<Rightarrow> candidate option \<Rightarrow> int \<Rightarrow> order_db \<Rightarrow>
    js_error + (order_db \<times> trade_record)" where
  "resolveSubmissionAsFailed r actor resolution c t db =
    resolve_submission r (fail_submission t actor resolution)
      \<lparr>al_tradeRecordId = tr_id r,
       al_action = (if resolution = CONFIRMED_NOT_SUBMITTED then ACT_CONFIRMED_NOT_SUBMITTED else ACT_MATCHED_EXISTING_TRADE_RECORD),
       al_actor = actor, al_brokerOrderDate = map_option cd_orderDate c,
       al_exchangeCode = map_option (\<lambda>c. to_upper (trim (cd_exchangeCode c))) c, al_orderNo = map_option (\<lambda>c. trim (cd_orderNo c)) c,
       al_beforeStatus = Some SUBMISSION_UNKNOWN, al_afterStatus = Some FAILED, al_message = None\<rparr>
      ''Submission recovery state changed before confirmation'' db"

definition confirmNotSubmitted :: "(broker \<Rightarrow> js_error + broker_context) \<Rightarrow> (broker \<Rightarrow> js_error + broker_context) \<Rightarrow>
    (broker \<Rightarrow> market \<Rightarrow> string \<Rightarrow> string \<Rightarrow> js_error + listed_order list) \<Rightarrow> string \<Rightarrow> string \<Rightarrow> int \<Rightarrow>
    order_db \<Rightarrow> order_db \<Rightarrow> js_error + (order_db \<times> trade_record)" where
  "confirmNotSubmitted current current' getOrderExecutions tradeRecordId actor t d0 d2 =
    andThen (normalizeTradeRecordId tradeRecordId) (\<lambda>i.
    andThen (requireActor actor) (\<lambda>a.
    andThen (loadUnknownSubmission i d0) (\<lambda>r.
    andThen (findSubmissionCandidates current getOrderExecutions (toMatchRequest r)) (\<lambda>candidates.
    andThen (assertCurrentContextUnchanged current' r ''not-submitted confirmation'') (\<lambda>_.
    andThen (require (candidates = []) ''Matching broker order exists; candidate review is required'') (\<lambda>_.
    resolveSubmissionAsFailed r a CONFIRMED_NOT_SUBMITTED None t d2))))))"

definition confirmMatchesExisting :: "(broker \<Rightarrow> js_error + broker_context) \<Rightarrow> (broker \<Rightarrow> js_error + broker_context) \<Rightarrow>
    (broker \<Rightarrow> market \<Rightarrow> string \<Rightarrow> string \<Rightarrow> js_error + listed_order list) \<Rightarrow> identity_input \<Rightarrow> string \<Rightarrow> string \<Rightarrow> int \<Rightarrow>
    order_db \<Rightarrow> order_db \<Rightarrow> order_db \<Rightarrow> js_error + (order_db \<times> trade_record)" where
  "confirmMatchesExisting current current' getOrderExecutions input existing actor t d0 d1 d2 =
    andThen (normalizeExistingMatchInput input existing) (\<lambda>(i, existingId).
    andThen (requireActor actor) (\<lambda>a.
    andThen (loadUnknownSubmission (ii_tradeRecordId i) d0) (\<lambda>r.
    andThen (findSubmissionCandidates current getOrderExecutions (toMatchRequest r)) (\<lambda>candidates.
    andThen (assertCurrentContextUnchanged current' r ''existing-record confirmation'') (\<lambda>_.
    andThen (annotateCandidateCollisions (toMatchRequest r) candidates d1) (\<lambda>annotated.
    andThen (select_candidate i annotated) (\<lambda>c.
    andThen (require (cd_existingTradeRecordId c = Some existingId \<and> cd_collisionType c \<noteq> None)
      ''Selected broker order does not match existing TradeRecord'') (\<lambda>_.
    resolveSubmissionAsFailed r a MATCHED_EXISTING_TRADE_RECORD (Some c) t d2))))))))"

text \<open>The inspection of the candidates changes nothing but the audit log.\<close>

definition inspectCandidates :: "(broker \<Rightarrow> js_error + broker_context) \<Rightarrow> (broker \<Rightarrow> js_error + broker_context) \<Rightarrow>
    (broker \<Rightarrow> market \<Rightarrow> string \<Rightarrow> string \<Rightarrow> js_error + listed_order list) \<Rightarrow> string \<Rightarrow> string \<Rightarrow>
    order_db \<Rightarrow> order_db \<Rightarrow> order_db \<Rightarrow> js_error + (order_db \<times> recovery_item \<times> candidate list)" where
  "inspectCandidates current current' getOrderExecutions i actor d0 d1 d2 =
    andThen (requireActor actor) (\<lambda>a.
    andThen (loadUnknownSubmission i d0) (\<lambda>r.
    andThen (findSubmissionCandidates current getOrderExecutions (toMatchRequest r)) (\<lambda>matched.
    andThen (current' (tr_broker r)) (\<lambda>c.
    andThen (assertCurrentContextUnchanged current' r ''candidate inspection'') (\<lambda>_.
    andThen (annotateCandidateCollisions (toMatchRequest r) matched d1) (\<lambda>candidates.
    andThen (require_some (findFirst (still_unknown r) d2) ''Candidate inspection state changed before audit'') (\<lambda>x.
    Inr (audit \<lparr>al_tradeRecordId = i, al_action = CANDIDATES_INSPECTED, al_actor = a, al_brokerOrderDate = None,
        al_exchangeCode = None, al_orderNo = None, al_beforeStatus = Some (tr_status x), al_afterStatus = Some (tr_status x),
        al_message = None\<rparr> d2, toRecoveryItem r (Some c), candidates))))))))"

section \<open>A resolution is a claim\<close>

lemmas resolution_defs = still_unknown_def link_order_def fail_submission_def

interpretation link_claim: claim "still_unknown r" "link_order t a c" for r t a c
  by unfold_locales (auto simp: resolution_defs is_unresolved_def key_of_def)

interpretation fail_claim: claim "still_unknown r" "fail_submission t a res" for r t a res
  by unfold_locales (auto simp: resolution_defs is_unresolved_def key_of_def)

lemma same_row: "distinct (ids db) \<Longrightarrow> x \<in> set (db_orders db) \<Longrightarrow> y \<in> set (db_orders db) \<Longrightarrow> tr_id y = tr_id x \<Longrightarrow> y = x"
  by (auto simp: ids_def distinct_map inj_on_def)

text \<open>A guarded update of one record that succeeds changes that row, and it is the record read back.\<close>

lemma changed_row:
  assumes "distinct (ids db)" "\<And>x. tr_id (change x) = tr_id x" "\<And>x. guard x \<Longrightarrow> tr_id x = i"
    "snd (updateMany guard change db) = 1" "findFirst (\<lambda>x. tr_id x = i) (fst (updateMany guard change db)) = Some x'"
  obtains x where "x \<in> set (db_orders db)" "guard x" "x' = change x"
    "db_orders (fst (updateMany guard change db)) = map (\<lambda>y. if tr_id y = i then x' else y) (db_orders db)"
proof -
  have "\<not> (\<forall>x \<in> set (db_orders db). \<not> guard x)" using assms(4) updateMany_count [of guard change db] by simp
  then obtain x where x: "x \<in> set (db_orders db)" "guard x" by blast
  have i: "tr_id x = i" using assms(3) x(2) by simp
  have u: "y = x" if "y \<in> set (db_orders db)" "tr_id y = i" for y using same_row assms(1) x(1) i that by metis
  obtain y where "y \<in> set (db_orders db)" "x' = change_where guard change y" "tr_id x' = i"
    using findFirst_SomeD [OF assms(5)] by auto
  then have x': "x' = change x" using u x(2) assms(2) by (auto simp: change_where_def split: if_splits)
  have "change_where guard change y = (if tr_id y = i then x' else y)" if "y \<in> set (db_orders db)" for y
    using that u x' assms(3) x(2) by (auto simp: change_where_def)
  then show thesis using x x' that by simp
qed

lemma resolved_row:
  assumes "resolve_submission r change a m db = Inr (db', x')" "distinct (ids db)" "\<And>x. tr_id (change x) = tr_id x"
  obtains x where "x \<in> set (db_orders db)" "still_unknown r x" "x' = change x" "\<not> conflicts db x'"
    "db_orders db' = map (\<lambda>y. if tr_id y = tr_id r then x' else y) (db_orders db)" "db_audit db' = db_audit db @ [a]"
proof -
  let ?c = "updateMany (still_unknown r) change db"
  have c: "snd ?c = 1" "findFirst (\<lambda>x. tr_id x = tr_id r) (fst ?c) = Some x'" "db' = audit a (fst ?c)"
    "\<not> list_ex (\<lambda>x. still_unknown r x \<and> conflicts db (change x)) (db_orders db)"
    using assms(1) by (auto simp: resolve_submission_def Let_def andThen_Inr split: if_splits)
  obtain x where "x \<in> set (db_orders db)" "still_unknown r x" "x' = change x"
    "db_orders (fst ?c) = map (\<lambda>y. if tr_id y = tr_id r then x' else y) (db_orders db)"
    using changed_row [OF assms(2,3) _ c(1,2)] still_unknown_def by blast
  then show thesis using that c(3,4) by (auto simp: list_ex_iff audit_def)
qed

lemma unique_kept:
  assumes "unique_identities db" "\<not> conflicts db x'" "tr_id x' = i"
    "db_orders db' = map (\<lambda>y. if tr_id y = i then x' else y) (db_orders db)"
  shows "unique_identities db'"
proof -
  have "\<not> conflicts db' y'" if y': "y' \<in> set (db_orders db')" for y'
  proof
    assume "conflicts db' y'"
    then obtain z' where z': "z' \<in> set (db_orders db')" "tr_id z' \<noteq> tr_id y'" "broker_identity z' = broker_identity y'" "broker_identity y' \<noteq> None"
      by (auto simp: conflicts_def list_ex_iff)
    obtain y where y: "y \<in> set (db_orders db)" "y' = (if tr_id y = i then x' else y)"
      using y' unfolding assms(4) set_map by (elim imageE) simp
    obtain z where z: "z \<in> set (db_orders db)" "z' = (if tr_id z = i then x' else z)"
      using z'(1) unfolding assms(4) set_map by (elim imageE) simp
    note yz = y z
    have u: "\<not> conflicts db y" using assms(1) y(1) by (simp add: unique_identities_def list_all_iff)
    show False
      using z'(2-4) yz u assms(2,3) unfolding conflicts_def list_ex_iff by (cases "tr_id y = i"; cases "tr_id z = i") force+
  qed
  then show ?thesis by (simp add: unique_identities_def list_all_iff)
qed

lemma annotate_same [simp]: "cd_orderDate (annotate es ls c) = cd_orderDate c" "cd_orderNo (annotate es ls c) = cd_orderNo c"
  "cd_exchangeCode (annotate es ls c) = cd_exchangeCode c"
  by (simp_all add: annotate_def split: option.splits)

lemma annotated_candidate:
  assumes "annotateCandidateCollisions q cs db = Inr as" "c \<in> set as"
  shows "(cd_orderDate c, cd_orderNo c) \<in> (\<lambda>c. (cd_orderDate c, cd_orderNo c)) ` set cs"
  using assms by (fastforce simp: annotateCandidateCollisions_def split: if_splits list.splits)

lemma loadUnknownSubmission_Inr:
  "loadUnknownSubmission i db = Inr r \<Longrightarrow> r \<in> set (db_orders db) \<and> tr_id r = i \<and> tr_status r = SUBMISSION_UNKNOWN"
  by (auto simp: loadUnknownSubmission_def dest: findFirst_SomeD)

section \<open>What the answers guarantee\<close>




section \<open>Examples\<close>

definition unknown_order :: trade_record where
  "unknown_order = \<lparr>tr_id = ''t1'', tr_broker = KIS, tr_market = DOMESTIC, tr_exchangeCode = ''KRX'',
     tr_stockCode = ''005930'', tr_stockName = ''005930'', tr_side = BUY,
     tr_orderType = LIMIT, tr_quantity = Fin 3, tr_price = Fin 71000,
     tr_executedPrice = None, tr_executedQty = None, tr_executedAt = None, tr_orderNo = None,
     tr_status = SUBMISSION_UNKNOWN, tr_strategyName = None, tr_reason = None,
     tr_submissionStartedAt = Some 1783490700000, tr_brokerOrderDate = None, tr_brokerOrderTime = None,
     tr_brokerEnvironment = Some LIVE_ACCOUNT, tr_brokerAccountHash = Some ''h'',
     tr_brokerMessage = None, tr_submissionResolvedAt = None, tr_submissionResolvedBy = None,
     tr_submissionResolution = None, tr_cancellationStatus = None, tr_cancellationStartedAt = None,
     tr_cancellationResolvedAt = None, tr_cancellationResolvedBy = None, tr_cancellationMessage = None,
     tr_createdAt = 1783490690000\<rparr>"

definition unknown_db :: order_db where "unknown_db = \<lparr>db_orders = [unknown_order], db_audit = []\<rparr>"

definition chosen_order :: identity_input where
  "chosen_order = \<lparr>ii_tradeRecordId = ''t1'', ii_brokerOrderDate = ''20260708'', ii_exchangeCode = ''KRX'', ii_orderNo = ''0000117057''\<rparr>"

lemma unknown_request: "toMatchRequest unknown_order = submission_seen"
  by (simp add: toMatchRequest_def unknown_order_def submission_seen_def)

lemma unknown_load: "loadUnknownSubmission ''t1'' unknown_db = Inr unknown_order"
  by (simp add: loadUnknownSubmission_def findFirst_def unknown_db_def unknown_order_def)

lemma unknown_db_orders: "db_orders unknown_db = [unknown_order]" by (simp add: unknown_db_def)

lemma unknown_distinct: "distinct (ids unknown_db)" by (simp add: ids_def unknown_db_def)

lemma unknown_context: "assertCurrentContextUnchanged account_seen unknown_order m = Inr ()"
  by (simp add: assertCurrentContextUnchanged_def unknown_order_def)

lemma unknown_texts: "trim ''t1'' = ''t1''" "trim ''op'' = ''op''" "digits 8 ''20260708''"
  by code_simp+

lemma linked_example:
  "linkCandidate account_seen account_seen (\<lambda>_ _ _ _. Inr [order_seen, order_seen]) chosen_order ''op'' 7 unknown_db unknown_db unknown_db =
    Inr (audit \<lparr>al_tradeRecordId = ''t1'', al_action = BROKER_ORDER_LINKED, al_actor = ''op'',
       al_brokerOrderDate = Some ''20260708'', al_exchangeCode = Some ''KRX'', al_orderNo = Some ''0000117057'',
       al_beforeStatus = Some SUBMISSION_UNKNOWN, al_afterStatus = Some PENDING, al_message = None\<rparr>
      \<lparr>db_orders = [link_order 7 ''op'' candidate_seen unknown_order], db_audit = []\<rparr>, link_order 7 ''op'' candidate_seen unknown_order)"
proof -
  have i: "normalizeIdentity chosen_order = Inr chosen_order"
    by (simp add: normalizeIdentity_def chosen_order_def seen_texts unknown_texts)
  have k: "parseKstCalendarDay ''20260708'' \<noteq> None"
  proof -
    have "civil_of_day 20642 = (2026, 7, 8)" unfolding civil_of_day_def Let_def by simp
    then have "isoDate 1783468800000 = ''2026-07-08''" by (simp add: isoDate_def digits_text_numeral) code_simp
    moreover have "utc 2026 7 8 0 0 0 = 1783468800000" unfolding utc_def day_of_civil_def Let_def by simp
    moreover have "number_of ''2026'' = 2026" "number_of ''07'' = 7" "number_of ''08'' = 8" by (simp_all add: number_of_def)
    ultimately show ?thesis using unknown_texts(3) by (simp add: parseKstCalendarDay_def Let_def without_def)
  qed
  have a: "annotateCandidateCollisions submission_seen [candidate_seen] unknown_db = Inr [candidate_seen]"
  proof -
    have "findMany P unknown_db = []" if "\<not> P unknown_order" for P using that by (simp add: findMany_def unknown_db_def)
    moreover have "\<not> exact_row submission_seen cs unknown_order" "\<not> legacy_row submission_seen cs x y unknown_order" for cs x y
      by (simp_all add: exact_row_def legacy_row_def unknown_order_def submission_seen_def)
    moreover have "cd_orderDate candidate_seen = ''20260708''" by (simp add: candidate_seen_def)
    ultimately show ?thesis using k
      by (auto simp: annotateCandidateCollisions_def map_filter_def annotate_def split: option.splits)
        (simp_all add: submission_seen_def)
  qed
  have s: "select_candidate chosen_order [candidate_seen] = Inr candidate_seen"
    by (simp add: select_candidate_def selects_def chosen_order_def candidate_seen_def seen_texts)
  have n: "still_unknown unknown_order unknown_order" "\<not> conflicts unknown_db (link_order 7 ''op'' candidate_seen unknown_order)"
    by (simp_all add: still_unknown_def unknown_order_def conflicts_def unknown_db_def link_order_def)
  have e: "cd_existingTradeRecordId candidate_seen = None" "cd_orderDate candidate_seen = ''20260708''"
    "cd_exchangeCode candidate_seen = ''KRX''" "cd_orderNo candidate_seen = ''0000117057''" "ii_tradeRecordId chosen_order = ''t1''"
    by (simp_all add: candidate_seen_def chosen_order_def)
  have u: "updateMany (still_unknown unknown_order) (link_order 7 ''op'' candidate_seen) unknown_db =
      (\<lparr>db_orders = [link_order 7 ''op'' candidate_seen unknown_order], db_audit = []\<rparr>, 1)"
    using n(1) by (simp add: updateMany_def unknown_db_def change_where_def)
  show ?thesis
    using n unknown_db_orders by (simp add: linkCandidate_def i requireActor_def unknown_texts unknown_load unknown_request seen_found unknown_context a s e
        resolve_submission_def u findFirst_def link_claim.same_order)
qed




end
