(* ===== verification/OrderCancellation.thy ===== *)
theory OrderCancellation imports OrderResolution begin

text \<open>
  The cancellation of an open order (\<open>src/trading/trading-order-cancellation.service.ts\<close>) and the operator's
  answers to a cancellation of unknown outcome (\<open>trading-broker-cancellation-recovery.service.ts\<close>). Other handlers
  run at each wait for the database or the broker: the cancellation takes what they make of the tables in
  between as functions, the answers take the tables as they are at the read and in the transaction. The broker's
  lists and replies are arguments; log lines are left out.
\<close>

section \<open>A cancellation\<close>

definition overseas_exchanges :: "string list" where
  "overseas_exchanges = [''NASD'', ''NYSE'', ''AMEX'', ''SEHK'', ''SHAA'', ''SZAA'', ''TKSE'', ''HASE'', ''VNSE'']"

text \<open>The tests that a text is a text and a side a side hold by typing.\<close>

definition normalizeUnfilledOrder :: "market \<Rightarrow> unfilled_order \<Rightarrow> unfilled_order option" where
  "normalizeUnfilledOrder m o' =
    (if trim (uo_orderNo o') = [] \<or> trim (uo_stockCode o') = [] \<or> \<not> isInteger (uo_quantity o') \<or> uo_quantity o' \<le> Fin 0 then None
     else let suppliedExchange = (case uo_exchangeCode o' of None \<Rightarrow> [] | Some e \<Rightarrow> to_upper (trim e)) in
     if m = DOMESTIC \<and> suppliedExchange \<noteq> [] \<and> suppliedExchange \<noteq> ''KRX'' then None
     else if m = OVERSEAS \<and> suppliedExchange \<notin> set overseas_exchanges then None
     else Some (o'\<lparr>uo_orderNo := trim (uo_orderNo o'), uo_stockCode := to_upper (trim (uo_stockCode o')),
       uo_exchangeCode := Some (if m = DOMESTIC then ''KRX'' else suppliedExchange)\<rparr>))"

definition hasCompleteCancellationIdentity :: "trade_record \<Rightarrow> unfilled_order \<Rightarrow> broker_context \<Rightarrow> bool" where
  "hasCompleteCancellationIdentity r o' c \<longleftrightarrow>
     map_option trim (tr_orderNo r) = Some (uo_orderNo o') \<and> tr_broker r = bc_broker c \<and>
     isValidBrokerOrderDate (tr_brokerOrderDate r) \<and> tr_brokerEnvironment r = Some (bc_environment c) \<and>
     tr_brokerAccountHash r = Some (bc_accountHash c)"

definition isSameClaimedCancellationTarget :: "trade_record \<Rightarrow> trade_record option \<Rightarrow> bool" where
  "isSameClaimedCancellationTarget initial claimed =
    (case claimed of None \<Rightarrow> False
     | Some c \<Rightarrow> tr_broker c = tr_broker initial \<and> tr_cancellationStatus c = Some CSubmitting \<and>
         tr_brokerEnvironment c = tr_brokerEnvironment initial \<and> tr_brokerAccountHash c = tr_brokerAccountHash initial \<and>
         tr_market c = tr_market initial \<and> tr_exchangeCode c = tr_exchangeCode initial \<and>
         tr_stockCode c = tr_stockCode initial \<and> tr_side c = tr_side initial \<and> tr_orderNo c = tr_orderNo initial \<and>
         tr_brokerOrderDate c = tr_brokerOrderDate initial \<and> tr_quantity c = tr_quantity initial \<and>
         tr_executedQty c = tr_executedQty initial \<and> tr_price c = tr_price initial \<and> tr_status c = tr_status initial)"

record cancel_request =
  cr_market :: market
  cr_exchangeCode :: string
  cr_orderNo :: string
  cr_stockCode :: string
  cr_qty :: jsnum
  cr_price :: jsnum

text \<open>Up to the claim: the order's record, where the order is one to cancel. The context may be unreadable.\<close>

definition open_order_of :: "broker \<Rightarrow> broker_context \<Rightarrow> market \<Rightarrow> unfilled_order \<Rightarrow> trade_record \<Rightarrow> bool" where
  "open_order_of b c m o' r \<longleftrightarrow> tr_broker r = b \<and> tr_brokerEnvironment r = Some (bc_environment c) \<and>
     tr_brokerAccountHash r = Some (bc_accountHash c) \<and> tr_market r = m \<and> Some (tr_exchangeCode r) = uo_exchangeCode o' \<and>
     tr_stockCode r = uo_stockCode o' \<and> tr_side r = uo_side o' \<and> tr_orderNo r = Some (uo_orderNo o') \<and>
     tr_status r \<in> {PENDING, PARTIAL}"

definition cancel_target :: "exec_env \<Rightarrow> broker \<Rightarrow> market \<Rightarrow> unfilled_order \<Rightarrow> order_db \<Rightarrow>
    js_error + (unfilled_order \<times> trade_record) option" where
  "cancel_target env b m o' db =
    (if \<not> env_live env then Inr None
     else case normalizeUnfilledOrder m o' of None \<Rightarrow> Inr None
     | Some n \<Rightarrow>
       if \<not> env_active env b then Inr None
       else andThen (env_context env b) (\<lambda>c.
         case findFirst (open_order_of b c m n) db of None \<Rightarrow> Inr None
         | Some r \<Rightarrow>
           let executedQuantity = coalesce (tr_executedQty r) (Fin 0) in
           Inr (if \<not> hasCompleteCancellationIdentity r n c \<or> \<not> isInteger (tr_quantity r) \<or> \<not> isInteger executedQuantity \<or>
                  executedQuantity < Fin 0 \<or> \<not> js_eq (uo_quantity n) (tr_quantity r - executedQuantity)
                then None else Some (n, r))))"

text \<open>After the claim: why the broker is not asked, if it is not.\<close>

definition cancel_obstacle :: "exec_env \<Rightarrow> broker \<Rightarrow> trade_record \<Rightarrow> trade_record option \<Rightarrow> string option" where
  "cancel_obstacle env b r claimedRecord =
    (if \<not> isSameClaimedCancellationTarget r claimedRecord then Some ''cancellation target changed''
     else if \<not> env_live env then Some ''live trading disabled''
     else case matchesCurrentContext (env_context env) b (tr_brokerEnvironment (the claimedRecord)) (tr_brokerAccountHash (the claimedRecord)) of
       Inl _ \<Rightarrow> Some ''broker context unreadable''
     | Inr False \<Rightarrow> Some ''broker context changed''
     | Inr True \<Rightarrow> if \<not> env_active env b then Some ''broker deactivated'' else None)"

definition cancel_order_request :: "trade_record \<Rightarrow> unfilled_order \<Rightarrow> cancel_request" where
  "cancel_order_request r n = \<lparr>cr_market = tr_market r, cr_exchangeCode = coalesce (uo_exchangeCode n) [], cr_orderNo = uo_orderNo n,
     cr_stockCode = uo_stockCode n, cr_qty = uo_quantity n, cr_price = uo_price n\<rparr>"

text \<open>The broker's answer, an exception among them, and the marking it leads to.\<close>

definition mark_answer :: "string \<Rightarrow> broker \<Rightarrow> string + order_result \<Rightarrow> int \<Rightarrow> order_db \<Rightarrow> order_db \<times> bool" where
  "mark_answer i b answer t db =
    (case answer of Inl message \<Rightarrow> (fst (markCancellationUnknown i b message db), False)
     | Inr result \<Rightarrow>
       if res_outcome result = REJECTED then (fst (markCancellationRejected i b (res_message result) t db), False)
       else if res_outcome result \<noteq> ACCEPTED then (fst (markCancellationUnknown i b (res_message result) db), False)
       else (fst (markCancellationAccepted i b (res_message result) db), True))"

text \<open>
  The whole call, with the environment read before and after the claim and the other handlers' work after the
  lookup, after the claim, after the second read and while the broker answers; the request is what the broker is asked.
\<close>

record interference =
  if_looked :: "order_db \<Rightarrow> order_db"
  if_claimed :: "order_db \<Rightarrow> order_db"
  if_read :: "order_db \<Rightarrow> order_db"
  if_answered :: "order_db \<Rightarrow> order_db"

record cancel_result =
  cx_db :: order_db
  cx_request :: "cancel_request option"
  cx_cancelled :: bool

definition cancelUnfilledOrder :: "exec_env \<Rightarrow> exec_env \<Rightarrow> (cancel_request \<Rightarrow> string + order_result) \<Rightarrow> interference \<Rightarrow>
    broker \<Rightarrow> market \<Rightarrow> unfilled_order \<Rightarrow> order_db \<Rightarrow> js_error + cancel_result" where
  "cancelUnfilledOrder env env' cancelOrder others b m o' db =
    andThen (cancel_target env b m o' db) (\<lambda>target.
      Inr (case target of None \<Rightarrow> \<lparr>cx_db = db, cx_request = None, cx_cancelled = False\<rparr>
      | Some (n, r) \<Rightarrow>
        let claimed = claimCancellation (tr_id r) b (env_now env) (if_looked others db) in
        if \<not> snd claimed then \<lparr>cx_db = fst claimed, cx_request = None, cx_cancelled = False\<rparr>
        else
          let db1 = if_claimed others (fst claimed);
              claimedRecord = findFirst (\<lambda>x. tr_id x = tr_id r \<and> tr_broker x = b) db1;
              db2 = if_read others db1 in
          case cancel_obstacle env' b r claimedRecord of
            Some message \<Rightarrow>
              \<lparr>cx_db = fst (releaseCancellationClaim (tr_id r) b message (env_now env') db2), cx_request = None, cx_cancelled = False\<rparr>
          | None \<Rightarrow>
              let request = cancel_order_request (the claimedRecord) n;
                  marked = mark_answer (tr_id r) b (cancelOrder request) (env_now env') (if_answered others db2) in
              \<lparr>cx_db = fst marked, cx_request = Some request, cx_cancelled = snd marked\<rparr>))"

section \<open>The operator's answers\<close>

definition requireTradeRecordId :: "string \<Rightarrow> js_error + string" where
  "requireTradeRecordId v = andThen (require (trim v \<noteq> []) ''TradeRecord ID is required'') (\<lambda>_. Inr (trim v))"

definition loadUnknownCancellation :: "string \<Rightarrow> order_db \<Rightarrow> js_error + trade_record" where
  "loadUnknownCancellation i db =
    require_some (findFirst (\<lambda>r. tr_id r = i \<and> tr_status r \<in> {PENDING, PARTIAL} \<and> tr_orderNo r \<noteq> None \<and>
      tr_cancellationStatus r = Some CUnknown) db) ''Trade record is not an unresolved cancellation''"

definition isValidBrokerDate :: "string option \<Rightarrow> bool" where
  "isValidBrokerDate v =
    (case v of None \<Rightarrow> False
     | Some date \<Rightarrow> digits 8 date \<and>
         without CHR ''-'' (isoDate (utc (number_of (take 4 date)) (number_of (take 2 (drop 4 date))) (number_of (drop 6 date)) 0 0 0)) = date)"

definition assertStoredIdentity :: "trade_record \<Rightarrow> js_error + unit" where
  "assertStoredIdentity r =
    require (nonblank (tr_orderNo r) \<and> tr_brokerEnvironment r \<noteq> None \<and> nonblank (tr_brokerAccountHash r) \<and>
      isValidBrokerDate (tr_brokerOrderDate r)) ''A valid broker order date is required with complete broker context''"

definition assertContext :: "(broker \<Rightarrow> js_error + broker_context) \<Rightarrow> trade_record \<Rightarrow> string \<Rightarrow> js_error + unit" where
  "assertContext current r reason =
    andThen (current (tr_broker r)) (\<lambda>c.
      require (bc_broker c = tr_broker r \<and> Some (bc_environment c) = tr_brokerEnvironment r \<and>
        Some (bc_accountHash c) = tr_brokerAccountHash r) (''Stored broker context '' @ reason))"

definition matchesTuple :: "trade_record \<Rightarrow> string \<Rightarrow> string option \<Rightarrow> string \<Rightarrow> side \<Rightarrow> bool" where
  "matchesTuple r orderNo exchangeCode stockCode sd \<longleftrightarrow>
     Some (trim orderNo) = map_option trim (tr_orderNo r) \<and>
     exchange_of (tr_market r) exchangeCode = exchange_of (tr_market r) (Some (tr_exchangeCode r)) \<and>
     same_code stockCode (tr_stockCode r) \<and> sd = tr_side r"

definition matchingExecutions :: "trade_record \<Rightarrow> listed_order list \<Rightarrow> listed_order list" where
  "matchingExecutions r = filter (\<lambda>x. map_option trim (bo_orderDate x) = tr_brokerOrderDate r \<and> bo_orderDate x \<noteq> None \<and>
     matchesTuple r (bo_orderNo x) (bo_exchangeCode x) (bo_stockCode x) (bo_side x) \<and> js_eq (lo_orderQuantity x) (tr_quantity r))"

definition findOpenOrder :: "trade_record \<Rightarrow> unfilled_order list \<Rightarrow> unfilled_order option" where
  "findOpenOrder r = List.find (\<lambda>x. matchesTuple r (uo_orderNo x) (uo_exchangeCode x) (uo_stockCode x) (uo_side x) \<and>
     isInteger (uo_quantity x) \<and> uo_quantity x > Fin 0 \<and> uo_quantity x \<le> tr_quantity r)"

definition plain_execution :: "trade_record \<Rightarrow> listed_order \<Rightarrow> bool" where
  "plain_execution r x \<longleftrightarrow> lo_rejectionState x = Some NOT_REJECTED \<and> bo_rejected x \<noteq> Some True \<and>
     isInteger (bo_filledQuantity x) \<and> isInteger (bo_remainingQuantity x) \<and>
     \<not> bo_filledQuantity x < Fin 0 \<and> \<not> bo_remainingQuantity x < Fin 0 \<and> \<not> bo_filledQuantity x > tr_quantity r \<and>
     \<not> bo_remainingQuantity x > tr_quantity r \<and> \<not> bo_filledQuantity x + bo_remainingQuantity x > tr_quantity r"

definition merge_execution :: "listed_order \<Rightarrow> listed_order \<Rightarrow> listed_order" where
  "merge_execution aggregate x = aggregate\<lparr>bo_filledQuantity := max_num (bo_filledQuantity aggregate) (bo_filledQuantity x),
     bo_remainingQuantity := min_num (bo_remainingQuantity aggregate) (bo_remainingQuantity x),
     bo_filledPrice := (case bo_filledPrice x of None \<Rightarrow> bo_filledPrice aggregate | p \<Rightarrow> p),
     bo_orderTime := (case bo_orderTime x of None \<Rightarrow> bo_orderTime aggregate | h \<Rightarrow> h)\<rparr>"

definition aggregateExecutions :: "trade_record \<Rightarrow> listed_order list \<Rightarrow> js_error + listed_order" where
  "aggregateExecutions r xs =
    andThen (require (list_all (plain_execution r) xs) ''Broker execution is ambiguous or rejected'') (\<lambda>_.
      case xs of [] \<Rightarrow> Inl (Error ''Reduce of empty array with no initial value'')
      | x # rest \<Rightarrow> Inr (foldl merge_execution x rest))"

definition cancellationCasWhere :: "trade_record \<Rightarrow> trade_record \<Rightarrow> bool" where
  "cancellationCasWhere r x \<longleftrightarrow> tr_id x = tr_id r \<and> tr_broker x = tr_broker r \<and> tr_status x = tr_status r \<and> tr_orderNo x = tr_orderNo r \<and>
     tr_cancellationStatus x = Some CUnknown \<and> tr_brokerEnvironment x = tr_brokerEnvironment r \<and>
     tr_brokerAccountHash x = tr_brokerAccountHash r \<and> tr_brokerOrderDate x = tr_brokerOrderDate r"

definition closed_status :: "trade_record \<Rightarrow> jsnum \<Rightarrow> order_status" where
  "closed_status r executedQty = (if executedQty \<ge> tr_quantity r then FILLED else if executedQty > Fin 0 then PARTIAL else CANCELLED)"

definition close_cancellation :: "trade_record \<Rightarrow> listed_order \<Rightarrow> jsnum \<Rightarrow> int \<Rightarrow> string \<Rightarrow> trade_record \<Rightarrow> trade_record" where
  "close_cancellation r x executedQty t actor y = y\<lparr>tr_status := closed_status r executedQty,
     tr_orderNo := (if closed_status r executedQty = PARTIAL then None else tr_orderNo y),
     tr_executedQty := Some executedQty,
     tr_executedPrice := (case bo_filledPrice x of Some p \<Rightarrow> Some p
       | None \<Rightarrow> (case tr_executedPrice r of Some p \<Rightarrow> Some p | None \<Rightarrow> Some (tr_price r))),
     tr_executedAt := (if executedQty > coalesce (tr_executedQty r) (Fin 0) then Some t else tr_executedAt y),
     tr_cancellationStatus := Some CResolved, tr_cancellationResolvedAt := Some t, tr_cancellationResolvedBy := Some actor,
     tr_cancellationMessage := Some ''Cancellation closure confirmed from complete reads''\<rparr>"

definition not_accepted :: "int \<Rightarrow> string \<Rightarrow> trade_record \<Rightarrow> trade_record" where
  "not_accepted t actor y = y\<lparr>tr_cancellationStatus := Some CRejected, tr_cancellationResolvedAt := Some t,
     tr_cancellationResolvedBy := Some actor,
     tr_cancellationMessage := Some ''Operator confirmed cancellation was not accepted after complete reads''\<rparr>"

definition settle_cancellation :: "trade_record \<Rightarrow> (trade_record \<Rightarrow> trade_record) \<Rightarrow> audit_log \<Rightarrow> string \<Rightarrow> order_db \<Rightarrow>
    js_error + (order_db \<times> trade_record)" where
  "settle_cancellation r change a message db =
    (let changed = updateMany (cancellationCasWhere r) change db in
     andThen (require (snd changed = 1) message) (\<lambda>_.
     andThen (require_some (findFirst (\<lambda>x. tr_id x = tr_id r) (fst changed)) ''Reconciled TradeRecord disappeared'') (\<lambda>x.
     Inr (audit a (fst changed), x))))"

definition cancellation_audit :: "trade_record \<Rightarrow> broker_order_action \<Rightarrow> string \<Rightarrow> order_status \<Rightarrow> string \<Rightarrow> audit_log" where
  "cancellation_audit r action actor afterStatus message =
    \<lparr>al_tradeRecordId = tr_id r, al_action = action, al_actor = actor, al_brokerOrderDate = tr_brokerOrderDate r,
     al_exchangeCode = Some (exchange_of (tr_market r) (Some (tr_exchangeCode r))), al_orderNo = tr_orderNo r,
     al_beforeStatus = Some (tr_status r), al_afterStatus = Some afterStatus, al_message = Some message\<rparr>"

text \<open>The record and both lists of the broker, read completely under one account.\<close>

type_synonym broker_reads = "(market \<Rightarrow> string \<Rightarrow> js_error + listed_order list) \<times> (market \<Rightarrow> js_error + unfilled_order list)"

definition read_cancellation :: "(broker \<Rightarrow> js_error + broker_context) \<Rightarrow> (broker \<Rightarrow> js_error + broker_context) \<Rightarrow> broker_reads \<Rightarrow>
    string \<Rightarrow> string \<Rightarrow> string \<Rightarrow> order_db \<Rightarrow> js_error + (string \<times> trade_record \<times> listed_order list \<times> unfilled_order list)" where
  "read_cancellation current current' reads tradeRecordId actor operation d0 =
    andThen (requireTradeRecordId tradeRecordId) (\<lambda>i.
    andThen (requireActor actor) (\<lambda>a.
    andThen (loadUnknownCancellation i d0) (\<lambda>r.
    andThen (assertStoredIdentity r) (\<lambda>_.
    andThen (assertContext current r ''does not match current context'') (\<lambda>_.
    andThen (fst reads (tr_market r) (the (tr_brokerOrderDate r))) (\<lambda>executions.
    andThen (snd reads (tr_market r)) (\<lambda>unfilledOrders.
    andThen (assertContext current' r operation) (\<lambda>_.
    Inr (a, r, matchingExecutions r executions, unfilledOrders)))))))))"

definition inspectCancellation :: "(broker \<Rightarrow> js_error + broker_context) \<Rightarrow> (broker \<Rightarrow> js_error + broker_context) \<Rightarrow> broker_reads \<Rightarrow>
    string \<Rightarrow> string \<Rightarrow> int \<Rightarrow> order_db \<Rightarrow> order_db \<Rightarrow> js_error + (order_db \<times> trade_record)" where
  "inspectCancellation current current' reads tradeRecordId actor t d0 d1 =
    andThen (read_cancellation current current' reads tradeRecordId actor ''changed during cancellation inspection'' d0)
      (\<lambda>(a, r, executionRows, unfilledOrders).
    if findOpenOrder r unfilledOrders \<noteq> None
    then if executionRows = [] then Inr (d1, r) else andThen (aggregateExecutions r executionRows) (\<lambda>_. Inr (d1, r))
    else andThen (require (executionRows \<noteq> []) ''Complete reads cannot prove whether the broker order is open or closed'') (\<lambda>_.
    andThen (aggregateExecutions r executionRows) (\<lambda>x.
    let executedQty = min_num (tr_quantity r) (bo_filledQuantity x) in
    andThen (require (\<not> executedQty < coalesce (tr_executedQty r) (Fin 0)) ''Broker execution quantities are ambiguous or regressed'') (\<lambda>_.
    settle_cancellation r (close_cancellation r x executedQty t a)
      (cancellation_audit r CANCELLATION_RECONCILED a (closed_status r executedQty) ''Cancellation closure confirmed from complete reads'')
      ''Cancellation state changed before reconciliation'' d1))))"

definition confirmCancellationNotAccepted :: "(broker \<Rightarrow> js_error + broker_context) \<Rightarrow> (broker \<Rightarrow> js_error + broker_context) \<Rightarrow>
    broker_reads \<Rightarrow> string \<Rightarrow> string \<Rightarrow> int \<Rightarrow> order_db \<Rightarrow> order_db \<Rightarrow> js_error + (order_db \<times> trade_record)" where
  "confirmCancellationNotAccepted current current' reads tradeRecordId actor t d0 d1 =
    andThen (read_cancellation current current' reads tradeRecordId actor ''changed during cancellation confirmation'' d0)
      (\<lambda>(a, r, executionRows, unfilledOrders).
    andThen (if executionRows = [] then Inr () else andThen (aggregateExecutions r executionRows) (\<lambda>_. Inr ())) (\<lambda>_.
    andThen (require (findOpenOrder r unfilledOrders \<noteq> None)
      ''Broker order is not currently open; cancellation cannot be marked not accepted'') (\<lambda>_.
    settle_cancellation r (not_accepted t a)
      (cancellation_audit r CANCELLATION_NOT_ACCEPTED a (tr_status r) ''Operator confirmed cancellation was not accepted after complete reads'')
      ''Cancellation state changed before confirmation'' d1)))"

section \<open>Every change is a claim\<close>

lemma closed_not_unresolved: "\<not> is_unresolved (close_cancellation r x q t a y)"
  by (simp add: close_cancellation_def is_unresolved_def closed_status_def)

interpretation closure: claim "cancellationCasWhere r" "close_cancellation r x q t a" for r x q t a
proof
  show "\<And>y. tr_id (close_cancellation r x q t a y) = tr_id y" "\<And>y. key_of (close_cancellation r x q t a y) = key_of y"
    by (simp_all add: close_cancellation_def key_of_def)
qed (use closed_not_unresolved in \<open>auto simp: cancellationCasWhere_def close_cancellation_def\<close>)

interpretation refusal: claim "cancellationCasWhere r" "not_accepted t a" for r t a
  by unfold_locales (auto simp: cancellationCasWhere_def not_accepted_def is_unresolved_def key_of_def)

lemma settled_row:
  assumes "settle_cancellation r change a m db = Inr (db', x')" "distinct (ids db)" "\<And>x. tr_id (change x) = tr_id x"
  obtains x where "x \<in> set (db_orders db)" "cancellationCasWhere r x" "x' = change x"
    "db_orders db' = map (\<lambda>y. if tr_id y = tr_id r then x' else y) (db_orders db)"
proof -
  let ?c = "updateMany (cancellationCasWhere r) change db"
  have c: "snd ?c = 1" "findFirst (\<lambda>x. tr_id x = tr_id r) (fst ?c) = Some x'" "db' = audit a (fst ?c)"
    using assms(1) by (auto simp: settle_cancellation_def Let_def andThen_Inr)
  show thesis
    by (rule changed_row [OF assms(2,3) _ c(1,2)]) (use that c(3) in \<open>auto simp: cancellationCasWhere_def\<close>)
qed

lemma read_cancellation_Inr:
  assumes "read_cancellation current current' reads i actor op d0 = Inr (a, r, rows, us)"
  shows "r \<in> set (db_orders d0) \<and> tr_id r = trim i \<and> tr_status r \<in> {PENDING, PARTIAL} \<and> tr_cancellationStatus r = Some CUnknown \<and>
    a = trim actor \<and> (\<exists>xs. fst reads (tr_market r) (the (tr_brokerOrderDate r)) = Inr xs \<and> rows = matchingExecutions r xs) \<and>
    snd reads (tr_market r) = Inr us"
  using assms by (auto simp: read_cancellation_def requireTradeRecordId_def requireActor_def loadUnknownCancellation_def andThen_Inr
      dest!: findFirst_SomeD)

section \<open>What is asked of the broker\<close>

text \<open>
  The broker is asked to cancel only an order whose record this call has claimed: open, of the active account
  and broker under the live switch both before and after the claim, unchanged in between, and for exactly the
  quantity that the record has not seen executed - whatever other handlers do meanwhile.
\<close>

lemma cancellation_guarded:
  assumes "cancelUnfilledOrder env env' cancelOrder others b m o' db = Inr res" "cx_request res = Some q"
  shows "env_live env \<and> env_live env' \<and> env_active env b \<and> env_active env' b \<and>
    (\<exists>c. env_context env' b = Inr c \<and> bc_broker c = b \<and>
    (\<exists>r. r \<in> set (db_orders db) \<and> cr_orderNo q = the (tr_orderNo r) \<and> cr_market q = tr_market r \<and>
      tr_brokerEnvironment r = Some (bc_environment c) \<and> tr_brokerAccountHash r = Some (bc_accountHash c) \<and>
      js_eq (cr_qty q) (tr_quantity r - coalesce (tr_executedQty r) (Fin 0)) \<and>
      (\<exists>x \<in> set (db_orders (if_looked others db)). cancellable (tr_id r) b x) \<and>
      (\<exists>x \<in> set (db_orders (if_claimed others (fst (claimCancellation (tr_id r) b (env_now env) (if_looked others db))))).
        cancelling (tr_id r) b x \<and> tr_status x \<in> {PENDING, PARTIAL} \<and> tr_orderNo x = tr_orderNo r \<and>
        (tr_quantity x, tr_executedQty x) = (tr_quantity r, tr_executedQty r))))"
proof -
  obtain target where t: "cancel_target env b m o' db = Inr target" using assms(1) by (auto simp: cancelUnfilledOrder_def andThen_Inr)
  then obtain n r where nr: "target = Some (n, r)" using assms by (auto simp: cancelUnfilledOrder_def split: option.splits)
  define db1 where "db1 = if_claimed others (fst (claimCancellation (tr_id r) b (env_now env) (if_looked others db)))"
  define cr where "cr = findFirst (\<lambda>x. tr_id x = tr_id r \<and> tr_broker x = b) db1"
  have k: "snd (claimCancellation (tr_id r) b (env_now env) (if_looked others db))" "cancel_obstacle env' b r cr = None"
    "q = cancel_order_request (the cr) n"
    using assms t nr by (auto simp: cancelUnfilledOrder_def Let_def db1_def cr_def split: if_splits option.splits)
  obtain c0 where c0: "env_live env" "normalizeUnfilledOrder m o' = Some n" "env_active env b" "env_context env b = Inr c0"
    "findFirst (open_order_of b c0 m n) db = Some r" "hasCompleteCancellationIdentity r n c0"
    "js_eq (uo_quantity n) (tr_quantity r - coalesce (tr_executedQty r) (Fin 0))"
    using t nr by (auto simp: cancel_target_def andThen_Inr Let_def split: if_splits option.splits)
  obtain x where x: "cr = Some x" "isSameClaimedCancellationTarget r (Some x)"
    using k(2) by (cases cr) (auto simp: cancel_obstacle_def isSameClaimedCancellationTarget_def split: if_splits)
  have xs: "x \<in> set (db_orders db1)" "tr_id x = tr_id r" "tr_broker x = b" using x(1) unfolding cr_def by (auto dest!: findFirst_SomeD)
  obtain c where c: "env_live env'" "env_active env' b" "env_context env' b = Inr c" "bc_broker c = b"
    "tr_brokerEnvironment x = Some (bc_environment c)" "tr_brokerAccountHash x = Some (bc_accountHash c)"
    using k(2) x by (auto simp: cancel_obstacle_def matchesCurrentContext_def map_sum_def split: if_splits sum.splits bool.splits)
  have r: "r \<in> set (db_orders db)" "open_order_of b c0 m n r" using findFirst_SomeD [OF c0(5)] by auto
  have q: "cr_orderNo q = the (tr_orderNo r)" "cr_market q = tr_market r" "cr_qty q = uo_quantity n"
    using k(3) x r(2) by (auto simp: cancel_order_request_def open_order_of_def isSameClaimedCancellationTarget_def)
  have "\<exists>x \<in> set (db_orders (if_looked others db)). cancellable (tr_id r) b x"
    using k(1) updateMany_count [of "cancellable (tr_id r) b" "begin_cancellation (env_now env)" "if_looked others db"]
    by (auto simp: claimCancellation_def Let_def neq0_conv [symmetric] simp del: neq0_conv)
  moreover have "cancelling (tr_id r) b x \<and> tr_status x \<in> {PENDING, PARTIAL} \<and> tr_orderNo x = tr_orderNo r \<and>
      (tr_quantity x, tr_executedQty x) = (tr_quantity r, tr_executedQty r) \<and>
      tr_brokerEnvironment r = Some (bc_environment c) \<and> tr_brokerAccountHash r = Some (bc_accountHash c)"
    using x(2) xs c r(2) by (auto simp: isSameClaimedCancellationTarget_def cancelling_def open_order_of_def)
  ultimately have "\<exists>r. r \<in> set (db_orders db) \<and> cr_orderNo q = the (tr_orderNo r) \<and> cr_market q = tr_market r \<and>
      tr_brokerEnvironment r = Some (bc_environment c) \<and> tr_brokerAccountHash r = Some (bc_accountHash c) \<and>
      js_eq (cr_qty q) (tr_quantity r - coalesce (tr_executedQty r) (Fin 0)) \<and>
      (\<exists>x \<in> set (db_orders (if_looked others db)). cancellable (tr_id r) b x) \<and>
      (\<exists>x \<in> set (db_orders (if_claimed others (fst (claimCancellation (tr_id r) b (env_now env) (if_looked others db))))).
        cancelling (tr_id r) b x \<and> tr_status x \<in> {PENDING, PARTIAL} \<and> tr_orderNo x = tr_orderNo r \<and>
        (tr_quantity x, tr_executedQty x) = (tr_quantity r, tr_executedQty r))"
    using r(1) q c0(7) xs(1) unfolding db1_def by (intro exI [of _ r]) (simp, blast)
  then show ?thesis using c0(1,3) c by blast
qed

definition answered_status :: "string + order_result \<Rightarrow> cancellation_status" where
  "answered_status answer = (case answer of Inl _ \<Rightarrow> CUnknown
     | Inr result \<Rightarrow> (case res_outcome result of ACCEPTED \<Rightarrow> CAccepted | REJECTED \<Rightarrow> CRejected | UNKNOWN \<Rightarrow> CUnknown))"

definition undisturbed :: interference where
  "undisturbed = \<lparr>if_looked = id, if_claimed = id, if_read = id, if_answered = id\<rparr>"

definition answer_change :: "string + order_result \<Rightarrow> int \<Rightarrow> trade_record \<Rightarrow> trade_record" where
  "answer_change answer t r = (case answer of Inl e \<Rightarrow> mark_cancellation CUnknown e r
     | Inr x \<Rightarrow> (case res_outcome x of ACCEPTED \<Rightarrow> mark_cancellation CAccepted (res_message x) r
         | REJECTED \<Rightarrow> reject_cancellation t (res_message x) r | UNKNOWN \<Rightarrow> mark_cancellation CUnknown (res_message x) r))"

lemma marked_answer:
  "db_orders (fst (mark_answer i b answer t db)) = map (change_where (cancelling i b) (answer_change answer t)) (db_orders db)"
  "snd (mark_answer i b answer t db) \<longleftrightarrow> answered_status answer = CAccepted"
  by (auto simp: mark_answer_def answered_status_def answer_change_def markCancellationUnknown_orders markCancellationRejected_def
      markCancellationAccepted_def Let_def change_where_def split: sum.splits order_outcome.splits)

lemma answer_change_keeps:
  "(tr_id (answer_change answer t r), tr_status (answer_change answer t r), tr_orderNo (answer_change answer t r),
    tr_executedQty (answer_change answer t r)) = (tr_id r, tr_status r, tr_orderNo r, tr_executedQty r)"
  "tr_cancellationStatus (answer_change answer t r) = Some (answered_status answer)"
  by (auto simp: answer_change_def answered_status_def mark_cancellation_def reject_cancellation_def
      split: sum.splits order_outcome.splits)

text \<open>The claim and the answer change the one row that is claimed.\<close>

lemma claimed_and_answered:
  assumes "\<And>y. y \<in> set xs \<Longrightarrow> tr_id y = tr_id r \<Longrightarrow> y = r" "cancellable (tr_id r) b r"
  shows "map (change_where (cancelling (tr_id r) b) f \<circ> change_where (cancellable (tr_id r) b) (begin_cancellation t)) xs =
    map (\<lambda>y. if tr_id y = tr_id r then f (begin_cancellation t r) else y) xs"
proof (rule map_cong [OF refl])
  fix y assume y: "y \<in> set xs"
  have "cancelling (tr_id r) b (begin_cancellation t r)"
    using assms(2) by (simp add: cancelling_def cancellable_def begin_cancellation_def)
  then show "(change_where (cancelling (tr_id r) b) f \<circ> change_where (cancellable (tr_id r) b) (begin_cancellation t)) y =
      (if tr_id y = tr_id r then f (begin_cancellation t r) else y)"
    using assms(1) [OF y] assms(2) by (cases "tr_id y = tr_id r") (auto simp: change_where_def cancellable_def cancelling_def)
qed


section \<open>What the answers guarantee\<close>


text \<open>
  A cancellation is set down as not accepted only while the broker lists the order as open with a quantity
  within the order; status, quantities and order number stay as they are, and the order can be cancelled again.
\<close>

lemma not_accepted_stays_open:
  assumes "confirmCancellationNotAccepted current current' reads i actor t d0 d1 = Inr (db', x')" "distinct (ids d1)"
  shows "\<exists>r x us u. r \<in> set (db_orders d0) \<and> snd reads (tr_market r) = Inr us \<and> u \<in> set us \<and> Fin 0 < uo_quantity u \<and> uo_quantity u \<le> tr_quantity r \<and>
    uo_side u = tr_side r \<and> x \<in> set (db_orders d1) \<and> tr_cancellationStatus x = Some CUnknown \<and>
    x' = not_accepted t (trim actor) x \<and> cancellable (trim i) (tr_broker x) x' \<and>
    db_orders db' = map (\<lambda>z. if tr_id z = trim i then x' else z) (db_orders d1)"
proof -
  obtain a r rows us where rd: "read_cancellation current current' reads i actor ''changed during cancellation confirmation'' d0 = Inr (a, r, rows, us)"
    using assms(1) by (auto simp: confirmCancellationNotAccepted_def andThen_Inr)
  note r = read_cancellation_Inr [OF rd]
  obtain u where u: "findOpenOrder r us = Some u" and
    st: "\<exists>al m. settle_cancellation r (not_accepted t a) al m d1 = Inr (db', x')"
    using assms(1) rd by (auto simp: confirmCancellationNotAccepted_def andThen_Inr)
  from st obtain al m where "settle_cancellation r (not_accepted t a) al m d1 = Inr (db', x')" by blast
  then obtain x where x: "x \<in> set (db_orders d1)" "cancellationCasWhere r x" "x' = not_accepted t a x"
    "db_orders db' = map (\<lambda>z. if tr_id z = tr_id r then x' else z) (db_orders d1)"
    by (rule settled_row [OF _ assms(2)]) (simp_all add: refusal.same_order)
  have "u \<in> set us \<and> Fin 0 < uo_quantity u \<and> uo_quantity u \<le> tr_quantity r \<and> uo_side u = tr_side r"
    using u by (auto simp: findOpenOrder_def find_Some_iff matchesTuple_def)
  moreover have "tr_orderNo r \<noteq> None" using rd
    by (auto simp: read_cancellation_def loadUnknownCancellation_def andThen_Inr dest!: findFirst_SomeD)
  then have "cancellable (trim i) (tr_broker x) x'" using x(2) r by (auto simp: x(3) cancellable_def not_accepted_def cancellationCasWhere_def)
  ultimately show ?thesis using r x
    by - (rule exI [of _ r], rule exI [of _ x], rule exI [of _ us], rule exI [of _ u], auto simp: cancellationCasWhere_def)
qed

lemma filter_one: "distinct xs \<Longrightarrow> r \<in> set xs \<Longrightarrow> filter (\<lambda>y. y = r) xs = [r]"
  by (induction xs) (auto simp: filter_empty_conv)

text \<open>
  The remaining quantity is not looked at: when the history, read first, shows an order still working in
  full and the list of open orders, read second, no longer has it - as when it is filled in between - the record
  is closed as cancelled with nothing executed.
\<close>

lemma stale_read_closes_as_cancelled:
  assumes "read_cancellation current current' reads i actor ''changed during cancellation inspection'' d0 = Inr (a, r, [x], us)"
    "findOpenOrder r us = None" "plain_execution r x" "tr_executedQty r = None" "tr_quantity r = Fin n" "0 < n"
    "bo_filledQuantity x = Fin 0" "bo_remainingQuantity x = tr_quantity r" "r \<in> set (db_orders d1)" "distinct (ids d1)"
  shows "\<exists>db' x'. inspectCancellation current current' reads i actor t d0 d1 = Inr (db', x') \<and>
    (tr_id x', tr_status x', tr_executedQty x') = (tr_id r, CANCELLED, Some (Fin 0)) \<and> x' \<in> set (db_orders db')"
proof -
  let ?f = "close_cancellation r x (Fin 0) t a"
  have g: "cancellationCasWhere r r" using read_cancellation_Inr [OF assms(1)] by (simp add: cancellationCasWhere_def)
  have only: "y = r" if "y \<in> set (db_orders d1)" "tr_id y = tr_id r" for y using same_row [OF assms(10,9)] that by simp
  have m: "min_num (tr_quantity r) (bo_filledQuantity x) = Fin 0" using assms(5-7) by (simp add: min_num_def isNaN_def)
  have st: "closed_status r (Fin 0) = CANCELLED" using assms(5,6) by (simp add: closed_status_def)
  have c: "filter (cancellationCasWhere r) (db_orders d1) = [r]"
  proof -
    have "filter (cancellationCasWhere r) (db_orders d1) = filter (\<lambda>y. y = r) (db_orders d1)"
      using only g by (intro filter_cong) (auto simp: cancellationCasWhere_def)
    moreover have "distinct (db_orders d1)" using assms(10) by (simp add: ids_def distinct_map)
    ultimately show ?thesis using filter_one [OF _ assms(9)] by simp
  qed
  have u: "updateMany (cancellationCasWhere r) ?f d1 = (d1\<lparr>db_orders := map (change_where (cancellationCasWhere r) ?f) (db_orders d1)\<rparr>, 1)"
    by (simp add: updateMany_def c)
  obtain x' where x': "findFirst (\<lambda>y. tr_id y = tr_id r) (fst (updateMany (cancellationCasWhere r) ?f d1)) = Some x'"
    using assms(9) closure.same_order(1) [of r x "Fin 0" t a r]
    by (cases "findFirst (\<lambda>y. tr_id y = tr_id r) (fst (updateMany (cancellationCasWhere r) ?f d1))")
      (auto simp: findFirst_None change_where_def)
  obtain z where z: "z \<in> set (db_orders d1)" "x' = change_where (cancellationCasWhere r) ?f z" "tr_id x' = tr_id r"
    using findFirst_SomeD [OF x'] by auto
  then have "tr_id z = tr_id r" by (simp add: change_where_def closure.same_order split: if_splits)
  then have "x' = ?f r" using only [OF z(1)] z(2) g by (simp add: change_where_def)
  then have e: "(tr_id x', tr_status x', tr_executedQty x') = (tr_id r, CANCELLED, Some (Fin 0))"
    by (simp add: close_cancellation_def st)
  have "inspectCancellation current current' reads i actor t d0 d1 =
      Inr (audit (cancellation_audit r CANCELLATION_RECONCILED a CANCELLED ''Cancellation closure confirmed from complete reads'')
        (fst (updateMany (cancellationCasWhere r) ?f d1)), x')"
    using assms(1-4) x' by (simp add: inspectCancellation_def aggregateExecutions_def m settle_cancellation_def st u Let_def)
  moreover have "x' \<in> set (db_orders (fst (updateMany (cancellationCasWhere r) ?f d1)))" using findFirst_SomeD [OF x'] by simp
  ultimately show ?thesis using e by simp
qed

section \<open>Examples\<close>

definition listed_unfilled :: unfilled_order where
  "listed_unfilled = \<lparr>uo_orderNo = ''0000117057'', uo_stockCode = ''005930'', uo_side = BUY, uo_quantity = Fin 3, uo_price = Fin 71000,
     uo_exchangeCode = None\<rparr>"

definition pending_order :: trade_record where
  "pending_order = link_order 7 ''op'' candidate_seen unknown_order"

definition cancel_env :: exec_env where
  "cancel_env = \<lparr>env_live = True, env_active = (\<lambda>_. True), env_context = account_seen, env_now = 9\<rparr>"

definition pending_db :: order_db where "pending_db = \<lparr>db_orders = [pending_order], db_audit = []\<rparr>"

definition refused_answer :: "string + order_result" where
  "refused_answer = Inr \<lparr>res_outcome = REJECTED, res_orderNo = None, res_brokerOrderDate = None, res_orderTime = None, res_message = ''no''\<rparr>"

lemma pending_dates: "isValidBrokerOrderDate (Some ''20260708'')" "isValidBrokerDate (Some ''20260708'')"
proof -
  have c: "civil_of_day 20642 = (2026, 7, 8)" unfolding civil_of_day_def Let_def by simp
  have u: "utc 2026 7 8 0 0 0 = 1783468800000" unfolding utc_def day_of_civil_def Let_def by simp
  have n: "number_of ''2026'' = 2026" "number_of ''07'' = 7" "number_of ''08'' = 8" by (simp_all add: number_of_def)
  have "isoDate 1783468800000 = ''2026-07-08''" by (simp add: isoDate_def digits_text_numeral c) code_simp
  then show "isValidBrokerOrderDate (Some ''20260708'')" "isValidBrokerDate (Some ''20260708'')"
    using unknown_texts(3) by (simp_all add: isValidBrokerOrderDate_def isValidBrokerDate_def Let_def n u c without_def)
qed

lemmas pending_defs = pending_order_def link_order_def unknown_order_def candidate_seen_def

lemma pending_db_orders: "db_orders pending_db = [pending_order]" "distinct (ids pending_db)"
  by (simp_all add: pending_db_def ids_def)

definition pending_request :: cancel_request where
  "pending_request = \<lparr>cr_market = DOMESTIC, cr_exchangeCode = ''KRX'', cr_orderNo = ''0000117057'', cr_stockCode = ''005930'',
     cr_qty = Fin 3, cr_price = Fin 71000\<rparr>"

lemma pending_target: "cancel_target cancel_env KIS DOMESTIC listed_unfilled pending_db = Inr (Some (listed_unfilled\<lparr>uo_exchangeCode := Some ''KRX''\<rparr>, pending_order))"
proof -
  have n: "normalizeUnfilledOrder DOMESTIC listed_unfilled = Some (listed_unfilled\<lparr>uo_exchangeCode := Some ''KRX''\<rparr>)"
    by (simp add: normalizeUnfilledOrder_def listed_unfilled_def seen_texts isInteger_def)
  then show ?thesis
    by (simp add: cancel_target_def cancel_env_def findFirst_def pending_db_def open_order_of_def hasCompleteCancellationIdentity_def)
      (simp add: listed_unfilled_def pending_defs seen_texts pending_dates isInteger_def js_eq_def Fin_arith fl_eval)
qed

lemma cancelled_example:
  "\<exists>res. cancelUnfilledOrder cancel_env cancel_env (\<lambda>_. refused_answer) undisturbed KIS DOMESTIC listed_unfilled pending_db = Inr res \<and>
     cx_request res = Some pending_request"
proof -
  have c: "claimCancellation (tr_id pending_order) KIS 9 pending_db = (\<lparr>db_orders = [begin_cancellation 9 pending_order], db_audit = []\<rparr>, True)"
    by (simp add: claimCancellation_def Let_def updateMany_def pending_db_def change_where_def cancellable_def pending_defs)
  have f: "findFirst (\<lambda>x. tr_id x = tr_id pending_order \<and> tr_broker x = KIS) \<lparr>db_orders = [begin_cancellation 9 pending_order], db_audit = []\<rparr> =
      Some (begin_cancellation 9 pending_order)"
    by (simp add: findFirst_def begin_cancellation_def pending_defs)
  have o: "cancel_obstacle cancel_env KIS pending_order (Some (begin_cancellation 9 pending_order)) = None"
    by (simp add: cancel_obstacle_def isSameClaimedCancellationTarget_def begin_cancellation_def pending_defs cancel_env_def
        matchesCurrentContext_def seen_texts)
  have q: "cancel_order_request (begin_cancellation 9 pending_order) (listed_unfilled\<lparr>uo_exchangeCode := Some ''KRX''\<rparr>) = pending_request"
    by (simp add: cancel_order_request_def begin_cancellation_def pending_defs listed_unfilled_def pending_request_def)
  have e: "env_now cancel_env = 9" by (simp add: cancel_env_def)
  show ?thesis by (simp add: cancelUnfilledOrder_def pending_target undisturbed_def c f o q e Let_def)
qed

lemma cancellation_guarded_witness: "\<exists>r. r \<in> set (db_orders pending_db) \<and> the (tr_orderNo r) = ''0000117057''"
proof -
  obtain res where "cancelUnfilledOrder cancel_env cancel_env (\<lambda>_. refused_answer) undisturbed KIS DOMESTIC listed_unfilled pending_db = Inr res"
    "cx_request res = Some pending_request" using cancelled_example by blast
  from cancellation_guarded [OF this] show ?thesis by (auto simp: pending_request_def)
qed


text \<open>An order whose cancellation is unknown.\<close>

definition doubtful_order :: trade_record where "doubtful_order = pending_order\<lparr>tr_cancellationStatus := Some CUnknown\<rparr>"

definition doubtful_db :: order_db where "doubtful_db = \<lparr>db_orders = [doubtful_order], db_audit = []\<rparr>"

definition working_order :: listed_order where
  "working_order = order_seen\<lparr>bo_filledQuantity := Fin 0, bo_remainingQuantity := Fin 3\<rparr>"

lemma doubtful_db_orders: "db_orders doubtful_db = [doubtful_order]" "distinct (ids doubtful_db)"
  by (simp_all add: doubtful_db_def ids_def)

lemma doubtful_read:
  "read_cancellation account_seen account_seen (\<lambda>_ _. Inr xs, \<lambda>_. Inr us) ''t1'' ''op'' m doubtful_db =
     Inr (''op'', doubtful_order, matchingExecutions doubtful_order xs, us)"
proof -
  have "loadUnknownCancellation ''t1'' doubtful_db = Inr doubtful_order"
    by (simp add: loadUnknownCancellation_def findFirst_def doubtful_db_def doubtful_order_def pending_defs)
  moreover have "assertStoredIdentity doubtful_order = Inr ()"
    by (simp add: assertStoredIdentity_def doubtful_order_def pending_defs pending_dates seen_texts nonblank_def)
  moreover have "assertContext account_seen doubtful_order n = Inr ()" for n
    by (simp add: assertContext_def doubtful_order_def pending_defs)
  ultimately show ?thesis by (simp add: read_cancellation_def requireTradeRecordId_def requireActor_def unknown_texts)
qed

lemma doubtful_rows: "matchingExecutions doubtful_order [order_seen] = [order_seen]" "matchingExecutions doubtful_order [working_order] = [working_order]"
  by (simp_all add: matchingExecutions_def matchesTuple_def doubtful_order_def pending_defs order_seen_def working_order_def seen_texts
      exchange_of_def same_code_def js_eq_def)

lemma plain_rows: "plain_execution doubtful_order order_seen" "plain_execution doubtful_order working_order"
  by (simp_all add: plain_execution_def doubtful_order_def pending_defs order_seen_def working_order_def isInteger_def Fin_arith fl_eval)

lemma stale_read_closes_as_cancelled_witness:
  "\<exists>db' x'. inspectCancellation account_seen account_seen (\<lambda>_ _. Inr [working_order], \<lambda>_. Inr []) ''t1'' ''op'' 9 doubtful_db doubtful_db = Inr (db', x') \<and>
     (tr_id x', tr_status x', tr_executedQty x') = (''t1'', CANCELLED, Some (Fin 0))"
proof -
  have "tr_id doubtful_order = ''t1''" by (simp add: doubtful_order_def pending_defs)
  then show ?thesis
    using stale_read_closes_as_cancelled [OF doubtful_read [where xs = "[working_order]" and us = "[]", unfolded doubtful_rows], of 3 doubtful_db 9]
      plain_rows doubtful_db_orders
    by (auto simp: findOpenOrder_def doubtful_order_def pending_defs working_order_def)
qed


end
