(* ===== verification/BrokerOutcome.thy ===== *)
theory BrokerOutcome imports OrderCancellation begin

text \<open>
  What an order placed at a broker has come to (\<open>src/kis/kis-mutation.error.ts\<close>, \<open>kis-base.service.ts\<close>, the req
  methods of \<open>kis-domestic.service.ts\<close> and \<open>kis-overseas.service.ts\<close>, \<open>src/toss/toss-base.service.ts\<close>,
  \<open>toss-broker.service.ts\<close>, \<open>src/broker/broker-port.registry.ts\<close>). The network is a parameter: what becomes of a
  request that is sent. A field of an answer is \<open>None\<close> when it is not a text. Rate limits are left out.
\<close>

section \<open>Broker times\<close>

definition MAX_BROKER_TIME_SKEW_MS :: int where "MAX_BROKER_TIME_SKEW_MS = 10 * 60 * 1000"

definition parseTime :: "string \<Rightarrow> (int \<times> int \<times> int) option" where
  "parseTime s =
    (if \<not> digits 6 s then None
     else let h = number_of (take 2 s); mi = number_of (take 2 (drop 2 s)); sec = number_of (drop 4 s) in
     if h > 23 \<or> mi > 59 \<or> sec > 59 then None else Some (h, mi, sec))"

record broker_time =
  bt_date :: string
  bt_time :: string
  bt_instant :: int

text \<open>The date of a wall clock of the years 0 to 9999.\<close>

definition formatDate :: "int \<Rightarrow> string" where
  "formatDate wall = without CHR ''-'' (isoDate wall)"

definition six_digit_candidate :: "string \<Rightarrow> int \<Rightarrow> int \<times> int \<times> int \<Rightarrow> int \<Rightarrow> broker_time" where
  "six_digit_candidate timestamp callStartedAt time dayOffset =
    (case (time, civil_of_day (kst callStartedAt div 86400000)) of ((h, mi, s), (y, m, d)) \<Rightarrow>
     let wall = utc y m (d + dayOffset) h mi s in
     \<lparr>bt_date = formatDate wall, bt_time = timestamp, bt_instant = wall - 32400000\<rparr>)"

definition nearer :: "int \<Rightarrow> broker_time \<Rightarrow> broker_time \<Rightarrow> broker_time" where
  "nearer t nearest candidate = (if \<bar>bt_instant candidate - t\<bar> < \<bar>bt_instant nearest - t\<bar> then candidate else nearest)"

definition resolveSixDigitTimestamp :: "string \<Rightarrow> int \<Rightarrow> broker_time option" where
  "resolveSixDigitTimestamp timestamp t =
    map_option (\<lambda>time. foldl (nearer t) (six_digit_candidate timestamp t time (- 1))
      [six_digit_candidate timestamp t time 0, six_digit_candidate timestamp t time 1]) (parseTime timestamp)"

definition resolveExplicitTimestamp :: "string \<Rightarrow> broker_time option" where
  "resolveExplicitTimestamp timestamp =
    (if \<not> digits 14 timestamp then None
     else let y = number_of (take 4 timestamp); m = number_of (take 2 (drop 4 timestamp)); d = number_of (take 2 (drop 6 timestamp)) in
     case parseTime (drop 8 timestamp) of
       None \<Rightarrow> None
     | Some (h, mi, s) \<Rightarrow>
         if y < 2000 \<or> m < 1 \<or> m > 12 \<or> d < 1 then None
         else let wall = utc y m d h mi s in
         if civil_of_day (wall div 86400000) \<noteq> (y, m, d) then None
         else Some \<lparr>bt_date = take 8 timestamp, bt_time = drop 8 timestamp, bt_instant = wall - 32400000\<rparr>)"

definition resolveBrokerTimestamp :: "string option \<Rightarrow> int \<Rightarrow> (string \<times> string) option" where
  "resolveBrokerTimestamp raw t =
    (case raw of None \<Rightarrow> None
     | Some r \<Rightarrow>
        let timestamp = trim r;
            resolved = (if length timestamp = 6 then resolveSixDigitTimestamp timestamp t
              else if length timestamp = 14 then resolveExplicitTimestamp timestamp else None) in
        (case resolved of None \<Rightarrow> None
         | Some b \<Rightarrow> if \<bar>bt_instant b - t\<bar> > MAX_BROKER_TIME_SKEW_MS then None else Some (bt_date b, bt_time b)))"

section \<open>Answers of KIS\<close>

record kis_response =
  kr_rt_cd :: "string option"
  kr_msg_cd :: "string option"
  kr_msg1 :: "string option"
  kr_ODNO :: "string option"
  kr_ORD_TMD :: "string option"

definition failedResult :: "order_outcome \<Rightarrow> string \<Rightarrow> order_result" where
  "failedResult outcome message =
    \<lparr>res_outcome = outcome, res_orderNo = None, res_brokerOrderDate = None, res_orderTime = None, res_message = message\<rparr>"

definition isKisBusinessRejectionCode :: "string option \<Rightarrow> bool" where
  "isKisBusinessRejectionCode v =
    (case v of Some (c # cs) \<Rightarrow> is_digit c \<and> c \<noteq> CHR ''0'' \<and> list_all is_digit cs | _ \<Rightarrow> False)"

definition isBusinessRejection :: "kis_response \<Rightarrow> bool" where
  "isBusinessRejection r \<longleftrightarrow> isKisBusinessRejectionCode (kr_rt_cd r) \<and>
    (case (kr_msg_cd r, kr_msg1 r) of (Some c, Some m) \<Rightarrow> trim c \<noteq> [] \<or> trim m \<noteq> [] | _ \<Rightarrow> False)"

definition classifyKisOrderResponse :: "kis_response \<Rightarrow> int \<Rightarrow> string \<Rightarrow> order_result" where
  "classifyKisOrderResponse response callStartedAt acceptedMessage =
    (if kr_rt_cd response \<noteq> Some ''0'' then
       (if isBusinessRejection response
        then failedResult REJECTED (''KIS API rejection: '' @ coalesce (kr_msg_cd response) [] @ '' - '' @ coalesce (kr_msg1 response) [])
        else failedResult UNKNOWN ''KIS mutation response could not be verified: malformed response envelope'')
     else let orderNo = (case kr_ODNO response of Some n \<Rightarrow> trim n | None \<Rightarrow> []) in
     if orderNo = [] then failedResult UNKNOWN ''KIS mutation response could not be verified: missing broker order number''
     else case resolveBrokerTimestamp (kr_ORD_TMD response) callStartedAt of
         None \<Rightarrow> failedResult UNKNOWN ''KIS mutation response could not be verified: invalid or stale broker time''
       | Some (date, time) \<Rightarrow> \<lparr>res_outcome = ACCEPTED, res_orderNo = Some orderNo, res_brokerOrderDate = Some date,
           res_orderTime = Some time, res_message = acceptedMessage\<rparr>)"

datatype mutation_error = BUSINESS_REJECTION string | TRANSPORT_UNKNOWN string | PLAIN_ERROR string

definition classifyKisMutationFailure :: "mutation_error \<Rightarrow> order_result" where
  "classifyKisMutationFailure e =
    (case e of BUSINESS_REJECTION m \<Rightarrow> failedResult REJECTED m | TRANSPORT_UNKNOWN m \<Rightarrow> failedResult UNKNOWN m
     | PLAIN_ERROR m \<Rightarrow> failedResult UNKNOWN m)"

text \<open>
  A request by its address and key: it is not sent because no token is to be had, it fails with the error's
  text and perhaps a body, or it is answered, perhaps with something that is no object.
\<close>

datatype http_post = NotSent | HttpError (error_text: string) (error_body: "kis_response option") | Answered "kis_response option"

definition post :: "string \<Rightarrow> http_post \<Rightarrow> mutation_error + kis_response" where
  "post place reply =
    (let rejection = (\<lambda>r. BUSINESS_REJECTION (''KIS API rejection '' @ place @ '': '' @ coalesce (kr_msg_cd r) [] @ '' - '' @ coalesce (kr_msg1 r) []));
         unclear = (\<lambda>why. TRANSPORT_UNKNOWN (''KIS mutation outcome unknown '' @ place @ '': '' @ why)) in
     case reply of
       NotSent \<Rightarrow> Inl (BUSINESS_REJECTION (''KIS mutation not submitted '' @ place @ '': request setup failed''))
     | HttpError text body \<Rightarrow>
         (case body of Some r \<Rightarrow> if isBusinessRejection r then Inl (rejection r) else Inl (unclear text) | None \<Rightarrow> Inl (unclear text))
     | Answered answer \<Rightarrow>
         (case answer of None \<Rightarrow> Inl (unclear ''malformed response'')
          | Some r \<Rightarrow>
              if kr_rt_cd r = None then Inl (unclear ''malformed response'')
              else if kr_rt_cd r \<noteq> Some ''0'' then
                (if isBusinessRejection r then Inl (rejection r) else Inl (unclear ''incomplete rejection response''))
              else Inr r))"

definition kis_mutation :: "string \<Rightarrow> http_post \<Rightarrow> int \<Rightarrow> string \<Rightarrow> order_result" where
  "kis_mutation place reply callStartedAt acceptedMessage =
    (case post place reply of Inl e \<Rightarrow> classifyKisMutationFailure e
     | Inr response \<Rightarrow> classifyKisOrderResponse response callStartedAt acceptedMessage)"

section \<open>Orders at KIS\<close>

record kis_order =
  ko_trId :: string
  ko_exchange :: "string option"
  ko_stock :: string
  ko_quantity :: jsnum
  ko_price :: jsnum
  ko_division :: string

text \<open>The request keys of an exchange: buy, sell and cancel; those of the paper account start with another letter.\<close>

definition OVERSEAS_ORDER_TR_IDS :: "string \<Rightarrow> (string \<times> string \<times> string) option" where
  "OVERSEAS_ORDER_TR_IDS = map_of [(''NASD'', (''TTT1002U'', ''TTT1006U'', ''TTT1004U'')), (''NYSE'', (''TTT1002U'', ''TTT1006U'', ''TTT1004U'')),
     (''AMEX'', (''TTT1002U'', ''TTT1006U'', ''TTT1004U'')), (''SEHK'', (''TTS1002U'', ''TTS1001U'', ''TTS1003U'')),
     (''SHAA'', (''TTS0202U'', ''TTS1005U'', ''TTS0302U'')), (''SZAA'', (''TTS0305U'', ''TTS0304U'', ''TTS0306U'')),
     (''TKSE'', (''TTS0308U'', ''TTS0307U'', ''TTS0309U'')), (''HASE'', (''TTS0311U'', ''TTS0310U'', ''TTS0312U'')),
     (''VNSE'', (''TTS0311U'', ''TTS0310U'', ''TTS0312U''))]"

definition trId :: "bool \<Rightarrow> string \<Rightarrow> string" where
  "trId isPaper rest = (if isPaper then ''V'' else ''T'') @ rest"

definition domestic_order :: "bool \<Rightarrow> string \<Rightarrow> jsnum \<Rightarrow> jsnum option \<Rightarrow> side \<Rightarrow> string option \<Rightarrow> kis_order" where
  "domestic_order isPaper stockCode qty p side orderDivision =
    (let isMarket = \<not> truthy (coalesce p NaN) in
     \<lparr>ko_trId = trId isPaper (if side = BUY then ''TTC0012U'' else ''TTC0011U''), ko_exchange = None, ko_stock = stockCode,
       ko_quantity = qty, ko_price = (if isMarket \<and> or_str orderDivision [] = [] then Fin 0 else or_opt p (Fin 0)),
       ko_division = or_str orderDivision (if isMarket then ''01'' else ''00'')\<rparr>)"

definition overseas_order :: "bool \<Rightarrow> string \<Rightarrow> string \<Rightarrow> jsnum \<Rightarrow> jsnum \<Rightarrow> side \<Rightarrow> string option \<Rightarrow> kis_order option" where
  "overseas_order isPaper exchangeCode symbol qty p side orderDivision =
    map_option (\<lambda>(buy, sell, cancel). \<lparr>ko_trId = trId isPaper (if side = BUY then buy else sell), ko_exchange = Some exchangeCode,
      ko_stock = symbol, ko_quantity = qty, ko_price = p, ko_division = coalesce orderDivision ''00''\<rparr>) (OVERSEAS_ORDER_TR_IDS exchangeCode)"

definition kis_order_of :: "bool \<Rightarrow> ('r, 'm) signal \<Rightarrow> kis_order option" where
  "kis_order_of isPaper sg =
    (case sg_market sg of
       DOMESTIC \<Rightarrow> Some (domestic_order isPaper (sg_stockCode sg) (sg_quantity sg) (sg_price sg) (sg_side sg) (sg_orderDivision sg))
     | OVERSEAS \<Rightarrow> overseas_order isPaper (sg_exchangeCode sg) (sg_stockCode sg) (sg_quantity sg) (or_opt (sg_price sg) (Fin 0))
         (sg_side sg) (sg_orderDivision sg))"

definition kis_submit :: "bool \<Rightarrow> (kis_order \<Rightarrow> http_post) \<Rightarrow> int \<Rightarrow> string \<Rightarrow> ('r, 'm) signal \<Rightarrow> order_result" where
  "kis_submit isPaper send callStartedAt acceptedMessage sg =
    (case kis_order_of isPaper sg of
       None \<Rightarrow> failedResult REJECTED (''Unsupported exchange: '' @ sg_exchangeCode sg)
     | Some req \<Rightarrow>
         kis_mutation (''['' @ ko_trId req @ ''] '' @ (case sg_market sg of DOMESTIC \<Rightarrow> ''/uapi/domestic-stock/v1/trading/order-cash''
             | OVERSEAS \<Rightarrow> ''/uapi/overseas-stock/v1/trading/order'')) (send req) callStartedAt acceptedMessage)"

definition kis_cancel :: "bool \<Rightarrow> (cancel_request \<Rightarrow> http_post) \<Rightarrow> int \<Rightarrow> string \<Rightarrow> cancel_request \<Rightarrow> order_result" where
  "kis_cancel isPaper send callStartedAt acceptedMessage c =
    (case cr_market c of
       DOMESTIC \<Rightarrow> kis_mutation (''['' @ trId isPaper ''TTC0013U'' @ ''] /uapi/domestic-stock/v1/trading/order-rvsecncl'') (send c)
         callStartedAt acceptedMessage
     | OVERSEAS \<Rightarrow>
         (case OVERSEAS_ORDER_TR_IDS (cr_exchangeCode c) of
            None \<Rightarrow> failedResult REJECTED (''Unsupported exchange for cancel: '' @ cr_exchangeCode c)
          | Some (buy, sell, cancel) \<Rightarrow>
              kis_mutation (''['' @ trId isPaper cancel @ ''] /uapi/overseas-stock/v1/trading/order-rvsecncl'') (send c)
                callStartedAt acceptedMessage))"

section \<open>Orders at Toss\<close>

text \<open>
  One attempt of a request: no headers, an answer with its order id, an answer that is no envelope, a status,
  or no answer at all.
\<close>

datatype toss_reply = NoHeaders | Envelope (reply_id: "string option") | NoEnvelope | Status nat | NoAnswer

definition toss_failure :: "bool \<Rightarrow> nat option \<Rightarrow> mutation_error" where
  "toss_failure mutation status =
    (if mutation \<and> (case status of None \<Rightarrow> True | Some s \<Rightarrow> s \<ge> 500) then TRANSPORT_UNKNOWN ''Toss mutation outcome unknown''
     else case status of Some s \<Rightarrow> PLAIN_ERROR ''Toss API request rejected'' | None \<Rightarrow> PLAIN_ERROR ''Toss API request failed'')"

definition toss_attempt :: "bool \<Rightarrow> toss_reply \<Rightarrow> mutation_error + string option" where
  "toss_attempt mutation reply =
    (case reply of
       NoHeaders \<Rightarrow> Inl (PLAIN_ERROR ''Toss API request setup failed'')
     | Envelope i \<Rightarrow> Inr i
     | NoEnvelope \<Rightarrow> Inl (toss_failure mutation None)
     | Status s \<Rightarrow> Inl (toss_failure mutation (Some s))
     | NoAnswer \<Rightarrow> Inl (toss_failure mutation None))"

text \<open>A first answer that the token is not valid is tried again with a new token, once.\<close>

definition toss_request :: "bool \<Rightarrow> (nat \<Rightarrow> toss_reply) \<Rightarrow> mutation_error + string option" where
  "toss_request mutation reply = (if reply 0 = Status 401 then toss_attempt mutation (reply 1) else toss_attempt mutation (reply 0))"

definition optionalString :: "string option \<Rightarrow> string option" where
  "optionalString v = (case v of None \<Rightarrow> None | Some s \<Rightarrow> if trim s = [] then None else Some (trim s))"

definition mutationFailure :: "mutation_error \<Rightarrow> order_result" where
  "mutationFailure e =
    (case e of TRANSPORT_UNKNOWN m \<Rightarrow> failedResult UNKNOWN m | BUSINESS_REJECTION m \<Rightarrow> failedResult REJECTED m
     | PLAIN_ERROR m \<Rightarrow> failedResult REJECTED m)"

datatype toss_order_type = TossMarket | TossLimit (limit_price: jsnum) (at_close: bool)

record toss_order =
  to_symbol :: string
  to_side :: side
  to_quantity :: jsnum
  to_type :: toss_order_type

definition is_symbol_char :: "char \<Rightarrow> bool" where
  "is_symbol_char c \<longleftrightarrow> is_digit c \<or> (65 \<le> (of_char c :: nat) \<and> (of_char c :: nat) \<le> 90) \<or>
    (97 \<le> (of_char c :: nat) \<and> (of_char c :: nat) \<le> 122) \<or> c = CHR ''.'' \<or> c = CHR ''-''"

definition is_integer :: "jsnum \<Rightarrow> bool" where
  "is_integer x = (case x of Fin q \<Rightarrow> q = of_int \<lfloor>q\<rfloor> | _ \<Rightarrow> False)"

definition orderBody :: "('r, 'm) signal \<Rightarrow> string + toss_order" where
  "orderBody sg =
    (let symbol = trim (sg_stockCode sg); body = (\<lambda>type. \<lparr>to_symbol = symbol, to_side = sg_side sg, to_quantity = sg_quantity sg, to_type = type\<rparr>) in
     if symbol = [] then Inl ''Invalid Toss stock code''
     else if (if sg_market sg = DOMESTIC then \<not> digits 6 symbol else \<not> list_all is_symbol_char symbol) then Inl ''Invalid Toss stock code''
     else if \<not> is_integer (sg_quantity sg) \<or> sg_quantity sg \<le> Fin 0 then Inl ''Invalid Toss order quantity''
     else if sg_orderDivision sg = Some ''01'' then Inr (body TossMarket)
     else if sg_orderDivision sg \<noteq> Some ''00'' \<and> sg_orderDivision sg \<noteq> Some ''34''
     then Inl (''Unsupported Toss order division: '' @ coalesce (sg_orderDivision sg) ''missing'')
     else if \<not> finite_opt (sg_price sg) \<or> the (sg_price sg) \<le> Fin 0 then Inl ''Invalid Toss limit order price''
     else Inr (body (TossLimit (the (sg_price sg)) (sg_orderDivision sg = Some ''34''))))"

definition toss_submit :: "(toss_order \<Rightarrow> nat \<Rightarrow> toss_reply) \<Rightarrow> int \<Rightarrow> string \<Rightarrow> ('r, 'm) signal \<Rightarrow> string + order_result" where
  "toss_submit send callStartedAt acceptedMessage sg =
    (case orderBody sg of
       Inl message \<Rightarrow> Inl message
     | Inr req \<Rightarrow> Inr
         (case toss_request True (send req) of
            Inl e \<Rightarrow> mutationFailure e
          | Inr i \<Rightarrow>
              (case optionalString i of
                 None \<Rightarrow> failedResult UNKNOWN ''Toss mutation response missing orderId''
               | Some orderNo \<Rightarrow> \<lparr>res_outcome = ACCEPTED, res_orderNo = Some orderNo, res_brokerOrderDate = Some (formatKstDate callStartedAt),
                   res_orderTime = Some (formatKstTime callStartedAt), res_message = acceptedMessage\<rparr>)))"

definition toss_cancel :: "(string \<Rightarrow> nat \<Rightarrow> toss_reply) \<Rightarrow> cancel_request \<Rightarrow> string + order_result" where
  "toss_cancel send c =
    (case optionalString (Some (cr_orderNo c)) of
       None \<Rightarrow> Inl ''Invalid Toss orderId''
     | Some orderId \<Rightarrow> Inr
         (case toss_request True (send orderId) of
            Inl e \<Rightarrow> mutationFailure e
          | Inr i \<Rightarrow>
              (case optionalString i of
                 None \<Rightarrow> failedResult UNKNOWN ''Toss cancellation response missing orderId''
               | Some n \<Rightarrow> \<lparr>res_outcome = ACCEPTED, res_orderNo = Some n, res_brokerOrderDate = None, res_orderTime = None,
                   res_message = ''Toss cancellation accepted''\<rparr>)))"

section \<open>The registry\<close>

record port_registry =
  pr_registered :: "broker \<Rightarrow> bool"
  pr_enabled :: "broker \<Rightarrow> bool"

definition port_active :: "port_registry \<Rightarrow> broker \<Rightarrow> bool" where
  "port_active p b \<longleftrightarrow> pr_registered p b \<and> pr_enabled p b"

definition broker_name :: "broker \<Rightarrow> string" where
  "broker_name b = (case b of KIS \<Rightarrow> ''KIS'' | TOSS \<Rightarrow> ''TOSS'')"

definition requireActive :: "port_registry \<Rightarrow> broker \<Rightarrow> string + unit" where
  "requireActive p b =
    (if \<not> pr_registered p b then Inl (''Broker port is not registered: '' @ broker_name b)
     else if \<not> pr_enabled p b then Inl (''Broker is not active: '' @ broker_name b) else Inr ())"

record network =
  net_kis :: "kis_order \<Rightarrow> http_post"
  net_toss :: "toss_order \<Rightarrow> nat \<Rightarrow> toss_reply"

definition submit_order :: "port_registry \<Rightarrow> bool \<Rightarrow> network \<Rightarrow> int \<Rightarrow> string \<Rightarrow> broker \<Rightarrow> ('r, 'm) signal \<Rightarrow> string + order_result" where
  "submit_order p isPaper net callStartedAt acceptedMessage b sg =
    (case requireActive p b of Inl message \<Rightarrow> Inl message
     | Inr _ \<Rightarrow> (case b of
          KIS \<Rightarrow> Inr (kis_submit isPaper (net_kis net) callStartedAt acceptedMessage sg)
        | TOSS \<Rightarrow> toss_submit (net_toss net) callStartedAt acceptedMessage sg))"

section \<open>A live order is never recorded as failed\<close>

text \<open>What says in so many words that there is no order: it was not sent, or the broker refused it.\<close>

definition kis_refused :: "http_post \<Rightarrow> bool" where
  "kis_refused reply =
    (case reply of NotSent \<Rightarrow> True | HttpError _ (Some r) \<Rightarrow> isBusinessRejection r | Answered (Some r) \<Rightarrow> isBusinessRejection r | _ \<Rightarrow> False)"

definition toss_refused :: "toss_reply \<Rightarrow> bool" where
  "toss_refused reply = (case reply of NoHeaders \<Rightarrow> True | Status s \<Rightarrow> s < 500 | _ \<Rightarrow> False)"

lemma kis_rejected: "res_outcome (kis_mutation place reply t m) = REJECTED \<longleftrightarrow> kis_refused reply"
  by (cases reply)
    (auto simp: kis_mutation_def post_def classifyKisMutationFailure_def classifyKisOrderResponse_def failedResult_def kis_refused_def
      Let_def isBusinessRejection_def isKisBusinessRejectionCode_def is_digit_def split: option.splits list.splits)

lemma toss_rejected:
  "(case toss_request True reply of Inl e \<Rightarrow> res_outcome (mutationFailure e) = REJECTED | Inr _ \<Rightarrow> False) \<longleftrightarrow>
    toss_refused (if reply 0 = Status 401 then reply 1 else reply 0)"
  by (auto simp: toss_request_def toss_attempt_def toss_failure_def mutationFailure_def failedResult_def toss_refused_def
      split: toss_reply.splits)

text \<open>The orders that reach a broker, by the attempt that placed them.\<close>

definition order_live :: "(kis_order \<Rightarrow> bool) \<Rightarrow> (toss_order \<Rightarrow> nat \<Rightarrow> bool) \<Rightarrow> network \<Rightarrow> bool \<Rightarrow> broker \<Rightarrow> ('r, 'm) signal \<Rightarrow> bool" where
  "order_live kisPlaced tossPlaced net isPaper b sg \<longleftrightarrow>
    (case b of
       KIS \<Rightarrow> (\<exists>req. kis_order_of isPaper sg = Some req \<and> kisPlaced req)
     | TOSS \<Rightarrow> (\<exists>req. orderBody sg = Inr req \<and>
         (tossPlaced req 0 \<or> net_toss net req 0 = Status 401 \<and> tossPlaced req 1)))"

lemma submit_rejected:
  assumes "submit_order p isPaper net t m b sg = Inr res" "res_outcome res = REJECTED"
    and "\<And>req. kis_refused (net_kis net req) \<Longrightarrow> \<not> kisPlaced req"
    and "\<And>req n. toss_refused (net_toss net req n) \<Longrightarrow> \<not> tossPlaced req n"
  shows "\<not> order_live kisPlaced tossPlaced net isPaper b sg"
proof (cases b)
  case KIS
  then have "res = kis_submit isPaper (net_kis net) t m sg"
    using assms(1) by (simp add: submit_order_def split: sum.splits)
  then show ?thesis using assms(2,3) KIS
    by (auto simp: order_live_def kis_submit_def kis_rejected split: option.splits)
next
  case TOSS
  show ?thesis
  proof
    assume "order_live kisPlaced tossPlaced net isPaper b sg"
    then obtain req where o: "orderBody sg = Inr req" "tossPlaced req 0 \<or> net_toss net req 0 = Status 401 \<and> tossPlaced req 1"
      using TOSS by (auto simp: order_live_def)
    have r: "toss_submit (net_toss net) t m sg = Inr res" using assms(1) TOSS by (simp add: submit_order_def split: sum.splits)
    have "case toss_request True (net_toss net req) of Inl e \<Rightarrow> res_outcome (mutationFailure e) = REJECTED | Inr _ \<Rightarrow> False"
      using r o(1) assms(2) by (auto simp: toss_submit_def failedResult_def split: sum.splits option.splits)
    then have f: "toss_refused (if net_toss net req 0 = Status 401 then net_toss net req 1 else net_toss net req 0)"
      using toss_rejected by blast
    show False
    proof (cases "net_toss net req 0 = Status 401")
      case True
      then have "toss_refused (net_toss net req 0)" by (simp add: toss_refused_def)
      then show False using f True o(2) assms(4) by auto
    next
      case False
      then show False using f o(2) assms(4) by auto
    qed
  qed
qed

text \<open>
  (C3) An order that a broker has is never recorded as failed. Where a broker places no order it has refused in
  so many words and none that was not sent to it, a live order's record ends as pending with its number, or as
  unknown, or, when the database fails, as still being submitted: whatever became of the answer, at either
  broker, and whichever attempt placed the order.
\<close>

theorem live_order_never_failed:
  assumes "\<And>req. kis_refused (net_kis net req) \<Longrightarrow> \<not> kisPlaced req"
    and "\<And>req n. toss_refused (net_toss net req n) \<Longrightarrow> \<not> tossPlaced req n"
    and "order_live kisPlaced tossPlaced net isPaper b sg" "tr_status r = SUBMITTING"
  shows "tr_status (recorded_as reply (submit_order p isPaper net t m b sg) r) \<in> {SUBMITTING, SUBMISSION_UNKNOWN, PENDING}"
proof (cases "submit_order p isPaper net t m b sg")
  case (Inl message)
  then show ?thesis by (simp add: recorded_as_def set_unknown_def)
next
  case (Inr res)
  have "res_outcome res \<noteq> REJECTED"
    using submit_rejected [OF Inr, where kisPlaced = kisPlaced and tossPlaced = tossPlaced] assms(1-3) by blast
  then show ?thesis using assms(4)
    by (cases "res_outcome res") (auto simp: Inr recorded_as_def set_unknown_def set_pending_def)
qed

section \<open>An order that could not be sent\<close>

text \<open>
  An order Toss cannot take is recorded as unknown although nothing was sent: a signal whose division is
  missing or not one of the three is refused before any request, by an exception, and the record ends in the
  state that waits for an operator, whatever the network would have answered.
\<close>

lemma unsendable_order_recorded_unknown:
  assumes "sg_orderDivision sg \<notin> {Some ''00'', Some ''01'', Some ''34''}" "started i r"
  shows "\<exists>message. submit_order p isPaper net t m TOSS sg = Inl message \<and>
    tr_status (change_where (started i) (recorded_as reply (submit_order p isPaper net t m TOSS sg)) r) = SUBMISSION_UNKNOWN \<and>
    (\<forall>net' t'. submit_order p isPaper net' t' m TOSS sg = Inl message)"
proof -
  have "\<exists>message. orderBody sg = Inl message" using assms(1) by (simp add: orderBody_def Let_def)
  then obtain message where b: "orderBody sg = Inl message" by blast
  have "\<exists>message. \<forall>net' t'. submit_order p isPaper net' t' m TOSS sg = Inl message"
    by (cases "requireActive p TOSS") (simp_all add: submit_order_def toss_submit_def b)
  then obtain e where "\<forall>net' t'. submit_order p isPaper net' t' m TOSS sg = Inl e" by blast
  then show ?thesis using assms(2)
    by (intro exI [of _ e]) (simp add: recorded_as_def set_unknown_def change_where_def)
qed

section \<open>The time of an accepted order\<close>

lemma digits_number: "digits n s \<Longrightarrow> digits_text n (nat (number_of s)) = s \<and> 0 \<le> number_of s"
proof (induction n arbitrary: s)
  case 0
  then show ?case by (simp add: digits_def number_of_def)
next
  case (Suc n)
  obtain s' c where s: "s = s' @ [c]" using Suc.prems by (cases s rule: rev_cases) (auto simp: digits_def)
  then have d: "digits n s'" "is_digit c" using Suc.prems by (auto simp: digits_def)
  define k :: nat where "k = of_char c - 48"
  have c: "48 \<le> (of_char c :: nat)" "(of_char c :: nat) \<le> 57" using d(2) by (auto simp: is_digit_def)
  have k: "k < 10" "c = char_of (48 + k)" using c by (simp_all add: k_def)
  have "(of_char c :: int) = int (of_char c)" by (rule of_nat_of_char [symmetric])
  then have "number_of s = 10 * number_of s' + int k" using c by (simp add: s number_of_append k_def)
  moreover have i: "digits_text n (nat (number_of s')) = s'" "0 \<le> number_of s'" using Suc.IH [OF d(1)] by simp_all
  ultimately have "nat (number_of s) = 10 * nat (number_of s') + k" "0 \<le> number_of s" by (simp_all add: nat_add_distrib nat_mult_distrib)
  then show ?case using k i(1) by (simp add: s)
qed

lemma digits_take_drop: "digits n s \<Longrightarrow> k \<le> n \<Longrightarrow> digits k (take k s) \<and> digits (n - k) (drop k s)"
  by (auto simp: digits_def list_all_iff dest: in_set_takeD in_set_dropD)

lemma parsed_time:
  assumes "parseTime s = Some (h, mi, sec)"
  shows "0 \<le> h \<and> h \<le> 23 \<and> 0 \<le> mi \<and> mi \<le> 59 \<and> 0 \<le> sec \<and> sec \<le> 59 \<and>
    s = digits_text 2 (nat h) @ digits_text 2 (nat mi) @ digits_text 2 (nat sec)"
proof -
  have d: "digits 6 s" and v: "h = number_of (take 2 s)" "mi = number_of (take 2 (drop 2 s))" "sec = number_of (drop 4 s)"
    and b: "h \<le> 23" "mi \<le> 59" "sec \<le> 59"
    using assms by (simp_all add: parseTime_def Let_def split: if_splits)
  have p: "digits 2 (take 2 s)" "digits 4 (drop 2 s)" using digits_take_drop [OF d, of 2] by simp_all
  have q: "digits 2 (take 2 (drop 2 s))" "digits 2 (drop 4 s)" using digits_take_drop [OF p(2), of 2] by (simp_all add: drop_drop)
  have "s = take 2 s @ take 2 (drop 2 s) @ drop 4 s"
    by (metis append_take_drop_id drop_drop add_2_eq_Suc' numeral_2_eq_2 numeral_Bit0 add.commute)
  then show ?thesis using b digits_number [OF p(1)] digits_number [OF q(1)] digits_number [OF q(2)] unfolding v by simp
qed

lemma trim_Nil: "trim s = [] \<Longrightarrow> list_all is_space s"
  by (auto simp: trim_def list_all_iff dropWhile_eq_Nil_conv) (metis dropWhile_eq_Nil_conv in_set_conv_decomp set_rev rev_is_Nil_conv set_dropWhileD takeWhile_dropWhile_id Un_iff set_append set_takeWhileD)

lemma digits_nonblank: "digits (Suc n) s \<Longrightarrow> nonblank (Some s)"
proof -
  assume d: "digits (Suc n) s"
  then obtain c cs where s: "s = c # cs" "is_digit c" by (cases s) (auto simp: digits_def)
  then have "\<not> is_space c" by (auto simp: is_space_def is_digit_def)
  then show ?thesis using trim_Nil [of s] s(1) by (auto simp: nonblank_def)
qed

lemma wall_read_back:
  assumes "parseTime s = Some (h, mi, sec)" "wall = day * 86400000 + h * 3600000 + mi * 60000 + sec * 1000"
    and "civil_of_day day = (y, m, d)" "100 \<le> y" "y \<le> 9999"
  shows "parseKstTimestamp (formatDate wall) s = Some (wall - 32400000)"
proof -
  define w where "w = h * 3600 + mi * 60 + sec"
  note p = parsed_time [OF assms(1)]
  have w: "0 \<le> w" "w < 86400" "wall = day * 86400000 + w * 1000" using p assms(2) by (simp_all add: w_def)
  have k: "kst (wall - 32400000) = wall" by (simp add: kst_def)
  have dv: "wall div 86400000 = day" using w by simp
  have md: "wall mod 86400000 div 1000 = w" using w by simp
  have f: "w div 3600 = h" "w div 60 mod 60 = mi" "w mod 60 = sec"
  proof -
    have "w = 60 * (h * 60 + mi) + sec" by (simp add: w_def)
    moreover have "0 \<le> sec" "sec < 60" using p by simp_all
    ultimately have "w div 60 = h * 60 + mi" "w mod 60 = sec"
      by (rule int_div_pos_eq, rule int_mod_pos_eq [of w 60 "h * 60 + mi" sec])
    then show "w mod 60 = sec" "w div 60 mod 60 = mi" using p by simp_all
    have "w div 3600 = w div 60 div 60" by (simp add: div_mult2_eq [symmetric])
    then show "w div 3600 = h" using \<open>w div 60 = h * 60 + mi\<close> p by simp
  qed
  have "formatKstTime (wall - 32400000) = s"
    using p by (simp add: formatKstTime_def k kst_time_text md f)
  moreover have "formatKstDate (wall - 32400000) = formatDate wall" by (simp add: formatKstDate_def k formatDate_def)
  moreover have "(wall - 32400000) mod 1000 = 0"
  proof -
    have "wall - 32400000 = 1000 * (day * 86400 + w - 32400)" using w by simp
    then show ?thesis by simp
  qed
  ultimately show ?thesis using kst_read_back [of "wall - 32400000" y m d] assms(3-5) by (simp add: k dv)
qed

lemma nearest_candidate: "\<exists>k \<in> {- 1, 0, 1}. foldl (nearer t) (c (- 1)) [c 0, c 1] = c (k :: int)"
  by (simp add: nearer_def)

lemma day_of_civil_add: "day_of_civil y m (d + k) = day_of_civil y m d + k"
  unfolding day_of_civil_def Let_def by (simp only: add_diff_eq add.assoc [symmetric] diff_add_eq)

lemma six_digit_read_back:
  assumes "resolveSixDigitTimestamp s t = Some b" "86400000 \<le> kst t" "kst t \<le> 2899998 * 86400000"
  shows "parseKstTimestamp (bt_date b) (bt_time b) = Some (bt_instant b)"
proof -
  obtain h mi sec where time: "parseTime s = Some (h, mi, sec)"
    using assms(1) by (auto simp: resolveSixDigitTimestamp_def)
  obtain k where k: "k \<in> {- 1, 0, 1 :: int}" "b = six_digit_candidate s t (h, mi, sec) k"
    using assms(1) nearest_candidate [of t "six_digit_candidate s t (h, mi, sec)"] by (auto simp: resolveSixDigitTimestamp_def time)
  define day where "day = kst t div 86400000"
  have day: "1 \<le> day" "day \<le> 2899998" using assms(2,3) by (simp_all add: day_def)
  obtain y m d where c: "civil_of_day day = (y, m, d)" by (metis prod_cases3)
  obtain y' m' d' where c': "civil_of_day (day + k) = (y', m', d')" by (metis prod_cases3)
  have dk: "0 \<le> day + k" "day + k \<le> 2900000" using k(1) day by auto
  have y: "1900 \<le> y" "1900 \<le> y'" "y' \<le> 9999" using civil_year [OF c] civil_year [OF c' dk] day by simp_all
  have shift: "day_of_civil y m (d + k) = day + k"
    using day_of_civil_of_day [OF c] day_of_civil_add by simp
  have wall: "utc y m (d + k) h mi sec = (day + k) * 86400000 + h * 3600000 + mi * 60000 + sec * 1000"
    using y(1) by (simp add: utc_def shift)
  have b: "b = \<lparr>bt_date = formatDate (utc y m (d + k) h mi sec), bt_time = s, bt_instant = utc y m (d + k) h mi sec - 32400000\<rparr>"
    using k(2) c by (simp add: six_digit_candidate_def day_def Let_def)
  have "parseKstTimestamp (formatDate (utc y m (d + k) h mi sec)) s = Some (utc y m (d + k) h mi sec - 32400000)"
    by (rule wall_read_back [OF time wall c']) (use y in simp_all)
  then show ?thesis by (simp only: b broker_time.simps)
qed

lemma explicit_read_back:
  assumes "resolveExplicitTimestamp s = Some b"
  shows "parseKstTimestamp (bt_date b) (bt_time b) = Some (bt_instant b)"
proof -
  define y m d where "y = number_of (take 4 s)" and "m = number_of (take 2 (drop 4 s))" and "d = number_of (take 2 (drop 6 s))"
  have s: "digits 14 s" using assms by (simp add: resolveExplicitTimestamp_def split: if_splits)
  obtain h mi sec where time: "parseTime (drop 8 s) = Some (h, mi, sec)"
    using assms s by (auto simp: resolveExplicitTimestamp_def Let_def split: option.splits)
  define wall where "wall = utc y m d h mi sec"
  have y: "2000 \<le> y" and c: "civil_of_day (wall div 86400000) = (y, m, d)"
    and b: "b = \<lparr>bt_date = take 8 s, bt_time = drop 8 s, bt_instant = wall - 32400000\<rparr>"
    using assms s time unfolding wall_def y_def m_def d_def by (simp_all add: resolveExplicitTimestamp_def Let_def split: if_splits)
  have q: "digits 4 (take 4 s)" "digits 10 (drop 4 s)" using digits_take_drop [OF s, of 4] by simp_all
  then have q2: "digits 2 (take 2 (drop 4 s))" "digits 8 (drop 6 s)" using digits_take_drop [OF q(2), of 2] by (simp_all add: drop_drop)
  then have q3: "digits 2 (take 2 (drop 6 s))" using digits_take_drop [OF q2(2), of 2] by simp
  have y9: "y \<le> 9999"
  proof -
    have "number_of (digits_text 4 (nat y)) = int (nat y mod 10 ^ 4)" by (rule number_of_digits)
    then show ?thesis using digits_number [OF q(1)] unfolding y_def by simp
  qed
  have "take 8 s = take 4 s @ take 2 (drop 4 s) @ take 2 (drop 6 s)"
    using take_add [of 4 4 s] take_add [of 2 2 "drop 4 s"] by (simp add: drop_drop)
  also have "\<dots> = digits_text 4 (nat y) @ digits_text 2 (nat m) @ digits_text 2 (nat d)"
    using digits_number [OF q(1)] digits_number [OF q2(1)] digits_number [OF q3] by (simp add: y_def m_def d_def)
  finally have date: "take 8 s = formatDate wall"
    using kst_date_text [OF c] y y9 by (simp add: formatDate_def)
  define day where "day = day_of_civil y m d"
  note p = parsed_time [OF time]
  have wall: "wall = day * 86400000 + h * 3600000 + mi * 60000 + sec * 1000" using y by (simp add: wall_def utc_def day_def)
  have "0 \<le> h * 3600000 + mi * 60000 + sec * 1000" "h * 3600000 + mi * 60000 + sec * 1000 < 86400000" using p by simp_all
  then have "wall div 86400000 = day" using wall by simp
  then have "parseKstTimestamp (formatDate wall) (drop 8 s) = Some (wall - 32400000)"
    by (intro wall_read_back [OF time wall]) (use c y y9 in simp_all)
  then show ?thesis by (simp only: b broker_time.simps date)
qed

text \<open>
  (C31) The date and the time recorded of an accepted order are those of an instant within ten minutes of the
  request, whether the broker gave a time of day alone, whose day is then found across midnight, or a date and
  a time; and they are read back as this instant by the code that looks an order up.
\<close>

theorem accepted_time_read_back:
  assumes "res_outcome (classifyKisOrderResponse response t m) = ACCEPTED" "86400000 \<le> kst t" "kst t \<le> 2899998 * 86400000"
  shows "\<exists>date time i. res_brokerOrderDate (classifyKisOrderResponse response t m) = Some date \<and>
    res_orderTime (classifyKisOrderResponse response t m) = Some time \<and>
    parseKstTimestamp date time = Some i \<and> \<bar>i - t\<bar> \<le> MAX_BROKER_TIME_SKEW_MS \<and>
    hasCompleteOrderIdentity (classifyKisOrderResponse response t m)"
proof -
  obtain date time where r: "resolveBrokerTimestamp (kr_ORD_TMD response) t = Some (date, time)"
    and v: "res_brokerOrderDate (classifyKisOrderResponse response t m) = Some date"
      "res_orderTime (classifyKisOrderResponse response t m) = Some time"
      "\<exists>n. res_orderNo (classifyKisOrderResponse response t m) = Some n \<and> trim n = n \<and> n \<noteq> []"
    using assms(1) by (auto simp: classifyKisOrderResponse_def failedResult_def Let_def split: if_splits option.splits)
  obtain raw b where b: "kr_ORD_TMD response = Some raw" "date = bt_date b" "time = bt_time b" "\<bar>bt_instant b - t\<bar> \<le> MAX_BROKER_TIME_SKEW_MS"
    "resolveSixDigitTimestamp (trim raw) t = Some b \<or> resolveExplicitTimestamp (trim raw) = Some b"
    using r by (auto simp: resolveBrokerTimestamp_def Let_def split: option.splits if_splits)
  have p: "parseKstTimestamp date time = Some (bt_instant b)"
    using b(2,3,5) six_digit_read_back [OF _ assms(2,3)] explicit_read_back by blast
  then have "digits 8 date" "digits 6 time" by (simp_all add: parseKstTimestamp_def Let_def split: if_splits)
  then have "nonblank (Some date)" "nonblank (Some time)"
    using digits_nonblank [of 7 date] digits_nonblank [of 5 time] by simp_all
  then show ?thesis using v p b(4) by (fastforce simp: hasCompleteOrderIdentity_def nonblank_def)
qed

section \<open>The theorems at concrete inputs\<close>

definition toss_signal :: "string option \<Rightarrow> (string, string) signal" where
  "toss_signal division = \<lparr>sg_market = OVERSEAS, sg_exchangeCode = ''NASD'', sg_stockCode = ''TQQQ'', sg_side = BUY, sg_quantity = Fin 2,
     sg_price = Some (Fin 70), sg_reason = ''dip'', sg_orderDivision = division, sg_metadata = None\<rparr>"

definition both_brokers :: port_registry where
  "both_brokers = \<lparr>pr_registered = (\<lambda>_. True), pr_enabled = (\<lambda>_. True)\<rparr>"

text \<open>Toss places the order at the second attempt, and the answer is lost.\<close>

lemma toss_symbol: "trim ''TQQQ'' = ''TQQQ''" "is_symbol_char CHR ''T''" "is_symbol_char CHR ''Q''"
  by code_simp+

lemma toss_body: "orderBody (toss_signal (Some ''34'')) =
    Inr \<lparr>to_symbol = ''TQQQ'', to_side = BUY, to_quantity = Fin 2, to_type = TossLimit (Fin 70) True\<rparr>"
  by (simp add: orderBody_def Let_def toss_signal_def toss_symbol is_integer_def isFinite_iff js_defs js_eq_def)

lemma live_order_never_failed_witness:
  "tr_status (recorded_as (\<lambda>_. DbDone) (submit_order both_brokers False
      \<lparr>net_kis = \<lambda>_. NotSent, net_toss = \<lambda>_ n. if n = 0 then Status 401 else NoAnswer\<rparr> 0 ''placed'' TOSS (toss_signal (Some ''34'')))
    (set_started 5 (example_order ''a''))) \<in> {SUBMITTING, SUBMISSION_UNKNOWN, PENDING}"
proof (rule live_order_never_failed [where kisPlaced = "\<lambda>_. False" and tossPlaced = "\<lambda>_ n. n = 1"])
  show "order_live (\<lambda>_. False) (\<lambda>_ n. n = 1) \<lparr>net_kis = \<lambda>_. NotSent, net_toss = \<lambda>_ n. if n = 0 then Status 401 else NoAnswer\<rparr>
      False TOSS (toss_signal (Some ''34''))"
    by (simp add: order_live_def toss_body)
qed (auto simp: toss_refused_def set_started_def example_order_def new_order_def split: if_splits)

lemma unsendable_order_recorded_unknown_witness:
  "tr_status (change_where (started ''a'') (recorded_as (\<lambda>_. DbDone) (submit_order both_brokers False
      \<lparr>net_kis = \<lambda>_. NotSent, net_toss = \<lambda>_ _. NoAnswer\<rparr> 0 ''placed'' TOSS (toss_signal None)))
    (set_started 5 (example_order ''a''))) = SUBMISSION_UNKNOWN"
proof -
  have "started ''a'' (set_started 5 (example_order ''a''))"
    by (simp add: started_def set_started_def example_order_def new_order_def)
  moreover have "sg_orderDivision (toss_signal None) \<notin> {Some ''00'', Some ''01'', Some ''34''}" by (simp add: toss_signal_def)
  ultimately show ?thesis using unsendable_order_recorded_unknown [where sg = "toss_signal None" and p = both_brokers] by blast
qed

lemma order_texts: "trim ''0000117057'' = ''0000117057''" "trim ''150506'' = ''150506''" "trim ''20260708150506'' = ''20260708150506''"
  by code_simp+

lemma explicit_example: "resolveExplicitTimestamp ''20260708150506'' = Some \<lparr>bt_date = ''20260708'', bt_time = ''150506'', bt_instant = 1783490706000\<rparr>"
proof -
  have d: "civil_of_day 20642 = (2026, 7, 8)" unfolding civil_of_day_def Let_def by simp
  have n: "number_of ''2026'' = 2026" "number_of ''07'' = 7" "number_of ''08'' = 8" "number_of ''15'' = 15" "number_of ''05'' = 5"
    "number_of ''06'' = 6" "digits 14 ''20260708150506''" "digits 6 ''150506''"
    by (simp_all add: number_of_def digits_def is_digit_def)
  have u: "utc 2026 7 8 15 5 6 = 1783523106000" unfolding utc_def day_of_civil_def Let_def by simp
  show ?thesis by (simp add: resolveExplicitTimestamp_def parseTime_def n u d)
qed

lemma accepted_time_read_back_witness:
  "\<exists>i. parseKstTimestamp ''20260708'' ''150506'' = Some i \<and> \<bar>i - 1783490700000\<bar> \<le> 600000"
proof -
  let ?r = "\<lparr>kr_rt_cd = Some ''0'', kr_msg_cd = None, kr_msg1 = None, kr_ODNO = Some ''0000117057'', kr_ORD_TMD = Some ''20260708150506''\<rparr>"
  have c: "classifyKisOrderResponse ?r 1783490700000 ''placed'' = \<lparr>res_outcome = ACCEPTED, res_orderNo = Some ''0000117057'',
      res_brokerOrderDate = Some ''20260708'', res_orderTime = Some ''150506'', res_message = ''placed''\<rparr>"
    by (simp add: classifyKisOrderResponse_def resolveBrokerTimestamp_def order_texts explicit_example MAX_BROKER_TIME_SKEW_MS_def)
  have "\<exists>date time i. res_brokerOrderDate (classifyKisOrderResponse ?r 1783490700000 ''placed'') = Some date \<and>
    res_orderTime (classifyKisOrderResponse ?r 1783490700000 ''placed'') = Some time \<and>
    parseKstTimestamp date time = Some i \<and> \<bar>i - 1783490700000\<bar> \<le> MAX_BROKER_TIME_SKEW_MS \<and>
    hasCompleteOrderIdentity (classifyKisOrderResponse ?r 1783490700000 ''placed'')"
    by (rule accepted_time_read_back) (simp_all add: c kst_def)
  then show ?thesis by (auto simp: c MAX_BROKER_TIME_SKEW_MS_def)
qed

end
