(* ===== verification/OrderHistory.thy ===== *)
theory OrderHistory imports BrokerOutcome begin

text \<open>
  The orders a broker lists (\<open>src/kis/kis-order-history-pagination.service.ts\<close>, \<open>kis-order-history.service.ts\<close>,
  the reading of orders in \<open>src/toss/toss-broker.service.ts\<close>). The broker is a parameter: what it answers to a
  request for a page. A field of a row is a text, a number, missing, or something else; a price is what
  \<open>parseFloat\<close> or \<open>Number\<close> reads of it.
\<close>

section \<open>Pages of KIS\<close>

definition MAX_ORDER_HISTORY_PAGES :: nat where "MAX_ORDER_HISTORY_PAGES = 100"

record 'r page =
  hp_rows :: "'r list option"
  hp_trCont :: "string option"
  hp_fk :: "string option"
  hp_nk :: "string option"

text \<open>The rows by identity, in the order in which they first came.\<close>

definition add_row :: "('r \<Rightarrow> string) \<Rightarrow> 'r list \<Rightarrow> 'r \<Rightarrow> 'r list" where
  "add_row key rows row = (if key row \<in> set (map key rows) then rows else rows @ [row])"

definition tr_cont :: "'r page \<Rightarrow> string option" where
  "tr_cont p = map_option to_upper (optionalString (hp_trCont p))"

definition continues :: "'r page \<Rightarrow> bool" where
  "continues p \<longleftrightarrow> tr_cont p \<in> {Some ''M'', Some ''F''}"

text \<open>\<open>left\<close>: how many pages may follow this one.\<close>

fun paginate_from :: "(string \<times> string \<Rightarrow> string + 'r page) \<Rightarrow> ('r \<Rightarrow> string) \<Rightarrow> nat \<Rightarrow> string \<times> string \<Rightarrow>
    (string \<times> string \<times> string) list \<Rightarrow> 'r list \<Rightarrow> string + 'r list" where
  "paginate_from fetch key left at_key visited rows =
    (case fetch at_key of
       Inl e \<Rightarrow> Inl (''pagination failed: '' @ e)
     | Inr p \<Rightarrow>
        (case hp_rows p of
           None \<Rightarrow> Inl ''pagination returned malformed rows''
         | Some new \<Rightarrow>
             let rows' = foldl (add_row key) rows new in
             case tr_cont p of
               None \<Rightarrow> Inl ''pagination missing tr_cont''
             | Some c \<Rightarrow>
                 if \<not> continues p then Inr rows'
                 else (case (optionalString (hp_fk p), optionalString (hp_nk p)) of
                     (Some fk, Some nk) \<Rightarrow>
                       if (c, fk, nk) \<in> set visited then Inl ''pagination repeated continuation tuple''
                       else (case left of
                           0 \<Rightarrow> Inl ''pagination exceeded 100 pages''
                         | Suc left' \<Rightarrow> paginate_from fetch key left' (fk, nk) ((c, fk, nk) # visited) rows')
                   | _ \<Rightarrow> Inl ''pagination missing continuation context'')))"

declare paginate_from.simps [simp del]

definition paginate :: "(string \<times> string \<Rightarrow> string + 'r page) \<Rightarrow> ('r \<Rightarrow> string) \<Rightarrow> string + 'r list" where
  "paginate fetch key = paginate_from fetch key (MAX_ORDER_HISTORY_PAGES - 1) ([], []) [] []"

section \<open>Fields\<close>

datatype field = FText string | FNumber jsnum | FMissing | FOther

definition MAX_SAFE_INTEGER :: int where "MAX_SAFE_INTEGER = 2 ^ 53 - 1"

definition parseInteger :: "field \<Rightarrow> int option" where
  "parseInteger v =
    (case v of
       FNumber x \<Rightarrow> (case x of Fin q \<Rightarrow> if q = of_int \<lfloor>q\<rfloor> \<and> \<bar>\<lfloor>q\<rfloor>\<bar> \<le> MAX_SAFE_INTEGER then Some \<lfloor>q\<rfloor> else None | _ \<Rightarrow> None)
     | FText s \<Rightarrow>
         let d = trim s in
         if d \<noteq> [] \<and> list_all is_digit d \<and> number_of d \<le> MAX_SAFE_INTEGER then Some (number_of d) else None
     | _ \<Rightarrow> None)"

text \<open>\<open>undefined\<close>, \<open>null\<close> and a number that can be read.\<close>

datatype optional_integer = Absent | Malformed | Given int

definition parseOptionalInteger :: "field \<Rightarrow> optional_integer" where
  "parseOptionalInteger v =
    (case v of FMissing \<Rightarrow> Absent
     | FText s \<Rightarrow> if trim s = [] then Absent else (case parseInteger v of Some n \<Rightarrow> Given n | None \<Rightarrow> Malformed)
     | _ \<Rightarrow> (case parseInteger v of Some n \<Rightarrow> Given n | None \<Rightarrow> Malformed))"

definition nonemptyString :: "field \<Rightarrow> string option" where
  "nonemptyString v = (case v of FText s \<Rightarrow> optionalString (Some s) | _ \<Rightarrow> None)"

definition isValidKisCalendarDate :: "field \<Rightarrow> bool" where
  "isValidKisCalendarDate v = (case v of FText s \<Rightarrow> isValidBrokerOrderDate (Some s) | _ \<Rightarrow> False)"

definition isValidKisTime :: "field \<Rightarrow> bool" where
  "isValidKisTime v = (case v of FText s \<Rightarrow> parseTime s \<noteq> None | _ \<Rightarrow> False)"

definition field_given :: "field \<Rightarrow> bool" where
  "field_given v = (case v of FText s \<Rightarrow> trim s \<noteq> [] | FMissing \<Rightarrow> False | _ \<Rightarrow> True)"

definition field_text :: "field \<Rightarrow> string" where
  "field_text v = (case v of FText s \<Rightarrow> s | _ \<Rightarrow> [])"

text \<open>A row of an execution list. \<open>ow_rejectedQuantity\<close> is what \<open>Number\<close> reads, unless the field is blank or neither a
  text nor a number; \<open>ow_other\<close> says whether the fields that are not kept here hold anything.\<close>

record order_row =
  ow_orderDate :: field
  ow_exchange :: field
  ow_orderNo :: field
  ow_stock :: field
  ow_side :: field
  ow_quantity :: field
  ow_filled :: field
  ow_remaining :: field
  ow_orderTime :: field
  ow_orderPrice :: "jsnum option"
  ow_filledPrice :: "jsnum option"
  ow_rejectedQuantity :: "jsnum option"
  ow_reasonName :: field
  ow_reasonCode :: field
  ow_other :: bool

definition isNonemptyRow :: "order_row \<Rightarrow> bool" where
  "isNonemptyRow row \<longleftrightarrow> ow_other row \<or> list_ex field_given [ow_orderDate row, ow_exchange row, ow_orderNo row, ow_stock row,
     ow_side row, ow_quantity row, ow_filled row, ow_remaining row, ow_orderTime row, ow_reasonName row, ow_reasonCode row]"

definition valid_side :: "order_row \<Rightarrow> bool" where
  "valid_side row \<longleftrightarrow> nonemptyString (ow_side row) \<in> {Some ''01'', Some ''02''}"

definition valid_quantities :: "order_row \<Rightarrow> bool" where
  "valid_quantities row =
    (case (parseInteger (ow_quantity row), parseInteger (ow_filled row)) of
       (Some q, Some f) \<Rightarrow> 0 < q \<and> 0 \<le> f \<and> f \<le> q | _ \<Rightarrow> False)"

definition validDomesticExecutionRow :: "order_row \<Rightarrow> bool" where
  "validDomesticExecutionRow row \<longleftrightarrow> \<not> isNonemptyRow row \<or>
    (nonemptyString (ow_orderNo row) \<noteq> None \<and> nonemptyString (ow_stock row) \<noteq> None \<and> valid_side row \<and> valid_quantities row \<and>
     isValidKisCalendarDate (ow_orderDate row) \<and> isValidKisTime (ow_orderTime row))"

definition known_exchange :: "string option \<Rightarrow> bool" where
  "known_exchange e = (case e of None \<Rightarrow> False | Some x \<Rightarrow> OVERSEAS_ORDER_TR_IDS (to_upper x) \<noteq> None)"

definition validOverseasExecutionRow :: "order_row \<Rightarrow> bool" where
  "validOverseasExecutionRow row \<longleftrightarrow> \<not> isNonemptyRow row \<or>
    (nonemptyString (ow_orderNo row) \<noteq> None \<and> nonemptyString (ow_stock row) \<noteq> None \<and> valid_side row \<and>
     known_exchange (nonemptyString (ow_exchange row)) \<and> valid_quantities row \<and>
     (case parseOptionalInteger (ow_remaining row) of
        Malformed \<Rightarrow> False | Absent \<Rightarrow> True
      | Given n \<Rightarrow> n \<le> the (parseInteger (ow_quantity row)) \<and> the (parseInteger (ow_filled row)) + n \<le> the (parseInteger (ow_quantity row))) \<and>
     isValidKisCalendarDate (ow_orderDate row) \<and> isValidKisTime (ow_orderTime row))"

definition rejectedReason :: "order_row \<Rightarrow> string option" where
  "rejectedReason row =
    (let name = trim (field_text (ow_reasonName row)); code = trim (field_text (ow_reasonCode row)) in
     if name \<noteq> [] \<and> code \<noteq> [] then Some (name @ '' (rjct_rson='' @ code @ '')'')
     else if name \<noteq> [] then Some name else if code \<noteq> [] then Some code else None)"

definition is_text :: "field \<Rightarrow> bool" where
  "is_text v = (case v of FText _ \<Rightarrow> True | _ \<Rightarrow> False)"

definition normalizeDomesticRejection :: "order_row \<Rightarrow> rejection_state \<times> bool option \<times> string option" where
  "normalizeDomesticRejection row =
    (case rejectedReason row of Some r \<Rightarrow> (REJECTED_BY_BROKER, Some True, Some r)
     | None \<Rightarrow> (case ow_rejectedQuantity row of
         Some n \<Rightarrow> if isFinite n \<and> n \<ge> Fin 0 then (if n > Fin 0 then (REJECTED_BY_BROKER, Some True, None) else (NOT_REJECTED, Some False, None))
           else (REJECTION_UNKNOWN, None, None)
       | None \<Rightarrow> (REJECTION_UNKNOWN, None, None)))"

definition normalizeOverseasRejection :: "order_row \<Rightarrow> rejection_state \<times> bool option \<times> string option" where
  "normalizeOverseasRejection row =
    (case rejectedReason row of Some r \<Rightarrow> (REJECTED_BY_BROKER, Some True, Some r)
     | None \<Rightarrow> if is_text (ow_reasonName row) \<or> is_text (ow_reasonCode row) then (NOT_REJECTED, Some False, None)
         else (REJECTION_UNKNOWN, None, None))"

definition side_of :: "order_row \<Rightarrow> side" where
  "side_of row = (if trim (field_text (ow_side row)) = ''01'' then SELL else BUY)"

definition listed_of :: "order_row \<Rightarrow> string option \<Rightarrow> int \<Rightarrow> rejection_state \<times> bool option \<times> string option \<Rightarrow> listed_order" where
  "listed_of row exchange remaining rejection =
    (case rejection of (state, rejected, reason) \<Rightarrow>
     \<lparr>bo_orderNo = trim (field_text (ow_orderNo row)), bo_stockCode = trim (field_text (ow_stock row)), bo_side = side_of row,
       bo_filledQuantity = Fin (of_int (the (parseInteger (ow_filled row)))), bo_remainingQuantity = Fin (of_int remaining),
       bo_filledPrice = ow_filledPrice row, bo_exchangeCode = exchange, bo_orderDate = Some (field_text (ow_orderDate row)),
       bo_orderTime = Some (field_text (ow_orderTime row)), bo_rejected = rejected, bo_rejectedReason = reason,
       lo_orderQuantity = Fin (of_int (the (parseInteger (ow_quantity row)))), lo_orderPrice = ow_orderPrice row,
       lo_rejectionState = Some state\<rparr>)"

definition unfilled_part :: "order_row \<Rightarrow> int" where
  "unfilled_part row = max 0 (the (parseInteger (ow_quantity row)) - the (parseInteger (ow_filled row)))"

definition domesticExecution :: "order_row \<Rightarrow> listed_order" where
  "domesticExecution row = listed_of row (Some ''KRX'') (unfilled_part row) (normalizeDomesticRejection row)"

definition overseasExecution :: "order_row \<Rightarrow> listed_order" where
  "overseasExecution row = listed_of row (Some (field_text (ow_exchange row)))
     (case parseOptionalInteger (ow_remaining row) of Given n \<Rightarrow> n | _ \<Rightarrow> unfilled_part row) (normalizeOverseasRejection row)"

section \<open>Lists of executions and of open orders at KIS\<close>

text \<open>A page's rows are checked as it arrives; one malformed row fails the whole reading.\<close>

definition checked :: "('r \<Rightarrow> bool) \<Rightarrow> (string \<times> string \<Rightarrow> string + 'r page) \<Rightarrow> string \<times> string \<Rightarrow> string + 'r page" where
  "checked valid fetch k =
    (case fetch k of Inl e \<Rightarrow> Inl e
     | Inr p \<Rightarrow> (case hp_rows p of
         Some rows \<Rightarrow> if list_all valid rows then Inr p else Inl ''Invalid order row''
       | None \<Rightarrow> Inr p))"

definition row_key :: "order_row \<Rightarrow> string \<Rightarrow> string" where
  "row_key row exchange = join_with ''|'' [trim (field_text (ow_orderDate row)), exchange, trim (field_text (ow_orderNo row))]"

definition getDomesticOrderExecutions :: "(string \<times> string \<Rightarrow> string + order_row page) \<Rightarrow> string + listed_order list" where
  "getDomesticOrderExecutions fetch =
    map_sum id (\<lambda>rows. map domesticExecution (filter isNonemptyRow rows))
      (paginate (checked validDomesticExecutionRow fetch) (\<lambda>row. row_key row ''KRX''))"

definition shiftKisCalendarDate :: "string \<Rightarrow> int \<Rightarrow> string + string" where
  "shiftKisCalendarDate v days =
    (if \<not> isValidBrokerOrderDate (Some v) then Inl (''Invalid KIS calendar date: '' @ v)
     else Inr (without CHR ''-'' (isoDate (utc (number_of (take 4 v)) (number_of (take 2 (drop 4 v))) (number_of (drop 6 v)) 0 0 0 +
       days * 86400000))))"

text \<open>Foreign orders are asked from the day before, as their dates are those of the exchange.\<close>

definition getOverseasOrderExecutions :: "(string \<Rightarrow> string \<Rightarrow> string \<times> string \<Rightarrow> string + order_row page) \<Rightarrow> string \<Rightarrow> string \<Rightarrow>
    string + listed_order list" where
  "getOverseasOrderExecutions fetch startDate endDate =
    (case shiftKisCalendarDate startDate (- 1) of Inl e \<Rightarrow> Inl e
     | Inr apiStartDate \<Rightarrow>
         if \<not> isValidBrokerOrderDate (Some endDate) then Inl (''Invalid KIS calendar date: '' @ endDate)
         else map_sum id (\<lambda>rows. map overseasExecution (filter isNonemptyRow rows))
           (paginate (checked validOverseasExecutionRow (fetch apiStartDate endDate)) (\<lambda>row. row_key row (trim (field_text (ow_exchange row))))))"

text \<open>Open orders: the quantity is the part that can still be filled, the price the order's.\<close>

definition validDomesticUnfilledRow :: "order_row \<Rightarrow> bool" where
  "validDomesticUnfilledRow row \<longleftrightarrow> \<not> isNonemptyRow row \<or> parseInteger (ow_remaining row) = Some 0 \<or>
    ((case parseInteger (ow_remaining row) of None \<Rightarrow> False | Some n \<Rightarrow> 0 \<le> n) \<and> nonemptyString (ow_orderNo row) \<noteq> None \<and>
     nonemptyString (ow_stock row) \<noteq> None \<and> valid_side row)"

definition row_exchange :: "string \<Rightarrow> order_row \<Rightarrow> string" where
  "row_exchange queried row = or_str (Some (to_upper (trim (field_text (ow_exchange row))))) queried"

definition validOverseasUnfilledRow :: "string \<Rightarrow> order_row \<Rightarrow> bool" where
  "validOverseasUnfilledRow queried row \<longleftrightarrow> \<not> isNonemptyRow row \<or> parseInteger (ow_remaining row) = Some 0 \<or>
    ((case parseInteger (ow_remaining row) of None \<Rightarrow> False | Some n \<Rightarrow> 0 \<le> n) \<and> nonemptyString (ow_orderNo row) \<noteq> None \<and>
     nonemptyString (ow_stock row) \<noteq> None \<and> valid_side row \<and>
     OVERSEAS_ORDER_TR_IDS (or_str (map_option to_upper (nonemptyString (ow_exchange row))) queried) \<noteq> None)"

definition positive_rest :: "order_row \<Rightarrow> bool" where
  "positive_rest row = (case parseInteger (ow_remaining row) of None \<Rightarrow> False | Some n \<Rightarrow> 0 < n)"

definition unfilled_of :: "order_row \<Rightarrow> string option \<Rightarrow> unfilled_order" where
  "unfilled_of row exchange = \<lparr>uo_orderNo = trim (field_text (ow_orderNo row)), uo_stockCode = trim (field_text (ow_stock row)),
     uo_side = side_of row, uo_quantity = Fin (of_int (the (parseInteger (ow_remaining row)))),
     uo_price = or_opt (ow_orderPrice row) (Fin 0), uo_exchangeCode = exchange\<rparr>"

definition getDomesticUnfilledOrders :: "(string \<times> string \<Rightarrow> string + order_row page) \<Rightarrow> string + unfilled_order list" where
  "getDomesticUnfilledOrders fetch =
    map_sum id (\<lambda>rows. map (\<lambda>row. unfilled_of row None) (filter positive_rest rows))
      (paginate (checked validDomesticUnfilledRow fetch) (\<lambda>row. ''KRX|'' @ trim (field_text (ow_orderNo row))))"

fun collect_exchanges :: "(string \<Rightarrow> string \<times> string \<Rightarrow> string + order_row page) \<Rightarrow> string list \<Rightarrow> (order_row \<times> string) list \<Rightarrow>
    string + (order_row \<times> string) list" where
  "collect_exchanges fetch [] rows = Inr rows"
| "collect_exchanges fetch (e # es) rows =
    (case paginate (checked (validOverseasUnfilledRow e) (fetch e)) (\<lambda>row. row_exchange e row @ ''|'' @ trim (field_text (ow_orderNo row))) of
       Inl x \<Rightarrow> Inl x | Inr new \<Rightarrow> collect_exchanges fetch es (rows @ map (\<lambda>row. (row, row_exchange e row)) new))"

definition getOverseasUnfilledOrders :: "(string \<Rightarrow> string \<times> string \<Rightarrow> string + order_row page) \<Rightarrow> string + unfilled_order list" where
  "getOverseasUnfilledOrders fetch =
    map_sum id (\<lambda>rows. foldl (add_row (\<lambda>o'. coalesce (uo_exchangeCode o') [] @ ''|'' @ uo_orderNo o')) []
        (map (\<lambda>(row, e). unfilled_of row (Some e)) (filter (\<lambda>(row, e). positive_rest row) rows)))
      (collect_exchanges fetch [''NASD'', ''NYSE'', ''AMEX'', ''SEHK'', ''SHAA'', ''SZAA'', ''TKSE'', ''HASE'', ''VNSE''] [])"

section \<open>The whole list\<close>

text \<open>Pages as they follow each other, from the first to the one that has no successor.\<close>

fun chained :: "(string \<times> string \<Rightarrow> string + 'r page) \<Rightarrow> string \<times> string \<Rightarrow> 'r page list \<Rightarrow> bool" where
  "chained fetch k [] = False"
| "chained fetch k [p] = (fetch k = Inr p \<and> hp_rows p \<noteq> None \<and> tr_cont p \<noteq> None \<and> \<not> continues p)"
| "chained fetch k (p # q # ps) = (fetch k = Inr p \<and> hp_rows p \<noteq> None \<and> continues p \<and>
    (case (optionalString (hp_fk p), optionalString (hp_nk p)) of (Some fk, Some nk) \<Rightarrow> chained fetch (fk, nk) (q # ps) | _ \<Rightarrow> False))"

definition page_rows :: "'r page list \<Rightarrow> 'r list" where
  "page_rows ps = concat (map (\<lambda>p. coalesce (hp_rows p) []) ps)"

lemma paginate_from_chained:
  "paginate_from fetch key left k visited rows = Inr out \<Longrightarrow>
    \<exists>ps. chained fetch k ps \<and> length ps \<le> Suc left \<and> out = foldl (add_row key) rows (page_rows ps)"
proof (induction left arbitrary: k visited rows)
  case 0
  then obtain p new where p: "fetch k = Inr p" "hp_rows p = Some new" "tr_cont p \<noteq> None" "\<not> continues p" "out = foldl (add_row key) rows new"
    by (subst (asm) paginate_from.simps) (auto simp: Let_def split: sum.splits option.splits if_splits)
  then show ?case by (intro exI [of _ "[p]"]) (simp add: page_rows_def)
next
  case (Suc left)
  then obtain p new c where p: "fetch k = Inr p" "hp_rows p = Some new" "tr_cont p = Some c"
    and r: "\<not> continues p \<and> out = foldl (add_row key) rows new \<or>
      continues p \<and> (\<exists>fk nk. optionalString (hp_fk p) = Some fk \<and> optionalString (hp_nk p) = Some nk \<and>
        paginate_from fetch key left (fk, nk) ((c, fk, nk) # visited) (foldl (add_row key) rows new) = Inr out)"
    by (subst (asm) (2) paginate_from.simps) (auto simp: Let_def split: sum.splits option.splits if_splits)
  from r show ?case
  proof
    assume "\<not> continues p \<and> out = foldl (add_row key) rows new"
    then show ?case using p by (intro exI [of _ "[p]"]) (simp add: page_rows_def)
  next
    assume "continues p \<and> (\<exists>fk nk. optionalString (hp_fk p) = Some fk \<and> optionalString (hp_nk p) = Some nk \<and>
        paginate_from fetch key left (fk, nk) ((c, fk, nk) # visited) (foldl (add_row key) rows new) = Inr out)"
    then obtain fk nk where c: "continues p" "optionalString (hp_fk p) = Some fk" "optionalString (hp_nk p) = Some nk"
      "paginate_from fetch key left (fk, nk) ((c, fk, nk) # visited) (foldl (add_row key) rows new) = Inr out" by blast
    from Suc.IH [OF c(4)] obtain ps where ps: "chained fetch (fk, nk) ps" "length ps \<le> Suc left"
      "out = foldl (add_row key) (foldl (add_row key) rows new) (page_rows ps)" by blast
    then obtain q qs where "ps = q # qs" by (cases ps) auto
    then show ?case using p c ps by (intro exI [of _ "p # ps"]) (simp add: page_rows_def)
  qed
qed

lemma add_rows:
  assumes "distinct (map key rows)"
  shows "distinct (map key (foldl (add_row key) rows new)) \<and>
    set (map key (foldl (add_row key) rows new)) = set (map key rows) \<union> set (map key new) \<and>
    set (foldl (add_row key) rows new) \<subseteq> set rows \<union> set new"
  using assms
proof (induction new arbitrary: rows)
  case (Cons x new)
  then have "distinct (map key (add_row key rows x))" by (simp add: add_row_def)
  from Cons.IH [OF this] show ?case by (auto simp: add_row_def split: if_splits)
qed simp

lemma paginate_chained:
  assumes "paginate fetch key = Inr out"
  shows "\<exists>ps. chained fetch ([], []) ps \<and> length ps \<le> MAX_ORDER_HISTORY_PAGES \<and> distinct (map key out) \<and>
    set (map key out) = set (map key (page_rows ps)) \<and> set out \<subseteq> set (page_rows ps)"
proof -
  obtain ps where "chained fetch ([], []) ps" "length ps \<le> MAX_ORDER_HISTORY_PAGES" "out = foldl (add_row key) [] (page_rows ps)"
    using paginate_from_chained assms unfolding paginate_def by (fastforce simp: MAX_ORDER_HISTORY_PAGES_def)
  then show ?thesis using add_rows [of key "[]" "page_rows ps"] by (intro exI [of _ ps]) simp
qed

text \<open>
  (C14) A list of orders that is answered at all is the whole list: it comes from at most a hundred pages, each
  asked for with the continuation of the one before it, up to a page that says it has no successor; every row
  of these pages is in the list, by its identity, no identity is there twice, and nothing else is.
\<close>

theorem history_complete:
  assumes "paginate fetch key = Inr out"
  shows "\<exists>ps. chained fetch ([], []) ps \<and> length ps \<le> 100 \<and> distinct (map key out) \<and>
    set (map key out) = set (map key (page_rows ps)) \<and> set out \<subseteq> set (page_rows ps)"
  using paginate_chained [OF assms] by (simp add: MAX_ORDER_HISTORY_PAGES_def)

section \<open>What is listed of an order\<close>

lemma checked_rows: "chained (checked valid fetch) k ps \<Longrightarrow> list_all valid (page_rows ps)"
proof (induction "checked valid fetch" k ps rule: chained.induct)
  case (2 k p)
  then show ?case by (auto simp: checked_def page_rows_def split: sum.splits option.splits if_splits)
next
  case (3 k p q ps)
  then have "list_all valid (page_rows (q # ps))" by (auto split: option.splits)
  moreover have "list_all valid (coalesce (hp_rows p) [])"
    using 3(2) by (auto simp: checked_def split: sum.splits option.splits if_splits)
  ultimately show ?case by (simp add: page_rows_def)
qed simp

lemma paginate_checked:
  assumes "paginate (checked valid fetch) key = Inr rows" "row \<in> set rows"
  shows "valid row"
proof -
  obtain ps where ps: "chained (checked valid fetch) ([], []) ps" "set rows \<subseteq> set (page_rows ps)"
    using paginate_chained [OF assms(1)] by blast
  then show ?thesis using checked_rows [OF ps(1)] assms(2) by (auto simp: list_all_iff)
qed

definition wellformed_execution :: "listed_order \<Rightarrow> bool" where
  "wellformed_execution e \<longleftrightarrow>
    (\<exists>q f r :: int. lo_orderQuantity e = Fin (of_int q) \<and> bo_filledQuantity e = Fin (of_int f) \<and> bo_remainingQuantity e = Fin (of_int r) \<and>
      0 < q \<and> 0 \<le> f \<and> f + r \<le> q \<and> q \<le> MAX_SAFE_INTEGER) \<and>
    bo_orderNo e \<noteq> [] \<and> bo_stockCode e \<noteq> [] \<and> isValidBrokerOrderDate (bo_orderDate e)"

lemma parseInteger_bound: "parseInteger v = Some n \<Longrightarrow> n \<le> MAX_SAFE_INTEGER"
  by (auto simp: parseInteger_def Let_def split: field.splits jsnum.splits if_splits)

lemma listed_fields:
  "lo_orderQuantity (listed_of row exchange n rejection) = Fin (of_int (the (parseInteger (ow_quantity row))))"
  "bo_filledQuantity (listed_of row exchange n rejection) = Fin (of_int (the (parseInteger (ow_filled row))))"
  "bo_remainingQuantity (listed_of row exchange n rejection) = Fin (of_int n)"
  "bo_orderNo (listed_of row exchange n rejection) = trim (field_text (ow_orderNo row))"
  "bo_stockCode (listed_of row exchange n rejection) = trim (field_text (ow_stock row))"
  "bo_orderDate (listed_of row exchange n rejection) = Some (field_text (ow_orderDate row))"
  by (simp_all add: listed_of_def split: prod.splits)

lemma listed_wellformed:
  assumes "valid_quantities row" "the (parseInteger (ow_filled row)) + n \<le> the (parseInteger (ow_quantity row))"
    and "nonemptyString (ow_orderNo row) \<noteq> None" "nonemptyString (ow_stock row) \<noteq> None" "isValidKisCalendarDate (ow_orderDate row)"
  shows "wellformed_execution (listed_of row exchange n rejection)"
proof -
  obtain q f where q: "parseInteger (ow_quantity row) = Some q" "parseInteger (ow_filled row) = Some f" "0 < q" "0 \<le> f"
    using assms(1) by (auto simp: valid_quantities_def split: option.splits)
  have "trim (field_text (ow_orderNo row)) \<noteq> []" "trim (field_text (ow_stock row)) \<noteq> []"
    using assms(3,4) by (auto simp: nonemptyString_def optionalString_def field_text_def split: field.splits if_splits)
  moreover have "isValidBrokerOrderDate (Some (field_text (ow_orderDate row)))"
    using assms(5) by (auto simp: isValidKisCalendarDate_def field_text_def split: field.splits)
  moreover have "\<exists>q' f' r :: int. Fin (of_int q) = Fin (of_int q') \<and> Fin (of_int f) = Fin (of_int f') \<and> Fin (of_int n) = Fin (of_int r) \<and>
      0 < q' \<and> 0 \<le> f' \<and> f' + r \<le> q' \<and> q' \<le> MAX_SAFE_INTEGER"
    by (rule exI [of _ q], rule exI [of _ f], rule exI [of _ n]) (use q assms(2) parseInteger_bound [OF q(1)] in simp)
  ultimately show ?thesis unfolding wellformed_execution_def listed_fields q(1,2) option.sel by blast
qed

lemma map_sum_Inr: "map_sum id f x = Inr y \<longleftrightarrow> (\<exists>z. x = Inr z \<and> y = f z)"
  by (cases x) auto

text \<open>
  What KIS lists of an order adds up: the quantities are whole numbers that a number holds exactly, the
  filled and the remaining part never exceed what was ordered, and the order has a number, a stock and a date
  of the calendar; a page with a row for which this fails makes the whole reading fail.
\<close>

lemma executions_add_up:
  assumes "getDomesticOrderExecutions fetch = Inr domestic" "getOverseasOrderExecutions fetch' startDate endDate = Inr overseas"
    and "e \<in> set domestic \<union> set overseas"
  shows "wellformed_execution e"
proof -
  from assms(3) consider "e \<in> set domestic" | "e \<in> set overseas" by blast
  then show ?thesis
  proof cases
    case 1
    then obtain rows row where row: "paginate (checked validDomesticExecutionRow fetch) (\<lambda>row. row_key row ''KRX'') = Inr rows"
      "row \<in> set rows" "e = domesticExecution row" "isNonemptyRow row"
      using assms(1) by (auto simp: getDomesticOrderExecutions_def map_sum_Inr)
    have "validDomesticExecutionRow row" by (rule paginate_checked [OF row(1,2)])
    then show ?thesis unfolding row(3) domesticExecution_def using row(4)
      by (intro listed_wellformed) (auto simp: validDomesticExecutionRow_def unfilled_part_def valid_quantities_def split: option.splits)
  next
    case 2
    then obtain start rows row where row: "paginate (checked validOverseasExecutionRow (fetch' start endDate))
        (\<lambda>row. row_key row (trim (field_text (ow_exchange row)))) = Inr rows" "row \<in> set rows" "e = overseasExecution row" "isNonemptyRow row"
      using assms(2) by (auto simp: getOverseasOrderExecutions_def map_sum_Inr split: sum.splits if_splits)
    have "validOverseasExecutionRow row" by (rule paginate_checked [OF row(1,2)])
    then show ?thesis unfolding row(3) overseasExecution_def using row(4)
      by (intro listed_wellformed)
        (auto simp: validOverseasExecutionRow_def unfilled_part_def valid_quantities_def split: option.splits optional_integer.splits)
  qed
qed

section \<open>Orders of Toss\<close>

definition MAX_ORDER_PAGES :: nat where "MAX_ORDER_PAGES = 100"

text \<open>A quantity or a price is what \<open>Number\<close> reads; a price may be null.\<close>

record toss_row =
  ts_orderId :: "string option"
  ts_symbol :: "string option"
  ts_side :: string
  ts_status :: string
  ts_quantity :: jsnum
  ts_filled :: jsnum
  ts_price :: "jsnum option"
  ts_filledPrice :: "jsnum option"
  ts_currency :: string
  ts_orderedAt :: string

datatype toss_status = TFilled | TPartial | TPending | TCancelled | TFailed

definition mapStatus :: "string \<Rightarrow> string + toss_status" where
  "mapStatus status =
    (if status = ''FILLED'' then Inr TFilled
     else if status = ''PARTIAL_FILLED'' then Inr TPartial
     else if status \<in> set [''PENDING'', ''PENDING_CANCEL'', ''PENDING_REPLACE''] then Inr TPending
     else if status = ''CANCELED'' then Inr TCancelled
     else if status = ''REJECTED'' then Inr TFailed
     else if status = ''REPLACED'' then Inr TCancelled
     else Inl (''Unsupported Toss order status: '' @ status))"

text \<open>\<open>yyyy-mm-ddThh:mm:ss\<close> at the front of a text, taken as it stands.\<close>

definition orderTimestamp :: "string \<Rightarrow> string + string \<times> string" where
  "orderTimestamp v =
    (let y = take 4 v; m = take 2 (drop 5 v); d = take 2 (drop 8 v); h = take 2 (drop 11 v); mi = take 2 (drop 14 v); s = take 2 (drop 17 v) in
     if digits 4 y \<and> digits 2 m \<and> digits 2 d \<and> digits 2 h \<and> digits 2 mi \<and> digits 2 s \<and>
       take 1 (drop 4 v) = ''-'' \<and> take 1 (drop 7 v) = ''-'' \<and> take 1 (drop 10 v) = ''T'' \<and> take 1 (drop 13 v) = '':'' \<and> take 1 (drop 16 v) = '':''
     then Inr (y @ m @ d, h @ mi @ s) else Inl ''Invalid Toss order timestamp'')"

record toss_execution = listed_order +
  te_status :: toss_status

definition exchangeCode_of :: "string \<Rightarrow> string + string" where
  "exchangeCode_of currency =
    (if currency = ''KRW'' then Inr ''KRX'' else if currency = ''USD'' then Inr ''US'' else Inl (''Unsupported Toss order currency: '' @ currency))"

definition readable :: "jsnum option \<Rightarrow> bool" where
  "readable x = (case x of None \<Rightarrow> True | Some v \<Rightarrow> isFinite v)"

definition mapOrder :: "toss_row \<Rightarrow> string + toss_execution" where
  "mapOrder r =
    (case (optionalString (ts_orderId r), optionalString (ts_symbol r)) of
       (None, _) \<Rightarrow> Inl ''Invalid Toss orderId''
     | (Some _, None) \<Rightarrow> Inl ''Invalid Toss order symbol''
     | (Some orderNo, Some stockCode) \<Rightarrow>
         if \<not> isFinite (ts_quantity r) then Inl ''Invalid Toss order quantity''
         else if \<not> isFinite (ts_filled r) then Inl ''Invalid Toss filled quantity''
         else if ts_quantity r < Fin 0 \<or> ts_filled r < Fin 0 \<or> ts_filled r > ts_quantity r then Inl ''Invalid Toss order quantities''
         else if ts_side r \<noteq> ''BUY'' \<and> ts_side r \<noteq> ''SELL'' then Inl ''Invalid Toss order side''
         else (case (mapStatus (ts_status r), orderTimestamp (ts_orderedAt r)) of
             (Inl e, _) \<Rightarrow> Inl e
           | (Inr _, Inl e) \<Rightarrow> Inl e
           | (Inr status, Inr (date, time)) \<Rightarrow>
               if \<not> readable (ts_price r) then Inl ''Invalid Toss order price''
               else if \<not> readable (ts_filledPrice r) then Inl ''Invalid Toss filled price''
               else case exchangeCode_of (ts_currency r) of
                   Inl e \<Rightarrow> Inl e
                 | Inr exchange \<Rightarrow> Inr
                     \<lparr>bo_orderNo = orderNo, bo_stockCode = stockCode, bo_side = (if ts_side r = ''BUY'' then BUY else SELL),
                       bo_filledQuantity = ts_filled r,
                       bo_remainingQuantity = (if status \<in> {TPending, TPartial} then max_num (Fin 0) (ts_quantity r - ts_filled r) else Fin 0),
                       bo_filledPrice = ts_filledPrice r, bo_exchangeCode = Some exchange, bo_orderDate = Some date, bo_orderTime = Some time,
                       bo_rejected = Some (status = TFailed), bo_rejectedReason = (if status = TFailed then Some ''Toss order rejected'' else None),
                       lo_orderQuantity = ts_quantity r, lo_orderPrice = ts_price r,
                       lo_rejectionState = Some (if status = TFailed then REJECTED_BY_BROKER else NOT_REJECTED), te_status = status\<rparr>))"

record toss_page =
  tp_orders :: "toss_row list"
  tp_hasNext :: bool
  tp_nextCursor :: "string option"

text \<open>An answer that is no list of orders is an error as well.\<close>

fun read_pages :: "(string option \<Rightarrow> string + toss_page) \<Rightarrow> nat \<Rightarrow> string option \<Rightarrow> string list \<Rightarrow> toss_row list \<Rightarrow> string + toss_row list" where
  "read_pages fetch 0 cursor seen orders = Inl ''Toss order-list exceeded 100 pages''"
| "read_pages fetch (Suc n) cursor seen orders =
    (case fetch cursor of
       Inl e \<Rightarrow> Inl e
     | Inr p \<Rightarrow>
         if \<not> tp_hasNext p then Inr (orders @ tp_orders p)
         else (case optionalString (tp_nextCursor p) of
             None \<Rightarrow> Inl ''Invalid Toss order-list continuation''
           | Some c \<Rightarrow> if c \<in> set seen then Inl ''Invalid Toss order-list continuation''
               else read_pages fetch n (Some c) (c # seen) (orders @ tp_orders p)))"

definition readOrders :: "(string option \<Rightarrow> string + toss_page) \<Rightarrow> string + toss_row list" where
  "readOrders fetch = read_pages fetch MAX_ORDER_PAGES None [] []"

definition matchesMarket :: "market \<Rightarrow> toss_row \<Rightarrow> bool" where
  "matchesMarket m r \<longleftrightarrow> ts_currency r = (case m of DOMESTIC \<Rightarrow> ''KRW'' | OVERSEAS \<Rightarrow> ''USD'')"

fun map_orders :: "toss_row list \<Rightarrow> string + toss_execution list" where
  "map_orders [] = Inr []"
| "map_orders (r # rs) = (case mapOrder r of Inl e \<Rightarrow> Inl e | Inr x \<Rightarrow> map_sum id (Cons x) (map_orders rs))"

text \<open>A map by order number: a later entry takes the place of an earlier one.\<close>

definition put_order :: "toss_execution list \<Rightarrow> toss_execution \<Rightarrow> toss_execution list" where
  "put_order es x =
    (if bo_orderNo x \<in> set (map bo_orderNo es) then map (\<lambda>e. if bo_orderNo e = bo_orderNo x then x else e) es else es @ [x])"

definition isCanonicalVenue :: "string option \<Rightarrow> bool" where
  "isCanonicalVenue v \<longleftrightarrow> v \<in> {Some ''NASD'', Some ''NYSE'', Some ''AMEX''}"

text \<open>Foreign orders get the venue of their stock; an order whose venue is not known fails the whole reading.\<close>

definition enrich_orders :: "(string \<Rightarrow> string option) \<Rightarrow> market \<Rightarrow> toss_execution list \<Rightarrow> string + toss_execution list" where
  "enrich_orders venue m es =
    (if m \<noteq> OVERSEAS then Inr es
     else if list_all (\<lambda>e. isCanonicalVenue (venue (to_upper (trim (bo_stockCode e))))) es
     then Inr (map (\<lambda>e. e\<lparr>bo_exchangeCode := venue (to_upper (trim (bo_stockCode e)))\<rparr>) es)
     else Inl ''Toss venue resolution failed'')"

definition getTossOrderExecutions :: "(string option \<Rightarrow> string + toss_page) \<Rightarrow> (string option \<Rightarrow> string + toss_page) \<Rightarrow>
    (string \<Rightarrow> string option) \<Rightarrow> market \<Rightarrow> string + toss_execution list" where
  "getTossOrderExecutions fetchOpen fetchClosed venue m =
    (case (readOrders fetchOpen, readOrders fetchClosed) of
       (Inl e, _) \<Rightarrow> Inl e
     | (Inr _, Inl e) \<Rightarrow> Inl e
     | (Inr opened, Inr ended) \<Rightarrow>
         (case map_orders (filter (matchesMarket m) (opened @ ended)) of
            Inl e \<Rightarrow> Inl e
          | Inr es \<Rightarrow> enrich_orders venue m (foldl put_order [] es)))"

definition getTossUnfilledOrders :: "(string option \<Rightarrow> string + toss_page) \<Rightarrow> (string \<Rightarrow> string option) \<Rightarrow> market \<Rightarrow>
    string + unfilled_order list" where
  "getTossUnfilledOrders fetchOpen venue m =
    (case readOrders fetchOpen of Inl e \<Rightarrow> Inl e
     | Inr opened \<Rightarrow>
         (case map_orders (filter (matchesMarket m) opened) of Inl e \<Rightarrow> Inl e
          | Inr es \<Rightarrow> map_sum id (map (\<lambda>e. \<lparr>uo_orderNo = bo_orderNo e, uo_stockCode = bo_stockCode e, uo_side = bo_side e,
                uo_quantity = bo_remainingQuantity e, uo_price = or_opt (lo_orderPrice e) (Fin 0), uo_exchangeCode = bo_exchangeCode e\<rparr>))
              (enrich_orders venue m (filter (\<lambda>e. bo_remainingQuantity e > Fin 0) es))))"

text \<open>
  One order Toss reports in a state the adapter does not know hides every order of that market: as long
  as an open or closed order of the period has been refused its cancellation or its replacement, neither the
  executions nor, when it is open, the open orders can be read, whatever else is listed.
\<close>

lemma one_unknown_state_hides_all:
  assumes "readOrders fetchOpen = Inr opened" "readOrders fetchClosed = Inr ended"
    and "r \<in> set opened \<union> set ended" "matchesMarket m r" "ts_status r \<in> {''CANCEL_REJECTED'', ''REPLACE_REJECTED''}"
  shows "(\<exists>e. getTossOrderExecutions fetchOpen fetchClosed venue m = Inl e) \<and>
    (r \<in> set opened \<longrightarrow> (\<exists>e. getTossUnfilledOrders fetchOpen venue m = Inl e))"
proof -
  have "\<exists>e. mapStatus (ts_status r) = Inl e" using assms(5) by (auto simp: mapStatus_def)
  then have "\<exists>e. mapOrder r = Inl e" by (auto simp: mapOrder_def split: option.splits)
  then have bad: "\<exists>e. map_orders rs = Inl e" if "r \<in> set rs" for rs
    using that by (induction rs) (auto split: sum.splits)
  have "\<exists>e. map_orders (filter (matchesMarket m) (opened @ ended)) = Inl e" using assms(3,4) by (intro bad) auto
  moreover have "\<exists>e. map_orders (filter (matchesMarket m) opened) = Inl e" if "r \<in> set opened" using that assms(4) by (intro bad) simp
  ultimately show ?thesis using assms(1,2) by (auto simp: getTossOrderExecutions_def getTossUnfilledOrders_def)
qed

section \<open>The theorems at concrete inputs\<close>

definition listed_row :: order_row where
  "listed_row = \<lparr>ow_orderDate = FText ''20260708'', ow_exchange = FText ''KRX'', ow_orderNo = FText ''0000117057'', ow_stock = FText ''005930'',
     ow_side = FText ''02'', ow_quantity = FText ''5'', ow_filled = FText ''2'', ow_remaining = FMissing, ow_orderTime = FText ''150506'',
     ow_orderPrice = Some (Fin 70000), ow_filledPrice = None, ow_rejectedQuantity = Some (Fin 0), ow_reasonName = FMissing,
     ow_reasonCode = FMissing, ow_other = False\<rparr>"

definition last_page :: "'r list \<Rightarrow> 'r page" where
  "last_page rows = \<lparr>hp_rows = Some rows, hp_trCont = Some ''D'', hp_fk = None, hp_nk = None\<rparr>"

lemma last_page_texts: "optionalString (Some ''D'') = Some ''D''" "to_upper ''D'' = ''D''" "trim ''0000117057'' = ''0000117057''"
  "trim ''005930'' = ''005930''" "trim ''02'' = ''02''" "trim ''5'' = ''5''" "trim ''2'' = ''2''" "parseTime ''150506'' = Some (15, 5, 6)"
  "trim ''20260708'' = ''20260708''"
  by code_simp+

lemma history_complete_witness: "\<exists>ps. chained (\<lambda>_. Inr (last_page [''a'', ''b''])) ([], []) (ps :: string page list) \<and> length ps \<le> 100"
proof -
  have "paginate (\<lambda>_. Inr (last_page [''a'', ''b''])) id = Inr [''a'', ''b'']"
    by (simp add: paginate_def paginate_from.simps last_page_def tr_cont_def continues_def last_page_texts add_row_def)
  from history_complete [OF this] show ?thesis by blast
qed

lemma listed_row_valid: "isNonemptyRow listed_row" "validDomesticExecutionRow listed_row"
proof -
  show "isNonemptyRow listed_row" by (simp add: isNonemptyRow_def listed_row_def field_given_def last_page_texts)
  have n: "number_of ''2'' = 2" "number_of ''5'' = 5" "is_digit CHR ''2''" "is_digit CHR ''5''"
    by (simp_all add: number_of_def is_digit_def)
  have "isValidBrokerOrderDate (Some ''20260708'')" by (rule pending_dates)
  then show "validDomesticExecutionRow listed_row"
    by (simp add: validDomesticExecutionRow_def listed_row_def nonemptyString_def optionalString_def valid_side_def valid_quantities_def
        parseInteger_def MAX_SAFE_INTEGER_def isValidKisCalendarDate_def isValidKisTime_def last_page_texts n)
qed

lemma executions_add_up_witness:
  "wellformed_execution (domesticExecution listed_row)"
proof -
  have p: "paginate (checked v (\<lambda>_. Inr (last_page [r]))) key = Inr [r]" if "v r" for v key and r :: order_row
    using that by (simp add: paginate_def paginate_from.simps checked_def last_page_def tr_cont_def continues_def last_page_texts add_row_def)
  have e: "paginate (checked v (\<lambda>_. Inr (last_page []))) key = Inr []" for v and key :: "order_row \<Rightarrow> string"
    by (simp add: paginate_def paginate_from.simps checked_def last_page_def tr_cont_def continues_def last_page_texts)
  have d: "isValidBrokerOrderDate (Some ''20260708'')" by (rule pending_dates)
  have "getDomesticOrderExecutions (\<lambda>_. Inr (last_page [listed_row])) = Inr [domesticExecution listed_row]"
    by (simp add: getDomesticOrderExecutions_def p listed_row_valid)
  moreover have "getOverseasOrderExecutions (\<lambda>_ _ _. Inr (last_page [])) ''20260708'' ''20260708'' = Inr []"
    by (simp add: getOverseasOrderExecutions_def shiftKisCalendarDate_def d e)
  ultimately show ?thesis by (rule executions_add_up) simp
qed

definition refused_cancel :: toss_row where
  "refused_cancel = \<lparr>ts_orderId = Some ''u-1'', ts_symbol = Some ''TQQQ'', ts_side = ''BUY'', ts_status = ''CANCEL_REJECTED'',
     ts_quantity = Fin 2, ts_filled = Fin 0, ts_price = Some (Fin 70), ts_filledPrice = None, ts_currency = ''USD'',
     ts_orderedAt = ''2026-07-08T23:31:00+09:00''\<rparr>"

lemma one_unknown_state_hides_all_witness:
  "\<exists>e. getTossOrderExecutions (\<lambda>_. Inr \<lparr>tp_orders = [refused_cancel], tp_hasNext = False, tp_nextCursor = None\<rparr>)
      (\<lambda>_. Inr \<lparr>tp_orders = [refused_cancel\<lparr>ts_status := ''FILLED'', ts_orderId := Some ''u-2''\<rparr>], tp_hasNext = False, tp_nextCursor = None\<rparr>)
      (\<lambda>_. Some ''NASD'') OVERSEAS = Inl e"
proof -
  have "readOrders (\<lambda>_. Inr \<lparr>tp_orders = rs, tp_hasNext = False, tp_nextCursor = None\<rparr>) = Inr rs" for rs
    by (simp add: readOrders_def MAX_ORDER_PAGES_def numeral_eq_Suc)
  from one_unknown_state_hides_all [OF this this, of refused_cancel]
  show ?thesis by (simp add: matchesMarket_def refused_cancel_def)
qed

end
