(* ===== verification/Spec2Isabelle.thy ===== *)
theory Spec2Isabelle
  imports V4Ledger DailyDca Conservative GridReversion TrendFollowing ValueFactor V4Strategy HandlerProgress OrderSafety
    MarketHours FillSafety SignalDispatch InfiniteBuySafety MomentumBreakout RiskManagement MarketAnalysis OrderHistory
begin

text \<open>
  A verification development for the KIS trader back end (\<open>src/trading\<close> and what it uses): the trading
  strategies, the dispatch of their signals, the services that turn a signal into at most one order at a
  broker, the approval of a sell by an administrator, the reconciliation of open orders with the
  broker, and what a confirmed fill does to the state of the strategy.

  \<^bold>\<open>How the program runs, and how the model is cut.\<close> Every minute the orchestrator evaluates each active
  watched stock. A strategy is a function of a snapshot of the stock, the prices and the portfolio; it
  answers with signals or with reasons to skip. The trading service filters the signals of one stock and
  executes each: the order guard admits a signal as a row of the order table under an advisory lock, a
  guarded update claims the row, the broker is called, the answer is recorded. A sell that needs an
  approval waits in a second table until an administrator decides. Beside this run the reconciliation of
  open orders, cancellations, and at start the take-over of what an earlier process left. Each of these
  is an asynchronous function; it is modelled as segments between its awaits, each a function of the
  tables, and the system is the step relation that lets any number of them interleave and lets any of
  them be lost at any point.

  \<^bold>\<open>Numbers, texts, dates.\<close> Every price, amount and quantity is a JavaScript number: \<open>Binary64\<close> rounds an
  exact rational to IEEE 754 double precision by a function that computes, and \<open>JsNumber\<close> adds the
  infinities, NaN and the operators the code uses (\<open>Math.round\<close>, \<open>Math.floor\<close>, \<open>Math.min\<close>, \<open>||\<close>, \<open>??\<close>).
  Nothing is an exact real unless the code makes it one. A text is the list of its UTF-8 bytes. A \<open>Date\<close> is
  its epoch time in milliseconds (\<open>JsDate\<close>). Decimal columns, which the code reads through \<open>Number\<close>, are
  such numbers as well. A reason or a message is a constructor with the numbers it shows, except where the code
  compares its text.

  \<^bold>\<open>The parts.\<close>
    \<^item> \<open>Prelude\<close>: enums, optional values, thrown errors as a sum, list and text helpers.
    \<^item> \<open>V4Math\<close> (\<open>strategy/infinite-buy-v4-math.util.ts\<close>) and \<open>V4Ledger\<close> (\<open>infinite-buy-v4-ledger.util.ts\<close>): the
      arithmetic of the V4 strategy and its cash ledger; rounding to a cent, the star point, the daily budget,
      the turn counter, a fill applied to the ledger.
    \<^item> \<open>StrategyTypes\<close> (\<open>src/trading/types\<close>) and \<open>StrategyContract\<close>: what a strategy reads and answers, and the
      contract of the strategies as locales, interpreted on every strategy that meets it: signals are for
      the watched stock, of a positive quantity, sell no more than is held, and need a price.
    \<^item> \<open>DailyDca\<close>, \<open>Conservative\<close>, \<open>GridReversion\<close>, \<open>TrendFollowing\<close>, \<open>ValueFactor\<close>, \<open>V4Strategy\<close>,
      \<open>InfiniteBuy\<close> with \<open>InfiniteBuySafety\<close>, and \<open>MomentumBreakout\<close>: one theory for each file of
      \<open>src/trading/strategy\<close>; \<open>evaluateStock\<close> is modelled whole in each.
    \<^item> \<open>MarketHours\<close>: trading hours in Korean time, open markets, the minute a strategy runs
      (\<open>kis-config.types.ts\<close>, \<open>market-state-sync.service.ts\<close>, \<open>trading-orchestrator.service.ts\<close>).
    \<^item> \<open>SignalDispatch\<close> (\<open>trading.service.ts\<close>, \<open>executePerStockStrategy\<close>): crossing buys held back, the order of
      submission, the carry of a quota decided; then the orders of one evaluation run one after the other
      through the handlers of \<open>OrderExecution\<close>.
    \<^item> \<open>StrategyState\<close>, \<open>QuotaCarry\<close>, \<open>FillHandling\<close> with \<open>FillSafety\<close> (\<open>trading.service.ts\<close>,
      \<open>trading-order-reconciliation.service.ts\<close>): the JSON column with the state of a strategy, the quota
      carried over to another day, and what a fill or a failure does to that state.
    \<^item> \<open>OrderStore\<close> (\<open>prisma/schema.prisma\<close>), \<open>OrderGuard\<close>, \<open>OrderExecution\<close>, \<open>BrokerContext\<close>, \<open>OrderRecovery\<close>,
      \<open>OrderReconciliation\<close>, \<open>SellApproval\<close>, \<open>SellApprovalWorkflow\<close>: the tables and one theory per order service.
    \<^item> \<open>OrderSystem\<close>: the step relation of all order services together. \<open>OrderTables\<close> (the invariant of the
      order table), \<open>OrderHandlers\<close> (the invariant of the handlers), \<open>OrderSteps\<close> (each step keeps both),
      \<open>OrderSafety\<close> (what follows for every reachable state), \<open>HandlerProgress\<close> (no handler is stuck),
      \<open>ApprovalPairs\<close>, \<open>ApprovalRun\<close>, \<open>ApprovalSafety\<close> (approvals and orders in step).

  \<^bold>\<open>What is shown.\<close> Of every reachable state of the order system: no order is submitted twice, none without
  the checks of the same moment, two unresolved orders never share a key, the fills told to the
  strategies add up to the executed quantity, approvals and their orders stay in step and are decided
  once, and every handler gets to its return. Of a fill: the V4 holding follows the booked fills, and the write of
  an evaluation commutes with the one of a fill. Of the signals of one stock: no submitted buy crosses a
  sell, and at most one order per side is admitted. Of the carried quota: at most one day's amount is
  added per day. Of the strategies: the guards of their orders, what they sell and when, the amounts
  they may spend. The findings are theorems too: they state what the code does where it differs from
  what its comments or documents say.

  \<^bold>\<open>Fuel and bounds.\<close> The model has no fuel: every loop of the code is over a list. Quantities of shares are
  bounded by \<open>2 ^ 53\<close> where exactness of a whole number matters, which the theorems state.

  \<^bold>\<open>Not modelled.\<close> HTTP clients of the brokers and of market data (what the code relies on appears as
  arguments), Slack, the text of messages and logs, GraphQL resolvers, authentication, the web client,
  screening, simulation and backtest; PostgreSQL itself (the lock and the guarded updates are taken at their
  documented meaning); and hash functions, which are arguments.
\<close>

end
